(* ===== verification/Prelude.thy ===== *)
theory Prelude
  imports Main "HOL-Library.List_Lexorder" "HOL-Library.Char_ord" "HOL-Library.Product_Lexorder"
begin

text \<open>
  Shared vocabulary of the development.

  The program is TypeScript.  A function that may throw returns a value of \<open>'a result\<close>,
  that is \<open>error + 'a\<close>, with \<open>Inl\<close> for the thrown error.  A field of type \<open>T | null\<close> is an
  option.  A JavaScript number that the code requires to be an integer is an \<open>int\<close>; where the
  code itself tests \<open>Number.isInteger\<close> the value is a \<open>js_number\<close>, which is a whole number or
  any other double (a fraction, an infinity or NaN).  A string is a list of 8-bit code units:
  the code's string tests are about ASCII and Latin-1 characters, and \<open>length\<close> counts code
  units as JavaScript does.  The order of strings is the library's lexicographic order of
  lists over the order of characters by code, which is JavaScript's comparison by code unit.  A value of type \<open>Record<string, unknown>\<close> is a \<open>jval\<close>, an object
  being a list of its own properties in insertion order.
\<close>

subsection \<open>Results: returning or throwing\<close>

datatype error =
    TypeError string
  | IllegalTransitionError string string
  | VersionConflictError string int
  | AutonomyAdmissionConflictError string string
  | AdmissionWriteConflictError
  | AdmissionRequiredError string
  | IdempotencyConflictError int
  | SqliteConstraintUnique
  | SqliteConstraintCheck
  | ZodError string
  | ValidationError string string \<comment> \<open>code and message\<close>
  | NamedError string string \<comment> \<open>any other class: its name and the message\<close>
  | PlainError string

type_synonym 'a result = "error + 'a"

named_theorems result_simps "sequencing of results"
named_theorems job_frame "fields an operation of the job state machine leaves alone"

fun rbind :: "'a result \<Rightarrow> ('a \<Rightarrow> 'b result) \<Rightarrow> 'b result" where
  "rbind (Inl e) k = Inl e"
| "rbind (Inr x) k = k x"

definition rthen :: "unit result \<Rightarrow> 'b result \<Rightarrow> 'b result" where
  "rthen m k = rbind m (\<lambda>_. k)"

definition guard :: "bool \<Rightarrow> error \<Rightarrow> unit result" where
  "guard b e = (if b then Inr () else Inl e)"

definition returns :: "'a result \<Rightarrow> bool" where
  "returns r \<longleftrightarrow> (\<exists>x. r = Inr x)"

lemma rthen_simps [simp, result_simps]:
  "rthen (Inl e) k = Inl e" "rthen (Inr u) k = k"
  by (simp_all add: rthen_def)

lemma rbind_eq_Inr [result_simps]: "rbind m k = Inr y \<longleftrightarrow> (\<exists>x. m = Inr x \<and> k x = Inr y)"
  by (cases m) auto

lemma rthen_eq_Inr [result_simps]: "rthen m k = Inr y \<longleftrightarrow> m = Inr () \<and> k = Inr y"
  by (cases m) auto

lemma guard_eq_Inr [simp, result_simps]: "guard b e = Inr u \<longleftrightarrow> b"
  by (simp add: guard_def)

lemma guard_True [simp]: "guard True e = Inr ()" and guard_False [simp]: "guard False e = Inl e"
  by (simp_all add: guard_def)

lemma returns_simps [simp, result_simps]: "returns (Inr x)" "\<not> returns (Inl e)"
  by (simp_all add: returns_def)

lemma returns_rbind [result_simps]:
  "returns (rbind m k) \<longleftrightarrow> (\<exists>x. m = Inr x \<and> returns (k x))"
  by (cases m) auto

lemma returns_rthen [result_simps]: "returns (rthen m k) \<longleftrightarrow> m = Inr () \<and> returns k"
  by (cases m) auto

subsection \<open>JavaScript values\<close>

datatype js_number = Whole int | NotWhole

fun is_integer :: "js_number \<Rightarrow> bool" where
  "is_integer (Whole _) = True"
| "is_integer NotWhole = False"

fun whole :: "js_number \<Rightarrow> int" where
  "whole (Whole n) = n"
| "whole NotWhole = 0"

datatype jval =
    JNull
  | JBool bool
  | JNum int
  | JStr string
  | JList "jval list"
  | JObj "(string \<times> jval) list"

type_synonym js_object = "(string \<times> jval) list"

text \<open>
  Writing one property of an object, or one key of a \<open>Map\<close>: an existing key keeps its place,
  a new one is appended.
\<close>

fun assoc_set :: "'k \<Rightarrow> 'v \<Rightarrow> ('k \<times> 'v) list \<Rightarrow> ('k \<times> 'v) list" where
  "assoc_set k v [] = [(k, v)]"
| "assoc_set k v ((k', v') # ps) = (if k = k' then (k, v) # ps else (k', v') # assoc_set k v ps)"

definition assoc_set_all :: "('k \<times> 'v) list \<Rightarrow> ('k \<times> 'v) list \<Rightarrow> ('k \<times> 'v) list" where
  "assoc_set_all a b = foldl (\<lambda>m (k, v). assoc_set k v m) a b"

text \<open>The literal \<open>{...a, ...b}\<close>.\<close>

definition obj_spread :: "js_object \<Rightarrow> js_object \<Rightarrow> js_object" where
  "obj_spread a b = assoc_set_all a b"

lemma map_of_assoc_set [simp]: "map_of (assoc_set k v ps) = (map_of ps)(k \<mapsto> v)"
  by (induction ps) (auto simp: fun_eq_iff)

lemma keys_assoc_set: "set (map fst (assoc_set k v ps)) = insert k (set (map fst ps))"
  by (induction k v ps rule: assoc_set.induct) (simp_all add: insert_commute)

lemma distinct_assoc_set: "distinct (map fst ps) \<Longrightarrow> distinct (map fst (assoc_set k v ps))"
proof (induction ps)
  case Nil
  then show ?case by simp
next
  case (Cons p ps)
  then show ?case using keys_assoc_set [of k v ps] by (cases p) auto
qed

lemma distinct_assoc_set_all: "distinct (map fst a) \<Longrightarrow> distinct (map fst (assoc_set_all a b))"
  unfolding assoc_set_all_def
  by (induction b arbitrary: a) (auto simp: distinct_assoc_set)

lemma set_assoc_set: "set (assoc_set k v ps) \<subseteq> insert (k, v) (set ps)"
  by (induction k v ps rule: assoc_set.induct) (auto split: if_splits)

lemma set_assoc_set_all: "set (assoc_set_all a b) \<subseteq> set a \<union> set b"
proof (induction b arbitrary: a)
  case Nil
  then show ?case by (simp add: assoc_set_all_def)
next
  case (Cons p b)
  obtain k v where p: "p = (k, v)" by (cases p)
  have "assoc_set_all a (p # b) = assoc_set_all (assoc_set k v a) b"
    by (simp add: assoc_set_all_def p)
  with Cons.IH [of "assoc_set k v a"] set_assoc_set [of k v a] p show ?case by auto
qed

definition jstr_opt :: "string option \<Rightarrow> jval" where
  "jstr_opt v = (case v of None \<Rightarrow> JNull | Some s \<Rightarrow> JStr s)"

definition jint_opt :: "int option \<Rightarrow> jval" where
  "jint_opt v = (case v of None \<Rightarrow> JNull | Some n \<Rightarrow> JNum n)"

text \<open>Truthiness of a \<open>string | null\<close> and of a \<open>number | null\<close>.\<close>

fun truthy_str :: "string option \<Rightarrow> bool" where
  "truthy_str None = False"
| "truthy_str (Some s) = (s \<noteq> [])"

fun truthy_int :: "int option \<Rightarrow> bool" where
  "truthy_int None = False"
| "truthy_int (Some n) = (n \<noteq> 0)"

subsection \<open>Decimal printing\<close>

definition digit_char :: "nat \<Rightarrow> char" where
  "digit_char n = ''0123456789'' ! n"

fun show_nat :: "nat \<Rightarrow> string" where
  "show_nat n = (if n < 10 then [digit_char n] else show_nat (n div 10) @ [digit_char (n mod 10)])"

declare show_nat.simps [simp del]

definition show_int :: "int \<Rightarrow> string" where
  "show_int i = (if i < 0 then CHR ''-'' # show_nat (nat (- i)) else show_nat (nat i))"

fun index_of :: "'a \<Rightarrow> 'a list \<Rightarrow> nat" where
  "index_of x [] = 0"
| "index_of x (y # ys) = (if x = y then 0 else Suc (index_of x ys))"

lemma index_of_nth: "distinct xs \<Longrightarrow> i < length xs \<Longrightarrow> index_of (xs ! i) xs = i"
proof (induction xs arbitrary: i)
  case Nil
  then show ?case by simp
next
  case (Cons x xs)
  then show ?case by (cases i) auto
qed

definition digit_value :: "char \<Rightarrow> nat" where
  "digit_value c = index_of c ''0123456789''"

lemma digit_value_char: "n < 10 \<Longrightarrow> digit_value (digit_char n) = n"
  unfolding digit_value_def digit_char_def by (rule index_of_nth) simp_all

definition read_nat :: "string \<Rightarrow> nat" where
  "read_nat s = foldl (\<lambda>a c. 10 * a + digit_value c) 0 s"

lemma read_show_nat: "read_nat (show_nat n) = n"
proof (induction n rule: show_nat.induct)
  case (1 n)
  show ?case
  proof (cases "n < 10")
    case True
    then show ?thesis by (simp add: show_nat.simps [of n] read_nat_def digit_value_char)
  next
    case False
    then have "read_nat (show_nat n) = 10 * read_nat (show_nat (n div 10)) + n mod 10"
      by (simp add: show_nat.simps [of n] read_nat_def digit_value_char)
    with 1 False show ?thesis by simp
  qed
qed

lemma show_nat_inject [simp]: "show_nat m = show_nat n \<longleftrightarrow> m = n"
  by (metis read_show_nat)

lemma digit_char_in: "n < 10 \<Longrightarrow> digit_char n \<in> set ''0123456789''"
  unfolding digit_char_def by (rule nth_mem) simp

lemma set_show_nat: "set (show_nat n) \<subseteq> set ''0123456789''"
proof (induction n rule: show_nat.induct)
  case (1 n)
  have last: "digit_char (n mod 10) \<in> set ''0123456789''" by (rule digit_char_in) simp
  show ?case
  proof (cases "n < 10")
    case True
    then show ?thesis using digit_char_in [of n] by (simp add: show_nat.simps [of n])
  next
    case False
    with 1 last show ?thesis by (simp add: show_nat.simps [of n])
  qed
qed

lemma set_show_int: "set (show_int i) \<subseteq> insert (CHR ''-'') (set ''0123456789'')"
proof (cases "i < 0")
  case True
  then have "set (show_int i) = insert (CHR ''-'') (set (show_nat (nat (- i))))"
    by (simp only: show_int_def if_True list.set)
  then show ?thesis using insert_mono [OF set_show_nat [of "nat (- i)"]] by (simp only:)
next
  case False
  then have "set (show_int i) = set (show_nat (nat i))" by (simp only: show_int_def if_False)
  then show ?thesis using set_show_nat [of "nat i"] by (blast intro: subset_insertI2)
qed

lemma show_int_no_colon: "CHR '':'' \<notin> set (show_int i)"
proof
  assume "CHR '':'' \<in> set (show_int i)"
  with set_show_int [of i] have "CHR '':'' \<in> insert (CHR ''-'') (set ''0123456789'')" by (rule subsetD)
  then show False by simp
qed

lemma show_int_inject [simp]: "show_int i = show_int j \<longleftrightarrow> i = j"
proof
  assume eq: "show_int i = show_int j"
  have no_minus: "show_nat n \<noteq> CHR ''-'' # w" for n w
  proof
    assume "show_nat n = CHR ''-'' # w"
    then have "CHR ''-'' \<in> set (show_nat n)" by simp
    with set_show_nat [of n] have "CHR ''-'' \<in> set ''0123456789''" by (rule subsetD)
    then show False by simp
  qed
  show "i = j"
  proof (cases "i < 0"; cases "j < 0")
    assume "i < 0" "j < 0"
    with eq have "nat (- i) = nat (- j)" by (simp add: show_int_def)
    with \<open>i < 0\<close> \<open>j < 0\<close> show ?thesis by simp
  next
    assume "\<not> i < 0" "\<not> j < 0"
    with eq have "nat i = nat j" by (simp add: show_int_def)
    with \<open>\<not> i < 0\<close> \<open>\<not> j < 0\<close> show ?thesis by simp
  qed (use eq no_minus in \<open>simp_all add: show_int_def, metis+\<close>)
qed simp

subsection \<open>Strings\<close>

text \<open>
  White space as \<open>String.prototype.trim\<close> and \<open>\s\<close> see it, restricted to 8-bit code units:
  tab to carriage return, space and no-break space.
\<close>

definition js_space :: "char \<Rightarrow> bool" where
  "js_space c \<longleftrightarrow> (let n = (of_char c :: nat) in (9 \<le> n \<and> n \<le> 13) \<or> n = 32 \<or> n = 160)"

definition js_trim :: "string \<Rightarrow> string" where
  "js_trim s = rev (dropWhile js_space (rev (dropWhile js_space s)))"

lemma length_js_trim: "length (js_trim s) \<le> length s"
proof -
  have "length (js_trim s) \<le> length (dropWhile js_space s)"
    unfolding js_trim_def using length_dropWhile_le [of js_space "rev (dropWhile js_space s)"] by simp
  also have "\<dots> \<le> length s" by (rule length_dropWhile_le)
  finally show ?thesis .
qed

text \<open>\<open>toLowerCase\<close> on an 8-bit code unit: the ASCII capitals and the Latin-1 capitals.\<close>

definition js_lower_char :: "char \<Rightarrow> char" where
  "js_lower_char c = (let n = (of_char c :: nat) in
     if (65 \<le> n \<and> n \<le> 90) \<or> (192 \<le> n \<and> n \<le> 222 \<and> n \<noteq> 215) then char_of (n + 32) else c)"

definition js_lower :: "string \<Rightarrow> string" where
  "js_lower s = map js_lower_char s"

definition join_with :: "string \<Rightarrow> string list \<Rightarrow> string" where
  "join_with sep xs = (case xs of [] \<Rightarrow> [] | y # ys \<Rightarrow> y @ concat (map (\<lambda>z. sep @ z) ys))"

definition starts_with :: "string \<Rightarrow> string \<Rightarrow> bool" where
  "starts_with p s \<longleftrightarrow> take (length p) s = p"

subsection \<open>The colon-separated keys\<close>

lemma colon_key_inject:
  assumes "CHR '':'' \<notin> set a" "CHR '':'' \<notin> set b"
  shows "a @ '':'' @ x = b @ '':'' @ y \<longleftrightarrow> a = b \<and> x = y"
proof
  assume eq: "a @ '':'' @ x = b @ '':'' @ y"
  have pre: "takeWhile (\<lambda>c. c \<noteq> CHR '':'') (z @ '':'' @ w) = z" if "CHR '':'' \<notin> set z" for z w
    using that by (induction z) auto
  have "a = b" using pre [OF assms(1), of x] pre [OF assms(2), of y] eq by simp
  with eq show "a = b \<and> x = y" by simp
qed auto

subsection \<open>Lists and options\<close>

lemma distinct_map_filter_sub: "distinct (map f xs) \<Longrightarrow> distinct (map f (filter p xs))"
  by (induction xs) auto

lemma option_case_eq_Some_iff:
  "(case m of None \<Rightarrow> None | Some x \<Rightarrow> f x) = Some y \<longleftrightarrow> (\<exists>x. m = Some x \<and> f x = Some y)"
  by (cases m) auto

subsection \<open>Sorting with a comparator\<close>

text \<open>\<open>Array.prototype.sort\<close> with a comparator is stable.\<close>

fun insert_by :: "('a \<Rightarrow> 'a \<Rightarrow> int) \<Rightarrow> 'a \<Rightarrow> 'a list \<Rightarrow> 'a list" where
  "insert_by cmp x [] = [x]"
| "insert_by cmp x (y # ys) = (if cmp x y \<le> 0 then x # y # ys else y # insert_by cmp x ys)"

definition sort_by :: "('a \<Rightarrow> 'a \<Rightarrow> int) \<Rightarrow> 'a list \<Rightarrow> 'a list" where
  "sort_by cmp xs = foldr (insert_by cmp) xs []"

lemma insert_by_insort: "(\<And>a b. cmp a b \<le> 0 \<longleftrightarrow> f a \<le> f b) \<Longrightarrow> insert_by cmp x xs = insort_key f x xs"
  by (induction xs) simp_all

lemma sort_by_sort_key: "(\<And>a b. cmp a b \<le> 0 \<longleftrightarrow> f a \<le> f b) \<Longrightarrow> sort_by cmp xs = sort_key f xs"
  unfolding sort_by_def sort_key_def by (simp add: insert_by_insort [of cmp f] cong: foldr_cong)

lemma insert_by_facts: "set (insert_by cmp x xs) = insert x (set xs) \<and> length (insert_by cmp x xs) = Suc (length xs)"
  by (induction xs) auto

lemma set_sort_by [simp]: "set (sort_by cmp xs) = set xs"
  unfolding sort_by_def by (induction xs) (auto simp: insert_by_facts)

lemma length_sort_by [simp]: "length (sort_by cmp xs) = length xs"
  unfolding sort_by_def by (induction xs) (auto simp: insert_by_facts)

subsection \<open>Texts and sets of texts\<close>

text \<open>\<open>new Set(values)\<close> keeps the first of equal values, in order.\<close>

fun js_set :: "'a list \<Rightarrow> 'a list" where
  "js_set [] = []"
| "js_set (x # xs) = x # filter (\<lambda>y. y \<noteq> x) (js_set xs)"

lemma set_js_set [simp]: "set (js_set xs) = set xs"
  by (induction xs) auto

lemma distinct_js_set [simp]: "distinct (js_set xs)"
  by (induction xs) auto

text \<open>\<open>split\<close> at a character: the pieces between the separators, one more than there are.\<close>

fun split_at :: "char \<Rightarrow> string \<Rightarrow> string list" where
  "split_at sep [] = [[]]"
| "split_at sep (c # s) =
     (if c = sep then [] # split_at sep s
      else (case split_at sep s of [] \<Rightarrow> [[c]] | p # ps \<Rightarrow> (c # p) # ps))"

definition ends_with :: "string \<Rightarrow> string \<Rightarrow> bool" where
  "ends_with p s \<longleftrightarrow> starts_with (rev p) (rev s)"

end
