(* ===== verification/Js_Regex.thy ===== *)
theory Js_Regex
  imports Prelude
begin

text \<open>
  The part of JavaScript regular expressions the program's patterns use: character classes,
  sequences, alternatives, bounded and unbounded repetition, word boundaries, the anchors and
  the \<open>i\<close> flag.  The patterns have no back references, no lookahead and no captures that are
  read, so \<open>RegExp.prototype.test\<close> depends on the set of end positions only and not on the
  order in which a backtracking matcher tries them: \<open>ends\<close> computes that set, and
  \<open>set_ends\<close> proves it is the one of the declarative semantics \<open>matches\<close>.
\<close>

datatype char_class = CC bool "(char \<times> char) list" \<comment> \<open>negated?, ranges\<close>

datatype regex =
    REps
  | RClass char_class
  | RSeq regex regex
  | RAlt regex regex
  | RRep regex nat "nat option" \<comment> \<open>\<open>{lo,hi}\<close>, \<open>{lo,}\<close>\<close>
  | RWordBoundary
  | RStart
  | REnd

fun in_ranges :: "(char \<times> char) list \<Rightarrow> char \<Rightarrow> bool" where
  "in_ranges [] c = False"
| "in_ranges ((a, b) # rs) c =
     (((of_char a :: nat) \<le> of_char c \<and> (of_char c :: nat) \<le> of_char b) \<or> in_ranges rs c)"

fun in_class :: "char_class \<Rightarrow> char \<Rightarrow> bool" where
  "in_class (CC neg rs) c = (in_ranges rs c \<noteq> neg)"

text \<open>
  The other character that \<open>Canonicalize\<close> of the \<open>i\<close> flag identifies with this one: the other
  case of an ASCII or Latin-1 letter.
\<close>

definition other_case :: "char \<Rightarrow> char" where
  "other_case c = (let n = (of_char c :: nat) in
     if (65 \<le> n \<and> n \<le> 90) \<or> (192 \<le> n \<and> n \<le> 222 \<and> n \<noteq> 215) then char_of (n + 32)
     else if (97 \<le> n \<and> n \<le> 122) \<or> (224 \<le> n \<and> n \<le> 254 \<and> n \<noteq> 247) then char_of (n - 32)
     else c)"

definition class_test :: "bool \<Rightarrow> char_class \<Rightarrow> char \<Rightarrow> bool" where
  "class_test ci cc c = (case cc of CC neg rs \<Rightarrow>
     (in_ranges rs c \<or> (ci \<and> in_ranges rs (other_case c))) \<noteq> neg)"

definition word_ranges :: "(char \<times> char) list" where
  "word_ranges = [(CHR ''a'', CHR ''z''), (CHR ''A'', CHR ''Z''), (CHR ''0'', CHR ''9''), (CHR ''_'', CHR ''_'')]"

definition word_char :: "char \<Rightarrow> bool" where
  "word_char c = in_ranges word_ranges c"

definition word_at :: "string \<Rightarrow> nat \<Rightarrow> bool" where
  "word_at s i = (i < length s \<and> word_char (s ! i))"

definition at_boundary :: "string \<Rightarrow> nat \<Rightarrow> bool" where
  "at_boundary s i \<longleftrightarrow> ((0 < i \<and> word_at s (i - 1)) \<noteq> word_at s i)"

subsection \<open>The matcher\<close>

fun iter_ends :: "(nat \<Rightarrow> nat list) \<Rightarrow> nat \<Rightarrow> nat list \<Rightarrow> nat list" where
  "iter_ends f 0 ps = ps"
| "iter_ends f (Suc n) ps = iter_ends f n (remdups (concat (map f ps)))"

fun grow_ends :: "(nat \<Rightarrow> nat list) \<Rightarrow> nat \<Rightarrow> nat list \<Rightarrow> nat list" where
  "grow_ends f 0 ps = ps"
| "grow_ends f (Suc n) ps = grow_ends f n (remdups (ps @ concat (map f ps)))"

text \<open>
  An unbounded repetition is grown \<open>length s\<close> times: every useful iteration consumes at least
  one character.
\<close>

fun ends :: "bool \<Rightarrow> string \<Rightarrow> regex \<Rightarrow> nat \<Rightarrow> nat list" where
  "ends ci s REps i = [i]"
| "ends ci s (RClass cc) i = (if i < length s \<and> class_test ci cc (s ! i) then [Suc i] else [])"
| "ends ci s (RSeq r1 r2) i = remdups (concat (map (ends ci s r2) (ends ci s r1 i)))"
| "ends ci s (RAlt r1 r2) i = remdups (ends ci s r1 i @ ends ci s r2 i)"
| "ends ci s (RRep r lo hi) i =
     grow_ends (ends ci s r) (case hi of None \<Rightarrow> length s | Some h \<Rightarrow> h - lo)
       (iter_ends (ends ci s r) lo [i])"
| "ends ci s RWordBoundary i = (if at_boundary s i then [i] else [])"
| "ends ci s RStart i = (if i = 0 then [i] else [])"
| "ends ci s REnd i = (if i = length s then [i] else [])"

definition regex_test :: "bool \<Rightarrow> regex \<Rightarrow> string \<Rightarrow> bool" where
  "regex_test ci r s \<longleftrightarrow> list_ex (\<lambda>i. ends ci s r i \<noteq> []) [0..<Suc (length s)]"

subsection \<open>The declarative semantics\<close>

inductive matches :: "bool \<Rightarrow> string \<Rightarrow> regex \<Rightarrow> nat \<Rightarrow> nat \<Rightarrow> bool"
  for ci :: bool and s :: string where
  m_eps: "matches ci s REps i i"
| m_class: "i < length s \<Longrightarrow> class_test ci cc (s ! i) \<Longrightarrow> matches ci s (RClass cc) i (Suc i)"
| m_seq: "matches ci s r1 i j \<Longrightarrow> matches ci s r2 j k \<Longrightarrow> matches ci s (RSeq r1 r2) i k"
| m_alt1: "matches ci s r1 i j \<Longrightarrow> matches ci s (RAlt r1 r2) i j"
| m_alt2: "matches ci s r2 i j \<Longrightarrow> matches ci s (RAlt r1 r2) i j"
| m_rep_done: "matches ci s (RRep r 0 hi) i i"
| m_rep_must: "matches ci s r i j \<Longrightarrow> matches ci s (RRep r lo (map_option (\<lambda>h. h - 1) hi)) j k \<Longrightarrow>
    matches ci s (RRep r (Suc lo) hi) i k"
| m_rep_may: "matches ci s r i j \<Longrightarrow> hi \<noteq> Some 0 \<Longrightarrow>
    matches ci s (RRep r 0 (map_option (\<lambda>h. h - 1) hi)) j k \<Longrightarrow> matches ci s (RRep r 0 hi) i k"
| m_word: "at_boundary s i \<Longrightarrow> matches ci s RWordBoundary i i"
| m_start: "matches ci s RStart 0 0"
| m_end: "matches ci s REnd (length s) (length s)"

inductive_cases matches_seqE: "matches ci s (RSeq r1 r2) i k"
inductive_cases matches_altE: "matches ci s (RAlt r1 r2) i k"
inductive_cases matches_repE: "matches ci s (RRep r lo hi) i k"
inductive_simps matches_simps: "matches ci s REps i j" "matches ci s (RClass cc) i j"
  "matches ci s RWordBoundary i j" "matches ci s RStart i j" "matches ci s REnd i j"

definition reach :: "(nat \<Rightarrow> nat list) \<Rightarrow> nat \<Rightarrow> nat \<Rightarrow> nat \<Rightarrow> bool" where
  "reach f n i j \<longleftrightarrow> ((\<lambda>a b. b \<in> set (f a)) ^^ n) i j"

lemma reach_0 [simp]: "reach f 0 i j \<longleftrightarrow> j = i"
  by (auto simp: reach_def)

lemma reach_Suc: "reach f (Suc n) i j \<longleftrightarrow> (\<exists>k \<in> set (f i). reach f n k j)"
proof -
  have "reach f (Suc n) i j \<longleftrightarrow> ((\<lambda>a b. b \<in> set (f a)) OO (\<lambda>a b. b \<in> set (f a)) ^^ n) i j"
    by (simp only: reach_def relpowp.simps relpowp_commute)
  then show ?thesis by (auto simp: reach_def)
qed

lemma set_iter_ends: "set (iter_ends f n ps) = {j. \<exists>i \<in> set ps. reach f n i j}"
  by (induction n arbitrary: ps) (auto simp: reach_Suc)

lemma set_grow_ends: "set (grow_ends f n ps) = {j. \<exists>i \<in> set ps. \<exists>m \<le> n. reach f m i j}"
proof (induction n arbitrary: ps)
  case 0
  then show ?case by auto
next
  case (Suc n)
  have "(\<exists>i \<in> set ps. \<exists>m \<le> Suc n. reach f m i j) \<longleftrightarrow>
    (\<exists>i \<in> set ps \<union> \<Union> (set ` f ` set ps). \<exists>m \<le> n. reach f m i j)" for j
  proof
    assume "\<exists>i \<in> set ps. \<exists>m \<le> Suc n. reach f m i j"
    then obtain i m where im: "i \<in> set ps" "m \<le> Suc n" "reach f m i j" by blast
    show "\<exists>i \<in> set ps \<union> \<Union> (set ` f ` set ps). \<exists>m \<le> n. reach f m i j"
    proof (cases m)
      case 0
      with im have "reach f 0 i j" "i \<in> set ps \<union> \<Union> (set ` f ` set ps)" by simp_all
      then show ?thesis by blast
    next
      case (Suc m')
      with im obtain k where "k \<in> set (f i)" "reach f m' k j" by (auto simp: reach_Suc)
      with im Suc show ?thesis by auto
    qed
  next
    assume "\<exists>i \<in> set ps \<union> \<Union> (set ` f ` set ps). \<exists>m \<le> n. reach f m i j"
    then obtain i m where im: "i \<in> set ps \<union> \<Union> (set ` f ` set ps)" "m \<le> n" "reach f m i j" by blast
    from im(1) show "\<exists>i \<in> set ps. \<exists>m \<le> Suc n. reach f m i j"
    proof
      assume "i \<in> set ps"
      with im show ?thesis by (meson le_Suc_eq)
    next
      assume "i \<in> \<Union> (set ` f ` set ps)"
      then obtain i' where "i' \<in> set ps" "i \<in> set (f i')" by auto
      with im have "reach f (Suc m) i' j" by (auto simp: reach_Suc)
      with im \<open>i' \<in> set ps\<close> show ?thesis by auto
    qed
  qed
  then show ?case by (simp add: Suc.IH)
qed

text \<open>Steps that never move back and, when they move, stay inside the string: the number of
  iterations that matter is at most the distance covered.\<close>

lemma reach_bounds:
  assumes f: "\<And>a b. b \<in> set (f a) \<Longrightarrow> a \<le> b \<and> (b \<le> L \<or> b = a)"
  shows "reach f n i j \<Longrightarrow> i \<le> j \<and> (j \<le> L \<or> j = i)"
proof (induction n arbitrary: i)
  case 0
  then show ?case by simp
next
  case (Suc n)
  then obtain k where k: "k \<in> set (f i)" "reach f n k j" by (auto simp: reach_Suc)
  from f [OF k(1)] Suc.IH [OF k(2)] show ?case by auto
qed

lemma reach_cap:
  assumes f: "\<And>a b. b \<in> set (f a) \<Longrightarrow> a \<le> b \<and> (b \<le> L \<or> b = a)"
  shows "reach f n i j \<Longrightarrow> \<exists>m. m \<le> j - i \<and> m \<le> n \<and> reach f m i j"
proof (induction n arbitrary: i)
  case 0
  then show ?case by auto
next
  case (Suc n)
  then obtain k where k: "k \<in> set (f i)" "reach f n k j" by (auto simp: reach_Suc)
  from f [OF k(1)] have ik: "i \<le> k" by simp
  from Suc.IH [OF k(2)] obtain m where m: "m \<le> j - k" "m \<le> n" "reach f m k j" by blast
  show ?case
  proof (cases "k = i")
    case True
    with m show ?thesis by (meson le_SucI)
  next
    case False
    with ik have lt: "i < k" by simp
    have "k \<le> j" using reach_bounds [OF f k(2)] by simp
    moreover have "reach f (Suc m) i j" using k(1) m(3) by (auto simp: reach_Suc)
    ultimately show ?thesis using lt m(1,2) by (intro exI [of _ "Suc m"]) simp
  qed
qed

lemma ends_bounds: "j \<in> set (ends ci s r i) \<Longrightarrow> i \<le> j \<and> (j \<le> length s \<or> j = i)"
proof (induction r arbitrary: i j)
  case (RSeq r1 r2)
  from RSeq.prems obtain k where k: "k \<in> set (ends ci s r1 i)" "j \<in> set (ends ci s r2 k)" by auto
  from RSeq.IH(1) [OF k(1)] RSeq.IH(2) [OF k(2)] show ?case by auto
next
  case (RAlt r1 r2)
  then show ?case by (simp del: Un_iff) blast
next
  case (RRep r lo hi)
  from RRep.prems obtain k m where k: "reach (ends ci s r) lo i k" "reach (ends ci s r) m k j"
    by (auto simp: set_grow_ends set_iter_ends)
  from reach_bounds [OF RRep.IH k(1)] reach_bounds [OF RRep.IH k(2)] show ?case by auto
qed (auto split: if_splits)

definition rep_ok :: "nat \<Rightarrow> nat option \<Rightarrow> nat \<Rightarrow> bool" where
  "rep_ok lo hi n \<longleftrightarrow> lo \<le> n \<and> (case hi of None \<Rightarrow> True | Some h \<Rightarrow> n \<le> lo + (h - lo))"

lemma rep_ok_must: "rep_ok (Suc lo) hi (Suc n) \<longleftrightarrow> rep_ok lo (map_option (\<lambda>h. h - 1) hi) n"
  by (cases hi) (auto simp: rep_ok_def)

lemma rep_ok_may: "hi \<noteq> Some 0 \<Longrightarrow> rep_ok 0 hi (Suc n) \<longleftrightarrow> rep_ok 0 (map_option (\<lambda>h. h - 1) hi) n"
  by (cases hi) (auto simp: rep_ok_def)

lemma matches_rep_reach:
  assumes r: "\<And>i j. matches ci s r i j \<longleftrightarrow> j \<in> set (f i)"
  shows "matches ci s (RRep r lo hi) i k \<longleftrightarrow> (\<exists>n. rep_ok lo hi n \<and> reach f n i k)"
proof
  assume "matches ci s (RRep r lo hi) i k"
  then show "\<exists>n. rep_ok lo hi n \<and> reach f n i k"
  proof (induction "RRep r lo hi" i k arbitrary: lo hi rule: matches.induct)
    case (m_rep_done hi i)
    then show ?case by (intro exI [of _ 0]) (auto simp: rep_ok_def split: option.splits)
  next
    case (m_rep_must i j lo hi k)
    then obtain n where "rep_ok lo (map_option (\<lambda>h. h - 1) hi) n" "reach f n j k" by blast
    with m_rep_must(1) r show ?case by (intro exI [of _ "Suc n"]) (auto simp: rep_ok_must reach_Suc)
  next
    case (m_rep_may i j hi k)
    then obtain n where "rep_ok 0 (map_option (\<lambda>h. h - 1) hi) n" "reach f n j k" by blast
    with m_rep_may(1,3) r show ?case by (intro exI [of _ "Suc n"]) (auto simp: rep_ok_may reach_Suc)
  qed
next
  assume "\<exists>n. rep_ok lo hi n \<and> reach f n i k"
  then obtain n where "rep_ok lo hi n" "reach f n i k" by blast
  then show "matches ci s (RRep r lo hi) i k"
  proof (induction n arbitrary: lo hi i)
    case 0
    then show ?case by (auto simp: rep_ok_def intro: m_rep_done)
  next
    case (Suc n)
    then obtain j where j: "matches ci s r i j" "reach f n j k" using r by (auto simp: reach_Suc)
    show ?case
    proof (cases lo)
      case 0
      with Suc.prems(1) have "hi \<noteq> Some 0" by (auto simp: rep_ok_def)
      with j Suc 0 show ?thesis by (auto simp: rep_ok_may intro: m_rep_may)
    next
      case (Suc lo')
      with j Suc.prems Suc.IH show ?thesis by (auto simp: rep_ok_must intro: m_rep_must)
    qed
  qed
qed

lemma reach_add: "reach f (m + n) i k \<longleftrightarrow> (\<exists>j. reach f m i j \<and> reach f n j k)"
  by (auto simp: reach_def relpowp_add)

text \<open>The executable matcher computes the declarative semantics.\<close>

lemma matches_iff_ends: "matches ci s r i j \<longleftrightarrow> j \<in> set (ends ci s r i)"
proof (induction r arbitrary: i j)
  case (RSeq r1 r2)
  then show ?case by (auto intro: m_seq elim!: matches_seqE)
next
  case (RAlt r1 r2)
  then show ?case by (auto intro: m_alt1 m_alt2 elim!: matches_altE)
next
  case (RRep r lo hi)
  have f: "b \<in> set (ends ci s r a) \<Longrightarrow> a \<le> b \<and> (b \<le> length s \<or> b = a)" for a b
    by (rule ends_bounds)
  let ?f = "ends ci s r" and ?cap = "case hi of None \<Rightarrow> length s | Some h \<Rightarrow> h - lo"
  have "matches ci s (RRep r lo hi) i j \<longleftrightarrow> (\<exists>n. rep_ok lo hi n \<and> reach ?f n i j)"
    by (rule matches_rep_reach) (rule RRep.IH)
  also have "\<dots> \<longleftrightarrow> (\<exists>k m. reach ?f lo i k \<and> m \<le> ?cap \<and> reach ?f m k j)"
  proof
    assume "\<exists>n. rep_ok lo hi n \<and> reach ?f n i j"
    then obtain n where n: "rep_ok lo hi n" "reach ?f n i j" by blast
    then have "n = lo + (n - lo)" by (simp add: rep_ok_def)
    with n(2) obtain k where k: "reach ?f lo i k" "reach ?f (n - lo) k j" by (metis reach_add)
    from reach_cap [OF f k(2)] obtain m where
      m: "m \<le> j - k" "m \<le> n - lo" "reach ?f m k j" by blast
    have "j - k \<le> length s" using reach_bounds [OF f k(2)] by auto
    with m n(1) have "m \<le> ?cap" by (auto simp: rep_ok_def split: option.splits)
    with k(1) m(3) show "\<exists>k m. reach ?f lo i k \<and> m \<le> ?cap \<and> reach ?f m k j" by blast
  next
    assume "\<exists>k m. reach ?f lo i k \<and> m \<le> ?cap \<and> reach ?f m k j"
    then obtain k m where k: "reach ?f lo i k" "m \<le> ?cap" "reach ?f m k j" by blast
    then have "reach ?f (lo + m) i j" by (auto simp: reach_add)
    moreover have "rep_ok lo hi (lo + m)" using k(2) by (auto simp: rep_ok_def split: option.splits)
    ultimately show "\<exists>n. rep_ok lo hi n \<and> reach ?f n i j" by blast
  qed
  also have "\<dots> \<longleftrightarrow> j \<in> set (ends ci s (RRep r lo hi) i)"
    by (auto simp: set_grow_ends set_iter_ends)
  finally show ?case .
qed (auto simp: matches_simps)

lemma regex_test_iff: "regex_test ci r s \<longleftrightarrow> (\<exists>i \<le> length s. \<exists>j. matches ci s r i j)"
proof -
  have "regex_test ci r s \<longleftrightarrow> (\<exists>i \<le> length s. ends ci s r i \<noteq> [])"
    unfolding regex_test_def list_ex_iff set_upt by (auto simp: less_Suc_eq_le simp del: upt_Suc)
  then show ?thesis by (simp add: matches_iff_ends ex_in_conv [symmetric] flip: set_empty)
qed

subsection \<open>Building patterns\<close>

definition char_cls :: "char \<Rightarrow> regex" where "char_cls c = RClass (CC False [(c, c)])"
definition space_ranges :: "(char \<times> char) list" where
  "space_ranges = [(CHR 0x09, CHR 0x0D), (CHR 0x20, CHR 0x20), (CHR 0xA0, CHR 0xA0)]"
definition r_space :: regex where "r_space = RClass (CC False space_ranges)"
definition r_nonspace :: regex where "r_nonspace = RClass (CC True space_ranges)"
definition r_digit :: regex where "r_digit = RClass (CC False [(CHR ''0'', CHR ''9'')])"
definition r_star :: "regex \<Rightarrow> regex" where "r_star r = RRep r 0 None"
definition r_plus :: "regex \<Rightarrow> regex" where "r_plus r = RRep r 1 None"
definition r_opt :: "regex \<Rightarrow> regex" where "r_opt r = RRep r 0 (Some 1)"

fun r_seq :: "regex list \<Rightarrow> regex" where
  "r_seq [] = REps"
| "r_seq [r] = r"
| "r_seq (r # rs) = RSeq r (r_seq rs)"

fun r_alt :: "regex list \<Rightarrow> regex" where
  "r_alt [] = RClass (CC False [])"
| "r_alt [r] = r"
| "r_alt (r # rs) = RAlt r (r_alt rs)"

definition r_lit :: "string \<Rightarrow> regex" where "r_lit s = r_seq (map char_cls s)"

lemmas regex_build = char_cls_def space_ranges_def r_space_def r_nonspace_def r_digit_def
  r_star_def r_plus_def r_opt_def r_lit_def

subsection \<open>Patterns of a fixed length\<close>

lemma reach_class:
  "reach (ends ci s (RClass cc)) n i j \<longleftrightarrow>
     j = i + n \<and> (n = 0 \<or> j \<le> length s) \<and> (\<forall>k < n. class_test ci cc (s ! (i + k)))"
proof (induction n arbitrary: i)
  case 0
  then show ?case by auto
next
  case (Suc n)
  have "reach (ends ci s (RClass cc)) (Suc n) i j \<longleftrightarrow>
      i < length s \<and> class_test ci cc (s ! i) \<and> reach (ends ci s (RClass cc)) n (Suc i) j"
    by (auto simp: reach_Suc)
  also have "\<dots> \<longleftrightarrow> j = i + Suc n \<and> j \<le> length s \<and> class_test ci cc (s ! i) \<and>
      (\<forall>k < n. class_test ci cc (s ! (i + Suc k)))"
    by (auto simp: Suc.IH)
  also have "class_test ci cc (s ! i) \<and> (\<forall>k < n. class_test ci cc (s ! (i + Suc k))) \<longleftrightarrow>
      (\<forall>k < Suc n. class_test ci cc (s ! (i + k)))"
    using All_less_Suc2 [of n "\<lambda>k. class_test ci cc (s ! (i + k))"] by simp
  finally show ?case by simp
qed

lemma fixed_length_test:
  "regex_test ci (r_seq [RStart, RRep (RClass cc) n (Some n), REnd]) s \<longleftrightarrow>
     length s = n \<and> list_all (class_test ci cc) s"
proof -
  have ends: "j \<in> set (ends ci s (r_seq [RStart, RRep (RClass cc) n (Some n), REnd]) i) \<longleftrightarrow>
      i = 0 \<and> j = length s \<and> reach (ends ci s (RClass cc)) n 0 j" for i j
    by (auto simp: set_grow_ends set_iter_ends simp del: ends.simps(2) split: if_splits)
  have "regex_test ci (r_seq [RStart, RRep (RClass cc) n (Some n), REnd]) s \<longleftrightarrow>
      reach (ends ci s (RClass cc)) n 0 (length s)"
    unfolding regex_test_iff matches_iff_ends ends by auto
  also have "\<dots> \<longleftrightarrow> length s = n \<and> list_all (class_test ci cc) s"
    by (auto simp: reach_class list_all_length)
  finally show ?thesis .
qed

end
