(* ===== verification/Recipes.thy ===== *)
theory Recipes
  imports Prelude
begin

text \<open>
  \<open>src/domain/recipes.ts\<close>: the fixed table from a task recipe to the amount of planning,
  diagnosis and review it gets.
\<close>

datatype task_recipe = Direct | Bounded | Bug | Architectural | SkillAuthoring | AdoptedPr

datatype recipe_planning = PlanningNone | ApprovedDesign | PlanAndCritique

datatype recipe_review = DiffGuards | SingleReview | TaskAndIntegrated

record recipe_policy =
  planning_mode :: recipe_planning
  diagnosis :: bool
  baselineTest :: bool
  review_mode :: recipe_review

text \<open>The field \<open>documentation\<close> is the constant "conditional" and is left out.\<close>

fun recipeExecutionPolicy :: "task_recipe \<Rightarrow> recipe_policy" where
  "recipeExecutionPolicy Direct =
     \<lparr>planning_mode = PlanningNone, diagnosis = False, baselineTest = False, review_mode = DiffGuards\<rparr>"
| "recipeExecutionPolicy Bounded =
     \<lparr>planning_mode = ApprovedDesign, diagnosis = False, baselineTest = True, review_mode = SingleReview\<rparr>"
| "recipeExecutionPolicy Bug =
     \<lparr>planning_mode = PlanningNone, diagnosis = True, baselineTest = True, review_mode = SingleReview\<rparr>"
| "recipeExecutionPolicy Architectural =
     \<lparr>planning_mode = PlanAndCritique, diagnosis = False, baselineTest = True, review_mode = TaskAndIntegrated\<rparr>"
| "recipeExecutionPolicy SkillAuthoring =
     \<lparr>planning_mode = PlanningNone, diagnosis = False, baselineTest = True, review_mode = SingleReview\<rparr>"
| "recipeExecutionPolicy AdoptedPr =
     \<lparr>planning_mode = PlanningNone, diagnosis = False, baselineTest = True, review_mode = SingleReview\<rparr>"

fun recipe_name :: "task_recipe \<Rightarrow> string" where
  "recipe_name Direct = ''direct''"
| "recipe_name Bounded = ''bounded''"
| "recipe_name Bug = ''bug''"
| "recipe_name Architectural = ''architectural''"
| "recipe_name SkillAuthoring = ''skill-authoring''"
| "recipe_name AdoptedPr = ''adopted-pr''"

end
