(* ===== verification/Stage_Execution.thy ===== *)
theory Stage_Execution
  imports Prelude
begin

text \<open>
  \<open>src/domain/stage-execution.ts\<close>: which provider, model, reasoning level and permission mode
  a pipeline stage runs on.  The model has the model catalog, the tier table, the stage
  defaults, the validation of a policy entry, the resolution of a stage (one source, then the
  tier route, then escalation) and of the consensus review.  The published price of a model
  (\<open>rate\<close>, null for every entry) and the floating point cost computed from it are left out.
\<close>

subsection \<open>Stages, levels, tiers\<close>

datatype pipeline_stage =
  PlanStage | CritiqueStage | ImplementationStage | ReviewStage | ValidationStage | DocsStage |
  MergeStage | DeployStage | CanaryStage

datatype reasoning_level = RNone | RLow | RMedium | RHigh | RXhigh | RUltracode | RMax | RUltra

datatype service_tier = DefaultTier | FastTier

datatype permission_mode = AcceptEdits | AutoMode | FullMode

datatype stage_tier = Fast | Standard | Strong

fun tier_rank :: "stage_tier \<Rightarrow> int" where
  "tier_rank Fast = 0"
| "tier_rank Standard = 1"
| "tier_rank Strong = 2"

lemma tier_rank_inject: "tier_rank a = tier_rank b \<longleftrightarrow> a = b"
  by (cases a; cases b) simp_all

text \<open>Tiers are ordered by their rank; stages are enumerated in the order of the source.\<close>

instantiation stage_tier :: linorder
begin

definition less_eq_stage_tier :: "stage_tier \<Rightarrow> stage_tier \<Rightarrow> bool" where
  "less_eq_stage_tier a b \<longleftrightarrow> tier_rank a \<le> tier_rank b"

definition less_stage_tier :: "stage_tier \<Rightarrow> stage_tier \<Rightarrow> bool" where
  "less_stage_tier a b \<longleftrightarrow> tier_rank a < tier_rank b"

instance
  by standard (auto simp: less_eq_stage_tier_def less_stage_tier_def tier_rank_inject)

end

instantiation pipeline_stage :: enum
begin

definition enum_pipeline_stage :: "pipeline_stage list" where
  "enum_pipeline_stage = [PlanStage, CritiqueStage, ImplementationStage, ReviewStage, ValidationStage,
     DocsStage, MergeStage, DeployStage, CanaryStage]"

definition enum_all_pipeline_stage :: "(pipeline_stage \<Rightarrow> bool) \<Rightarrow> bool" where
  "enum_all_pipeline_stage p \<longleftrightarrow> list_all p enum_class.enum"

definition enum_ex_pipeline_stage :: "(pipeline_stage \<Rightarrow> bool) \<Rightarrow> bool" where
  "enum_ex_pipeline_stage p \<longleftrightarrow> list_ex p enum_class.enum"

instance
proof
  show univ: "(UNIV :: pipeline_stage set) = set enum_class.enum"
  proof (rule set_eqI)
    fix x :: pipeline_stage
    show "x \<in> UNIV \<longleftrightarrow> x \<in> set enum_class.enum" by (cases x) (simp_all add: enum_pipeline_stage_def)
  qed
  show "distinct (enum_class.enum :: pipeline_stage list)" by (simp add: enum_pipeline_stage_def)
  fix p :: "pipeline_stage \<Rightarrow> bool"
  show "enum_class.enum_all p = Ball UNIV p" by (simp only: univ enum_all_pipeline_stage_def list_all_iff)
  show "enum_class.enum_ex p = Bex UNIV p" by (simp only: univ enum_ex_pipeline_stage_def list_ex_iff)
qed

end

definition stage_tiers :: "stage_tier list" where
  "stage_tiers = [Fast, Standard, Strong]"

record stage_model_entry =
  entryProviderId :: string
  purpose :: string
  supportsServiceTier :: bool

subsection \<open>Permission modes of the providers\<close>

definition EXECUTION_PROVIDER_PERMISSION_MODES :: "(string \<times> permission_mode list) list" where
  "EXECUTION_PROVIDER_PERMISSION_MODES =
    [(''claude-code'', [AcceptEdits, AutoMode, FullMode]),
     (''codex'', [AcceptEdits, AutoMode, FullMode]),
     (''pi'', [FullMode]),
     (''acp-cursor'', [AcceptEdits, FullMode]),
     (''acp-grok'', [AcceptEdits, FullMode])]"

definition PERMISSION_PREFERENCE :: "permission_mode list" where
  "PERMISSION_PREFERENCE = [AcceptEdits, FullMode, AutoMode]"

definition UNKNOWN_PROVIDER_PERMISSION_MODES :: "permission_mode list" where
  "UNKNOWN_PROVIDER_PERMISSION_MODES = [AcceptEdits, FullMode]"

definition providerPermissionModes :: "string \<Rightarrow> permission_mode list" where
  "providerPermissionModes providerId =
    (case map_of EXECUTION_PROVIDER_PERMISSION_MODES providerId of
       Some modes \<Rightarrow> modes
     | None \<Rightarrow> UNKNOWN_PROVIDER_PERMISSION_MODES)"

definition providerHonoursPermissionMode :: "string \<Rightarrow> permission_mode \<Rightarrow> bool" where
  "providerHonoursPermissionMode providerId mode = List.member (providerPermissionModes providerId) mode"

definition compatiblePermissionMode :: "string \<Rightarrow> permission_mode \<Rightarrow> permission_mode" where
  "compatiblePermissionMode providerId requested =
    (if providerHonoursPermissionMode providerId requested then requested
     else (let supported = providerPermissionModes providerId in
       (case List.find (\<lambda>mode. List.member supported mode) PERMISSION_PREFERENCE of
          Some mode \<Rightarrow> mode
        | None \<Rightarrow> (case supported of m # _ \<Rightarrow> m | [] \<Rightarrow> FullMode))))"

subsection \<open>The catalog, the tier routes and the stage defaults\<close>

definition PIPELINE_MODEL_CATALOG :: "(string \<times> stage_model_entry) list" where
  "PIPELINE_MODEL_CATALOG =
   [(''gpt-5.6-luna'', \<lparr>entryProviderId = ''codex'',
       purpose = ''Cheapest Codex tier. Mechanical stages: docs, validation, merge, deploy, canary.'',
       supportsServiceTier = True\<rparr>),
    (''gpt-5.6-terra'', \<lparr>entryProviderId = ''codex'',
       purpose = ''Mid Codex tier. Ordinary implementation work that follows an approved plan.'',
       supportsServiceTier = True\<rparr>),
    (''gpt-5.6-sol'', \<lparr>entryProviderId = ''codex'',
       purpose = ''Strongest Codex tier. Planning, critique, and review, where judgement is the work.'',
       supportsServiceTier = True\<rparr>),
    (''claude-opus-5[1m]'', \<lparr>entryProviderId = ''claude-code'',
       purpose = ''Strongest Claude tier with a long context. Available as a per-project stage pin.'',
       supportsServiceTier = False\<rparr>),
    (''claude-opus-4-8[1m]'', \<lparr>entryProviderId = ''claude-code'',
       purpose = ''Previous strong Claude tier. Available as a per-project stage pin.'',
       supportsServiceTier = False\<rparr>),
    (''claude-sonnet-5'', \<lparr>entryProviderId = ''claude-code'',
       purpose = ''Balanced Claude tier. Available as a per-project stage pin.'',
       supportsServiceTier = False\<rparr>),
    (''claude-fable-5'', \<lparr>entryProviderId = ''claude-code'',
       purpose = ''Fast Claude tier. Available as a per-project stage pin.'',
       supportsServiceTier = False\<rparr>),
    (''openrouter/~deepseek/deepseek-v4-flash-latest'', \<lparr>entryProviderId = ''pi'',
       purpose = ''Cheap fast model for short spawned threads. Never a pipeline default.'',
       supportsServiceTier = False\<rparr>),
    (''cursor-grok-4.6-medium'', \<lparr>entryProviderId = ''acp-cursor'',
       purpose = ''Cursor Grok 4.6. Available as a controller or per-project stage pin.'',
       supportsServiceTier = True\<rparr>),
    (''gpt-5.6-sol-medium'', \<lparr>entryProviderId = ''acp-cursor'',
       purpose = ''GPT-5.6 Sol through Cursor. Available as a controller or per-project stage pin.'',
       supportsServiceTier = True\<rparr>),
    (''claude-opus-5-thinking-medium'', \<lparr>entryProviderId = ''acp-cursor'',
       purpose = ''Claude Opus 5 through Cursor. Available as a controller or per-project stage pin.'',
       supportsServiceTier = True\<rparr>),
    (''claude-fable-5-thinking-medium'', \<lparr>entryProviderId = ''acp-cursor'',
       purpose = ''Claude Fable 5 through Cursor. Available as a controller or per-project stage pin.'',
       supportsServiceTier = True\<rparr>),
    (''composer-2.5'', \<lparr>entryProviderId = ''acp-cursor'',
       purpose = ''Cursor Composer 2.5. Available as a controller or per-project stage pin.'',
       supportsServiceTier = True\<rparr>),
    (''grok-4.6'', \<lparr>entryProviderId = ''acp-grok'',
       purpose = ''Grok 4.6 through Grok Build. Available as a controller or per-project stage pin.'',
       supportsServiceTier = True\<rparr>),
    (''grok-4.5'', \<lparr>entryProviderId = ''acp-grok'',
       purpose = ''Grok 4.5 through Grok Build. Available as a controller or per-project stage pin.'',
       supportsServiceTier = True\<rparr>)]"

record stage_tier_route =
  routeProviderId :: string
  routeModel :: string
  routeReasoningLevel :: reasoning_level

fun STAGE_TIER_ROUTES :: "stage_tier \<Rightarrow> stage_tier_route" where
  "STAGE_TIER_ROUTES Fast =
     \<lparr>routeProviderId = ''codex'', routeModel = ''gpt-5.6-luna'', routeReasoningLevel = RLow\<rparr>"
| "STAGE_TIER_ROUTES Standard =
     \<lparr>routeProviderId = ''codex'', routeModel = ''gpt-5.6-terra'', routeReasoningLevel = RHigh\<rparr>"
| "STAGE_TIER_ROUTES Strong =
     \<lparr>routeProviderId = ''codex'', routeModel = ''gpt-5.6-sol'', routeReasoningLevel = RXhigh\<rparr>"

definition PROVIDER_STRONG_ROUTES :: "(string \<times> stage_tier_route) list" where
  "PROVIDER_STRONG_ROUTES =
   [(''codex'', \<lparr>routeProviderId = ''codex'', routeModel = ''gpt-5.6-sol'', routeReasoningLevel = RXhigh\<rparr>),
    (''claude-code'', \<lparr>routeProviderId = ''claude-code'', routeModel = ''claude-opus-5[1m]'',
       routeReasoningLevel = RXhigh\<rparr>)]"

definition alternateStrongRoute :: "string \<Rightarrow> stage_tier_route option" where
  "alternateStrongRoute providerId =
     List.find (\<lambda>route. routeProviderId route \<noteq> providerId) (map snd PROVIDER_STRONG_ROUTES)"

record stage_default =
  defaultTier :: stage_tier
  defaultMaxEscalations :: int
  defaultPermissionMode :: "permission_mode option"

fun DEFAULT_STAGE_PROFILES :: "pipeline_stage \<Rightarrow> stage_default" where
  "DEFAULT_STAGE_PROFILES PlanStage =
     \<lparr>defaultTier = Strong, defaultMaxEscalations = 2, defaultPermissionMode = Some AutoMode\<rparr>"
| "DEFAULT_STAGE_PROFILES CritiqueStage =
     \<lparr>defaultTier = Strong, defaultMaxEscalations = 2, defaultPermissionMode = Some AutoMode\<rparr>"
| "DEFAULT_STAGE_PROFILES ImplementationStage =
     \<lparr>defaultTier = Standard, defaultMaxEscalations = 2, defaultPermissionMode = None\<rparr>"
| "DEFAULT_STAGE_PROFILES ReviewStage =
     \<lparr>defaultTier = Strong, defaultMaxEscalations = 2, defaultPermissionMode = None\<rparr>"
| "DEFAULT_STAGE_PROFILES ValidationStage =
     \<lparr>defaultTier = Fast, defaultMaxEscalations = 2, defaultPermissionMode = Some AutoMode\<rparr>"
| "DEFAULT_STAGE_PROFILES DocsStage =
     \<lparr>defaultTier = Fast, defaultMaxEscalations = 2, defaultPermissionMode = Some AutoMode\<rparr>"
| "DEFAULT_STAGE_PROFILES MergeStage =
     \<lparr>defaultTier = Fast, defaultMaxEscalations = 1, defaultPermissionMode = Some AutoMode\<rparr>"
| "DEFAULT_STAGE_PROFILES DeployStage =
     \<lparr>defaultTier = Fast, defaultMaxEscalations = 1, defaultPermissionMode = Some AutoMode\<rparr>"
| "DEFAULT_STAGE_PROFILES CanaryStage =
     \<lparr>defaultTier = Fast, defaultMaxEscalations = 1, defaultPermissionMode = Some AutoMode\<rparr>"

definition stageModelEntry :: "string \<Rightarrow> stage_model_entry option" where
  "stageModelEntry model = map_of PIPELINE_MODEL_CATALOG model"

definition pipelineProviderIds :: "string list" where
  "pipelineProviderIds = sort (remdups (map (entryProviderId \<circ> snd) PIPELINE_MODEL_CATALOG))"

subsection \<open>Validation of a policy's stage entries\<close>

record execution_profile =
  xProviderId :: "string option"
  xModel :: "string option"
  xReasoningLevel :: "reasoning_level option"
  xServiceTier :: "service_tier option"
  xPermissionMode :: "permission_mode option"

record stage_execution_profile = execution_profile +
  xTier :: "stage_tier option"
  xMaxEscalations :: "int option"

record consensus_profile =
  cProviderId :: string
  cModel :: string
  cReasoningLevel :: "reasoning_level option"
  cServiceTier :: "service_tier option"
  cPermissionMode :: "permission_mode option"

fun permission_mode_name :: "permission_mode \<Rightarrow> string" where
  "permission_mode_name AcceptEdits = ''accept-edits''"
| "permission_mode_name AutoMode = ''auto''"
| "permission_mode_name FullMode = ''full''"

text \<open>\<open>Inl\<close> is the message of a rejection, \<open>Inr\<close> the catalog entry of an accepted profile.\<close>

definition validateStageModel ::
  "string option \<Rightarrow> string option \<Rightarrow> service_tier option \<Rightarrow> permission_mode option \<Rightarrow>
   string + stage_model_entry option" where
  "validateStageModel providerId model serviceTier permissionMode =
    (let entry = (case model of None \<Rightarrow> None | Some m \<Rightarrow> stageModelEntry m);
         permissionProvider = (case providerId of Some p \<Rightarrow> Some p | None \<Rightarrow> map_option entryProviderId entry)
     in
     if model \<noteq> None \<and> entry = None
     then Inl (''No configured provider offers the model '' @ [CHR 0x22] @ the model @ [CHR 0x22])
     else if providerId \<noteq> None \<and> \<not> List.member pipelineProviderIds (the providerId)
     then Inl (''Unknown execution provider '' @ [CHR 0x22] @ the providerId @ [CHR 0x22])
     else if providerId \<noteq> None \<and> model = None
     then Inl (''Execution provider '' @ [CHR 0x22] @ the providerId @ [CHR 0x22] @ '' requires an explicit model'')
     else if entry \<noteq> None \<and> providerId \<noteq> None \<and> entryProviderId (the entry) \<noteq> the providerId
     then Inl (''Provider '' @ [CHR 0x22] @ the providerId @ [CHR 0x22] @ '' does not offer '' @
       [CHR 0x22] @ the model @ [CHR 0x22] @ ''; it belongs to '' @
       [CHR 0x22] @ entryProviderId (the entry) @ [CHR 0x22])
     else if serviceTier = Some FastTier \<and> entry \<noteq> None \<and> \<not> supportsServiceTier (the entry)
     then Inl (''Provider '' @ [CHR 0x22] @ entryProviderId (the entry) @ [CHR 0x22] @
       '' does not honour a fast service tier'')
     else if permissionMode \<noteq> None \<and> permissionProvider \<noteq> None \<and>
       \<not> providerHonoursPermissionMode (the permissionProvider) (the permissionMode)
     then Inl (''Provider '' @ [CHR 0x22] @ the permissionProvider @ [CHR 0x22] @
       '' does not support permission mode '' @ [CHR 0x22] @ permission_mode_name (the permissionMode) @ [CHR 0x22])
     else Inr entry)"

definition opt_min1 :: "string option \<Rightarrow> bool" where
  "opt_min1 v = (case v of None \<Rightarrow> True | Some s \<Rightarrow> s \<noteq> [])"

definition executionProfile_ok :: "execution_profile \<Rightarrow> bool" where
  "executionProfile_ok p \<longleftrightarrow> opt_min1 (xProviderId p) \<and> opt_min1 (xModel p)"

definition stageExecutionProfile_ok :: "stage_execution_profile \<Rightarrow> bool" where
  "stageExecutionProfile_ok p \<longleftrightarrow>
     opt_min1 (xProviderId p) \<and> opt_min1 (xModel p) \<and>
     (case xMaxEscalations p of None \<Rightarrow> True | Some n \<Rightarrow> 0 \<le> n \<and> n \<le> 2) \<and>
     \<not> isl (validateStageModel (xProviderId p) (xModel p) (xServiceTier p) (xPermissionMode p))"

definition consensusReview_ok :: "consensus_profile \<Rightarrow> bool" where
  "consensusReview_ok p \<longleftrightarrow>
     cProviderId p \<noteq> [] \<and> cModel p \<noteq> [] \<and>
     \<not> isl (validateStageModel (Some (cProviderId p)) (Some (cModel p)) (cServiceTier p) (cPermissionMode p))"

type_synonym stage_execution_policy = "pipeline_stage \<Rightarrow> stage_execution_profile option"

definition all_stages :: "pipeline_stage list" where
  "all_stages = [PlanStage, CritiqueStage, ImplementationStage, ReviewStage, ValidationStage, DocsStage,
     MergeStage, DeployStage, CanaryStage]"

definition stageExecutionPolicy_ok :: "stage_execution_policy \<Rightarrow> bool" where
  "stageExecutionPolicy_ok pol \<longleftrightarrow>
     list_all (\<lambda>st. case pol st of None \<Rightarrow> True | Some p \<Rightarrow> stageExecutionProfile_ok p) all_stages"

subsection \<open>Resolving a stage\<close>

definition escalatedTier :: "stage_tier \<Rightarrow> int \<Rightarrow> stage_tier" where
  "escalatedTier base steps =
     (let rank = min (tier_rank base + max 0 steps) (tier_rank Strong) in stage_tiers ! nat rank)"

definition opt_default :: "'a option \<Rightarrow> 'a \<Rightarrow> 'a" where
  "opt_default v d = (case v of None \<Rightarrow> d | Some x \<Rightarrow> x)"

definition stageEscalationSteps :: "int option \<Rightarrow> int option \<Rightarrow> int option \<Rightarrow> int" where
  "stageEscalationSteps attemptOrdinal repeatedCycles priorFailures =
    (let fromOrdinal = max 0 (opt_default attemptOrdinal 1 - 1);
         fromCycles = max 0 (opt_default repeatedCycles 0);
         fromFailures = max 0 (opt_default priorFailures 0)
     in max (max fromOrdinal fromCycles) fromFailures)"

record legacy_profiles =
  legacyImplementation :: "execution_profile option"
  legacyReview :: "execution_profile option"

definition profile_has_value :: "execution_profile \<Rightarrow> bool" where
  "profile_has_value p \<longleftrightarrow> xProviderId p \<noteq> None \<or> xModel p \<noteq> None \<or> xReasoningLevel p \<noteq> None \<or>
     xServiceTier p \<noteq> None \<or> xPermissionMode p \<noteq> None"

definition legacyProfileFor :: "pipeline_stage \<Rightarrow> legacy_profiles option \<Rightarrow> execution_profile option" where
  "legacyProfileFor stage legacy =
    (case legacy of None \<Rightarrow> None
     | Some l \<Rightarrow>
       (let profile = (case stage of ImplementationStage \<Rightarrow> legacyImplementation l
                       | ReviewStage \<Rightarrow> legacyReview l | _ \<Rightarrow> None)
        in case profile of None \<Rightarrow> None | Some p \<Rightarrow> if profile_has_value p then Some p else None))"

datatype stage_execution_source = StagePolicy | LegacyPolicy | DefaultSource | CapabilityRoute

record resolved_stage_execution =
  stage :: pipeline_stage
  baseTier :: stage_tier
  tier :: stage_tier
  escalationSteps :: int
  maxEscalations :: int
  modelPinned :: bool
  providerId :: string
  model :: string
  reasoningLevel :: reasoning_level
  serviceTier :: service_tier
  permissionMode :: "permission_mode option"
  source :: stage_execution_source

definition resolvedPermissionMode :: "string \<Rightarrow> permission_mode option \<Rightarrow> permission_mode option" where
  "resolvedPermissionMode provider requested =
    (case requested of
       Some m \<Rightarrow> Some (compatiblePermissionMode provider m)
     | None \<Rightarrow> if providerHonoursPermissionMode provider AutoMode then None
              else Some (compatiblePermissionMode provider AutoMode))"

definition empty_profile :: execution_profile where
  "empty_profile = \<lparr>xProviderId = None, xModel = None, xReasoningLevel = None,
     xServiceTier = None, xPermissionMode = None\<rparr>"

text \<open>
  \<open>overrides = {...legacy, ...stripUndefined(configured ?? {})}\<close>: the legacy profile is read
  only when there is no stage entry, so at most one of the two is non-empty.
\<close>

definition merged_overrides ::
  "execution_profile option \<Rightarrow> stage_execution_profile option \<Rightarrow> execution_profile" where
  "merged_overrides legacy configured =
    (let base = opt_default legacy empty_profile in
     case configured of
       None \<Rightarrow> base
     | Some c \<Rightarrow>
       \<lparr>xProviderId = (if xProviderId c = None then xProviderId base else xProviderId c),
        xModel = (if xModel c = None then xModel base else xModel c),
        xReasoningLevel = (if xReasoningLevel c = None then xReasoningLevel base else xReasoningLevel c),
        xServiceTier = (if xServiceTier c = None then xServiceTier base else xServiceTier c),
        xPermissionMode = (if xPermissionMode c = None then xPermissionMode base else xPermissionMode c)\<rparr>)"

definition resolveStageExecution ::
  "pipeline_stage \<Rightarrow> stage_execution_policy option \<Rightarrow> legacy_profiles option \<Rightarrow> int option \<Rightarrow>
   resolved_stage_execution" where
  "resolveStageExecution st stageExecution legacyProfiles requestedSteps =
    (let fallback = DEFAULT_STAGE_PROFILES st;
         configured = (case stageExecution of None \<Rightarrow> None | Some pol \<Rightarrow> pol st);
         legacy = (if configured = None then legacyProfileFor st legacyProfiles else None);
         src = (if configured \<noteq> None then StagePolicy else if legacy \<noteq> None then LegacyPolicy else DefaultSource);
         overrides = merged_overrides legacy configured;
         base = (case configured of None \<Rightarrow> defaultTier fallback
                 | Some c \<Rightarrow> opt_default (xTier c) (defaultTier fallback));
         maxEsc = (case configured of None \<Rightarrow> defaultMaxEscalations fallback
                   | Some c \<Rightarrow> opt_default (xMaxEscalations c) (defaultMaxEscalations fallback));
         pinned = (xModel overrides \<noteq> None);
         steps = (if pinned then 0 else min (max 0 (opt_default requestedSteps 0)) maxEsc);
         t = escalatedTier base steps;
         route = STAGE_TIER_ROUTES t;
         mdl = opt_default (xModel overrides) (routeModel route);
         entry = stageModelEntry mdl;
         prov = opt_default (xProviderId overrides)
                  (case entry of Some e \<Rightarrow> entryProviderId e | None \<Rightarrow> routeProviderId route);
         requestedServiceTier = opt_default (xServiceTier overrides) DefaultTier;
         perm = resolvedPermissionMode prov
                  (case xPermissionMode overrides of Some m \<Rightarrow> Some m | None \<Rightarrow> defaultPermissionMode fallback)
     in \<lparr>stage = st, baseTier = base, tier = t, escalationSteps = steps, maxEscalations = maxEsc,
         modelPinned = pinned, providerId = prov, model = mdl,
         reasoningLevel = opt_default (xReasoningLevel overrides) (routeReasoningLevel route),
         serviceTier = (case entry of
             Some e \<Rightarrow> if \<not> supportsServiceTier e then DefaultTier else requestedServiceTier
           | None \<Rightarrow> requestedServiceTier),
         permissionMode = perm, source = src\<rparr>)"

definition reviewStageProviderId ::
  "stage_execution_policy option \<Rightarrow> legacy_profiles option \<Rightarrow> string" where
  "reviewStageProviderId stageExecution legacy =
     providerId (resolveStageExecution ReviewStage stageExecution legacy None)"

definition resolveConsensusExecution ::
  "stage_execution_policy option \<Rightarrow> legacy_profiles option \<Rightarrow> consensus_profile option \<Rightarrow>
   resolved_stage_execution option" where
  "resolveConsensusExecution stageExecution legacy pinned =
    (let review = resolveStageExecution ReviewStage stageExecution legacy None;
         route = (case pinned of
             None \<Rightarrow> map_option (\<lambda>r. (routeProviderId r, routeModel r)) (alternateStrongRoute (providerId review))
           | Some c \<Rightarrow> Some (cProviderId c, cModel c))
     in case route of
       None \<Rightarrow> None
     | Some (prov, mdl) \<Rightarrow>
       if prov = providerId review then None
       else
         (let entry = stageModelEntry mdl;
              requestedServiceTier = (case pinned of None \<Rightarrow> DefaultTier
                                      | Some c \<Rightarrow> opt_default (cServiceTier c) DefaultTier)
          in Some \<lparr>stage = ReviewStage, baseTier = Strong, tier = Strong, escalationSteps = 0,
               maxEscalations = 0, modelPinned = True, providerId = prov, model = mdl,
               reasoningLevel = (case pinned of
                   Some c \<Rightarrow> opt_default (cReasoningLevel c) (routeReasoningLevel (STAGE_TIER_ROUTES Strong))
                 | None \<Rightarrow> routeReasoningLevel (STAGE_TIER_ROUTES Strong)),
               serviceTier = (case entry of
                   Some e \<Rightarrow> if \<not> supportsServiceTier e then DefaultTier else requestedServiceTier
                 | None \<Rightarrow> requestedServiceTier),
               permissionMode = (case pinned of
                   Some c \<Rightarrow> (case cPermissionMode c of Some m \<Rightarrow> Some m | None \<Rightarrow> permissionMode review)
                 | None \<Rightarrow> permissionMode review),
               source = (if pinned = None then DefaultSource else StagePolicy)\<rparr>))"

end
