(* ===== verification/Job_Model.thy ===== *)
theory Job_Model
  imports Js_Regex Recipes Stage_Execution
begin

text \<open>
  \<open>src/domain/models.ts\<close>: the project policy and its schema, the job, its events and effects,
  and the predicates that say whether and how a stopped job can be resumed.

  The two services of the JavaScript runtime whose result depends on the host are fields of
  \<open>js_runtime\<close>, which the operations that use them take as an argument: \<open>Date.parse\<close>, whose
  reading of a string that is not in the ECMAScript format is implementation-defined and whose
  reading of a local time depends on the host's time zone, and the acceptance of an owner's
  pattern by \<open>new RegExp\<close>.
\<close>

record js_runtime =
  date_parse :: "string \<Rightarrow> int option" \<comment> \<open>\<open>None\<close> is NaN\<close>
  regexp_compiles :: "string \<Rightarrow> bool"

subsection \<open>Project policy\<close>

record policy_command =
  cmdName :: string
  cmdCommand :: string
  cmdTimeoutMs :: int

record production_policy =
  deployCommands :: "policy_command list"
  canaryCommands :: "policy_command list"
  healthCommands :: "policy_command list option"
  healthIntervalMs :: "int option"
  rollbackCommand :: "policy_command option"
  targetKey :: "string option"
  convexDeployRequired :: bool

record regression_policy =
  regressionCommands :: "policy_command list"
  regressionIntervalMs :: "int option"

record autonomy_policy =
  unattendedMerge :: bool
  mergeWithoutProduction :: bool
  consensusReview :: "consensus_profile option"
  intakeMaxJobsPerDay :: "int option"

datatype merge_method = MergeCommit | MergeRebase | MergeSquash

record project_policy =
  policyProjectId :: string
  policyAlias :: string
  enabled :: bool
  githubRepository :: string
  baseBranch :: string
  implementationProfile :: execution_profile
  reviewProfile :: execution_profile
  stageExecution :: "stage_execution_policy option"
  autonomy :: "autonomy_policy option"
  validationCommands :: "policy_command list"
  production :: "production_policy option"
  regression :: "regression_policy option"
  requiredChecks :: "string list"
  outputRedactionPatterns :: "string list"
  workerStartGraceMs :: int
  workerLivenessWatchdogMs :: int
  workerRecoveryLimit :: int
  maxReviewCycles :: int
  mergeMethod :: merge_method

subsection \<open>The policy schema\<close>

definition between :: "int \<Rightarrow> int \<Rightarrow> int \<Rightarrow> bool" where
  "between lo hi n \<longleftrightarrow> lo \<le> n \<and> n \<le> hi"

definition opt_ok :: "('a \<Rightarrow> bool) \<Rightarrow> 'a option \<Rightarrow> bool" where
  "opt_ok p v = (case v of None \<Rightarrow> True | Some x \<Rightarrow> p x)"

definition policyCommand_ok :: "policy_command \<Rightarrow> bool" where
  "policyCommand_ok c \<longleftrightarrow>
     1 \<le> length (cmdName c) \<and> length (cmdName c) \<le> 40 \<and>
     1 \<le> length (cmdCommand c) \<and> length (cmdCommand c) \<le> 8000 \<and>
     between 1000 3600000 (cmdTimeoutMs c)"

definition commands_ok :: "nat \<Rightarrow> nat \<Rightarrow> policy_command list \<Rightarrow> bool" where
  "commands_ok lo hi cs \<longleftrightarrow> lo \<le> length cs \<and> length cs \<le> hi \<and> list_all policyCommand_ok cs"

definition lower_alnum :: "(char \<times> char) list" where
  "lower_alnum = [(CHR ''a'', CHR ''z''), (CHR ''0'', CHR ''9'')]"

text \<open>\<open>/^[a-z0-9][a-z0-9._-]{0,63}$/\<close>\<close>

definition targetKey_regex :: regex where
  "targetKey_regex = r_seq [RStart, RClass (CC False lower_alnum),
     RRep (RClass (CC False (lower_alnum @ [(CHR ''.'', CHR ''.''), (CHR ''_'', CHR ''_''), (CHR ''-'', CHR ''-'')])))
       0 (Some 63), REnd]"

text \<open>
  \<open>/(?:^|&&|\|\||;|\||\n)\s*(?:(?:[A-Za-z_][A-Za-z0-9_]*=\S+)\s+)*
    (?:(?:npx|bunx)\s+|(?:yarn\s+dlx|pnpm\s+exec)\s+)?convex\s+deploy(?:\s|$)/\<close>
\<close>

definition convexCliDeploy :: regex where
  "convexCliDeploy = r_seq
    [r_alt [RStart, r_lit ''&&'', r_lit ''||'', r_lit '';'', r_lit ''|'', char_cls (CHR 0x0A)],
     r_star r_space,
     r_star (r_seq [r_seq [RClass (CC False [(CHR ''A'', CHR ''Z''), (CHR ''a'', CHR ''z''), (CHR ''_'', CHR ''_'')]),
                           r_star (RClass (CC False [(CHR ''A'', CHR ''Z''), (CHR ''a'', CHR ''z''), (CHR ''0'', CHR ''9''), (CHR ''_'', CHR ''_'')])),
                           char_cls (CHR ''=''), r_plus r_nonspace],
                    r_plus r_space]),
     r_opt (r_alt [r_seq [r_alt [r_lit ''npx'', r_lit ''bunx''], r_plus r_space],
                   r_seq [r_alt [r_seq [r_lit ''yarn'', r_plus r_space, r_lit ''dlx''],
                                 r_seq [r_lit ''pnpm'', r_plus r_space, r_lit ''exec'']], r_plus r_space]]),
     r_lit ''convex'', r_plus r_space, r_lit ''deploy'', r_alt [r_space, REnd]]"

definition productionPolicy_ok :: "production_policy \<Rightarrow> bool" where
  "productionPolicy_ok p \<longleftrightarrow>
     commands_ok 1 20 (deployCommands p) \<and> commands_ok 1 20 (canaryCommands p) \<and>
     opt_ok (commands_ok 1 5) (healthCommands p) \<and>
     opt_ok (between 60000 86400000) (healthIntervalMs p) \<and>
     opt_ok policyCommand_ok (rollbackCommand p) \<and>
     opt_ok (regex_test False targetKey_regex) (targetKey p) \<and>
     (convexDeployRequired p \<longrightarrow>
        list_ex (\<lambda>c. regex_test False convexCliDeploy (cmdCommand c)) (deployCommands p))"

definition regressionPolicy_ok :: "regression_policy \<Rightarrow> bool" where
  "regressionPolicy_ok r \<longleftrightarrow>
     commands_ok 1 5 (regressionCommands r) \<and> opt_ok (between 3600000 604800000) (regressionIntervalMs r)"

definition autonomyPolicy_ok :: "autonomy_policy \<Rightarrow> bool" where
  "autonomyPolicy_ok a \<longleftrightarrow>
     opt_ok consensusReview_ok (consensusReview a) \<and> opt_ok (between 1 4) (intakeMaxJobsPerDay a)"

text \<open>\<open>/^[a-z0-9][a-z0-9-]{0,23}$/\<close> and \<open>/^[A-Za-z0-9_.-]+\/[A-Za-z0-9_.-]+$/\<close>\<close>

definition alias_regex :: regex where
  "alias_regex = r_seq [RStart, RClass (CC False lower_alnum),
     RRep (RClass (CC False (lower_alnum @ [(CHR ''-'', CHR ''-'')]))) 0 (Some 23), REnd]"

definition repository_regex :: regex where
  "repository_regex = (let part = r_plus (RClass (CC False [(CHR ''A'', CHR ''Z''), (CHR ''a'', CHR ''z''),
       (CHR ''0'', CHR ''9''), (CHR ''_'', CHR ''_''), (CHR ''.'', CHR ''.''), (CHR ''-'', CHR ''-'')]))
     in r_seq [RStart, part, char_cls (CHR ''/''), part, REnd])"

definition mergesWithoutProduction :: "project_policy option \<Rightarrow> bool" where
  "mergesWithoutProduction p =
    (case p of None \<Rightarrow> False
     | Some pol \<Rightarrow> production pol = None \<and>
         (case autonomy pol of None \<Rightarrow> False | Some a \<Rightarrow> mergeWithoutProduction a))"

definition productionHasRollbackCommand :: "project_policy option \<Rightarrow> bool" where
  "productionHasRollbackCommand p =
    (case p of None \<Rightarrow> False
     | Some pol \<Rightarrow> (case production pol of None \<Rightarrow> False | Some d \<Rightarrow> rollbackCommand d \<noteq> None))"

definition policy_legacy :: "project_policy \<Rightarrow> legacy_profiles" where
  "policy_legacy p = \<lparr>legacyImplementation = Some (implementationProfile p), legacyReview = Some (reviewProfile p)\<rparr>"

text \<open>The field checks of \<open>projectPolicySchema\<close>.\<close>

definition policy_fields_ok :: "project_policy \<Rightarrow> bool" where
  "policy_fields_ok p \<longleftrightarrow>
     starts_with ''proj_'' (policyProjectId p) \<and>
     regex_test False alias_regex (policyAlias p) \<and>
     regex_test False repository_regex (githubRepository p) \<and>
     baseBranch p \<noteq> [] \<and>
     executionProfile_ok (implementationProfile p) \<and> executionProfile_ok (reviewProfile p) \<and>
     opt_ok stageExecutionPolicy_ok (stageExecution p) \<and>
     opt_ok autonomyPolicy_ok (autonomy p) \<and>
     commands_ok 0 20 (validationCommands p) \<and>
     opt_ok productionPolicy_ok (production p) \<and>
     opt_ok regressionPolicy_ok (regression p) \<and>
     list_all (\<lambda>c. c \<noteq> []) (requiredChecks p) \<and> length (requiredChecks p) \<le> 50 \<and>
     list_all (\<lambda>c. 1 \<le> length c \<and> length c \<le> 200) (outputRedactionPatterns p) \<and>
     length (outputRedactionPatterns p) \<le> 20 \<and>
     between 10000 900000 (workerStartGraceMs p) \<and>
     between 60000 3600000 (workerLivenessWatchdogMs p) \<and>
     between 1 5 (workerRecoveryLimit p) \<and>
     between 1 10 (maxReviewCycles p)"

text \<open>The cross-field rules of its \<open>superRefine\<close>.\<close>

definition policy_rules_ok :: "js_runtime \<Rightarrow> project_policy \<Rightarrow> bool" where
  "policy_rules_ok rt p \<longleftrightarrow>
     list_all (regexp_compiles rt) (outputRedactionPatterns p) \<and>
     \<not> ((case autonomy p of None \<Rightarrow> False | Some a \<Rightarrow> unattendedMerge a) \<and> production p \<noteq> None \<and>
        \<not> productionHasRollbackCommand (Some p)) \<and>
     ((case autonomy p of None \<Rightarrow> False | Some a \<Rightarrow> mergeWithoutProduction a) \<longrightarrow>
        requiredChecks p \<noteq> [] \<and> regression p \<noteq> None) \<and>
     (case autonomy p of None \<Rightarrow> True
      | Some a \<Rightarrow> (case consensusReview a of None \<Rightarrow> True
         | Some c \<Rightarrow> cProviderId c \<noteq> reviewStageProviderId (stageExecution p) (Some (policy_legacy p))))"

text \<open>
  \<open>projectPolicySchema.parse\<close> on a value of the schema's own type (the defaults already
  present, the numbers whole): it returns the value, or throws when a check or rule fails.
\<close>

definition projectPolicySchema_parse :: "js_runtime \<Rightarrow> project_policy \<Rightarrow> project_policy result" where
  "projectPolicySchema_parse rt p =
     (if policy_fields_ok p \<and> policy_rules_ok rt p then Inr p else Inl (ZodError ''projectPolicy''))"

subsection \<open>Jobs\<close>

datatype review_severity = SevCritical | SevHigh | SevMedium | SevLow

record review_finding =
  severity :: review_severity
  findingFile :: "string option"
  findingLine :: "int option"
  findingTitle :: string
  findingDetails :: string

datatype job_state =
  AwaitingProject | AwaitingConfirmation | Planning | Critiquing | CreatingImplementation |
  Implementing | LocatingPr | ResolvingPrHead | Reviewing | Remediating | Validating |
  Documenting | ResolvingDocsHead | FinalValidating | FinalReviewing | AwaitingMergeApproval |
  Merging | Deploying | VerifyingProduction | RecoveringWorker | ProductionFailed | Complete |
  Failed | Blocked | Cancelled | Merged

datatype recovery_classification = NeverStarted | NoProgress | Missing | Crash

datatype worker_resource_kind = BbThread | BbTerminal

datatype worker_liveness_state = WStarting | WActive | WStopping | WIdle | WFailed | WUnknown | WStale

record worker_liveness =
  workerJobId :: string
  workerKind :: pipeline_stage
  resourceKind :: worker_resource_kind
  resourceId :: string
  generation :: int
  workerState :: worker_liveness_state
  sourceUpdatedAt :: int
  observedAt :: int
  staleNotifiedAt :: "int option"

datatype blocked_reason =
  PlanLimit | ReviewLimit | ConfigurationBlock | CancellationUnconfirmed | PermanentEffectFailure

datatype delivery_mode = FullDelivery | SmallFix

datatype job_origin = Requested | AdoptedPrOrigin

datatype autonomous_origin = AuditIntake | SelfDiagnosis | CrashRevert

datatype routing_mode = LegacyRouting | ShadowRouting | ActiveRouting

datatype workflow_engine = RecipeV1 | NavigatorV1

datatype workflow_mode = LiveMode | ShadowMode | DeterministicMode

datatype task_outcome = ArtifactOutcome | ReviewedChange | ShippedChange

datatype task_constraint = ArtifactOnly | PullRequestOnly | NoMerge | NoDeploy

record job =
  job_id :: string
  sourceUpdateId :: int
  requestText :: string
  state :: job_state
  resumeState :: "job_state option"
  projectId :: "string option"
  policyVersion :: "int option"
  policy :: "project_policy option"
  environmentId :: "string option"
  implementationThreadId :: "string option"
  reviewThreadId :: "string option"
  documentationThreadId :: "string option"
  prNumber :: "int option"
  prUrl :: "string option"
  prHeadSha :: "string option"
  mergeMessage :: "string option"
  mergeCommitSha :: "string option"
  mergedAt :: "string option"
  deploymentSummary :: "string option"
  canarySummary :: "string option"
  statusMessageId :: "int option"
  deliveryMode :: delivery_mode
  taskRecipe :: task_recipe
  recipeVersion :: int
  recipePromotionCount :: int
  routingMode :: routing_mode
  workflowEngine :: workflow_engine
  workflowMode :: workflow_mode
  workflowRevision :: int
  currentWorkflowStepId :: "string option"
  artifactBindings :: "jval list"
  taskTraits :: "jval list"
  taskReasonCodes :: "string list"
  origin :: job_origin
  autonomousOrigin :: "autonomous_origin option"
  taskOutcome :: "task_outcome option"
  taskConstraints :: "task_constraint list"
  adoptedBranch :: "string option"
  adoptedHeadSha :: "string option"
  planCycle :: int
  reviewCycle :: int
  reviewBlockAt :: int
  cancelRequestedAt :: "int option"
  mergePreApprovedAt :: "int option"
  blockedReason :: "blocked_reason option"
  lastError :: "string option"
  version :: int
  createdAt :: int
  updatedAt :: int

subsection \<open>Effects and events\<close>

datatype effect_kind =
  render_status | spawn_plan | spawn_critique | spawn_implementation | inspect_implementation |
  resolve_pr_head | spawn_review | send_remediation | run_validation | spawn_docs |
  run_final_validation | spawn_final_review | spawn_consensus_review | issue_approval |
  revoke_approvals | merge_pr | deploy_production | verify_production | recover_worker |
  stop_thread | steer_implementation | run_navigator_skill | run_navigator_ticket_worker |
  run_navigator_release | reconcile_job

record job_effect =
  idempotencyKey :: string
  effectJobId :: string
  kind :: effect_kind
  payload :: js_object

record documentation_evidence =
  docRequired :: bool
  diffDigest :: string
  docReasons :: "string list"

text \<open>The reasons a review may block with: \<open>"review_limit" | "configuration" | "permanent_effect_failure"\<close>.\<close>

datatype review_block_reason = BlockReviewLimit | BlockConfiguration | BlockPermanentFailure

fun review_block :: "review_block_reason \<Rightarrow> blocked_reason" where
  "review_block BlockReviewLimit = ReviewLimit"
| "review_block BlockConfiguration = ConfigurationBlock"
| "review_block BlockPermanentFailure = PermanentEffectFailure"

datatype incident_phase = DeployPhase | CanaryPhase

text \<open>An absent optional field of an event is \<open>None\<close>; a field that may also be null is an option of an option.\<close>

datatype job_event =
  PROJECT_SELECTED string js_number project_policy
| CONFIRMED
| PLAN_CREATED string string string \<comment> \<open>attemptId, threadId, environmentId\<close>
| PLAN_READY string
| CRITIQUE_PASSED string
| CRITIQUE_NEEDS_REVISION string string \<comment> \<open>attemptId, summary\<close>
| IMPLEMENTATION_CREATED string string \<comment> \<open>threadId, environmentId\<close>
| IMPLEMENTATION_IDLE
| RELEASE_STARTED js_number string string \<comment> \<open>number, url, environmentId\<close>
| PR_LOCATED js_number string
| PR_HEAD_RESOLVED string
| REVIEW_STARTED
| REVIEW_PASSED string "documentation_evidence option"
| REVIEW_CHANGES_REQUESTED "string option" "string option" "review_finding list option" "string list option"
    \<comment> \<open>headSha, summary, findings, reasons\<close>
| REVIEW_BLOCKED "review_block_reason option"
| PR_MISSING "string option"
| PR_UNAVAILABLE "string option"
| REMEDIATION_SENT
| VALIDATION_PASSED string
| VALIDATION_FAILED "string option" "string option" \<comment> \<open>headSha, reason\<close>
| DOCS_CREATED string string string \<comment> \<open>attemptId, threadId, environmentId\<close>
| DOCS_IDLE
| APPROVAL_ACCEPTED string
| APPROVAL_STALE "string option"
| CONSENSUS_REQUIRED string
| CONSENSUS_SETTLED string
| REMEDIATION_CONTINUED string
| MERGE_SUCCEEDED string string string bool \<comment> \<open>message, mergeCommitSha, mergedAt, baseContentVerified\<close>
| MERGE_FAILED "string option"
| DEPLOY_SUCCEEDED string
| DEPLOY_FAILED string
| CANARY_SUCCEEDED string
| CANARY_FAILED string
| PRODUCTION_INCIDENT_RECOVERED incident_phase string
| THREAD_FAILED "string option"
| WORKER_RECOVERY_REQUESTED string pipeline_stage string recovery_classification string "js_object option"
    \<comment> \<open>recoveryId, workerKind, resourceId, classification, signature, retryPayload\<close>
| WORKER_RECOVERY_REQUEUED string "js_object option"
| FAILED string
| RETRY
| CANCEL_REQUESTED "worker_liveness option option" "worker_liveness list option"
| CANCEL_CONFIRMED
| CANCELLATION_UNCONFIRMED "string option"
| CONTINUE_REVIEW

subsection \<open>Delivery mode\<close>

text \<open>
  \<open>/\b(?:typos?|lint(?:ing)?|wording|copy(?:\s+edit|\s+change)?|changelog|whitespace|nits?|
  one[\s-](?:line|file)|renames?|bump(?:\s+the)?\s+version|small[\s-]fix|quick[\s-]fix|tiny[\s-]fix)\b/i\<close>
\<close>

definition space_or_dash :: regex where
  "space_or_dash = RClass (CC False (space_ranges @ [(CHR ''-'', CHR ''-'')]))"

definition SMALL_FIX_TASK :: regex where
  "SMALL_FIX_TASK = r_seq [RWordBoundary,
     r_alt [r_seq [r_lit ''typo'', r_opt (r_lit ''s'')],
            r_seq [r_lit ''lint'', r_opt (r_lit ''ing'')],
            r_lit ''wording'',
            r_seq [r_lit ''copy'', r_opt (r_alt [r_seq [r_plus r_space, r_lit ''edit''],
                                                 r_seq [r_plus r_space, r_lit ''change'']])],
            r_lit ''changelog'', r_lit ''whitespace'',
            r_seq [r_lit ''nit'', r_opt (r_lit ''s'')],
            r_seq [r_lit ''one'', space_or_dash, r_alt [r_lit ''line'', r_lit ''file'']],
            r_seq [r_lit ''rename'', r_opt (r_lit ''s'')],
            r_seq [r_lit ''bump'', r_opt (r_seq [r_plus r_space, r_lit ''the'']), r_plus r_space, r_lit ''version''],
            r_seq [r_lit ''small'', space_or_dash, r_lit ''fix''],
            r_seq [r_lit ''quick'', space_or_dash, r_lit ''fix''],
            r_seq [r_lit ''tiny'', space_or_dash, r_lit ''fix'']],
     RWordBoundary]"

definition classifyDeliveryMode :: "string \<Rightarrow> delivery_mode option \<Rightarrow> delivery_mode" where
  "classifyDeliveryMode task explicit =
    (case explicit of Some m \<Rightarrow> m
     | None \<Rightarrow>
       (let txt = js_trim task in
        if txt = [] \<or> length txt > 240 then FullDelivery
        else if regex_test True SMALL_FIX_TASK txt then SmallFix else FullDelivery))"

definition isSmallFixJob :: "job \<Rightarrow> bool" where
  "isSmallFixJob j \<longleftrightarrow> deliveryMode j = SmallFix"

subsection \<open>Resuming a stopped job\<close>

definition PRODUCTION_NOT_CONFIGURED :: string where
  "PRODUCTION_NOT_CONFIGURED = ''Production deployment and canary are not configured''"

definition RETRYABLE_RESUME_STATES :: "job_state list" where
  "RETRYABLE_RESUME_STATES =
    [Planning, Critiquing, CreatingImplementation, Implementing, LocatingPr, ResolvingPrHead,
     Reviewing, Remediating, Validating, Documenting, ResolvingDocsHead, FinalValidating,
     FinalReviewing, AwaitingMergeApproval, Merging, Deploying, VerifyingProduction]"

definition EARLY_RESUME_STATES :: "job_state list" where
  "EARLY_RESUME_STATES = [Planning, Critiquing, CreatingImplementation, Implementing]"

definition isResumablePlanBlock :: "job \<Rightarrow> bool" where
  "isResumablePlanBlock j =
    (if state j \<noteq> Blocked \<or> prNumber j \<noteq> None then False
     else if blockedReason j = Some PlanLimit then True
     else blockedReason j = Some ReviewLimit \<and> implementationThreadId j = None \<and> reviewCycle j = 0)"

definition isResumableReviewBlock :: "job \<Rightarrow> bool" where
  "isResumableReviewBlock j =
    (if state j \<noteq> Blocked then False
     else if prNumber j \<noteq> None \<and> (blockedReason j = Some PlanLimit \<or> blockedReason j = Some ReviewLimit) then True
     else blockedReason j = Some ReviewLimit \<and> \<not> isResumablePlanBlock j)"

definition isResumablePermanentFailure :: "job \<Rightarrow> bool" where
  "isResumablePermanentFailure j \<longleftrightarrow>
     state j = Blocked \<and> blockedReason j = Some PermanentEffectFailure \<and>
     cancelRequestedAt j = None \<and>
     (case resumeState j of None \<Rightarrow> False | Some s \<Rightarrow> List.member RETRYABLE_RESUME_STATES s)"

definition isReviewedPrCompletionBlock :: "job \<Rightarrow> bool" where
  "isReviewedPrCompletionBlock j \<longleftrightarrow>
     state j = Blocked \<and> blockedReason j = Some ConfigurationBlock \<and>
     lastError j = Some PRODUCTION_NOT_CONFIGURED \<and> prNumber j \<noteq> None \<and>
     (case policy j of None \<Rightarrow> True | Some p \<Rightarrow> production p = None)"

definition isResumableConfigurationBlock :: "job \<Rightarrow> bool" where
  "isResumableConfigurationBlock j \<longleftrightarrow>
     state j = Blocked \<and> blockedReason j = Some ConfigurationBlock \<and>
     lastError j \<noteq> Some PRODUCTION_NOT_CONFIGURED \<and> prNumber j \<noteq> None \<and> cancelRequestedAt j = None"

definition shouldResumeExistingPr :: "job \<Rightarrow> bool" where
  "shouldResumeExistingPr j =
    (if prNumber j = None then False
     else if isSmallFixJob j then True
     else (case resumeState j of None \<Rightarrow> False | Some s \<Rightarrow> List.member EARLY_RESUME_STATES s))"

definition isRetryableJob :: "job \<Rightarrow> bool" where
  "isRetryableJob j =
    (if cancelRequestedAt j \<noteq> None then False
     else if state j = Failed \<and> resumeState j \<noteq> None then True
     else isResumablePlanBlock j \<or> isResumableReviewBlock j \<or> isResumablePermanentFailure j \<or>
          isReviewedPrCompletionBlock j \<or> isResumableConfigurationBlock j)"

subsection \<open>Names\<close>

fun state_name :: "job_state \<Rightarrow> string" where
  "state_name AwaitingProject = ''awaiting_project''"
| "state_name AwaitingConfirmation = ''awaiting_confirmation''"
| "state_name Planning = ''planning''"
| "state_name Critiquing = ''critiquing''"
| "state_name CreatingImplementation = ''creating_implementation''"
| "state_name Implementing = ''implementing''"
| "state_name LocatingPr = ''locating_pr''"
| "state_name ResolvingPrHead = ''resolving_pr_head''"
| "state_name Reviewing = ''reviewing''"
| "state_name Remediating = ''remediating''"
| "state_name Validating = ''validating''"
| "state_name Documenting = ''documenting''"
| "state_name ResolvingDocsHead = ''resolving_docs_head''"
| "state_name FinalValidating = ''final_validating''"
| "state_name FinalReviewing = ''final_reviewing''"
| "state_name AwaitingMergeApproval = ''awaiting_merge_approval''"
| "state_name Merging = ''merging''"
| "state_name Deploying = ''deploying''"
| "state_name VerifyingProduction = ''verifying_production''"
| "state_name RecoveringWorker = ''recovering_worker''"
| "state_name ProductionFailed = ''production_failed''"
| "state_name Complete = ''complete''"
| "state_name Failed = ''failed''"
| "state_name Blocked = ''blocked''"
| "state_name Cancelled = ''cancelled''"
| "state_name Merged = ''merged''"

fun kind_name :: "effect_kind \<Rightarrow> string" where
  "kind_name render_status = ''render_status''"
| "kind_name spawn_plan = ''spawn_plan''"
| "kind_name spawn_critique = ''spawn_critique''"
| "kind_name spawn_implementation = ''spawn_implementation''"
| "kind_name inspect_implementation = ''inspect_implementation''"
| "kind_name resolve_pr_head = ''resolve_pr_head''"
| "kind_name spawn_review = ''spawn_review''"
| "kind_name send_remediation = ''send_remediation''"
| "kind_name run_validation = ''run_validation''"
| "kind_name spawn_docs = ''spawn_docs''"
| "kind_name run_final_validation = ''run_final_validation''"
| "kind_name spawn_final_review = ''spawn_final_review''"
| "kind_name spawn_consensus_review = ''spawn_consensus_review''"
| "kind_name issue_approval = ''issue_approval''"
| "kind_name revoke_approvals = ''revoke_approvals''"
| "kind_name merge_pr = ''merge_pr''"
| "kind_name deploy_production = ''deploy_production''"
| "kind_name verify_production = ''verify_production''"
| "kind_name recover_worker = ''recover_worker''"
| "kind_name stop_thread = ''stop_thread''"
| "kind_name steer_implementation = ''steer_implementation''"
| "kind_name run_navigator_skill = ''run_navigator_skill''"
| "kind_name run_navigator_ticket_worker = ''run_navigator_ticket_worker''"
| "kind_name run_navigator_release = ''run_navigator_release''"
| "kind_name reconcile_job = ''reconcile_job''"

lemma kind_name_inject [simp]: "kind_name a = kind_name b \<longleftrightarrow> a = b"
  by (cases a; cases b) simp_all

end
