(* ===== verification/Job_State_Machine.thy ===== *)
theory Job_State_Machine
  imports Job_Model
begin

text \<open>
  \<open>src/domain/state-machine.ts\<close>: the reducer of the delivery pipeline.  A handler of the
  source mutates a clone of the job and pushes effects, or throws; here it maps the job and the
  effects so far to the new pair, or to the error.  The statements of a handler are kept in the
  source's order: a check that throws after an assignment discards the clone, as the source does.
\<close>

type_synonym job_step = "(job \<times> job_effect list) result"

subsection \<open>Checks\<close>

definition hex_class :: regex where
  "hex_class = RClass (CC False [(CHR ''0'', CHR ''9''), (CHR ''a'', CHR ''f'')])"

text \<open>\<open>/^[0-9a-f]{40}$/\<close>\<close>

definition HEAD_SHA :: regex where
  "HEAD_SHA = r_seq [RStart, RRep hex_class 40 (Some 40), REnd]"

definition MAX_FAILURE_SUMMARY_LENGTH :: nat where
  "MAX_FAILURE_SUMMARY_LENGTH = 500"

definition token_class :: regex where
  "token_class = RClass (CC False [(CHR ''A'', CHR ''Z''), (CHR ''a'', CHR ''z''), (CHR ''0'', CHR ''9''),
     (CHR ''_'', CHR ''_''), (CHR ''-'', CHR ''-'')])"

text \<open>
  \<open>/\bbearer\s+\S+/i\<close>,
  \<open>/\b(?:api[_-]?key|password|secret|token)\s*[:=]\s*\S+/i\<close>,
  \<open>/\b(?:sk|rk)-[A-Za-z0-9_-]{10,}\b/i\<close>,
  \<open>/\b\d{8,10}:[A-Za-z0-9_-]{35}\b/\<close>
\<close>

definition SENSITIVE_FAILURE_PATTERNS :: "(bool \<times> regex) list" where
  "SENSITIVE_FAILURE_PATTERNS =
    [(True, r_seq [RWordBoundary, r_lit ''bearer'', r_plus r_space, r_plus r_nonspace]),
     (True, r_seq [RWordBoundary,
        r_alt [r_seq [r_lit ''api'', r_opt (RClass (CC False [(CHR ''_'', CHR ''_''), (CHR ''-'', CHR ''-'')])), r_lit ''key''],
               r_lit ''password'', r_lit ''secret'', r_lit ''token''],
        r_star r_space, RClass (CC False [(CHR '':'', CHR '':''), (CHR ''='', CHR ''='')]), r_star r_space, r_plus r_nonspace]),
     (True, r_seq [RWordBoundary, r_alt [r_lit ''sk'', r_lit ''rk''], char_cls (CHR ''-''),
        RRep token_class 10 None, RWordBoundary]),
     (False, r_seq [RWordBoundary, RRep r_digit 8 (Some 10), char_cls (CHR '':''),
        RRep token_class 35 (Some 35), RWordBoundary])]"

definition ACTIVE_WORKER_STATES :: "worker_liveness_state list" where
  "ACTIVE_WORKER_STATES = [WStarting, WActive]"

fun event_type :: "job_event \<Rightarrow> string" where
  "event_type (PROJECT_SELECTED _ _ _) = ''PROJECT_SELECTED''"
| "event_type CONFIRMED = ''CONFIRMED''"
| "event_type (PLAN_CREATED _ _ _) = ''PLAN_CREATED''"
| "event_type (PLAN_READY _) = ''PLAN_READY''"
| "event_type (CRITIQUE_PASSED _) = ''CRITIQUE_PASSED''"
| "event_type (CRITIQUE_NEEDS_REVISION _ _) = ''CRITIQUE_NEEDS_REVISION''"
| "event_type (IMPLEMENTATION_CREATED _ _) = ''IMPLEMENTATION_CREATED''"
| "event_type IMPLEMENTATION_IDLE = ''IMPLEMENTATION_IDLE''"
| "event_type (RELEASE_STARTED _ _ _) = ''RELEASE_STARTED''"
| "event_type (PR_LOCATED _ _) = ''PR_LOCATED''"
| "event_type (PR_HEAD_RESOLVED _) = ''PR_HEAD_RESOLVED''"
| "event_type REVIEW_STARTED = ''REVIEW_STARTED''"
| "event_type (REVIEW_PASSED _ _) = ''REVIEW_PASSED''"
| "event_type (REVIEW_CHANGES_REQUESTED _ _ _ _) = ''REVIEW_CHANGES_REQUESTED''"
| "event_type (REVIEW_BLOCKED _) = ''REVIEW_BLOCKED''"
| "event_type (PR_MISSING _) = ''PR_MISSING''"
| "event_type (PR_UNAVAILABLE _) = ''PR_UNAVAILABLE''"
| "event_type REMEDIATION_SENT = ''REMEDIATION_SENT''"
| "event_type (VALIDATION_PASSED _) = ''VALIDATION_PASSED''"
| "event_type (VALIDATION_FAILED _ _) = ''VALIDATION_FAILED''"
| "event_type (DOCS_CREATED _ _ _) = ''DOCS_CREATED''"
| "event_type DOCS_IDLE = ''DOCS_IDLE''"
| "event_type (APPROVAL_ACCEPTED _) = ''APPROVAL_ACCEPTED''"
| "event_type (APPROVAL_STALE _) = ''APPROVAL_STALE''"
| "event_type (CONSENSUS_REQUIRED _) = ''CONSENSUS_REQUIRED''"
| "event_type (CONSENSUS_SETTLED _) = ''CONSENSUS_SETTLED''"
| "event_type (REMEDIATION_CONTINUED _) = ''REMEDIATION_CONTINUED''"
| "event_type (MERGE_SUCCEEDED _ _ _ _) = ''MERGE_SUCCEEDED''"
| "event_type (MERGE_FAILED _) = ''MERGE_FAILED''"
| "event_type (DEPLOY_SUCCEEDED _) = ''DEPLOY_SUCCEEDED''"
| "event_type (DEPLOY_FAILED _) = ''DEPLOY_FAILED''"
| "event_type (CANARY_SUCCEEDED _) = ''CANARY_SUCCEEDED''"
| "event_type (CANARY_FAILED _) = ''CANARY_FAILED''"
| "event_type (PRODUCTION_INCIDENT_RECOVERED _ _) = ''PRODUCTION_INCIDENT_RECOVERED''"
| "event_type (THREAD_FAILED _) = ''THREAD_FAILED''"
| "event_type (WORKER_RECOVERY_REQUESTED _ _ _ _ _ _) = ''WORKER_RECOVERY_REQUESTED''"
| "event_type (WORKER_RECOVERY_REQUEUED _ _) = ''WORKER_RECOVERY_REQUEUED''"
| "event_type (FAILED _) = ''FAILED''"
| "event_type RETRY = ''RETRY''"
| "event_type (CANCEL_REQUESTED _ _) = ''CANCEL_REQUESTED''"
| "event_type CANCEL_CONFIRMED = ''CANCEL_CONFIRMED''"
| "event_type (CANCELLATION_UNCONFIRMED _) = ''CANCELLATION_UNCONFIRMED''"
| "event_type CONTINUE_REVIEW = ''CONTINUE_REVIEW''"

definition illegal :: "job \<Rightarrow> job_event \<Rightarrow> 'a result" where
  "illegal j e = Inl (IllegalTransitionError (state_name (state j)) (event_type e))"

definition assertNonEmpty :: "string \<Rightarrow> string \<Rightarrow> unit result" where
  "assertNonEmpty v field = guard (v \<noteq> []) (TypeError (field @ '' must not be empty''))"

definition assertSummary :: "string option \<Rightarrow> string \<Rightarrow> unit result" where
  "assertSummary v field =
     guard (case v of None \<Rightarrow> True | Some s \<Rightarrow> length s \<le> 2000)
       (TypeError (field @ '' must be at most 2000 characters''))"

definition containsCredentialLikeText :: "string \<Rightarrow> bool" where
  "containsCredentialLikeText v = list_ex (\<lambda>(ci, r). regex_test ci r v) SENSITIVE_FAILURE_PATTERNS"

definition assertSafeFailureSummary :: "string \<Rightarrow> unit result" where
  "assertSafeFailureSummary err =
     (if err = [] \<or> length err > MAX_FAILURE_SUMMARY_LENGTH
      then Inl (TypeError ''error must be a non-empty summary of at most 500 characters'')
      else if containsCredentialLikeText err
      then Inl (TypeError ''error must not contain credential-like text'')
      else Inr ())"

definition assertHeadSha :: "string \<Rightarrow> unit result" where
  "assertHeadSha sha =
     guard (regex_test False HEAD_SHA sha) (TypeError ''headSha must be a 40-character lowercase SHA'')"

definition hex_char :: "char \<Rightarrow> bool" where
  "hex_char c \<longleftrightarrow> in_ranges [(CHR ''0'', CHR ''9''), (CHR ''a'', CHR ''f'')] c"

lemma head_sha_test: "regex_test False HEAD_SHA s \<longleftrightarrow> length s = 40 \<and> list_all hex_char s"
proof -
  have cls: "class_test False (CC False [(CHR ''0'', CHR ''9''), (CHR ''a'', CHR ''f'')]) = hex_char"
    by (rule ext) (simp add: class_test_def hex_char_def)
  show ?thesis unfolding HEAD_SHA_def hex_class_def fixed_length_test cls ..
qed

lemma assertHeadSha_code [code]:
  "assertHeadSha sha =
     guard (length sha = 40 \<and> list_all hex_char sha) (TypeError ''headSha must be a 40-character lowercase SHA'')"
  by (simp add: assertHeadSha_def head_sha_test)

subsection \<open>Building blocks\<close>

definition effect_key :: "string \<Rightarrow> int \<Rightarrow> effect_kind \<Rightarrow> string" where
  "effect_key jid ver k = jid @ '':'' @ show_int ver @ '':'' @ kind_name k"

definition emitEffect :: "job \<Rightarrow> job_effect list \<Rightarrow> effect_kind \<Rightarrow> js_object \<Rightarrow> job_effect list" where
  "emitEffect j effects k p =
     effects @ [\<lparr>idempotencyKey = effect_key (job_id j) (version j + 1) k,
                 effectJobId = job_id j, kind = k, payload = p\<rparr>]"

definition finish :: "job \<Rightarrow> job_effect list \<Rightarrow> int \<Rightarrow> job \<times> job_effect list" where
  "finish j effects now = (j\<lparr>version := version j + 1, updatedAt := now\<rparr>, effects)"

definition failJob :: "job \<Rightarrow> job_effect list \<Rightarrow> string \<Rightarrow> job_step" where
  "failJob j effects err =
     rthen (assertSafeFailureSummary err)
       (if List.member [Failed, Blocked, Cancelled, Merged, ProductionFailed, Complete] (state j)
        then Inl (IllegalTransitionError (state_name (state j)) ''FAILED'')
        else (let j' = j\<lparr>resumeState := Some (state j), lastError := Some err, state := Failed\<rparr>
              in Inr (j', emitEffect j' effects render_status [])))"

definition failOnThread :: "job \<Rightarrow> job_effect list \<Rightarrow> string option \<Rightarrow> job_step" where
  "failOnThread j effects err = failJob j effects (opt_default err ''Worker thread failed'')"

definition clearHeadAndReceipts :: "job \<Rightarrow> job_effect list \<Rightarrow> job \<times> job_effect list" where
  "clearHeadAndReceipts j effects =
     (let j' = j\<lparr>prHeadSha := None\<rparr> in (j', emitEffect j' effects revoke_approvals []))"

definition isNavigatorJob :: "job \<Rightarrow> bool" where
  "isNavigatorJob j \<longleftrightarrow> workflowEngine j = NavigatorV1"

definition returnNavigatorToNavigation :: "job \<Rightarrow> job_effect list \<Rightarrow> job \<times> job_effect list" where
  "returnNavigatorToNavigation j effects =
     (let (j1, es1) = clearHeadAndReceipts j effects; j2 = j1\<lparr>state := Implementing\<rparr>
      in (j2, emitEffect j2 es1 render_status []))"

definition enterLocatingPr :: "job \<Rightarrow> job_effect list \<Rightarrow> job \<times> job_effect list" where
  "enterLocatingPr j effects =
     (let (j1, es1) = clearHeadAndReceipts j effects; j2 = j1\<lparr>state := LocatingPr\<rparr>
      in (j2, emitEffect j2 es1 inspect_implementation []))"

definition completeReviewedWork :: "job \<Rightarrow> job_effect list \<Rightarrow> job \<times> job_effect list" where
  "completeReviewedWork j effects =
     (let j' = j\<lparr>state := Complete, blockedReason := None, lastError := None, resumeState := None\<rparr>
      in (j', emitEffect j' effects render_status []))"

definition completeMergedWork :: "job \<Rightarrow> job_effect list \<Rightarrow> job \<times> job_effect list" where
  "completeMergedWork j effects =
     (let j' = j\<lparr>state := Merged, blockedReason := None, lastError := None, resumeState := None\<rparr>
      in (j', emitEffect j' effects render_status []))"

definition head_payload :: "job \<Rightarrow> js_object" where
  "head_payload j = (if truthy_str (prHeadSha j) then [(''headSha'', JStr (the (prHeadSha j)))] else [])"

definition resumeFromExistingPr :: "job \<Rightarrow> job_effect list \<Rightarrow> job \<times> job_effect list" where
  "resumeFromExistingPr j effects =
     (let j1 = j\<lparr>blockedReason := None, lastError := None, resumeState := None\<rparr> in
      if truthy_str (prHeadSha j1)
      then (let j2 = j1\<lparr>state := Reviewing\<rparr>
            in (j2, emitEffect j2 effects spawn_review [(''headSha'', JStr (the (prHeadSha j2)))]))
      else (let j2 = j1\<lparr>state := ResolvingPrHead\<rparr>
            in (j2, emitEffect j2 effects resolve_pr_head
                 (if truthy_int (prNumber j2)
                  then [(''number'', JNum (the (prNumber j2)))] @
                       (if truthy_str (prUrl j2) then [(''url'', JStr (the (prUrl j2)))] else [])
                  else []))))"

definition invalidateDriftedHead :: "job \<Rightarrow> job_effect list \<Rightarrow> job \<times> job_effect list" where
  "invalidateDriftedHead j effects =
     (let (j1, es1) = clearHeadAndReceipts j effects; j2 = j1\<lparr>state := ResolvingPrHead\<rparr>
      in (j2, emitEffect j2 es1 resolve_pr_head []))"

definition headMatches :: "job \<Rightarrow> string option \<Rightarrow> bool" where
  "headMatches j sha \<longleftrightarrow> prHeadSha j \<noteq> None \<and> sha = prHeadSha j"

definition taskRequiresRelease :: "job \<Rightarrow> bool" where
  "taskRequiresRelease j \<longleftrightarrow> taskOutcome j = Some ShippedChange"

definition policy_production :: "job \<Rightarrow> production_policy option" where
  "policy_production j = (case policy j of None \<Rightarrow> None | Some p \<Rightarrow> production p)"

text \<open>\<open>job.policy?.production || mergesWithoutProduction(job.policy) || taskRequiresRelease(job)\<close>\<close>

definition is_merge_candidate :: "job \<Rightarrow> bool" where
  "is_merge_candidate j \<longleftrightarrow>
     policy_production j \<noteq> None \<or> mergesWithoutProduction (policy j) \<or> taskRequiresRelease j"

fun effectByState :: "job_state \<Rightarrow> effect_kind option" where
  "effectByState Planning = Some spawn_plan"
| "effectByState Critiquing = Some spawn_critique"
| "effectByState CreatingImplementation = Some spawn_implementation"
| "effectByState Implementing = Some inspect_implementation"
| "effectByState LocatingPr = Some inspect_implementation"
| "effectByState ResolvingPrHead = Some resolve_pr_head"
| "effectByState Reviewing = Some spawn_review"
| "effectByState Remediating = Some send_remediation"
| "effectByState Validating = Some run_validation"
| "effectByState Documenting = Some spawn_docs"
| "effectByState ResolvingDocsHead = Some resolve_pr_head"
| "effectByState FinalValidating = Some run_final_validation"
| "effectByState FinalReviewing = Some spawn_final_review"
| "effectByState AwaitingMergeApproval = Some issue_approval"
| "effectByState Merging = Some merge_pr"
| "effectByState Deploying = Some deploy_production"
| "effectByState VerifyingProduction = Some verify_production"
| "effectByState _ = None"

definition retryEffect :: "job \<Rightarrow> job_effect list \<Rightarrow> job_state \<Rightarrow> js_object \<Rightarrow> job_step" where
  "retryEffect j effects s p =
     (case effectByState s of
        None \<Rightarrow> Inl (IllegalTransitionError (state_name (state j)) ''RETRY'')
      | Some k \<Rightarrow> Inr (j, emitEffect j effects k (obj_spread (head_payload j) p)))"

subsection \<open>Worker recovery\<close>

definition RECOVERABLE_WORKER_STATES :: "job_state list" where
  "RECOVERABLE_WORKER_STATES =
     [Planning, Critiquing, CreatingImplementation, Implementing, Reviewing, Remediating,
      Documenting, FinalReviewing]"

fun stage_name :: "pipeline_stage \<Rightarrow> string" where
  "stage_name PlanStage = ''plan''"
| "stage_name CritiqueStage = ''critique''"
| "stage_name ImplementationStage = ''implementation''"
| "stage_name ReviewStage = ''review''"
| "stage_name ValidationStage = ''validation''"
| "stage_name DocsStage = ''docs''"
| "stage_name MergeStage = ''merge''"
| "stage_name DeployStage = ''deploy''"
| "stage_name CanaryStage = ''canary''"

fun classification_name :: "recovery_classification \<Rightarrow> string" where
  "classification_name NeverStarted = ''never_started''"
| "classification_name NoProgress = ''no_progress''"
| "classification_name Missing = ''missing''"
| "classification_name Crash = ''crash''"

definition requestWorkerRecovery ::
  "job \<Rightarrow> string \<Rightarrow> pipeline_stage \<Rightarrow> string \<Rightarrow> recovery_classification \<Rightarrow> string \<Rightarrow>
   js_object option \<Rightarrow> job_effect list \<Rightarrow> job_step" where
  "requestWorkerRecovery j recoveryId wk resId cls sig retryPayload effects =
     (if \<not> List.member RECOVERABLE_WORKER_STATES (state j)
      then illegal j (WORKER_RECOVERY_REQUESTED recoveryId wk resId cls sig retryPayload)
      else rthen (assertNonEmpty recoveryId ''recoveryId'')
          (rthen (assertNonEmpty resId ''resourceId'')
          (rthen (assertNonEmpty sig ''signature'')
          (rthen (guard (length sig \<le> 200) (TypeError ''signature must be at most 200 characters''))
             (let s = state j;
                  j' = j\<lparr>resumeState := Some s, state := RecoveringWorker\<rparr>;
                  es1 = emitEffect j' effects render_status []
              in Inr (j', emitEffect j' es1 recover_worker
                   [(''recoveryId'', JStr recoveryId), (''workerKind'', JStr (stage_name wk)),
                    (''resourceId'', JStr resId), (''classification'', JStr (classification_name cls)),
                    (''signature'', JStr sig), (''resumeState'', JStr (state_name s)),
                    (''retryPayload'', JObj (opt_default retryPayload []))]))))))"

definition transitionRecoveringWorker :: "job \<Rightarrow> job_event \<Rightarrow> job_effect list \<Rightarrow> job_step" where
  "transitionRecoveringWorker j e effects =
     (case (e, resumeState j) of
        (WORKER_RECOVERY_REQUEUED recoveryId retryPayload, Some s) \<Rightarrow>
          rthen (assertNonEmpty recoveryId ''recoveryId'')
           (let j1 = j\<lparr>resumeState := None, lastError := None, blockedReason := None\<rparr>;
                p = obj_spread [(''recoveryId'', JStr recoveryId)] (opt_default retryPayload [])
            in if s = CreatingImplementation \<or> s = Implementing \<or> s = Remediating
               then (let j2 = j1\<lparr>implementationThreadId := None, state := CreatingImplementation\<rparr>
                     in Inr (j2, emitEffect j2 effects spawn_implementation p))
               else (let j2 = (if s = Reviewing \<or> s = FinalReviewing then j1\<lparr>reviewThreadId := None\<rparr> else j1);
                         j3 = (if s = Documenting then j2\<lparr>documentationThreadId := None\<rparr> else j2);
                         j4 = j3\<lparr>state := s\<rparr>
                     in retryEffect j4 effects s p))
      | _ \<Rightarrow> illegal j e)"

subsection \<open>Cancellation\<close>

fun resource_kind_name :: "worker_resource_kind \<Rightarrow> string" where
  "resource_kind_name BbThread = ''bb_thread''"
| "resource_kind_name BbTerminal = ''bb_terminal''"

definition workerStopPayload :: "worker_liveness \<Rightarrow> js_object" where
  "workerStopPayload w =
     [(''generation'', JNum (generation w)), (''resourceId'', JStr (resourceId w)),
      (''resourceKind'', JStr (resource_kind_name (resourceKind w))),
      (''workerKind'', JStr (stage_name (workerKind w)))]"

text \<open>\<open>[...new Map(workers.filter(...).map((w) => [w.resourceId, w])).values()]\<close>\<close>

definition active_workers :: "job \<Rightarrow> worker_liveness list \<Rightarrow> worker_liveness list" where
  "active_workers j ws =
     map snd (assoc_set_all []
       (map (\<lambda>w. (resourceId w, w))
         (filter (\<lambda>w. workerJobId w = job_id j \<and> List.member ACTIVE_WORKER_STATES (workerState w)) ws)))"

definition stopActiveWorkers :: "job \<Rightarrow> job_effect list \<Rightarrow> worker_liveness list \<Rightarrow> job_effect list" where
  "stopActiveWorkers j effects ws =
     (case active_workers j ws of
        [] \<Rightarrow> effects
      | w # rest \<Rightarrow>
          emitEffect j effects stop_thread
            (if rest = [] then workerStopPayload w
             else assoc_set ''workers'' (JList (map (\<lambda>x. JObj (workerStopPayload x)) (w # rest))) (workerStopPayload w)))"

definition applyCancellation ::
  "job \<Rightarrow> worker_liveness option option \<Rightarrow> worker_liveness list option \<Rightarrow> job_effect list \<Rightarrow> int \<Rightarrow> job_step" where
  "applyCancellation j activeWorker activeWorkers effects now =
     (if List.member [Cancelled, Merged, Deploying, VerifyingProduction, ProductionFailed, Complete] (state j)
      then illegal j (CANCEL_REQUESTED activeWorker activeWorkers)
      else
        (let evidenceSupplied = (activeWorker \<noteq> None \<or> activeWorkers \<noteq> None);
             supplied = opt_default activeWorkers [] @ (case activeWorker of Some (Some w) \<Rightarrow> [w] | _ \<Rightarrow> [])
         in if length supplied > 4 then Inl (TypeError ''Cancellation accepts at most four worker resources'')
            else
              (let workers = active_workers j supplied;
                   (j1, es1) = (if cancelRequestedAt j = None
                      then (let jc = j\<lparr>cancelRequestedAt := Some now\<rparr>
                            in (jc, stopActiveWorkers jc (emitEffect jc effects revoke_approvals []) workers))
                      else (j, effects));
                   (j2, es2) = (if workers = [] \<and> evidenceSupplied
                      then (let jd = j1\<lparr>state := Cancelled\<rparr> in (jd, emitEffect jd es1 render_status []))
                      else (j1, es1))
               in Inr (finish j2 es2 now))))"

definition applyCancellationUnconfirmed ::
  "job \<Rightarrow> string option \<Rightarrow> job_effect list \<Rightarrow> int \<Rightarrow> job_step" where
  "applyCancellationUnconfirmed j reason effects now =
     (if cancelRequestedAt j = None \<or> state j = Cancelled \<or> state j = Merged
      then illegal j (CANCELLATION_UNCONFIRMED reason)
      else
        (let r = opt_default reason ''Cancellation could not be confirmed while the worker remained active'' in
         rthen (assertSafeFailureSummary r)
           (let j' = j\<lparr>resumeState := Some (state j), state := Blocked,
                       blockedReason := Some CancellationUnconfirmed, lastError := Some r\<rparr>
            in Inr (finish j' (emitEffect j' (emitEffect j' effects revoke_approvals []) render_status []) now))))"

subsection \<open>The handlers, planning to review\<close>

definition transitionAwaitingProject :: "js_runtime \<Rightarrow> job \<Rightarrow> job_event \<Rightarrow> job_effect list \<Rightarrow> job_step" where
  "transitionAwaitingProject rt j e effects =
     (case e of
        PROJECT_SELECTED pid ver pol \<Rightarrow>
          rthen (guard (pid = policyProjectId pol) (TypeError ''Selected policy project does not match projectId''))
         (rthen (guard (is_integer ver \<and> 1 \<le> whole ver) (TypeError ''policyVersion must be a positive integer''))
         (rbind (projectPolicySchema_parse rt pol) (\<lambda>parsed.
            let j' = j\<lparr>policy := Some parsed, projectId := Some pid, policyVersion := Some (whole ver),
                       reviewBlockAt := maxReviewCycles parsed, state := AwaitingConfirmation\<rparr>
            in Inr (j', emitEffect j' effects render_status []))))
      | _ \<Rightarrow> illegal j e)"

fun delivery_mode_name :: "delivery_mode \<Rightarrow> string" where
  "delivery_mode_name FullDelivery = ''full''"
| "delivery_mode_name SmallFix = ''small_fix''"

definition transitionAwaitingConfirmation :: "job \<Rightarrow> job_event \<Rightarrow> job_effect list \<Rightarrow> job_step" where
  "transitionAwaitingConfirmation j e effects =
     (if e \<noteq> CONFIRMED then illegal j e
      else if origin j = AdoptedPrOrigin then
        (if \<not> truthy_str (adoptedBranch j) \<or> \<not> truthy_str (adoptedHeadSha j) \<or>
            \<not> truthy_int (prNumber j) \<or> \<not> truthy_str (prUrl j)
         then Inl (TypeError ''Adopted pull-request job is missing immutable source evidence'')
         else (let j' = j\<lparr>state := CreatingImplementation\<rparr>
               in Inr (j', emitEffect j' effects spawn_implementation
                    [(''deliveryMode'', JStr (delivery_mode_name (deliveryMode j'))),
                     (''adoptedBranch'', jstr_opt (adoptedBranch j')),
                     (''adoptedHeadSha'', jstr_opt (adoptedHeadSha j')),
                     (''prNumber'', jint_opt (prNumber j'))])))
      else if isNavigatorJob j then
        (let j' = j\<lparr>state := Implementing\<rparr> in Inr (j', emitEffect j' effects render_status []))
      else if routingMode j = ActiveRouting then
        (if planning_mode (recipeExecutionPolicy (taskRecipe j)) = PlanAndCritique
         then (let j' = j\<lparr>state := Planning\<rparr>
               in Inr (j', emitEffect j' effects spawn_plan
                    [(''policyVersion'', jint_opt (policyVersion j')), (''projectId'', jstr_opt (projectId j')),
                     (''recipeId'', JStr (recipe_name (taskRecipe j'))), (''recipeVersion'', JNum (recipeVersion j'))]))
         else (let j' = j\<lparr>state := CreatingImplementation\<rparr>
               in Inr (j', emitEffect j' effects spawn_implementation
                    [(''deliveryMode'', JStr (delivery_mode_name (deliveryMode j'))),
                     (''recipeId'', JStr (recipe_name (taskRecipe j'))), (''recipeVersion'', JNum (recipeVersion j'))])))
      else if isSmallFixJob j then
        (let j' = j\<lparr>state := CreatingImplementation\<rparr>
         in Inr (j', emitEffect j' effects spawn_implementation
              [(''deliveryMode'', JStr (delivery_mode_name (deliveryMode j')))]))
      else
        (let j' = j\<lparr>state := Planning\<rparr>
         in Inr (j', emitEffect j' effects spawn_plan
              [(''policyVersion'', jint_opt (policyVersion j')), (''projectId'', jstr_opt (projectId j'))])))"

definition transitionPlanning :: "job \<Rightarrow> job_event \<Rightarrow> job_effect list \<Rightarrow> job_step" where
  "transitionPlanning j e effects =
     (case e of
        PLAN_CREATED attemptId threadId envId \<Rightarrow>
          rthen (assertNonEmpty attemptId ''attemptId'')
         (rthen (assertNonEmpty threadId ''threadId'')
         (rthen (assertNonEmpty envId ''environmentId'')
            (let j' = j\<lparr>environmentId := Some envId\<rparr> in Inr (j', emitEffect j' effects render_status []))))
      | PLAN_READY attemptId \<Rightarrow>
          rthen (assertNonEmpty attemptId ''attemptId'')
            (if planCycle j \<ge> 1
             then (let j' = j\<lparr>state := CreatingImplementation\<rparr>
                   in Inr (j', emitEffect j' effects spawn_implementation [(''planAttemptId'', JStr attemptId)]))
             else (let j' = j\<lparr>state := Critiquing\<rparr>
                   in Inr (j', emitEffect j' effects spawn_critique [(''planAttemptId'', JStr attemptId)])))
      | _ \<Rightarrow> illegal j e)"

definition planBlockSummary :: "string \<Rightarrow> string result" where
  "planBlockSummary summary =
     (let combined = ''Plan needs revision: '' @ js_trim summary;
          clipped = (if length combined \<le> MAX_FAILURE_SUMMARY_LENGTH then combined
                     else take MAX_FAILURE_SUMMARY_LENGTH combined)
      in rthen (assertSafeFailureSummary clipped) (Inr clipped))"

definition transitionCritiquing :: "job \<Rightarrow> job_event \<Rightarrow> job_effect list \<Rightarrow> job_step" where
  "transitionCritiquing j e effects =
     (case e of
        CRITIQUE_PASSED attemptId \<Rightarrow>
          rthen (assertNonEmpty attemptId ''attemptId'')
            (let j' = j\<lparr>state := CreatingImplementation\<rparr>
             in Inr (j', emitEffect j' effects spawn_implementation [(''critiqueAttemptId'', JStr attemptId)]))
      | CRITIQUE_NEEDS_REVISION attemptId summary \<Rightarrow>
          rthen (assertNonEmpty attemptId ''attemptId'')
         (rthen (assertSummary (Some summary) ''summary'')
         (rthen (assertNonEmpty summary ''summary'')
            (let j1 = j\<lparr>planCycle := planCycle j + 1\<rparr> in
             if planCycle j1 \<ge> 2
             then rbind (planBlockSummary summary) (\<lambda>msg.
                    let j2 = j1\<lparr>state := Blocked, blockedReason := Some PlanLimit, lastError := Some msg\<rparr>
                    in Inr (j2, emitEffect j2 effects render_status []))
             else (let j2 = j1\<lparr>state := Planning\<rparr>
                   in Inr (j2, emitEffect j2 effects spawn_plan
                        [(''critiqueAttemptId'', JStr attemptId), (''summary'', JStr summary)])))))
      | _ \<Rightarrow> illegal j e)"

definition transitionCreatingImplementation :: "job \<Rightarrow> job_event \<Rightarrow> job_effect list \<Rightarrow> job_step" where
  "transitionCreatingImplementation j e effects =
     (case e of
        IMPLEMENTATION_CREATED threadId envId \<Rightarrow>
          rthen (assertNonEmpty threadId ''threadId'')
         (rthen (assertNonEmpty envId ''environmentId'')
            (let j' = j\<lparr>implementationThreadId := Some threadId, environmentId := Some envId, state := Implementing\<rparr>
             in Inr (j', emitEffect j' effects render_status [])))
      | _ \<Rightarrow> illegal j e)"

definition pr_number_ok :: "js_number \<Rightarrow> unit result" where
  "pr_number_ok n = guard (is_integer n \<and> 1 \<le> whole n) (TypeError ''PR number must be positive'')"

definition transitionImplementing :: "job \<Rightarrow> job_event \<Rightarrow> job_effect list \<Rightarrow> job_step" where
  "transitionImplementing j e effects =
     (if isNavigatorJob j then
        (case e of
           RELEASE_STARTED n url envId \<Rightarrow>
             rthen (pr_number_ok n)
            (rthen (assertNonEmpty url ''url'')
            (rthen (assertNonEmpty envId ''environmentId'')
               (let j' = j\<lparr>prNumber := Some (whole n), prUrl := Some url, environmentId := Some envId,
                           state := ResolvingPrHead\<rparr>
                in Inr (j', emitEffect j' effects resolve_pr_head
                     [(''number'', JNum (whole n)), (''url'', JStr url)]))))
         | _ \<Rightarrow> illegal j e)
      else (case e of
           IMPLEMENTATION_IDLE \<Rightarrow> Inr (enterLocatingPr j effects)
         | _ \<Rightarrow> illegal j e))"

definition transitionLocatingPr :: "job \<Rightarrow> job_event \<Rightarrow> job_effect list \<Rightarrow> job_step" where
  "transitionLocatingPr j e effects =
     (case e of
        PR_LOCATED n url \<Rightarrow>
          rthen (pr_number_ok n)
         (rthen (assertNonEmpty url ''url'')
            (let j' = j\<lparr>prNumber := Some (whole n), prUrl := Some url, state := ResolvingPrHead\<rparr>
             in Inr (j', emitEffect j' effects resolve_pr_head
                  [(''number'', JNum (whole n)), (''url'', JStr url)])))
      | PR_MISSING reason \<Rightarrow> failJob j effects (opt_default reason (event_type e))
      | PR_UNAVAILABLE reason \<Rightarrow> failJob j effects (opt_default reason (event_type e))
      | _ \<Rightarrow> illegal j e)"

definition transitionResolvingPrHead :: "job \<Rightarrow> job_event \<Rightarrow> job_effect list \<Rightarrow> job_step" where
  "transitionResolvingPrHead j e effects =
     (case e of
        PR_MISSING reason \<Rightarrow> failJob j effects (opt_default reason (event_type e))
      | PR_UNAVAILABLE reason \<Rightarrow> failJob j effects (opt_default reason (event_type e))
      | PR_HEAD_RESOLVED sha \<Rightarrow>
          rthen (assertHeadSha sha)
            (let j' = j\<lparr>prHeadSha := Some sha, state := Validating\<rparr>
             in Inr (j', emitEffect j' effects run_validation [(''headSha'', JStr sha)]))
      | _ \<Rightarrow> illegal j e)"

subsection \<open>The handlers, review to approval\<close>

text \<open>\<open>/^[0-9a-f]{64}$/u\<close> and \<open>/^[a-z][a-z0-9._:-]{0,127}$/u\<close>\<close>

definition digest_regex :: regex where
  "digest_regex = r_seq [RStart, RRep hex_class 64 (Some 64), REnd]"

definition doc_reason_regex :: regex where
  "doc_reason_regex = r_seq [RStart, RClass (CC False [(CHR ''a'', CHR ''z'')]),
     RRep (RClass (CC False [(CHR ''a'', CHR ''z''), (CHR ''0'', CHR ''9''), (CHR ''.'', CHR ''.''),
       (CHR ''_'', CHR ''_''), (CHR '':'', CHR '':''), (CHR ''-'', CHR ''-'')])) 0 (Some 127), REnd]"

definition documentation_evidence_ok :: "documentation_evidence \<Rightarrow> bool" where
  "documentation_evidence_ok d \<longleftrightarrow>
     regex_test False digest_regex (diffDigest d) \<and> length (docReasons d) \<le> 16 \<and>
     list_all (regex_test False doc_reason_regex) (docReasons d) \<and>
     (if docRequired d then docReasons d \<noteq> [] else docReasons d = [])"

definition enterApproval :: "job \<Rightarrow> job_effect list \<Rightarrow> string \<Rightarrow> job \<times> job_effect list" where
  "enterApproval j effects sha =
     (let j' = j\<lparr>state := AwaitingMergeApproval\<rparr>
      in (j', emitEffect j' effects issue_approval [(''headSha'', JStr sha)]))"

definition transitionReviewPassed :: "job \<Rightarrow> job_event \<Rightarrow> job_effect list \<Rightarrow> job_step" where
  "transitionReviewPassed j e effects =
     (case e of
        REVIEW_PASSED sha documentation \<Rightarrow>
          rthen (assertHeadSha sha)
            (if \<not> headMatches j (Some sha) then Inr (invalidateDriftedHead j effects)
             else if isNavigatorJob j then
               (if (case documentation of None \<Rightarrow> False | Some d \<Rightarrow> docRequired d)
                then Inr (returnNavigatorToNavigation j effects)
                else if is_merge_candidate j then Inr (enterApproval j effects sha)
                else Inr (completeReviewedWork j effects))
             else if routingMode j = ActiveRouting then
               (case documentation of
                  None \<Rightarrow> Inl (TypeError ''Active review completion requires exact documentation diff evidence'')
                | Some d \<Rightarrow>
                  if \<not> documentation_evidence_ok d
                  then Inl (TypeError ''Active review completion requires exact documentation diff evidence'')
                  else if docRequired d then
                    (let j' = j\<lparr>state := Documenting\<rparr>
                     in Inr (j', emitEffect j' effects spawn_docs
                          [(''headSha'', JStr sha), (''diffDigest'', JStr (diffDigest d)),
                           (''reasons'', JList (map JStr (docReasons d)))]))
                  else if review_mode (recipeExecutionPolicy (taskRecipe j)) = TaskAndIntegrated then
                    (let j' = j\<lparr>state := FinalValidating\<rparr>
                     in Inr (j', emitEffect j' effects run_final_validation [(''headSha'', JStr sha)]))
                  else if is_merge_candidate j then Inr (enterApproval j effects sha)
                  else Inr (completeReviewedWork j effects))
             else if isSmallFixJob j then Inr (completeReviewedWork j effects)
             else (let j' = j\<lparr>state := Documenting\<rparr>
                   in Inr (j', emitEffect j' effects spawn_docs [(''headSha'', JStr sha)])))
      | _ \<Rightarrow> illegal j e)"

fun severity_name :: "review_severity \<Rightarrow> string" where
  "severity_name SevCritical = ''critical''"
| "severity_name SevHigh = ''high''"
| "severity_name SevMedium = ''medium''"
| "severity_name SevLow = ''low''"

definition finding_json :: "review_finding \<Rightarrow> jval" where
  "finding_json f = JObj
     [(''severity'', JStr (severity_name (severity f))), (''file'', jstr_opt (findingFile f)),
      (''line'', jint_opt (findingLine f)), (''title'', JStr (findingTitle f)),
      (''details'', JStr (findingDetails f))]"

definition enterPatch ::
  "job \<Rightarrow> job_effect list \<Rightarrow> string \<Rightarrow> review_finding list option \<Rightarrow> string list option \<Rightarrow> job_step" where
  "enterPatch j effects summary findings reasons =
     rthen (assertSummary (Some summary) ''summary'')
       (let j1 = j\<lparr>reviewCycle := reviewCycle j + 1\<rparr> in
        if reviewCycle j1 \<ge> reviewBlockAt j1
        then (let j2 = j1\<lparr>state := Blocked, blockedReason := Some ReviewLimit,
                          lastError := Some ''Patch, test, and review limit reached''\<rparr>
              in Inr (j2, emitEffect j2 effects render_status []))
        else (let j2 = j1\<lparr>state := Remediating\<rparr>
              in Inr (j2, emitEffect j2 effects send_remediation
                   [(''summary'', JStr summary),
                    (''findings'', JList (map finding_json (take 20 (opt_default findings [])))),
                    (''reasons'', JList (map JStr (take 20 (opt_default reasons []))))])))"

definition transitionReviewChanges :: "job \<Rightarrow> job_event \<Rightarrow> job_effect list \<Rightarrow> job_step" where
  "transitionReviewChanges j e effects =
     (case e of
        REVIEW_CHANGES_REQUESTED sha summary findings reasons \<Rightarrow>
          rthen (assertSummary summary ''summary'')
            (if \<not> headMatches j sha then Inr (invalidateDriftedHead j effects)
             else if isNavigatorJob j then Inr (returnNavigatorToNavigation j effects)
             else enterPatch j effects (opt_default summary ''Review requested changes'') findings reasons)
      | _ \<Rightarrow> illegal j e)"

definition blockReview :: "job \<Rightarrow> job_effect list \<Rightarrow> review_block_reason option \<Rightarrow> job \<times> job_effect list" where
  "blockReview j effects reason =
     (let j' = j\<lparr>state := Blocked, blockedReason := Some (review_block (opt_default reason BlockConfiguration))\<rparr>
      in (j', emitEffect j' effects render_status []))"

definition transitionReviewing :: "job \<Rightarrow> job_event \<Rightarrow> job_effect list \<Rightarrow> job_step" where
  "transitionReviewing j e effects =
     (case e of
        REVIEW_STARTED \<Rightarrow> Inr (j, effects)
      | REVIEW_PASSED _ _ \<Rightarrow> transitionReviewPassed j e effects
      | REVIEW_CHANGES_REQUESTED _ _ _ _ \<Rightarrow> transitionReviewChanges j e effects
      | REVIEW_BLOCKED reason \<Rightarrow> Inr (blockReview j effects reason)
      | _ \<Rightarrow> illegal j e)"

definition transitionRemediating :: "job \<Rightarrow> job_event \<Rightarrow> job_effect list \<Rightarrow> job_step" where
  "transitionRemediating j e effects =
     (case e of
        REMEDIATION_SENT \<Rightarrow> Inr (j\<lparr>state := Implementing\<rparr>, effects)
      | IMPLEMENTATION_IDLE \<Rightarrow> Inr (enterLocatingPr j effects)
      | _ \<Rightarrow> illegal j e)"

definition transitionValidationPassed :: "job \<Rightarrow> job_event \<Rightarrow> job_effect list \<Rightarrow> job_step" where
  "transitionValidationPassed j e effects =
     (case e of
        VALIDATION_PASSED sha \<Rightarrow>
          rthen (assertHeadSha sha)
            (if \<not> headMatches j (Some sha) then Inr (invalidateDriftedHead j effects)
             else (let j' = j\<lparr>state := Reviewing\<rparr>
                   in Inr (j', emitEffect j' effects spawn_review [(''headSha'', JStr sha)])))
      | _ \<Rightarrow> illegal j e)"

definition transitionValidationFailed :: "job \<Rightarrow> job_event \<Rightarrow> job_effect list \<Rightarrow> job_step" where
  "transitionValidationFailed j e effects =
     (case e of
        VALIDATION_FAILED sha reason \<Rightarrow>
          (let proceed = (if isNavigatorJob j then Inr (returnNavigatorToNavigation j effects)
                          else enterPatch j effects (opt_default reason ''Validation failed'') None None)
           in case sha of
                None \<Rightarrow> proceed
              | Some h \<Rightarrow> rthen (assertHeadSha h)
                  (if \<not> headMatches j (Some h) then Inr (invalidateDriftedHead j effects) else proceed))
      | _ \<Rightarrow> illegal j e)"

definition transitionValidating :: "job \<Rightarrow> job_event \<Rightarrow> job_effect list \<Rightarrow> job_step" where
  "transitionValidating j e effects =
     (case e of
        VALIDATION_PASSED _ \<Rightarrow> transitionValidationPassed j e effects
      | VALIDATION_FAILED _ _ \<Rightarrow> transitionValidationFailed j e effects
      | _ \<Rightarrow> illegal j e)"

definition transitionDocumenting :: "job \<Rightarrow> job_event \<Rightarrow> job_effect list \<Rightarrow> job_step" where
  "transitionDocumenting j e effects =
     (case e of
        DOCS_CREATED attemptId threadId envId \<Rightarrow>
          rthen (assertNonEmpty attemptId ''attemptId'')
         (rthen (assertNonEmpty threadId ''threadId'')
         (rthen (assertNonEmpty envId ''environmentId'')
         (rthen (guard (environmentId j = Some envId) (TypeError ''Docs must reuse the implementation environment''))
            (let j' = j\<lparr>documentationThreadId := Some threadId\<rparr>
             in Inr (j', emitEffect j' effects render_status [])))))
      | DOCS_IDLE \<Rightarrow>
          (let (j1, es1) = clearHeadAndReceipts j effects; j2 = j1\<lparr>state := ResolvingDocsHead\<rparr>
           in Inr (j2, emitEffect j2 es1 resolve_pr_head
                (if truthy_int (prNumber j2) then [(''number'', JNum (the (prNumber j2)))] else [])))
      | _ \<Rightarrow> illegal j e)"

definition transitionResolvingDocsHead :: "job \<Rightarrow> job_event \<Rightarrow> job_effect list \<Rightarrow> job_step" where
  "transitionResolvingDocsHead j e effects =
     (case e of
        PR_MISSING reason \<Rightarrow> failJob j effects (opt_default reason (event_type e))
      | PR_UNAVAILABLE reason \<Rightarrow> failJob j effects (opt_default reason (event_type e))
      | PR_HEAD_RESOLVED sha \<Rightarrow>
          rthen (assertHeadSha sha)
            (let j' = j\<lparr>prHeadSha := Some sha, state := FinalValidating\<rparr>
             in Inr (j', emitEffect j' effects run_final_validation [(''headSha'', JStr sha)]))
      | _ \<Rightarrow> illegal j e)"

definition transitionFinalValidating :: "job \<Rightarrow> job_event \<Rightarrow> job_effect list \<Rightarrow> job_step" where
  "transitionFinalValidating j e effects =
     (case e of
        VALIDATION_PASSED sha \<Rightarrow>
          rthen (assertHeadSha sha)
            (if \<not> headMatches j (Some sha) then Inr (invalidateDriftedHead j effects)
             else (let j' = j\<lparr>state := FinalReviewing\<rparr>
                   in Inr (j', emitEffect j' effects spawn_final_review [(''headSha'', JStr sha)])))
      | VALIDATION_FAILED _ _ \<Rightarrow> transitionValidationFailed j e effects
      | _ \<Rightarrow> illegal j e)"

definition transitionFinalReviewing :: "job \<Rightarrow> job_event \<Rightarrow> job_effect list \<Rightarrow> job_step" where
  "transitionFinalReviewing j e effects =
     (case e of
        REVIEW_STARTED \<Rightarrow> Inr (j, effects)
      | REVIEW_PASSED sha _ \<Rightarrow>
          rthen (assertHeadSha sha)
            (if \<not> headMatches j (Some sha) then Inr (invalidateDriftedHead j effects)
             else if policy_production j = None \<and> \<not> mergesWithoutProduction (policy j) \<and> \<not> taskRequiresRelease j
             then Inr (completeReviewedWork j effects)
             else Inr (enterApproval j effects sha))
      | REVIEW_CHANGES_REQUESTED _ _ _ _ \<Rightarrow> transitionReviewChanges j e effects
      | REVIEW_BLOCKED reason \<Rightarrow> Inr (blockReview j effects reason)
      | _ \<Rightarrow> illegal j e)"

definition transitionApprovalAccepted :: "job \<Rightarrow> job_event \<Rightarrow> job_effect list \<Rightarrow> job_step" where
  "transitionApprovalAccepted j e effects =
     (case e of
        APPROVAL_ACCEPTED sha \<Rightarrow>
          rthen (assertHeadSha sha)
            (if \<not> headMatches j (Some sha) then Inr (invalidateDriftedHead j effects)
             else (let j' = j\<lparr>mergePreApprovedAt := None, state := Merging\<rparr>
                   in Inr (j', emitEffect j' effects merge_pr [(''headSha'', JStr sha)])))
      | _ \<Rightarrow> illegal j e)"

definition transitionAwaitingMergeApproval :: "job \<Rightarrow> job_event \<Rightarrow> job_effect list \<Rightarrow> job_step" where
  "transitionAwaitingMergeApproval j e effects =
     (case e of
        APPROVAL_ACCEPTED _ \<Rightarrow> transitionApprovalAccepted j e effects
      | APPROVAL_STALE sha \<Rightarrow>
          rthen (case sha of None \<Rightarrow> Inr () | Some h \<Rightarrow> assertHeadSha h) (Inr (invalidateDriftedHead j effects))
      | CONSENSUS_REQUIRED sha \<Rightarrow>
          rthen (assertHeadSha sha)
            (if \<not> headMatches j (Some sha) then Inr (invalidateDriftedHead j effects)
             else Inr (j, emitEffect j effects spawn_consensus_review [(''headSha'', JStr sha)]))
      | CONSENSUS_SETTLED sha \<Rightarrow>
          rthen (assertHeadSha sha)
            (if \<not> headMatches j (Some sha) then Inr (invalidateDriftedHead j effects)
             else Inr (j, emitEffect j effects issue_approval [(''headSha'', JStr sha)]))
      | REMEDIATION_CONTINUED reason \<Rightarrow>
          rthen (assertSummary (Some reason) ''reason'')
            (let j' = j\<lparr>state := Remediating\<rparr>
             in Inr (j', emitEffect j' effects send_remediation
                  [(''summary'', JStr reason), (''findings'', JList []), (''reasons'', JList [JStr reason])]))
      | _ \<Rightarrow> illegal j e)"

subsection \<open>The handlers, merge to production\<close>

definition enterProductionIncident :: "job \<Rightarrow> job_effect list \<Rightarrow> string \<Rightarrow> job_step" where
  "enterProductionIncident j effects reason =
     rthen (assertSafeFailureSummary reason)
       (let j' = j\<lparr>lastError := Some reason, state := ProductionFailed\<rparr>
        in Inr (j', emitEffect j' effects render_status []))"

definition transitionMerging :: "js_runtime \<Rightarrow> job \<Rightarrow> job_event \<Rightarrow> job_effect list \<Rightarrow> job_step" where
  "transitionMerging rt j e effects =
     (case e of
        MERGE_SUCCEEDED message sha at verified \<Rightarrow>
          rthen (assertSummary (Some message) ''message'')
         (rthen (assertNonEmpty message ''message'')
         (rthen (assertHeadSha sha)
         (rthen (guard (length at \<le> 128 \<and> date_parse rt at \<noteq> None) (TypeError ''mergedAt must be a bounded timestamp''))
            (let j1 = j\<lparr>mergeMessage := Some message, mergeCommitSha := Some sha, mergedAt := Some at\<rparr> in
             if \<not> verified
             then enterProductionIncident j1 effects
                    ''Merge succeeded but the base branch did not verify the approved content''
             else if List.member (taskConstraints j1) NoDeploy then Inr (completeMergedWork j1 effects)
             else if policy_production j1 = None then
               (if mergesWithoutProduction (policy j1) then Inr (completeMergedWork j1 effects)
                else enterProductionIncident j1 effects
                       ''Merge succeeded but production deployment and canary are not configured'')
             else (let j2 = j1\<lparr>state := Deploying\<rparr>
                   in Inr (j2, emitEffect j2 (emitEffect j2 effects render_status []) deploy_production []))))))
      | MERGE_FAILED reason \<Rightarrow> failJob j effects (opt_default reason ''Merge failed'')
      | _ \<Rightarrow> illegal j e)"

definition recoverIncident ::
  "job \<Rightarrow> job_event \<Rightarrow> incident_phase \<Rightarrow> incident_phase \<Rightarrow> string \<Rightarrow> job_effect list \<Rightarrow> job_step" where
  "recoverIncident j e expected phase reason effects =
     (if \<not> isNavigatorJob j \<or> phase \<noteq> expected then illegal j e
      else rthen (assertSafeFailureSummary reason) (Inr (returnNavigatorToNavigation j effects)))"

definition transitionDeploying :: "job \<Rightarrow> job_event \<Rightarrow> job_effect list \<Rightarrow> job_step" where
  "transitionDeploying j e effects =
     (case e of
        PRODUCTION_INCIDENT_RECOVERED phase reason \<Rightarrow> recoverIncident j e DeployPhase phase reason effects
      | DEPLOY_SUCCEEDED summary \<Rightarrow>
          rthen (assertSummary (Some summary) ''summary'')
         (rthen (assertNonEmpty summary ''summary'')
            (let j' = j\<lparr>deploymentSummary := Some summary, state := VerifyingProduction\<rparr>
             in Inr (j', emitEffect j' (emitEffect j' effects render_status []) verify_production [])))
      | DEPLOY_FAILED reason \<Rightarrow> enterProductionIncident j effects reason
      | _ \<Rightarrow> illegal j e)"

definition transitionVerifyingProduction :: "job \<Rightarrow> job_event \<Rightarrow> job_effect list \<Rightarrow> job_step" where
  "transitionVerifyingProduction j e effects =
     (case e of
        PRODUCTION_INCIDENT_RECOVERED phase reason \<Rightarrow> recoverIncident j e CanaryPhase phase reason effects
      | CANARY_SUCCEEDED summary \<Rightarrow>
          rthen (assertSummary (Some summary) ''summary'')
         (rthen (assertNonEmpty summary ''summary'')
            (let j' = j\<lparr>canarySummary := Some summary, state := Complete\<rparr>
             in Inr (j', emitEffect j' effects render_status [])))
      | CANARY_FAILED reason \<Rightarrow> enterProductionIncident j effects reason
      | _ \<Rightarrow> illegal j e)"

subsection \<open>The handlers, stopped jobs\<close>

definition transitionFailed :: "job \<Rightarrow> job_event \<Rightarrow> job_effect list \<Rightarrow> job_step" where
  "transitionFailed j e effects =
     (case (e, resumeState j) of
        (RETRY, Some s) \<Rightarrow>
          (if shouldResumeExistingPr j then Inr (resumeFromExistingPr j effects)
           else retryEffect (j\<lparr>state := s, resumeState := None, lastError := None\<rparr>) effects s [])
      | _ \<Rightarrow> illegal j e)"

definition resumeIntoPatching :: "job \<Rightarrow> job_effect list \<Rightarrow> job \<times> job_effect list" where
  "resumeIntoPatching j effects =
     (let j' = j\<lparr>blockedReason := None, lastError := None, reviewBlockAt := reviewCycle j + 3,
                 state := Remediating\<rparr>
      in (j', emitEffect j' effects send_remediation
           [(''summary'', JStr ''Address the outstanding review findings that stopped this job at its review limit.''),
            (''findings'', JList []), (''reasons'', JList [])]))"

definition transitionBlocked :: "job \<Rightarrow> job_event \<Rightarrow> job_effect list \<Rightarrow> job_step" where
  "transitionBlocked j e effects =
     (if e = RETRY then
        (if \<not> isResumablePermanentFailure j then illegal j e
         else (case resumeState j of
             None \<Rightarrow> illegal j e
           | Some s \<Rightarrow>
               if shouldResumeExistingPr j then Inr (resumeFromExistingPr j effects)
               else retryEffect (j\<lparr>state := s, resumeState := None, blockedReason := None, lastError := None\<rparr>)
                      effects s []))
      else if e \<noteq> CONTINUE_REVIEW then illegal j e
      else if blockedReason j = Some CancellationUnconfirmed then illegal j e
      else if isReviewedPrCompletionBlock j then Inr (completeReviewedWork j effects)
      else if blockedReason j = Some ReviewLimit \<and> \<not> isResumablePlanBlock j then Inr (resumeIntoPatching j effects)
      else if prNumber j \<noteq> None then
        (if isResumableConfigurationBlock j
         then Inr (invalidateDriftedHead (j\<lparr>blockedReason := None, lastError := None, resumeState := None\<rparr>) effects)
         else Inr (resumeFromExistingPr j effects))
      else if isResumablePlanBlock j then
        (let j' = j\<lparr>blockedReason := None, lastError := None, planCycle := 0, state := Planning\<rparr>
         in Inr (j', emitEffect j' effects spawn_plan []))
      else illegal j e)"

definition transitionTerminal :: "job \<Rightarrow> job_event \<Rightarrow> job_step" where
  "transitionTerminal j e = illegal j e"

subsection \<open>The reducer\<close>

fun state_handler :: "js_runtime \<Rightarrow> job_state \<Rightarrow> job \<Rightarrow> job_event \<Rightarrow> job_effect list \<Rightarrow> job_step" where
  "state_handler rt AwaitingProject j e es = transitionAwaitingProject rt j e es"
| "state_handler rt AwaitingConfirmation j e es = transitionAwaitingConfirmation j e es"
| "state_handler rt Planning j e es = transitionPlanning j e es"
| "state_handler rt Critiquing j e es = transitionCritiquing j e es"
| "state_handler rt CreatingImplementation j e es = transitionCreatingImplementation j e es"
| "state_handler rt Implementing j e es = transitionImplementing j e es"
| "state_handler rt LocatingPr j e es = transitionLocatingPr j e es"
| "state_handler rt ResolvingPrHead j e es = transitionResolvingPrHead j e es"
| "state_handler rt Reviewing j e es = transitionReviewing j e es"
| "state_handler rt Remediating j e es = transitionRemediating j e es"
| "state_handler rt Validating j e es = transitionValidating j e es"
| "state_handler rt Documenting j e es = transitionDocumenting j e es"
| "state_handler rt ResolvingDocsHead j e es = transitionResolvingDocsHead j e es"
| "state_handler rt FinalValidating j e es = transitionFinalValidating j e es"
| "state_handler rt FinalReviewing j e es = transitionFinalReviewing j e es"
| "state_handler rt AwaitingMergeApproval j e es = transitionAwaitingMergeApproval j e es"
| "state_handler rt Merging j e es = transitionMerging rt j e es"
| "state_handler rt Deploying j e es = transitionDeploying j e es"
| "state_handler rt VerifyingProduction j e es = transitionVerifyingProduction j e es"
| "state_handler rt RecoveringWorker j e es = transitionRecoveringWorker j e es"
| "state_handler rt ProductionFailed j e es = transitionTerminal j e"
| "state_handler rt Complete j e es = transitionTerminal j e"
| "state_handler rt Failed j e es = transitionFailed j e es"
| "state_handler rt Blocked j e es = transitionBlocked j e es"
| "state_handler rt Cancelled j e es = transitionTerminal j e"
| "state_handler rt Merged j e es = transitionTerminal j e"

definition finish_step :: "int \<Rightarrow> job_step \<Rightarrow> job_step" where
  "finish_step now r = rbind r (\<lambda>(j, es). Inr (finish j es now))"

definition transition :: "js_runtime \<Rightarrow> job \<Rightarrow> job_event \<Rightarrow> int \<Rightarrow> job_step" where
  "transition rt j e now =
     (case e of
        CANCEL_REQUESTED activeWorker activeWorkers \<Rightarrow> applyCancellation j activeWorker activeWorkers [] now
      | CANCEL_CONFIRMED \<Rightarrow>
          (if cancelRequestedAt j = None \<or> List.member [Cancelled, Merged, ProductionFailed, Complete] (state j)
           then illegal j e
           else (let j' = j\<lparr>state := Cancelled\<rparr> in Inr (finish j' (emitEffect j' [] render_status []) now)))
      | CANCELLATION_UNCONFIRMED reason \<Rightarrow> applyCancellationUnconfirmed j reason [] now
      | _ \<Rightarrow>
          if cancelRequestedAt j \<noteq> None then Inr (finish j [] now)
          else (case e of
              FAILED err \<Rightarrow> finish_step now (failJob j [] err)
            | THREAD_FAILED err \<Rightarrow> finish_step now (failOnThread j [] err)
            | WORKER_RECOVERY_REQUESTED rid wk res cls sig p \<Rightarrow>
                finish_step now (requestWorkerRecovery j rid wk res cls sig p [])
            | _ \<Rightarrow> finish_step now (state_handler rt (state j) j e [])))"

end
