(* ===== verification/Pipeline_Steps.thy ===== *)
theory Pipeline_Steps
  imports Job_State_Machine
begin

text \<open>
  The abstract specification of the reducer: one rule of \<open>pipeline_step\<close> for each way a state
  handler can succeed, with its guard, the fields it writes and the effects it emits.  The
  refinement lemma \<open>state_handler_refines\<close> says that every success of the code's handlers is
  such a step; the lemmas \<open>transition_cases\<close> and \<open>transition_job_cases\<close> add the events that
  \<open>transition\<close> treats before the handlers.  Properties of the state machine are proved by cases
  on these rules.
\<close>

subsection \<open>Effects of one transition\<close>

definition effs :: "job \<Rightarrow> (effect_kind \<times> js_object) list \<Rightarrow> job_effect list" where
  "effs j kps = map (\<lambda>(k, p). \<lparr>idempotencyKey = effect_key (job_id j) (version j + 1) k,
                              effectJobId = job_id j, kind = k, payload = p\<rparr>) kps"

lemma effs_Nil: "effs j [] = []"
  by (simp add: effs_def)

lemma emit_effs:
  assumes "job_id j' = job_id j" "version j' = version j"
  shows "emitEffect j' (effs j kps) k p = effs j (kps @ [(k, p)])"
  using assms by (simp add: emitEffect_def effs_def)

lemma emit_first:
  assumes "job_id j' = job_id j" "version j' = version j"
  shows "emitEffect j' [] k p = effs j [(k, p)]"
  using emit_effs [OF assms, of "[]"] by (simp add: effs_Nil)

lemma emit_second:
  assumes "job_id j' = job_id j" "version j' = version j"
  shows "emitEffect j' (effs j [a]) k p = effs j [a, (k, p)]"
  using emit_effs [OF assms, of "[a]"] by simp

lemma kinds_effs [simp]: "map kind (effs j kps) = map fst kps"
  by (simp add: effs_def comp_def case_prod_beta)

lemma payload_effs: "x \<in> set (effs j kps) \<Longrightarrow> (kind x, payload x) \<in> set kps"
  by (auto simp: effs_def)

lemma keys_effs: "map idempotencyKey (effs j kps) = map (effect_key (job_id j) (version j + 1)) (map fst kps)"
  by (simp add: effs_def comp_def case_prod_beta)

text \<open>The list of kinds an operation emits, each effect under the key of this job and version.\<close>

definition emits :: "job \<Rightarrow> effect_kind list \<Rightarrow> job_effect list \<Rightarrow> bool" where
  "emits j ks es \<longleftrightarrow> map kind es = ks \<and>
     list_all (\<lambda>x. effectJobId x = job_id j \<and> idempotencyKey x = effect_key (job_id j) (version j + 1) (kind x)) es"

lemma emits_effs: "emits j (map fst kps) (effs j kps)"
  by (auto simp: emits_def effs_def list_all_iff)

lemma emits_kinds: "emits j ks es \<Longrightarrow> kind ` set es = set ks"
  by (auto simp: emits_def)

lemma emits_keys:
  assumes "emits j ks es"
  shows "map idempotencyKey es = map (effect_key (job_id j) (version j + 1)) ks"
proof -
  have "map idempotencyKey es = map (effect_key (job_id j) (version j + 1)) (map kind es)"
    using assms by (auto simp: emits_def list_all_iff)
  with assms show ?thesis by (simp add: emits_def)
qed

subsection \<open>The steps\<close>

definition safe_summary :: "string \<Rightarrow> bool" where
  "safe_summary s \<longleftrightarrow> s \<noteq> [] \<and> length s \<le> 500 \<and> \<not> containsCredentialLikeText s"

definition valid_head :: "string \<Rightarrow> bool" where
  "valid_head sha \<longleftrightarrow> regex_test False HEAD_SHA sha"

text \<open>A block that neither the review limit nor an unconfirmed cancellation holds.\<close>

definition open_block :: "job \<Rightarrow> bool" where
  "open_block j \<longleftrightarrow> state j = Blocked \<and> blockedReason j \<notin> {Some ReviewLimit, Some CancellationUnconfirmed}"

inductive pipeline_step :: "js_runtime \<Rightarrow> job \<Rightarrow> job_event \<Rightarrow> job \<Rightarrow> job_effect list \<Rightarrow> bool"
  for rt :: js_runtime and j :: job where
  select_project: "state j = AwaitingProject \<Longrightarrow> policyProjectId pol = pid \<Longrightarrow> is_integer ver \<Longrightarrow>
    1 \<le> whole ver \<Longrightarrow> policy_fields_ok pol \<Longrightarrow> policy_rules_ok rt pol \<Longrightarrow>
    j' = j\<lparr>policy := Some pol, projectId := Some pid, policyVersion := Some (whole ver),
           reviewBlockAt := maxReviewCycles pol, state := AwaitingConfirmation\<rparr> \<Longrightarrow>
    emits j [render_status] es \<Longrightarrow> pipeline_step rt j (PROJECT_SELECTED pid ver pol) j' es"
| confirm_build: "state j = AwaitingConfirmation \<Longrightarrow> j' = j\<lparr>state := CreatingImplementation\<rparr> \<Longrightarrow>
    emits j [spawn_implementation] es \<Longrightarrow> pipeline_step rt j CONFIRMED j' es"
| confirm_navigate: "state j = AwaitingConfirmation \<Longrightarrow> isNavigatorJob j \<Longrightarrow>
    j' = j\<lparr>state := Implementing\<rparr> \<Longrightarrow> emits j [render_status] es \<Longrightarrow> pipeline_step rt j CONFIRMED j' es"
| confirm_plan: "state j = AwaitingConfirmation \<Longrightarrow> \<not> isNavigatorJob j \<Longrightarrow> j' = j\<lparr>state := Planning\<rparr> \<Longrightarrow>
    emits j [spawn_plan] es \<Longrightarrow> pipeline_step rt j CONFIRMED j' es"
| plan_created: "state j = Planning \<Longrightarrow> j' = j\<lparr>environmentId := Some env\<rparr> \<Longrightarrow>
    emits j [render_status] es \<Longrightarrow> pipeline_step rt j (PLAN_CREATED a t env) j' es"
| plan_accepted: "state j = Planning \<Longrightarrow> 1 \<le> planCycle j \<Longrightarrow> j' = j\<lparr>state := CreatingImplementation\<rparr> \<Longrightarrow>
    emits j [spawn_implementation] es \<Longrightarrow> pipeline_step rt j (PLAN_READY a) j' es"
| plan_to_critique: "state j = Planning \<Longrightarrow> planCycle j < 1 \<Longrightarrow> j' = j\<lparr>state := Critiquing\<rparr> \<Longrightarrow>
    emits j [spawn_critique] es \<Longrightarrow> pipeline_step rt j (PLAN_READY a) j' es"
| critique_passed: "state j = Critiquing \<Longrightarrow> j' = j\<lparr>state := CreatingImplementation\<rparr> \<Longrightarrow>
    emits j [spawn_implementation] es \<Longrightarrow> pipeline_step rt j (CRITIQUE_PASSED a) j' es"
| critique_limit: "state j = Critiquing \<Longrightarrow> 2 \<le> planCycle j + 1 \<Longrightarrow> safe_summary msg \<Longrightarrow>
    j' = j\<lparr>planCycle := planCycle j + 1, state := Blocked, blockedReason := Some PlanLimit, lastError := Some msg\<rparr> \<Longrightarrow>
    emits j [render_status] es \<Longrightarrow> pipeline_step rt j (CRITIQUE_NEEDS_REVISION a s) j' es"
| critique_replan: "state j = Critiquing \<Longrightarrow> planCycle j + 1 < 2 \<Longrightarrow>
    j' = j\<lparr>planCycle := planCycle j + 1, state := Planning\<rparr> \<Longrightarrow>
    emits j [spawn_plan] es \<Longrightarrow> pipeline_step rt j (CRITIQUE_NEEDS_REVISION a s) j' es"
| implementation_created: "state j = CreatingImplementation \<Longrightarrow>
    j' = j\<lparr>implementationThreadId := Some t, environmentId := Some env, state := Implementing\<rparr> \<Longrightarrow>
    emits j [render_status] es \<Longrightarrow> pipeline_step rt j (IMPLEMENTATION_CREATED t env) j' es"
| release_started: "state j = Implementing \<Longrightarrow> isNavigatorJob j \<Longrightarrow> is_integer n \<Longrightarrow> 1 \<le> whole n \<Longrightarrow>
    j' = j\<lparr>prNumber := Some (whole n), prUrl := Some url, environmentId := Some env, state := ResolvingPrHead\<rparr> \<Longrightarrow>
    emits j [resolve_pr_head] es \<Longrightarrow> pipeline_step rt j (RELEASE_STARTED n url env) j' es"
| implementation_idle: "state j = Implementing \<and> \<not> isNavigatorJob j \<or> state j = Remediating \<Longrightarrow>
    j' = j\<lparr>prHeadSha := None, state := LocatingPr\<rparr> \<Longrightarrow>
    emits j [revoke_approvals, inspect_implementation] es \<Longrightarrow>
    pipeline_step rt j IMPLEMENTATION_IDLE j' es"
| pr_located: "state j = LocatingPr \<Longrightarrow> is_integer n \<Longrightarrow> 1 \<le> whole n \<Longrightarrow>
    j' = j\<lparr>prNumber := Some (whole n), prUrl := Some url, state := ResolvingPrHead\<rparr> \<Longrightarrow>
    emits j [resolve_pr_head] es \<Longrightarrow> pipeline_step rt j (PR_LOCATED n url) j' es"
| stage_failed: "state j \<in> {LocatingPr, ResolvingPrHead, ResolvingDocsHead, Merging} \<Longrightarrow> safe_summary err \<Longrightarrow>
    j' = j\<lparr>resumeState := Some (state j), lastError := Some err, state := Failed\<rparr> \<Longrightarrow>
    emits j [render_status] es \<Longrightarrow> pipeline_step rt j e j' es"
| head_resolved: "state j = ResolvingPrHead \<Longrightarrow> valid_head sha \<Longrightarrow>
    j' = j\<lparr>prHeadSha := Some sha, state := Validating\<rparr> \<Longrightarrow>
    es = effs j [(run_validation, [(''headSha'', JStr sha)])] \<Longrightarrow> pipeline_step rt j (PR_HEAD_RESOLVED sha) j' es"
| docs_head_resolved: "state j = ResolvingDocsHead \<Longrightarrow> valid_head sha \<Longrightarrow>
    j' = j\<lparr>prHeadSha := Some sha, state := FinalValidating\<rparr> \<Longrightarrow>
    es = effs j [(run_final_validation, [(''headSha'', JStr sha)])] \<Longrightarrow> pipeline_step rt j (PR_HEAD_RESOLVED sha) j' es"
| head_drifted: "state j \<in> {Validating, Reviewing, FinalValidating, FinalReviewing, AwaitingMergeApproval} \<Longrightarrow>
    j' = j\<lparr>prHeadSha := None, state := ResolvingPrHead\<rparr> \<Longrightarrow>
    emits j [revoke_approvals, resolve_pr_head] es \<Longrightarrow> pipeline_step rt j e j' es"
| navigator_return: "isNavigatorJob j \<Longrightarrow>
    state j \<in> {Validating, Reviewing, FinalValidating, FinalReviewing, Deploying, VerifyingProduction} \<Longrightarrow>
    j' = j\<lparr>prHeadSha := None, state := Implementing\<rparr> \<Longrightarrow>
    emits j [revoke_approvals, render_status] es \<Longrightarrow> pipeline_step rt j e j' es"
| validation_passed: "state j = Validating \<Longrightarrow> valid_head sha \<Longrightarrow> prHeadSha j = Some sha \<Longrightarrow>
    j' = j\<lparr>state := Reviewing\<rparr> \<Longrightarrow> es = effs j [(spawn_review, [(''headSha'', JStr sha)])] \<Longrightarrow>
    pipeline_step rt j (VALIDATION_PASSED sha) j' es"
| final_validation_passed: "state j = FinalValidating \<Longrightarrow> valid_head sha \<Longrightarrow> prHeadSha j = Some sha \<Longrightarrow>
    j' = j\<lparr>state := FinalReviewing\<rparr> \<Longrightarrow> es = effs j [(spawn_final_review, [(''headSha'', JStr sha)])] \<Longrightarrow>
    pipeline_step rt j (VALIDATION_PASSED sha) j' es"
| enter_approval: "state j = Reviewing \<or> state j = FinalReviewing \<Longrightarrow> valid_head sha \<Longrightarrow>
    prHeadSha j = Some sha \<Longrightarrow> is_merge_candidate j \<Longrightarrow> j' = j\<lparr>state := AwaitingMergeApproval\<rparr> \<Longrightarrow>
    es = effs j [(issue_approval, [(''headSha'', JStr sha)])] \<Longrightarrow> pipeline_step rt j (REVIEW_PASSED sha d) j' es"
| complete_reviewed: "state j = Reviewing \<or> state j = FinalReviewing \<Longrightarrow> valid_head sha \<Longrightarrow>
    prHeadSha j = Some sha \<Longrightarrow>
    \<not> is_merge_candidate j \<or>
      state j = Reviewing \<and> isSmallFixJob j \<and> \<not> isNavigatorJob j \<and> routingMode j \<noteq> ActiveRouting \<Longrightarrow>
    j' = j\<lparr>state := Complete, blockedReason := None, lastError := None, resumeState := None\<rparr> \<Longrightarrow>
    emits j [render_status] es \<Longrightarrow> pipeline_step rt j (REVIEW_PASSED sha d) j' es"
| enter_docs: "state j = Reviewing \<Longrightarrow> valid_head sha \<Longrightarrow> prHeadSha j = Some sha \<Longrightarrow> \<not> isNavigatorJob j \<Longrightarrow>
    j' = j\<lparr>state := Documenting\<rparr> \<Longrightarrow> emits j [spawn_docs] es \<Longrightarrow>
    pipeline_step rt j (REVIEW_PASSED sha d) j' es"
| enter_final_validation: "state j = Reviewing \<Longrightarrow> valid_head sha \<Longrightarrow> prHeadSha j = Some sha \<Longrightarrow>
    j' = j\<lparr>state := FinalValidating\<rparr> \<Longrightarrow>
    es = effs j [(run_final_validation, [(''headSha'', JStr sha)])] \<Longrightarrow> pipeline_step rt j (REVIEW_PASSED sha d) j' es"
| patch: "state j \<in> {Validating, Reviewing, FinalValidating, FinalReviewing} \<Longrightarrow> \<not> isNavigatorJob j \<Longrightarrow>
    reviewCycle j + 1 < reviewBlockAt j \<Longrightarrow>
    j' = j\<lparr>reviewCycle := reviewCycle j + 1, state := Remediating\<rparr> \<Longrightarrow>
    emits j [send_remediation] es \<Longrightarrow> pipeline_step rt j e j' es"
| patch_limit: "state j \<in> {Validating, Reviewing, FinalValidating, FinalReviewing} \<Longrightarrow> \<not> isNavigatorJob j \<Longrightarrow>
    reviewBlockAt j \<le> reviewCycle j + 1 \<Longrightarrow>
    j' = j\<lparr>reviewCycle := reviewCycle j + 1, state := Blocked, blockedReason := Some ReviewLimit,
           lastError := Some ''Patch, test, and review limit reached''\<rparr> \<Longrightarrow>
    emits j [render_status] es \<Longrightarrow> pipeline_step rt j e j' es"
| review_blocked: "state j = Reviewing \<or> state j = FinalReviewing \<Longrightarrow>
    j' = j\<lparr>state := Blocked, blockedReason := Some (review_block (opt_default r BlockConfiguration))\<rparr> \<Longrightarrow>
    emits j [render_status] es \<Longrightarrow> pipeline_step rt j (REVIEW_BLOCKED r) j' es"
| review_started: "state j = Reviewing \<or> state j = FinalReviewing \<Longrightarrow> j' = j \<Longrightarrow> emits j [] es \<Longrightarrow>
    pipeline_step rt j REVIEW_STARTED j' es"
| remediation_sent: "state j = Remediating \<Longrightarrow> j' = j\<lparr>state := Implementing\<rparr> \<Longrightarrow> emits j [] es \<Longrightarrow>
    pipeline_step rt j REMEDIATION_SENT j' es"
| docs_created: "state j = Documenting \<Longrightarrow> j' = j\<lparr>documentationThreadId := Some t\<rparr> \<Longrightarrow>
    emits j [render_status] es \<Longrightarrow> pipeline_step rt j (DOCS_CREATED a t env) j' es"
| docs_idle: "state j = Documenting \<Longrightarrow> j' = j\<lparr>prHeadSha := None, state := ResolvingDocsHead\<rparr> \<Longrightarrow>
    emits j [revoke_approvals, resolve_pr_head] es \<Longrightarrow> pipeline_step rt j DOCS_IDLE j' es"
| approved: "state j = AwaitingMergeApproval \<Longrightarrow> valid_head sha \<Longrightarrow> prHeadSha j = Some sha \<Longrightarrow>
    j' = j\<lparr>mergePreApprovedAt := None, state := Merging\<rparr> \<Longrightarrow>
    es = effs j [(merge_pr, [(''headSha'', JStr sha)])] \<Longrightarrow> pipeline_step rt j (APPROVAL_ACCEPTED sha) j' es"
| consensus_required: "state j = AwaitingMergeApproval \<Longrightarrow> valid_head sha \<Longrightarrow> prHeadSha j = Some sha \<Longrightarrow>
    j' = j \<Longrightarrow> es = effs j [(spawn_consensus_review, [(''headSha'', JStr sha)])] \<Longrightarrow>
    pipeline_step rt j (CONSENSUS_REQUIRED sha) j' es"
| consensus_settled: "state j = AwaitingMergeApproval \<Longrightarrow> valid_head sha \<Longrightarrow> prHeadSha j = Some sha \<Longrightarrow>
    j' = j \<Longrightarrow> es = effs j [(issue_approval, [(''headSha'', JStr sha)])] \<Longrightarrow>
    pipeline_step rt j (CONSENSUS_SETTLED sha) j' es"
| remediation_continued: "state j = AwaitingMergeApproval \<Longrightarrow> j' = j\<lparr>state := Remediating\<rparr> \<Longrightarrow>
    emits j [send_remediation] es \<Longrightarrow> pipeline_step rt j (REMEDIATION_CONTINUED r) j' es"
| merge_finished: "state j = Merging \<Longrightarrow> valid_head sha \<Longrightarrow> verified \<Longrightarrow>
    NoDeploy \<in> set (taskConstraints j) \<or> policy_production j = None \<and> mergesWithoutProduction (policy j) \<Longrightarrow>
    j' = j\<lparr>mergeMessage := Some m, mergeCommitSha := Some sha, mergedAt := Some t, state := Merged,
           blockedReason := None, lastError := None, resumeState := None\<rparr> \<Longrightarrow>
    emits j [render_status] es \<Longrightarrow> pipeline_step rt j (MERGE_SUCCEEDED m sha t verified) j' es"
| merge_incident: "state j = Merging \<Longrightarrow> valid_head sha \<Longrightarrow> safe_summary msg \<Longrightarrow>
    \<not> verified \<or> policy_production j = None \<Longrightarrow>
    j' = j\<lparr>mergeMessage := Some m, mergeCommitSha := Some sha, mergedAt := Some t,
           lastError := Some msg, state := ProductionFailed\<rparr> \<Longrightarrow>
    emits j [render_status] es \<Longrightarrow> pipeline_step rt j (MERGE_SUCCEEDED m sha t verified) j' es"
| merge_deploy: "state j = Merging \<Longrightarrow> valid_head sha \<Longrightarrow> verified \<Longrightarrow> NoDeploy \<notin> set (taskConstraints j) \<Longrightarrow>
    policy_production j \<noteq> None \<Longrightarrow>
    j' = j\<lparr>mergeMessage := Some m, mergeCommitSha := Some sha, mergedAt := Some t, state := Deploying\<rparr> \<Longrightarrow>
    emits j [render_status, deploy_production] es \<Longrightarrow>
    pipeline_step rt j (MERGE_SUCCEEDED m sha t verified) j' es"
| deployed: "state j = Deploying \<Longrightarrow> j' = j\<lparr>deploymentSummary := Some s, state := VerifyingProduction\<rparr> \<Longrightarrow>
    emits j [render_status, verify_production] es \<Longrightarrow> pipeline_step rt j (DEPLOY_SUCCEEDED s) j' es"
| production_incident: "state j = Deploying \<or> state j = VerifyingProduction \<Longrightarrow> safe_summary msg \<Longrightarrow>
    j' = j\<lparr>lastError := Some msg, state := ProductionFailed\<rparr> \<Longrightarrow> emits j [render_status] es \<Longrightarrow>
    pipeline_step rt j e j' es"
| canary_succeeded: "state j = VerifyingProduction \<Longrightarrow>
    j' = j\<lparr>canarySummary := Some s, state := Complete\<rparr> \<Longrightarrow> emits j [render_status] es \<Longrightarrow>
    pipeline_step rt j (CANARY_SUCCEEDED s) j' es"
| recover_build: "state j = RecoveringWorker \<Longrightarrow>
    resumeState j \<in> {Some CreatingImplementation, Some Implementing, Some Remediating} \<Longrightarrow>
    j' = j\<lparr>resumeState := None, lastError := None, blockedReason := None, implementationThreadId := None,
           state := CreatingImplementation\<rparr> \<Longrightarrow>
    emits j [spawn_implementation] es \<Longrightarrow> pipeline_step rt j (WORKER_RECOVERY_REQUEUED r q) j' es"
| recover_stage: "state j = RecoveringWorker \<Longrightarrow> resumeState j = Some s \<Longrightarrow>
    s \<notin> {CreatingImplementation, Implementing, Remediating} \<Longrightarrow> effectByState s = Some k \<Longrightarrow>
    j' = j\<lparr>resumeState := None, lastError := None, blockedReason := None,
           reviewThreadId := (if s = Reviewing \<or> s = FinalReviewing then None else reviewThreadId j),
           documentationThreadId := (if s = Documenting then None else documentationThreadId j), state := s\<rparr> \<Longrightarrow>
    emits j [k] es \<Longrightarrow> pipeline_step rt j (WORKER_RECOVERY_REQUEUED r q) j' es"
| resume_review: "state j = Failed \<and> resumeState j \<noteq> None \<or> open_block j \<Longrightarrow> prNumber j \<noteq> None \<Longrightarrow>
    truthy_str (prHeadSha j) \<Longrightarrow>
    j' = j\<lparr>blockedReason := None, lastError := None, resumeState := None, state := Reviewing\<rparr> \<Longrightarrow>
    es = effs j [(spawn_review, [(''headSha'', JStr (the (prHeadSha j)))])] \<Longrightarrow>
    e = RETRY \<or> e = CONTINUE_REVIEW \<Longrightarrow> pipeline_step rt j e j' es"
| resume_head: "state j = Failed \<and> resumeState j \<noteq> None \<or> open_block j \<Longrightarrow> prNumber j \<noteq> None \<Longrightarrow>
    \<not> truthy_str (prHeadSha j) \<Longrightarrow>
    j' = j\<lparr>blockedReason := None, lastError := None, resumeState := None, state := ResolvingPrHead\<rparr> \<Longrightarrow>
    emits j [resolve_pr_head] es \<Longrightarrow> e = RETRY \<or> e = CONTINUE_REVIEW \<Longrightarrow> pipeline_step rt j e j' es"
| retry_failed: "state j = Failed \<Longrightarrow> resumeState j = Some s \<Longrightarrow> effectByState s = Some k \<Longrightarrow>
    j' = j\<lparr>state := s, resumeState := None, lastError := None\<rparr> \<Longrightarrow>
    es = effs j [(k, obj_spread (head_payload j) [])] \<Longrightarrow> pipeline_step rt j RETRY j' es"
| retry_blocked: "state j = Blocked \<Longrightarrow> isResumablePermanentFailure j \<Longrightarrow> resumeState j = Some s \<Longrightarrow>
    effectByState s = Some k \<Longrightarrow>
    j' = j\<lparr>state := s, resumeState := None, blockedReason := None, lastError := None\<rparr> \<Longrightarrow>
    es = effs j [(k, obj_spread (head_payload j) [])] \<Longrightarrow> pipeline_step rt j RETRY j' es"
| continue_complete: "state j = Blocked \<Longrightarrow> isReviewedPrCompletionBlock j \<Longrightarrow>
    j' = j\<lparr>state := Complete, blockedReason := None, lastError := None, resumeState := None\<rparr> \<Longrightarrow>
    emits j [render_status] es \<Longrightarrow> pipeline_step rt j CONTINUE_REVIEW j' es"
| continue_patch: "state j = Blocked \<Longrightarrow> blockedReason j = Some ReviewLimit \<Longrightarrow> \<not> isResumablePlanBlock j \<Longrightarrow>
    j' = j\<lparr>blockedReason := None, lastError := None, reviewBlockAt := reviewCycle j + 3, state := Remediating\<rparr> \<Longrightarrow>
    emits j [send_remediation] es \<Longrightarrow> pipeline_step rt j CONTINUE_REVIEW j' es"
| continue_configuration: "state j = Blocked \<Longrightarrow> isResumableConfigurationBlock j \<Longrightarrow>
    j' = j\<lparr>blockedReason := None, lastError := None, resumeState := None, prHeadSha := None,
           state := ResolvingPrHead\<rparr> \<Longrightarrow>
    emits j [revoke_approvals, resolve_pr_head] es \<Longrightarrow> pipeline_step rt j CONTINUE_REVIEW j' es"
| continue_plan: "state j = Blocked \<Longrightarrow> isResumablePlanBlock j \<Longrightarrow>
    j' = j\<lparr>blockedReason := None, lastError := None, planCycle := 0, state := Planning\<rparr> \<Longrightarrow>
    emits j [spawn_plan] es \<Longrightarrow> pipeline_step rt j CONTINUE_REVIEW j' es"

subsection \<open>The handlers refine the steps\<close>

lemma assertSafeFailureSummary_ok: "assertSafeFailureSummary s = Inr u \<longleftrightarrow> safe_summary s"
  by (simp add: assertSafeFailureSummary_def safe_summary_def MAX_FAILURE_SUMMARY_LENGTH_def)

lemma assertHeadSha_ok: "assertHeadSha s = Inr u \<longleftrightarrow> valid_head s"
  by (simp add: assertHeadSha_def valid_head_def)

lemma planBlockSummary_ok: "planBlockSummary s = Inr m \<Longrightarrow> safe_summary m"
  by (auto simp: planBlockSummary_def Let_def result_simps assertSafeFailureSummary_ok)

lemma headMatches_iff: "headMatches j (Some sha) \<longleftrightarrow> prHeadSha j = Some sha"
  by (auto simp: headMatches_def)

lemmas step_simps = result_simps illegal_def Let_def assertSafeFailureSummary_ok assertHeadSha_ok headMatches_iff
lemmas emit_simps = emits_def effs_def emitEffect_def
lemmas block_simps = clearHeadAndReceipts_def returnNavigatorToNavigation_def enterLocatingPr_def
  completeReviewedWork_def completeMergedWork_def invalidateDriftedHead_def enterApproval_def blockReview_def

lemma failJob_step:
  assumes "failJob j [] err = Inr (j', es)"
  shows "safe_summary err" "state j \<notin> {Failed, Blocked, Cancelled, Merged, ProductionFailed, Complete}"
    "j' = j\<lparr>resumeState := Some (state j), lastError := Some err, state := Failed\<rparr>"
    "emits j [render_status] es"
  using assms by (auto simp: failJob_def step_simps emit_simps split: if_splits)

lemma stage_failed_step:
  assumes "failJob j [] err = Inr (j', es)" "state j \<in> {LocatingPr, ResolvingPrHead, ResolvingDocsHead, Merging}"
  shows "pipeline_step rt j e j' es"
  using failJob_step [OF assms(1)] assms(2) by (blast intro: pipeline_step.stage_failed)

lemma drift_step:
  assumes "invalidateDriftedHead j [] = (j', es)"
    "state j \<in> {Validating, Reviewing, FinalValidating, FinalReviewing, AwaitingMergeApproval}"
  shows "pipeline_step rt j e j' es"
  using assms by (intro pipeline_step.head_drifted) (auto simp: block_simps emit_simps Let_def)

lemma navigator_return_step:
  assumes "returnNavigatorToNavigation j [] = (j', es)" "isNavigatorJob j"
    "state j \<in> {Validating, Reviewing, FinalValidating, FinalReviewing, Deploying, VerifyingProduction}"
  shows "pipeline_step rt j e j' es"
  using assms by (intro pipeline_step.navigator_return) (auto simp: block_simps emit_simps Let_def)

lemma patch_step:
  assumes "enterPatch j [] summary fs rs = Inr (j', es)" "\<not> isNavigatorJob j"
    "state j \<in> {Validating, Reviewing, FinalValidating, FinalReviewing}"
  shows "pipeline_step rt j e j' es"
proof (cases "reviewBlockAt j \<le> reviewCycle j + 1")
  case True
  with assms show ?thesis
    by (intro pipeline_step.patch_limit) (auto simp: enterPatch_def step_simps emit_simps)
next
  case False
  with assms show ?thesis
    by (intro pipeline_step.patch) (auto simp: enterPatch_def step_simps emit_simps)
qed

lemma incident_step:
  assumes "enterProductionIncident j [] msg = Inr (j', es)"
  shows "safe_summary msg" "j' = j\<lparr>lastError := Some msg, state := ProductionFailed\<rparr>" "emits j [render_status] es"
  using assms by (auto simp: enterProductionIncident_def step_simps emit_simps)

lemma awaiting_project_step:
  "state j = AwaitingProject \<Longrightarrow> transitionAwaitingProject rt j e [] = Inr (j', es) \<Longrightarrow> pipeline_step rt j e j' es"
  by (auto simp: transitionAwaitingProject_def projectPolicySchema_parse_def step_simps emit_simps
      split: job_event.splits if_splits intro!: pipeline_step.select_project)

lemma awaiting_confirmation_step:
  "state j = AwaitingConfirmation \<Longrightarrow> transitionAwaitingConfirmation j e [] = Inr (j', es) \<Longrightarrow> pipeline_step rt j e j' es"
  by (auto simp: transitionAwaitingConfirmation_def step_simps emit_simps split: if_splits
      intro: pipeline_step.confirm_build pipeline_step.confirm_plan pipeline_step.confirm_navigate)

lemma planning_step:
  "state j = Planning \<Longrightarrow> transitionPlanning j e [] = Inr (j', es) \<Longrightarrow> pipeline_step rt j e j' es"
  by (auto simp: transitionPlanning_def step_simps emit_simps split: job_event.splits if_splits
      intro: pipeline_step.plan_created pipeline_step.plan_accepted pipeline_step.plan_to_critique)

lemma critiquing_step:
  "state j = Critiquing \<Longrightarrow> transitionCritiquing j e [] = Inr (j', es) \<Longrightarrow> pipeline_step rt j e j' es"
  by (auto simp: transitionCritiquing_def step_simps emit_simps split: job_event.splits if_splits
      intro: pipeline_step.critique_passed pipeline_step.critique_replan
        pipeline_step.critique_limit [OF _ _ planBlockSummary_ok])

lemma creating_step:
  "state j = CreatingImplementation \<Longrightarrow> transitionCreatingImplementation j e [] = Inr (j', es) \<Longrightarrow>
   pipeline_step rt j e j' es"
  by (auto simp: transitionCreatingImplementation_def step_simps emit_simps split: job_event.splits
      intro: pipeline_step.implementation_created)

lemma implementing_step:
  "state j = Implementing \<Longrightarrow> transitionImplementing j e [] = Inr (j', es) \<Longrightarrow> pipeline_step rt j e j' es"
  by (auto simp: transitionImplementing_def pr_number_ok_def block_simps step_simps emit_simps
      split: job_event.splits if_splits
      intro!: pipeline_step.release_started pipeline_step.implementation_idle)

lemma locating_step:
  "state j = LocatingPr \<Longrightarrow> transitionLocatingPr j e [] = Inr (j', es) \<Longrightarrow> pipeline_step rt j e j' es"
  by (auto simp: transitionLocatingPr_def pr_number_ok_def step_simps emit_simps split: job_event.splits
      intro: stage_failed_step intro!: pipeline_step.pr_located)

lemma resolving_step:
  "state j = ResolvingPrHead \<Longrightarrow> transitionResolvingPrHead j e [] = Inr (j', es) \<Longrightarrow> pipeline_step rt j e j' es"
  by (auto simp: transitionResolvingPrHead_def step_simps emit_simps split: job_event.splits
      intro: stage_failed_step intro!: pipeline_step.head_resolved)

lemma review_passed_step:
  assumes "state j = Reviewing" "transitionReviewPassed j e [] = Inr (j', es)"
  shows "pipeline_step rt j e j' es"
proof -
  obtain sha d where e: "e = REVIEW_PASSED sha d" and head: "valid_head sha"
    using assms(2) by (cases e) (auto simp: transitionReviewPassed_def step_simps)
  show ?thesis
  proof (cases "headMatches j (Some sha)")
    case False
    with assms e head show ?thesis
      by (intro drift_step) (auto simp: transitionReviewPassed_def step_simps)
  next
    case True
    then have eq: "prHeadSha j = Some sha" by (simp add: headMatches_iff)
    show ?thesis
    proof (cases "isNavigatorJob j \<and> (case d of None \<Rightarrow> False | Some d \<Rightarrow> docRequired d)")
      case True
      with assms e head eq show ?thesis
        by (intro navigator_return_step) (auto simp: transitionReviewPassed_def step_simps)
    next
      case False
      with assms e head eq consider
          (approval) "is_merge_candidate j" "enterApproval j [] sha = (j', es)"
        | (complete) "completeReviewedWork j [] = (j', es)"
            "\<not> is_merge_candidate j \<or> isSmallFixJob j \<and> \<not> isNavigatorJob j \<and> routingMode j \<noteq> ActiveRouting"
        | (docs) "\<not> isNavigatorJob j" "j' = j\<lparr>state := Documenting\<rparr>" "emits j [spawn_docs] es"
        | (final) "j' = j\<lparr>state := FinalValidating\<rparr>" "es = effs j [(run_final_validation, [(''headSha'', JStr sha)])]"
        by (auto simp: transitionReviewPassed_def step_simps emit_simps split: if_splits option.splits)
      then show ?thesis
      proof cases
        case approval
        with assms(1) head eq show ?thesis unfolding e
          by (intro pipeline_step.enter_approval) (auto simp: block_simps emit_simps Let_def)
      next
        case complete
        with assms(1) head eq show ?thesis unfolding e
          by (intro pipeline_step.complete_reviewed) (auto simp: block_simps emit_simps Let_def)
      next
        case docs
        with assms(1) head eq show ?thesis unfolding e by (intro pipeline_step.enter_docs)
      next
        case final
        with assms(1) head eq show ?thesis unfolding e by (intro pipeline_step.enter_final_validation)
      qed
    qed
  qed
qed

lemma review_changes_step:
  assumes "state j = Reviewing \<or> state j = FinalReviewing" "transitionReviewChanges j e [] = Inr (j', es)"
  shows "pipeline_step rt j e j' es"
proof -
  obtain sha summary fs rs where e: "e = REVIEW_CHANGES_REQUESTED sha summary fs rs"
    using assms(2) by (cases e) (auto simp: transitionReviewChanges_def step_simps)
  have st: "state j \<in> {Validating, Reviewing, FinalValidating, FinalReviewing}" using assms(1) by auto
  consider (drift) "\<not> headMatches j sha" | (nav) "headMatches j sha" "isNavigatorJob j"
    | (patch) "headMatches j sha" "\<not> isNavigatorJob j" by blast
  then show ?thesis
  proof cases
    case drift
    with assms e st show ?thesis by (intro drift_step) (auto simp: transitionReviewChanges_def step_simps)
  next
    case nav
    with assms e st show ?thesis by (intro navigator_return_step) (auto simp: transitionReviewChanges_def step_simps)
  next
    case patch
    with assms e st show ?thesis by (intro patch_step) (auto simp: transitionReviewChanges_def step_simps)
  qed
qed

lemma block_review_step:
  "state j = Reviewing \<or> state j = FinalReviewing \<Longrightarrow> blockReview j [] r = (j', es) \<Longrightarrow>
   pipeline_step rt j (REVIEW_BLOCKED r) j' es"
  by (rule pipeline_step.review_blocked) (auto simp: block_simps emit_simps Let_def)

lemma reviewing_step:
  "state j = Reviewing \<Longrightarrow> transitionReviewing j e [] = Inr (j', es) \<Longrightarrow> pipeline_step rt j e j' es"
  by (auto simp: transitionReviewing_def illegal_def emits_def split: job_event.splits
      intro: review_passed_step review_changes_step block_review_step pipeline_step.review_started)

lemma final_reviewing_step:
  assumes "state j = FinalReviewing" "transitionFinalReviewing j e [] = Inr (j', es)"
  shows "pipeline_step rt j e j' es"
proof (cases "\<exists>sha d. e = REVIEW_PASSED sha d")
  case True
  then obtain sha d where e: "e = REVIEW_PASSED sha d" by blast
  show ?thesis
  proof (cases "headMatches j (Some sha)")
    case False
    with assms e show ?thesis by (intro drift_step) (auto simp: transitionFinalReviewing_def step_simps)
  next
    case head: True
    show ?thesis
    proof (cases "is_merge_candidate j")
      case True
      with assms e head show ?thesis
        by (auto simp: transitionFinalReviewing_def step_simps block_simps emit_simps is_merge_candidate_def
            split: if_splits intro!: pipeline_step.enter_approval)
    next
      case False
      with assms e head show ?thesis
        by (auto simp: transitionFinalReviewing_def step_simps block_simps emit_simps is_merge_candidate_def
            intro!: pipeline_step.complete_reviewed)
    qed
  qed
next
  case False
  with assms show ?thesis
    by (auto simp: transitionFinalReviewing_def illegal_def emits_def split: job_event.splits
        intro: review_changes_step block_review_step pipeline_step.review_started)
qed

lemma remediating_step:
  "state j = Remediating \<Longrightarrow> transitionRemediating j e [] = Inr (j', es) \<Longrightarrow> pipeline_step rt j e j' es"
  by (auto simp: transitionRemediating_def block_simps step_simps emit_simps split: job_event.splits
      intro!: pipeline_step.remediation_sent pipeline_step.implementation_idle)

lemma validation_failed_step:
  assumes "state j \<in> {Validating, FinalValidating}" "transitionValidationFailed j e [] = Inr (j', es)"
  shows "pipeline_step rt j e j' es"
proof -
  obtain sha r where e: "e = VALIDATION_FAILED sha r"
    using assms(2) by (cases e) (auto simp: transitionValidationFailed_def step_simps)
  have st: "state j \<in> {Validating, Reviewing, FinalValidating, FinalReviewing}" using assms(1) by auto
  consider (drift) "sha \<noteq> None" "\<not> headMatches j sha" | (nav) "sha = None \<or> headMatches j sha" "isNavigatorJob j"
    | (patch) "sha = None \<or> headMatches j sha" "\<not> isNavigatorJob j" by metis
  then show ?thesis
  proof cases
    case drift
    with assms e st show ?thesis
      by (intro drift_step) (auto simp: transitionValidationFailed_def step_simps split: option.splits)
  next
    case nav
    with assms e st show ?thesis
      by (intro navigator_return_step) (auto simp: transitionValidationFailed_def step_simps split: option.splits)
  next
    case patch
    with assms e st show ?thesis
      by (intro patch_step) (auto simp: transitionValidationFailed_def step_simps split: option.splits)
  qed
qed

lemma validating_step:
  assumes "state j = Validating" "transitionValidating j e [] = Inr (j', es)"
  shows "pipeline_step rt j e j' es"
proof (cases "\<exists>sha. e = VALIDATION_PASSED sha \<and> \<not> headMatches j (Some sha)")
  case True
  with assms show ?thesis
    by (intro drift_step) (auto simp: transitionValidating_def transitionValidationPassed_def step_simps)
next
  case False
  with assms show ?thesis
    by (auto simp: transitionValidating_def transitionValidationPassed_def step_simps emit_simps
        split: job_event.splits if_splits intro: validation_failed_step intro!: pipeline_step.validation_passed)
qed

lemma final_validating_step:
  assumes "state j = FinalValidating" "transitionFinalValidating j e [] = Inr (j', es)"
  shows "pipeline_step rt j e j' es"
proof (cases "\<exists>sha. e = VALIDATION_PASSED sha \<and> \<not> headMatches j (Some sha)")
  case True
  with assms show ?thesis
    by (intro drift_step) (auto simp: transitionFinalValidating_def step_simps)
next
  case False
  with assms show ?thesis
    by (auto simp: transitionFinalValidating_def step_simps emit_simps
        split: job_event.splits if_splits intro: validation_failed_step
        intro!: pipeline_step.final_validation_passed)
qed

lemma documenting_step:
  "state j = Documenting \<Longrightarrow> transitionDocumenting j e [] = Inr (j', es) \<Longrightarrow> pipeline_step rt j e j' es"
  by (auto simp: transitionDocumenting_def block_simps step_simps emit_simps split: job_event.splits
      intro!: pipeline_step.docs_created pipeline_step.docs_idle)

lemma resolving_docs_step:
  "state j = ResolvingDocsHead \<Longrightarrow> transitionResolvingDocsHead j e [] = Inr (j', es) \<Longrightarrow> pipeline_step rt j e j' es"
  by (auto simp: transitionResolvingDocsHead_def step_simps emit_simps split: job_event.splits
      intro: stage_failed_step intro!: pipeline_step.docs_head_resolved)

lemma awaiting_merge_approval_step:
  assumes "state j = AwaitingMergeApproval" "transitionAwaitingMergeApproval j e [] = Inr (j', es)"
  shows "pipeline_step rt j e j' es"
proof (cases "invalidateDriftedHead j [] = (j', es)")
  case True
  with assms(1) show ?thesis by (intro drift_step) auto
next
  case False
  with assms show ?thesis
    by (auto simp: transitionAwaitingMergeApproval_def transitionApprovalAccepted_def step_simps emit_simps
        split: job_event.splits if_splits
        intro: pipeline_step.consensus_required pipeline_step.consensus_settled
        intro!: pipeline_step.approved pipeline_step.remediation_continued)
qed

lemma merging_step:
  assumes "state j = Merging" "transitionMerging rt j e [] = Inr (j', es)"
  shows "pipeline_step rt j e j' es"
proof (cases "\<exists>m sha t v. e = MERGE_SUCCEEDED m sha t v")
  case True
  then obtain m sha t v where e: "e = MERGE_SUCCEEDED m sha t v" by blast
  define j1 where "j1 = j\<lparr>mergeMessage := Some m, mergeCommitSha := Some sha, mergedAt := Some t\<rparr>"
  have head: "valid_head sha" using assms(2) by (auto simp: transitionMerging_def e step_simps)
  consider (incident) msg where "\<not> v \<or> policy_production j = None" "enterProductionIncident j1 [] msg = Inr (j', es)"
    | (finished) "v" "NoDeploy \<in> set (taskConstraints j) \<or> policy_production j = None \<and> mergesWithoutProduction (policy j)"
        "completeMergedWork j1 [] = (j', es)"
    | (deploy) "v" "NoDeploy \<notin> set (taskConstraints j)" "policy_production j \<noteq> None" "j' = j1\<lparr>state := Deploying\<rparr>"
        "emits j [render_status, deploy_production] es"
    using assms(2)
    by (auto simp: transitionMerging_def e step_simps j1_def policy_production_def emit_simps split: if_splits)
  then show ?thesis
  proof cases
    case incident
    from incident_step [OF incident(2)] assms(1) head incident(1) show ?thesis unfolding e
      by (intro pipeline_step.merge_incident [of j sha msg]) (auto simp: j1_def emits_def)
  next
    case finished
    with assms(1) head show ?thesis
      by (auto simp: e j1_def block_simps emit_simps Let_def intro!: pipeline_step.merge_finished)
  next
    case deploy
    with assms(1) head show ?thesis by (auto simp: e j1_def intro!: pipeline_step.merge_deploy)
  qed
next
  case False
  with assms show ?thesis
    by (auto simp: transitionMerging_def illegal_def split: job_event.splits intro: stage_failed_step)
qed

lemma production_incident_step:
  assumes "enterProductionIncident j [] msg = Inr (j', es)" "state j = Deploying \<or> state j = VerifyingProduction"
  shows "pipeline_step rt j e j' es"
  using incident_step [OF assms(1)] assms(2) by (blast intro: pipeline_step.production_incident)

lemma recover_incident_step:
  assumes "recoverIncident j e expected phase reason [] = Inr (j', es)" "state j = Deploying \<or> state j = VerifyingProduction"
  shows "pipeline_step rt j e j' es"
  using assms
  by (intro navigator_return_step) (auto simp: recoverIncident_def step_simps split: if_splits)

lemma deploying_step:
  "state j = Deploying \<Longrightarrow> transitionDeploying j e [] = Inr (j', es) \<Longrightarrow> pipeline_step rt j e j' es"
  by (auto simp: transitionDeploying_def step_simps emit_simps split: job_event.splits
      intro: recover_incident_step production_incident_step intro!: pipeline_step.deployed)

lemma verifying_step:
  "state j = VerifyingProduction \<Longrightarrow> transitionVerifyingProduction j e [] = Inr (j', es) \<Longrightarrow> pipeline_step rt j e j' es"
  by (auto simp: transitionVerifyingProduction_def step_simps emit_simps split: job_event.splits
      intro: recover_incident_step production_incident_step intro!: pipeline_step.canary_succeeded)

lemma retryEffect_ok:
  "retryEffect j [] s p = Inr (j', es) \<longleftrightarrow>
   (\<exists>k. effectByState s = Some k \<and> j' = j \<and> es = effs j [(k, obj_spread (head_payload j) p)])"
  by (auto simp: retryEffect_def emitEffect_def effs_def split: option.splits)

lemma recovering_step:
  assumes "state j = RecoveringWorker" "transitionRecoveringWorker j e [] = Inr (j', es)"
  shows "pipeline_step rt j e j' es"
proof -
  obtain r q s where e: "e = WORKER_RECOVERY_REQUEUED r q" and s: "resumeState j = Some s"
    using assms(2) by (cases e; cases "resumeState j") (auto simp: transitionRecoveringWorker_def step_simps)
  show ?thesis
  proof (cases "s \<in> {CreatingImplementation, Implementing, Remediating}")
    case True
    with assms s show ?thesis
      by (auto simp: transitionRecoveringWorker_def e step_simps emit_simps intro!: pipeline_step.recover_build)
  next
    case False
    with assms s obtain k where "effectByState s = Some k" "emits j [k] es"
      "j' = j\<lparr>resumeState := None, lastError := None, blockedReason := None,
           reviewThreadId := (if s = Reviewing \<or> s = FinalReviewing then None else reviewThreadId j),
           documentationThreadId := (if s = Documenting then None else documentationThreadId j), state := s\<rparr>"
      by (auto simp: transitionRecoveringWorker_def e step_simps retryEffect_ok emits_def effs_def split: if_splits)
    with assms(1) s False show ?thesis unfolding e by (intro pipeline_step.recover_stage)
  qed
qed

lemma resume_existing_step:
  assumes "resumeFromExistingPr j [] = (j', es)" "state j = Failed \<and> resumeState j \<noteq> None \<or> open_block j"
    "prNumber j \<noteq> None" "e = RETRY \<or> e = CONTINUE_REVIEW"
  shows "pipeline_step rt j e j' es"
proof (cases "truthy_str (prHeadSha j)")
  case True
  with assms show ?thesis
    by (intro pipeline_step.resume_review) (auto simp: resumeFromExistingPr_def Let_def emit_simps)
next
  case False
  with assms show ?thesis
    by (intro pipeline_step.resume_head) (auto simp: resumeFromExistingPr_def Let_def emit_simps)
qed

lemma shouldResume_pr: "shouldResumeExistingPr j \<Longrightarrow> prNumber j \<noteq> None"
  by (auto simp: shouldResumeExistingPr_def split: if_splits)

lemma failed_step:
  assumes "state j = Failed" "transitionFailed j e [] = Inr (j', es)"
  shows "pipeline_step rt j e j' es"
proof -
  obtain s where e: "e = RETRY" and s: "resumeState j = Some s"
    using assms(2) by (cases e; cases "resumeState j") (auto simp: transitionFailed_def step_simps)
  show ?thesis
  proof (cases "shouldResumeExistingPr j")
    case True
    with assms e s shouldResume_pr show ?thesis
      by (intro resume_existing_step) (auto simp: transitionFailed_def)
  next
    case False
    with assms e s show ?thesis
      by (auto simp: transitionFailed_def retryEffect_ok effs_def head_payload_def intro!: pipeline_step.retry_failed)
  qed
qed

lemma blocked_step:
  assumes "state j = Blocked" "transitionBlocked j e [] = Inr (j', es)"
  shows "pipeline_step rt j e j' es"
proof (cases "e = RETRY")
  case True
  then have perm: "isResumablePermanentFailure j"
    using assms(2) by (auto simp: transitionBlocked_def step_simps split: if_splits)
  then obtain s where s: "resumeState j = Some s" by (auto simp: isResumablePermanentFailure_def split: option.splits)
  show ?thesis
  proof (cases "shouldResumeExistingPr j")
    case True
    with assms \<open>e = RETRY\<close> perm s shouldResume_pr show ?thesis
      by (intro resume_existing_step) (auto simp: transitionBlocked_def open_block_def isResumablePermanentFailure_def)
  next
    case False
    with assms \<open>e = RETRY\<close> perm s show ?thesis
      by (auto simp: transitionBlocked_def retryEffect_ok effs_def head_payload_def intro!: pipeline_step.retry_blocked)
  qed
next
  case False
  then have e: "e = CONTINUE_REVIEW" using assms(2) by (auto simp: transitionBlocked_def step_simps split: if_splits)
  have no_pr: "isResumablePlanBlock j \<Longrightarrow> prNumber j = None" by (simp add: isResumablePlanBlock_def split: if_splits)
  consider (existing) "resumeFromExistingPr j [] = (j', es)" "prNumber j \<noteq> None" "open_block j"
    | (complete) "isReviewedPrCompletionBlock j" "completeReviewedWork j [] = (j', es)"
    | (patching) "blockedReason j = Some ReviewLimit" "\<not> isResumablePlanBlock j" "resumeIntoPatching j [] = (j', es)"
    | (config) "isResumableConfigurationBlock j"
        "invalidateDriftedHead (j\<lparr>blockedReason := None, lastError := None, resumeState := None\<rparr>) [] = (j', es)"
    | (plan) "isResumablePlanBlock j" "emits j [spawn_plan] es"
        "j' = j\<lparr>blockedReason := None, lastError := None, planCycle := 0, state := Planning\<rparr>"
    using assms by (auto simp: transitionBlocked_def e open_block_def step_simps emit_simps split: if_splits dest: no_pr)
  then show ?thesis
  proof cases
    case existing
    with assms e show ?thesis by (intro resume_existing_step) auto
  next
    case complete
    with assms show ?thesis
      by (auto simp: e block_simps emit_simps Let_def intro!: pipeline_step.continue_complete)
  next
    case patching
    with assms show ?thesis
      by (auto simp: e resumeIntoPatching_def emit_simps Let_def intro!: pipeline_step.continue_patch)
  next
    case config
    with assms show ?thesis
      by (auto simp: e block_simps emit_simps Let_def intro!: pipeline_step.continue_configuration)
  next
    case plan
    with assms show ?thesis by (auto simp: e intro!: pipeline_step.continue_plan)
  qed
qed

text \<open>Every success of a state's handler is a step.\<close>

lemma state_handler_refines:
  assumes "state_handler rt (state j) j e [] = Inr (j', es)"
  shows "pipeline_step rt j e j' es"
proof (cases "state j")
  case AwaitingProject with assms show ?thesis by (simp add: awaiting_project_step)
next
  case AwaitingConfirmation with assms show ?thesis by (simp add: awaiting_confirmation_step)
next
  case Planning with assms show ?thesis by (simp add: planning_step)
next
  case Critiquing with assms show ?thesis by (simp add: critiquing_step)
next
  case CreatingImplementation with assms show ?thesis by (simp add: creating_step)
next
  case Implementing with assms show ?thesis by (simp add: implementing_step)
next
  case LocatingPr with assms show ?thesis by (simp add: locating_step)
next
  case ResolvingPrHead with assms show ?thesis by (simp add: resolving_step)
next
  case Reviewing with assms show ?thesis by (simp add: reviewing_step)
next
  case Remediating with assms show ?thesis by (simp add: remediating_step)
next
  case Validating with assms show ?thesis by (simp add: validating_step)
next
  case Documenting with assms show ?thesis by (simp add: documenting_step)
next
  case ResolvingDocsHead with assms show ?thesis by (simp add: resolving_docs_step)
next
  case FinalValidating with assms show ?thesis by (simp add: final_validating_step)
next
  case FinalReviewing with assms show ?thesis by (simp add: final_reviewing_step)
next
  case AwaitingMergeApproval with assms show ?thesis by (simp add: awaiting_merge_approval_step)
next
  case Merging with assms show ?thesis by (simp add: merging_step)
next
  case Deploying with assms show ?thesis by (simp add: deploying_step)
next
  case VerifyingProduction with assms show ?thesis by (simp add: verifying_step)
next
  case RecoveringWorker with assms show ?thesis by (simp add: recovering_step)
next
  case Failed with assms show ?thesis by (simp add: failed_step)
next
  case Blocked with assms show ?thesis by (simp add: blocked_step)
qed (use assms in \<open>simp_all add: transitionTerminal_def illegal_def\<close>)

end
