(* ===== verification/Job_Transitions.thy ===== *)
theory Job_Transitions
  imports Pipeline_Steps
begin

subsection \<open>The whole reducer\<close>

text \<open>
  The reducer around the handlers: the cancellation events, which are treated first; the events
  swallowed while a cancellation is pending; the failures and the recovery request, which any
  state may see; and the steps of the handlers.
\<close>

definition stamped :: "job \<Rightarrow> int \<Rightarrow> job \<Rightarrow> job" where
  "stamped j now j1 = j1\<lparr>version := version j + 1, updatedAt := now\<rparr>"

inductive job_transition :: "js_runtime \<Rightarrow> job \<Rightarrow> job_event \<Rightarrow> int \<Rightarrow> job \<Rightarrow> job_effect list \<Rightarrow> bool"
  for rt :: js_runtime and j :: job and e :: job_event and now :: int where
  cancel_requested: "e = CANCEL_REQUESTED w ws \<Longrightarrow>
    state j \<notin> {Cancelled, Merged, Deploying, VerifyingProduction, ProductionFailed, Complete} \<Longrightarrow>
    workers = active_workers j (opt_default ws [] @ (case w of Some (Some x) \<Rightarrow> [x] | _ \<Rightarrow> [])) \<Longrightarrow>
    quiet \<longleftrightarrow> workers = [] \<and> (w \<noteq> None \<or> ws \<noteq> None) \<Longrightarrow>
    j' = stamped j now (j\<lparr>cancelRequestedAt := Some (opt_default (cancelRequestedAt j) now),
                          state := (if quiet then Cancelled else state j)\<rparr>) \<Longrightarrow>
    emits j ((if cancelRequestedAt j = None
              then revoke_approvals # (if workers = [] then [] else [stop_thread]) else []) @
             (if quiet then [render_status] else [])) es \<Longrightarrow>
    job_transition rt j e now j' es"
| cancel_confirmed: "e = CANCEL_CONFIRMED \<Longrightarrow> cancelRequestedAt j \<noteq> None \<Longrightarrow>
    state j \<notin> {Cancelled, Merged, ProductionFailed, Complete} \<Longrightarrow>
    j' = stamped j now (j\<lparr>state := Cancelled\<rparr>) \<Longrightarrow> emits j [render_status] es \<Longrightarrow>
    job_transition rt j e now j' es"
| cancellation_unconfirmed: "e = CANCELLATION_UNCONFIRMED r \<Longrightarrow> cancelRequestedAt j \<noteq> None \<Longrightarrow>
    state j \<notin> {Cancelled, Merged} \<Longrightarrow> safe_summary msg \<Longrightarrow>
    j' = stamped j now (j\<lparr>resumeState := Some (state j), state := Blocked,
                          blockedReason := Some CancellationUnconfirmed, lastError := Some msg\<rparr>) \<Longrightarrow>
    emits j [revoke_approvals, render_status] es \<Longrightarrow> job_transition rt j e now j' es"
| swallowed: "cancelRequestedAt j \<noteq> None \<Longrightarrow> j' = stamped j now j \<Longrightarrow> es = [] \<Longrightarrow> job_transition rt j e now j' es"
| failed: "e = FAILED msg \<or> e = THREAD_FAILED r \<and> msg = opt_default r ''Worker thread failed'' \<Longrightarrow>
    cancelRequestedAt j = None \<Longrightarrow>
    state j \<notin> {Failed, Blocked, Cancelled, Merged, ProductionFailed, Complete} \<Longrightarrow> safe_summary msg \<Longrightarrow>
    j' = stamped j now (j\<lparr>resumeState := Some (state j), lastError := Some msg, state := Failed\<rparr>) \<Longrightarrow>
    emits j [render_status] es \<Longrightarrow> job_transition rt j e now j' es"
| recovery_requested: "e = WORKER_RECOVERY_REQUESTED rid wk res cls sig p \<Longrightarrow> cancelRequestedAt j = None \<Longrightarrow>
    state j \<in> set RECOVERABLE_WORKER_STATES \<Longrightarrow>
    j' = stamped j now (j\<lparr>resumeState := Some (state j), state := RecoveringWorker\<rparr>) \<Longrightarrow>
    emits j [render_status, recover_worker] es \<Longrightarrow> job_transition rt j e now j' es"
| handled: "cancelRequestedAt j = None \<Longrightarrow> pipeline_step rt j e j1 es \<Longrightarrow> j' = stamped j now j1 \<Longrightarrow>
    job_transition rt j e now j' es"

inductive_cases job_transitionE: "job_transition rt j e now j' es"
inductive_cases pipeline_stepE: "pipeline_step rt j e j' es"

lemma stopActiveWorkers_emits:
  assumes "emits j ks es" "job_id j' = job_id j" "version j' = version j"
  shows "emits j (ks @ (if active_workers j' ws = [] then [] else [stop_thread])) (stopActiveWorkers j' es ws)"
  using assms by (auto simp: stopActiveWorkers_def emits_def emitEffect_def split: list.splits)

lemma assoc_set_fresh: "k \<notin> set (map fst ps) \<Longrightarrow> assoc_set k v ps = ps @ [(k, v)]"
  by (induction ps) auto

lemma assoc_set_all_fresh: "distinct (map fst (a @ b)) \<Longrightarrow> assoc_set_all a b = a @ b"
  unfolding assoc_set_all_def
  by (induction b arbitrary: a) (auto simp: assoc_set_fresh)

lemma resource_keys: "ps = map (\<lambda>w. (resourceId w, w)) ws \<Longrightarrow> map fst ps = map resourceId (map snd ps)"
  by simp

lemma active_workers_belong:
  "w \<in> set (active_workers j ws) \<Longrightarrow> w \<in> set ws \<and> workerJobId w = job_id j \<and> workerState w \<in> set ACTIVE_WORKER_STATES"
  using set_assoc_set_all [of "[]"]
  by (fastforce simp: active_workers_def)

lemma active_workers_pairs:
  "p \<in> set (assoc_set_all [] (map (\<lambda>w. (resourceId w, w)) ws)) \<Longrightarrow> fst p = resourceId (snd p)"
  using set_assoc_set_all [of "[]"] by fastforce

lemma active_workers_distinct: "distinct (map resourceId (active_workers j ws))"
proof -
  let ?ps = "assoc_set_all [] (map (\<lambda>w. (resourceId w, w))
     (filter (\<lambda>w. workerJobId w = job_id j \<and> List.member ACTIVE_WORKER_STATES (workerState w)) ws))"
  have "map resourceId (map snd ?ps) = map fst ?ps"
    by (simp only: map_map comp_def) (rule map_cong [OF refl], simp add: active_workers_pairs)
  moreover have "distinct (map fst ?ps)" by (rule distinct_assoc_set_all) simp
  ultimately show ?thesis by (simp only: active_workers_def)
qed

lemma active_workers_fixed:
  assumes "distinct (map resourceId ws)"
    "\<And>w. w \<in> set ws \<Longrightarrow> workerJobId w = job_id j \<and> workerState w \<in> set ACTIVE_WORKER_STATES"
  shows "active_workers j ws = ws"
proof -
  have "filter (\<lambda>w. workerJobId w = job_id j \<and> List.member ACTIVE_WORKER_STATES (workerState w)) ws = ws"
    using assms(2) by (simp add: filter_id_conv)
  moreover have "map fst (map (\<lambda>w. (resourceId w, w)) ws) = map resourceId ws" by (simp add: comp_def)
  ultimately show ?thesis
    using assms(1) assoc_set_all_fresh [of "[]" "map (\<lambda>w. (resourceId w, w)) ws"]
    by (simp add: active_workers_def comp_def)
qed

lemma active_workers_idem:
  "job_id j' = job_id j \<Longrightarrow> active_workers j' (active_workers j ws) = active_workers j ws"
  using active_workers_belong [of _ j ws] by (intro active_workers_fixed active_workers_distinct) auto

lemma failJob_transition:
  assumes "finish_step now (failJob j [] msg) = Inr (j', es)" "cancelRequestedAt j = None"
    "e = FAILED msg \<or> e = THREAD_FAILED r \<and> msg = opt_default r ''Worker thread failed''"
  shows "job_transition rt j e now j' es"
proof -
  obtain j1 where f: "failJob j [] msg = Inr (j1, es)" and j': "j' = stamped j now j1"
    using assms(1)
    by (auto simp: finish_step_def finish_def stamped_def failJob_def step_simps split: if_splits)
  note s = failJob_step [OF f]
  show ?thesis
    by (rule job_transition.failed [OF assms(3) assms(2) s(2) s(1) _ s(4)]) (simp add: j' s(3))
qed

lemma cancellation_transition:
  assumes "applyCancellation j w ws [] now = Inr (j', es)"
  shows "job_transition rt j (CANCEL_REQUESTED w ws) now j' es"
proof -
  let ?workers = "active_workers j (opt_default ws [] @ (case w of Some (Some x) \<Rightarrow> [x] | _ \<Rightarrow> []))"
  have stop: "emits j (revoke_approvals # (if ?workers = [] then [] else [stop_thread]))
      (stopActiveWorkers jc (emitEffect jc [] revoke_approvals []) ?workers)"
    if "job_id jc = job_id j" "version jc = version j" for jc
    using stopActiveWorkers_emits [of j "[revoke_approvals]" "emitEffect jc [] revoke_approvals []" jc ?workers] that
    by (simp add: active_workers_idem emits_def emitEffect_def)
  let ?quiet = "?workers = [] \<and> (w \<noteq> None \<or> ws \<noteq> None)"
  have st: "state j \<notin> {Cancelled, Merged, Deploying, VerifyingProduction, ProductionFailed, Complete}"
    using assms by (auto simp: applyCancellation_def illegal_def split: if_splits)
  show ?thesis
  proof (cases "cancelRequestedAt j")
    case None
    let ?jc = "j\<lparr>cancelRequestedAt := Some now\<rparr>"
    let ?es = "stopActiveWorkers ?jc (emitEffect ?jc [] revoke_approvals []) ?workers"
    from stop [of ?jc] have es: "emits j (revoke_approvals # (if ?workers = [] then [] else [stop_thread])) ?es" by simp
    from assms st None have "j' = stamped j now (?jc\<lparr>state := if ?quiet then Cancelled else state j\<rparr>)"
      and "es = ?es @ (if ?quiet then emitEffect j [] render_status [] else [])"
      by (auto simp: applyCancellation_def Let_def finish_def stamped_def emitEffect_def split: if_splits)
    with es show ?thesis
      by (intro job_transition.cancel_requested [OF refl st refl refl])
        (auto simp: None emits_def emitEffect_def opt_default_def)
  next
    case (Some t)
    from assms st Some have "j' = stamped j now (j\<lparr>state := if ?quiet then Cancelled else state j\<rparr>)"
      and "es = (if ?quiet then emitEffect j [] render_status [] else [])"
      by (auto simp: applyCancellation_def Let_def finish_def stamped_def emitEffect_def split: if_splits)
    with Some show ?thesis
      by (intro job_transition.cancel_requested [OF refl st refl refl])
        (auto simp: emits_def emitEffect_def stamped_def opt_default_def)
  qed
qed

lemma unconfirmed_transition:
  assumes "applyCancellationUnconfirmed j r [] now = Inr (j', es)"
  shows "job_transition rt j (CANCELLATION_UNCONFIRMED r) now j' es"
  using assms
  by (intro job_transition.cancellation_unconfirmed [OF refl])
    (auto simp: applyCancellationUnconfirmed_def Let_def illegal_def step_simps finish_def stamped_def emit_simps
      split: if_splits)

lemma recovery_transition:
  assumes "finish_step now (requestWorkerRecovery j rid wk res cls sig p []) = Inr (j', es)" "cancelRequestedAt j = None"
  shows "job_transition rt j (WORKER_RECOVERY_REQUESTED rid wk res cls sig p) now j' es"
  using assms
  by (intro job_transition.recovery_requested [OF refl])
    (auto simp: requestWorkerRecovery_def finish_step_def Let_def illegal_def step_simps finish_def stamped_def
      emit_simps split: if_splits)

lemma handler_transition:
  assumes "finish_step now (state_handler rt (state j) j e []) = Inr (j', es)" "cancelRequestedAt j = None"
  shows "job_transition rt j e now j' es"
proof -
  obtain j1 where h: "state_handler rt (state j) j e [] = Inr (j1, es)" and v: "j' = j1\<lparr>version := version j1 + 1, updatedAt := now\<rparr>"
    using assms(1) by (auto simp: finish_step_def finish_def step_simps)
  from state_handler_refines [OF h] have step: "pipeline_step rt j e j1 es" .
  then have "version j1 = version j" by cases auto
  with v have "j' = stamped j now j1" by (simp add: stamped_def)
  with assms(2) step show ?thesis by (rule job_transition.handled)
qed

lemma transition_steps:
  assumes "transition rt j e now = Inr (j', es)"
  shows "job_transition rt j e now j' es"
proof (cases "(\<exists>w ws. e = CANCEL_REQUESTED w ws) \<or> e = CANCEL_CONFIRMED \<or> (\<exists>r. e = CANCELLATION_UNCONFIRMED r)")
  case True
  then consider (request) w ws where "e = CANCEL_REQUESTED w ws" | (confirmed) "e = CANCEL_CONFIRMED"
    | (unconfirmed) r where "e = CANCELLATION_UNCONFIRMED r" by blast
  then show ?thesis
  proof cases
    case request
    with assms show ?thesis by (simp add: transition_def cancellation_transition)
  next
    case confirmed
    with assms show ?thesis
      by (intro job_transition.cancel_confirmed)
        (auto simp: transition_def illegal_def Let_def finish_def stamped_def emit_simps split: if_splits)
  next
    case unconfirmed
    with assms show ?thesis by (simp add: transition_def unconfirmed_transition)
  qed
next
  case special: False
  show ?thesis
  proof (cases "cancelRequestedAt j")
    case (Some t)
    with assms special have "finish j [] now = (j', es)" by (cases e) (simp_all add: transition_def)
    with Some show ?thesis by (intro job_transition.swallowed) (simp_all add: finish_def stamped_def)
  next
    case None
    show ?thesis
    proof (cases "(\<exists>m. e = FAILED m) \<or> (\<exists>r. e = THREAD_FAILED r) \<or>
        (\<exists>rid wk res cls sig p. e = WORKER_RECOVERY_REQUESTED rid wk res cls sig p)")
      case True
      with assms None show ?thesis
        by (elim disjE exE) (simp_all add: transition_def failOnThread_def failJob_transition recovery_transition)
    next
      case False
      with assms special None have "finish_step now (state_handler rt (state j) j e []) = Inr (j', es)"
        by (cases e) (simp_all add: transition_def)
      then show ?thesis using None by (rule handler_transition)
    qed
  qed
qed

end
