(* ===== verification/Job_Lifecycle.thy ===== *)
theory Job_Lifecycle
  imports Job_Transitions
begin

text \<open>
  The life of a job: the rows \<open>createControllerJob\<close>, \<open>createAdoptedControllerJob\<close> and
  \<open>createAutonomousJob\<close> insert, the block that \<open>markJobPermanentFailure\<close> puts on a job whose
  effect went dead (all in \<open>src/storage/store.ts\<close>), the jobs reachable from a new row through
  these and the reducer, and the invariants of a reachable job.
\<close>

subsection \<open>New jobs\<close>

text \<open>The columns with a constant or a schema default in all three inserts.\<close>

definition new_job_row ::
  "string \<Rightarrow> int \<Rightarrow> string \<Rightarrow> workflow_engine \<Rightarrow> workflow_mode \<Rightarrow> int \<Rightarrow> job" where
  "new_job_row jid updateId task engine md now =
    \<lparr>job_id = jid, sourceUpdateId = updateId, requestText = task, state = AwaitingProject,
     resumeState = None, projectId = None, policyVersion = None, policy = None,
     environmentId = None, implementationThreadId = None, reviewThreadId = None,
     documentationThreadId = None, prNumber = None, prUrl = None, prHeadSha = None,
     mergeMessage = None, mergeCommitSha = None, mergedAt = None, deploymentSummary = None,
     canarySummary = None, statusMessageId = None, deliveryMode = FullDelivery,
     taskRecipe = Architectural, recipeVersion = 1, recipePromotionCount = 0,
     routingMode = LegacyRouting, workflowEngine = engine, workflowMode = md,
     workflowRevision = 1, currentWorkflowStepId = None, artifactBindings = [], taskTraits = [],
     taskReasonCodes = [], origin = Requested, autonomousOrigin = None, taskOutcome = None,
     taskConstraints = [], adoptedBranch = None, adoptedHeadSha = None, planCycle = 0,
     reviewCycle = 0, reviewBlockAt = 3, cancelRequestedAt = None, mergePreApprovedAt = None,
     blockedReason = None, lastError = None, version = 1, createdAt = now, updatedAt = now\<rparr>"

definition controller_job_row ::
  "string \<Rightarrow> int \<Rightarrow> string \<Rightarrow> workflow_engine \<Rightarrow> workflow_mode \<Rightarrow> task_outcome \<Rightarrow> task_constraint list \<Rightarrow> int \<Rightarrow> job" where
  "controller_job_row jid updateId task engine md outcome constraints now =
     (new_job_row jid updateId task engine md now)\<lparr>taskOutcome := Some outcome, taskConstraints := constraints\<rparr>"

text \<open>The insert of an adopted pull request, whose head \<open>assertFullSha\<close> has checked.\<close>

definition adopted_job_row ::
  "string \<Rightarrow> int \<Rightarrow> string \<Rightarrow> workflow_engine \<Rightarrow> workflow_mode \<Rightarrow> task_outcome \<Rightarrow> task_constraint list \<Rightarrow>
   string \<Rightarrow> string \<Rightarrow> int \<Rightarrow> string \<Rightarrow> int \<Rightarrow> job" where
  "adopted_job_row jid updateId task engine md outcome constraints branch sha n url now =
     (new_job_row jid updateId task engine md now)\<lparr>taskOutcome := Some outcome, taskConstraints := constraints,
       origin := AdoptedPrOrigin, adoptedBranch := Some branch, adoptedHeadSha := Some sha,
       prNumber := Some n, prUrl := Some url, prHeadSha := Some sha\<rparr>"

definition autonomous_job_row ::
  "string \<Rightarrow> int \<Rightarrow> string \<Rightarrow> workflow_engine \<Rightarrow> workflow_mode \<Rightarrow> autonomous_origin \<Rightarrow> int \<Rightarrow> job" where
  "autonomous_job_row jid updateId task engine md org now =
     (new_job_row jid updateId task engine md now)\<lparr>autonomousOrigin := Some org\<rparr>"

subsection \<open>A dead effect\<close>

definition isProductionIncident :: "job \<Rightarrow> bool" where
  "isProductionIncident j \<longleftrightarrow>
     mergeCommitSha j \<noteq> None \<and> (state j = Deploying \<or> state j = VerifyingProduction)"

text \<open>
  The update of \<open>markJobPermanentFailure\<close> and the render effect it queues; \<open>None\<close> where it
  leaves the job alone.
\<close>

definition markJobPermanentFailure :: "job \<Rightarrow> string \<Rightarrow> int \<Rightarrow> (job \<times> job_effect) option" where
  "markJobPermanentFailure j err now =
     (if List.member [Merged, Cancelled, Blocked, Complete, ProductionFailed] (state j) then None
      else Some
        (j\<lparr>state := (if isProductionIncident j then ProductionFailed else Blocked),
           resumeState := (if isProductionIncident j then None else Some (state j)),
           blockedReason := (if isProductionIncident j then None else Some PermanentEffectFailure),
           lastError := Some err, version := version j + 1, updatedAt := now\<rparr>,
         \<lparr>idempotencyKey = effect_key (job_id j) (version j + 1) render_status,
          effectJobId = job_id j, kind = render_status, payload = []\<rparr>))"

definition COSMETIC_EFFECT_KINDS :: "effect_kind list" where
  "COSMETIC_EFFECT_KINDS = [render_status]"

definition settleJobForDeadEffect :: "job \<Rightarrow> effect_kind \<Rightarrow> string \<Rightarrow> int \<Rightarrow> (job \<times> job_effect) option" where
  "settleJobForDeadEffect j k err now =
     (if List.member COSMETIC_EFFECT_KINDS k then None else markJobPermanentFailure j err now)"

subsection \<open>A merge that fails outside the reducer\<close>

text \<open>
  The job's part of \<open>cancelUnknownMergeJob\<close> and of \<open>failLeasedMergeEffect\<close>, which settle the job
  of a merge effect by an update of their own; \<open>None\<close> where they leave it alone.
\<close>

definition SAFE_MERGE_FAILURE_REASON :: string where
  "SAFE_MERGE_FAILURE_REASON = ''Merge effect failed safely''"

definition render_at :: "job \<Rightarrow> job_effect" where
  "render_at j = \<lparr>idempotencyKey = effect_key (job_id j) (version j + 1) render_status,
     effectJobId = job_id j, kind = render_status, payload = []\<rparr>"

definition cancelUnknownMergeJob :: "job \<Rightarrow> int \<Rightarrow> (job \<times> job_effect) option" where
  "cancelUnknownMergeJob j now =
     (if state j = Merging \<and> cancelRequestedAt j \<noteq> None
      then Some (j\<lparr>state := Cancelled, resumeState := None, lastError := None, version := version j + 1, updatedAt := now\<rparr>,
                 render_at j)
      else None)"

definition failLeasedMergeJob :: "job \<Rightarrow> int \<Rightarrow> (job \<times> job_effect) option" where
  "failLeasedMergeJob j now =
     (if state j = Merging then
        (let cancelled = (cancelRequestedAt j \<noteq> None)
         in Some (j\<lparr>state := (if cancelled then Cancelled else Failed),
                     resumeState := (if cancelled then None else Some Merging),
                     lastError := (if cancelled then None else Some SAFE_MERGE_FAILURE_REASON),
                     version := version j + 1, updatedAt := now\<rparr>, render_at j))
      else None)"

subsection \<open>Reachable jobs\<close>

text \<open>
  The jobs reachable from a new row: by the reducer, by the blocks and merge settlements above,
  by the revision of the task authority (which rewrites the outcome, the constraints and the
  pre-approval), and by the bookkeeping of message ids, thread ids and the navigator engine's
  workflow columns.  That engine also blocks a job whose routing stays unresolved and writes an
  error of its own on an invalidated integration; these two writes are not part of the relation.
\<close>

inductive reachable :: "js_runtime \<Rightarrow> job \<Rightarrow> bool" for rt :: js_runtime where
  controller: "reachable rt (controller_job_row jid upd task engine md outcome constraints now)"
| adopted: "valid_head sha \<Longrightarrow>
    reachable rt (adopted_job_row jid upd task engine md outcome constraints branch sha n url now)"
| autonomous: "reachable rt (autonomous_job_row jid upd task engine md org now)"
| event: "reachable rt j \<Longrightarrow> transition rt j e now = Inr (j', es) \<Longrightarrow> reachable rt j'"
| dead_effect: "reachable rt j \<Longrightarrow> safe_summary err \<Longrightarrow> settleJobForDeadEffect j k err now = Some (j', x) \<Longrightarrow>
    reachable rt j'"
| status_message: "reachable rt j \<Longrightarrow>
    reachable rt (j\<lparr>statusMessageId := Some m, version := version j + 1, updatedAt := now\<rparr>)"
| review_thread: "reachable rt j \<Longrightarrow>
    reachable rt (j\<lparr>reviewThreadId := t, version := version j + 1, updatedAt := now\<rparr>)"
| workflow: "reachable rt j \<Longrightarrow> v = version j \<or> v = version j + 1 \<Longrightarrow>
    reachable rt (j\<lparr>workflowRevision := r, currentWorkflowStepId := s, artifactBindings := b, version := v, updatedAt := now\<rparr>)"
| merge_cancelled: "reachable rt j \<Longrightarrow> cancelUnknownMergeJob j now = Some (j', x) \<Longrightarrow> reachable rt j'"
| merge_failed: "reachable rt j \<Longrightarrow> failLeasedMergeJob j now = Some (j', x) \<Longrightarrow> reachable rt j'"
| authority: "reachable rt j \<Longrightarrow>
    reachable rt (j\<lparr>taskOutcome := out, taskConstraints := cs, mergePreApprovedAt := p, updatedAt := now\<rparr>)"

lemmas row_defs = new_job_row_def controller_job_row_def adopted_job_row_def autonomous_job_row_def

text \<open>
  An invariant of a reachable job: it holds of the rows, the reducer's steps keep it, and so
  does the block on a dead effect; it does not read the bookkeeping columns.
\<close>

lemma reachable_invariant:
  assumes "reachable rt j"
    and rows: "\<And>jid upd task engine md outcome constraints now. P (controller_job_row jid upd task engine md outcome constraints now)"
      "\<And>jid upd task engine md outcome constraints branch sha n url now. valid_head sha \<Longrightarrow>
         P (adopted_job_row jid upd task engine md outcome constraints branch sha n url now)"
      "\<And>jid upd task engine md org now. P (autonomous_job_row jid upd task engine md org now)"
    and step: "\<And>j e now j' es. reachable rt j \<Longrightarrow> P j \<Longrightarrow> job_transition rt j e now j' es \<Longrightarrow> P j'"
    and dead: "\<And>j err now j' x. reachable rt j \<Longrightarrow> P j \<Longrightarrow> safe_summary err \<Longrightarrow> markJobPermanentFailure j err now = Some (j', x) \<Longrightarrow> P j'"
    and books: "\<And>j m r v p t. P (j\<lparr>statusMessageId := m, version := v, updatedAt := t\<rparr>) = P j"
      "\<And>j m r v p t. P (j\<lparr>reviewThreadId := r, version := v, updatedAt := t\<rparr>) = P j"
      "\<And>j out cs p t. P (j\<lparr>taskOutcome := out, taskConstraints := cs, mergePreApprovedAt := p, updatedAt := t\<rparr>) = P j"
      "\<And>j r s b v t. P (j\<lparr>workflowRevision := r, currentWorkflowStepId := s, artifactBindings := b, version := v, updatedAt := t\<rparr>) = P j"
    and merges: "\<And>j now j' x. P j \<Longrightarrow> cancelUnknownMergeJob j now = Some (j', x) \<Longrightarrow> P j'"
      "\<And>j now j' x. P j \<Longrightarrow> failLeasedMergeJob j now = Some (j', x) \<Longrightarrow> P j'"
  shows "P j"
  using assms(1)
proof induction
  case (event j e now j' es)
  then show ?case by (blast intro: step transition_steps)
next
  case (dead_effect j err k now j' x)
  then show ?case by (auto simp: settleJobForDeadEffect_def split: if_splits intro: dead)
qed (simp_all add: rows books, (rule merges; assumption)+)

subsection \<open>Invariants\<close>

definition resume_inv :: "job \<Rightarrow> bool" where
  "resume_inv j \<longleftrightarrow>
     (state j \<notin> {Failed, RecoveringWorker, Cancelled, Blocked} \<longrightarrow> resumeState j = None) \<and>
     (state j = Blocked \<and> blockedReason j \<notin> {Some PermanentEffectFailure, Some CancellationUnconfirmed} \<longrightarrow>
        resumeState j = None) \<and>
     (state j \<in> {Failed, RecoveringWorker} \<longrightarrow> resumeState j \<noteq> None)"

text \<open>The states that work on one pull-request head.\<close>

definition HEAD_STATES :: "job_state set" where
  "HEAD_STATES = {Validating, Reviewing, Documenting, FinalValidating, FinalReviewing, AwaitingMergeApproval, Merging}"

text \<open>The state a job is in, and the one it would resume.\<close>

definition live_states :: "job \<Rightarrow> job_state set" where
  "live_states j = insert (state j) (set_option (resumeState j))"

definition head_inv :: "job \<Rightarrow> bool" where
  "head_inv j \<longleftrightarrow> (\<forall>sha. prHeadSha j = Some sha \<longrightarrow> valid_head sha) \<and>
     (live_states j \<inter> HEAD_STATES \<noteq> {} \<longrightarrow> prHeadSha j \<noteq> None)"

definition cancel_inv :: "job \<Rightarrow> bool" where
  "cancel_inv j \<longleftrightarrow>
     (cancelRequestedAt j \<noteq> None \<longrightarrow> state j \<notin> {Complete, Merged, ProductionFailed, Deploying, VerifyingProduction}) \<and>
     (state j = Cancelled \<longrightarrow> cancelRequestedAt j \<noteq> None)"

definition plan_inv :: "job \<Rightarrow> bool" where
  "plan_inv j \<longleftrightarrow> 0 \<le> planCycle j \<and> planCycle j \<le> 1 \<and> (Critiquing \<in> live_states j \<longrightarrow> planCycle j = 0) \<and>
     blockedReason j \<noteq> Some PlanLimit"

definition review_inv :: "job \<Rightarrow> bool" where
  "review_inv j \<longleftrightarrow> 0 \<le> reviewCycle j \<and> reviewCycle j \<le> reviewBlockAt j \<and> 1 \<le> reviewBlockAt j \<and>
     (cancelRequestedAt j = None \<and> \<not> (state j = Blocked \<and> blockedReason j = Some ReviewLimit) \<longrightarrow>
        reviewCycle j < reviewBlockAt j) \<and>
     (state j = AwaitingProject \<longrightarrow> reviewCycle j = 0)"

definition error_inv :: "job \<Rightarrow> bool" where
  "error_inv j \<longleftrightarrow> (\<forall>m. lastError j = Some m \<longrightarrow> safe_summary m)"

definition deploy_inv :: "job \<Rightarrow> bool" where
  "deploy_inv j \<longleftrightarrow> (live_states j \<inter> {Deploying, VerifyingProduction} \<noteq> {} \<longrightarrow>
     mergeCommitSha j \<noteq> None \<and> policy_production j \<noteq> None) \<and>
     (state j = AwaitingProject \<longrightarrow> policy j = None)"

definition policy_inv :: "js_runtime \<Rightarrow> job \<Rightarrow> bool" where
  "policy_inv rt j \<longleftrightarrow> (\<forall>p. policy j = Some p \<longrightarrow> policy_fields_ok p \<and> policy_rules_ok rt p)"

lemma plan_block_iff:
  "isResumablePlanBlock j \<longleftrightarrow> state j = Blocked \<and> prNumber j = None \<and>
     (blockedReason j = Some PlanLimit \<or>
      blockedReason j = Some ReviewLimit \<and> implementationThreadId j = None \<and> reviewCycle j = 0)"
  by (auto simp: isResumablePlanBlock_def)

lemmas block_kind_simps = open_block_def plan_block_iff isReviewedPrCompletionBlock_def
  isResumableConfigurationBlock_def isResumablePermanentFailure_def

lemma limit_summary_safe: "safe_summary ''Patch, test, and review limit reached''"
  by code_simp

subsection \<open>The steps keep the invariants\<close>

lemma truthy_str_iff: "truthy_str v \<longleftrightarrow> (\<exists>s. v = Some s \<and> s \<noteq> [])"
  by (cases v) auto

lemma review_block_not_plan: "review_block r \<noteq> PlanLimit"
  by (cases r) simp_all

lemma effectByState_driven:
  "effectByState s = Some k \<Longrightarrow> s \<noteq> AwaitingProject \<and> s \<noteq> AwaitingConfirmation \<and> s \<noteq> Failed \<and> s \<noteq> RecoveringWorker \<and>
     s \<noteq> Blocked \<and> s \<noteq> Cancelled \<and> s \<noteq> Complete \<and> s \<noteq> Merged \<and> s \<noteq> ProductionFailed"
  by auto

lemma pipeline_step_resume: "pipeline_step rt j e j' es \<Longrightarrow> resume_inv j \<Longrightarrow> resume_inv j'"
  by (erule pipeline_step.cases; simp add: resume_inv_def block_kind_simps effectByState_driven; (elim conjE disjE exE)?; simp?)

lemma pipeline_step_head: "pipeline_step rt j e j' es \<Longrightarrow> resume_inv j \<Longrightarrow> head_inv j \<Longrightarrow> head_inv j'"
  by (erule pipeline_step.cases;
      simp add: resume_inv_def head_inv_def live_states_def HEAD_STATES_def block_kind_simps truthy_str_iff;
      (elim conjE disjE exE)?; simp?)

lemma pipeline_step_cancel:
  "pipeline_step rt j e j' es \<Longrightarrow> cancelRequestedAt j = None \<Longrightarrow> cancelRequestedAt j' = None \<and> state j' \<noteq> Cancelled"
  by (erule pipeline_step.cases; simp; (elim conjE disjE exE)?; (simp; fail | force))

lemma pipeline_step_plan: "pipeline_step rt j e j' es \<Longrightarrow> resume_inv j \<Longrightarrow> plan_inv j \<Longrightarrow> plan_inv j'"
  by (erule pipeline_step.cases)
    (simp_all add: resume_inv_def plan_inv_def live_states_def block_kind_simps review_block_not_plan)

lemma pipeline_step_review:
  "pipeline_step rt j e j' es \<Longrightarrow> cancelRequestedAt j = None \<Longrightarrow> review_inv j \<Longrightarrow> review_inv j'"
  apply (erule pipeline_step.cases)
  apply (simp_all add: review_inv_def block_kind_simps policy_fields_ok_def between_def effectByState_driven)
  apply ((elim conjE disjE exE)?; simp)+
  done

lemma pipeline_step_error: "pipeline_step rt j e j' es \<Longrightarrow> error_inv j \<Longrightarrow> error_inv j'"
  by (erule pipeline_step.cases; simp add: error_inv_def limit_summary_safe)

lemma pipeline_step_deploy:
  "pipeline_step rt j e j' es \<Longrightarrow> resume_inv j \<Longrightarrow> deploy_inv j \<Longrightarrow> deploy_inv j'"
  by (erule pipeline_step.cases;
      simp add: resume_inv_def deploy_inv_def live_states_def policy_production_def block_kind_simps effectByState_driven;
      (elim conjE disjE exE)?; simp?)

lemma pipeline_step_policy: "pipeline_step rt j e j' es \<Longrightarrow> policy_inv rt j \<Longrightarrow> policy_inv rt j'"
  by (erule pipeline_step.cases; simp add: policy_inv_def)

subsection \<open>The invariants of a reachable job\<close>

definition job_inv :: "js_runtime \<Rightarrow> job \<Rightarrow> bool" where
  "job_inv rt j \<longleftrightarrow> resume_inv j \<and> head_inv j \<and> cancel_inv j \<and> plan_inv j \<and> review_inv j \<and> error_inv j \<and>
     deploy_inv j \<and> policy_inv rt j"

lemmas inv_defs = resume_inv_def head_inv_def live_states_def HEAD_STATES_def cancel_inv_def plan_inv_def
  review_inv_def error_inv_def deploy_inv_def policy_inv_def policy_production_def

lemma job_inv_stamped: "job_inv rt (stamped j now j1) = job_inv rt j1"
  by (simp add: job_inv_def inv_defs stamped_def)

lemma pipeline_step_inv:
  assumes "pipeline_step rt j e j' es" "cancelRequestedAt j = None" "job_inv rt j"
  shows "job_inv rt j'"
  using assms pipeline_step_resume [OF assms(1)] pipeline_step_head [OF assms(1)] pipeline_step_plan [OF assms(1)]
    pipeline_step_review [OF assms(1)] pipeline_step_error [OF assms(1)] pipeline_step_deploy [OF assms(1)]
    pipeline_step_policy [OF assms(1)] pipeline_step_cancel [OF assms(1)]
  by (simp add: job_inv_def cancel_inv_def)

lemma job_inv_cancelling:
  assumes "job_inv rt j" "state j \<notin> {Cancelled, Merged, Deploying, VerifyingProduction, ProductionFailed, Complete}"
  shows "job_inv rt (j\<lparr>cancelRequestedAt := Some t\<rparr>)"
  using assms by (simp add: job_inv_def inv_defs)

lemma job_inv_cancelled:
  assumes "job_inv rt j"
  shows "job_inv rt (j\<lparr>cancelRequestedAt := Some t, state := Cancelled\<rparr>)"
  using assms by (simp add: job_inv_def inv_defs)

lemma job_inv_confirmed:
  "job_inv rt j \<Longrightarrow> cancelRequestedAt j \<noteq> None \<Longrightarrow> job_inv rt (j\<lparr>state := Cancelled\<rparr>)"
  by (cases "cancelRequestedAt j"; simp add: job_inv_def inv_defs)

lemma job_inv_unconfirmed:
  "job_inv rt j \<Longrightarrow> cancelRequestedAt j \<noteq> None \<Longrightarrow> safe_summary msg \<Longrightarrow>
   job_inv rt (j\<lparr>resumeState := Some (state j), state := Blocked, blockedReason := Some CancellationUnconfirmed,
                 lastError := Some msg\<rparr>)"
  by (cases "cancelRequestedAt j"; simp add: job_inv_def inv_defs)

lemma job_inv_failed:
  "job_inv rt j \<Longrightarrow> cancelRequestedAt j = None \<Longrightarrow> state j \<noteq> Blocked \<Longrightarrow> safe_summary msg \<Longrightarrow>
   job_inv rt (j\<lparr>resumeState := Some (state j), lastError := Some msg, state := Failed\<rparr>)"
  by (simp add: job_inv_def inv_defs)

lemma job_inv_recovering:
  "job_inv rt j \<Longrightarrow> cancelRequestedAt j = None \<Longrightarrow> state j \<noteq> Blocked \<Longrightarrow>
   job_inv rt (j\<lparr>resumeState := Some (state j), state := RecoveringWorker\<rparr>)"
  by (simp add: job_inv_def inv_defs)

lemma job_transition_inv:
  assumes "job_transition rt j e now j' es" "job_inv rt j"
  shows "job_inv rt j'"
  using assms(1)
proof cases
  case (cancel_requested w ws workers quiet)
  with assms(2) show ?thesis by (simp only: job_inv_stamped) (simp add: job_inv_cancelling job_inv_cancelled)
next
  case cancel_confirmed
  with assms(2) show ?thesis by (simp add: job_inv_stamped job_inv_confirmed)
next
  case (cancellation_unconfirmed r msg)
  with assms(2) show ?thesis by (simp add: job_inv_stamped job_inv_unconfirmed)
next
  case swallowed
  with assms(2) show ?thesis by (simp add: job_inv_stamped)
next
  case (failed msg r)
  with assms(2) show ?thesis by (simp add: job_inv_stamped job_inv_failed)
next
  case (recovery_requested rid wk res cls sig p)
  then have "state j \<noteq> Blocked" by (auto simp: RECOVERABLE_WORKER_STATES_def)
  with recovery_requested assms(2) show ?thesis by (simp add: job_inv_stamped job_inv_recovering)
next
  case (handled j1)
  with assms(2) pipeline_step_inv show ?thesis by (simp add: job_inv_stamped)
qed

lemma job_inv_incident:
  "job_inv rt j \<Longrightarrow> state j = Deploying \<or> state j = VerifyingProduction \<Longrightarrow> safe_summary err \<Longrightarrow>
   job_inv rt (j\<lparr>state := ProductionFailed, resumeState := None, blockedReason := None, lastError := Some err,
                 version := v, updatedAt := now\<rparr>)"
  by (elim disjE; simp add: job_inv_def inv_defs)

lemma job_inv_dead:
  "job_inv rt j \<Longrightarrow> state j \<noteq> Blocked \<Longrightarrow> safe_summary err \<Longrightarrow>
   job_inv rt (j\<lparr>state := Blocked, resumeState := Some (state j), blockedReason := Some PermanentEffectFailure,
                 lastError := Some err, version := v, updatedAt := now\<rparr>)"
  by (simp add: job_inv_def inv_defs)

lemma dead_effect_inv:
  assumes "markJobPermanentFailure j err now = Some (j', x)" "safe_summary err" "job_inv rt j"
  shows "job_inv rt j'"
  using assms job_inv_incident [OF assms(3) _ assms(2)] job_inv_dead [OF assms(3) _ assms(2)]
  by (auto simp: markJobPermanentFailure_def isProductionIncident_def split: if_splits)

lemma new_row_inv:
  "job_inv rt (controller_job_row jid upd task engine md outcome constraints now)"
  "valid_head sha \<Longrightarrow> job_inv rt (adopted_job_row jid upd task engine md outcome constraints branch sha n url now)"
  "job_inv rt (autonomous_job_row jid upd task engine md org now)"
  by (simp_all add: row_defs job_inv_def inv_defs)

lemma job_inv_books:
  "job_inv rt (j\<lparr>statusMessageId := m, version := v, updatedAt := t\<rparr>) = job_inv rt j"
  "job_inv rt (j\<lparr>reviewThreadId := r, version := v, updatedAt := t\<rparr>) = job_inv rt j"
  "job_inv rt (j\<lparr>taskOutcome := out, taskConstraints := cs, mergePreApprovedAt := p, updatedAt := t\<rparr>) = job_inv rt j"
  "job_inv rt (j\<lparr>workflowRevision := wr, currentWorkflowStepId := ws, artifactBindings := wb, version := v, updatedAt := t\<rparr>) = job_inv rt j"
  by (simp_all add: job_inv_def inv_defs)

lemma merge_failure_safe: "safe_summary SAFE_MERGE_FAILURE_REASON"
  by code_simp

lemma merge_settled_inv:
  "job_inv rt j \<Longrightarrow> cancelUnknownMergeJob j now = Some (j', x) \<Longrightarrow> job_inv rt j'"
  "job_inv rt j \<Longrightarrow> failLeasedMergeJob j now = Some (j', x) \<Longrightarrow> job_inv rt j'"
  by (auto simp: cancelUnknownMergeJob_def failLeasedMergeJob_def Let_def job_inv_def inv_defs merge_failure_safe split: if_splits)

lemma reachable_inv: "reachable rt j \<Longrightarrow> job_inv rt j"
proof (erule reachable_invariant)
  show "job_inv rt j'" if "job_inv rt j" "job_transition rt j e now j' es" for j e now j' es
    using that by (blast intro: job_transition_inv)
  show "job_inv rt j'" if "job_inv rt j" "safe_summary err" "markJobPermanentFailure j err now = Some (j', x)" for j err now j' x
    using that by (blast intro: dead_effect_inv)
qed (simp_all only: new_row_inv job_inv_books, (erule (1) merge_settled_inv)+)

end
