(* ===== verification/Job_Outcomes.thy ===== *)
theory Job_Outcomes
  imports Job_Lifecycle
begin

text \<open>
  What the reducer guarantees: the frame of a transition, the keys of its effects, the safety of
  merging, deploying and cancelling, the bounds on the planning and review rounds, and the
  conditions of completion.
\<close>

subsection \<open>Lemmas on one step\<close>

text \<open>The fields no event changes.\<close>

definition same_identity :: "job \<Rightarrow> job \<Rightarrow> bool" where
  "same_identity j j' \<longleftrightarrow>
     job_id j' = job_id j \<and> sourceUpdateId j' = sourceUpdateId j \<and> requestText j' = requestText j \<and>
     deliveryMode j' = deliveryMode j \<and> taskRecipe j' = taskRecipe j \<and> routingMode j' = routingMode j \<and>
     workflowEngine j' = workflowEngine j \<and> workflowMode j' = workflowMode j \<and> origin j' = origin j \<and>
     autonomousOrigin j' = autonomousOrigin j \<and> taskOutcome j' = taskOutcome j \<and>
     taskConstraints j' = taskConstraints j \<and> adoptedBranch j' = adoptedBranch j \<and>
     adoptedHeadSha j' = adoptedHeadSha j \<and> createdAt j' = createdAt j"

lemma pipeline_step_frame: "pipeline_step rt j e j' es \<Longrightarrow> same_identity j j' \<and> version j' = version j"
  by (erule pipeline_step.cases) (simp_all add: same_identity_def)

lemma pipeline_step_project:
  "pipeline_step rt j e j' es \<Longrightarrow> state j \<noteq> AwaitingProject \<Longrightarrow>
   policy j' = policy j \<and> projectId j' = projectId j \<and> policyVersion j' = policyVersion j"
  by (erule pipeline_step.cases) simp_all

text \<open>Effects of distinct kinds, each under the key of this job and its next version.\<close>

definition well_emitted :: "job \<Rightarrow> job_effect list \<Rightarrow> bool" where
  "well_emitted j es \<longleftrightarrow> distinct (map kind es) \<and>
     list_all (\<lambda>x. effectJobId x = job_id j \<and> idempotencyKey x = effect_key (job_id j) (version j + 1) (kind x)) es"

lemma well_emitted_emits: "emits j ks es \<Longrightarrow> distinct ks \<Longrightarrow> well_emitted j es"
  by (auto simp: emits_def well_emitted_def)

lemma well_emitted_effs: "distinct (map fst kps) \<Longrightarrow> well_emitted j (effs j kps)"
  by (rule well_emitted_emits [OF emits_effs])

lemma well_emitted_nil: "well_emitted j []"
  by (simp add: well_emitted_def)

lemma pipeline_step_emits: "pipeline_step rt j e j' es \<Longrightarrow> well_emitted j es"
  by (erule pipeline_step.cases) (simp_all add: well_emitted_emits well_emitted_effs)

lemma job_transition_emits: "job_transition rt j e now j' es \<Longrightarrow> well_emitted j es"
  by (erule job_transition.cases)
    (simp_all add: well_emitted_emits well_emitted_nil pipeline_step_emits split: if_splits)

lemma job_transition_frame:
  assumes "job_transition rt j e now j' es"
  shows "same_identity j j'" "version j' = version j + 1" "updatedAt j' = now"
  using assms pipeline_step_frame
  by (cases; fastforce simp: same_identity_def stamped_def)+

lemma job_transition_project:
  assumes "job_transition rt j e now j' es" "state j \<noteq> AwaitingProject"
  shows "policy j' = policy j \<and> projectId j' = projectId j \<and> policyVersion j' = policyVersion j"
  using assms pipeline_step_project by (cases; fastforce simp: stamped_def)

lemma effect_key_inject:
  "effect_key a v k = effect_key b w l \<longleftrightarrow> a = b \<and> v = w \<and> k = l"
proof
  assume eq: "effect_key a v k = effect_key b w l"
  have no_colon: "CHR '':'' \<notin> set (rev (kind_name q))" for q by (cases q) simp_all
  have rkey: "rev (effect_key c n q) = rev (kind_name q) @ '':'' @ rev (show_int n) @ '':'' @ rev c" for c n q
    by (simp add: effect_key_def)
  from eq have "rev (effect_key a v k) = rev (effect_key b w l)" by simp
  then have 1: "rev (kind_name k) @ '':'' @ (rev (show_int v) @ '':'' @ rev a) =
      rev (kind_name l) @ '':'' @ (rev (show_int w) @ '':'' @ rev b)"
    by (simp only: rkey)
  then have "rev (kind_name k) = rev (kind_name l) \<and>
      rev (show_int v) @ '':'' @ rev a = rev (show_int w) @ '':'' @ rev b"
    by (simp only: colon_key_inject [OF no_colon no_colon])
  moreover have num: "CHR '':'' \<notin> set (rev (show_int n))" for n by (simp add: show_int_no_colon)
  ultimately have "k = l" "rev (show_int v) = rev (show_int w) \<and> rev a = rev b"
    using colon_key_inject [OF num [of v] num [of w], of "rev a" "rev b"] by simp_all
  then show "a = b \<and> v = w \<and> k = l" by simp
qed simp

subsection \<open>Lemmas on the outcome of a step\<close>

text \<open>A worker recovery resumes only a state that runs a worker.\<close>

definition recover_inv :: "job \<Rightarrow> bool" where
  "recover_inv j \<longleftrightarrow> (\<forall>s. state j = RecoveringWorker \<longrightarrow> resumeState j = Some s \<longrightarrow> s \<in> set RECOVERABLE_WORKER_STATES)"

lemma pipeline_step_not_recovering: "pipeline_step rt j e j' es \<Longrightarrow> state j' = RecoveringWorker \<Longrightarrow> False"
  by (erule pipeline_step.cases) (auto dest: effectByState_driven)

lemma job_transition_recover: "job_transition rt j e now j' es \<Longrightarrow> recover_inv j \<Longrightarrow> recover_inv j'"
  by (erule job_transition.cases)
    (auto simp: recover_inv_def stamped_def dest: pipeline_step_not_recovering split: if_splits)

lemma reachable_recover: "reachable rt j \<Longrightarrow> recover_inv j"
proof (erule reachable_invariant)
  show "recover_inv j'" if "markJobPermanentFailure j err now = Some (j', x)" for j err now j' x
    using that by (auto simp: markJobPermanentFailure_def recover_inv_def split: if_splits)
  show "recover_inv j'" if "cancelUnknownMergeJob j now = Some (j', x)" for j now j' x
    using that by (auto simp: cancelUnknownMergeJob_def recover_inv_def split: if_splits)
  show "recover_inv j'" if "failLeasedMergeJob j now = Some (j', x)" for j now j' x
    using that by (auto simp: failLeasedMergeJob_def recover_inv_def Let_def split: if_splits)
qed (simp_all add: recover_inv_def [of "controller_job_row _ _ _ _ _ _ _ _"] recover_inv_def [of "autonomous_job_row _ _ _ _ _ _ _"]
    recover_inv_def [of "adopted_job_row _ _ _ _ _ _ _ _ _ _ _ _"] row_defs job_transition_recover, simp_all add: recover_inv_def)

lemma reachable_full_delivery: "reachable rt j \<Longrightarrow> deliveryMode j = FullDelivery"
proof (erule reachable_invariant)
  show "deliveryMode j' = FullDelivery"
    if "deliveryMode j = FullDelivery" "job_transition rt j e now j' es" for j e now j' es
    using job_transition_frame(1) [OF that(2)] that(1) by (simp add: same_identity_def)
qed (auto simp: row_defs markJobPermanentFailure_def cancelUnknownMergeJob_def failLeasedMergeJob_def Let_def split: if_splits)

lemma obj_spread_nil: "obj_spread a [] = a"
  by (simp add: obj_spread_def assoc_set_all_def)

lemma emits_kind: "emits j ks es \<Longrightarrow> x \<in> set es \<Longrightarrow> kind x \<in> set ks"
  by (auto simp: emits_def)

lemma effs_single: "x \<in> set (effs j [(k, p)]) \<Longrightarrow> kind x = k \<and> payload x = p"
  by (simp add: effs_def)

lemma effectByState_merge: "effectByState s = Some merge_pr \<longleftrightarrow> s = Merging"
  by (cases s) simp_all

lemma effectByState_production:
  "effectByState s = Some deploy_production \<longleftrightarrow> s = Deploying"
  "effectByState s = Some verify_production \<longleftrightarrow> s = VerifyingProduction"
  by (cases s; simp)+

lemma valid_head_nonempty: "\<not> valid_head []"
  by code_simp

text \<open>The two ways to emit a merge.\<close>

lemma pipeline_step_merge:
  assumes "pipeline_step rt j e j' es" "x \<in> set es" "kind x = merge_pr" "recover_inv j"
  shows "state j' = Merging \<and> prHeadSha j' = prHeadSha j \<and> payload x = head_payload j \<and>
    (\<exists>sha. state j = AwaitingMergeApproval \<and> e = APPROVAL_ACCEPTED sha \<and> prHeadSha j = Some sha \<and> valid_head sha \<or>
       e = RETRY \<and> resumeState j = Some Merging)"
  using assms(1)
proof cases
  case (approved sha)
  moreover from this have "sha \<noteq> []" using valid_head_nonempty by auto
  ultimately show ?thesis using assms(2) by (auto simp: head_payload_def dest: effs_single)
next
  case (recover_stage s k r q)
  with assms(2,3) have "k = merge_pr" by (auto dest: emits_kind)
  with recover_stage effectByState_merge have "s = Merging" by simp
  with recover_stage assms(4) show ?thesis by (simp add: recover_inv_def RECOVERABLE_WORKER_STATES_def)
next
  case (retry_failed s k)
  with assms(2,3) have "k = merge_pr" "payload x = head_payload j" by (auto dest: effs_single simp: obj_spread_nil)
  with retry_failed show ?thesis by (simp add: effectByState_merge)
next
  case (retry_blocked s k)
  with assms(2,3) have "k = merge_pr" "payload x = head_payload j" by (auto dest: effs_single simp: obj_spread_nil)
  with retry_blocked show ?thesis by (simp add: effectByState_merge)
qed (use assms(2,3) in \<open>auto dest!: emits_kind effs_single\<close>)

lemma pipeline_step_production:
  assumes "pipeline_step rt j e j' es" "x \<in> set es" "kind x = deploy_production \<or> kind x = verify_production"
  shows "state j' = Deploying \<or> state j' = VerifyingProduction"
  using assms(1)
proof cases
  case (recover_stage s k r q)
  with assms(2,3) have "k = deploy_production \<or> k = verify_production" by (auto dest: emits_kind)
  with recover_stage show ?thesis by (auto simp: effectByState_production)
next
  case (retry_failed s k)
  with assms(2,3) have "k = deploy_production \<or> k = verify_production" by (auto dest: effs_single)
  with retry_failed show ?thesis by (auto simp: effectByState_production)
next
  case (retry_blocked s k)
  with assms(2,3) have "k = deploy_production \<or> k = verify_production" by (auto dest: effs_single)
  with retry_blocked show ?thesis by (auto simp: effectByState_production)
qed (use assms(2,3) in \<open>auto dest!: emits_kind effs_single\<close>)

lemma pipeline_step_complete:
  assumes "pipeline_step rt j e j' es" "state j' = Complete"
  shows "state j = VerifyingProduction \<and> (\<exists>s. e = CANARY_SUCCEEDED s \<and> canarySummary j' = Some s) \<or>
    policy_production j = None \<or> isSmallFixJob j"
  using assms
  by cases (auto simp: is_merge_candidate_def isReviewedPrCompletionBlock_def policy_production_def
      dest: effectByState_driven split: option.splits)

lemma pipeline_step_merged:
  assumes "pipeline_step rt j e j' es" "state j' = Merged"
  shows "state j = Merging \<and> (\<exists>m sha t. e = MERGE_SUCCEEDED m sha t True \<and> valid_head sha \<and> mergeCommitSha j' = Some sha) \<and>
    (NoDeploy \<in> set (taskConstraints j) \<or> policy_production j = None \<and> mergesWithoutProduction (policy j))"
  using assms by cases (auto dest: effectByState_driven)

lemma pipeline_step_deploys:
  assumes "pipeline_step rt j e j' es" "state j = Merging" "x \<in> set es" "kind x = deploy_production \<or> kind x = verify_production"
  shows "NoDeploy \<notin> set (taskConstraints j')"
  using assms(1,2) pipeline_step_production [OF assms(1,3,4)]
  by cases (auto simp: block_kind_simps)

lemma pipeline_step_driver:
  assumes "pipeline_step rt j e j' es" "state j' \<noteq> state j" "state j' \<noteq> Implementing" "effectByState (state j') = Some k"
  shows "k \<in> kind ` set es"
  using assms
  by cases (auto dest!: emits_kinds simp: effs_def)

lemma pipeline_step_cycles:
  assumes "pipeline_step rt j e j' es" "e \<noteq> CONTINUE_REVIEW" "state j \<noteq> AwaitingProject"
  shows "reviewBlockAt j' = reviewBlockAt j" "reviewCycle j \<le> reviewCycle j'"
    "reviewCycle j' \<noteq> reviewCycle j \<Longrightarrow> reviewCycle j' = reviewCycle j + 1"
  using assms by (cases; simp)+

subsection \<open>Runs\<close>

text \<open>
  A round of rework: a failed review or validation that sends the job to remediation.
  \<open>rework_rounds\<close> counts those of a list of events, up to the first rejected event.
\<close>

definition is_rework :: "job_event \<Rightarrow> job \<Rightarrow> bool" where
  "is_rework e j' \<longleftrightarrow> state j' = Remediating \<and>
     (case e of REVIEW_CHANGES_REQUESTED _ _ _ _ \<Rightarrow> True | VALIDATION_FAILED _ _ \<Rightarrow> True | _ \<Rightarrow> False)"

fun rework_rounds :: "js_runtime \<Rightarrow> job \<Rightarrow> (job_event \<times> int) list \<Rightarrow> int" where
  "rework_rounds rt j [] = 0"
| "rework_rounds rt j ((e, t) # evs) =
     (case transition rt j e t of Inl _ \<Rightarrow> 0
      | Inr (j', _) \<Rightarrow> (if is_rework e j' \<and> cancelRequestedAt j = None then 1 else 0) + rework_rounds rt j' evs)"

lemma pipeline_step_rework:
  assumes "pipeline_step rt j e j' es" "is_rework e j'"
  shows "reviewCycle j' = reviewCycle j + 1 \<and> reviewCycle j' < reviewBlockAt j"
  using assms by cases (auto simp: is_rework_def)

lemma pipeline_step_later: "pipeline_step rt j e j' es \<Longrightarrow> state j \<noteq> AwaitingProject \<Longrightarrow> state j' \<noteq> AwaitingProject"
  by (erule pipeline_step.cases) (auto dest: effectByState_driven)

lemma job_transition_rounds:
  assumes "job_transition rt j e now j' es" "e \<noteq> CONTINUE_REVIEW" "state j \<noteq> AwaitingProject"
  shows "state j' \<noteq> AwaitingProject" "reviewBlockAt j' = reviewBlockAt j" "reviewCycle j \<le> reviewCycle j'"
    "is_rework e j' \<Longrightarrow> cancelRequestedAt j = None \<Longrightarrow> reviewCycle j' = reviewCycle j + 1 \<and> reviewCycle j' < reviewBlockAt j"
proof -
  have "state j' \<noteq> AwaitingProject \<and> reviewBlockAt j' = reviewBlockAt j \<and> reviewCycle j \<le> reviewCycle j' \<and>
    (is_rework e j' \<longrightarrow> cancelRequestedAt j = None \<longrightarrow> reviewCycle j' = reviewCycle j + 1 \<and> reviewCycle j' < reviewBlockAt j)"
    using assms(1)
  proof cases
    case (handled j1)
    have same: "state j' = state j1" "reviewBlockAt j' = reviewBlockAt j1" "reviewCycle j' = reviewCycle j1"
      "is_rework e j' = is_rework e j1"
      unfolding handled(3) stamped_def is_rework_def by simp_all
    show ?thesis
      unfolding same
      using pipeline_step_cycles(1,2) [OF handled(2) assms(2,3)] pipeline_step_later [OF handled(2) assms(3)]
        pipeline_step_rework [OF handled(2)]
      by blast
  next
    case (cancel_requested w ws workers quiet)
    with assms(3) show ?thesis by (simp only:) (simp add: stamped_def is_rework_def)
  next
    case cancel_confirmed
    with assms(3) show ?thesis by (simp add: stamped_def is_rework_def)
  next
    case (cancellation_unconfirmed r msg)
    with assms(3) show ?thesis by (simp add: stamped_def is_rework_def)
  next
    case swallowed
    with assms(3) show ?thesis by (simp add: stamped_def)
  next
    case (failed msg r)
    with assms(3) show ?thesis by (simp add: stamped_def is_rework_def)
  next
    case (recovery_requested rid wk res cls sig p)
    with assms(3) show ?thesis by (simp add: stamped_def is_rework_def)
  qed
  then show "state j' \<noteq> AwaitingProject" "reviewBlockAt j' = reviewBlockAt j" "reviewCycle j \<le> reviewCycle j'"
    "is_rework e j' \<Longrightarrow> cancelRequestedAt j = None \<Longrightarrow> reviewCycle j' = reviewCycle j + 1 \<and> reviewCycle j' < reviewBlockAt j"
    by simp_all
qed

lemma rework_rounds_bound:
  assumes "state j \<noteq> AwaitingProject" "CONTINUE_REVIEW \<notin> fst ` set evs"
  shows "rework_rounds rt j evs \<le> max 0 (reviewBlockAt j - 1 - reviewCycle j)"
  using assms
proof (induction rt j evs rule: rework_rounds.induct)
  case (2 rt j e t evs)
  show ?case
  proof (cases "transition rt j e t")
    case (Inr r)
    obtain j' es where r: "r = (j', es)" by (cases r)
    have e: "e \<noteq> CONTINUE_REVIEW" using 2(3) by auto
    note step = job_transition_rounds [OF transition_steps [OF Inr [unfolded r]] e 2(2)]
    have "rework_rounds rt j' evs \<le> max 0 (reviewBlockAt j' - 1 - reviewCycle j')"
      using 2(1) [OF Inr r [symmetric]] step(1) 2(3) by simp
    with step(2,3,4) Inr r show ?thesis by auto
  qed simp
qed simp

end
