(* ===== verification/Job_Demo.thy ===== *)
theory Job_Demo
  imports Job_Lifecycle
begin

text \<open>
  One concrete project and the jobs it runs, from the row to production, on which the properties
  of the state machine are instantiated.  \<open>run_events\<close> folds the reducer over a list of events.
\<close>

fun run_events :: "js_runtime \<Rightarrow> job \<Rightarrow> (job_event \<times> int) list \<Rightarrow> job result" where
  "run_events rt j [] = Inr j"
| "run_events rt j ((e, t) # evs) = rbind (transition rt j e t) (\<lambda>(j', _). run_events rt j' evs)"

lemma reachable_run: "reachable rt j \<Longrightarrow> run_events rt j evs = Inr j' \<Longrightarrow> reachable rt j'"
proof (induction rt j evs rule: run_events.induct)
  case (2 rt j e t evs)
  then obtain j1 es where t: "transition rt j e t = Inr (j1, es)" and "run_events rt j1 evs = Inr j'"
    by (auto simp: rbind_eq_Inr)
  with 2 reachable.event [OF _ t] show ?case by auto
qed simp

definition demo_runtime :: js_runtime where
  "demo_runtime = \<lparr>date_parse = (\<lambda>_. Some 0), regexp_compiles = (\<lambda>_. True)\<rparr>"

definition demo_head :: string where
  "demo_head = replicate 40 (CHR ''a'')"

definition demo_command :: policy_command where
  "demo_command = \<lparr>cmdName = ''run'', cmdCommand = ''make run'', cmdTimeoutMs = 60000\<rparr>"

definition demo_profile :: execution_profile where
  "demo_profile = \<lparr>xProviderId = None, xModel = None, xReasoningLevel = None, xServiceTier = None,
     xPermissionMode = None\<rparr>"

definition demo_policy :: project_policy where
  "demo_policy = \<lparr>policyProjectId = ''proj_demo'', policyAlias = ''demo'', enabled = True,
     githubRepository = ''acme/demo'', baseBranch = ''main'', implementationProfile = demo_profile,
     reviewProfile = demo_profile, stageExecution = None, autonomy = None,
     validationCommands = [demo_command],
     production = Some \<lparr>deployCommands = [demo_command], canaryCommands = [demo_command],
       healthCommands = None, healthIntervalMs = None, rollbackCommand = Some demo_command,
       targetKey = None, convexDeployRequired = False\<rparr>,
     regression = None, requiredChecks = [''ci''], outputRedactionPatterns = [],
     workerStartGraceMs = 60000, workerLivenessWatchdogMs = 600000, workerRecoveryLimit = 2,
     maxReviewCycles = 3, mergeMethod = MergeSquash\<rparr>"

definition demo_row :: job where
  "demo_row = autonomous_job_row ''job1'' (-1) ''Fix it'' NavigatorV1 LiveMode AuditIntake 0"

lemma reachable_demo_row: "reachable demo_runtime demo_row"
  unfolding demo_row_def by (rule reachable.autonomous)

text \<open>The job once its project is selected, in a given state.\<close>

definition demo_selected :: job where
  "demo_selected = demo_row\<lparr>policy := Some demo_policy, projectId := Some ''proj_demo'', policyVersion := Some 1,
     reviewBlockAt := 3\<rparr>"

definition demo_in :: "job_state \<Rightarrow> int \<Rightarrow> job" where
  "demo_in s v = demo_selected\<lparr>environmentId := Some ''env1'', prNumber := Some 7,
     prUrl := Some ''https://github.com/acme/demo/pull/7'', prHeadSha := Some demo_head, state := s,
     version := v, updatedAt := v\<rparr>"

subsection \<open>Evaluating the reducer\<close>

lemmas handler_eval = transition_def finish_step_def finish_def Let_def emitEffect_def isNavigatorJob_def
  transitionAwaitingProject_def transitionAwaitingConfirmation_def transitionImplementing_def
  transitionResolvingPrHead_def transitionValidating_def transitionValidationPassed_def
  transitionReviewing_def transitionReviewPassed_def transitionAwaitingMergeApproval_def
  transitionApprovalAccepted_def transitionMerging_def transitionDeploying_def transitionVerifyingProduction_def
  enterApproval_def headMatches_def is_merge_candidate_def policy_production_def pr_number_ok_def
  assertNonEmpty_def assertSummary_def returnNavigatorToNavigation_def illegal_def

lemma demo_patterns: "regex_test False alias_regex ''demo''" "regex_test False repository_regex ''acme/demo''"
  by code_simp+

lemma demo_policy_ok: "projectPolicySchema_parse demo_runtime demo_policy = Inr demo_policy"
  using demo_patterns
  by (simp add: projectPolicySchema_parse_def policy_fields_ok_def policy_rules_ok_def demo_policy_def
      demo_profile_def demo_command_def demo_runtime_def executionProfile_ok_def opt_min1_def opt_ok_def
      commands_ok_def policyCommand_ok_def between_def productionPolicy_ok_def
      productionHasRollbackCommand_def starts_with_def)

lemma demo_policy_fields:
  "policyProjectId demo_policy = ''proj_demo''" "maxReviewCycles demo_policy = 3" "production demo_policy \<noteq> None"
  by (simp_all add: demo_policy_def)

lemma demo_head_ok: "assertHeadSha demo_head = Inr ()" "valid_head demo_head"
  by (simp_all add: assertHeadSha_code valid_head_def head_sha_test demo_head_def list_all_iff hex_char_def)

lemmas demo_jobs = demo_in_def demo_selected_def demo_row_def row_defs
lemmas demo_eval = demo_jobs demo_head_ok demo_policy_def demo_runtime_def

lemma demo_select: "run_events demo_runtime demo_row [(PROJECT_SELECTED ''proj_demo'' (Whole 1) demo_policy, 2)] =
   Inr (demo_selected\<lparr>state := AwaitingConfirmation, version := 2, updatedAt := 2\<rparr>)"
  by (simp add: handler_eval demo_policy_ok demo_policy_fields demo_jobs)

lemma demo_release: "run_events demo_runtime (demo_selected\<lparr>state := AwaitingConfirmation, version := 2, updatedAt := 2\<rparr>)
   [(CONFIRMED, 3), (RELEASE_STARTED (Whole 7) ''https://github.com/acme/demo/pull/7'' ''env1'', 4),
    (PR_HEAD_RESOLVED demo_head, 5)] = Inr (demo_in Validating 5)"
  by (simp add: handler_eval demo_eval)

lemma demo_review: "run_events demo_runtime (demo_in Validating 5)
   [(VALIDATION_PASSED demo_head, 6), (REVIEW_PASSED demo_head None, 7)] = Inr (demo_in AwaitingMergeApproval 7)"
  by (simp add: handler_eval demo_eval)

lemma demo_approve: "run_events demo_runtime (demo_in AwaitingMergeApproval 7) [(APPROVAL_ACCEPTED demo_head, 8)] =
   Inr (demo_in Merging 8)"
  by (simp add: handler_eval demo_eval)

definition demo_merged :: "job_state \<Rightarrow> int \<Rightarrow> job" where
  "demo_merged s v = (demo_in s v)\<lparr>mergeMessage := Some ''Merged'', mergeCommitSha := Some demo_head,
     mergedAt := Some ''2026-01-01''\<rparr>"

lemma demo_merge: "run_events demo_runtime (demo_in Merging 8)
   [(MERGE_SUCCEEDED ''Merged'' demo_head ''2026-01-01'' True, 9)] = Inr (demo_merged Deploying 9)"
  by (simp add: handler_eval demo_eval demo_merged_def)

lemma demo_deploy: "run_events demo_runtime (demo_merged Deploying 9) [(DEPLOY_SUCCEEDED ''ok'', 10)] =
   Inr ((demo_merged VerifyingProduction 10)\<lparr>deploymentSummary := Some ''ok''\<rparr>)"
  by (simp add: handler_eval demo_eval demo_merged_def)

text \<open>The owner cancels while the review runs and no worker is active.\<close>

lemma demo_cancel: "run_events demo_runtime (demo_in Validating 5) [(CANCEL_REQUESTED None (Some []), 6)] =
   Inr ((demo_in Cancelled 6)\<lparr>cancelRequestedAt := Some 6\<rparr>)"
  by (simp add: handler_eval demo_eval applyCancellation_def active_workers_def assoc_set_all_def opt_default_def
      stopActiveWorkers_def)

lemma reachable_demo:
  "reachable demo_runtime (demo_in Validating 5)" "reachable demo_runtime (demo_in AwaitingMergeApproval 7)"
  "reachable demo_runtime (demo_in Merging 8)" "reachable demo_runtime (demo_merged Deploying 9)"
  "reachable demo_runtime ((demo_merged VerifyingProduction 10)\<lparr>deploymentSummary := Some ''ok''\<rparr>)"
  "reachable demo_runtime ((demo_in Cancelled 6)\<lparr>cancelRequestedAt := Some 6\<rparr>)"
proof -
  show v: "reachable demo_runtime (demo_in Validating 5)"
    by (rule reachable_run [OF reachable_run [OF reachable_demo_row demo_select] demo_release])
  show a: "reachable demo_runtime (demo_in AwaitingMergeApproval 7)" by (rule reachable_run [OF v demo_review])
  show m: "reachable demo_runtime (demo_in Merging 8)" by (rule reachable_run [OF a demo_approve])
  show d: "reachable demo_runtime (demo_merged Deploying 9)" by (rule reachable_run [OF m demo_merge])
  show "reachable demo_runtime ((demo_merged VerifyingProduction 10)\<lparr>deploymentSummary := Some ''ok''\<rparr>)"
    by (rule reachable_run [OF d demo_deploy])
  show "reachable demo_runtime ((demo_in Cancelled 6)\<lparr>cancelRequestedAt := Some 6\<rparr>)"
    by (rule reachable_run [OF v demo_cancel])
qed

end
