(* ===== verification/Job_Properties.thy ===== *)
theory Job_Properties
  imports Job_Outcomes Job_Demo
begin

text \<open>
  The properties of the state machine, each with a witness on the demonstration project.
\<close>

subsection \<open>Refinement, frame, effect keys\<close>

lemma demo_approval: "transition demo_runtime (demo_in AwaitingMergeApproval 7) (APPROVAL_ACCEPTED demo_head) 8 =
   Inr (demo_in Merging 8, effs (demo_in AwaitingMergeApproval 7) [(merge_pr, [(''headSha'', JStr demo_head)])])"
  by (simp add: handler_eval demo_eval effs_def)

text \<open>C1: every event the reducer accepts is a step of the abstract state machine: the handlers
refine \<open>pipeline_step\<close>, and the code around them refines \<open>job_transition\<close>.\<close>

theorem transition_refines:
  assumes "transition rt j e now = Inr (j', es)"
  shows "job_transition rt j e now j' es"
  by (rule transition_steps [OF assms])

theorem transition_refines_witness:
  "job_transition demo_runtime (demo_in AwaitingMergeApproval 7) (APPROVAL_ACCEPTED demo_head) 8
     (demo_in Merging 8) (effs (demo_in AwaitingMergeApproval 7) [(merge_pr, [(''headSha'', JStr demo_head)])])"
  by (rule transition_refines [OF demo_approval])

text \<open>An accepted event keeps the identity of the job (its id, request, origin, recipe, engine,
task outcome and constraints) and moves its version by exactly one, which is what the optimistic
write of the store compares.\<close>

theorem transition_frame:
  assumes "transition rt j e now = Inr (j', es)"
  shows "same_identity j j' \<and> version j' = version j + 1 \<and> updatedAt j' = now"
  using job_transition_frame [OF transition_steps [OF assms]] by simp

theorem transition_frame_witness:
  "same_identity (demo_in AwaitingMergeApproval 7) (demo_in Merging 8) \<and> version (demo_in Merging 8) = 7 + 1"
  using transition_frame [OF demo_approval] by (simp add: demo_in_def)

text \<open>No effect of an accepted event is lost to the store's \<open>INSERT OR IGNORE\<close>: the effects
of one transition have distinct idempotency keys, and the keys of two transitions differ unless
they are of the same job at the same version.\<close>

theorem effect_keys_unique:
  assumes "transition rt j e now = Inr (j', es)" "transition rt2 i f now2 = Inr (i', fs)"
  shows "distinct (map idempotencyKey es) \<and>
    (idempotencyKey ` set es \<inter> idempotencyKey ` set fs \<noteq> {} \<longrightarrow> job_id j = job_id i \<and> version j = version i)"
proof -
  have j: "well_emitted j es" and i: "well_emitted i fs"
    using job_transition_emits [OF transition_steps [OF assms(1)]] job_transition_emits [OF transition_steps [OF assms(2)]] .
  from j have keys: "map idempotencyKey es = map (effect_key (job_id j) (version j + 1)) (map kind es)"
    by (auto simp: well_emitted_def list_all_iff)
  with j have "distinct (map idempotencyKey es)"
    by (simp only: keys) (auto simp: distinct_map well_emitted_def inj_on_def effect_key_inject)
  with i j show ?thesis by (auto simp: well_emitted_def list_all_iff effect_key_inject)
qed

theorem effect_keys_unique_witness:
  "distinct (map idempotencyKey (effs (demo_in AwaitingMergeApproval 7) [(merge_pr, [(''headSha'', JStr demo_head)])]))"
  using effect_keys_unique [OF demo_approval demo_approval] by blast

subsection \<open>Merging and production\<close>

text \<open>C2: a merge is emitted only on the way into \<open>merging\<close>, for the very head the owner's approval
names: either the accepted approval of the job's current head, or the retry of a stopped merge,
and in both cases the payload is the job's head, a full lowercase SHA.\<close>

theorem merge_only_approved_head:
  assumes "reachable rt j" "transition rt j e now = Inr (j', es)" "x \<in> set es" "kind x = merge_pr"
  shows "\<exists>sha. prHeadSha j = Some sha \<and> valid_head sha \<and> payload x = [(''headSha'', JStr sha)] \<and>
    state j' = Merging \<and> prHeadSha j' = Some sha \<and>
    (state j = AwaitingMergeApproval \<and> e = APPROVAL_ACCEPTED sha \<or> e = RETRY \<and> resumeState j = Some Merging)"
proof -
  from transition_steps [OF assms(2)] obtain j1 where step: "pipeline_step rt j e j1 es" "j' = stamped j now j1"
    by cases (use assms(3,4) in \<open>auto dest!: emits_kind split: if_splits\<close>)
  obtain m: "state j1 = Merging" "prHeadSha j1 = prHeadSha j" "payload x = head_payload j"
    and how: "(\<exists>a. state j = AwaitingMergeApproval \<and> e = APPROVAL_ACCEPTED a \<and> prHeadSha j = Some a) \<or>
      e = RETRY \<and> resumeState j = Some Merging"
    using pipeline_step_merge [OF step(1) assms(3,4) reachable_recover [OF assms(1)]] by blast
  have head: "head_inv j" using reachable_inv [OF assms(1)] by (simp add: job_inv_def)
  from how have "live_states j \<inter> HEAD_STATES \<noteq> {}" by (auto simp: live_states_def HEAD_STATES_def)
  with head obtain sha where sha: "prHeadSha j = Some sha" "valid_head sha" by (auto simp: head_inv_def)
  then have "sha \<noteq> []" using valid_head_nonempty by auto
  with m(3) sha(1) have "payload x = [(''headSha'', JStr sha)]" by (simp add: head_payload_def)
  moreover have "state j' = Merging" "prHeadSha j' = Some sha" using m(1,2) sha(1) step(2) by (simp_all add: stamped_def)
  moreover have "state j = AwaitingMergeApproval \<and> e = APPROVAL_ACCEPTED sha \<or> e = RETRY \<and> resumeState j = Some Merging"
    using how sha(1) by fastforce
  ultimately show ?thesis using sha by blast
qed

theorem merge_only_approved_head_witness:
  "\<exists>sha. prHeadSha (demo_in AwaitingMergeApproval 7) = Some sha \<and> valid_head sha \<and>
     payload (hd (effs (demo_in AwaitingMergeApproval 7) [(merge_pr, [(''headSha'', JStr demo_head)])])) = [(''headSha'', JStr sha)]"
  using merge_only_approved_head [OF reachable_demo(2) demo_approval, of "hd (effs (demo_in AwaitingMergeApproval 7)
    [(merge_pr, [(''headSha'', JStr demo_head)])])"]
  by (auto simp: effs_def)

definition stale_report :: "job \<Rightarrow> string \<Rightarrow> job_event \<Rightarrow> bool" where
  "stale_report j sha e \<longleftrightarrow>
     (case state j of
        Validating \<Rightarrow> e = VALIDATION_PASSED sha \<or> (\<exists>r. e = VALIDATION_FAILED (Some sha) r)
      | FinalValidating \<Rightarrow> e = VALIDATION_PASSED sha \<or> (\<exists>r. e = VALIDATION_FAILED (Some sha) r)
      | Reviewing \<Rightarrow> \<exists>d. e = REVIEW_PASSED sha d
      | FinalReviewing \<Rightarrow> \<exists>d. e = REVIEW_PASSED sha d
      | AwaitingMergeApproval \<Rightarrow> e = APPROVAL_ACCEPTED sha \<or> e = CONSENSUS_REQUIRED sha \<or> e = CONSENSUS_SETTLED sha
      | _ \<Rightarrow> False)"

text \<open>A report on a head that is no longer the job's head proves nothing: whatever it says, the
approvals are revoked, the head is cleared and resolved again.\<close>

theorem stale_head_revokes:
  assumes "stale_report j sha e" "valid_head sha" "prHeadSha j \<noteq> Some sha" "cancelRequestedAt j = None"
  shows "transition rt j e now =
    Inr (stamped j now (j\<lparr>prHeadSha := None, state := ResolvingPrHead\<rparr>),
         effs j [(revoke_approvals, []), (resolve_pr_head, [])])"
proof -
  have ok: "assertHeadSha sha = Inr ()" using assms(2) by (simp add: assertHeadSha_def valid_head_def)
  have drift: "\<not> headMatches j (Some sha)" using assms(3) by (simp add: headMatches_iff)
  have inv: "finish_step now (Inr (invalidateDriftedHead j [])) =
      Inr (stamped j now (j\<lparr>prHeadSha := None, state := ResolvingPrHead\<rparr>), effs j [(revoke_approvals, []), (resolve_pr_head, [])])"
    by (simp add: finish_step_def finish_def stamped_def invalidateDriftedHead_def clearHeadAndReceipts_def Let_def
        emitEffect_def effs_def)
  have handler: "state_handler rt (state j) j e [] = Inr (invalidateDriftedHead j [])"
    using assms(1) ok drift
    by (auto simp: stale_report_def transitionValidating_def transitionValidationPassed_def transitionValidationFailed_def
        transitionFinalValidating_def transitionReviewing_def transitionReviewPassed_def transitionFinalReviewing_def
        transitionAwaitingMergeApproval_def transitionApprovalAccepted_def split: job_state.splits)
  have "transition rt j e now = finish_step now (state_handler rt (state j) j e [])"
    using assms(1,4) by (auto simp: stale_report_def transition_def split: job_state.splits)
  then show ?thesis by (simp add: handler inv)
qed


theorem stale_head_revokes_witness:
  "transition demo_runtime (demo_in AwaitingMergeApproval 7) (APPROVAL_ACCEPTED (replicate 40 (CHR ''b''))) 8 =
    Inr (stamped (demo_in AwaitingMergeApproval 7) 8 ((demo_in AwaitingMergeApproval 7)\<lparr>prHeadSha := None, state := ResolvingPrHead\<rparr>),
         effs (demo_in AwaitingMergeApproval 7) [(revoke_approvals, []), (resolve_pr_head, [])])"
proof (rule stale_head_revokes)
  show "stale_report (demo_in AwaitingMergeApproval 7) (replicate 40 (CHR ''b'')) (APPROVAL_ACCEPTED (replicate 40 (CHR ''b'')))"
    by (simp add: stale_report_def demo_in_def)
  show "valid_head (replicate 40 (CHR ''b''))" by (simp add: valid_head_def head_sha_test list_all_iff hex_char_def)
  show "prHeadSha (demo_in AwaitingMergeApproval 7) \<noteq> Some (replicate 40 (CHR ''b''))"
    by (simp add: demo_in_def demo_head_def)
  show "cancelRequestedAt (demo_in AwaitingMergeApproval 7) = None" by (simp add: demo_jobs)
qed

text \<open>Production is touched only after a verified merge: an effect that deploys or verifies
production is emitted only for a job whose merge commit is recorded and whose policy has a production
section, and the report of the merge starts a deployment only where the task does not forbid it.\<close>

theorem production_only_after_merge:
  assumes "reachable rt j" "transition rt j e now = Inr (j', es)" "x \<in> set es"
    "kind x = deploy_production \<or> kind x = verify_production"
  shows "mergeCommitSha j' \<noteq> None \<and> policy_production j' \<noteq> None \<and>
    (state j = Merging \<longrightarrow> NoDeploy \<notin> set (taskConstraints j'))"
proof -
  from transition_steps [OF assms(2)] obtain j1 where step: "pipeline_step rt j e j1 es" "j' = stamped j now j1"
    by cases (use assms(3,4) in \<open>auto dest!: emits_kind split: if_splits\<close>)
  have "state j' = Deploying \<or> state j' = VerifyingProduction"
    using pipeline_step_production [OF step(1) assms(3,4)] step(2) by (simp add: stamped_def)
  moreover have "deploy_inv j'"
    using reachable_inv [OF reachable.event [OF assms(1,2)]] by (simp add: job_inv_def)
  moreover have "state j = Merging \<Longrightarrow> NoDeploy \<notin> set (taskConstraints j')"
    using pipeline_step_deploys [OF step(1) _ assms(3,4)] step(2) by (simp add: stamped_def)
  ultimately show ?thesis by (auto simp: deploy_inv_def live_states_def)
qed

lemma demo_merging: "transition demo_runtime (demo_in Merging 8) (MERGE_SUCCEEDED ''Merged'' demo_head ''2026-01-01'' True) 9 =
   Inr (demo_merged Deploying 9, effs (demo_in Merging 8) [(render_status, []), (deploy_production, [])])"
  by (simp add: handler_eval demo_eval demo_merged_def effs_def)

theorem production_only_after_merge_witness:
  "mergeCommitSha (demo_merged Deploying 9) \<noteq> None \<and> policy_production (demo_merged Deploying 9) \<noteq> None"
  using production_only_after_merge [OF reachable_demo(3) demo_merging,
    of "effs (demo_in Merging 8) [(render_status, []), (deploy_production, [])] ! 1"]
  by (auto simp: effs_def)

text \<open>C3: a job is recorded as merged only by a merge report that verified the content of the base
branch, out of the merging state, and only where production is not to be touched.\<close>

theorem merged_only_verified:
  assumes "transition rt j e now = Inr (j', es)" "state j' = Merged" "state j \<noteq> Merged"
  shows "\<exists>m sha t. state j = Merging \<and> e = MERGE_SUCCEEDED m sha t True \<and> valid_head sha \<and>
    mergeCommitSha j' = Some sha \<and>
    (NoDeploy \<in> set (taskConstraints j) \<or> policy_production j = None \<and> mergesWithoutProduction (policy j))"
  using transition_steps [OF assms(1)]
proof cases
  case (handled j1)
  from assms(2) handled(3) have "state j1 = Merged" by (simp add: stamped_def)
  from pipeline_step_merged [OF handled(2) this] handled(3) show ?thesis by (auto simp: stamped_def)
qed (use assms(2,3) in \<open>simp_all add: stamped_def split: if_splits\<close>)

definition demo_no_deploy :: job where
  "demo_no_deploy = (demo_in Merging 8)\<lparr>taskConstraints := [NoDeploy]\<rparr>"

lemma demo_merged_only: "transition demo_runtime demo_no_deploy (MERGE_SUCCEEDED ''Merged'' demo_head ''2026-01-01'' True) 9 =
   Inr (stamped demo_no_deploy 9 ((demo_merged Merged 8)\<lparr>taskConstraints := [NoDeploy]\<rparr>), effs demo_no_deploy [(render_status, [])])"
  by (simp add: handler_eval demo_eval demo_no_deploy_def demo_merged_def effs_def completeMergedWork_def stamped_def)

theorem merged_only_verified_witness:
  "\<exists>sha. valid_head sha \<and> mergeCommitSha (stamped demo_no_deploy 9 ((demo_merged Merged 8)\<lparr>taskConstraints := [NoDeploy]\<rparr>)) = Some sha"
  using merged_only_verified [OF demo_merged_only] by (auto simp: stamped_def demo_merged_def demo_no_deploy_def demo_in_def)

text \<open>A job whose project has a production section completes only when the production canary
succeeds; there is no way around the deployment.\<close>

theorem completion_requires_canary:
  assumes "reachable rt j" "transition rt j e now = Inr (j', es)" "state j' = Complete" "state j \<noteq> Complete"
    "policy_production j \<noteq> None"
  shows "state j = VerifyingProduction \<and> (\<exists>s. e = CANARY_SUCCEEDED s \<and> canarySummary j' = Some s)"
  using transition_steps [OF assms(2)]
proof cases
  case (handled j1)
  from assms(3) handled(3) have "state j1 = Complete" by (simp add: stamped_def)
  moreover have "\<not> isSmallFixJob j" using reachable_full_delivery [OF assms(1)] by (simp add: isSmallFixJob_def)
  ultimately show ?thesis using pipeline_step_complete [OF handled(2)] assms(5) handled(3) by (auto simp: stamped_def)
qed (use assms(3,4) in \<open>simp_all add: stamped_def split: if_splits\<close>)

definition demo_verifying :: job where
  "demo_verifying = (demo_merged VerifyingProduction 10)\<lparr>deploymentSummary := Some ''ok''\<rparr>"

lemma demo_canary: "transition demo_runtime demo_verifying (CANARY_SUCCEEDED ''ok'') 11 =
   Inr (stamped demo_verifying 11 (demo_verifying\<lparr>canarySummary := Some ''ok'', state := Complete\<rparr>),
        effs demo_verifying [(render_status, [])])"
  by (simp add: handler_eval demo_eval demo_merged_def demo_verifying_def effs_def stamped_def)

theorem completion_requires_canary_witness: "state demo_verifying = VerifyingProduction"
  using completion_requires_canary [OF reachable_demo(5) demo_canary [unfolded demo_verifying_def]]
  by (simp add: demo_verifying_def stamped_def demo_merged_def demo_eval policy_production_def)

subsection \<open>Cancelling\<close>

text \<open>C4: once a cancellation is requested nothing more is started: whatever event arrives, the job
can only be told to revoke its approvals and to render its status, and it stays where it is, or is
cancelled, or is blocked because the cancellation could not be confirmed.\<close>

theorem cancelled_work_stops:
  assumes "transition rt j e now = Inr (j', es)" "cancelRequestedAt j \<noteq> None"
  shows "kind ` set es \<subseteq> {revoke_approvals, render_status} \<and> state j' \<in> {state j, Cancelled, Blocked} \<and>
    cancelRequestedAt j' = cancelRequestedAt j"
  using transition_steps [OF assms(1)] assms(2)
  by cases (auto simp: stamped_def opt_default_def dest!: emits_kinds split: if_splits)

definition demo_cancelling :: job where
  "demo_cancelling = (demo_in Validating 5)\<lparr>cancelRequestedAt := Some 6\<rparr>"

theorem cancelled_work_stops_witness:
  "transition demo_runtime demo_cancelling (VALIDATION_PASSED demo_head) 7 = Inr (stamped demo_cancelling 7 demo_cancelling, []) \<and>
   state (stamped demo_cancelling 7 demo_cancelling) \<in> {Validating, Cancelled, Blocked}"
proof -
  have t: "transition demo_runtime demo_cancelling (VALIDATION_PASSED demo_head) 7 = Inr (stamped demo_cancelling 7 demo_cancelling, [])"
    by (simp add: transition_def demo_cancelling_def finish_def stamped_def)
  from cancelled_work_stops [OF t] t show ?thesis by (simp add: demo_cancelling_def demo_in_def)
qed

text \<open>The resources a stop effect names: its own, or those of its list of workers.\<close>

definition resource_of :: "js_object \<Rightarrow> string list" where
  "resource_of p = (case map_of p ''resourceId'' of Some (JStr r) \<Rightarrow> [r] | _ \<Rightarrow> [])"

definition stop_targets :: "js_object \<Rightarrow> string list" where
  "stop_targets p = (case map_of p ''workers'' of
       Some (JList ws) \<Rightarrow> concat (map (\<lambda>w. case w of JObj q \<Rightarrow> resource_of q | _ \<Rightarrow> []) ws)
     | _ \<Rightarrow> resource_of p)"

definition stopped_resources :: "job_effect list \<Rightarrow> string list" where
  "stopped_resources es = concat (map (\<lambda>x. stop_targets (payload x)) (filter (\<lambda>x. kind x = stop_thread) es))"

lemma resource_of_stop: "resource_of (workerStopPayload w) = [resourceId w]"
  unfolding resource_of_def workerStopPayload_def by simp

lemma stop_targets_one: "stop_targets (workerStopPayload w) = [resourceId w]"
proof -
  have "map_of (workerStopPayload w) ''workers'' = None" by (simp add: workerStopPayload_def)
  then show ?thesis by (simp add: stop_targets_def resource_of_stop)
qed

lemma stop_targets_many:
  "stop_targets (assoc_set ''workers'' (JList (JObj (workerStopPayload w) # map (\<lambda>x. JObj (workerStopPayload x)) ws)) p) =
     resourceId w # map resourceId ws"
  by (simp add: stop_targets_def comp_def resource_of_stop)

lemma stopped_by_stopActiveWorkers:
  assumes "stopped_resources es = []"
  shows "stopped_resources (stopActiveWorkers j es ws) = map resourceId (active_workers j ws)"
  using assms
  by (auto simp: stopActiveWorkers_def stopped_resources_def emitEffect_def stop_targets_one stop_targets_many
      split: list.splits)

lemma keys_assoc_set_all: "set (map fst (assoc_set_all a b)) = set (map fst a) \<union> set (map fst b)"
  unfolding assoc_set_all_def
proof (induction b arbitrary: a)
  case (Cons p b)
  then show ?case by (cases p) (auto simp: keys_assoc_set simp del: set_map simp flip: set_map)
qed simp

lemma active_workers_resources:
  "set (map resourceId (active_workers j ws)) =
     resourceId ` {w \<in> set ws. workerJobId w = job_id j \<and> workerState w \<in> set ACTIVE_WORKER_STATES}"
proof -
  let ?ps = "assoc_set_all [] (map (\<lambda>w. (resourceId w, w))
     (filter (\<lambda>w. workerJobId w = job_id j \<and> List.member ACTIVE_WORKER_STATES (workerState w)) ws))"
  have "map resourceId (map snd ?ps) = map fst ?ps"
    by (simp only: map_map comp_def) (rule map_cong [OF refl], simp add: active_workers_pairs)
  then have "set (map resourceId (active_workers j ws)) = set (map fst ?ps)" by (simp only: active_workers_def)
  then show ?thesis by (simp only: keys_assoc_set_all) auto
qed

text \<open>The first cancellation of a job stops exactly its own active workers, each once, whichever
of the two ways the event supplies them, and it never stops another job's worker or an idle one.\<close>

theorem cancellation_stops_own_workers:
  assumes "transition rt j (CANCEL_REQUESTED w ws) now = Inr (j', es)" "cancelRequestedAt j = None"
  shows "distinct (stopped_resources es) \<and>
    set (stopped_resources es) = resourceId `
      {x \<in> set (opt_default ws [] @ (case w of Some (Some x) \<Rightarrow> [x] | _ \<Rightarrow> [])).
         workerJobId x = job_id j \<and> workerState x \<in> {WStarting, WActive}}"
proof -
  let ?supplied = "opt_default ws [] @ (case w of Some (Some x) \<Rightarrow> [x] | _ \<Rightarrow> [])"
  let ?jc = "j\<lparr>cancelRequestedAt := Some now\<rparr>"
  let ?es = "stopActiveWorkers ?jc (emitEffect ?jc [] revoke_approvals []) (active_workers j ?supplied)"
  from assms have "es = ?es \<or> es = ?es @ emitEffect j [] render_status []"
    by (auto simp: transition_def applyCancellation_def Let_def finish_def illegal_def emitEffect_def split: if_splits)
  moreover have "stopped_resources (xs @ emitEffect j [] render_status []) = stopped_resources xs" for xs
    by (simp add: stopped_resources_def emitEffect_def)
  moreover have "stopped_resources ?es = map resourceId (active_workers j ?supplied)"
    by (subst stopped_by_stopActiveWorkers)
      (simp_all add: stopped_resources_def emitEffect_def active_workers_idem [of ?jc j])
  ultimately have "stopped_resources es = map resourceId (active_workers j ?supplied)" by auto
  then show ?thesis
    using active_workers_distinct [of j ?supplied] active_workers_resources [of j ?supplied]
    by (simp add: ACTIVE_WORKER_STATES_def)
qed

definition demo_worker :: "string \<Rightarrow> string \<Rightarrow> worker_liveness_state \<Rightarrow> worker_liveness" where
  "demo_worker jid res st = \<lparr>workerJobId = jid, workerKind = ReviewStage, resourceKind = BbThread, resourceId = res,
     generation = 1, workerState = st, sourceUpdatedAt = 0, observedAt = 0, staleNotifiedAt = None\<rparr>"

theorem cancellation_stops_own_workers_witness:
  "\<exists>j' es. transition demo_runtime (demo_in Validating 5)
      (CANCEL_REQUESTED (Some (Some (demo_worker ''job1'' ''t1'' WActive))) (Some [demo_worker ''other'' ''t2'' WActive])) 6 = Inr (j', es) \<and>
    set (stopped_resources es) = {''t1''}"
proof -
  obtain j' es where t: "transition demo_runtime (demo_in Validating 5)
      (CANCEL_REQUESTED (Some (Some (demo_worker ''job1'' ''t1'' WActive))) (Some [demo_worker ''other'' ''t2'' WActive])) 6 = Inr (j', es)"
    by (simp add: handler_eval demo_jobs applyCancellation_def demo_worker_def opt_default_def active_workers_def
        assoc_set_all_def ACTIVE_WORKER_STATES_def)
  moreover have "cancelRequestedAt (demo_in Validating 5) = None" by (simp add: demo_jobs)
  moreover have demo_id: "job_id (demo_in Validating 5) = ''job1''" by (simp add: demo_jobs)
  moreover have "{x \<in> set [demo_worker ''other'' ''t2'' WActive, demo_worker ''job1'' ''t1'' WActive].
      workerJobId x = ''job1'' \<and> workerState x \<in> {WStarting, WActive}} = {demo_worker ''job1'' ''t1'' WActive}"
    by (auto simp: demo_worker_def)
  ultimately have "set (stopped_resources es) = {resourceId (demo_worker ''job1'' ''t1'' WActive)}"
    using cancellation_stops_own_workers [OF t] by (simp add: opt_default_def)
  then have "set (stopped_resources es) = {''t1''}" by (simp add: demo_worker_def)
  with t show ?thesis by blast
qed

text \<open>a finished job stays as it is: in a terminal state the reducer rejects every event, except
that it swallows the events that reach a cancelled job, changing nothing but its version and time.\<close>

theorem terminal_absorbing:
  assumes "reachable rt j" "state j \<in> {Complete, Merged, ProductionFailed, Cancelled}"
    "transition rt j e now = Inr (j', es)"
  shows "state j = Cancelled \<and> j' = stamped j now j \<and> es = []"
proof -
  have inv: "cancel_inv j" using reachable_inv [OF assms(1)] by (simp add: job_inv_def)
  from transition_steps [OF assms(3)] show ?thesis
  proof cases
    case swallowed
    with inv assms(2) show ?thesis by (auto simp: cancel_inv_def)
  next
    case (recovery_requested rid wk res cls sig p)
    with assms(2) show ?thesis by (auto simp: RECOVERABLE_WORKER_STATES_def)
  next
    case (handled j1)
    then show ?thesis
    proof cases
      case handled
      from handled(2) assms(2) show ?thesis by (cases; force simp: open_block_def plan_block_iff)
    qed (use assms(2) inv in \<open>auto simp: cancel_inv_def\<close>)
  qed (use assms(2) inv in \<open>auto simp: cancel_inv_def\<close>)
qed

theorem terminal_absorbing_witness:
  "transition demo_runtime ((demo_in Cancelled 6)\<lparr>cancelRequestedAt := Some 6\<rparr>) RETRY 7 =
     Inr (stamped ((demo_in Cancelled 6)\<lparr>cancelRequestedAt := Some 6\<rparr>) 7 ((demo_in Cancelled 6)\<lparr>cancelRequestedAt := Some 6\<rparr>), [])"
proof -
  let ?j = "(demo_in Cancelled 6)\<lparr>cancelRequestedAt := Some 6\<rparr>"
  obtain j' es where t: "transition demo_runtime ?j RETRY 7 = Inr (j', es)"
    by (simp add: transition_def finish_def)
  with terminal_absorbing [OF reachable_demo(6) _ t] show ?thesis by (simp add: demo_in_def)
qed


subsection \<open>Bounds on planning and review\<close>

text \<open>A plan is criticised at most once: the planning cycle of a reachable job never exceeds
one, so the reducer never blocks a job on the plan limit, although its documents describe that
block as the end of an unsuccessful critique.\<close>

theorem plan_limit_never_reached:
  assumes "reachable rt j"
  shows "0 \<le> planCycle j \<and> planCycle j \<le> 1 \<and> blockedReason j \<noteq> Some PlanLimit"
  using reachable_inv [OF assms] by (simp add: job_inv_def plan_inv_def)

theorem plan_limit_never_reached_witness: "blockedReason (demo_merged Deploying 9) \<noteq> Some PlanLimit"
  using plan_limit_never_reached [OF reachable_demo(4)] by simp

text \<open>C5: from one \<open>CONTINUE_REVIEW\<close> event to the next, whether the owner or the sweep of blocked jobs sends it, the failed
reviews and validations that send a job with a selected project to remediation number at most what is left of its review limit.
The rounds that \<open>REMEDIATION_CONTINUED\<close> opens are not review rounds and are not counted.\<close>

theorem rework_is_bounded:
  assumes "state j \<noteq> AwaitingProject" "CONTINUE_REVIEW \<notin> fst ` set evs"
  shows "rework_rounds rt j evs \<le> max 0 (reviewBlockAt j - 1 - reviewCycle j)"
  by (rule rework_rounds_bound [OF assms])

theorem rework_is_bounded_witness:
  "rework_rounds demo_runtime (demo_in Validating 5) [(VALIDATION_FAILED None None, 6), (RETRY, 7)] \<le> 2"
  using rework_is_bounded [of "demo_in Validating 5" "[(VALIDATION_FAILED None None, 6), (RETRY, 7)]" demo_runtime]
  by (simp add: demo_jobs)

text \<open>The review cycle stays within its limit, and strictly below it while the job runs.\<close>

theorem review_cycle_bounds:
  assumes "reachable rt j"
  shows "0 \<le> reviewCycle j \<and> reviewCycle j \<le> reviewBlockAt j \<and>
    (cancelRequestedAt j = None \<and> state j \<noteq> Blocked \<longrightarrow> reviewCycle j < reviewBlockAt j)"
  using reachable_inv [OF assms] by (simp add: job_inv_def review_inv_def)

theorem review_cycle_bounds_witness: "reviewCycle (demo_in Validating 5) < reviewBlockAt (demo_in Validating 5)"
  using review_cycle_bounds [OF reachable_demo(1)] by (simp add: demo_jobs)

subsection \<open>Progress, errors, policy\<close>

text \<open>C6: no stage is entered without the work that drives it: a handled event that moves the job
into a state with a driving effect emits that effect, except into \<open>implementing\<close>, whose worker
thread is already running.\<close>

theorem entered_state_is_driven:
  assumes "transition rt j e now = Inr (j', es)" "state j' \<noteq> state j" "state j' \<noteq> Implementing"
    "effectByState (state j') = Some k"
  shows "k \<in> kind ` set es"
  using transition_steps [OF assms(1)]
proof cases
  case (handled j1)
  then show ?thesis using pipeline_step_driver [OF handled(2)] assms(2-4) by (simp add: stamped_def)
qed (use assms(2-4) in \<open>simp_all add: stamped_def split: if_splits\<close>)

theorem entered_state_is_driven_witness:
  "merge_pr \<in> kind ` set (effs (demo_in AwaitingMergeApproval 7) [(merge_pr, [(''headSha'', JStr demo_head)])])"
  by (rule entered_state_is_driven [OF demo_approval]) (simp_all add: demo_in_def)

text \<open>The error a job shows its owner is always a bounded, credential-free summary.\<close>

theorem last_error_is_safe:
  assumes "reachable rt j" "lastError j = Some m"
  shows "m \<noteq> [] \<and> length m \<le> 500 \<and> \<not> containsCredentialLikeText m"
  using reachable_inv [OF assms(1)] assms(2) by (simp add: job_inv_def error_inv_def safe_summary_def)

lemma worker_failure_safe: "safe_summary ''Worker thread failed''"
  by code_simp

definition demo_failed :: job where
  "demo_failed = (demo_in Failed 6)\<lparr>resumeState := Some Validating, lastError := Some ''Worker thread failed''\<rparr>"

lemma demo_fails: "transition demo_runtime (demo_in Validating 5) (THREAD_FAILED None) 6 =
   Inr (demo_failed, effs (demo_in Validating 5) [(render_status, [])])"
  using worker_failure_safe
  by (simp add: handler_eval demo_jobs failOnThread_def failJob_def opt_default_def demo_failed_def effs_def
      assertSafeFailureSummary_def safe_summary_def MAX_FAILURE_SUMMARY_LENGTH_def)

theorem last_error_is_safe_witness: "\<not> containsCredentialLikeText ''Worker thread failed''"
  using last_error_is_safe [OF reachable.event [OF reachable_demo(1) demo_fails]] by (simp add: demo_failed_def)

text \<open>The policy a job runs under obeys the cross-field rules of its schema: an unattended merge
into production has a rollback command, a merge without production has required checks and
regression commands, and the consensus reviewer is not the review provider.\<close>

theorem job_policy_is_safe:
  assumes "reachable rt j" "policy j = Some p" "autonomy p = Some a"
  shows "(unattendedMerge a \<and> production p \<noteq> None \<longrightarrow> productionHasRollbackCommand (Some p)) \<and>
    (mergeWithoutProduction a \<longrightarrow> requiredChecks p \<noteq> [] \<and> regression p \<noteq> None) \<and>
    (\<forall>c. consensusReview a = Some c \<longrightarrow> cProviderId c \<noteq> reviewStageProviderId (stageExecution p) (Some (policy_legacy p)))"
  using reachable_inv [OF assms(1)] assms(2,3)
  by (auto simp: job_inv_def policy_inv_def policy_rules_ok_def)

definition demo_autonomous_policy :: project_policy where
  "demo_autonomous_policy = demo_policy\<lparr>autonomy := Some \<lparr>unattendedMerge = True, mergeWithoutProduction = False,
     consensusReview = None, intakeMaxJobsPerDay = None\<rparr>\<rparr>"

lemma demo_autonomous_ok: "projectPolicySchema_parse demo_runtime demo_autonomous_policy = Inr demo_autonomous_policy"
  using demo_patterns
  by (simp add: projectPolicySchema_parse_def policy_fields_ok_def policy_rules_ok_def demo_policy_def
      demo_autonomous_policy_def autonomyPolicy_ok_def
      demo_profile_def demo_command_def demo_runtime_def executionProfile_ok_def opt_min1_def opt_ok_def
      commands_ok_def policyCommand_ok_def between_def productionPolicy_ok_def
      productionHasRollbackCommand_def starts_with_def)

lemma demo_autonomous_select: "run_events demo_runtime demo_row [(PROJECT_SELECTED ''proj_demo'' (Whole 1) demo_autonomous_policy, 2)] =
   Inr (demo_selected\<lparr>state := AwaitingConfirmation, policy := Some demo_autonomous_policy, version := 2, updatedAt := 2\<rparr>)"
  by (simp add: handler_eval demo_autonomous_ok demo_jobs) (simp add: demo_autonomous_policy_def demo_policy_def)

theorem job_policy_is_safe_witness: "productionHasRollbackCommand (Some demo_autonomous_policy)"
  using job_policy_is_safe [OF reachable_run [OF reachable_demo_row demo_autonomous_select]]
  by (simp add: demo_autonomous_policy_def demo_policy_def)

end
