(* ===== verification/Job_Continuation.thy ===== *)
theory Job_Continuation
  imports Job_Properties
begin

text \<open>
  \<open>src/autonomy/job-continuation.ts\<close>: whether the background sweep drives a stopped job onward,
  hands it to the owner, or leaves it alone; and what the state machine then does with the event
  it chose.
\<close>

subsection \<open>The decision\<close>

definition MAX_AUTO_CONTINUES :: int where
  "MAX_AUTO_CONTINUES = 3"

definition OWNER_GATED_RESUME_STATES :: "job_state list" where
  "OWNER_GATED_RESUME_STATES = [AwaitingMergeApproval, Merging, Deploying, VerifyingProduction]"

definition resumesIntoOwnerGatedStage :: "job \<Rightarrow> bool" where
  "resumesIntoOwnerGatedStage j \<longleftrightarrow>
     (case resumeState j of None \<Rightarrow> False | Some s \<Rightarrow> List.member OWNER_GATED_RESUME_STATES s)"

datatype resume_event = ResumeRetry | ResumeContinueReview

fun resume_job_event :: "resume_event \<Rightarrow> job_event" where
  "resume_job_event ResumeRetry = RETRY"
| "resume_job_event ResumeContinueReview = CONTINUE_REVIEW"

datatype continuation_decision = ResumeJob resume_event | EscalateJob string | HoldJob

fun blocked_reason_name :: "blocked_reason \<Rightarrow> string" where
  "blocked_reason_name PlanLimit = ''plan_limit''"
| "blocked_reason_name ReviewLimit = ''review_limit''"
| "blocked_reason_name ConfigurationBlock = ''configuration''"
| "blocked_reason_name CancellationUnconfirmed = ''cancellation_unconfirmed''"
| "blocked_reason_name PermanentEffectFailure = ''permanent_effect_failure''"

definition continuationKey :: "job \<Rightarrow> string" where
  "continuationKey j = state_name (state j) @ '':'' @
     opt_default (map_option blocked_reason_name (blockedReason j)) ''-'' @ '':'' @
     opt_default (map_option state_name (resumeState j)) ''-''"

definition CONFIGURATION_ESCALATION :: string where
  "CONFIGURATION_ESCALATION =
     ''This job is blocked on project configuration, which I cannot change on my own.''"

definition EXHAUSTED_ESCALATION :: string where
  "EXHAUSTED_ESCALATION = ''I tried to get this moving '' @ show_int MAX_AUTO_CONTINUES @
     '' times and it stopped at the same place each time.''"

definition UNRECOVERABLE_ESCALATION :: string where
  "UNRECOVERABLE_ESCALATION = ''This job stopped somewhere I have no way to resume from.''"

definition resumeEventFor :: "job \<Rightarrow> resume_event option" where
  "resumeEventFor j =
     (if isResumablePermanentFailure j then Some ResumeRetry
      else if isResumablePlanBlock j \<or> isResumableReviewBlock j then Some ResumeContinueReview
      else None)"

definition planJobContinuation :: "job \<Rightarrow> js_number \<Rightarrow> bool option \<Rightarrow> continuation_decision result" where
  "planJobContinuation j attempts hasLiveMergeGrant =
     (if \<not> is_integer attempts \<or> whole attempts < 0
      then Inl (TypeError ''attempts must be a non-negative integer'')
      else Inr
       (if state j \<noteq> Blocked \<and> state j \<noteq> Failed then HoldJob
        else if cancelRequestedAt j \<noteq> None then HoldJob
        else if resumesIntoOwnerGatedStage j \<and> hasLiveMergeGrant \<noteq> Some True then HoldJob
        else if blockedReason j = Some CancellationUnconfirmed then HoldJob
        else if isReviewedPrCompletionBlock j then ResumeJob ResumeContinueReview
        else if blockedReason j = Some ConfigurationBlock then EscalateJob CONFIGURATION_ESCALATION
        else if state j = Failed then
          (if resumeState j = None then EscalateJob UNRECOVERABLE_ESCALATION
           else if MAX_AUTO_CONTINUES \<le> whole attempts then EscalateJob EXHAUSTED_ESCALATION
           else ResumeJob ResumeRetry)
        else
          (case resumeEventFor j of
             None \<Rightarrow> EscalateJob UNRECOVERABLE_ESCALATION
           | Some e \<Rightarrow>
               if MAX_AUTO_CONTINUES \<le> whole attempts then EscalateJob EXHAUSTED_ESCALATION
               else ResumeJob e)))"

definition newline :: string where
  "newline = [CHR 0x0A]"

definition continuationEscalationNotice :: "string \<Rightarrow> string option \<Rightarrow> string option \<Rightarrow> string" where
  "continuationEscalationNotice reason last_error project_alias =
     (let whereabouts = (if truthy_str project_alias then '' on '' @ take 40 (the project_alias) else []);
          detail = (if truthy_str last_error
                    then newline @ newline @ ''Where it stops: '' @ take 200 (the last_error) else [])
      in ''A job'' @ whereabouts @ '' has stopped and I cannot get it moving on my own. '' @ reason @ detail @
         newline @ newline @
         ''Tell the owner in a line or two what is stuck and what you think it needs, in plain language. '' @
         ''Do not start another job to fix it without asking. They can retry it from its status message.'')"

subsection \<open>Lemmas\<close>

lemma planJobContinuation_resume:
  assumes "planJobContinuation j attempts grant = Inr (ResumeJob e)"
  shows "cancelRequestedAt j = None" "blockedReason j \<noteq> Some CancellationUnconfirmed"
    "resumesIntoOwnerGatedStage j \<Longrightarrow> grant = Some True"
    "\<not> isReviewedPrCompletionBlock j \<Longrightarrow> whole attempts < MAX_AUTO_CONTINUES"
    "isReviewedPrCompletionBlock j \<and> e = ResumeContinueReview \<or>
     state j = Failed \<and> resumeState j \<noteq> None \<and> e = ResumeRetry \<or>
     state j = Blocked \<and> resumeEventFor j = Some e \<and> \<not> isReviewedPrCompletionBlock j"
  using assms by (auto simp: planJobContinuation_def split: if_splits option.splits)

lemma transition_handler:
  assumes "cancelRequestedAt j = None" "e = RETRY \<or> e = CONTINUE_REVIEW"
  shows "transition rt j e now = finish_step now (state_handler rt (state j) j e [])"
  using assms by (auto simp: transition_def)

lemma retryable_driven: "s \<in> set RETRYABLE_RESUME_STATES \<Longrightarrow> effectByState s \<noteq> None"
  by (auto simp: RETRYABLE_RESUME_STATES_def)

text \<open>The states an accepted resume leads to.\<close>

definition moving :: "job_step \<Rightarrow> bool" where
  "moving r \<longleftrightarrow> (case r of Inl _ \<Rightarrow> False | Inr (j', es) \<Rightarrow> state j' \<notin> {Failed, Blocked} \<and> es \<noteq> [])"

lemma moving_finish: "moving (finish_step now r) = moving r"
  by (cases r) (auto simp: moving_def finish_step_def finish_def)

lemma moving_retry:
  "effectByState s \<noteq> None \<Longrightarrow> state j = s \<Longrightarrow> moving (retryEffect j [] s p)"
  by (cases s) (auto simp: retryEffect_def moving_def emitEffect_def)

lemma moving_existing: "moving (Inr (resumeFromExistingPr j []))"
  by (simp add: moving_def resumeFromExistingPr_def Let_def emitEffect_def)

lemma moving_failed:
  assumes "state j = Failed" "resumeState j = Some s" "shouldResumeExistingPr j \<or> effectByState s \<noteq> None"
  shows "moving (transitionFailed j RETRY [])"
  using assms moving_existing [of j] moving_retry [of s] by (auto simp: transitionFailed_def)

lemma moving_permanent:
  assumes "isResumablePermanentFailure j"
  shows "moving (transitionBlocked j RETRY [])"
proof -
  from assms obtain s where s: "resumeState j = Some s" "s \<in> set RETRYABLE_RESUME_STATES"
    by (auto simp: isResumablePermanentFailure_def split: option.splits)
  from retryable_driven [OF s(2)] s assms moving_existing [of j] moving_retry [of s]
  show ?thesis by (auto simp: transitionBlocked_def)
qed

lemma moving_continue:
  assumes "state j = Blocked" "blockedReason j \<noteq> Some CancellationUnconfirmed"
    "isReviewedPrCompletionBlock j \<or> isResumablePlanBlock j \<or> isResumableReviewBlock j"
  shows "moving (transitionBlocked j CONTINUE_REVIEW [])"
proof -
  have "isResumableConfigurationBlock j \<Longrightarrow> \<not> isResumableReviewBlock j"
    by (auto simp: isResumableConfigurationBlock_def isResumableReviewBlock_def)
  moreover have "moving (Inr (completeReviewedWork j []))" "moving (Inr (resumeIntoPatching j []))"
    "moving (Inr (invalidateDriftedHead (j\<lparr>blockedReason := None, lastError := None, resumeState := None\<rparr>) []))"
    by (simp_all add: moving_def completeReviewedWork_def resumeIntoPatching_def invalidateDriftedHead_def
        clearHeadAndReceipts_def Let_def emitEffect_def)
  moreover have "moving (Inr (j\<lparr>blockedReason := None, lastError := None, planCycle := 0, state := Planning\<rparr>,
      emitEffect (j\<lparr>blockedReason := None, lastError := None, planCycle := 0, state := Planning\<rparr>) [] spawn_plan []))"
    by (simp add: moving_def emitEffect_def)
  ultimately show ?thesis
    using assms moving_existing [of j]
    by (auto simp: transitionBlocked_def Let_def isResumableReviewBlock_def plan_block_iff)
qed

subsection \<open>Properties\<close>

lemma blocked_reason_name_inject: "blocked_reason_name a = blocked_reason_name b \<longleftrightarrow> a = b"
  by (cases a; cases b) simp_all

lemma state_name_inject: "state_name a = state_name b \<longleftrightarrow> a = b"
  by (cases a; cases b) simp_all

lemma state_name_plain: "CHR '':'' \<notin> set (state_name s)" "state_name s \<noteq> ''-''"
  by (cases s; simp)+

lemma reason_name_plain: "CHR '':'' \<notin> set (blocked_reason_name r)" "blocked_reason_name r \<noteq> ''-''"
  by (cases r; simp)+

lemma dash_name_inject:
  assumes "\<And>a b. f a = f b \<longleftrightarrow> a = b" "\<And>a. f a \<noteq> ''-''"
  shows "opt_default (map_option f x) ''-'' = opt_default (map_option f y) ''-'' \<longleftrightarrow> x = y"
  using assms(2) assms(2) [symmetric] by (cases x; cases y) (simp_all add: opt_default_def assms(1))

lemma dash_name_plain:
  assumes "\<And>a. CHR '':'' \<notin> set (f a)"
  shows "CHR '':'' \<notin> set (opt_default (map_option f x) ''-'')"
  by (cases x) (simp_all add: opt_default_def assms)

text \<open>Attempts at one block are counted together and those at another start afresh: two jobs
share a continuation key exactly when they are stopped in the same state, for the same reason, with
the same state to resume.\<close>

theorem continuation_key_identifies_block:
  "continuationKey j = continuationKey i \<longleftrightarrow>
     state j = state i \<and> blockedReason j = blockedReason i \<and> resumeState j = resumeState i"
  unfolding continuationKey_def
  by (simp only: colon_key_inject [OF state_name_plain(1) state_name_plain(1)]
      colon_key_inject [OF dash_name_plain [OF reason_name_plain(1)] dash_name_plain [OF reason_name_plain(1)]]
      dash_name_inject [OF blocked_reason_name_inject reason_name_plain(2)]
      dash_name_inject [OF state_name_inject state_name_plain(2)] state_name_inject)

text \<open>C7: the background sweep resumes a job only within its bounds: never one whose cancellation is
pending or unconfirmed, into the merge and production stages only with a live grant, and not more
than three times at the same block, but for closing a reviewed pull request out.\<close>

theorem resume_within_bounds:
  assumes "planJobContinuation j attempts grant = Inr (ResumeJob e)"
  shows "cancelRequestedAt j = None \<and> blockedReason j \<noteq> Some CancellationUnconfirmed \<and>
    (resumesIntoOwnerGatedStage j \<longrightarrow> grant = Some True) \<and>
    (whole attempts < 3 \<or> isReviewedPrCompletionBlock j \<and> e = ResumeContinueReview)"
  using planJobContinuation_resume [OF assms]
  by (auto simp: MAX_AUTO_CONTINUES_def isReviewedPrCompletionBlock_def)

lemma demo_failed_plan: "planJobContinuation demo_failed (Whole 2) None = Inr (ResumeJob ResumeRetry)"
  by (simp add: planJobContinuation_def demo_failed_def demo_jobs resumesIntoOwnerGatedStage_def
      OWNER_GATED_RESUME_STATES_def isReviewedPrCompletionBlock_def MAX_AUTO_CONTINUES_def)

theorem resume_within_bounds_witness: "cancelRequestedAt demo_failed = None \<and> (2::int) < 3"
  using resume_within_bounds [OF demo_failed_plan] by (simp add: demo_failed_def isReviewedPrCompletionBlock_def)

text \<open>What the sweep resumes, the state machine moves: the chosen event is accepted, takes the job
out of its stopped state and emits work, whenever a failed job's resume state has a driving effect.\<close>

theorem resume_is_accepted:
  assumes "planJobContinuation j attempts grant = Inr (ResumeJob e)"
    "\<forall>s. state j = Failed \<and> resumeState j = Some s \<longrightarrow> shouldResumeExistingPr j \<or> effectByState s \<noteq> None"
  shows "moving (transition rt j (resume_job_event e) now)"
proof -
  note r = planJobContinuation_resume [OF assms(1)]
  have t: "transition rt j (resume_job_event e) now = finish_step now (state_handler rt (state j) j (resume_job_event e) [])"
    using r(1) by (cases e) (auto intro: transition_handler)
  from r(5) consider (complete) "isReviewedPrCompletionBlock j" "e = ResumeContinueReview"
    | (failed) s where "state j = Failed" "resumeState j = Some s" "e = ResumeRetry"
    | (blocked) "state j = Blocked" "resumeEventFor j = Some e" by blast
  then show ?thesis
  proof cases
    case complete
    then have "state j = Blocked" by (simp add: isReviewedPrCompletionBlock_def)
    with complete r(2) t show ?thesis by (simp add: moving_finish moving_continue)
  next
    case failed
    with assms(2) t show ?thesis by (simp add: moving_finish moving_failed)
  next
    case blocked
    with r(2) t show ?thesis
      by (auto simp: moving_finish resumeEventFor_def moving_permanent moving_continue split: if_splits)
  qed
qed

theorem resume_is_accepted_witness: "moving (transition demo_runtime demo_failed RETRY 7)"
  using resume_is_accepted [OF demo_failed_plan, of demo_runtime 7]
  by (simp add: demo_failed_def)

definition demo_recovering :: job where
  "demo_recovering = demo_selected\<lparr>state := RecoveringWorker, resumeState := Some Implementing, version := 4, updatedAt := 4\<rparr>"

lemma demo_recovery: "run_events demo_runtime (demo_selected\<lparr>state := AwaitingConfirmation, version := 2, updatedAt := 2\<rparr>)
   [(CONFIRMED, 3), (WORKER_RECOVERY_REQUESTED ''r1'' ImplementationStage ''t1'' Crash ''sig'' None, 4)] = Inr demo_recovering"
  by (simp add: handler_eval demo_jobs requestWorkerRecovery_def RECOVERABLE_WORKER_STATES_def demo_recovering_def)

definition demo_failed_recovery :: job where
  "demo_failed_recovery = demo_recovering\<lparr>state := Failed, resumeState := Some RecoveringWorker,
     lastError := Some ''Worker thread failed'', version := 5, updatedAt := 5\<rparr>"

lemma demo_recovery_fails: "run_events demo_runtime demo_recovering [(THREAD_FAILED None, 5)] = Inr demo_failed_recovery"
  using worker_failure_safe
  by (simp add: handler_eval demo_jobs failOnThread_def failJob_def opt_default_def demo_failed_recovery_def
      assertSafeFailureSummary_def safe_summary_def MAX_FAILURE_SUMMARY_LENGTH_def demo_recovering_def)

text \<open>A job that fails while its worker is being recovered loses the stage it was recovering:
the sweep and the retry button take it for retryable, and the state machine then rejects the retry.\<close>

theorem failed_recovery_is_stuck:
  "reachable demo_runtime demo_failed_recovery \<and> isRetryableJob demo_failed_recovery \<and>
   planJobContinuation demo_failed_recovery (Whole 0) None = Inr (ResumeJob ResumeRetry) \<and>
   transition demo_runtime demo_failed_recovery RETRY 6 = Inl (IllegalTransitionError ''recovering_worker'' ''RETRY'')"
proof (intro conjI)
  show "reachable demo_runtime demo_failed_recovery"
    by (rule reachable_run [OF reachable_run [OF reachable_run [OF reachable_demo_row demo_select] demo_recovery] demo_recovery_fails])
qed (simp_all add: demo_failed_recovery_def demo_recovering_def demo_jobs isRetryableJob_def planJobContinuation_def
    resumesIntoOwnerGatedStage_def OWNER_GATED_RESUME_STATES_def isReviewedPrCompletionBlock_def MAX_AUTO_CONTINUES_def
    transition_def finish_step_def transitionFailed_def shouldResumeExistingPr_def retryEffect_def)

end
