(* ===== verification/Sql_Table.thy ===== *)
theory Sql_Table
  imports Prelude
begin

text \<open>
  The part of SQLite the storage code uses, on tables kept as lists of rows in insertion order:
  \<open>UPDATE ... WHERE\<close> with its number of changed rows, a lookup by a unique key, the uniqueness
  of a key, and a query with \<open>WHERE\<close>, \<open>ORDER BY\<close> and \<open>LIMIT\<close>.  A transaction is one function
  on the database: it returns the new database, or the error that rolls it back.
\<close>

named_theorems table_simps "rows of an updated table"

definition update_where :: "('r \<Rightarrow> bool) \<Rightarrow> ('r \<Rightarrow> 'r) \<Rightarrow> 'r list \<Rightarrow> 'r list" where
  "update_where p f t = map (\<lambda>r. if p r then f r else r) t"

definition changes :: "('r \<Rightarrow> bool) \<Rightarrow> 'r list \<Rightarrow> nat" where
  "changes p t = length (filter p t)"

definition get_where :: "('r \<Rightarrow> bool) \<Rightarrow> 'r list \<Rightarrow> 'r option" where
  "get_where p t = List.find p t"

definition unique_key :: "('r \<Rightarrow> 'k) \<Rightarrow> 'r list \<Rightarrow> bool" where
  "unique_key k t \<longleftrightarrow> distinct (map k t)"

text \<open>\<open>SELECT ... WHERE p ORDER BY k LIMIT n\<close>\<close>

definition select_ordered :: "('r \<Rightarrow> bool) \<Rightarrow> ('r \<Rightarrow> 'k::linorder) \<Rightarrow> nat \<Rightarrow> 'r list \<Rightarrow> 'r list" where
  "select_ordered p k n t = take n (sort_key k (filter p t))"

subsection \<open>Updates\<close>

lemma set_update_where [table_simps]:
  "x \<in> set (update_where p f t) \<longleftrightarrow> (\<exists>r \<in> set t. x = (if p r then f r else r))"
  by (auto simp: update_where_def)

lemma map_update_where [table_simps]:
  assumes "\<And>r. k (f r) = k r"
  shows "map k (update_where p f t) = map k t"
  using assms by (simp add: update_where_def)

lemma unique_update_where: "unique_key k t \<Longrightarrow> (\<And>r. k (f r) = k r) \<Longrightarrow> unique_key k (update_where p f t)"
  by (simp add: unique_key_def map_update_where)

lemma unique_append: "unique_key k (t @ [r]) \<longleftrightarrow> unique_key k t \<and> k r \<notin> k ` set t"
  by (auto simp: unique_key_def)

lemma unique_eqI: "unique_key k t \<Longrightarrow> r \<in> set t \<Longrightarrow> s \<in> set t \<Longrightarrow> k r = k s \<Longrightarrow> r = s"
  unfolding unique_key_def by (auto simp: distinct_map dest: inj_onD)

lemma unique_sub: "unique_key k t \<Longrightarrow> unique_key k (filter p t)"
  by (auto simp: unique_key_def distinct_map_filter_sub)

lemma changes_pos: "changes p t \<noteq> 0 \<longleftrightarrow> (\<exists>r \<in> set t. p r)"
  by (auto simp: changes_def filter_empty_conv)

lemma changes_unique:
  assumes "unique_key k t" "\<And>r. p r \<Longrightarrow> k r = v"
  shows "changes p t \<le> 1"
proof -
  have "set (map k (filter p t)) \<subseteq> {v}" using assms(2) by auto
  with unique_sub [OF assms(1), of p] have "length (map k (filter p t)) \<le> card {v}"
    unfolding unique_key_def by (metis card_mono distinct_card finite.emptyI finite.insertI)
  then show ?thesis by (simp add: changes_def)
qed

lemma changes_one:
  assumes "unique_key k t" "\<And>r. p r \<Longrightarrow> k r = v" "r \<in> set t" "p r"
  shows "changes p t = 1"
  using changes_unique [OF assms(1,2), of p] changes_pos [of p t] assms(3,4) by fastforce

text \<open>An update of rows outside a condition, into rows outside it, leaves the selected rows alone.\<close>

lemma filter_update_outside:
  "(\<And>r. r \<in> set t \<Longrightarrow> p r \<Longrightarrow> \<not> q r \<and> \<not> q (f r)) \<Longrightarrow> filter q (update_where p f t) = filter q t"
  unfolding update_where_def by (induction t) auto

lemma filter_update_inside:
  "(\<And>r. r \<in> set t \<Longrightarrow> p r \<Longrightarrow> q (f r) = q r) \<Longrightarrow> filter q (update_where p f t) = update_where p f (filter q t)"
  unfolding update_where_def by (induction t) auto

lemma changes_update_same:
  "(\<And>r. r \<in> set t \<Longrightarrow> p r \<Longrightarrow> q (f r) = q r) \<Longrightarrow> changes q (update_where p f t) = changes q t"
  unfolding changes_def update_where_def by (induction t) auto

lemma changes_update_mono:
  "(\<And>r. r \<in> set t \<Longrightarrow> p r \<Longrightarrow> q (f r) \<Longrightarrow> q r) \<Longrightarrow> changes q (update_where p f t) \<le> changes q t"
  unfolding changes_def update_where_def
proof (induction t)
  case Nil
  then show ?case by simp
next
  case (Cons r t)
  then show ?case by (cases "p r"; cases "q (f r)"; cases "q r"; simp)
qed

text \<open>An update of a row into the condition adds one row to the selection.\<close>

lemma changes_update_enter:
  assumes "\<And>r. p r \<Longrightarrow> \<not> q r" "changes p t = 1"
  shows "changes q (update_where p f t) \<le> changes q t + 1"
proof -
  have "changes q (update_where p f t) \<le> changes q t + changes p t"
    unfolding changes_def update_where_def using assms(1) by (induction t) auto
  with assms(2) show ?thesis by simp
qed

lemma unique_update_fresh:
  assumes "unique_key k t" "n \<notin> k ` set t" "unique_key j t" "\<And>r. p r \<Longrightarrow> j r = v" "k x = n"
  shows "unique_key k (update_where p (\<lambda>_. x) t)"
  using assms
proof (induction t)
  case Nil
  then show ?case by (simp add: update_where_def unique_key_def)
next
  case (Cons r t)
  have tl: "unique_key k t" "unique_key j t" "n \<notin> k ` set t" "k r \<notin> k ` set t" "k r \<noteq> n" "j r \<notin> j ` set t"
    using Cons.prems by (auto simp: unique_key_def)
  note IH = Cons.IH [OF tl(1,3,2) Cons.prems(4,5)]
  show ?case
  proof (cases "p r")
    case True
    then have "\<forall>s \<in> set t. \<not> p s" using Cons.prems(4) tl(6) by force
    then have "update_where p (\<lambda>_. x) t = t" by (simp add: update_where_def map_idI)
    with True tl Cons.prems(5) show ?thesis by (simp add: update_where_def unique_key_def)
  next
    case False
    have "k r \<noteq> k s" if "s \<in> set (update_where p (\<lambda>_. x) t)" for s
    proof (cases "s = x")
      case True
      with tl Cons.prems(5) show ?thesis by simp
    next
      case False
      with that have "s \<in> set t" by (auto simp: set_update_where split: if_splits)
      with tl(4) show ?thesis by blast
    qed
    then have "k r \<notin> set (map k (update_where p (\<lambda>_. x) t))" by auto
    moreover have "update_where p (\<lambda>_. x) (r # t) = r # update_where p (\<lambda>_. x) t"
      using False by (simp add: update_where_def)
    ultimately show ?thesis using IH by (simp add: unique_key_def)
  qed
qed

subsection \<open>Lookups\<close>

lemma get_where_Some: "get_where p t = Some r \<Longrightarrow> r \<in> set t \<and> p r"
  unfolding get_where_def by (induction t) (auto split: if_splits)

lemma get_where_None: "get_where p t = None \<longleftrightarrow> (\<forall>r \<in> set t. \<not> p r)"
  unfolding get_where_def by (induction t) auto

lemma get_unique:
  assumes "unique_key k t"
  shows "get_where (\<lambda>r. k r = v) t = Some r \<longleftrightarrow> r \<in> set t \<and> k r = v"
proof
  assume "get_where (\<lambda>r. k r = v) t = Some r"
  then show "r \<in> set t \<and> k r = v" by (rule get_where_Some)
next
  assume r: "r \<in> set t \<and> k r = v"
  then obtain s where s: "get_where (\<lambda>r. k r = v) t = Some s"
    using get_where_None [of "\<lambda>r. k r = v" t] by auto
  with get_where_Some [OF s] r have "s = r" using unique_eqI [OF assms, of s r] by simp
  with s show "get_where (\<lambda>r. k r = v) t = Some r" by simp
qed

lemma get_append: "get_where p (t @ [r]) =
    (case get_where p t of Some s \<Rightarrow> Some s | None \<Rightarrow> if p r then Some r else None)"
  unfolding get_where_def by (induction t) auto

lemma get_update_where:
  assumes "\<And>r. k (f r) = k r"
  shows "get_where (\<lambda>r. k r = v) (update_where p f t) =
    map_option (\<lambda>r. if p r then f r else r) (get_where (\<lambda>r. k r = v) t)"
  unfolding get_where_def update_where_def by (induction t) (auto simp: assms)

subsection \<open>Queries\<close>

lemma set_select_ordered: "x \<in> set (select_ordered p k n t) \<Longrightarrow> x \<in> set t \<and> p x"
  unfolding select_ordered_def by (auto dest: in_set_takeD)

lemma length_select_ordered: "length (select_ordered p k n t) \<le> n"
  by (simp add: select_ordered_def)

lemma sorted_select_ordered: "sorted (map k (select_ordered p k n t))"
  unfolding select_ordered_def by (simp add: take_map [symmetric] sorted_wrt_take)

lemma unique_select_ordered: "unique_key key t \<Longrightarrow> unique_key key (select_ordered p k n t)"
proof -
  assume "unique_key key t"
  then have "distinct (map key (sort_key k (filter p t)))"
    by (auto simp: unique_key_def distinct_map inj_on_def)
  then show ?thesis by (simp add: unique_key_def select_ordered_def take_map [symmetric])
qed

text \<open>With room for every row the query returns each of them; otherwise its last row bounds the rest.\<close>

lemma select_ordered_all:
  "length (filter p t) \<le> n \<Longrightarrow> set (select_ordered p k n t) = {x \<in> set t. p x}"
  by (auto simp: select_ordered_def)

lemma select_ordered_first:
  assumes "x \<in> set t" "p x" "x \<notin> set (select_ordered p k n t)" "y \<in> set (select_ordered p k n t)"
  shows "k y \<le> k x"
proof -
  let ?s = "sort_key k (filter p t)"
  have "x \<in> set ?s" using assms(1,2) by simp
  moreover have "set ?s = set (take n ?s) \<union> set (drop n ?s)" by (metis append_take_drop_id set_append)
  ultimately have x: "x \<in> set (drop n ?s)" using assms(3) by (auto simp: select_ordered_def)
  have "sorted (map k (take n ?s @ drop n ?s))" by simp
  then have "\<forall>a \<in> set (take n ?s). \<forall>b \<in> set (drop n ?s). k a \<le> k b"
    by (simp only: map_append sorted_append) auto
  with x assms(4) show ?thesis by (auto simp: select_ordered_def)
qed

end
