(* ===== verification/Callback_Material.thy ===== *)
theory Callback_Material
  imports Js_Regex
begin

text \<open>
  What may be stored: \<open>src/telegram/callback-material.ts\<close> detects a live merge callback, also under
  percent-encoding, and \<open>src/storage/job-persistence.ts\<close> refuses it, and URLs that are not plain
  HTTPS or carry credentials in their query, in every text and JSON value it writes.

  \<open>new URL\<close> and \<open>decodeURIComponent\<close> of the JavaScript runtime are the two fields of
  \<open>js_web\<close>: their results depend on tables (IDNA, UTF-8 code points above Latin-1) that 8-bit
  strings cannot express.
\<close>

subsection \<open>Merge callbacks\<close>

definition nonce_class :: regex where
  "nonce_class = RClass (CC False [(CHR ''A'', CHR ''Z''), (CHR ''a'', CHR ''z''), (CHR ''0'', CHR ''9''),
     (CHR ''_'', CHR ''_''), (CHR ''-'', CHR ''-'')])"

text \<open>\<open>/[ma]:[A-Za-z0-9_-]{32}/\<close>\<close>

definition RAW_MERGE_CALLBACK :: regex where
  "RAW_MERGE_CALLBACK = r_seq [RClass (CC False [(CHR ''m'', CHR ''m''), (CHR ''a'', CHR ''a'')]),
     char_cls (CHR '':''), RRep nonce_class 32 (Some 32)]"

text \<open>\<open>/(?:m|%6d|a|%61)%3a[A-Za-z0-9_-]{32}/i\<close>\<close>

definition ENCODED_MERGE_CALLBACK :: regex where
  "ENCODED_MERGE_CALLBACK = r_seq [r_alt [r_lit ''m'', r_lit ''%6d'', r_lit ''a'', r_lit ''%61''],
     r_lit ''%3a'', RRep nonce_class 32 (Some 32)]"

definition MAX_ENCODING_LAYERS :: nat where
  "MAX_ENCODING_LAYERS = 4"

text \<open>The replacement of \<open>/%(25|6d|61|3a)/gi\<close>.\<close>

definition decoded_byte :: "char \<Rightarrow> char \<Rightarrow> char option" where
  "decoded_byte a b = map_of [(''25'', CHR ''%''), (''6d'', CHR ''m''), (''61'', CHR ''a''), (''3a'', CHR '':'')]
     [js_lower_char a, js_lower_char b]"

fun decodeCallbackEncodingLayer :: "string \<Rightarrow> string" where
  "decodeCallbackEncodingLayer (c # a # b # s) =
     (if c = CHR ''%'' then
        (case decoded_byte a b of
           Some d \<Rightarrow> d # decodeCallbackEncodingLayer s
         | None \<Rightarrow> c # decodeCallbackEncodingLayer (a # b # s))
      else c # decodeCallbackEncodingLayer (a # b # s))"
| "decodeCallbackEncodingLayer s = s"

definition mergeCallback :: "string \<Rightarrow> bool" where
  "mergeCallback s \<longleftrightarrow> regex_test False RAW_MERGE_CALLBACK s \<or> regex_test True ENCODED_MERGE_CALLBACK s"

fun callback_layers :: "nat \<Rightarrow> string \<Rightarrow> bool" where
  "callback_layers 0 s = mergeCallback s"
| "callback_layers (Suc n) s =
     (if mergeCallback s then True
      else (let d = decodeCallbackEncodingLayer s in if d = s then False else callback_layers n d))"

definition containsForbiddenCallbackMaterial :: "string \<Rightarrow> bool" where
  "containsForbiddenCallbackMaterial s = callback_layers MAX_ENCODING_LAYERS s"

lemma iterate_fixpoint: "f x = x \<Longrightarrow> (f ^^ n) x = x"
  by (induction n) simp_all

lemma ex_iterate_Suc: "(\<exists>k \<le> Suc n. P ((f ^^ k) x)) \<longleftrightarrow> P x \<or> (\<exists>k \<le> n. P ((f ^^ k) (f x)))"
proof
  assume "\<exists>k \<le> Suc n. P ((f ^^ k) x)"
  then obtain k where "k \<le> Suc n" "P ((f ^^ k) x)" by blast
  then show "P x \<or> (\<exists>k \<le> n. P ((f ^^ k) (f x)))"
    by (cases k) (auto simp: funpow_Suc_right simp del: funpow.simps)
next
  assume "P x \<or> (\<exists>k \<le> n. P ((f ^^ k) (f x)))"
  then show "\<exists>k \<le> Suc n. P ((f ^^ k) x)"
  proof
    assume "P x"
    then show ?thesis by (intro exI [of _ 0]) simp
  next
    assume "\<exists>k \<le> n. P ((f ^^ k) (f x))"
    then obtain k where "k \<le> n" "P ((f ^^ k) (f x))" by blast
    then show ?thesis by (intro exI [of _ "Suc k"]) (simp add: funpow_Suc_right del: funpow.simps)
  qed
qed

text \<open>Stopping at a text that decodes to itself loses nothing.\<close>

lemma callback_layers_iff:
  "callback_layers n s \<longleftrightarrow> (\<exists>k \<le> n. mergeCallback ((decodeCallbackEncodingLayer ^^ k) s))"
proof (induction n arbitrary: s)
  case 0
  then show ?case by simp
next
  case (Suc n)
  let ?d = "decodeCallbackEncodingLayer s"
  have "(decodeCallbackEncodingLayer ^^ k) ?d = s" if "?d = s" for k
    using that iterate_fixpoint [of decodeCallbackEncodingLayer s k] by simp
  then show ?case
    unfolding ex_iterate_Suc using Suc.IH [of ?d] by (auto simp: Let_def)
qed

lemma raw_callback_matches:
  assumes "c \<in> {CHR ''m'', CHR ''a''}" "length nonce = 32"
    "\<forall>x \<in> set nonce. in_ranges [(CHR ''A'', CHR ''Z''), (CHR ''a'', CHR ''z''), (CHR ''0'', CHR ''9''), (CHR ''_'', CHR ''_''), (CHR ''-'', CHR ''-'')] x"
  shows "regex_test False RAW_MERGE_CALLBACK (p @ [c, CHR '':''] @ nonce @ q)"
proof -
  let ?s = "p @ [c, CHR '':''] @ nonce @ q" and ?n = "length p"
  let ?nonce = "CC False [(CHR ''A'', CHR ''Z''), (CHR ''a'', CHR ''z''), (CHR ''0'', CHR ''9''), (CHR ''_'', CHR ''_''), (CHR ''-'', CHR ''-'')]"
  have "class_test False ?nonce (?s ! (?n + 2 + k))" if "k < 32" for k
  proof -
    have "?s ! (?n + 2 + k) = nonce ! k" using that assms(2) by (simp add: nth_append)
    moreover have "nonce ! k \<in> set nonce" using that assms(2) by simp
    ultimately show ?thesis using assms(3) by (simp add: class_test_def)
  qed
  then have "reach (ends False ?s nonce_class) 32 (?n + 2) (?n + 34)"
    unfolding nonce_class_def using assms(2) by (simp only: reach_class) simp
  then have "matches False ?s (RRep nonce_class 32 (Some 32)) (?n + 2) (?n + 34)"
    unfolding matches_iff_ends by (simp add: set_grow_ends set_iter_ends)
  moreover have "matches False ?s (char_cls (CHR '':'')) (Suc ?n) (?n + 2)"
    using m_class [of "Suc ?n" ?s False "CC False [(CHR '':'', CHR '':'')]"]
    by (simp add: char_cls_def nth_append class_test_def)
  moreover have "matches False ?s (RClass (CC False [(CHR ''m'', CHR ''m''), (CHR ''a'', CHR ''a'')])) ?n (Suc ?n)"
    using assms(1) by (intro m_class) (auto simp: nth_append class_test_def)
  ultimately have "matches False ?s RAW_MERGE_CALLBACK ?n (?n + 34)"
    unfolding RAW_MERGE_CALLBACK_def r_seq.simps by (blast intro: m_seq)
  then show ?thesis unfolding regex_test_iff by (intro exI [of _ ?n]) auto
qed

end
