(* ===== verification/Stored_Values.thy ===== *)
theory Stored_Values
  imports Callback_Material Recipes
begin

text \<open>
  The checks of \<open>src/storage/job-persistence.ts\<close> on the texts and JSON values it stores: bounded,
  free of merge callbacks, every URL plain HTTPS without credentials.

  \<open>new URL\<close> and \<open>decodeURIComponent\<close> of the JavaScript runtime are the fields of \<open>js_web\<close>,
  an argument of the checks: their results need tables (IDNA, code points above Latin-1) that
  8-bit strings cannot hold.
\<close>

record js_url =
  protocol :: string
  hostname :: string
  username :: string
  password :: string
  search :: string
  href :: string

record js_web =
  parse_url :: "string \<Rightarrow> js_url option"
  decode_uri_component :: "string \<Rightarrow> string option"

definition MAX_RECEIPT_STRING :: nat where "MAX_RECEIPT_STRING = 512"
definition MAX_MERGE_RESULT_JSON :: nat where "MAX_MERGE_RESULT_JSON = 64000"
definition MAX_EXTERNAL_URL_LENGTH :: nat where "MAX_EXTERNAL_URL_LENGTH = 500"
definition MAX_QUERY_DEPTH :: nat where "MAX_QUERY_DEPTH = 4"

definition dash_opt :: regex where
  "dash_opt = r_opt (RClass (CC False [(CHR ''_'', CHR ''_''), (CHR ''-'', CHR ''-'')]))"

definition token_words :: regex where
  "token_words = r_alt [r_seq [r_lit ''access'', dash_opt, r_lit ''token''], r_seq [r_lit ''refresh'', dash_opt, r_lit ''token''],
     r_seq [r_lit ''id'', dash_opt, r_lit ''token''], r_seq [r_lit ''client'', dash_opt, r_lit ''secret''],
     r_seq [r_lit ''api'', dash_opt, r_lit ''key'']]"

definition CREDENTIAL_QUERY_KEY :: regex where
  "CREDENTIAL_QUERY_KEY = r_seq [RStart, r_alt
     [token_words, r_seq [r_lit ''auth'', r_opt (r_lit ''orization'')],
      r_seq [r_lit ''auth'', dash_opt, r_alt [r_lit ''token'', r_lit ''key'']],
      r_seq [r_lit ''session'', dash_opt, r_lit ''token''], r_seq [r_lit ''private'', dash_opt, r_lit ''key''],
      r_seq [r_lit ''credential'', r_opt (r_lit ''s'')], r_lit ''password'', r_lit ''passwd'', r_lit ''secret'',
      r_lit ''token'', r_lit ''key'', r_lit ''jwt'', r_lit ''signature'', r_lit ''sig''], REnd]"

definition CREDENTIAL_QUERY_VALUE :: regex where
  "CREDENTIAL_QUERY_VALUE = r_seq [RStart, r_alt
     [r_seq [r_lit ''bearer'', r_plus r_space, r_plus r_nonspace],
      r_seq [r_alt [r_lit ''sk'', r_lit ''rk''], char_cls (CHR ''-''), RRep nonce_class 10 None],
      r_seq [r_alt [token_words, r_lit ''password'', r_lit ''secret'', r_lit ''token'', r_lit ''credential''],
             r_star r_space, RClass (CC False [(CHR '':'', CHR '':''), (CHR ''='', CHR ''='')])],
      r_seq [r_alt [r_lit ''secret'', r_lit ''password'', r_lit ''token'', r_lit ''credential'',
                    r_seq [r_lit ''api'', dash_opt, r_lit ''key'']], RWordBoundary]]]"

definition assertBoundedString :: "string \<Rightarrow> string \<Rightarrow> nat \<Rightarrow> unit result" where
  "assertBoundedString v field maximum =
     guard (v \<noteq> [] \<and> length v \<le> maximum) (TypeError (field @ '' must be a bounded non-empty string''))"

definition assertNoRawMergeCallback :: "string \<Rightarrow> string \<Rightarrow> unit result" where
  "assertNoRawMergeCallback v field =
     guard (\<not> containsForbiddenCallbackMaterial v) (TypeError (field @ '' must not contain a raw merge callback nonce''))"

subsection \<open>URLs\<close>

fun decode_layers :: "js_web \<Rightarrow> nat \<Rightarrow> string \<Rightarrow> string \<Rightarrow> string result" where
  "decode_layers web 0 candidate field = Inl (TypeError (field @ '' contains excessive percent encoding''))"
| "decode_layers web (Suc n) candidate field =
     (if CHR ''%'' \<notin> set candidate then Inr candidate
      else (case decode_uri_component web candidate of
              None \<Rightarrow> Inl (TypeError (field @ '' contains malformed percent encoding''))
            | Some decoded \<Rightarrow> if decoded = candidate then Inr candidate else decode_layers web n decoded field))"

definition decodePercentLayers :: "js_web \<Rightarrow> string \<Rightarrow> string \<Rightarrow> string result" where
  "decodePercentLayers web v field = decode_layers web MAX_QUERY_DEPTH v field"

definition query_key :: "string \<Rightarrow> string" where
  "query_key part = takeWhile (\<lambda>c. c \<noteq> CHR ''='') part"

definition query_value :: "string \<Rightarrow> string" where
  "query_value part = drop 1 (dropWhile (\<lambda>c. c \<noteq> CHR ''='') part)"

fun each_ok :: "('a \<Rightarrow> unit result) \<Rightarrow> 'a list \<Rightarrow> unit result" where
  "each_ok f [] = Inr ()"
| "each_ok f (x # xs) = rthen (f x) (each_ok f xs)"

lemma each_ok_iff [result_simps]: "each_ok f xs = Inr () \<longleftrightarrow> (\<forall>x \<in> set xs. f x = Inr ())"
  by (induction xs) (auto simp: rthen_eq_Inr)

definition nested_query :: "string \<Rightarrow> bool" where
  "nested_query s \<longleftrightarrow> CHR ''='' \<in> set s \<or> CHR ''&'' \<in> set s"

text \<open>The recursion of the code counts the depth up to \<open>MAX_QUERY_DEPTH\<close>; here \<open>n\<close> is what is left.\<close>

fun query_free :: "js_web \<Rightarrow> nat \<Rightarrow> string \<Rightarrow> string \<Rightarrow> unit result" where
  "query_free web 0 material field = Inl (TypeError (field @ '' contains excessive nested query material''))"
| "query_free web (Suc n) material field =
     (if length material > MAX_EXTERNAL_URL_LENGTH
      then Inl (TypeError (field @ '' contains excessive nested query material''))
      else each_ok (\<lambda>part.
        if part = [] then Inr ()
        else rbind (decodePercentLayers web (query_key part) (field @ '' query key'')) (\<lambda>key.
             rbind (decodePercentLayers web (query_value part) (field @ '' query value'')) (\<lambda>queryValue.
               if regex_test True CREDENTIAL_QUERY_KEY key \<or> regex_test True CREDENTIAL_QUERY_VALUE queryValue \<or>
                  containsForbiddenCallbackMaterial key \<or> containsForbiddenCallbackMaterial queryValue
               then Inl (TypeError (field @ '' must not contain credential-bearing query data''))
               else if nested_query key \<or> nested_query queryValue
               then rthen (query_free web n key (field @ '' nested query key''))
                          (query_free web n queryValue (field @ '' nested query value''))
               else Inr ())))
        (split_at (CHR ''&'') (if material \<noteq> [] \<and> hd material \<in> {CHR ''?'', CHR ''&''} then tl material else material)))"

definition assertCredentialFreeQueryMaterial :: "js_web \<Rightarrow> string \<Rightarrow> string \<Rightarrow> nat \<Rightarrow> unit result" where
  "assertCredentialFreeQueryMaterial web material field depth = query_free web (MAX_QUERY_DEPTH - depth) material field"

definition assertCredentialFreeQuery :: "js_web \<Rightarrow> js_url \<Rightarrow> string \<Rightarrow> unit result" where
  "assertCredentialFreeQuery web url field =
     assertCredentialFreeQueryMaterial web
       (if starts_with ''?'' (search url) then drop 1 (search url) else search url) field 0"

definition assertSafeExternalHttpsUrl :: "js_web \<Rightarrow> string \<Rightarrow> string \<Rightarrow> string result" where
  "assertSafeExternalHttpsUrl web v field =
     rthen (assertBoundedString v field MAX_EXTERNAL_URL_LENGTH)
       (case parse_url web v of
          None \<Rightarrow> Inl (TypeError (field @ '' must be a valid HTTPS URL''))
        | Some parsed \<Rightarrow>
            if protocol parsed \<noteq> ''https:'' \<or> hostname parsed = [] \<or> username parsed \<noteq> [] \<or> password parsed \<noteq> [] \<or>
               containsForbiddenCallbackMaterial v \<or> containsForbiddenCallbackMaterial (href parsed)
            then Inl (TypeError (field @ '' must be a credential-free HTTPS URL without callback material''))
            else rthen (assertCredentialFreeQuery web parsed field) (Inr v))"

subsection \<open>JSON\<close>

definition hex_digit :: "nat \<Rightarrow> char" where
  "hex_digit n = ''0123456789abcdef'' ! n"

text \<open>The escapes of \<open>JSON.stringify\<close> in a string of 8-bit code units.\<close>

definition json_char :: "char \<Rightarrow> string" where
  "json_char c = (let n = (of_char c :: nat) in
     if c = CHR 0x22 then [CHR 0x5C, CHR 0x22]
     else if c = CHR 0x5C then [CHR 0x5C, CHR 0x5C]
     else if n = 8 then [CHR 0x5C, CHR ''b''] else if n = 9 then [CHR 0x5C, CHR ''t'']
     else if n = 10 then [CHR 0x5C, CHR ''n''] else if n = 12 then [CHR 0x5C, CHR ''f'']
     else if n = 13 then [CHR 0x5C, CHR ''r'']
     else if n < 32 then [CHR 0x5C, CHR ''u'', CHR ''0'', CHR ''0'', hex_digit (n div 16), hex_digit (n mod 16)]
     else [c])"

definition json_string :: "string \<Rightarrow> string" where
  "json_string s = [CHR 0x22] @ concat (map json_char s) @ [CHR 0x22]"

fun json_text :: "jval \<Rightarrow> string" and json_items :: "jval list \<Rightarrow> string list"
  and json_fields :: "(string \<times> jval) list \<Rightarrow> string list" where
  "json_text JNull = ''null''"
| "json_text (JBool b) = (if b then ''true'' else ''false'')"
| "json_text (JNum n) = show_int n"
| "json_text (JStr s) = json_string s"
| "json_text (JList vs) = ''['' @ join_with '','' (json_items vs) @ '']''"
| "json_text (JObj fs) = ''{'' @ join_with '','' (json_fields fs) @ ''}''"
| "json_items [] = []"
| "json_items (v # vs) = json_text v # json_items vs"
| "json_fields [] = []"
| "json_fields ((k, v) # fs) = (json_string k @ '':'' @ json_text v) # json_fields fs"

text \<open>\<open>/(?:url|uri|href)s?$/i\<close>\<close>

definition url_key :: regex where
  "url_key = r_seq [r_alt [r_lit ''url'', r_lit ''uri'', r_lit ''href''], r_opt (r_lit ''s''), REnd]"

definition assertUrlValue :: "js_web \<Rightarrow> jval \<Rightarrow> string \<Rightarrow> unit result" where
  "assertUrlValue web entry path =
     (case entry of
        JNull \<Rightarrow> Inr ()
      | JStr v \<Rightarrow> rbind (assertSafeExternalHttpsUrl web v path) (\<lambda>_. Inr ())
      | _ \<Rightarrow> Inl (TypeError (path @ '' must be a bounded non-empty string'')))"

fun assertPersistedExternalUrls :: "js_web \<Rightarrow> jval \<Rightarrow> string \<Rightarrow> unit result"
  and persisted_items :: "js_web \<Rightarrow> jval list \<Rightarrow> nat \<Rightarrow> string \<Rightarrow> unit result"
  and persisted_fields :: "js_web \<Rightarrow> (string \<times> jval) list \<Rightarrow> string \<Rightarrow> unit result" where
  "assertPersistedExternalUrls web (JList vs) field = persisted_items web vs 0 field"
| "assertPersistedExternalUrls web (JObj fs) field = persisted_fields web fs field"
| "assertPersistedExternalUrls web _ field = Inr ()"
| "persisted_items web [] i field = Inr ()"
| "persisted_items web (v # vs) i field =
     rthen (assertPersistedExternalUrls web v (field @ ''['' @ show_nat i @ '']'')) (persisted_items web vs (Suc i) field)"
| "persisted_fields web [] field = Inr ()"
| "persisted_fields web ((k, v) # fs) field =
     rthen (if regex_test True url_key k then assertUrlValue web v (field @ ''.'' @ k) else Inr ())
    (rthen (assertPersistedExternalUrls web v (field @ ''.'' @ k))
       (persisted_fields web fs field))"

text \<open>
  \<open>JSON.stringify\<close> of a \<open>jval\<close> neither throws nor returns \<open>undefined\<close>, and \<open>JSON.parse\<close> of
  its text is the value again.
\<close>

definition serializeBoundedJson :: "js_web \<Rightarrow> jval \<Rightarrow> string \<Rightarrow> nat \<Rightarrow> string result" where
  "serializeBoundedJson web v field maxLength =
     (let json = json_text v in
      if length json > maxLength then Inl (TypeError (field @ '' must be bounded JSON''))
      else rthen (assertPersistedExternalUrls web v field)
          (rthen (assertNoRawMergeCallback json field) (Inr json)))"

text \<open>Every URL an accepted value holds, at any depth, was accepted as a safe one.\<close>

fun urls_in :: "jval \<Rightarrow> string list" and urls_items :: "jval list \<Rightarrow> string list"
  and urls_fields :: "(string \<times> jval) list \<Rightarrow> string list" where
  "urls_in (JList vs) = urls_items vs"
| "urls_in (JObj fs) = urls_fields fs"
| "urls_in _ = []"
| "urls_items [] = []"
| "urls_items (v # vs) = urls_in v @ urls_items vs"
| "urls_fields [] = []"
| "urls_fields ((k, v) # fs) =
     (if regex_test True url_key k then (case v of JStr s \<Rightarrow> [s] | _ \<Rightarrow> []) else []) @ urls_in v @ urls_fields fs"

definition safe_url :: "js_web \<Rightarrow> string \<Rightarrow> bool" where
  "safe_url web s \<longleftrightarrow> s \<noteq> [] \<and> length s \<le> 500 \<and> \<not> containsForbiddenCallbackMaterial s \<and>
     (\<exists>u. parse_url web s = Some u \<and> protocol u = ''https:'' \<and> username u = [] \<and> password u = [])"

lemma assertSafeExternalHttpsUrl_safe: "assertSafeExternalHttpsUrl web s field = Inr v \<Longrightarrow> safe_url web s \<and> v = s"
  by (auto simp: assertSafeExternalHttpsUrl_def assertBoundedString_def MAX_EXTERNAL_URL_LENGTH_def rthen_eq_Inr
      safe_url_def split: option.splits if_splits)

lemma assertUrlValue_safe: "assertUrlValue web v path = Inr () \<Longrightarrow> \<forall>s. v = JStr s \<longrightarrow> safe_url web s"
  by (auto simp: assertUrlValue_def rbind_eq_Inr dest: assertSafeExternalHttpsUrl_safe)

lemma url_field_safe:
  assumes "regex_test True url_key k \<longrightarrow> (\<forall>s. v = JStr s \<longrightarrow> P s)" "\<forall>s \<in> set (urls_in v). P s"
    "\<forall>s \<in> set (urls_fields fs). P s"
  shows "\<forall>s \<in> set (urls_fields ((k, v) # fs)). P s"
proof -
  have "set (case v of JStr s \<Rightarrow> [s] | _ \<Rightarrow> []) \<subseteq> {s. v = JStr s}" by (auto split: jval.split)
  with assms show ?thesis by (cases "regex_test True url_key k") (simp_all add: subset_eq ball_Un)
qed

lemma persisted_urls_safe:
  "assertPersistedExternalUrls web v field = Inr () \<Longrightarrow> \<forall>s \<in> set (urls_in v). safe_url web s"
  "persisted_items web vs i field = Inr () \<Longrightarrow> \<forall>s \<in> set (urls_items vs). safe_url web s"
  "persisted_fields web fs field = Inr () \<Longrightarrow> \<forall>s \<in> set (urls_fields fs). safe_url web s"
proof (induction web v field and web vs i field and web fs field
    rule: assertPersistedExternalUrls_persisted_items_persisted_fields.induct)
  case (7 web k v fs field)
  then have tail: "\<forall>s \<in> set (urls_in v). safe_url web s" "\<forall>s \<in> set (urls_fields fs). safe_url web s"
    and here: "regex_test True url_key k \<longrightarrow> assertUrlValue web v (field @ ''.'' @ k) = Inr ()"
    by (auto simp: rthen_eq_Inr split: if_splits)
  have "regex_test True url_key k \<longrightarrow> (\<forall>s. v = JStr s \<longrightarrow> safe_url web s)"
    using here assertUrlValue_safe by blast
  then show ?case by (rule url_field_safe) (fact tail)+
qed (auto simp: rthen_eq_Inr)

end
