(* ===== verification/Job_Database.thy ===== *)
theory Job_Database
  imports Job_Outcomes Job_Demo Sql_Table Stored_Values
begin

text \<open>
  The tables of the job pipeline (\<open>src/storage/migrations.ts\<close>) as one record, and the
  functions of \<open>src/storage/job-persistence.ts\<close> that read and write jobs and effects.

  A row of \<open>jobs\<close> is the parsed job with the columns of the continuation ladder; the other
  tables have the columns their code reads or writes.
\<close>

subsection \<open>Numbers and identifiers the code checks\<close>

definition MAX_SAFE_INTEGER :: int where "MAX_SAFE_INTEGER = 9007199254740991"

fun is_safe_integer :: "js_number \<Rightarrow> bool" where
  "is_safe_integer (Whole n) \<longleftrightarrow> - MAX_SAFE_INTEGER \<le> n \<and> n \<le> MAX_SAFE_INTEGER"
| "is_safe_integer NotWhole = False"

definition assertPositiveInteger :: "js_number \<Rightarrow> string \<Rightarrow> unit result" where
  "assertPositiveInteger v field =
     guard (is_safe_integer v \<and> 1 \<le> whole v) (TypeError (field @ '' must be a positive integer''))"

definition assertNonNegativeInteger :: "js_number \<Rightarrow> string \<Rightarrow> unit result" where
  "assertNonNegativeInteger v field =
     guard (is_integer v \<and> 0 \<le> whole v) (TypeError (field @ '' must be a non-negative integer''))"

definition assertNotEmpty :: "string \<Rightarrow> string \<Rightarrow> unit result" where
  "assertNotEmpty v field = guard (v \<noteq> []) (TypeError (field @ '' must not be empty''))"

subsection \<open>The tables\<close>

datatype effect_status = EffPending | EffLeased | EffDone | EffFailed | EffDead

record stored_effect = job_effect +
  effStatus :: effect_status
  effAttempts :: int
  leaseOwner :: "string option"
  leaseGeneration :: "int option"
  leaseExpiresAt :: "int option"
  nextAttemptAt :: int
  effectError :: "string option"
  effectCreatedAt :: int
  effectUpdatedAt :: int

datatype admission_state = Queued | Admitted | Draining | Released
datatype admission_resume_event = ResumeConfirmed | ResumeContinue | ResumeByRetry
datatype resource_kind = ProjectResource | RepositoryMergeResource | ProductionTargetResource

record job_admission =
  admJobId :: string
  admProjectId :: string
  queueSeq :: int
  admState :: admission_state
  admResumeEvent :: admission_resume_event
  queuedAt :: int
  admittedAt :: "int option"
  drainingAt :: "int option"
  releasedAt :: "int option"
  releaseReason :: "string option"

record resource_claim =
  claimId :: int
  claimJobId :: string
  claimKey :: string
  claimKind :: resource_kind
  claimHeld :: bool \<comment> \<open>\<open>state\<close>: held, or else released\<close>
  claimOwner :: string
  claimGeneration :: int
  claimExpiresAt :: int
  acquiredAt :: int
  renewedAt :: int
  claimReleasedAt :: "int option"
  claimReleaseReason :: "string option"

record executor_lease =
  leaseHolder :: "string option"
  executorGeneration :: int
  heartbeatAt :: "int option"
  leaseUntil :: "int option"

record job_row =
  row_job :: job
  autoContinueCount :: int
  autoContinueKey :: "string option"
  autoContinueEscalatedAt :: "int option"

record approval_row =
  approvalJobId :: string
  consumedAt :: "int option"
  approvalOutcome :: "string option"

record database =
  jobs_table :: "job_row list"
  effects_table :: "stored_effect list"
  admissions_table :: "job_admission list"
  claims_table :: "resource_claim list"
  nextQueueSeq :: int
  nextClaimId :: int
  executorLease :: executor_lease
  workers_table :: "worker_liveness list"
  approvals_table :: "approval_row list"

abbreviation row_id :: "job_row \<Rightarrow> string" where "row_id r \<equiv> job_id (row_job r)"

subsection \<open>Jobs\<close>

definition readJobById :: "database \<Rightarrow> string \<Rightarrow> job option" where
  "readJobById db jid = map_option row_job (get_where (\<lambda>r. row_id r = jid) (jobs_table db))"

text \<open>
  The columns the \<open>UPDATE\<close> of \<open>persistJobTransition\<close> sets; the others keep the value the row has.
\<close>

definition write_columns :: "job \<Rightarrow> job \<Rightarrow> job" where
  "write_columns new old = old\<lparr>
     requestText := requestText new, state := state new, resumeState := resumeState new, projectId := projectId new,
     policyVersion := policyVersion new, policy := policy new, environmentId := environmentId new,
     implementationThreadId := implementationThreadId new, reviewThreadId := reviewThreadId new,
     documentationThreadId := documentationThreadId new, prNumber := prNumber new, prUrl := prUrl new,
     prHeadSha := prHeadSha new, mergeMessage := mergeMessage new, mergeCommitSha := mergeCommitSha new,
     mergedAt := mergedAt new, deploymentSummary := deploymentSummary new, canarySummary := canarySummary new,
     statusMessageId := statusMessageId new, deliveryMode := deliveryMode new, taskRecipe := taskRecipe new,
     recipeVersion := recipeVersion new, recipePromotionCount := recipePromotionCount new,
     routingMode := routingMode new, taskTraits := taskTraits new, taskReasonCodes := taskReasonCodes new,
     planCycle := planCycle new, reviewCycle := reviewCycle new, taskOutcome := taskOutcome new,
     taskConstraints := taskConstraints new, reviewBlockAt := reviewBlockAt new,
     cancelRequestedAt := cancelRequestedAt new, mergePreApprovedAt := mergePreApprovedAt new,
     blockedReason := blockedReason new, lastError := lastError new, version := version new,
     updatedAt := updatedAt new\<rparr>"

definition persistJobTransition :: "js_web \<Rightarrow> database \<Rightarrow> string \<Rightarrow> int \<Rightarrow> job \<Rightarrow> database result" where
  "persistJobTransition web db jid expectedVersion j =
     rthen (case lastError j of None \<Rightarrow> Inr () | Some e \<Rightarrow> assertNoRawMergeCallback e ''job error'')
    (rthen (case prUrl j of None \<Rightarrow> Inr () | Some u \<Rightarrow> rbind (assertSafeExternalHttpsUrl web u ''job.prUrl'') (\<lambda>_. Inr ()))
       (let hit = (\<lambda>r. row_id r = jid \<and> version (row_job r) = expectedVersion)
        in if changes hit (jobs_table db) \<noteq> 1 then Inl (VersionConflictError jid expectedVersion)
           else Inr (db\<lparr>jobs_table := update_where hit (\<lambda>r. r\<lparr>row_job := write_columns j (row_job r)\<rparr>) (jobs_table db)\<rparr>)))"

subsection \<open>Effects\<close>

definition pending_effect :: "job_effect \<Rightarrow> int \<Rightarrow> stored_effect" where
  "pending_effect x now =
     \<lparr>idempotencyKey = idempotencyKey x, effectJobId = effectJobId x, kind = kind x, payload = payload x,
      effStatus = EffPending, effAttempts = 0, leaseOwner = None, leaseGeneration = None, leaseExpiresAt = None,
      nextAttemptAt = now, effectError = None, effectCreatedAt = now, effectUpdatedAt = now\<rparr>"

text \<open>\<open>INSERT OR IGNORE\<close>: a row with the key of a stored one is dropped.\<close>

definition insert_effect :: "stored_effect \<Rightarrow> stored_effect list \<Rightarrow> stored_effect list" where
  "insert_effect x t = (if idempotencyKey x \<in> idempotencyKey ` set t then t else t @ [x])"

fun persistPendingEffects :: "js_web \<Rightarrow> database \<Rightarrow> job_effect list \<Rightarrow> int \<Rightarrow> database result" where
  "persistPendingEffects web db [] now = Inr db"
| "persistPendingEffects web db (x # xs) now =
     rbind (serializeBoundedJson web (JObj (payload x)) ''effect payload'' MAX_MERGE_RESULT_JSON) (\<lambda>_.
       persistPendingEffects web (db\<lparr>effects_table := insert_effect (pending_effect x now) (effects_table db)\<rparr>) xs now)"

subsection \<open>Reading back what was written\<close>

lemma pipeline_step_workflow:
  "pipeline_step rt j e j' es \<Longrightarrow> workflowRevision j' = workflowRevision j \<and>
     currentWorkflowStepId j' = currentWorkflowStepId j \<and> artifactBindings j' = artifactBindings j"
  by (erule pipeline_step.cases) simp_all

lemma job_transition_workflow:
  "job_transition rt j e now j' es \<Longrightarrow> workflowRevision j' = workflowRevision j \<and>
     currentWorkflowStepId j' = currentWorkflowStepId j \<and> artifactBindings j' = artifactBindings j"
  by (erule job_transition.cases) (auto simp: stamped_def dest: pipeline_step_workflow split: if_splits)

lemma write_columns_transition:
  assumes "transition rt j e now = Inr (j', es)"
  shows "write_columns j' j = j'"
  using job_transition_workflow [OF transition_steps [OF assms]] job_transition_frame [OF transition_steps [OF assms]]
  by (simp add: write_columns_def same_identity_def)

lemma job_id_write_columns [simp]: "job_id (write_columns j i) = job_id i"
  by (simp add: write_columns_def)

definition jobs_ok :: "database \<Rightarrow> bool" where
  "jobs_ok db \<longleftrightarrow> unique_key row_id (jobs_table db)"

lemma readJobById_Some:
  "jobs_ok db \<Longrightarrow> readJobById db jid = Some j \<longleftrightarrow> (\<exists>r \<in> set (jobs_table db). row_job r = j \<and> job_id j = jid)"
  using get_unique [of row_id "jobs_table db"] by (auto simp: readJobById_def jobs_ok_def)

lemma readJobById_id: "readJobById db jid = Some j \<Longrightarrow> job_id j = jid"
  by (auto simp: readJobById_def dest: get_where_Some)

lemma persistJobTransition_ok:
  assumes "persistJobTransition web db jid v j = Inr db'"
  shows "(\<exists>hit. hit = (\<lambda>r. row_id r = jid \<and> version (row_job r) = v) \<and> changes hit (jobs_table db) = 1 \<and>
      db' = db\<lparr>jobs_table := update_where hit (\<lambda>r. r\<lparr>row_job := write_columns j (row_job r)\<rparr>) (jobs_table db)\<rparr>)"
  using assms by (auto simp: persistJobTransition_def Let_def rthen_eq_Inr split: if_splits)

lemma persistJobTransition_jobs_ok:
  assumes "persistJobTransition web db jid v j = Inr db'" "jobs_ok db"
  shows "jobs_ok db'"
  using persistJobTransition_ok [OF assms(1)] assms(2) by (auto simp: jobs_ok_def intro: unique_update_where)

text \<open>A written transition is what the next reader of the job sees, and no other job changes.\<close>

lemma read_after_persist:
  assumes "persistJobTransition web db jid (version j) j' = Inr db'" "jobs_ok db" "readJobById db jid = Some j"
    "transition rt j e now = Inr (j', es)"
  shows "readJobById db' i = (if i = jid then Some j' else readJobById db i)"
proof -
  from persistJobTransition_ok [OF assms(1)] obtain hit where
    hit: "hit = (\<lambda>r. row_id r = jid \<and> version (row_job r) = version j)"
    and db': "db' = db\<lparr>jobs_table := update_where hit (\<lambda>r. r\<lparr>row_job := write_columns j' (row_job r)\<rparr>) (jobs_table db)\<rparr>"
    by blast
  have get: "get_where (\<lambda>r. row_id r = i) (jobs_table db') =
      map_option (\<lambda>r. if hit r then r\<lparr>row_job := write_columns j' (row_job r)\<rparr> else r) (get_where (\<lambda>r. row_id r = i) (jobs_table db))"
    unfolding db' by (simp add: get_update_where [where k = row_id])
  show ?thesis
  proof (cases "i = jid")
    case True
    from assms(3) obtain r where r: "get_where (\<lambda>r. row_id r = jid) (jobs_table db) = Some r" "row_job r = j"
      by (auto simp: readJobById_def)
    moreover have "hit r" using get_where_Some [OF r(1)] r(2) by (simp add: hit)
    ultimately show ?thesis using True get write_columns_transition [OF assms(4)] by (simp add: readJobById_def)
  next
    case False
    have "\<not> hit r" if "get_where (\<lambda>r. row_id r = i) (jobs_table db) = Some r" for r
      using get_where_Some [OF that] False by (simp add: hit)
    with False get show ?thesis by (auto simp: readJobById_def map_option_case split: option.splits)
  qed
qed

definition store_pending :: "int \<Rightarrow> stored_effect list \<Rightarrow> job_effect list \<Rightarrow> stored_effect list" where
  "store_pending now t xs = foldl (\<lambda>t x. insert_effect (pending_effect x now) t) t xs"

lemma persistPendingEffects_ok:
  "persistPendingEffects web db xs now = Inr db' \<Longrightarrow> db' = db\<lparr>effects_table := store_pending now (effects_table db) xs\<rparr>"
proof (induction xs arbitrary: db)
  case Nil
  then show ?case by (simp add: store_pending_def)
next
  case (Cons x xs)
  from Cons.prems have "persistPendingEffects web
      (db\<lparr>effects_table := insert_effect (pending_effect x now) (effects_table db)\<rparr>) xs now = Inr db'"
    by (auto simp: rbind_eq_Inr)
  from Cons.IH [OF this] show ?case by (simp add: store_pending_def)
qed

lemma store_pending_mono: "x \<in> set t \<Longrightarrow> x \<in> set (store_pending now t xs)"
  unfolding store_pending_def by (induction xs arbitrary: t) (auto simp: insert_effect_def)

lemma store_pending_new:
  "x \<in> set (store_pending now t xs) \<Longrightarrow> x \<in> set t \<or> (\<exists>y \<in> set xs. x = pending_effect y now)"
proof (induction xs arbitrary: t)
  case Nil
  then show ?case by (simp add: store_pending_def)
next
  case (Cons y xs)
  from Cons.prems have "x \<in> set (store_pending now (insert_effect (pending_effect y now) t) xs)"
    by (simp add: store_pending_def)
  from Cons.IH [OF this] show ?case by (auto simp: insert_effect_def split: if_splits)
qed

lemma store_pending_unique: "unique_key idempotencyKey t \<Longrightarrow> unique_key idempotencyKey (store_pending now t xs)"
  unfolding store_pending_def
  by (induction xs arbitrary: t) (auto simp: insert_effect_def unique_append)

text \<open>An effect whose key is new is stored; the effects of one transition have distinct keys.\<close>

lemma store_pending_stored:
  "distinct (map idempotencyKey xs) \<Longrightarrow> idempotencyKey ` set xs \<inter> idempotencyKey ` set t = {} \<Longrightarrow>
   y \<in> set xs \<Longrightarrow> pending_effect y now \<in> set (store_pending now t xs)"
proof (induction xs arbitrary: t)
  case Nil
  then show ?case by simp
next
  case (Cons x xs)
  have key: "idempotencyKey (pending_effect x now) = idempotencyKey x" by (simp add: pending_effect_def)
  have ins: "insert_effect (pending_effect x now) t = t @ [pending_effect x now]"
    using Cons.prems(2) by (simp add: insert_effect_def key)
  show ?case
  proof (cases "y = x")
    case True
    then show ?thesis
      using store_pending_mono [of "pending_effect x now" "t @ [pending_effect x now]" now xs]
      by (simp add: store_pending_def ins)
  next
    case False
    then have "pending_effect y now \<in> set (store_pending now (t @ [pending_effect x now]) xs)"
      using Cons.prems by (intro Cons.IH) (auto simp: key)
    then show ?thesis by (simp add: store_pending_def ins)
  qed
qed

end
