(* ===== verification/Executor_Lease.thy ===== *)
theory Executor_Lease
  imports Job_Database
begin

text \<open>
  The executor lease of \<open>src/storage/store.ts\<close>: one row names the process that may run effects, a
  generation that grows with every acquisition, and the time its lease ends.  Every mutation of
  an effect or of the job it belongs to is fenced by it.
\<close>

subsection \<open>The operations\<close>

definition assertLeaseInput :: "string \<Rightarrow> js_number \<Rightarrow> js_number \<Rightarrow> unit result" where
  "assertLeaseInput owner now leaseMs =
     rthen (assertNotEmpty owner ''ownerId'')
    (rthen (assertNonNegativeInteger now ''now'')
       (guard (is_integer leaseMs \<and> 1 \<le> whole leaseMs) (TypeError ''leaseMs must be a positive integer'')))"

definition assertLeaseIdentity :: "string \<Rightarrow> string \<Rightarrow> js_number \<Rightarrow> js_number \<Rightarrow> unit result" where
  "assertLeaseIdentity key owner gen now =
     rthen (guard (key \<noteq> []) (TypeError ''lease key must not be empty''))
    (rthen (assertNotEmpty owner ''ownerId'')
    (rthen (assertPositiveInteger gen ''generation'') (assertNonNegativeInteger now ''now'')))"

definition executorLeaseIsCurrent :: "database \<Rightarrow> string \<Rightarrow> int \<Rightarrow> int \<Rightarrow> bool" where
  "executorLeaseIsCurrent db owner gen now \<longleftrightarrow>
     (let row = executorLease db in
      leaseHolder row = Some owner \<and> executorGeneration row = gen \<and>
      (case leaseUntil row of None \<Rightarrow> False | Some t \<Rightarrow> t > now))"

definition isExecutorLeaseCurrent :: "database \<Rightarrow> string \<Rightarrow> js_number \<Rightarrow> js_number \<Rightarrow> bool" where
  "isExecutorLeaseCurrent db owner gen now \<longleftrightarrow>
     owner \<noteq> [] \<and> is_integer gen \<and> 1 \<le> whole gen \<and> is_integer now \<and> 0 \<le> whole now \<and>
     executorLeaseIsCurrent db owner (whole gen) (whole now)"

text \<open>The generation acquired, or \<open>None\<close> for \<open>{ acquired: false }\<close>.\<close>

definition acquireExecutorLease :: "database \<Rightarrow> string \<Rightarrow> js_number \<Rightarrow> js_number \<Rightarrow> (database \<times> int option) result" where
  "acquireExecutorLease db owner now leaseMs =
     rthen (assertLeaseInput owner now leaseMs)
       (let current = executorLease db in
        if leaseHolder current \<noteq> None \<and> (case leaseUntil current of None \<Rightarrow> False | Some t \<Rightarrow> t > whole now)
        then Inr (db, None)
        else (let g = executorGeneration current + 1 in
              Inr (db\<lparr>executorLease := current\<lparr>leaseHolder := Some owner, executorGeneration := g,
                        heartbeatAt := Some (whole now), leaseUntil := Some (whole now + whole leaseMs)\<rparr>\<rparr>, Some g)))"

definition renewExecutorLease :: "database \<Rightarrow> string \<Rightarrow> js_number \<Rightarrow> js_number \<Rightarrow> js_number \<Rightarrow> (database \<times> bool) result" where
  "renewExecutorLease db owner gen now leaseMs =
     rthen (assertLeaseInput owner now leaseMs)
    (rthen (assertPositiveInteger gen ''generation'')
       (if executorLeaseIsCurrent db owner (whole gen) (whole now)
        then Inr (db\<lparr>executorLease := (executorLease db)\<lparr>heartbeatAt := Some (whole now),
                      leaseUntil := Some (whole now + whole leaseMs)\<rparr>\<rparr>, True)
        else Inr (db, False)))"

definition releaseExecutorLease :: "database \<Rightarrow> string \<Rightarrow> js_number \<Rightarrow> js_number \<Rightarrow> (database \<times> bool) result" where
  "releaseExecutorLease db owner gen now =
     rthen (assertNotEmpty owner ''ownerId'')
    (rthen (assertPositiveInteger gen ''generation'')
    (rthen (assertNonNegativeInteger now ''now'')
       (let row = executorLease db in
        if leaseHolder row = Some owner \<and> executorGeneration row = whole gen
        then Inr (db\<lparr>executorLease := row\<lparr>leaseHolder := None, heartbeatAt := Some (whole now), leaseUntil := None\<rparr>\<rparr>, True)
        else Inr (db, False))))"

subsection \<open>Fencing\<close>

text \<open>
  What a client of the lease relies on: whatever happens to the state, the generation does not
  fall, and only the holder of the newest generation is current.
\<close>

locale fenced_lease =
  fixes evolves :: "'s \<Rightarrow> 's \<Rightarrow> bool"
    and generation_of :: "'s \<Rightarrow> int"
    and holds :: "'s \<Rightarrow> 'o \<Rightarrow> int \<Rightarrow> int \<Rightarrow> bool"
  assumes generation_mono: "evolves s s' \<Longrightarrow> generation_of s \<le> generation_of s'"
    and holds_generation: "holds s ow g t \<Longrightarrow> g = generation_of s"
    and one_holder: "holds s ow g t \<Longrightarrow> holds s ow' g' t' \<Longrightarrow> ow = ow'"
begin

lemma generation_mono_rtrancl: "evolves\<^sup>*\<^sup>* s s' \<Longrightarrow> generation_of s \<le> generation_of s'"
  by (induction rule: rtranclp_induct) (auto dest: generation_mono)

text \<open>A holder whose generation was overtaken never holds the lease again.\<close>

lemma fenced_off:
  assumes "evolves\<^sup>*\<^sup>* s s'" "g < generation_of s"
  shows "\<not> holds s' ow g t"
  using generation_mono_rtrancl [OF assms(1)] assms(2) holds_generation [of s' ow g t] by auto

lemma exclusive: "holds s ow g t \<Longrightarrow> holds s ow' g' t' \<Longrightarrow> ow = ow' \<and> g = g'"
  using holds_generation one_holder by metis

end

text \<open>One step of the lease row.\<close>

inductive lease_step :: "executor_lease \<Rightarrow> executor_lease \<Rightarrow> bool" where
  acquired: "acquireExecutorLease db owner now ms = Inr (db', Some g) \<Longrightarrow> lease_step (executorLease db) (executorLease db')"
| renewed: "renewExecutorLease db owner gen now ms = Inr (db', True) \<Longrightarrow> lease_step (executorLease db) (executorLease db')"
| released: "releaseExecutorLease db owner gen now = Inr (db', True) \<Longrightarrow> lease_step (executorLease db) (executorLease db')"
| other: "lease_step l l"

definition lease_current :: "executor_lease \<Rightarrow> string \<Rightarrow> int \<Rightarrow> int \<Rightarrow> bool" where
  "lease_current l owner gen now \<longleftrightarrow> leaseHolder l = Some owner \<and> executorGeneration l = gen \<and>
     (\<exists>t. leaseUntil l = Some t \<and> t > now)"

lemma executorLeaseIsCurrent_iff: "executorLeaseIsCurrent db owner gen now \<longleftrightarrow> lease_current (executorLease db) owner gen now"
  by (auto simp: executorLeaseIsCurrent_def lease_current_def Let_def split: option.splits)

lemma acquired_lease:
  assumes "acquireExecutorLease db owner now ms = Inr (db', Some g)"
  shows "g = executorGeneration (executorLease db) + 1 \<and> (\<forall>ow gen t. t \<ge> whole now \<longrightarrow> \<not> lease_current (executorLease db) ow gen t) \<and>
    db' = db\<lparr>executorLease := (executorLease db)\<lparr>leaseHolder := Some owner, executorGeneration := g,
              heartbeatAt := Some (whole now), leaseUntil := Some (whole now + whole ms)\<rparr>\<rparr> \<and> 1 \<le> whole ms"
  using assms by (auto simp: acquireExecutorLease_def assertLeaseInput_def rthen_eq_Inr Let_def lease_current_def
      split: if_splits option.splits)

lemma lease_step_generation: "lease_step l l' \<Longrightarrow> executorGeneration l \<le> executorGeneration l'"
  by (induction rule: lease_step.induct)
    (auto dest: acquired_lease simp: renewExecutorLease_def releaseExecutorLease_def rthen_eq_Inr Let_def split: if_splits)

interpretation executor_fence: fenced_lease lease_step executorGeneration lease_current
  by unfold_locales (auto simp: lease_step_generation lease_current_def)

end
