(* ===== verification/Admission.thy ===== *)
theory Admission
  imports Executor_Lease
begin

text \<open>
  Admission of jobs to the pipeline: \<open>src/autonomy/models.ts\<close> and
  \<open>src/storage/autonomy-repository.ts\<close>.  A confirmed or resumed job is queued, admitted when a slot
  and its project are free (it then holds the project's claim), drained when it ends, and
  released.  Each transaction of the repository is one function on the database.
\<close>

subsection \<open>\<open>src/autonomy/models.ts\<close>\<close>

definition DEFAULT_MAX_CONCURRENT_JOBS :: int where "DEFAULT_MAX_CONCURRENT_JOBS = 5"
definition MAX_CONCURRENT_JOBS :: int where "MAX_CONCURRENT_JOBS = 8"

definition RELEASE_CANDIDATE_JOB_STATES :: "job_state list" where
  "RELEASE_CANDIDATE_JOB_STATES = [Blocked, Cancelled, Merged, ProductionFailed, Complete]"

definition SAFE_CONTROL_EFFECTS :: "effect_kind list" where
  "SAFE_CONTROL_EFFECTS = [render_status, revoke_approvals]"

definition projectResourceKey :: "string \<Rightarrow> string" where
  "projectResourceKey pid = ''project:'' @ pid @ '':pipeline''"

definition repositoryMergeResourceKey :: "string \<Rightarrow> string" where
  "repositoryMergeResourceKey repo = ''repository:'' @ js_lower repo @ '':merge''"

definition productionResourceKey :: "project_policy \<Rightarrow> string" where
  "productionResourceKey p = ''production:'' @
     (case production p of None \<Rightarrow> policyProjectId p | Some q \<Rightarrow> opt_default (targetKey q) (policyProjectId p))"

definition isReleaseCandidate :: "job_state \<Rightarrow> bool" where
  "isReleaseCandidate s \<longleftrightarrow> List.member RELEASE_CANDIDATE_JOB_STATES s"

definition isSafeControlEffect :: "effect_kind \<Rightarrow> bool" where
  "isSafeControlEffect k \<longleftrightarrow> List.member SAFE_CONTROL_EFFECTS k"

definition matchesDurableWorker :: "job_admission \<Rightarrow> stored_effect \<Rightarrow> worker_liveness option \<Rightarrow> bool" where
  "matchesDurableWorker adm x worker \<longleftrightarrow>
     (case worker of
        None \<Rightarrow> False
      | Some w \<Rightarrow> kind x = stop_thread \<and> workerJobId w = admJobId adm \<and>
          map_of (payload x) ''generation'' = Some (JNum (generation w)) \<and>
          map_of (payload x) ''resourceId'' = Some (JStr (resourceId w)) \<and>
          map_of (payload x) ''resourceKind'' = Some (JStr (resource_kind_name (resourceKind w))) \<and>
          map_of (payload x) ''workerKind'' = Some (JStr (stage_name (workerKind w))))"

definition admissionAllowsEffect :: "job_admission \<Rightarrow> stored_effect \<Rightarrow> worker_liveness option \<Rightarrow> bool" where
  "admissionAllowsEffect adm x worker \<longleftrightarrow>
     effectJobId x = admJobId adm \<and> admState adm \<noteq> Released \<and>
     (if admState adm = Queued then isSafeControlEffect (kind x)
      else if admState adm = Admitted then True
      else isSafeControlEffect (kind x) \<or> matchesDurableWorker adm x worker)"

subsection \<open>Inputs\<close>

record admission_write =
  writeJobId :: string
  writeVersion :: js_number
  writeProjectId :: string
  writeResumeEvent :: admission_resume_event
  writeNow :: js_number

record admission_attempt_input =
  attemptJobId :: string
  maxConcurrentJobs :: js_number
  attemptOwner :: string
  attemptGeneration :: js_number
  attemptNow :: js_number
  attemptLeaseMs :: js_number

datatype admission_rejection =
  ExecutorLeaseLost | AdmissionMissing | JobMissing | IdentityMismatch | CancellationRequested |
  IllegalResumeState | Capacity | ProjectBusy | ClaimConflict

datatype admission_attempt = AttemptAdmitted job job_admission resource_claim | NotAdmitted admission_rejection

datatype admission_write_mode = QueueMode | RequeueMode

definition MAX_AUTONOMY_ROWS :: nat where "MAX_AUTONOMY_ROWS = 100"
definition MAX_SCHEDULER_CANDIDATES :: nat where "MAX_SCHEDULER_CANDIDATES = 16"

definition assertIdentifier :: "string \<Rightarrow> string \<Rightarrow> nat \<Rightarrow> unit result" where
  "assertIdentifier v field maxLength =
     guard (v \<noteq> [] \<and> length v \<le> maxLength) (TypeError (field @ '' must be a bounded non-empty string''))"

definition assertPositiveSafe :: "js_number \<Rightarrow> string \<Rightarrow> unit result" where
  "assertPositiveSafe v field =
     guard (is_safe_integer v \<and> 1 \<le> whole v) (TypeError (field @ '' must be a positive safe integer''))"

definition assertNonNegativeSafe :: "js_number \<Rightarrow> string \<Rightarrow> unit result" where
  "assertNonNegativeSafe v field =
     guard (is_safe_integer v \<and> 0 \<le> whole v) (TypeError (field @ '' must be a non-negative safe integer''))"

definition assertMaxConcurrentJobs :: "js_number \<Rightarrow> unit result" where
  "assertMaxConcurrentJobs v =
     guard (is_safe_integer v \<and> 1 \<le> whole v \<and> whole v \<le> MAX_CONCURRENT_JOBS)
       (TypeError ''maxConcurrentJobs must be an integer from 1 through 8'')"

definition boundedLimit :: "js_number \<Rightarrow> nat \<Rightarrow> nat result" where
  "boundedLimit requested maximum =
     rthen (assertPositiveSafe requested ''limit'') (Inr (min (nat (whole requested)) maximum))"

definition assertWriteInput :: "admission_write \<Rightarrow> unit result" where
  "assertWriteInput i =
     rthen (assertIdentifier (writeJobId i) ''jobId'' 256)
    (rthen (assertPositiveSafe (writeVersion i) ''expectedVersion'')
    (rthen (assertIdentifier (writeProjectId i) ''projectId'' 200)
       (assertNonNegativeSafe (writeNow i) ''now'')))"

definition assertClaimLease :: "string \<Rightarrow> js_number \<Rightarrow> js_number \<Rightarrow> js_number \<Rightarrow> unit result" where
  "assertClaimLease owner gen now leaseMs =
     rthen (assertIdentifier owner ''ownerId'' 256)
    (rthen (assertPositiveSafe gen ''generation'')
    (rthen (assertNonNegativeSafe now ''now'')
    (rthen (assertPositiveSafe leaseMs ''leaseMs'')
       (guard (whole now \<le> MAX_SAFE_INTEGER - whole leaseMs) (TypeError ''now plus leaseMs must be a safe integer'')))))"

definition assertAdmissionAttemptInput :: "admission_attempt_input \<Rightarrow> unit result" where
  "assertAdmissionAttemptInput i =
     rthen (assertIdentifier (attemptJobId i) ''jobId'' 256)
    (rthen (assertMaxConcurrentJobs (maxConcurrentJobs i))
       (assertClaimLease (attemptOwner i) (attemptGeneration i) (attemptNow i) (attemptLeaseMs i)))"

definition assertClaimAdoptionInput :: "string \<Rightarrow> string \<Rightarrow> js_number \<Rightarrow> js_number \<Rightarrow> js_number \<Rightarrow> unit result" where
  "assertClaimAdoptionInput jid owner gen now leaseMs =
     rthen (assertIdentifier jid ''jobId'' 256) (assertClaimLease owner gen now leaseMs)"

definition assertJobIdentity :: "job \<Rightarrow> admission_write \<Rightarrow> unit result" where
  "assertJobIdentity j i =
     (if version j \<noteq> whole (writeVersion i) then Inl (VersionConflictError (writeJobId i) (whole (writeVersion i)))
      else guard (projectId j = Some (writeProjectId i) \<and>
             (case policy j of None \<Rightarrow> False | Some p \<Rightarrow> policyProjectId p = writeProjectId i) \<and>
             (case policyVersion j of None \<Rightarrow> False | Some v \<Rightarrow> 1 \<le> v))
           (AutonomyAdmissionConflictError (writeJobId i) ''project or immutable policy project does not match''))"

definition continuable :: "job \<Rightarrow> bool" where
  "continuable j \<longleftrightarrow> isResumablePlanBlock j \<or> isResumableReviewBlock j \<or> isReviewedPrCompletionBlock j \<or>
     isResumableConfigurationBlock j"

definition retryable :: "job \<Rightarrow> bool" where
  "retryable j \<longleftrightarrow> isResumablePermanentFailure j \<or>
     (state j = Failed \<and> resumeState j \<noteq> None \<and> cancelRequestedAt j = None)"

definition assertContinuationState :: "job \<Rightarrow> admission_resume_event \<Rightarrow> unit result" where
  "assertContinuationState j e =
     (if e = ResumeContinue \<and> \<not> continuable j
      then Inl (AutonomyAdmissionConflictError (job_id j)
             ''review continuation requires a review-limit, plan-limit, configuration, or reviewed-PR completion block'')
      else if e = ResumeByRetry \<and> \<not> retryable j
      then Inl (AutonomyAdmissionConflictError (job_id j) ''retry continuation requires a recoverable failed job'')
      else Inr ())"

subsection \<open>Queueing\<close>

definition readAdmission :: "database \<Rightarrow> string \<Rightarrow> job_admission option" where
  "readAdmission db jid = get_where (\<lambda>a. admJobId a = jid) (admissions_table db)"

definition readSequence :: "database \<Rightarrow> int result" where
  "readSequence db = rthen (assertPositiveSafe (Whole (nextQueueSeq db)) ''next_queue_seq'') (Inr (nextQueueSeq db))"

definition allocateQueueSequence :: "database \<Rightarrow> (database \<times> int) result" where
  "allocateQueueSequence db = rbind (readSequence db) (\<lambda>n. Inr (db\<lparr>nextQueueSeq := n + 1\<rparr>, n))"

definition queued_admission :: "admission_write \<Rightarrow> int \<Rightarrow> job_admission" where
  "queued_admission i n =
     \<lparr>admJobId = writeJobId i, admProjectId = writeProjectId i, queueSeq = n, admState = Queued,
      admResumeEvent = writeResumeEvent i, queuedAt = whole (writeNow i), admittedAt = None, drainingAt = None,
      releasedAt = None, releaseReason = None\<rparr>"

text \<open>The unique column \<open>queue_seq\<close> refuses a number that is taken.\<close>

definition insertQueuedAdmission :: "database \<Rightarrow> admission_write \<Rightarrow> int \<Rightarrow> (database \<times> job_admission) result" where
  "insertQueuedAdmission db i n =
     (if writeJobId i \<in> admJobId ` set (admissions_table db) \<or> n \<in> queueSeq ` set (admissions_table db)
      then Inl SqliteConstraintUnique
      else Inr (db\<lparr>admissions_table := admissions_table db @ [queued_admission i n]\<rparr>, queued_admission i n))"

definition replaceReleasedAdmission :: "database \<Rightarrow> admission_write \<Rightarrow> int \<Rightarrow> (database \<times> job_admission) result" where
  "replaceReleasedAdmission db i n =
     (let hit = (\<lambda>a. admJobId a = writeJobId i \<and> admState a = Released) in
      if n \<in> queueSeq ` set (admissions_table db) then Inl SqliteConstraintUnique
      else if changes hit (admissions_table db) \<noteq> 1
      then Inl (PlainError (''Released admission '' @ writeJobId i @ '' was not replaced''))
      else Inr (db\<lparr>admissions_table := update_where hit (\<lambda>_. queued_admission i n) (admissions_table db)\<rparr>,
                queued_admission i n))"

definition assertReplayIdentity :: "job_admission \<Rightarrow> admission_write \<Rightarrow> unit result" where
  "assertReplayIdentity a i =
     guard (admProjectId a = writeProjectId i \<and> admResumeEvent a = writeResumeEvent i)
       (AutonomyAdmissionConflictError (writeJobId i) ''project or resume event changed'')"

definition persistQueuedAdmission ::
  "database \<Rightarrow> admission_write \<Rightarrow> admission_write_mode \<Rightarrow> (database \<times> job_admission) result" where
  "persistQueuedAdmission db i mode =
     (case readJobById db (writeJobId i) of
        None \<Rightarrow> Inl (PlainError (''Job '' @ writeJobId i @ '' was not found''))
      | Some j \<Rightarrow>
          rthen (assertJobIdentity j i)
         (rthen (assertContinuationState j (writeResumeEvent i))
           (case readAdmission db (writeJobId i) of
              Some a \<Rightarrow>
                if admState a \<noteq> Released then rthen (assertReplayIdentity a i) (Inr (db, a))
                else rbind (allocateQueueSequence db) (\<lambda>(db1, n). replaceReleasedAdmission db1 i n)
            | None \<Rightarrow>
                if mode = RequeueMode
                then Inl (AutonomyAdmissionConflictError (writeJobId i) ''there is no released admission to requeue'')
                else rbind (allocateQueueSequence db) (\<lambda>(db1, n). insertQueuedAdmission db1 i n))))"

definition queueAdmissionInTransaction ::
  "database \<Rightarrow> admission_write \<Rightarrow> admission_write_mode \<Rightarrow> (database \<times> job_admission) result" where
  "queueAdmissionInTransaction db i mode = rthen (assertWriteInput i) (persistQueuedAdmission db i mode)"

definition queueAdmission :: "database \<Rightarrow> admission_write \<Rightarrow> (database \<times> job_admission) result" where
  "queueAdmission db i = queueAdmissionInTransaction db i QueueMode"

definition requeueAdmission :: "database \<Rightarrow> admission_write \<Rightarrow> (database \<times> job_admission) result" where
  "requeueAdmission db i = queueAdmissionInTransaction db i RequeueMode"

subsection \<open>Admitting\<close>

definition resumeEventForAdmission :: "job \<Rightarrow> admission_resume_event \<Rightarrow> job_event option" where
  "resumeEventForAdmission j e =
     (if e = ResumeConfirmed \<and> state j = AwaitingConfirmation then Some CONFIRMED
      else if e = ResumeContinue \<and> state j = Blocked \<and> continuable j then Some CONTINUE_REVIEW
      else if e = ResumeByRetry \<and> retryable j then Some RETRY
      else None)"

definition readHeldProjectClaim :: "database \<Rightarrow> string \<Rightarrow> resource_claim option" where
  "readHeldProjectClaim db key =
     get_where (\<lambda>c. claimKey c = key \<and> claimKind c = ProjectResource \<and> claimHeld c) (claims_table db)"

definition occupied :: "job_admission \<Rightarrow> bool" where
  "occupied a \<longleftrightarrow> admState a = Admitted \<or> admState a = Draining"

definition countOccupiedAdmissions :: "database \<Rightarrow> int" where
  "countOccupiedAdmissions db = int (changes occupied (admissions_table db))"

definition held_claim :: "int \<Rightarrow> string \<Rightarrow> string \<Rightarrow> resource_kind \<Rightarrow> string \<Rightarrow> int \<Rightarrow> int \<Rightarrow> int \<Rightarrow> resource_claim" where
  "held_claim cid jid key k owner gen now leaseMs =
     \<lparr>claimId = cid, claimJobId = jid, claimKey = key, claimKind = k, claimHeld = True, claimOwner = owner,
      claimGeneration = gen, claimExpiresAt = now + leaseMs, acquiredAt = now, renewedAt = now,
      claimReleasedAt = None, claimReleaseReason = None\<rparr>"

text \<open>The insert of a held claim, under the unique index on the held keys and the bound on a key's length.\<close>

definition insertHeldClaim ::
  "database \<Rightarrow> string \<Rightarrow> string \<Rightarrow> resource_kind \<Rightarrow> string \<Rightarrow> int \<Rightarrow> int \<Rightarrow> int \<Rightarrow> database result" where
  "insertHeldClaim db jid key k owner gen now leaseMs =
     (if length key > 384 then Inl SqliteConstraintCheck
      else if \<exists>c \<in> set (claims_table db). claimHeld c \<and> claimKey c = key then Inl SqliteConstraintUnique
      else Inr (db\<lparr>claims_table := claims_table db @ [held_claim (nextClaimId db) jid key k owner gen now leaseMs],
                   nextClaimId := nextClaimId db + 1\<rparr>))"

definition admission_identity :: "job \<Rightarrow> job_admission \<Rightarrow> bool" where
  "admission_identity j a \<longleftrightarrow> projectId j = Some (admProjectId a) \<and>
     (case policy j of None \<Rightarrow> False | Some p \<Rightarrow> policyProjectId p = admProjectId a) \<and>
     (case policyVersion j of None \<Rightarrow> False | Some v \<Rightarrow> 1 \<le> v)"

definition tryAdmitInTransaction ::
  "js_runtime \<Rightarrow> js_web \<Rightarrow> database \<Rightarrow> admission_attempt_input \<Rightarrow> (database \<times> admission_attempt) result" where
  "tryAdmitInTransaction rt web db i =
     (let jid = attemptJobId i; now = whole (attemptNow i) in
      if \<not> executorLeaseIsCurrent db (attemptOwner i) (whole (attemptGeneration i)) now
      then Inr (db, NotAdmitted ExecutorLeaseLost)
      else case readAdmission db jid of
        None \<Rightarrow> Inr (db, NotAdmitted AdmissionMissing)
      | Some a \<Rightarrow>
          if admState a \<noteq> Queued then Inr (db, NotAdmitted AdmissionMissing)
          else case readJobById db jid of
            None \<Rightarrow> Inr (db, NotAdmitted JobMissing)
          | Some j \<Rightarrow>
              if \<not> admission_identity j a then Inr (db, NotAdmitted IdentityMismatch)
              else if cancelRequestedAt j \<noteq> None then Inr (db, NotAdmitted CancellationRequested)
              else case resumeEventForAdmission j (admResumeEvent a) of
                None \<Rightarrow> Inr (db, NotAdmitted IllegalResumeState)
              | Some e \<Rightarrow>
                  if countOccupiedAdmissions db \<ge> whole (maxConcurrentJobs i) then Inr (db, NotAdmitted Capacity)
                  else if readHeldProjectClaim db (projectResourceKey (admProjectId a)) \<noteq> None
                  then Inr (db, NotAdmitted ProjectBusy)
                  else case insertHeldClaim db jid (projectResourceKey (admProjectId a)) ProjectResource
                              (attemptOwner i) (whole (attemptGeneration i)) now (whole (attemptLeaseMs i)) of
                    Inl SqliteConstraintUnique \<Rightarrow> Inr (db, NotAdmitted ClaimConflict)
                  | Inl err \<Rightarrow> Inl err
                  | Inr db1 \<Rightarrow>
                      (let hit = (\<lambda>b. admJobId b = jid \<and> admState b = Queued \<and> admProjectId b = admProjectId a) in
                       if changes hit (admissions_table db1) \<noteq> 1 then Inl AdmissionWriteConflictError
                       else (let db2 = db1\<lparr>admissions_table := update_where hit
                                     (\<lambda>b. b\<lparr>admState := Admitted, admittedAt := Some now\<rparr>) (admissions_table db1)\<rparr> in
                       rbind (transition rt j e now) (\<lambda>(j', es).
                       rbind (persistJobTransition web db2 (job_id j) (version j) j') (\<lambda>db3.
                       rbind (persistPendingEffects web db3 es now) (\<lambda>db4.
                         case (readAdmission db4 jid, readHeldProjectClaim db4 (projectResourceKey (admProjectId a))) of
                           (Some admitted, Some c) \<Rightarrow> Inr (db4, AttemptAdmitted j' admitted c)
                         | _ \<Rightarrow> Inl (PlainError ''Admitted job lost its durable claim or admission'')))))))"

definition tryAdmit ::
  "js_runtime \<Rightarrow> js_web \<Rightarrow> database \<Rightarrow> admission_attempt_input \<Rightarrow> (database \<times> admission_attempt) result" where
  "tryAdmit rt web db i =
     rthen (assertAdmissionAttemptInput i)
       (case tryAdmitInTransaction rt web db i of
          Inl AdmissionWriteConflictError \<Rightarrow> Inr (db, NotAdmitted ClaimConflict)
        | r \<Rightarrow> r)"

subsection \<open>Draining, releasing, adopting\<close>

definition markDrainingInTransaction :: "database \<Rightarrow> string \<Rightarrow> js_number \<Rightarrow> (database \<times> job_admission option) result" where
  "markDrainingInTransaction db jid now =
     rthen (assertIdentifier jid ''jobId'' 256)
    (rthen (assertNonNegativeSafe now ''now'')
       (case readAdmission db jid of
          None \<Rightarrow> Inr (db, None)
        | Some a \<Rightarrow>
            if admState a \<noteq> Admitted then Inr (db, Some a)
            else (let hit = (\<lambda>b. admJobId b = jid \<and> admState b = Admitted) in
              if changes hit (admissions_table db) \<noteq> 1 then Inl AdmissionWriteConflictError
              else (let db' = db\<lparr>admissions_table := update_where hit
                        (\<lambda>b. b\<lparr>admState := Draining, drainingAt := Some (whole now)\<rparr>) (admissions_table db)\<rparr>
                    in Inr (db', readAdmission db' jid)))))"

definition releaseInTransaction ::
  "database \<Rightarrow> string \<Rightarrow> js_number \<Rightarrow> string \<Rightarrow> (database \<times> job_admission option) result" where
  "releaseInTransaction db jid now reason =
     rthen (assertIdentifier jid ''jobId'' 256)
    (rthen (assertNonNegativeSafe now ''now'')
    (rthen (assertIdentifier reason ''releaseReason'' 160)
       (case readAdmission db jid of
          None \<Rightarrow> Inr (db, None)
        | Some a \<Rightarrow>
            if admState a = Released then Inr (db, Some a)
            else (let hit = (\<lambda>b. admJobId b = jid \<and> (admState b = Queued \<or> admState b = Draining)) in
              if changes hit (admissions_table db) \<noteq> 1 then Inl AdmissionWriteConflictError
              else (let db' = db\<lparr>admissions_table := update_where hit
                        (\<lambda>b. b\<lparr>admState := Released, releasedAt := Some (whole now), releaseReason := Some reason\<rparr>)
                        (admissions_table db)\<rparr>
                    in Inr (db', readAdmission db' jid))))))"

definition adoptHeldClaims ::
  "database \<Rightarrow> string \<Rightarrow> string \<Rightarrow> js_number \<Rightarrow> js_number \<Rightarrow> js_number \<Rightarrow> (database \<times> bool) result" where
  "adoptHeldClaims db jid owner gen now leaseMs =
     rthen (assertClaimAdoptionInput jid owner gen now leaseMs)
       (if \<not> executorLeaseIsCurrent db owner (whole gen) (whole now) then Inr (db, False)
        else case readAdmission db jid of
          None \<Rightarrow> Inr (db, False)
        | Some a \<Rightarrow>
            if \<not> occupied a then Inr (db, False)
            else if get_where (\<lambda>c. claimJobId c = jid \<and> claimKey c = projectResourceKey (admProjectId a) \<and>
                      claimKind c = ProjectResource \<and> claimHeld c) (claims_table db) = None
            then Inr (db, False)
            else (let hit = (\<lambda>c. claimJobId c = jid \<and> claimHeld c);
                      heldClaims = select_ordered hit claimId (MAX_AUTONOMY_ROWS + 1) (claims_table db) in
              if heldClaims = [] \<or> length heldClaims > MAX_AUTONOMY_ROWS then Inr (db, False)
              else Inr (db\<lparr>claims_table := update_where hit
                          (\<lambda>c. c\<lparr>claimOwner := owner, claimGeneration := whole gen,
                                claimExpiresAt := whole now + whole leaseMs, renewedAt := whole now\<rparr>) (claims_table db)\<rparr>,
                        changes hit (claims_table db) = length heldClaims)))"

subsection \<open>The continuation ladder\<close>

definition recordAutoContinue :: "database \<Rightarrow> string \<Rightarrow> string \<Rightarrow> js_number \<Rightarrow> database result" where
  "recordAutoContinue db jid key now =
     rthen (assertIdentifier jid ''jobId'' 256)
    (rthen (assertIdentifier key ''key'' 256)
    (rthen (assertNonNegativeSafe now ''now'')
       (Inr (db\<lparr>jobs_table := update_where (\<lambda>r. row_id r = jid)
          (\<lambda>r. r\<lparr>autoContinueCount := (if autoContinueKey r = Some key then autoContinueCount r + 1 else 1),
                autoContinueKey := Some key, row_job := (row_job r)\<lparr>updatedAt := whole now\<rparr>\<rparr>) (jobs_table db)\<rparr>))))"

definition recordContinuationEscalation :: "database \<Rightarrow> string \<Rightarrow> js_number \<Rightarrow> database result" where
  "recordContinuationEscalation db jid now =
     rthen (assertIdentifier jid ''jobId'' 256)
    (rthen (assertNonNegativeSafe now ''now'')
       (Inr (db\<lparr>jobs_table := update_where (\<lambda>r. row_id r = jid)
          (\<lambda>r. r\<lparr>autoContinueEscalatedAt := Some (whole now), row_job := (row_job r)\<lparr>updatedAt := whole now\<rparr>\<rparr>)
          (jobs_table db)\<rparr>)))"

subsection \<open>Queries\<close>

text \<open>The order of the admissions: the queue sequence, then the job id.\<close>

definition queue_key :: "job_admission \<Rightarrow> int \<times> string" where
  "queue_key a = (queueSeq a, admJobId a)"

definition listAdmissions :: "database \<Rightarrow> admission_state list \<Rightarrow> js_number \<Rightarrow> job_admission list result" where
  "listAdmissions db states limit =
     (if states = [] then Inr []
      else rbind (boundedLimit limit MAX_AUTONOMY_ROWS) (\<lambda>n.
        Inr (select_ordered (\<lambda>a. List.member states (admState a)) queue_key n (admissions_table db))))"

definition job_of_admission :: "database \<Rightarrow> job_admission \<Rightarrow> job option" where
  "job_of_admission db a = readJobById db (admJobId a)"

definition is_release_candidate :: "database \<Rightarrow> job_admission \<Rightarrow> bool" where
  "is_release_candidate db a \<longleftrightarrow>
     (case job_of_admission db a of
        None \<Rightarrow> False
      | Some j \<Rightarrow> (occupied a \<and> isReleaseCandidate (state j)) \<or> (admState a = Queued \<and> cancelRequestedAt j \<noteq> None))"

definition listReleaseCandidates :: "database \<Rightarrow> js_number \<Rightarrow> job_admission list result" where
  "listReleaseCandidates db limit =
     rbind (boundedLimit limit MAX_AUTONOMY_ROWS) (\<lambda>n.
       Inr (select_ordered (is_release_candidate db) (\<lambda>a. (if occupied a then 0 else 1 :: nat, queue_key a)) n
              (admissions_table db)))"

text \<open>\<open>ROW_NUMBER() OVER (PARTITION BY project_id ORDER BY queue_seq, job_id) = 1\<close> among the queued.\<close>

definition project_first :: "job_admission list \<Rightarrow> job_admission \<Rightarrow> bool" where
  "project_first t a \<longleftrightarrow> admState a = Queued \<and>
     list_all (\<lambda>b. admState b = Queued \<and> admProjectId b = admProjectId a \<longrightarrow> queue_key a \<le> queue_key b) t"

definition listOldestQueuedPerProject :: "database \<Rightarrow> js_number \<Rightarrow> job_admission list result" where
  "listOldestQueuedPerProject db limit =
     rbind (boundedLimit limit MAX_SCHEDULER_CANDIDATES) (\<lambda>n.
       Inr (select_ordered (project_first (admissions_table db)) queue_key n (admissions_table db)))"

definition listOccupiedAdmissions :: "database \<Rightarrow> js_number \<Rightarrow> job_admission list result" where
  "listOccupiedAdmissions db limit =
     rbind (boundedLimit limit MAX_AUTONOMY_ROWS) (\<lambda>n.
       Inr (select_ordered occupied queue_key n (admissions_table db)))"

text \<open>Despite its name this query returns released claims too: it has no condition on the state.\<close>

definition listHeldClaims :: "database \<Rightarrow> string option \<Rightarrow> js_number \<Rightarrow> resource_claim list result" where
  "listHeldClaims db jid limit =
     rthen (case jid of None \<Rightarrow> Inr () | Some i \<Rightarrow> assertIdentifier i ''jobId'' 256)
       (rbind (boundedLimit limit MAX_AUTONOMY_ROWS) (\<lambda>n.
          Inr (select_ordered (\<lambda>c. case jid of None \<Rightarrow> True | Some i \<Rightarrow> claimJobId c = i) claimId n (claims_table db))))"

definition listCurrentHeldClaims :: "database \<Rightarrow> string \<Rightarrow> js_number \<Rightarrow> resource_claim list result" where
  "listCurrentHeldClaims db jid limit =
     rthen (assertIdentifier jid ''jobId'' 256)
       (rbind (boundedLimit limit MAX_AUTONOMY_ROWS) (\<lambda>n.
          Inr (select_ordered (\<lambda>c. claimJobId c = jid \<and> claimHeld c) claimId n (claims_table db))))"

definition listCurrentHeldProjectClaims :: "database \<Rightarrow> js_number \<Rightarrow> resource_claim list result" where
  "listCurrentHeldProjectClaims db limit =
     rbind (boundedLimit limit MAX_AUTONOMY_ROWS) (\<lambda>n.
       Inr (select_ordered (\<lambda>c. claimHeld c \<and> claimKind c = ProjectResource) claimId n (claims_table db)))"

fun resource_kind_text :: "resource_kind \<Rightarrow> string" where
  "resource_kind_text ProjectResource = ''project''"
| "resource_kind_text RepositoryMergeResource = ''repository_merge''"
| "resource_kind_text ProductionTargetResource = ''production_target''"

definition merge_requirements :: "project_policy \<Rightarrow> (resource_kind \<times> string) list" where
  "merge_requirements p =
     (RepositoryMergeResource, repositoryMergeResourceKey (githubRepository p)) #
     (case production p of None \<Rightarrow> [] | Some _ \<Rightarrow> [(ProductionTargetResource, productionResourceKey p)])"

definition listCurrentHeldMergeClaims :: "database \<Rightarrow> string \<Rightarrow> project_policy \<Rightarrow> js_number \<Rightarrow> resource_claim list result" where
  "listCurrentHeldMergeClaims db jid p limit =
     rthen (assertIdentifier jid ''jobId'' 256)
       (rbind (boundedLimit limit MAX_AUTONOMY_ROWS) (\<lambda>n.
          Inr (select_ordered
                (\<lambda>c. claimHeld c \<and> claimJobId c \<noteq> jid \<and> List.member (merge_requirements p) (claimKind c, claimKey c))
                (\<lambda>c. (resource_kind_text (claimKind c), claimKey c, claimId c)) n (claims_table db))))"

text \<open>The resources a job's merge waits for, ordered by key, at most three.\<close>

definition projectResourceWait :: "string \<Rightarrow> project_policy \<Rightarrow> resource_claim list \<Rightarrow> (resource_kind \<times> string) list" where
  "projectResourceWait jid p claims =
     (let heldKeys = map (\<lambda>c. (claimKind c, claimKey c)) (filter (\<lambda>c. claimHeld c \<and> claimJobId c \<noteq> jid) claims)
      in take 3 (filter (\<lambda>r. List.member heldKeys r) (sort_key snd (merge_requirements p))))"

definition findJobByStatusMessageId :: "database \<Rightarrow> js_number \<Rightarrow> job option result" where
  "findJobByStatusMessageId db m =
     rthen (assertPositiveSafe m ''messageId'')
       (Inr (map_option row_job (get_where (\<lambda>r. statusMessageId (row_job r) = Some (whole m)) (jobs_table db))))"

definition listActiveJobs :: "database \<Rightarrow> js_number \<Rightarrow> job list result" where
  "listActiveJobs db limit =
     rbind (boundedLimit limit MAX_AUTONOMY_ROWS) (\<lambda>n.
       Inr (map (\<lambda>a. the (job_of_admission db a))
         (select_ordered (\<lambda>a. admState a \<noteq> Released \<and> job_of_admission db a \<noteq> None) queue_key n (admissions_table db))))"

text \<open>A candidate of the continuation sweep: the job, its attempts and its key.\<close>

definition listContinuationCandidates :: "database \<Rightarrow> js_number \<Rightarrow> (job \<times> int \<times> string option) list result" where
  "listContinuationCandidates db limit =
     rbind (boundedLimit limit MAX_AUTONOMY_ROWS) (\<lambda>n.
       Inr (map (\<lambda>r. (row_job r, autoContinueCount r, autoContinueKey r))
         (select_ordered (\<lambda>r. (state (row_job r) = Blocked \<or> state (row_job r) = Failed) \<and> autoContinueEscalatedAt r = None)
            (\<lambda>r. (updatedAt (row_job r), row_id r)) n (jobs_table db))))"

end
