(* ===== verification/Effect_Queue.thy ===== *)
theory Effect_Queue
  imports Admission
begin

text \<open>
  The effect queue of \<open>src/storage/store.ts\<close>: an effect is leased to the current executor,
  completed, failed with a retry time, or dead after twenty attempts, and a dead effect that is
  not cosmetic blocks its job; and the merge and production claims that fence the effects which
  touch a repository or production.
\<close>

subsection \<open>Leases on effects\<close>

definition effectByKey :: "database \<Rightarrow> string \<Rightarrow> stored_effect option" where
  "effectByKey db key = get_where (\<lambda>x. idempotencyKey x = key) (effects_table db)"

definition lease_held :: "stored_effect \<Rightarrow> string \<Rightarrow> int \<Rightarrow> int \<Rightarrow> bool" where
  "lease_held x owner gen now \<longleftrightarrow> effStatus x = EffLeased \<and> leaseOwner x = Some owner \<and>
     leaseGeneration x = Some gen \<and> (case leaseExpiresAt x of None \<Rightarrow> False | Some t \<Rightarrow> t > now)"

definition effectLeaseIsActiveForRow :: "database \<Rightarrow> stored_effect \<Rightarrow> string \<Rightarrow> int \<Rightarrow> int \<Rightarrow> bool" where
  "effectLeaseIsActiveForRow db x owner gen now \<longleftrightarrow>
     lease_held x owner gen now \<and> executorLeaseIsCurrent db owner gen now"

text \<open>The effects a lease may take: due, or left by a lease that ran out.\<close>

definition leasable :: "stored_effect \<Rightarrow> int \<Rightarrow> bool" where
  "leasable x now \<longleftrightarrow> ((effStatus x = EffPending \<or> effStatus x = EffFailed) \<and> nextAttemptAt x \<le> now) \<or>
     (effStatus x = EffLeased \<and> (case leaseExpiresAt x of None \<Rightarrow> False | Some t \<Rightarrow> t \<le> now))"

definition take_lease :: "string \<Rightarrow> int \<Rightarrow> int \<Rightarrow> int \<Rightarrow> stored_effect \<Rightarrow> stored_effect" where
  "take_lease owner gen now leaseMs x =
     x\<lparr>effStatus := EffLeased, leaseOwner := Some owner, leaseGeneration := Some gen,
       leaseExpiresAt := Some (now + leaseMs), effAttempts := effAttempts x + 1, effectUpdatedAt := now\<rparr>"

definition drop_lease :: "effect_status \<Rightarrow> string option \<Rightarrow> int \<Rightarrow> stored_effect \<Rightarrow> stored_effect" where
  "drop_lease s err now x =
     x\<lparr>effStatus := s, leaseOwner := None, leaseGeneration := None, leaseExpiresAt := None,
       effectError := err, effectUpdatedAt := now\<rparr>"

definition update_effect :: "database \<Rightarrow> (stored_effect \<Rightarrow> bool) \<Rightarrow> (stored_effect \<Rightarrow> stored_effect) \<Rightarrow> database" where
  "update_effect db p f = db\<lparr>effects_table := update_where p f (effects_table db)\<rparr>"

subsection \<open>Leasing control effects\<close>

definition control_effect_due :: "database \<Rightarrow> string list \<Rightarrow> int \<Rightarrow> stored_effect \<Rightarrow> bool" where
  "control_effect_due db busy now x \<longleftrightarrow>
     (case (readAdmission db (effectJobId x), readJobById db (effectJobId x)) of
        (Some a, Some j) \<Rightarrow>
          (admState a \<noteq> Released \<or>
           (isReleaseCandidate (state j) \<and> idempotencyKey x = effect_key (effectJobId x) (version j) render_status)) \<and>
          isSafeControlEffect (kind x) \<and> leasable x now \<and> \<not> List.member busy (effectJobId x)
      | _ \<Rightarrow> False)"

text \<open>One pass over the selected rows: each is leased if it still may be.\<close>

fun lease_rows ::
  "database \<Rightarrow> string \<Rightarrow> int \<Rightarrow> int \<Rightarrow> int \<Rightarrow> stored_effect list \<Rightarrow> database \<times> stored_effect list" where
  "lease_rows db owner gen now leaseMs [] = (db, [])"
| "lease_rows db owner gen now leaseMs (x # xs) =
     (if \<not> executorLeaseIsCurrent db owner gen now then (db, [])
      else if readAdmission db (effectJobId x) = None \<or> \<not> isSafeControlEffect (kind x)
      then lease_rows db owner gen now leaseMs xs
      else (let hit = (\<lambda>y. idempotencyKey y = idempotencyKey x \<and> leasable y now) in
        if changes hit (effects_table db) \<noteq> 1 then lease_rows db owner gen now leaseMs xs
        else (let db1 = update_effect db hit (take_lease owner gen now leaseMs);
                  (db2, ys) = lease_rows db1 owner gen now leaseMs xs
              in (db2, the (effectByKey db1 (idempotencyKey x)) # ys))))"

definition leaseControlEffects ::
  "database \<Rightarrow> string \<Rightarrow> js_number \<Rightarrow> js_number \<Rightarrow> js_number \<Rightarrow> js_number \<Rightarrow> string list \<Rightarrow>
   (database \<times> stored_effect list) result" where
  "leaseControlEffects db owner gen now leaseMs limit busy =
     rthen (assertLeaseInput owner now leaseMs)
    (rthen (assertPositiveInteger gen ''generation'')
    (rthen (assertPositiveInteger limit ''limit'')
    (rthen (guard (whole limit \<le> int MAX_AUTONOMY_ROWS) (TypeError ''limit must not exceed 100''))
    (rthen (guard (length busy \<le> MAX_AUTONOMY_ROWS) (TypeError ''busyJobIds must contain at most 100 job ids''))
    (rthen (guard (list_all (\<lambda>j. j \<noteq> [] \<and> length j \<le> 256) busy) (TypeError ''busy job id is invalid''))
       (if \<not> executorLeaseIsCurrent db owner (whole gen) (whole now) then Inr (db, [])
        else Inr (lease_rows db owner (whole gen) (whole now) (whole leaseMs)
               (select_ordered (control_effect_due db busy (whole now)) (\<lambda>x. (effectCreatedAt x, idempotencyKey x))
                  (min (nat (whole limit)) 8) (effects_table db)))))))))"

definition renewControlEffectFence ::
  "database \<Rightarrow> string \<Rightarrow> string \<Rightarrow> string \<Rightarrow> js_number \<Rightarrow> js_number \<Rightarrow> js_number \<Rightarrow> (database \<times> bool) result" where
  "renewControlEffectFence db jid key owner gen now leaseMs =
     rthen (assertLeaseInput owner now leaseMs)
    (rthen (assertPositiveInteger gen ''generation'')
    (rthen (guard (jid \<noteq> [] \<and> key \<noteq> []) (TypeError ''job operation identity is required''))
       (if \<not> executorLeaseIsCurrent db owner (whole gen) (whole now) then Inr (db, False)
        else case get_where (\<lambda>x. effectJobId x = jid \<and> idempotencyKey x = key) (effects_table db) of
          None \<Rightarrow> Inr (db, False)
        | Some x \<Rightarrow>
            if \<not> isSafeControlEffect (kind x) \<or> \<not> lease_held x owner (whole gen) (whole now) then Inr (db, False)
            else (let hit = (\<lambda>y. effectJobId y = jid \<and> idempotencyKey y = key \<and> lease_held y owner (whole gen) (whole now))
              in Inr (update_effect db hit
                   (\<lambda>y. y\<lparr>leaseExpiresAt := Some (whole now + whole leaseMs), effectUpdatedAt := whole now\<rparr>),
                 changes hit (effects_table db) = 1)))))"

subsection \<open>Settling an effect\<close>

definition completeEffect :: "database \<Rightarrow> string \<Rightarrow> string \<Rightarrow> js_number \<Rightarrow> js_number \<Rightarrow> (database \<times> bool) result" where
  "completeEffect db key owner gen now =
     rthen (assertLeaseIdentity key owner gen now)
       (let hit = (\<lambda>x. idempotencyKey x = key \<and> lease_held x owner (whole gen) (whole now) \<and>
                     executorLeaseIsCurrent db owner (whole gen) (whole now))
        in Inr (update_effect db hit (drop_lease EffDone None (whole now)), changes hit (effects_table db) = 1))"

text \<open>The block of a dead effect, on the tables: the job, its open approvals, the render effect.\<close>

definition blockDeadJob :: "database \<Rightarrow> string \<Rightarrow> string \<Rightarrow> int \<Rightarrow> database" where
  "blockDeadJob db jid err now =
     (case readJobById db jid of
        None \<Rightarrow> db
      | Some j \<Rightarrow>
          (case markJobPermanentFailure j err now of
             None \<Rightarrow> db
           | Some (j', x) \<Rightarrow>
               (let hit = (\<lambda>r. row_id r = jid \<and> version (row_job r) = version j) in
                if changes hit (jobs_table db) \<noteq> 1 then db
                else db\<lparr>jobs_table := update_where hit (\<lambda>r. r\<lparr>row_job := j'\<rparr>) (jobs_table db),
                        approvals_table := update_where (\<lambda>a. approvalJobId a = jid \<and> consumedAt a = None)
                          (\<lambda>a. a\<lparr>consumedAt := Some now, approvalOutcome := Some ''revoked''\<rparr>) (approvals_table db),
                        effects_table := insert_effect (pending_effect x now) (effects_table db)\<rparr>)))"

definition settleDeadEffect :: "database \<Rightarrow> stored_effect \<Rightarrow> string \<Rightarrow> int \<Rightarrow> database" where
  "settleDeadEffect db x err now =
     (if List.member COSMETIC_EFFECT_KINDS (kind x) then db else blockDeadJob db (effectJobId x) err now)"

definition dead_letter :: "database \<Rightarrow> stored_effect \<Rightarrow> string \<Rightarrow> string \<Rightarrow> int \<Rightarrow> string \<Rightarrow> int \<Rightarrow> database \<times> bool" where
  "dead_letter db x key owner gen err now =
     (let hit = (\<lambda>y. idempotencyKey y = key \<and> lease_held y owner gen now);
          db1 = update_effect db hit (drop_lease EffDead (Some err) now)
      in if changes hit (effects_table db) = 1 then (settleDeadEffect db1 x err now, True) else (db1, False))"

definition failEffect ::
  "database \<Rightarrow> string \<Rightarrow> string \<Rightarrow> js_number \<Rightarrow> string \<Rightarrow> js_number \<Rightarrow> js_number \<Rightarrow> (database \<times> bool) result" where
  "failEffect db key owner gen err nextAttempt now =
     rthen (assertLeaseIdentity key owner gen now)
    (rthen (assertSafeFailureSummary err)
    (rthen (assertNoRawMergeCallback err ''effect error'')
    (rthen (assertNonNegativeInteger nextAttempt ''nextAttemptAt'')
       (case effectByKey db key of
          None \<Rightarrow> Inr (db, False)
        | Some x \<Rightarrow>
            if \<not> effectLeaseIsActiveForRow db x owner (whole gen) (whole now) then Inr (db, False)
            else if effAttempts x \<ge> 20 then Inr (dead_letter db x key owner (whole gen) err (whole now))
            else (let hit = (\<lambda>y. idempotencyKey y = key \<and> lease_held y owner (whole gen) (whole now)) in
              Inr (update_effect db hit
                     (\<lambda>y. (drop_lease EffFailed (Some err) (whole now) y)\<lparr>nextAttemptAt := whole nextAttempt\<rparr>),
                   changes hit (effects_table db) = 1))))))"

definition deadLetterEffect ::
  "database \<Rightarrow> string \<Rightarrow> string \<Rightarrow> js_number \<Rightarrow> string \<Rightarrow> js_number \<Rightarrow> (database \<times> bool) result" where
  "deadLetterEffect db key owner gen err now =
     rthen (assertLeaseIdentity key owner gen now)
    (rthen (assertSafeFailureSummary err)
    (rthen (assertNoRawMergeCallback err ''effect error'')
       (case effectByKey db key of
          None \<Rightarrow> Inr (db, False)
        | Some x \<Rightarrow>
            if \<not> effectLeaseIsActiveForRow db x owner (whole gen) (whole now) then Inr (db, False)
            else Inr (dead_letter db x key owner (whole gen) err (whole now)))))"

end
