(* ===== verification/Release.thy ===== *)
theory Release
  imports Effect_Queue
begin

text \<open>
  The claims on repositories and production targets (\<open>src/storage/store.ts\<close>), and the end of a
  job's admission: \<open>beginDraining\<close>, \<open>finalizeRelease\<close>, and the ways back into the queue,
  \<open>requeueReviewAdmission\<close> and \<open>retryFailedJob\<close>.
\<close>

subsection \<open>Merge and production claims\<close>

definition mergeResourceRequirements :: "job \<Rightarrow> (resource_kind \<times> string) list option" where
  "mergeResourceRequirements j =
     (case (policy j, projectId j) of
        (Some p, Some pid) \<Rightarrow>
          if pid = [] \<or> policyProjectId p \<noteq> pid then None else Some (sort_key snd (merge_requirements p))
      | _ \<Rightarrow> None)"

definition admissionJobPolicyIdentityIsValid :: "job_admission \<Rightarrow> job \<Rightarrow> bool" where
  "admissionJobPolicyIdentityIsValid a j \<longleftrightarrow>
     (case (projectId j, policy j) of
        (Some pid, Some p) \<Rightarrow> admProjectId a = pid \<and> policyProjectId p = pid
      | _ \<Rightarrow> False)"

definition claim_current :: "resource_claim \<Rightarrow> string \<Rightarrow> string \<Rightarrow> int \<Rightarrow> int \<Rightarrow> bool" where
  "claim_current c jid owner gen now \<longleftrightarrow> claimJobId c = jid \<and> claimHeld c \<and> claimOwner c = owner \<and>
     claimGeneration c = gen \<and> claimExpiresAt c > now"

definition currentProductionClaimIdInTransaction :: "database \<Rightarrow> job \<Rightarrow> string \<Rightarrow> int \<Rightarrow> int \<Rightarrow> int option" where
  "currentProductionClaimIdInTransaction db j owner gen now =
     (case policy j of
        None \<Rightarrow> None
      | Some p \<Rightarrow>
          if production p = None \<or> projectId j \<noteq> Some (policyProjectId p) then None
          else (case select_ordered (\<lambda>c. claim_current c (job_id j) owner gen now \<and> claimKey c = productionResourceKey p \<and>
                       claimKind c = ProductionTargetResource) claimId 2 (claims_table db) of
                  [c] \<Rightarrow> Some (claimId c)
                | _ \<Rightarrow> None))"

definition productionClaimIsCurrentInTransaction :: "database \<Rightarrow> job \<Rightarrow> string \<Rightarrow> int \<Rightarrow> int \<Rightarrow> bool" where
  "productionClaimIsCurrentInTransaction db j owner gen now \<longleftrightarrow>
     currentProductionClaimIdInTransaction db j owner gen now \<noteq> None"

definition assertProductionStageFence ::
  "database \<Rightarrow> string \<Rightarrow> string \<Rightarrow> string \<Rightarrow> js_number \<Rightarrow> js_number \<Rightarrow> bool result" where
  "assertProductionStageFence db jid key owner gen now =
     rthen (assertNotEmpty owner ''ownerId'')
    (rthen (assertPositiveInteger gen ''generation'')
    (rthen (assertNonNegativeInteger now ''now'')
    (rthen (guard (jid \<noteq> [] \<and> key \<noteq> []) (TypeError ''production stage identity is required''))
       (Inr (executorLeaseIsCurrent db owner (whole gen) (whole now) \<and>
         (case get_where (\<lambda>x. effectJobId x = jid \<and> idempotencyKey x = key) (effects_table db) of
            None \<Rightarrow> False
          | Some x \<Rightarrow>
              (kind x = deploy_production \<or> kind x = verify_production) \<and> lease_held x owner (whole gen) (whole now) \<and>
              (case (readJobById db jid, readAdmission db jid) of
                 (Some j, Some a) \<Rightarrow>
                   admissionJobPolicyIdentityIsValid a j \<and>
                   state j = (if kind x = deploy_production then Deploying else VerifyingProduction) \<and>
                   productionClaimIsCurrentInTransaction db j owner (whole gen) (whole now)
               | _ \<Rightarrow> False)))))))"

definition readHeldMergeClaimsInTransaction :: "database \<Rightarrow> (resource_kind \<times> string) list \<Rightarrow> resource_claim list" where
  "readHeldMergeClaimsInTransaction db reqs =
     select_ordered (\<lambda>c. claimHeld c \<and> List.member (map snd reqs) (claimKey c)) claimKey (length reqs) (claims_table db)"

text \<open>The last row of a key wins in \<open>new Map(rows)\<close>; a held key has one row.\<close>

definition held_by_key :: "resource_claim list \<Rightarrow> string \<Rightarrow> resource_claim option" where
  "held_by_key rows key = get_where (\<lambda>c. claimKey c = key) (rev rows)"

definition claims_belong_to_lease ::
  "job \<Rightarrow> string \<Rightarrow> int \<Rightarrow> int \<Rightarrow> (resource_kind \<times> string) list \<Rightarrow> resource_claim list \<Rightarrow> bool" where
  "claims_belong_to_lease j owner gen now reqs rows \<longleftrightarrow>
     list_all (\<lambda>(k, key). case held_by_key rows key of
        None \<Rightarrow> True
      | Some c \<Rightarrow> claim_current c (job_id j) owner gen now \<and> claimKind c = k) reqs"

fun insertMissingMergeClaims ::
  "database \<Rightarrow> job \<Rightarrow> string \<Rightarrow> int \<Rightarrow> int \<Rightarrow> int \<Rightarrow> resource_claim list \<Rightarrow> (resource_kind \<times> string) list \<Rightarrow> database result" where
  "insertMissingMergeClaims db j owner gen now leaseMs rows [] = Inr db"
| "insertMissingMergeClaims db j owner gen now leaseMs rows ((k, key) # reqs) =
     (if held_by_key rows key \<noteq> None then insertMissingMergeClaims db j owner gen now leaseMs rows reqs
      else rbind (insertHeldClaim db (job_id j) key k owner gen now leaseMs)
             (\<lambda>db'. insertMissingMergeClaims db' j owner gen now leaseMs rows reqs))"

text \<open>
  The claims part of \<open>acquireMergeResourceClaimsInTransaction\<close>; \<open>None\<close> is the
  \<open>MergeClaimConflictError\<close> that rolls the lease back.
\<close>

definition acquireMergeClaims :: "database \<Rightarrow> job \<Rightarrow> string \<Rightarrow> int \<Rightarrow> int \<Rightarrow> int \<Rightarrow> database option result" where
  "acquireMergeClaims db j owner gen now leaseMs =
     (case mergeResourceRequirements j of
        None \<Rightarrow> Inr None
      | Some reqs \<Rightarrow>
          (let rows = readHeldMergeClaimsInTransaction db reqs in
           if \<not> claims_belong_to_lease j owner gen now reqs rows then Inr None
           else case insertMissingMergeClaims db j owner gen now leaseMs rows reqs of
                  Inl SqliteConstraintUnique \<Rightarrow> Inr None
                | Inl e \<Rightarrow> Inl e
                | Inr db' \<Rightarrow> Inr (Some db')))"

definition mergeClaimsAreCurrentInTransaction :: "database \<Rightarrow> job \<Rightarrow> string \<Rightarrow> int \<Rightarrow> int \<Rightarrow> bool" where
  "mergeClaimsAreCurrentInTransaction db j owner gen now \<longleftrightarrow>
     (case mergeResourceRequirements j of
        None \<Rightarrow> False
      | Some reqs \<Rightarrow>
          (let rows = select_ordered (\<lambda>c. claim_current c (job_id j) owner gen now \<and> List.member (map snd reqs) (claimKey c))
                        claimKey (length reqs) (claims_table db)
           in list_all (\<lambda>(k, key). case held_by_key rows key of None \<Rightarrow> False | Some c \<Rightarrow> claimKind c = k) reqs))"

definition release_claim :: "int \<Rightarrow> string \<Rightarrow> resource_claim \<Rightarrow> resource_claim" where
  "release_claim now reason c =
     c\<lparr>claimHeld := False, claimExpiresAt := 0, claimReleasedAt := Some now, claimReleaseReason := Some reason\<rparr>"

definition settleResourceClaimsInTransaction ::
  "database \<Rightarrow> string \<Rightarrow> string \<Rightarrow> int \<Rightarrow> int \<Rightarrow> string \<Rightarrow> resource_kind list \<Rightarrow> database" where
  "settleResourceClaimsInTransaction db jid owner gen now reason kinds =
     (if kinds = [] then db
      else db\<lparr>claims_table := update_where
            (\<lambda>c. claimJobId c = jid \<and> claimHeld c \<and> claimOwner c = owner \<and> claimGeneration c = gen \<and>
                 List.member kinds (claimKind c))
            (release_claim now reason) (claims_table db)\<rparr>)"

subsection \<open>The end of an admission\<close>

definition assertExecutorFence :: "string \<Rightarrow> js_number \<Rightarrow> js_number \<Rightarrow> unit result" where
  "assertExecutorFence owner gen now =
     rthen (assertNotEmpty owner ''ownerId'')
    (rthen (assertPositiveInteger gen ''generation'') (assertNonNegativeInteger now ''now''))"

definition queued_cancellation :: "job_admission option \<Rightarrow> job \<Rightarrow> bool" where
  "queued_cancellation a j \<longleftrightarrow>
     (case a of None \<Rightarrow> False | Some b \<Rightarrow> admState b = Queued) \<and> cancelRequestedAt j \<noteq> None"

definition beginDraining ::
  "database \<Rightarrow> string \<Rightarrow> string \<Rightarrow> js_number \<Rightarrow> js_number \<Rightarrow> (database \<times> job option) result" where
  "beginDraining db jid owner gen now =
     rthen (assertExecutorFence owner gen now)
    (rthen (assertNotEmpty jid ''jobId'')
       (if \<not> executorLeaseIsCurrent db owner (whole gen) (whole now) then Inr (db, None)
        else case readJobById db jid of
          None \<Rightarrow> Inr (db, None)
        | Some j \<Rightarrow>
            if \<not> isReleaseCandidate (state j) \<and> \<not> queued_cancellation (readAdmission db jid) j then Inr (db, None)
            else rbind (markDrainingInTransaction db jid now) (\<lambda>(db', _). Inr (db', Some j))))"

text \<open>\<open>ORDER BY observed_at DESC, resource_id ASC LIMIT 1\<close>: the worker seen last.\<close>

definition getWorkerLiveness :: "database \<Rightarrow> string \<Rightarrow> worker_liveness option" where
  "getWorkerLiveness db jid =
     (case select_ordered (\<lambda>w. workerJobId w = jid) (\<lambda>w. (- observedAt w, resourceId w)) 1 (workers_table db) of
        [] \<Rightarrow> None
      | w # _ \<Rightarrow> Some w)"

datatype release_wait = WorkerActive | WorkerUnknown | SafeCleanup | UnresolvedEffect
datatype release_result = ReleaseDone job_admission | ReleaseWaiting release_wait

definition unsettled_control :: "string \<Rightarrow> stored_effect \<Rightarrow> bool" where
  "unsettled_control jid x \<longleftrightarrow> effectJobId x = jid \<and> isSafeControlEffect (kind x) \<and>
     effStatus x \<noteq> EffDone \<and> effStatus x \<noteq> EffDead"

definition lease_live :: "stored_effect \<Rightarrow> int \<Rightarrow> bool" where
  "lease_live x now \<longleftrightarrow> effStatus x = EffLeased \<and> (case leaseExpiresAt x of None \<Rightarrow> False | Some t \<Rightarrow> t > now)"

definition unresolved_effect :: "string \<Rightarrow> int \<Rightarrow> stored_effect \<Rightarrow> bool" where
  "unresolved_effect jid now x \<longleftrightarrow> effectJobId x = jid \<and>
     (kind x = merge_pr \<or> kind x = deploy_production \<or> kind x = verify_production) \<and>
     (effStatus x = EffPending \<or> effStatus x = EffFailed \<or> lease_live x now)"

definition superseded :: "string \<Rightarrow> int \<Rightarrow> stored_effect \<Rightarrow> bool" where
  "superseded jid now x \<longleftrightarrow> effectJobId x = jid \<and> \<not> isSafeControlEffect (kind x) \<and>
     (effStatus x = EffPending \<or> effStatus x = EffFailed \<or>
      (effStatus x = EffLeased \<and> (case leaseExpiresAt x of None \<Rightarrow> False | Some t \<Rightarrow> t \<le> now)))"

definition release_now :: "database \<Rightarrow> string \<Rightarrow> js_number \<Rightarrow> (database \<times> release_result option) result" where
  "release_now db jid now =
     rbind (markDrainingInTransaction db jid now) (\<lambda>(db1, _).
       (let db2 = update_effect db1 (superseded jid (whole now))
                    (drop_lease EffDone (Some ''superseded:job_released'') (whole now));
            db3 = db2\<lparr>claims_table := update_where (\<lambda>c. claimJobId c = jid \<and> claimHeld c)
                    (release_claim (whole now) ''job_released'') (claims_table db2)\<rparr>
        in rbind (releaseInTransaction db3 jid now ''job_released'') (\<lambda>(db4, released).
             Inr (db4, map_option ReleaseDone released))))"

definition finalizeRelease ::
  "js_runtime \<Rightarrow> js_web \<Rightarrow> database \<Rightarrow> string \<Rightarrow> string \<Rightarrow> js_number \<Rightarrow> js_number \<Rightarrow> (database \<times> release_result option) result" where
  "finalizeRelease rt web db jid owner gen now =
     rthen (assertExecutorFence owner gen now)
    (rthen (assertNotEmpty jid ''jobId'')
       (if \<not> executorLeaseIsCurrent db owner (whole gen) (whole now) then Inr (db, None)
        else case (readJobById db jid, readAdmission db jid) of
          (Some j, Some a) \<Rightarrow>
            if admState a = Released then Inr (db, Some (ReleaseDone a))
            else if \<not> isReleaseCandidate (state j) \<and> \<not> queued_cancellation (Some a) j then Inr (db, None)
            else (let w = getWorkerLiveness db jid in
              if (case w of None \<Rightarrow> False | Some v \<Rightarrow> List.member [WActive, WStarting, WStopping] (workerState v))
              then Inr (db, Some (ReleaseWaiting WorkerActive))
              else if (case w of None \<Rightarrow> False | Some v \<Rightarrow> List.member [WUnknown, WStale] (workerState v))
              then Inr (db, Some (ReleaseWaiting WorkerUnknown))
              else if list_ex (unsettled_control jid) (effects_table db) then Inr (db, Some (ReleaseWaiting SafeCleanup))
              else if list_ex (unresolved_effect jid (whole now)) (effects_table db)
              then Inr (db, Some (ReleaseWaiting UnresolvedEffect))
              else if queued_cancellation (Some a) j \<and> state j \<noteq> Cancelled
              then rbind (transition rt j CANCEL_CONFIRMED (whole now)) (\<lambda>(j', es).
                   rbind (persistJobTransition web db jid (version j) j') (\<lambda>db1.
                   rbind (persistPendingEffects web db1 es (whole now)) (\<lambda>db2.
                     Inr (db2, Some (ReleaseWaiting SafeCleanup)))))
              else release_now db jid now)
        | _ \<Rightarrow> Inr (db, None)))"

subsection \<open>Back into the queue\<close>

datatype review_admission_result =
  ReviewQueued job_admission | ReviewAlreadyQueued job_admission | ReviewCleaningUp job_admission | ReviewUnavailable

definition requeueReviewAdmission ::
  "database \<Rightarrow> string \<Rightarrow> js_number \<Rightarrow> js_number \<Rightarrow> (database \<times> review_admission_result) result" where
  "requeueReviewAdmission db jid expectedVersion now =
     rthen (assertNotEmpty jid ''jobId'')
    (rthen (assertPositiveInteger expectedVersion ''expectedVersion'')
    (rthen (assertNonNegativeInteger now ''now'')
       (case (readJobById db jid, readAdmission db jid) of
          (Some j, Some a) \<Rightarrow>
            if version j \<noteq> whole expectedVersion \<or> state j \<noteq> Blocked \<or>
               (blockedReason j \<noteq> Some ReviewLimit \<and> blockedReason j \<noteq> Some PlanLimit \<and>
                \<not> isReviewedPrCompletionBlock j \<and> \<not> isResumableConfigurationBlock j)
            then Inr (db, ReviewUnavailable)
            else if projectId j \<noteq> Some (admProjectId a) \<or>
               (case policy j of None \<Rightarrow> True | Some p \<Rightarrow> policyProjectId p \<noteq> admProjectId a)
            then Inr (db, ReviewUnavailable)
            else (case admState a of
                Draining \<Rightarrow> Inr (db, ReviewCleaningUp a)
              | Queued \<Rightarrow> Inr (db, if admResumeEvent a = ResumeContinue then ReviewAlreadyQueued a else ReviewUnavailable)
              | Admitted \<Rightarrow> Inr (db, ReviewUnavailable)
              | Released \<Rightarrow>
                  (case requeueAdmission db \<lparr>writeJobId = jid, writeVersion = expectedVersion,
                           writeProjectId = admProjectId a, writeResumeEvent = ResumeContinue, writeNow = now\<rparr> of
                     Inl (AutonomyAdmissionConflictError _ _) \<Rightarrow> Inr (db, ReviewUnavailable)
                   | Inl e \<Rightarrow> Inl e
                   | Inr (db', b) \<Rightarrow> Inr (db', ReviewQueued b)))
        | _ \<Rightarrow> Inr (db, ReviewUnavailable))))"

end
