(* ===== verification/Admission_Lemmas.thy ===== *)
theory Admission_Lemmas
  imports Release
begin

text \<open>
  What the transactions of the admission tables, the claims and the effect queue do to the
  database, and the invariant of its tables that each of them keeps.
\<close>

subsection \<open>The invariant of the tables\<close>

definition effects_ok :: "database \<Rightarrow> bool" where
  "effects_ok db \<longleftrightarrow> unique_key idempotencyKey (effects_table db)"

definition admissions_ok :: "database \<Rightarrow> bool" where
  "admissions_ok db \<longleftrightarrow> unique_key admJobId (admissions_table db) \<and> unique_key queueSeq (admissions_table db) \<and>
     (\<forall>a \<in> set (admissions_table db). 1 \<le> queueSeq a \<and> queueSeq a < nextQueueSeq db) \<and> 1 \<le> nextQueueSeq db"

definition claims_ok :: "database \<Rightarrow> bool" where
  "claims_ok db \<longleftrightarrow> unique_key claimId (claims_table db) \<and> unique_key claimKey (filter claimHeld (claims_table db)) \<and>
     (\<forall>c \<in> set (claims_table db). claimId c < nextClaimId db)"

definition holds_project :: "resource_claim list \<Rightarrow> job_admission \<Rightarrow> bool" where
  "holds_project t a \<longleftrightarrow> (\<exists>c \<in> set t. claimHeld c \<and> claimKind c = ProjectResource \<and>
     claimKey c = projectResourceKey (admProjectId a) \<and> claimJobId c = admJobId a)"

definition occupied_ok :: "database \<Rightarrow> bool" where
  "occupied_ok db \<longleftrightarrow> (\<forall>a \<in> set (admissions_table db). occupied a \<longrightarrow> holds_project (claims_table db) a) \<and>
     changes occupied (admissions_table db) \<le> 8"

definition db_ok :: "database \<Rightarrow> bool" where
  "db_ok db \<longleftrightarrow> jobs_ok db \<and> effects_ok db \<and> admissions_ok db \<and> claims_ok db \<and> occupied_ok db"

lemmas db_ok_defs = db_ok_def jobs_ok_def effects_ok_def admissions_ok_def claims_ok_def occupied_ok_def

lemma projectResourceKey_inject [simp]: "projectResourceKey p = projectResourceKey q \<longleftrightarrow> p = q"
  by (simp add: projectResourceKey_def)

text \<open>The three kinds of resources have disjoint keys.\<close>

lemma resource_keys_differ:
  "projectResourceKey p \<noteq> repositoryMergeResourceKey r" "projectResourceKey p \<noteq> productionResourceKey q"
  "repositoryMergeResourceKey r \<noteq> productionResourceKey q"
  by (simp_all add: projectResourceKey_def repositoryMergeResourceKey_def productionResourceKey_def)

lemma held_unique:
  assumes "claims_ok db" "c \<in> set (claims_table db)" "d \<in> set (claims_table db)" "claimHeld c" "claimHeld d" "claimKey c = claimKey d"
  shows "c = d"
  using assms unique_eqI [of claimKey "filter claimHeld (claims_table db)" c d] by (simp add: claims_ok_def)

text \<open>Two occupied admissions are of two projects.\<close>

lemma one_occupied_per_project:
  assumes "db_ok db" "a \<in> set (admissions_table db)" "b \<in> set (admissions_table db)" "occupied a" "occupied b"
    "admProjectId a = admProjectId b"
  shows "a = b"
proof -
  from assms obtain c where c: "c \<in> set (claims_table db)" "claimHeld c"
      "claimKey c = projectResourceKey (admProjectId a)" "claimJobId c = admJobId a"
    by (auto simp: db_ok_def occupied_ok_def holds_project_def)
  from assms obtain d where d: "d \<in> set (claims_table db)" "claimHeld d"
      "claimKey d = projectResourceKey (admProjectId b)" "claimJobId d = admJobId b"
    by (auto simp: db_ok_def occupied_ok_def holds_project_def)
  have "c = d" using held_unique [of db c d] assms(1,6) c d by (simp add: db_ok_def)
  with c d have "admJobId a = admJobId b" by simp
  with assms(1-3) show ?thesis using unique_eqI [of admJobId "admissions_table db" a b] by (simp add: db_ok_def admissions_ok_def)
qed

subsection \<open>Admissions\<close>

lemma readAdmission_Some:
  "admissions_ok db \<Longrightarrow> readAdmission db jid = Some a \<longleftrightarrow> a \<in> set (admissions_table db) \<and> admJobId a = jid"
  by (simp add: readAdmission_def admissions_ok_def get_unique)

lemma readAdmission_None: "readAdmission db jid = None \<longleftrightarrow> (\<forall>a \<in> set (admissions_table db). admJobId a \<noteq> jid)"
  by (simp add: readAdmission_def get_where_None)

lemma readAdmission_id: "readAdmission db jid = Some a \<Longrightarrow> a \<in> set (admissions_table db) \<and> admJobId a = jid"
  unfolding readAdmission_def by (rule get_where_Some)

lemma queued_admission_simps [simp]:
  "admJobId (queued_admission i n) = writeJobId i" "queueSeq (queued_admission i n) = n"
  "admState (queued_admission i n) = Queued" "admProjectId (queued_admission i n) = writeProjectId i"
  by (simp_all add: queued_admission_def)

lemma allocateQueueSequence_ok: "allocateQueueSequence db = Inr (db', n) \<Longrightarrow> n = nextQueueSeq db \<and> db' = db\<lparr>nextQueueSeq := n + 1\<rparr>"
  by (auto simp: allocateQueueSequence_def readSequence_def rbind_eq_Inr rthen_eq_Inr)

text \<open>What queueing does: nothing to a live admission, else one queued admission with the next number.\<close>

lemma queueAdmission_cases:
  assumes "queueAdmissionInTransaction db i mode = Inr (db', a)"
  obtains
    (replayed) b where "readAdmission db (writeJobId i) = Some b" "admState b \<noteq> Released" "a = b" "db' = db"
      "admProjectId b = writeProjectId i" "admResumeEvent b = writeResumeEvent i"
  | (replaced) b where "readAdmission db (writeJobId i) = Some b" "admState b = Released" "a = queued_admission i (nextQueueSeq db)"
      "db' = db\<lparr>nextQueueSeq := nextQueueSeq db + 1, admissions_table := update_where (\<lambda>a. admJobId a = writeJobId i \<and> admState a = Released)
         (\<lambda>_. queued_admission i (nextQueueSeq db)) (admissions_table db)\<rparr>"
  | (inserted) "readAdmission db (writeJobId i) = None" "mode = QueueMode" "a = queued_admission i (nextQueueSeq db)"
      "db' = db\<lparr>nextQueueSeq := nextQueueSeq db + 1, admissions_table := admissions_table db @ [queued_admission i (nextQueueSeq db)]\<rparr>"
proof -
  from assms have "persistQueuedAdmission db i mode = Inr (db', a)"
    by (simp add: queueAdmissionInTransaction_def rthen_eq_Inr)
  then show thesis
    using replayed replaced inserted
    by (cases mode)
      (auto simp: persistQueuedAdmission_def rthen_eq_Inr rbind_eq_Inr assertReplayIdentity_def
        replaceReleasedAdmission_def insertQueuedAdmission_def Let_def dest!: allocateQueueSequence_ok
        split: option.splits if_splits)
qed

lemma update_hit_unique:
  assumes "unique_key k t" "\<And>r. p r \<Longrightarrow> k r = v" "k x = v"
  shows "unique_key k (update_where p (\<lambda>_. x) t)"
proof -
  have "map k (update_where p (\<lambda>_. x) t) = map k t"
    using assms(2,3) by (auto simp: update_where_def)
  with assms(1) show ?thesis by (simp add: unique_key_def)
qed

lemma queueAdmission_ok:
  assumes "queueAdmissionInTransaction db i mode = Inr (db', a)" "db_ok db"
  shows "db_ok db'"
  using assms(1)
proof (cases rule: queueAdmission_cases)
  case replayed
  with assms(2) show ?thesis by simp
next
  case (replaced b)
  let ?p = "\<lambda>a. admJobId a = writeJobId i \<and> admState a = Released"
  let ?t = "update_where ?p (\<lambda>_. queued_admission i (nextQueueSeq db)) (admissions_table db)"
  from assms(2) have ok: "admissions_ok db" "occupied_ok db" by (simp_all add: db_ok_def)
  have fresh: "nextQueueSeq db \<notin> queueSeq ` set (admissions_table db)"
    using ok(1) by (auto simp: admissions_ok_def)
  have "unique_key admJobId ?t" by (rule update_hit_unique [where v = "writeJobId i"]) (use ok(1) in \<open>auto simp: admissions_ok_def\<close>)
  moreover have "unique_key queueSeq ?t"
    by (rule unique_update_fresh [where j = admJobId and v = "writeJobId i" and n = "nextQueueSeq db"])
      (use ok(1) fresh in \<open>auto simp: admissions_ok_def\<close>)
  ultimately have "admissions_ok db'" using ok(1) replaced(4) by (force simp: admissions_ok_def set_update_where)
  moreover have "filter occupied ?t = filter occupied (admissions_table db)"
    by (rule filter_update_outside) (simp add: occupied_def)
  then have "occupied_ok db'" using ok(2) replaced(4)
    by (auto simp: occupied_ok_def changes_def set_update_where occupied_def)
  ultimately show ?thesis using assms(2) replaced(4) by (simp add: db_ok_defs)
next
  case inserted
  from assms(2) have ok: "admissions_ok db" "occupied_ok db" by (simp_all add: db_ok_def)
  have "\<forall>a \<in> set (admissions_table db). admJobId a \<noteq> writeJobId i" using inserted(1) by (simp add: readAdmission_None)
  then have "admissions_ok db'" using ok(1) inserted(4) by (force simp: admissions_ok_def unique_append)
  moreover have "occupied_ok db'" using ok(2) inserted(4)
    by (auto simp: occupied_ok_def changes_def occupied_def)
  ultimately show ?thesis using assms(2) inserted(4) by (simp add: db_ok_defs)
qed

subsection \<open>Admitting\<close>

lemma insertHeldClaim_ok:
  "insertHeldClaim db jid key k owner gen now ms = Inr db' \<Longrightarrow>
   (\<forall>c \<in> set (claims_table db). claimHeld c \<longrightarrow> claimKey c \<noteq> key) \<and>
   db' = db\<lparr>claims_table := claims_table db @ [held_claim (nextClaimId db) jid key k owner gen now ms],
           nextClaimId := nextClaimId db + 1\<rparr>"
  by (auto simp: insertHeldClaim_def split: if_splits)

lemma insertHeldClaim_error:
  "insertHeldClaim db jid key k owner gen now ms = Inl e \<Longrightarrow> e = SqliteConstraintUnique \<or> e = SqliteConstraintCheck"
  by (auto simp: insertHeldClaim_def split: if_splits)

lemma held_claim_simps [simp]:
  "claimId (held_claim n jid key k ow g t ms) = n" "claimJobId (held_claim n jid key k ow g t ms) = jid"
  "claimKey (held_claim n jid key k ow g t ms) = key" "claimKind (held_claim n jid key k ow g t ms) = k"
  "claimHeld (held_claim n jid key k ow g t ms)" "claimOwner (held_claim n jid key k ow g t ms) = ow"
  "claimGeneration (held_claim n jid key k ow g t ms) = g" "claimExpiresAt (held_claim n jid key k ow g t ms) = t + ms"
  by (simp_all add: held_claim_def)

lemma claims_ok_insert:
  assumes "insertHeldClaim db jid key k owner gen now ms = Inr db'" "claims_ok db"
  shows "claims_ok db'"
  using insertHeldClaim_ok [OF assms(1)] assms(2)
  by (force simp: claims_ok_def unique_append)

text \<open>The admission of a job: what was true before, and the database after.\<close>

definition admit_hit :: "job_admission \<Rightarrow> job_admission \<Rightarrow> bool" where
  "admit_hit a b \<longleftrightarrow> admJobId b = admJobId a \<and> admState b = Queued \<and> admProjectId b = admProjectId a"

lemma persistJobTransition_fields:
  assumes "persistJobTransition web db jid v j = Inr db'"
  shows "\<exists>t. db' = db\<lparr>jobs_table := t\<rparr>"
  using persistJobTransition_ok [OF assms] by blast

inductive admitted ::
  "js_runtime \<Rightarrow> js_web \<Rightarrow> database \<Rightarrow> admission_attempt_input \<Rightarrow> job_admission \<Rightarrow> job \<Rightarrow> job_event \<Rightarrow> job \<Rightarrow> database \<Rightarrow> bool" where
  "executorLeaseIsCurrent db (attemptOwner i) (whole (attemptGeneration i)) (whole (attemptNow i)) \<Longrightarrow>
   readAdmission db (attemptJobId i) = Some a \<Longrightarrow> admState a = Queued \<Longrightarrow>
   readJobById db (attemptJobId i) = Some j \<Longrightarrow> admission_identity j a \<Longrightarrow> cancelRequestedAt j = None \<Longrightarrow>
   resumeEventForAdmission j (admResumeEvent a) = Some e \<Longrightarrow>
   countOccupiedAdmissions db < whole (maxConcurrentJobs i) \<Longrightarrow> whole (maxConcurrentJobs i) \<le> 8 \<Longrightarrow>
   insertHeldClaim db (attemptJobId i) (projectResourceKey (admProjectId a)) ProjectResource (attemptOwner i)
     (whole (attemptGeneration i)) (whole (attemptNow i)) (whole (attemptLeaseMs i)) = Inr db1 \<Longrightarrow>
   db2 = db1\<lparr>admissions_table := update_where (admit_hit a)
     (\<lambda>b. b\<lparr>admState := Admitted, admittedAt := Some (whole (attemptNow i))\<rparr>) (admissions_table db)\<rparr> \<Longrightarrow>
   changes (admit_hit a) (admissions_table db) = 1 \<Longrightarrow>
   transition rt j e (whole (attemptNow i)) = Inr (j', es) \<Longrightarrow>
   persistJobTransition web db2 (job_id j) (version j) j' = Inr db3 \<Longrightarrow>
   db' = db3\<lparr>effects_table := store_pending (whole (attemptNow i)) (effects_table db) es\<rparr> \<Longrightarrow>
   admitted rt web db i a j e j' db'"

lemma tryAdmit_rejected: "tryAdmit rt web db i = Inr (db', NotAdmitted r) \<Longrightarrow> db' = db"
  by (auto simp: tryAdmit_def tryAdmitInTransaction_def Let_def rthen_eq_Inr rbind_eq_Inr
      split: if_splits option.splits sum.splits error.splits)

lemma tryAdmitInTransaction_admitted:
  assumes "tryAdmitInTransaction rt web db i = Inr (db', AttemptAdmitted j' a' c)" "whole (maxConcurrentJobs i) \<le> 8"
  shows "\<exists>a j e. admitted rt web db i a j e j' db' \<and> readAdmission db' (attemptJobId i) = Some a' \<and>
    readHeldProjectClaim db' (projectResourceKey (admProjectId a)) = Some c"
proof -
  from assms(1) obtain a j e db1 where pre:
      "executorLeaseIsCurrent db (attemptOwner i) (whole (attemptGeneration i)) (whole (attemptNow i))"
      "readAdmission db (attemptJobId i) = Some a" "admState a = Queued" "readJobById db (attemptJobId i) = Some j"
      "admission_identity j a" "cancelRequestedAt j = None" "resumeEventForAdmission j (admResumeEvent a) = Some e"
      "countOccupiedAdmissions db < whole (maxConcurrentJobs i)"
      "insertHeldClaim db (attemptJobId i) (projectResourceKey (admProjectId a)) ProjectResource (attemptOwner i)
         (whole (attemptGeneration i)) (whole (attemptNow i)) (whole (attemptLeaseMs i)) = Inr db1"
    by (fastforce simp: tryAdmitInTransaction_def Let_def split: if_splits option.splits sum.splits error.splits)
  have id: "admJobId a = attemptJobId i" using readAdmission_id [OF pre(2)] by simp
  from insertHeldClaim_ok [OF pre(9)] have db1: "admissions_table db1 = admissions_table db" "effects_table db1 = effects_table db"
    by simp_all
  have hit: "(\<lambda>b. admJobId b = attemptJobId i \<and> admState b = Queued \<and> admProjectId b = admProjectId a) = admit_hit a"
    by (auto simp: admit_hit_def id)
  from assms(1) pre obtain es db3 db4 where post:
      "changes (admit_hit a) (admissions_table db) = 1" "transition rt j e (whole (attemptNow i)) = Inr (j', es)"
      "persistJobTransition web (db1\<lparr>admissions_table := update_where (admit_hit a)
         (\<lambda>b. b\<lparr>admState := Admitted, admittedAt := Some (whole (attemptNow i))\<rparr>) (admissions_table db)\<rparr>) (job_id j) (version j) j' = Inr db3"
      "persistPendingEffects web db3 es (whole (attemptNow i)) = Inr db4" "db' = db4"
      "readAdmission db4 (attemptJobId i) = Some a'" "readHeldProjectClaim db4 (projectResourceKey (admProjectId a)) = Some c"
    by (auto simp: tryAdmitInTransaction_def Let_def rbind_eq_Inr hit db1 split: if_splits option.splits)
  from persistJobTransition_fields [OF post(3)] db1 have "effects_table db3 = effects_table db" by auto
  with persistPendingEffects_ok [OF post(4)] post(5)
  have "db' = db3\<lparr>effects_table := store_pending (whole (attemptNow i)) (effects_table db) es\<rparr>" by simp
  from admitted.intros [OF pre(1-8) assms(2) pre(9) refl post(1,2,3) this] post(5-7) show ?thesis by blast
qed

lemma tryAdmit_admitted:
  assumes "tryAdmit rt web db i = Inr (db', AttemptAdmitted j' a' c)"
  shows "\<exists>a j e. admitted rt web db i a j e j' db' \<and> readAdmission db' (attemptJobId i) = Some a' \<and>
    readHeldProjectClaim db' (projectResourceKey (admProjectId a)) = Some c"
proof -
  from assms have "whole (maxConcurrentJobs i) \<le> 8"
    by (auto simp: tryAdmit_def rthen_eq_Inr assertAdmissionAttemptInput_def assertMaxConcurrentJobs_def MAX_CONCURRENT_JOBS_def)
  moreover from assms have "tryAdmitInTransaction rt web db i = Inr (db', AttemptAdmitted j' a' c)"
    by (auto simp: tryAdmit_def rthen_eq_Inr split: sum.splits error.splits)
  ultimately show ?thesis by (rule tryAdmitInTransaction_admitted [rotated])
qed

lemma holds_project_append: "holds_project t a \<Longrightarrow> holds_project (t @ u) a"
  by (auto simp: holds_project_def)

lemma admitted_ok:
  assumes "admitted rt web db i a j e j' db'" "db_ok db"
  shows "db_ok db'"
  using assms(1)
proof cases
  case (1 db1 db2 es db3)
  let ?hit = "admit_hit a" and ?f = "\<lambda>b. b\<lparr>admState := Admitted, admittedAt := Some (whole (attemptNow i))\<rparr>"
  note claim = insertHeldClaim_ok [OF 1(10)]
  let ?c = "held_claim (nextClaimId db) (attemptJobId i) (projectResourceKey (admProjectId a)) ProjectResource (attemptOwner i)
     (whole (attemptGeneration i)) (whole (attemptNow i)) (whole (attemptLeaseMs i))"
  from persistJobTransition_fields [OF 1(14)] obtain jt where db3: "db3 = db2\<lparr>jobs_table := jt\<rparr>" by blast
  have fields: "admissions_table db' = update_where ?hit ?f (admissions_table db)" "claims_table db' = claims_table db @ [?c]"
      "nextClaimId db' = nextClaimId db + 1" "nextQueueSeq db' = nextQueueSeq db" "jobs_table db' = jobs_table db3"
      "effects_table db' = store_pending (whole (attemptNow i)) (effects_table db) es"
    using 1(11,15) claim db3 by simp_all
  have ok: "jobs_ok db" "effects_ok db" "admissions_ok db" "claims_ok db" "occupied_ok db" using assms(2) by (simp_all add: db_ok_def)
  have "jobs_ok db2" using ok(1) 1(11) claim by (simp add: jobs_ok_def)
  then have jobs: "jobs_ok db'" using persistJobTransition_jobs_ok [OF 1(14)] fields(5) by (simp add: jobs_ok_def)
  have effects: "effects_ok db'" using ok(2) fields(6) store_pending_unique by (simp add: effects_ok_def)
  have adm: "admissions_ok db'"
    using ok(3) fields(1,4) by (auto simp: admissions_ok_def set_update_where intro: unique_update_where)
  have claims: "claims_ok db'" using claims_ok_insert [OF 1(10) ok(4)] claim fields(2,3) by (simp add: claims_ok_def)
  have id: "admJobId a = attemptJobId i" using readAdmission_id [OF 1(2)] by simp
  have "holds_project (claims_table db') b" if "b \<in> set (admissions_table db')" "occupied b" for b
  proof -
    from that(1) obtain b0 where b0: "b0 \<in> set (admissions_table db)" "b = (if ?hit b0 then ?f b0 else b0)"
      by (auto simp: fields(1) set_update_where)
    show ?thesis
    proof (cases "?hit b0")
      case True
      then have "admJobId b = attemptJobId i" "admProjectId b = admProjectId a" using b0(2) by (simp_all add: admit_hit_def id)
      then show ?thesis by (auto simp: holds_project_def fields(2))
    next
      case False
      then have "holds_project (claims_table db) b" using b0 that(2) ok(5) by (simp add: occupied_ok_def)
      then show ?thesis unfolding fields(2) by (rule holds_project_append)
    qed
  qed
  moreover have "changes occupied (admissions_table db') \<le> 8"
  proof -
    have "changes occupied (admissions_table db') \<le> changes occupied (admissions_table db) + 1"
      unfolding fields(1) by (rule changes_update_enter) (use 1(12) in \<open>auto simp: admit_hit_def occupied_def\<close>)
    with 1(8,9) show ?thesis by (simp add: countOccupiedAdmissions_def)
  qed
  ultimately have "occupied_ok db'" by (simp add: occupied_ok_def)
  with jobs effects adm claims show ?thesis by (simp add: db_ok_def)
qed

lemma tryAdmit_ok:
  assumes "tryAdmit rt web db i = Inr (db', r)" "db_ok db"
  shows "db_ok db'"
proof (cases r)
  case (AttemptAdmitted j' a' c)
  with assms(1) have "tryAdmit rt web db i = Inr (db', AttemptAdmitted j' a' c)" by simp
  from tryAdmit_admitted [OF this] admitted_ok [OF _ assms(2)] show ?thesis by blast
next
  case (NotAdmitted x)
  with assms show ?thesis using tryAdmit_rejected [of rt web db i db' x] by simp
qed

subsection \<open>Draining, releasing, adopting\<close>

lemma update_admission_ok:
  assumes "db_ok db" "\<And>b. admJobId (f b) = admJobId b \<and> queueSeq (f b) = queueSeq b \<and> admProjectId (f b) = admProjectId b"
    "\<And>b. p b \<Longrightarrow> occupied (f b) \<Longrightarrow> occupied b"
  shows "db_ok (db\<lparr>admissions_table := update_where p f (admissions_table db)\<rparr>)"
proof -
  have ok: "admissions_ok db" "occupied_ok db" using assms(1) by (simp_all add: db_ok_def)
  have "admissions_ok (db\<lparr>admissions_table := update_where p f (admissions_table db)\<rparr>)"
    using ok(1) assms(2) by (auto simp: admissions_ok_def set_update_where intro: unique_update_where)
  moreover have "holds_project (claims_table db) (f b) = holds_project (claims_table db) b" for b
    by (simp add: holds_project_def assms(2))
  then have "occupied_ok (db\<lparr>admissions_table := update_where p f (admissions_table db)\<rparr>)"
    using ok(2) assms(3) changes_update_mono [of "admissions_table db" p occupied f]
    by (fastforce simp: occupied_ok_def set_update_where split: if_splits)
  ultimately show ?thesis using assms(1) by (simp add: db_ok_defs)
qed

lemma markDraining_cases:
  assumes "markDrainingInTransaction db jid now = Inr (db', r)"
  shows "db' = db \<and> r = readAdmission db jid \<or>
    (\<exists>a. readAdmission db jid = Some a \<and> admState a = Admitted \<and>
       db' = db\<lparr>admissions_table := update_where (\<lambda>b. admJobId b = jid \<and> admState b = Admitted)
         (\<lambda>b. b\<lparr>admState := Draining, drainingAt := Some (whole now)\<rparr>) (admissions_table db)\<rparr>)"
  using assms by (auto simp: markDrainingInTransaction_def rthen_eq_Inr Let_def split: option.splits if_splits)

lemma markDraining_ok:
  assumes "markDrainingInTransaction db jid now = Inr (db', r)" "db_ok db"
  shows "db_ok db'"
  using markDraining_cases [OF assms(1)]
proof (elim disjE exE conjE)
  assume "db' = db" with assms(2) show ?thesis by simp
next
  fix a
  assume "db' = db\<lparr>admissions_table := update_where (\<lambda>b. admJobId b = jid \<and> admState b = Admitted)
         (\<lambda>b. b\<lparr>admState := Draining, drainingAt := Some (whole now)\<rparr>) (admissions_table db)\<rparr>"
  then show ?thesis by (simp only:) (rule update_admission_ok [OF assms(2)]; simp add: occupied_def)
qed

lemma releaseInTransaction_cases:
  assumes "releaseInTransaction db jid now reason = Inr (db', r)"
  shows "db' = db \<and> r = readAdmission db jid \<and> (\<forall>a. r = Some a \<longrightarrow> admState a = Released) \<or>
    (\<exists>a. readAdmission db jid = Some a \<and> (admState a = Queued \<or> admState a = Draining \<or> admState a = Admitted) \<and>
       changes (\<lambda>b. admJobId b = jid \<and> (admState b = Queued \<or> admState b = Draining)) (admissions_table db) = 1 \<and>
       db' = db\<lparr>admissions_table := update_where (\<lambda>b. admJobId b = jid \<and> (admState b = Queued \<or> admState b = Draining))
         (\<lambda>b. b\<lparr>admState := Released, releasedAt := Some (whole now), releaseReason := Some reason\<rparr>) (admissions_table db)\<rparr> \<and>
       r = readAdmission db' jid)"
proof -
  have "admState a = Queued \<or> admState a = Draining \<or> admState a = Admitted \<or> admState a = Released" for a :: job_admission
    by (cases "admState a") simp_all
  with assms show ?thesis
    by (fastforce simp: releaseInTransaction_def rthen_eq_Inr Let_def split: option.splits if_splits)
qed

lemma adoptHeldClaims_cases:
  assumes "adoptHeldClaims db jid owner gen now ms = Inr (db', r)"
  shows "db' = db \<and> \<not> r \<or>
    (\<exists>a. executorLeaseIsCurrent db owner (whole gen) (whole now) \<and> readAdmission db jid = Some a \<and> occupied a \<and> r \<and>
      db' = db\<lparr>claims_table := update_where (\<lambda>c. claimJobId c = jid \<and> claimHeld c)
        (\<lambda>c. c\<lparr>claimOwner := owner, claimGeneration := whole gen, claimExpiresAt := whole now + whole ms, renewedAt := whole now\<rparr>)
        (claims_table db)\<rparr>)"
proof -
  have count: "changes p t = length (select_ordered p claimId (MAX_AUTONOMY_ROWS + 1) t)"
      if "length (select_ordered p claimId (MAX_AUTONOMY_ROWS + 1) t) \<le> MAX_AUTONOMY_ROWS"
    for p and t :: "resource_claim list"
    using that by (simp add: changes_def select_ordered_def min_def split: if_splits)
  show ?thesis
    using assms by (auto simp: adoptHeldClaims_def rthen_eq_Inr Let_def count split: option.splits if_splits)
qed

lemma update_claims_ok:
  assumes "db_ok db" "\<And>c. claimId (f c) = claimId c \<and> claimKey (f c) = claimKey c \<and> claimKind (f c) = claimKind c \<and>
      claimJobId (f c) = claimJobId c \<and> claimHeld (f c) = claimHeld c"
  shows "db_ok (db\<lparr>claims_table := update_where p f (claims_table db)\<rparr>)"
proof -
  have ok: "claims_ok db" "occupied_ok db" using assms(1) by (simp_all add: db_ok_def)
  have "filter claimHeld (update_where p f (claims_table db)) = update_where p f (filter claimHeld (claims_table db))"
    by (rule filter_update_inside) (simp add: assms(2))
  then have "claims_ok (db\<lparr>claims_table := update_where p f (claims_table db)\<rparr>)"
    using ok(1) assms(2) by (auto simp: claims_ok_def set_update_where intro: unique_update_where)
  moreover have "holds_project (update_where p f (claims_table db)) a" if held: "holds_project (claims_table db) a" for a
  proof -
    from held obtain c where c: "c \<in> set (claims_table db)" "claimHeld c" "claimKind c = ProjectResource"
      "claimKey c = projectResourceKey (admProjectId a)" "claimJobId c = admJobId a"
      by (auto simp: holds_project_def)
    let ?d = "if p c then f c else c"
    have "?d \<in> set (update_where p f (claims_table db))" using c(1) by (auto simp: set_update_where)
    with c assms(2) show ?thesis unfolding holds_project_def by (intro bexI [of _ ?d]) simp_all
  qed
  then have "occupied_ok (db\<lparr>claims_table := update_where p f (claims_table db)\<rparr>)"
    using ok(2) by (auto simp: occupied_ok_def)
  ultimately show ?thesis using assms(1) by (simp add: db_ok_defs)
qed

lemma adoptHeldClaims_ok:
  assumes "adoptHeldClaims db jid owner gen now ms = Inr (db', r)" "db_ok db"
  shows "db_ok db'"
  using adoptHeldClaims_cases [OF assms(1)] assms(2) update_claims_ok [OF assms(2)] by auto

end
