(* ===== verification/Pipeline_Database.thy ===== *)
theory Pipeline_Database
  imports Admission_Lemmas
begin

text \<open>
  The steps of the pipeline's database and its invariant: every operation of the lease, of the
  admissions, of the claims and of the effect queue, every event applied to a job, and the
  writes around them, keeps \<open>db_ok\<close> and keeps every stored job reachable.
\<close>

subsection \<open>Effects\<close>

lemma update_effect_ok:
  assumes "db_ok db" "\<And>x. idempotencyKey (f x) = idempotencyKey x"
  shows "db_ok (update_effect db p f)"
  using assms by (auto simp: db_ok_defs update_effect_def intro: unique_update_where)

lemma keep_key [simp]:
  "idempotencyKey (take_lease ow g t ms x) = idempotencyKey x" "idempotencyKey (drop_lease s err t x) = idempotencyKey x"
  by (simp_all add: take_lease_def drop_lease_def)

lemma lease_rows_ok: "db_ok db \<Longrightarrow> lease_rows db ow g t ms xs = (db', ys) \<Longrightarrow> db_ok db'"
proof (induction xs arbitrary: db ys)
  case Nil
  then show ?case by simp
next
  case (Cons x xs)
  let ?db1 = "update_effect db (\<lambda>y. idempotencyKey y = idempotencyKey x \<and> leasable y t) (take_lease ow g t ms)"
  have "db_ok ?db1" using Cons.prems(1) by (rule update_effect_ok) simp
  then show ?case using Cons by (auto simp: Let_def split: if_splits prod.splits)
qed

lemma leaseControlEffects_ok:
  assumes "leaseControlEffects db ow g t ms lim busy = Inr (db', ys)" "db_ok db"
  shows "db_ok db'"
  using assms by (auto simp: leaseControlEffects_def rthen_eq_Inr split: if_splits intro: lease_rows_ok)

lemma renewControlEffectFence_ok:
  assumes "renewControlEffectFence db jid key ow g t ms = Inr (db', r)" "db_ok db"
  shows "db_ok db'"
  using assms by (auto simp: renewControlEffectFence_def rthen_eq_Inr Let_def split: if_splits option.splits intro!: update_effect_ok)

lemma completeEffect_ok:
  assumes "completeEffect db key ow g t = Inr (db', r)" "db_ok db"
  shows "db_ok db'"
  using assms by (auto simp: completeEffect_def rthen_eq_Inr Let_def intro!: update_effect_ok)

lemma insert_effect_unique: "unique_key idempotencyKey t \<Longrightarrow> unique_key idempotencyKey (insert_effect x t)"
  by (auto simp: insert_effect_def unique_append)

lemma blocked_job_id: "markJobPermanentFailure j err now = Some (j', x) \<Longrightarrow> job_id j' = job_id j"
  by (auto simp: markJobPermanentFailure_def split: if_splits)

text \<open>The block of a dead effect rewrites one job and queues its render effect.\<close>

lemma blockDeadJob_cases:
  "blockDeadJob db jid err now = db \<or>
   (\<exists>j j' x aps. readJobById db jid = Some j \<and> markJobPermanentFailure j err now = Some (j', x) \<and>
      blockDeadJob db jid err now = db\<lparr>jobs_table := update_where (\<lambda>r. row_id r = jid \<and> version (row_job r) = version j)
        (\<lambda>r. r\<lparr>row_job := j'\<rparr>) (jobs_table db), approvals_table := aps,
        effects_table := insert_effect (pending_effect x now) (effects_table db)\<rparr>)"
  unfolding blockDeadJob_def Let_def by (auto split: option.splits)

lemma rewrite_job_ok:
  assumes "jobs_ok db" "job_id j' = jid" "\<And>r. p r \<Longrightarrow> row_id r = jid"
  shows "unique_key row_id (update_where p (\<lambda>r. r\<lparr>row_job := j'\<rparr>) (jobs_table db))"
proof -
  have "map row_id (update_where p (\<lambda>r. r\<lparr>row_job := j'\<rparr>) (jobs_table db)) = map row_id (jobs_table db)"
    using assms(2,3) by (auto simp: update_where_def)
  with assms(1) show ?thesis by (simp add: unique_key_def jobs_ok_def)
qed

lemma blockDeadJob_ok: "db_ok db \<Longrightarrow> db_ok (blockDeadJob db jid err now)"
  using blockDeadJob_cases [of db jid err now]
proof (elim disjE exE conjE)
  fix j j' x aps
  assume ok: "db_ok db" and j: "readJobById db jid = Some j" "markJobPermanentFailure j err now = Some (j', x)"
    and db': "blockDeadJob db jid err now = db\<lparr>jobs_table := update_where (\<lambda>r. row_id r = jid \<and> version (row_job r) = version j)
        (\<lambda>r. r\<lparr>row_job := j'\<rparr>) (jobs_table db), approvals_table := aps,
        effects_table := insert_effect (pending_effect x now) (effects_table db)\<rparr>"
  have "job_id j' = jid" using blocked_job_id [OF j(2)] readJobById_id [OF j(1)] by simp
  then have "unique_key row_id (update_where (\<lambda>r. row_id r = jid \<and> version (row_job r) = version j)
      (\<lambda>r. r\<lparr>row_job := j'\<rparr>) (jobs_table db))"
    using ok by (intro rewrite_job_ok) (simp_all add: db_ok_def)
  then show ?thesis using ok by (simp add: db' db_ok_defs insert_effect_unique)
qed simp

lemma dead_letter_ok: "db_ok db \<Longrightarrow> dead_letter db x key ow g err t = (db', r) \<Longrightarrow> db_ok db'"
  by (auto simp: dead_letter_def Let_def settleDeadEffect_def split: if_splits intro!: blockDeadJob_ok update_effect_ok)

lemma failEffect_ok:
  assumes "failEffect db key ow g err n t = Inr (db', r)" "db_ok db"
  shows "db_ok db'"
  using assms by (auto simp: failEffect_def rthen_eq_Inr Let_def split: if_splits option.splits
      intro!: update_effect_ok intro: dead_letter_ok)

lemma deadLetterEffect_ok:
  assumes "deadLetterEffect db key ow g err t = Inr (db', r)" "db_ok db"
  shows "db_ok db'"
  using assms by (auto simp: deadLetterEffect_def rthen_eq_Inr split: if_splits option.splits intro: dead_letter_ok)

subsection \<open>Claims\<close>

lemma insertHeldClaim_db_ok:
  assumes "insertHeldClaim db jid key k ow g t ms = Inr db'" "db_ok db"
  shows "db_ok db'"
  using insertHeldClaim_ok [OF assms(1)] claims_ok_insert [OF assms(1)] assms(2)
  by (auto simp: db_ok_def jobs_ok_def effects_ok_def admissions_ok_def occupied_ok_def holds_project_append)

lemma insertMissingMergeClaims_ok:
  "insertMissingMergeClaims db j ow g t ms rows reqs = Inr db' \<Longrightarrow> db_ok db \<Longrightarrow> db_ok db'"
proof (induction reqs arbitrary: db)
  case Nil
  then show ?case by simp
next
  case (Cons r reqs)
  then show ?case by (cases r) (auto simp: rbind_eq_Inr split: if_splits intro: insertHeldClaim_db_ok)
qed

lemma acquireMergeClaims_ok:
  assumes "acquireMergeClaims db j ow g t ms = Inr (Some db')" "db_ok db"
  shows "db_ok db'"
  using assms by (auto simp: acquireMergeClaims_def Let_def split: option.splits if_splits sum.splits error.splits
      intro: insertMissingMergeClaims_ok)

lemma release_claim_simps [simp]:
  "\<not> claimHeld (release_claim t why c)" "claimId (release_claim t why c) = claimId c" "claimKey (release_claim t why c) = claimKey c"
  "claimJobId (release_claim t why c) = claimJobId c" "claimKind (release_claim t why c) = claimKind c"
  by (simp_all add: release_claim_def)

lemma filter_released: "filter claimHeld (update_where p (release_claim t why) cs) = filter (\<lambda>c. \<not> p c) (filter claimHeld cs)"
  unfolding update_where_def by (induction cs) auto

lemma release_claims_ok:
  assumes "claims_ok db"
  shows "claims_ok (db\<lparr>claims_table := update_where p (release_claim t why) (claims_table db)\<rparr>)"
  using assms unique_sub [of claimKey "filter claimHeld (claims_table db)" "\<lambda>c. \<not> p c"]
  by (auto simp: claims_ok_def set_update_where filter_released simp del: filter_filter intro!: unique_update_where)

lemma holds_after_release:
  assumes "holds_project cs a" "\<And>c. p c \<Longrightarrow> claimKind c = ProjectResource \<Longrightarrow> claimJobId c \<noteq> admJobId a"
  shows "holds_project (update_where p (release_claim t why) cs) a"
  using assms unfolding holds_project_def by (force simp: set_update_where)

lemma settleResourceClaims_ok:
  assumes "db_ok db" "ProjectResource \<notin> set kinds"
  shows "db_ok (settleResourceClaimsInTransaction db jid ow g t why kinds)"
proof -
  let ?p = "\<lambda>c. claimJobId c = jid \<and> claimHeld c \<and> claimOwner c = ow \<and> claimGeneration c = g \<and> List.member kinds (claimKind c)"
  have "holds_project (update_where ?p (release_claim t why) (claims_table db)) a"
    if "holds_project (claims_table db) a" for a
    using that by (rule holds_after_release) (use assms(2) in auto)
  then show ?thesis
    using assms(1) release_claims_ok [of db ?p t why]
    by (auto simp: settleResourceClaimsInTransaction_def db_ok_def occupied_ok_def jobs_ok_def effects_ok_def admissions_ok_def)
qed

subsection \<open>Jobs\<close>

definition jobs_reachable :: "js_runtime \<Rightarrow> database \<Rightarrow> bool" where
  "jobs_reachable rt db \<longleftrightarrow> (\<forall>r \<in> set (jobs_table db). reachable rt (row_job r))"

lemma read_reachable: "jobs_reachable rt db \<Longrightarrow> readJobById db jid = Some j \<Longrightarrow> reachable rt j"
  by (auto simp: jobs_reachable_def readJobById_def dest!: get_where_Some)

text \<open>An update of the row of a job just read rewrites that job and no other.\<close>

lemma row_read:
  assumes "jobs_ok db" "readJobById db jid = Some j" "r \<in> set (jobs_table db)" "row_id r = jid"
  shows "row_job r = j"
  using assms readJobById_Some [OF assms(1), of jid j] unique_eqI [of row_id "jobs_table db"] by (auto simp: jobs_ok_def)

lemma persist_reachable:
  assumes "persistJobTransition web db jid (version j) j' = Inr db'" "jobs_ok db" "jobs_reachable rt db"
    "readJobById db jid = Some j" "transition rt j e now = Inr (j', es)"
  shows "jobs_reachable rt db'"
proof -
  from persistJobTransition_ok [OF assms(1)] have
    db': "db' = db\<lparr>jobs_table := update_where (\<lambda>r. row_id r = jid \<and> version (row_job r) = version j)
      (\<lambda>r. r\<lparr>row_job := write_columns j' (row_job r)\<rparr>) (jobs_table db)\<rparr>" by blast
  have "reachable rt (write_columns j' (row_job r))" if "r \<in> set (jobs_table db)" "row_id r = jid" for r
    using row_read [OF assms(2,4) that] write_columns_transition [OF assms(5)]
      reachable.event [OF read_reachable [OF assms(3,4)] assms(5)] by simp
  with assms(3) show ?thesis by (auto simp: db' jobs_reachable_def set_update_where)
qed

lemma dead_effect_reachable:
  assumes "reachable rt j" "safe_summary err" "markJobPermanentFailure j err now = Some (j', x)"
  shows "reachable rt j'"
  by (rule reachable.dead_effect [OF assms(1,2), of merge_pr now j' x])
    (simp add: settleJobForDeadEffect_def COSMETIC_EFFECT_KINDS_def assms(3))

lemma blockDeadJob_reachable:
  assumes "jobs_reachable rt db" "safe_summary err"
  shows "jobs_reachable rt (blockDeadJob db jid err now)"
  using blockDeadJob_cases [of db jid err now]
proof (elim disjE exE conjE)
  fix j j' x aps
  assume j: "readJobById db jid = Some j" "markJobPermanentFailure j err now = Some (j', x)"
    and db': "blockDeadJob db jid err now = db\<lparr>jobs_table := update_where (\<lambda>r. row_id r = jid \<and> version (row_job r) = version j)
        (\<lambda>r. r\<lparr>row_job := j'\<rparr>) (jobs_table db), approvals_table := aps,
        effects_table := insert_effect (pending_effect x now) (effects_table db)\<rparr>"
  have "reachable rt j'" by (rule dead_effect_reachable [OF read_reachable [OF assms(1) j(1)] assms(2) j(2)])
  with assms(1) show ?thesis by (auto simp: db' jobs_reachable_def set_update_where)
qed (use assms(1) in simp)

lemma dead_letter_reachable:
  assumes "dead_letter db x key ow g err t = (db', r)" "jobs_reachable rt db" "safe_summary err"
  shows "jobs_reachable rt db'"
proof -
  have same: "jobs_reachable rt (update_effect db p f) = jobs_reachable rt db" for p f
    by (simp add: jobs_reachable_def update_effect_def)
  with assms blockDeadJob_reachable [OF _ assms(3)] show ?thesis
    by (auto simp: dead_letter_def Let_def settleDeadEffect_def split: if_splits)
qed

subsection \<open>Releasing\<close>

text \<open>
  A release ends with no admission of the job occupied: it is draining or queued before its
  claims go, and released after.
\<close>

lemma releaseInTransaction_split:
  assumes "releaseInTransaction db jid now reason = Inr (db', r)" "admissions_ok db"
  obtains (none) "db' = db" "\<forall>b \<in> set (admissions_table db). admJobId b = jid \<longrightarrow> admState b = Released"
  | (hit) "changes (\<lambda>b. admJobId b = jid \<and> (admState b = Queued \<or> admState b = Draining)) (admissions_table db) = 1"
      "db' = db\<lparr>admissions_table := update_where (\<lambda>b. admJobId b = jid \<and> (admState b = Queued \<or> admState b = Draining))
         (\<lambda>b. b\<lparr>admState := Released, releasedAt := Some (whole now), releaseReason := Some reason\<rparr>) (admissions_table db)\<rparr>"
proof (cases "readAdmission db jid")
  case None
  with releaseInTransaction_cases [OF assms(1)] readAdmission_None [of db jid] show ?thesis
    by (elim disjE) (auto intro!: none)
next
  case (Some y)
  then have y: "b = y" if "b \<in> set (admissions_table db)" "admJobId b = jid" for b
    using that readAdmission_Some [OF assms(2), of jid b] by simp
  from releaseInTransaction_cases [OF assms(1)] show ?thesis
  proof (elim disjE exE conjE)
    assume "db' = db" "r = readAdmission db jid" "\<forall>a. r = Some a \<longrightarrow> admState a = Released"
    with Some y show ?thesis by (intro none) auto
  qed (rule hit; assumption)+
qed

lemma release_now_ok:
  assumes "release_now db jid t = Inr (db', r)" "db_ok db"
  shows "db_ok db'"
proof -
  from assms(1) obtain db1 q db4 s where
      d: "markDrainingInTransaction db jid t = Inr (db1, q)" and
      rel: "releaseInTransaction (update_effect db1 (superseded jid (whole t))
              (drop_lease EffDone (Some ''superseded:job_released'') (whole t))
            \<lparr>claims_table := update_where (\<lambda>c. claimJobId c = jid \<and> claimHeld c)
              (release_claim (whole t) ''job_released'') (claims_table db1)\<rparr>) jid t ''job_released'' = Inr (db4, s)"
      and db': "db' = db4"
    by (auto simp: release_now_def rbind_eq_Inr Let_def update_effect_def)
  let ?e = "update_effect db1 (superseded jid (whole t)) (drop_lease EffDone (Some ''superseded:job_released'') (whole t))"
  let ?p = "\<lambda>c. claimJobId c = jid \<and> claimHeld c"
  let ?cs = "update_where ?p (release_claim (whole t) ''job_released'') (claims_table db1)"
  have db1: "db_ok db1" by (rule markDraining_ok [OF d assms(2)])
  have e: "db_ok ?e" by (rule update_effect_ok [OF db1]) simp
  have parts: "jobs_ok ?e" "effects_ok ?e" "admissions_ok ?e" "claims_ok ?e" "occupied_ok db1"
    using e db1 by (simp_all add: db_ok_def)
  have tables: "admissions_table ?e = admissions_table db1" "claims_table ?e = claims_table db1" by (simp_all add: update_effect_def)
  have claims: "claims_ok (?e\<lparr>claims_table := ?cs\<rparr>)"
    using release_claims_ok [OF parts(4), of ?p "whole t" "''job_released''"] by (simp only: tables)
  have gone: "claimKind c = ProjectResource \<Longrightarrow> ?p c \<Longrightarrow> claimJobId c \<noteq> admJobId b" if "admJobId b \<noteq> jid" for b c
    using that by auto
  have others: "holds_project ?cs b" if "b \<in> set (admissions_table db1)" "occupied b" "admJobId b \<noteq> jid" for b
    using holds_after_release [of "claims_table db1" b ?p "whole t" "''job_released''"] parts(5) that
    by (auto simp: occupied_ok_def)
  let ?hit = "\<lambda>b. admJobId b = jid \<and> (admState b = Queued \<or> admState b = Draining)"
  let ?f = "\<lambda>b. b\<lparr>admState := Released, releasedAt := Some (whole t), releaseReason := Some ''job_released''\<rparr>"
  have unique: "unique_key admJobId (admissions_table db1)" using db1 by (simp add: db_ok_def admissions_ok_def)
  have "admissions_ok (?e\<lparr>claims_table := ?cs\<rparr>)" using parts(3) by (simp add: admissions_ok_def)
  from releaseInTransaction_split [OF rel this] consider
      (none) "db4 = ?e\<lparr>claims_table := ?cs\<rparr>" "\<forall>b \<in> set (admissions_table db1). admJobId b = jid \<longrightarrow> admState b = Released"
    | (hit) "changes ?hit (admissions_table db1) = 1"
        "db4 = ?e\<lparr>claims_table := ?cs, admissions_table := update_where ?hit ?f (admissions_table db1)\<rparr>"
    by (rule) (simp_all add: update_effect_def)
  then show ?thesis
  proof cases
    case none
    have "holds_project ?cs b" if "b \<in> set (admissions_table db1)" "occupied b" for b
      using others [OF that] none(2) that by (auto simp: occupied_def)
    then have "occupied_ok db4" using parts(5) by (simp add: none(1) occupied_ok_def tables)
    with parts claims show ?thesis
      unfolding db' none(1) by (simp add: db_ok_def jobs_ok_def effects_ok_def admissions_ok_def)
  next
    case hit
    have "holds_project ?cs b" if b: "b \<in> set (update_where ?hit ?f (admissions_table db1))" "occupied b" for b
    proof -
      from b obtain b0 where b0: "b0 \<in> set (admissions_table db1)" "b = (if ?hit b0 then ?f b0 else b0)"
        by (auto simp: set_update_where)
      with b(2) have same: "b = b0" "\<not> ?hit b0" by (auto simp: occupied_def split: if_splits)
      have "admJobId b0 \<noteq> jid"
      proof
        assume id: "admJobId b0 = jid"
        from hit(1) obtain h where "h \<in> set (admissions_table db1)" "?hit h" using changes_pos [of ?hit "admissions_table db1"] by auto
        with unique_eqI [OF unique b0(1), of h] id same(2) show False by auto
      qed
      with others b0(1) b(2) same(1) show ?thesis by blast
    qed
    moreover have "changes occupied (update_where ?hit ?f (admissions_table db1)) \<le> changes occupied (admissions_table db1)"
      by (rule changes_update_mono) (simp add: occupied_def)
    ultimately have "occupied_ok db4" using parts(5) by (auto simp: hit(2) occupied_ok_def)
    moreover have "admissions_ok db4" using parts(3)
      by (auto simp: hit(2) admissions_ok_def set_update_where tables update_effect_def intro!: unique_update_where)
    ultimately show ?thesis
      using parts claims unfolding db' hit(2) by (simp add: db_ok_def jobs_ok_def effects_ok_def claims_ok_def)
  qed
qed

lemma persist_effects_ok:
  assumes "persistPendingEffects web db es t = Inr db'" "db_ok db"
  shows "db_ok db'"
  using persistPendingEffects_ok [OF assms(1)] assms(2) store_pending_unique by (simp add: db_ok_defs)

lemma persist_job_ok:
  assumes "persistJobTransition web db jid v j = Inr db'" "db_ok db"
  shows "db_ok db'"
  using persistJobTransition_fields [OF assms(1)] persistJobTransition_jobs_ok [OF assms(1)] assms(2)
  by (auto simp: db_ok_def effects_ok_def admissions_ok_def claims_ok_def occupied_ok_def)

lemma finalizeRelease_cases:
  assumes "finalizeRelease rt web db jid ow g t = Inr (db', r)"
  obtains (same) "db' = db"
  | (released) "release_now db jid t = Inr (db', r)"
  | (cancelled) j j' es db1 where "readJobById db jid = Some j" "transition rt j CANCEL_CONFIRMED (whole t) = Inr (j', es)"
      "persistJobTransition web db jid (version j) j' = Inr db1" "persistPendingEffects web db1 es (whole t) = Inr db'"
  using assms unfolding finalizeRelease_def rthen_eq_Inr Let_def
  by (auto simp: rbind_eq_Inr split: if_splits option.splits)

lemma finalizeRelease_ok:
  assumes "finalizeRelease rt web db jid ow g t = Inr (db', r)" "db_ok db"
  shows "db_ok db'"
  using assms(1)
proof (cases rule: finalizeRelease_cases)
  case same
  with assms(2) show ?thesis by simp
next
  case released
  then show ?thesis by (rule release_now_ok [OF _ assms(2)])
next
  case (cancelled j j' es db1)
  then show ?thesis using persist_job_ok [OF cancelled(3) assms(2)] persist_effects_ok by blast
qed

end
