(* ===== verification/Json_Schema.thy ===== *)
theory Json_Schema
  imports Job_Database
begin

text \<open>
  The checks of the zod schemas (version 4) on JSON values, as functions into options: \<open>None\<close> is a
  value the schema refuses.  A value of type \<open>unknown\<close> that came out of \<open>JSON.parse\<close> is a \<open>jval\<close>;
  a number with a fraction, which every schema modelled here refuses, has no \<open>jval\<close>.
\<close>

type_synonym 'a schema = "jval \<Rightarrow> 'a option"

fun z_string :: "(string \<Rightarrow> bool) \<Rightarrow> string schema" where
  "z_string ok (JStr s) = (if ok s then Some s else None)"
| "z_string ok _ = None"

definition z_between :: "nat \<Rightarrow> nat \<Rightarrow> string schema" where
  "z_between lo hi = z_string (\<lambda>s. lo \<le> length s \<and> length s \<le> hi)"

text \<open>\<open>z.number().int()\<close> accepts safe integers only.\<close>

fun z_int :: "(int \<Rightarrow> bool) \<Rightarrow> int schema" where
  "z_int ok (JNum n) = (if \<bar>n\<bar> \<le> MAX_SAFE_INTEGER \<and> ok n then Some n else None)"
| "z_int ok _ = None"

fun z_bool :: "bool schema" where
  "z_bool (JBool b) = Some b"
| "z_bool _ = None"

definition z_enum :: "(string \<times> 'a) list \<Rightarrow> 'a schema" where
  "z_enum values v = (case v of JStr s \<Rightarrow> map_of values s | _ \<Rightarrow> None)"

definition z_nullable :: "'a schema \<Rightarrow> 'a option schema" where
  "z_nullable f v = (if v = JNull then Some None else map_option Some (f v))"

fun z_all :: "'a schema \<Rightarrow> jval list \<Rightarrow> 'a list option" where
  "z_all f [] = Some []"
| "z_all f (v # vs) =
     (case f v of None \<Rightarrow> None | Some x \<Rightarrow> (case z_all f vs of None \<Rightarrow> None | Some xs \<Rightarrow> Some (x # xs)))"

definition z_array :: "nat \<Rightarrow> 'a schema \<Rightarrow> 'a list schema" where
  "z_array maximum f v = (case v of JList vs \<Rightarrow> if length vs \<le> maximum then z_all f vs else None | _ \<Rightarrow> None)"

text \<open>\<open>z.object({...}).strict()\<close>: an object with no other keys.\<close>

definition z_strict :: "string list \<Rightarrow> jval \<Rightarrow> (string \<Rightarrow> jval option) option" where
  "z_strict keys v =
     (case v of JObj fs \<Rightarrow> if list_all (\<lambda>(k, _). List.member keys k) fs then Some (map_of fs) else None | _ \<Rightarrow> None)"

definition z_field :: "(string \<Rightarrow> jval option) \<Rightarrow> string \<Rightarrow> 'a schema \<Rightarrow> 'a option" where
  "z_field obj k f = Option.bind (obj k) f"

definition z_pattern :: "regex \<Rightarrow> string schema" where
  "z_pattern r = z_string (regex_test False r)"

text \<open>\<open>/^[A-Za-z0-9][A-Za-z0-9._:-]{0,127}$/u\<close>\<close>

definition key_ranges :: "(char \<times> char) list" where
  "key_ranges = [(CHR ''A'', CHR ''Z''), (CHR ''a'', CHR ''z''), (CHR ''0'', CHR ''9'')]"

definition key_tail_ranges :: "(char \<times> char) list" where
  "key_tail_ranges = key_ranges @ [(CHR ''.'', CHR ''.''), (CHR ''_'', CHR ''_''), (CHR '':'', CHR '':''), (CHR ''-'', CHR ''-'')]"

definition BOUNDED_KEY :: regex where
  "BOUNDED_KEY = r_seq [RStart, RClass (CC False key_ranges), RRep (RClass (CC False key_tail_ranges)) 0 (Some 127), REnd]"

lemma matches_seq_iff: "matches ci s (RSeq r1 r2) i k \<longleftrightarrow> (\<exists>j. matches ci s r1 i j \<and> matches ci s r2 j k)"
  by (auto intro: m_seq elim: matches_seqE)

lemma head_tail_test:
  "regex_test ci (r_seq [RStart, RClass a, RRep (RClass b) 0 (Some m), REnd]) s \<longleftrightarrow>
     (case s of [] \<Rightarrow> False | c # t \<Rightarrow> class_test ci a c \<and> length t \<le> m \<and> list_all (class_test ci b) t)"
proof -
  have rep: "matches ci s (RRep (RClass b) 0 (Some m)) i k \<longleftrightarrow> (\<exists>n \<le> m. reach (ends ci s (RClass b)) n i k)" for i k
    by (subst matches_rep_reach [of ci s "RClass b" "ends ci s (RClass b)"]) (auto simp: matches_iff_ends rep_ok_def)
  have "regex_test ci (r_seq [RStart, RClass a, RRep (RClass b) 0 (Some m), REnd]) s \<longleftrightarrow>
      0 < length s \<and> class_test ci a (s ! 0) \<and> (\<exists>n \<le> m. reach (ends ci s (RClass b)) n 1 (length s))"
    by (auto simp: regex_test_iff matches_seq_iff matches_simps rep)
  also have "\<dots> \<longleftrightarrow> (case s of [] \<Rightarrow> False | c # t \<Rightarrow> class_test ci a c \<and> length t \<le> m \<and> list_all (class_test ci b) t)"
    by (cases s) (auto simp: reach_class list_all_length)
  finally show ?thesis .
qed

lemma bounded_key_test:
  "regex_test False BOUNDED_KEY s \<longleftrightarrow>
     (case s of [] \<Rightarrow> False | c # t \<Rightarrow> in_ranges key_ranges c \<and> length t \<le> 127 \<and> list_all (in_ranges key_tail_ranges) t)"
proof -
  have plain: "class_test False (CC False rs) = in_ranges rs" for rs by (rule ext) (simp add: class_test_def)
  show ?thesis unfolding BOUNDED_KEY_def head_tail_test plain ..
qed

lemma z_all_map: "list_all (\<lambda>x. f (g x) = Some x) xs \<Longrightarrow> z_all f (map g xs) = Some xs"
  by (induction xs) auto

lemma z_all_length: "z_all f vs = Some xs \<Longrightarrow> length xs = length vs"
  by (induction vs arbitrary: xs) (auto split: option.splits)

lemma z_string_Some: "z_string ok v = Some s \<longleftrightarrow> v = JStr s \<and> ok s"
  by (cases v) auto

lemma z_pattern_Some: "z_pattern r v = Some s \<longleftrightarrow> v = JStr s \<and> regex_test False r s"
  by (simp add: z_pattern_def z_string_Some)

end
