(* ===== verification/Task_Authority.thy ===== *)
theory Task_Authority
  imports Json_Schema
begin

text \<open>
  Task authority (\<open>src/domain/task-authority.ts\<close>): what an owner's request permits a job to do, and
  how a request is read.  With the effects each kind of job effect needs, from \<open>src/storage/store.ts\<close>.

  \<open>createHash("sha256")\<close> is the argument \<open>sha256\<close>.
\<close>

subsection \<open>Effects and operations\<close>

datatype authority_effect =
  ReadEffect | ArtifactWrite | PrototypeWrite | WorktreeWrite | CommitEffect | PushEffect | PullRequestEffect |
  MergeEffect | DeployEffect | RollbackEffect

datatype authority_operation =
  OpArtifact | OpPrototype | OpWorktree | OpCommit | OpPush | OpPullRequest | OpMerge | OpDeploy | OpRollback

datatype authority_status = AuthActive | AuthRevoked | AuthSuspended | AuthSuperseded

definition TASK_AUTHORITY_EFFECTS :: "authority_effect list" where
  "TASK_AUTHORITY_EFFECTS = [ReadEffect, ArtifactWrite, PrototypeWrite, WorktreeWrite, CommitEffect, PushEffect,
     PullRequestEffect, MergeEffect, DeployEffect, RollbackEffect]"

fun taskAuthorityEffectForOperation :: "authority_operation \<Rightarrow> authority_effect" where
  "taskAuthorityEffectForOperation OpArtifact = ArtifactWrite"
| "taskAuthorityEffectForOperation OpPrototype = PrototypeWrite"
| "taskAuthorityEffectForOperation OpWorktree = WorktreeWrite"
| "taskAuthorityEffectForOperation OpCommit = CommitEffect"
| "taskAuthorityEffectForOperation OpPush = PushEffect"
| "taskAuthorityEffectForOperation OpPullRequest = PullRequestEffect"
| "taskAuthorityEffectForOperation OpMerge = MergeEffect"
| "taskAuthorityEffectForOperation OpDeploy = DeployEffect"
| "taskAuthorityEffectForOperation OpRollback = RollbackEffect"

definition taskAuthorityAllows :: "task_outcome \<Rightarrow> authority_effect \<Rightarrow> bool" where
  "taskAuthorityAllows oc e =
     (if e = ReadEffect \<or> e = ArtifactWrite then True
      else if e = PrototypeWrite then oc = ArtifactOutcome
      else if oc = ArtifactOutcome then False
      else if e = WorktreeWrite \<or> e = CommitEffect \<or> e = PushEffect \<or> e = PullRequestEffect then True
      else oc = ShippedChange)"

definition taskAuthorityAllowsEffect :: "authority_status \<Rightarrow> task_outcome \<Rightarrow> task_constraint list \<Rightarrow> authority_effect \<Rightarrow> bool" where
  "taskAuthorityAllowsEffect st oc cs e =
     (if st \<noteq> AuthActive then False
      else if e = MergeEffect \<and> List.member cs NoMerge then False
      else if (e = DeployEffect \<or> e = RollbackEffect) \<and> List.member cs NoDeploy then False
      else if List.member cs ArtifactOnly \<and> e \<noteq> ReadEffect \<and> e \<noteq> ArtifactWrite then False
      else if List.member cs PullRequestOnly \<and> (e = MergeEffect \<or> e = DeployEffect \<or> e = RollbackEffect) then False
      else taskAuthorityAllows oc e)"

definition allowed_effects :: "task_outcome \<Rightarrow> task_constraint list \<Rightarrow> authority_effect list" where
  "allowed_effects oc cs = filter (taskAuthorityAllowsEffect AuthActive oc cs) TASK_AUTHORITY_EFFECTS"

definition taskAuthorityIsStrictNarrowing ::
  "task_outcome \<times> task_constraint list \<Rightarrow> task_outcome \<times> task_constraint list \<Rightarrow> bool" where
  "taskAuthorityIsStrictNarrowing current narrowed =
     (let cs = allowed_effects (fst current) (snd current); ns = allowed_effects (fst narrowed) (snd narrowed) in
      length ns < length cs \<and> list_all (\<lambda>e. List.member cs e) ns)"

text \<open>What the effects of a job need (\<open>TASK_AUTHORITY_EFFECT_REQUIREMENTS\<close>).\<close>

definition change_effects :: "authority_effect list" where
  "change_effects = [WorktreeWrite, CommitEffect, PushEffect, PullRequestEffect]"

fun TASK_AUTHORITY_EFFECT_REQUIREMENTS :: "effect_kind \<Rightarrow> authority_effect list" where
  "TASK_AUTHORITY_EFFECT_REQUIREMENTS spawn_plan = [ArtifactWrite]"
| "TASK_AUTHORITY_EFFECT_REQUIREMENTS spawn_critique = [ArtifactWrite]"
| "TASK_AUTHORITY_EFFECT_REQUIREMENTS spawn_implementation = change_effects"
| "TASK_AUTHORITY_EFFECT_REQUIREMENTS inspect_implementation = tl change_effects"
| "TASK_AUTHORITY_EFFECT_REQUIREMENTS resolve_pr_head = tl change_effects"
| "TASK_AUTHORITY_EFFECT_REQUIREMENTS send_remediation = change_effects"
| "TASK_AUTHORITY_EFFECT_REQUIREMENTS spawn_docs = change_effects"
| "TASK_AUTHORITY_EFFECT_REQUIREMENTS merge_pr = [MergeEffect]"
| "TASK_AUTHORITY_EFFECT_REQUIREMENTS deploy_production = [DeployEffect, RollbackEffect]"
| "TASK_AUTHORITY_EFFECT_REQUIREMENTS verify_production = [DeployEffect, RollbackEffect]"
| "TASK_AUTHORITY_EFFECT_REQUIREMENTS steer_implementation = change_effects"
| "TASK_AUTHORITY_EFFECT_REQUIREMENTS run_navigator_skill = [ArtifactWrite]"
| "TASK_AUTHORITY_EFFECT_REQUIREMENTS run_navigator_ticket_worker = change_effects"
| "TASK_AUTHORITY_EFFECT_REQUIREMENTS run_navigator_release = tl change_effects"
| "TASK_AUTHORITY_EFFECT_REQUIREMENTS _ = [ReadEffect]"

subsection \<open>The patterns a request is read with\<close>

definition r_bounded :: "regex \<Rightarrow> regex" where
  "r_bounded r = r_seq [RWordBoundary, r, RWordBoundary]"

definition r_words :: "string list \<Rightarrow> regex" where
  "r_words ws = r_alt (map r_lit ws)"

definition r_spaces :: regex where
  "r_spaces = r_plus r_space"

text \<open>\<open>spec(?:ification)?|tickets?\<close> and \<open>analy[sz]e\<close>\<close>

definition spec_or_tickets :: regex where
  "spec_or_tickets = r_alt [r_seq [r_lit ''spec'', r_opt (r_lit ''ification'')], r_seq [r_lit ''ticket'', r_opt (r_lit ''s'')]]"

definition analyse_verb :: regex where
  "analyse_verb = r_seq [r_lit ''analy'', RClass (CC False [(CHR ''s'', CHR ''s''), (CHR ''z'', CHR ''z'')]), r_lit ''e'']"

definition EXPLICIT_ARTIFACT_ONLY :: regex where
  "EXPLICIT_ARTIFACT_ONLY = r_alt
     [r_bounded (r_seq [r_alt [r_words [''artifact'', ''research'', ''diagnose'', ''diagnosis'', ''analysis'', ''review'', ''design'', ''map''],
        spec_or_tickets], r_star r_space, r_lit ''only'']),
      r_bounded (r_seq [r_lit ''non'', RClass (CC False [(CHR ''-'', CHR ''-''), (CHR '' '', CHR '' '')]), r_lit ''release'']),
      r_bounded (r_seq [r_lit ''no'', r_spaces, r_words [''implementation'', ''code'', ''release'']])]"

definition ARTIFACT_LANGUAGE :: regex where
  "ARTIFACT_LANGUAGE = r_bounded (r_alt [r_words [''research'', ''investigate'', ''diagnose'', ''diagnosis''], analyse_verb,
     r_words [''analysis'', ''map''], r_seq [r_lit ''spec'', r_opt (r_lit ''ification'')], r_words [''design'', ''review''],
     r_seq [r_lit ''ticket'', r_opt (r_lit ''s'')], r_lit ''decision''])"

definition DIRECT_ARTIFACT_VERB :: regex where
  "DIRECT_ARTIFACT_VERB = r_seq [RStart,
     r_words [''please'', ''can you'', ''could you'', ''i need you to'', ''i want you to''], r_spaces,
     r_alt [r_words [''research'', ''investigate'', ''diagnose''], analyse_verb, r_words [''map'', ''design'', ''review'']], RWordBoundary]"

text \<open>\<open>take\s+(?:it|this)\s+live\<close>\<close>

definition take_live :: regex where
  "take_live = r_seq [r_lit ''take'', r_spaces, r_words [''it'', ''this''], r_spaces, r_lit ''live'']"

definition RELEASE_ACTION :: regex where
  "RELEASE_ACTION = r_bounded (r_alt [r_words [''implement'', ''fix'', ''change'', ''modify'', ''update'', ''add'', ''remove'', ''refactor'',
     ''build'', ''configure'', ''migrate'', ''ship'', ''merge'', ''deploy'', ''publish'', ''release''], take_live])"

definition DOCUMENTATION_CHANGE :: regex where
  "DOCUMENTATION_CHANGE = r_bounded (r_seq [r_words [''write'', ''create'', ''draft''], r_spaces,
     r_opt (r_seq [r_lit ''the'', r_spaces]), r_words [''documentation'', ''doc'', ''docs'', ''readme'']])"

text \<open>\<open>pr|pull\s+request\<close>\<close>

definition pr_words :: regex where
  "pr_words = r_alt [r_lit ''pr'', r_seq [r_lit ''pull'', r_spaces, r_lit ''request'']]"

definition PULL_REQUEST_ONLY :: regex where
  "PULL_REQUEST_ONLY = r_bounded (r_seq [pr_words, r_star r_space,
     RClass (CC False [(CHR ''-'', CHR ''-''), (CHR '' '', CHR '' '')]), r_lit ''only''])"

definition PREPARE_PULL_REQUEST :: regex where
  "PREPARE_PULL_REQUEST = r_bounded (r_seq [r_words [''prepare'', ''open'', ''update'', ''publish'', ''create''], r_spaces,
     r_opt (r_seq [r_lit ''and'', r_spaces, r_lit ''open'', r_spaces]), r_opt (r_seq [r_lit ''a'', r_opt (r_lit ''n''), r_spaces]),
     r_opt (r_seq [r_lit ''the'', r_spaces]), pr_words])"

definition SHIPPING_CONFIRMATION :: regex where
  "SHIPPING_CONFIRMATION = r_bounded (r_alt [r_words [''ship'', ''merge'', ''land'', ''deploy'', ''release''], take_live])"

text \<open>\<open>do\s+not|don'?t|don\s+t|dont|never|no\<close>\<close>

definition refusal_words :: regex where
  "refusal_words = r_alt [r_seq [r_lit ''do'', r_spaces, r_lit ''not''], r_seq [r_lit ''don'', r_opt (char_cls CHR 0x27), r_lit ''t''],
     r_seq [r_lit ''don'', r_spaces, r_lit ''t''], r_words [''dont'', ''never'', ''no'']]"

definition NO_MERGE :: regex where
  "NO_MERGE = r_bounded (r_seq [refusal_words, r_spaces, r_words [''merge'', ''land'']])"

definition NO_DEPLOY :: regex where
  "NO_DEPLOY = r_bounded (r_seq [refusal_words, r_spaces, r_lit ''deploy''])"

subsection \<open>Reading a request\<close>

text \<open>The letters and numbers (\<open>\p{L}\<close>, \<open>\p{N}\<close>) among the 8-bit code units.\<close>

definition letter_or_number :: "char \<Rightarrow> bool" where
  "letter_or_number c = in_ranges [(CHR ''0'', CHR ''9''), (CHR ''A'', CHR ''Z''), (CHR ''a'', CHR ''z''), (CHR 0xAA, CHR 0xAA),
     (CHR 0xB2, CHR 0xB3), (CHR 0xB5, CHR 0xB5), (CHR 0xB9, CHR 0xBA), (CHR 0xBC, CHR 0xBE), (CHR 0xC0, CHR 0xD6),
     (CHR 0xD8, CHR 0xF6), (CHR 0xF8, CHR 0xFF)] c"

text \<open>Runs of anything else become one space each.\<close>

fun spaced_words :: "string \<Rightarrow> string" where
  "spaced_words [] = []"
| "spaced_words (c # s) =
     (if letter_or_number c then c # spaced_words s
      else if s \<noteq> [] \<and> \<not> letter_or_number (hd s) then spaced_words s
      else CHR '' '' # spaced_words s)"

definition normalizeRequest :: "string \<Rightarrow> string result" where
  "normalizeRequest txt =
     (if js_trim txt = [] \<or> length txt > 8000 then Inl (TypeError ''task must be a bounded non-empty string'')
      else Inr (js_lower (js_trim (spaced_words (js_trim txt)))))"

definition hasReleaseIntent :: "string \<Rightarrow> bool" where
  "hasReleaseIntent s \<longleftrightarrow> regex_test False RELEASE_ACTION s \<or> regex_test False DOCUMENTATION_CHANGE s"

definition isArtifactRequest :: "string \<Rightarrow> bool" where
  "isArtifactRequest s =
     (if regex_test False EXPLICIT_ARTIFACT_ONLY s \<or> regex_test False DIRECT_ARTIFACT_VERB s then True
      else regex_test False ARTIFACT_LANGUAGE s \<and> \<not> hasReleaseIntent s)"

definition deriveConstraints :: "bool \<Rightarrow> bool \<Rightarrow> bool \<Rightarrow> bool \<Rightarrow> task_constraint list" where
  "deriveConstraints artifact pullRequestOnly noMerge noDeploy =
     (if artifact then [ArtifactOnly] else []) @ (if pullRequestOnly then [PullRequestOnly] else []) @
     (if noMerge then [NoMerge] else []) @ (if noDeploy then [NoDeploy] else [])"

fun task_outcome_name :: "task_outcome \<Rightarrow> string" where
  "task_outcome_name ArtifactOutcome = ''artifact''"
| "task_outcome_name ReviewedChange = ''reviewed_change''"
| "task_outcome_name ShippedChange = ''shipped_change''"

fun task_constraint_name :: "task_constraint \<Rightarrow> string" where
  "task_constraint_name ArtifactOnly = ''artifact_only''"
| "task_constraint_name PullRequestOnly = ''pull_request_only''"
| "task_constraint_name NoMerge = ''no_merge''"
| "task_constraint_name NoDeploy = ''no_deploy''"

definition constraints_json :: "task_constraint list \<Rightarrow> jval" where
  "constraints_json cs = JList (map (\<lambda>c. JStr (task_constraint_name c)) cs)"

definition scope_digest :: "(string \<Rightarrow> string) \<Rightarrow> string \<Rightarrow> task_outcome \<Rightarrow> task_constraint list \<Rightarrow> string" where
  "scope_digest sha256 requestDigest oc cs = sha256 (json_text (JObj [(''requestDigest'', JStr requestDigest),
     (''outcome'', JStr (task_outcome_name oc)), (''constraints'', constraints_json cs)]))"

record task_outcome_derivation =
  tdOutcome :: task_outcome
  tdConstraints :: "task_constraint list"
  tdRequestDigest :: string
  tdScopeDigest :: string

definition deriveTaskOutcome :: "(string \<Rightarrow> string) \<Rightarrow> string \<Rightarrow> task_outcome_derivation result" where
  "deriveTaskOutcome sha256 request =
     rbind (normalizeRequest request) (\<lambda>s.
       (let artifact = isArtifactRequest s;
            noMerge = regex_test False NO_MERGE s;
            noDeploy = regex_test False NO_DEPLOY s;
            shippingConfirmed = regex_test False SHIPPING_CONFIRMATION s;
            pullRequestOnly = (\<not> shippingConfirmed \<and> (regex_test False PULL_REQUEST_ONLY s \<or> regex_test False PREPARE_PULL_REQUEST s));
            cs = deriveConstraints artifact pullRequestOnly noMerge noDeploy;
            oc = (if artifact then ArtifactOutcome
                  else if pullRequestOnly \<or> noMerge \<or> noDeploy then ReviewedChange else ShippedChange);
            requestDigest = sha256 s
        in Inr \<lparr>tdOutcome = oc, tdConstraints = cs, tdRequestDigest = requestDigest,
             tdScopeDigest = scope_digest sha256 requestDigest oc cs\<rparr>))"

end
