(* ===== verification/Authority_Store.thy ===== *)
theory Authority_Store
  imports Task_Authority
begin

text \<open>
  The repository of task authorities (\<open>src/storage/task-authority-repository.ts\<close>): the append-only
  history of revisions, which of them is current for a job, and the effects admitted under each.

  The tables of jobs and effects are the \<open>database\<close> of \<open>Job_Database\<close>.  A key of
  \<open>controller_threads\<close>, which lies outside the model, is checked by the argument \<open>controllers\<close>.
\<close>

subsection \<open>Tables\<close>

record task_authority =
  taAuthorityId :: string
  taJobId :: string
  taRevision :: int
  taOwnerUserId :: string
  taOwnerChatId :: string
  taControllerKey :: string
  taSourceUpdateId :: int
  taRequestDigest :: string
  taProjectId :: string
  taOutcome :: task_outcome
  taScopeDigest :: string
  taConstraints :: "task_constraint list"
  taPolicyVersion :: int
  taPolicyDigest :: string
  taArtifactGraphDigest :: string
  taStatus :: authority_status
  taCreatedAt :: int
  taUpdatedAt :: int
  taRevokedAt :: "int option"
  taRevokedReason :: "string option"
  taSupersededAt :: "int option"
  taSupersededReason :: "string option"

record current_authority =
  curJobId :: string
  curAuthorityId :: string
  curRevision :: int

datatype authority_action = ActGranted | ActRevised | ActRevoked | ActSuspended | ActSuperseded

record authority_event =
  aeAuthorityId :: string
  aeJobId :: string
  aeRevision :: int
  aeAction :: authority_action
  aeReason :: "string option"
  aeOccurredAt :: int

record effect_admission =
  eaEffectKey :: string
  eaJobId :: string
  eaAuthorityId :: string
  eaRevision :: int
  eaEffect :: authority_effect
  eaPayloadJson :: string
  eaAdmittedAt :: int

text \<open>Of \<open>task_authorities\<close>, written once and never read again, the two unique columns.\<close>

record authority_tables =
  authorities_table :: "(string \<times> string) list"
  revisions_table :: "task_authority list"
  current_table :: "current_authority list"
  authority_events :: "authority_event list"
  admissions_of_effects :: "effect_admission list"

subsection \<open>Reading\<close>

definition readAuthority :: "authority_tables \<Rightarrow> string \<Rightarrow> task_authority option" where
  "readAuthority t jid =
     (case get_where (\<lambda>c. curJobId c = jid) (current_table t) of
        None \<Rightarrow> None
      | Some c \<Rightarrow> get_where (\<lambda>r. taAuthorityId r = curAuthorityId c \<and> taRevision r = curRevision c) (revisions_table t))"

definition readAuthorityRevision :: "authority_tables \<Rightarrow> string \<Rightarrow> int \<Rightarrow> task_authority option" where
  "readAuthorityRevision t jid n = get_where (\<lambda>r. taJobId r = jid \<and> taRevision r = n) (revisions_table t)"

definition getRevision :: "authority_tables \<Rightarrow> string \<Rightarrow> js_number \<Rightarrow> task_authority option result" where
  "getRevision t jid n =
     rthen (guard (is_safe_integer n \<and> 1 \<le> whole n) (TypeError ''revision must be a positive integer''))
       (Inr (readAuthorityRevision t jid (whole n)))"

text \<open>A read that the code expects to succeed.\<close>

definition stored_authority :: "authority_tables \<Rightarrow> string \<Rightarrow> string \<Rightarrow> task_authority result" where
  "stored_authority t jid why = (case readAuthority t jid of None \<Rightarrow> Inl (PlainError why) | Some a \<Rightarrow> Inr a)"

subsection \<open>Writing\<close>

definition record_event :: "task_authority \<Rightarrow> authority_action \<Rightarrow> string option \<Rightarrow> int \<Rightarrow> authority_tables \<Rightarrow> authority_tables" where
  "record_event a action reason now t = t\<lparr>authority_events := authority_events t @
     [\<lparr>aeAuthorityId = taAuthorityId a, aeJobId = taJobId a, aeRevision = taRevision a, aeAction = action, aeReason = reason,
       aeOccurredAt = now\<rparr>]\<rparr>"

text \<open>The checks of the table of revisions; those on digests hold of every input and of every hash.\<close>

definition revision_row_ok :: "task_authority \<Rightarrow> bool" where
  "revision_row_ok a \<longleftrightarrow> 1 \<le> taRevision a \<and> 1 \<le> taPolicyVersion a \<and>
     (if taStatus a = AuthRevoked \<or> taStatus a = AuthSuspended then taRevokedAt a \<noteq> None else taRevokedAt a = None) \<and>
     (taStatus a = AuthSuperseded) = (taSupersededAt a \<noteq> None)"

definition insert_revision :: "task_authority \<Rightarrow> authority_tables \<Rightarrow> authority_tables result" where
  "insert_revision a t =
     (if \<not> revision_row_ok a then Inl SqliteConstraintCheck
      else if \<exists>r \<in> set (revisions_table t). taRevision r = taRevision a \<and> (taAuthorityId r = taAuthorityId a \<or> taJobId r = taJobId a)
      then Inl SqliteConstraintUnique
      else Inr (t\<lparr>revisions_table := revisions_table t @ [a]\<rparr>))"

definition appendRevision :: "authority_tables \<Rightarrow> task_authority \<Rightarrow> authority_tables result" where
  "appendRevision t a =
     rbind (insert_revision a t) (\<lambda>t1.
       (let hit = (\<lambda>c. curJobId c = taJobId a \<and> curAuthorityId c = taAuthorityId a \<and> curRevision c = taRevision a - 1) in
        if changes hit (current_table t1) \<noteq> 1 then Inl (PlainError ''Task authority current revision changed during update'')
        else Inr (t1\<lparr>current_table := update_where hit (\<lambda>c. c\<lparr>curRevision := taRevision a\<rparr>) (current_table t1)\<rparr>)))"

text \<open>A revision, its event and the authority as it is read back.\<close>

definition revise ::
  "authority_tables \<Rightarrow> task_authority \<Rightarrow> authority_action \<Rightarrow> string \<Rightarrow> int \<Rightarrow> string \<Rightarrow> (authority_tables \<times> task_authority) result" where
  "revise t a action reason now missing =
     rbind (appendRevision t a) (\<lambda>t1.
     rbind (stored_authority t1 (taJobId a) missing) (\<lambda>r.
       Inr (record_event r action (Some reason) now t1, r)))"

text \<open>The identity of a job's authority and the digest of a policy's text.\<close>

definition taskAuthorityIdForJob :: "(string \<Rightarrow> string) \<Rightarrow> string \<Rightarrow> string" where
  "taskAuthorityIdForJob sha256 jid = ''taskauth_'' @ take 32 (sha256 jid)"

definition taskPolicyDigest :: "(string \<Rightarrow> string) \<Rightarrow> string \<Rightarrow> string" where
  "taskPolicyDigest sha256 policyJson = sha256 policyJson"

subsection \<open>Creating\<close>

definition assertDigest :: "string \<Rightarrow> string \<Rightarrow> unit result" where
  "assertDigest v field = guard (regex_test False digest_regex v) (TypeError (field @ '' must be a SHA-256 digest''))"

definition assertBoundedIdentity :: "string \<Rightarrow> string \<Rightarrow> unit result" where
  "assertBoundedIdentity v field =
     guard (js_trim v \<noteq> [] \<and> length v \<le> 256) (TypeError (field @ '' must be a bounded non-empty string''))"

record create_authority =
  caAuthorityId :: string
  caJobId :: string
  caOwnerUserId :: string
  caOwnerChatId :: string
  caControllerKey :: string
  caSourceUpdateId :: int
  caRequestDigest :: string
  caProjectId :: string
  caOutcome :: task_outcome
  caScopeDigest :: string
  caConstraints :: "task_constraint list"
  caPolicyVersion :: int
  caPolicyDigest :: string
  caArtifactGraphDigest :: string
  caNow :: int

definition create_input_ok :: "create_authority \<Rightarrow> unit result" where
  "create_input_ok i =
     rthen (assertBoundedIdentity (caAuthorityId i) ''authorityId'')
    (rthen (assertBoundedIdentity (caJobId i) ''jobId'')
    (rthen (assertBoundedIdentity (caOwnerUserId i) ''ownerUserId'')
    (rthen (assertBoundedIdentity (caOwnerChatId i) ''ownerChatId'')
    (rthen (assertBoundedIdentity (caControllerKey i) ''controllerKey'')
    (rthen (assertBoundedIdentity (caProjectId i) ''projectId'')
    (rthen (assertDigest (caRequestDigest i) ''requestDigest'')
    (rthen (assertDigest (caScopeDigest i) ''scopeDigest'')
    (rthen (assertDigest (caPolicyDigest i) ''policyDigest'')
    (rthen (assertDigest (caArtifactGraphDigest i) ''artifactGraphDigest'')
           (guard (distinct (caConstraints i)) (TypeError ''Invalid task authority constraints'')))))))))))"

definition same_grant :: "task_authority \<Rightarrow> create_authority \<Rightarrow> bool" where
  "same_grant a i \<longleftrightarrow> taAuthorityId a = caAuthorityId i \<and> taOwnerUserId a = caOwnerUserId i \<and> taOwnerChatId a = caOwnerChatId i \<and>
     taControllerKey a = caControllerKey i \<and> taSourceUpdateId a = caSourceUpdateId i \<and> taRequestDigest a = caRequestDigest i \<and>
     taProjectId a = caProjectId i \<and> taOutcome a = caOutcome i \<and> taScopeDigest a = caScopeDigest i \<and>
     json_text (constraints_json (taConstraints a)) = json_text (constraints_json (caConstraints i)) \<and>
     taPolicyVersion a = caPolicyVersion i \<and> taPolicyDigest a = caPolicyDigest i"

definition first_revision :: "create_authority \<Rightarrow> task_authority" where
  "first_revision i = \<lparr>taAuthorityId = caAuthorityId i, taJobId = caJobId i, taRevision = 1, taOwnerUserId = caOwnerUserId i,
     taOwnerChatId = caOwnerChatId i, taControllerKey = caControllerKey i, taSourceUpdateId = caSourceUpdateId i,
     taRequestDigest = caRequestDigest i, taProjectId = caProjectId i, taOutcome = caOutcome i, taScopeDigest = caScopeDigest i,
     taConstraints = caConstraints i, taPolicyVersion = caPolicyVersion i, taPolicyDigest = caPolicyDigest i,
     taArtifactGraphDigest = caArtifactGraphDigest i, taStatus = AuthActive, taCreatedAt = caNow i, taUpdatedAt = caNow i,
     taRevokedAt = None, taRevokedReason = None, taSupersededAt = None, taSupersededReason = None\<rparr>"

definition insert_authority :: "create_authority \<Rightarrow> authority_tables \<Rightarrow> authority_tables result" where
  "insert_authority i t =
     (if \<exists>(a, j) \<in> set (authorities_table t). a = caAuthorityId i \<or> j = caJobId i then Inl SqliteConstraintUnique
      else Inr (t\<lparr>authorities_table := authorities_table t @ [(caAuthorityId i, caJobId i)]\<rparr>))"

definition insert_current :: "create_authority \<Rightarrow> authority_tables \<Rightarrow> authority_tables result" where
  "insert_current i t =
     (if \<exists>c \<in> set (current_table t). curJobId c = caJobId i then Inl SqliteConstraintUnique
      else Inr (t\<lparr>current_table := current_table t @ [\<lparr>curJobId = caJobId i, curAuthorityId = caAuthorityId i, curRevision = 1\<rparr>]\<rparr>))"

definition create ::
  "database \<Rightarrow> (string \<Rightarrow> bool) \<Rightarrow> authority_tables \<Rightarrow> create_authority \<Rightarrow> (authority_tables \<times> task_authority) result" where
  "create db controllers t i =
     rthen (create_input_ok i)
       (case readAuthority t (caJobId i) of
          Some a \<Rightarrow> if same_grant a i then Inr (t, a) else Inl (PlainError ''task authority identity changed on replay'')
        | None \<Rightarrow>
            rthen (guard (readJobById db (caJobId i) \<noteq> None \<and> controllers (caControllerKey i))
                     (NamedError ''SqliteError'' ''FOREIGN KEY constraint failed''))
           (rbind (insert_authority i t) (\<lambda>t1.
            rbind (insert_revision (first_revision i) t1) (\<lambda>t2.
            rbind (insert_current i t2) (\<lambda>t3.
            rbind (stored_authority t3 (caJobId i) ''Task authority was not stored'') (\<lambda>a.
              Inr (record_event a ActGranted None (caNow i) t3, a)))))))"

subsection \<open>Admitting effects\<close>

definition allows :: "task_authority \<Rightarrow> authority_effect \<Rightarrow> bool" where
  "allows a e = taskAuthorityAllowsEffect (taStatus a) (taOutcome a) (taConstraints a) e"

text \<open>The job and the effect of one admission: the row the join returns.\<close>

definition effect_of_job :: "database \<Rightarrow> string \<Rightarrow> string \<Rightarrow> (job \<times> string) option" where
  "effect_of_job db jid key =
     (case get_where (\<lambda>x. idempotencyKey x = key \<and> effectJobId x = jid) (effects_table db) of
        None \<Rightarrow> None
      | Some x \<Rightarrow> (case readJobById db jid of None \<Rightarrow> None | Some j \<Rightarrow> Some (j, json_text (JObj (payload x)))))"

text \<open>The job carries the same outcome and constraints as its authority.\<close>

definition job_projects :: "job \<Rightarrow> task_authority \<Rightarrow> bool" where
  "job_projects j a \<longleftrightarrow> taskOutcome j = Some (taOutcome a) \<and>
     json_text (constraints_json (taskConstraints j)) = json_text (constraints_json (taConstraints a))"

definition admission_matches :: "effect_admission \<Rightarrow> task_authority \<Rightarrow> authority_effect \<Rightarrow> string \<Rightarrow> bool" where
  "admission_matches m a e body \<longleftrightarrow> eaAuthorityId m = taAuthorityId a \<and> eaRevision m = taRevision a \<and> eaEffect m = e \<and>
     eaPayloadJson m = body"

definition admitEffect ::
  "database \<Rightarrow> authority_tables \<Rightarrow> string \<Rightarrow> string \<Rightarrow> authority_effect \<Rightarrow> int \<Rightarrow> authority_tables \<times> bool" where
  "admitEffect db t jid key e now =
     (case effect_of_job db jid key of
        None \<Rightarrow> (t, False)
      | Some (j, body) \<Rightarrow>
          (case readAuthority t jid of
             None \<Rightarrow> (t, taskOutcome j = None)
           | Some a \<Rightarrow>
               if \<not> job_projects j a \<or> \<not> allows a e then (t, False)
               else (case get_where (\<lambda>m. eaEffectKey m = key \<and> eaEffect m = e) (admissions_of_effects t) of
                   Some m \<Rightarrow> (t, admission_matches m a e body)
                 | None \<Rightarrow> (t\<lparr>admissions_of_effects := admissions_of_effects t @
                       [\<lparr>eaEffectKey = key, eaJobId = jid, eaAuthorityId = taAuthorityId a, eaRevision = taRevision a,
                         eaEffect = e, eaPayloadJson = body, eaAdmittedAt = now\<rparr>]\<rparr>, True))))"

definition effectAdmissionIsCurrent ::
  "database \<Rightarrow> authority_tables \<Rightarrow> string \<Rightarrow> string \<Rightarrow> authority_effect \<Rightarrow> bool" where
  "effectAdmissionIsCurrent db t jid key e =
     (case effect_of_job db jid key of
        None \<Rightarrow> False
      | Some (j, body) \<Rightarrow>
          (case readAuthority t jid of
             None \<Rightarrow> taskOutcome j = None
           | Some a \<Rightarrow>
               (case get_where (\<lambda>m. eaEffectKey m = key \<and> eaJobId m = jid \<and> eaEffect m = e) (admissions_of_effects t) of
                  None \<Rightarrow> False
                | Some m \<Rightarrow> admission_matches m a e body \<and> job_projects j a \<and> allows a e)))"

text \<open>The same question for all effects a job effect needs (\<open>taskAuthorityEffectIsCurrent\<close> of the store).\<close>

definition taskAuthorityEffectIsCurrent :: "database \<Rightarrow> authority_tables \<Rightarrow> job_effect \<Rightarrow> bool" where
  "taskAuthorityEffectIsCurrent db t x =
     (let required = TASK_AUTHORITY_EFFECT_REQUIREMENTS (kind x) in
      required \<noteq> [] \<and> list_all (effectAdmissionIsCurrent db t (effectJobId x) (idempotencyKey x)) required)"

subsection \<open>Revising\<close>

definition updateArtifactGraph ::
  "authority_tables \<Rightarrow> string \<Rightarrow> string \<Rightarrow> int \<Rightarrow> (authority_tables \<times> task_authority option) result" where
  "updateArtifactGraph t jid digest now =
     rthen (assertDigest digest ''artifactGraphDigest'')
       (case readAuthority t jid of
          None \<Rightarrow> Inr (t, None)
        | Some a \<Rightarrow>
            if taStatus a \<noteq> AuthActive \<or> taArtifactGraphDigest a = digest then Inr (t, Some a)
            else rbind (revise t (a\<lparr>taRevision := taRevision a + 1, taArtifactGraphDigest := digest, taUpdatedAt := now\<rparr>)
                   ActRevised ''artifact_graph_advanced'' now ''Task authority disappeared during artifact graph update'')
                 (\<lambda>(t', r). Inr (t', Some r)))"

definition reviseForMergeInstruction ::
  "(string \<Rightarrow> string) \<Rightarrow> authority_tables \<Rightarrow> string \<Rightarrow> int \<Rightarrow> (authority_tables \<times> task_authority option) result" where
  "reviseForMergeInstruction sha256 t jid now =
     (case readAuthority t jid of
        None \<Rightarrow> Inr (t, None)
      | Some a \<Rightarrow>
          if taStatus a \<noteq> AuthActive \<or> taOutcome a \<noteq> ReviewedChange then Inr (t, Some a)
          else (let cs = filter (\<lambda>c. c \<noteq> NoMerge \<and> c \<noteq> PullRequestOnly) (taConstraints a) in
            rbind (revise t (a\<lparr>taRevision := taRevision a + 1, taOutcome := ShippedChange, taConstraints := cs,
                     taScopeDigest := scope_digest sha256 (taRequestDigest a) ShippedChange cs, taUpdatedAt := now,
                     taSupersededAt := None, taSupersededReason := None\<rparr>)
                   ActRevised ''owner_merge_instruction'' now ''Revised task authority disappeared'')
                 (\<lambda>(t', r). Inr (t', Some r))))"

definition narrow ::
  "(string \<Rightarrow> string) \<Rightarrow> authority_tables \<Rightarrow> string \<Rightarrow> task_outcome \<Rightarrow> task_constraint list \<Rightarrow> int \<Rightarrow>
   (authority_tables \<times> task_authority option) result" where
  "narrow sha256 t jid oc cs now =
     rthen (guard (distinct cs) (TypeError ''Invalid narrowed task authority''))
       (case readAuthority t jid of
          None \<Rightarrow> Inr (t, None)
        | Some a \<Rightarrow>
            if taStatus a \<noteq> AuthActive \<or> \<not> taskAuthorityIsStrictNarrowing (taOutcome a, taConstraints a) (oc, cs) then Inr (t, None)
            else rbind (revise t (a\<lparr>taRevision := taRevision a + 1, taOutcome := oc, taConstraints := cs,
                     taScopeDigest := scope_digest sha256 (taRequestDigest a) oc cs, taUpdatedAt := now\<rparr>)
                   ActRevised ''owner_narrowing_instruction'' now ''Narrowed task authority disappeared'')
                 (\<lambda>(t', r). Inr (t', Some r)))"

datatype withdrawal = Revoke | Suspend

definition withdrawn_status :: "withdrawal \<Rightarrow> authority_status" where
  "withdrawn_status w = (case w of Revoke \<Rightarrow> AuthRevoked | Suspend \<Rightarrow> AuthSuspended)"

definition revoke ::
  "authority_tables \<Rightarrow> string \<Rightarrow> string \<Rightarrow> int \<Rightarrow> withdrawal \<Rightarrow> (authority_tables \<times> task_authority option) result" where
  "revoke t jid reason now w =
     rthen (assertBoundedIdentity reason ''reason'')
       (case readAuthority t jid of
          None \<Rightarrow> Inr (t, None)
        | Some a \<Rightarrow>
            if taStatus a = withdrawn_status w \<or> taStatus a \<noteq> AuthActive then Inr (t, Some a)
            else rbind (revise t (a\<lparr>taRevision := taRevision a + 1, taStatus := withdrawn_status w, taUpdatedAt := now,
                     taRevokedAt := Some now, taRevokedReason := Some reason\<rparr>)
                   (case w of Revoke \<Rightarrow> ActRevoked | Suspend \<Rightarrow> ActSuspended) reason now ''Revoked task authority disappeared'')
                 (\<lambda>(t', r). Inr (t', Some r)))"

end
