(* ===== verification/Job_Leases.thy ===== *)
theory Job_Leases
  imports Pipeline_Database Authority_Store
begin

text \<open>
  The leases on the effects that do the work of a job (\<open>src/storage/store.ts\<close>):
  \<open>leaseNextJobEffect\<close> and its older form \<open>leaseEffects\<close>, the renewal
  \<open>renewJobOperationFences\<close>, the lease of an effect of the navigator
  (\<open>src/navigator/repository.ts\<close>), and the reconciliation effect that is queued again.

  The answers of what is not in the tables modelled here are an argument, \<open>lease_answers\<close>: the
  policy intent of an approval, the approval a merge was accepted with, and the navigator's claims.
\<close>

subsection \<open>Inputs\<close>

record job_lease_input =
  jlJobId :: string
  jlOwner :: string
  jlGeneration :: js_number
  jlNow :: js_number
  jlLeaseMs :: js_number

text \<open>What \<open>bindPolicyApprovalIntent\<close> finds: nothing to bind, no intent to bind, or the payload to store.\<close>

datatype intent_answer = IntentKept | IntentRefused | IntentBound js_object

record lease_answers =
  approvalIntent :: "database \<Rightarrow> stored_effect \<Rightarrow> intent_answer"
  mergeApproved :: "stored_effect \<Rightarrow> job \<Rightarrow> bool"
  ticketClaimHeld :: "string \<Rightarrow> string \<Rightarrow> bool"
  navigatorClaimsCurrent :: "job \<Rightarrow> effect_kind \<Rightarrow> bool"

definition NAVIGATOR_EFFECTS :: "effect_kind list" where
  "NAVIGATOR_EFFECTS = [run_navigator_skill, run_navigator_ticket_worker, run_navigator_release]"

definition fenced_kind :: "effect_kind \<Rightarrow> bool" where
  "fenced_kind k \<longleftrightarrow> k = merge_pr \<or> k = deploy_production \<or> k = verify_production"

subsection \<open>The next effect of a job\<close>

definition bindPolicyApprovalIntent ::
  "lease_answers \<Rightarrow> database \<Rightarrow> stored_effect \<Rightarrow> int \<Rightarrow> database \<times> stored_effect option" where
  "bindPolicyApprovalIntent ans db x now =
     (if kind x \<noteq> issue_approval then (db, Some x)
      else case approvalIntent ans db x of
        IntentKept \<Rightarrow> (db, Some x)
      | IntentRefused \<Rightarrow> (db, None)
      | IntentBound p \<Rightarrow>
          (let hit = (\<lambda>y. idempotencyKey y = idempotencyKey x \<and> (effStatus y = EffPending \<or> effStatus y = EffFailed))
           in (update_effect db hit (\<lambda>y. y\<lparr>payload := p, effectUpdatedAt := now\<rparr>),
               if changes hit (effects_table db) = 1 then Some (x\<lparr>payload := p\<rparr>) else None)))"

definition acceptedMergeEffectForLease :: "lease_answers \<Rightarrow> stored_effect \<Rightarrow> job \<Rightarrow> bool" where
  "acceptedMergeEffectForLease ans x j \<longleftrightarrow> kind x = merge_pr \<and> effectJobId x = job_id j \<and>
     idempotencyKey x = effect_key (job_id j) (version j) merge_pr \<and> state j = Merging \<and> cancelRequestedAt j = None \<and>
     prHeadSha j \<noteq> None \<and> mergeApproved ans x j"

text \<open>\<open>every\<close> stops at the first effect that is not admitted; what was admitted before it stays recorded.\<close>

fun admit_effects ::
  "database \<Rightarrow> authority_tables \<Rightarrow> stored_effect \<Rightarrow> int \<Rightarrow> authority_effect list \<Rightarrow> authority_tables \<times> bool" where
  "admit_effects db t x now [] = (t, True)"
| "admit_effects db t x now (e # es) =
     (case admitEffect db t (effectJobId x) (idempotencyKey x) e now of
        (t1, ok) \<Rightarrow> if ok then admit_effects db t1 x now es else (t1, False))"

text \<open>
  The fence of a merge or of production: lease the effect, pass over it, end the search, or give
  the whole transaction up (\<open>MergeClaimConflictError\<close>).
\<close>

datatype lease_fence = FencePassed database | FenceSkips | FenceEnds | FenceConflicts

definition lease_fence ::
  "lease_answers \<Rightarrow> database \<Rightarrow> job_admission \<Rightarrow> stored_effect \<Rightarrow> string \<Rightarrow> int \<Rightarrow> int \<Rightarrow> int \<Rightarrow> lease_fence result" where
  "lease_fence ans db a x owner gen now leaseMs =
     (if \<not> fenced_kind (kind x) then Inr (FencePassed db)
      else case readJobById db (effectJobId x) of
        None \<Rightarrow> Inr FenceEnds
      | Some j \<Rightarrow>
          if \<not> admissionJobPolicyIdentityIsValid a j then Inr FenceEnds
          else if kind x = merge_pr
          then (if mergeResourceRequirements j = None \<or> \<not> acceptedMergeEffectForLease ans x j then Inr FenceConflicts
                else rbind (acquireMergeClaims db j owner gen now leaseMs) (\<lambda>r.
                  Inr (case r of None \<Rightarrow> FenceConflicts | Some db' \<Rightarrow> FencePassed db')))
          else if productionClaimIsCurrentInTransaction db j owner gen now then Inr (FencePassed db) else Inr FenceSkips)"

text \<open>The rows in turn; \<open>None\<close> is the conflict that rolls the transaction back.\<close>

fun lease_candidates ::
  "lease_answers \<Rightarrow> database \<Rightarrow> authority_tables \<Rightarrow> job_admission \<Rightarrow> worker_liveness option \<Rightarrow>
   string \<Rightarrow> int \<Rightarrow> int \<Rightarrow> int \<Rightarrow> stored_effect list \<Rightarrow> (database \<times> authority_tables \<times> stored_effect option) option result" where
  "lease_candidates ans db t a w owner gen now leaseMs [] = Inr (Some (db, t, None))"
| "lease_candidates ans db t a w owner gen now leaseMs (x # xs) =
     (case bindPolicyApprovalIntent ans db x now of
        (db1, None) \<Rightarrow> lease_candidates ans db1 t a w owner gen now leaseMs xs
      | (db1, Some y) \<Rightarrow>
          if List.member NAVIGATOR_EFFECTS (kind y) \<or> \<not> admissionAllowsEffect a y w \<or>
             TASK_AUTHORITY_EFFECT_REQUIREMENTS (kind y) = []
          then lease_candidates ans db1 t a w owner gen now leaseMs xs
          else (case admit_effects db1 t y now (TASK_AUTHORITY_EFFECT_REQUIREMENTS (kind y)) of
             (t1, ok) \<Rightarrow>
               if \<not> ok then lease_candidates ans db1 t1 a w owner gen now leaseMs xs
               else rbind (lease_fence ans db1 a y owner gen now leaseMs) (\<lambda>r. case r of
                   FenceEnds \<Rightarrow> Inr (Some (db1, t1, None))
                 | FenceConflicts \<Rightarrow> Inr None
                 | FenceSkips \<Rightarrow> lease_candidates ans db1 t1 a w owner gen now leaseMs xs
                 | FencePassed db2 \<Rightarrow>
                     (let hit = (\<lambda>z. idempotencyKey z = idempotencyKey y \<and> effectJobId z = effectJobId y \<and> leasable z now);
                          db3 = update_effect db2 hit (take_lease owner gen now leaseMs) in
                      if changes hit (effects_table db2) \<noteq> 1
                      then (if kind y = merge_pr then Inr None
                            else lease_candidates ans db2 t1 a w owner gen now leaseMs xs)
                      else Inr (Some (db3, t1, effectByKey db3 (idempotencyKey y)))))))"

definition leaseNextJobEffect ::
  "lease_answers \<Rightarrow> database \<Rightarrow> authority_tables \<Rightarrow> job_lease_input \<Rightarrow>
   (database \<times> authority_tables \<times> stored_effect option) result" where
  "leaseNextJobEffect ans db t i =
     (let jid = jlJobId i; owner = jlOwner i; gen = whole (jlGeneration i); now = whole (jlNow i) in
      rthen (assertLeaseInput owner (jlNow i) (jlLeaseMs i))
     (rthen (assertPositiveInteger (jlGeneration i) ''generation'')
     (rthen (guard (jid \<noteq> [] \<and> length jid \<le> 256) (TypeError ''jobId is invalid''))
        (if \<not> executorLeaseIsCurrent db owner gen now then Inr (db, t, None)
         else case readAdmission db jid of
           None \<Rightarrow> Inr (db, t, None)
         | Some a \<Rightarrow>
             if admState a = Queued \<or> admState a = Released then Inr (db, t, None)
             else if \<not> list_ex (\<lambda>c. claim_current c jid owner gen now \<and> claimKey c = projectResourceKey (admProjectId a) \<and>
                          claimKind c = ProjectResource) (claims_table db)
             then Inr (db, t, None)
             else if list_ex (\<lambda>x. effectJobId x = jid \<and> lease_live x now) (effects_table db) then Inr (db, t, None)
             else rbind (lease_candidates ans db t a (getWorkerLiveness db jid) owner gen now (whole (jlLeaseMs i))
                     (select_ordered (\<lambda>x. effectJobId x = jid \<and> leasable x now) (\<lambda>x. (effectCreatedAt x, idempotencyKey x))
                        100 (effects_table db))) (\<lambda>r.
                  Inr (case r of None \<Rightarrow> (db, t, None) | Some q \<Rightarrow> q))))))"

text \<open>The older form: due effects of any job, each lease a transaction of its own; an error ends the pass.\<close>

fun lease_due_rows ::
  "lease_answers \<Rightarrow> database \<Rightarrow> authority_tables \<Rightarrow> string \<Rightarrow> js_number \<Rightarrow> js_number \<Rightarrow> js_number \<Rightarrow> stored_effect list \<Rightarrow>
   database \<times> authority_tables \<times> stored_effect list result" where
  "lease_due_rows ans db t owner gen now leaseMs [] = (db, t, Inr [])"
| "lease_due_rows ans db t owner gen now leaseMs (x # xs) =
     (if \<not> executorLeaseIsCurrent db owner (whole gen) (whole now) then (db, t, Inr [])
      else if List.member NAVIGATOR_EFFECTS (kind x) then lease_due_rows ans db t owner gen now leaseMs xs
      else if fenced_kind (kind x)
      then (case leaseNextJobEffect ans db t \<lparr>jlJobId = effectJobId x, jlOwner = owner, jlGeneration = gen, jlNow = now,
                   jlLeaseMs = leaseMs\<rparr> of
              Inl e \<Rightarrow> (db, t, Inl e)
            | Inr (db1, t1, c) \<Rightarrow>
                (case lease_due_rows ans db1 t1 owner gen now leaseMs xs of (db2, t2, ys) \<Rightarrow>
                   (db2, t2, rbind ys (\<lambda>zs. Inr (case c of
                      Some y \<Rightarrow> if idempotencyKey y = idempotencyKey x then y # zs else zs | None \<Rightarrow> zs)))))
      else (let hit = (\<lambda>y. idempotencyKey y = idempotencyKey x \<and> leasable y (whole now));
                db1 = update_effect db hit (take_lease owner (whole gen) (whole now) (whole leaseMs)) in
            if changes hit (effects_table db) \<noteq> 1 then lease_due_rows ans db t owner gen now leaseMs xs
            else (case lease_due_rows ans db1 t owner gen now leaseMs xs of (db2, t2, ys) \<Rightarrow>
              (db2, t2, rbind ys (\<lambda>zs. Inr (the (effectByKey db1 (idempotencyKey x)) # zs))))))"

definition leaseEffects ::
  "lease_answers \<Rightarrow> database \<Rightarrow> authority_tables \<Rightarrow> string \<Rightarrow> js_number \<Rightarrow> js_number \<Rightarrow> js_number \<Rightarrow> js_number \<Rightarrow>
   database \<times> authority_tables \<times> stored_effect list result" where
  "leaseEffects ans db t owner gen now limit leaseMs =
     (case rthen (assertLeaseInput owner now leaseMs)
        (rthen (assertPositiveInteger gen ''generation'')
           (guard (is_integer limit \<and> 1 \<le> whole limit \<and> whole limit \<le> 100) (TypeError ''limit must be between 1 and 100''))) of
        Inl e \<Rightarrow> (db, t, Inl e)
      | Inr _ \<Rightarrow>
          if \<not> executorLeaseIsCurrent db owner (whole gen) (whole now) then (db, t, Inr [])
          else lease_due_rows ans db t owner gen now leaseMs
                 (select_ordered (\<lambda>x. leasable x (whole now)) (\<lambda>x. (effectCreatedAt x, idempotencyKey x))
                    (nat (whole limit)) (effects_table db)))"

subsection \<open>Renewal, the navigator, reconciliation\<close>

definition renewJobOperationFences ::
  "lease_answers \<Rightarrow> database \<Rightarrow> string \<Rightarrow> job_lease_input \<Rightarrow> (database \<times> bool) result" where
  "renewJobOperationFences ans db key i =
     (let jid = jlJobId i; owner = jlOwner i; gen = whole (jlGeneration i); now = whole (jlNow i);
          leaseEnd = whole (jlNow i) + whole (jlLeaseMs i) in
      rthen (assertLeaseInput owner (jlNow i) (jlLeaseMs i))
     (rthen (assertPositiveInteger (jlGeneration i) ''generation'')
     (rthen (guard (jid \<noteq> [] \<and> key \<noteq> []) (TypeError ''job operation identity is required''))
        (if \<not> executorLeaseIsCurrent db owner gen now then Inr (db, False)
         else case get_where (\<lambda>x. effectJobId x = jid \<and> idempotencyKey x = key) (effects_table db) of
           None \<Rightarrow> Inr (db, False)
         | Some x \<Rightarrow>
             if \<not> lease_held x owner gen now then Inr (db, False)
             else if kind x = run_navigator_ticket_worker \<and> \<not> ticketClaimHeld ans jid key then Inr (db, False)
             else if (kind x = deploy_production \<or> kind x = verify_production) \<and>
                \<not> (case (readJobById db jid, readAdmission db jid) of
                     (Some j, Some a) \<Rightarrow> admissionJobPolicyIdentityIsValid a j \<and>
                       productionClaimIsCurrentInTransaction db j owner gen now
                   | _ \<Rightarrow> False)
             then Inr (db, False)
             else (let held = filter (\<lambda>c. claimJobId c = jid \<and> claimHeld c) (claims_table db) in
               if list_ex (\<lambda>c. claimOwner c \<noteq> owner \<or> claimGeneration c \<noteq> gen) held then Inr (db, False)
               else if List.member NAVIGATOR_EFFECTS (kind x) \<and>
                  \<not> (case readJobById db jid of None \<Rightarrow> False | Some j \<Rightarrow> navigatorClaimsCurrent ans j (kind x))
               then Inr (db, False)
               else (let hit = (\<lambda>y. effectJobId y = jid \<and> idempotencyKey y = key \<and> lease_held y owner gen now);
                         db1 = update_effect db hit (\<lambda>y. y\<lparr>leaseExpiresAt := Some leaseEnd, effectUpdatedAt := now\<rparr>);
                         mine = (\<lambda>c. claimJobId c = jid \<and> claimHeld c \<and> claimOwner c = owner \<and> claimGeneration c = gen) in
                 if changes hit (effects_table db) \<noteq> 1 then Inr (db1, False)
                 else if held = [] then Inr (db1, True)
                 else if changes mine (claims_table db) \<noteq> length held
                 then Inl (PlainError ''job resource claim changed during operation fence renewal'')
                 else Inr (db1\<lparr>claims_table := update_where mine
                        (\<lambda>c. c\<lparr>claimExpiresAt := leaseEnd, renewedAt := now\<rparr>) (claims_table db)\<rparr>, True)))))))"

text \<open>The lease of an effect of the navigator; the checks before it read the navigator's own tables.\<close>

definition updateNavigatorEffectLease ::
  "database \<Rightarrow> stored_effect \<Rightarrow> string \<Rightarrow> int \<Rightarrow> int \<Rightarrow> int \<Rightarrow> database \<times> bool" where
  "updateNavigatorEffectLease db x owner gen now leaseMs =
     (let hit = (\<lambda>y. idempotencyKey y = idempotencyKey x \<and> leasable y now) in
      (update_effect db hit (take_lease owner gen now leaseMs), changes hit (effects_table db) = 1))"

text \<open>
  A thread the program knows is looked at again: its reconciliation effect is inserted, or queued
  again when it was settled.  The job is the one the thread was found for.
\<close>

definition reopen_effect :: "int \<Rightarrow> stored_effect \<Rightarrow> stored_effect" where
  "reopen_effect now x = (drop_lease EffPending None now x)\<lparr>effAttempts := 0, nextAttemptAt := now\<rparr>"

definition enqueueReconcileForKnownThread ::
  "js_web \<Rightarrow> database \<Rightarrow> job option \<Rightarrow> string \<Rightarrow> int \<Rightarrow> (database \<times> bool) result" where
  "enqueueReconcileForKnownThread web db found threadId now =
     (case found of
        None \<Rightarrow> Inr (db, False)
      | Some j \<Rightarrow>
          (let key = ''reconcile:'' @ job_id j @ '':'' @ threadId; body = [(''threadId'', JStr threadId)] in
           rbind (serializeBoundedJson web (JObj body) ''reconcile effect payload'' MAX_MERGE_RESULT_JSON) (\<lambda>_.
              if effectByKey db key = None
              then Inr (db\<lparr>effects_table := effects_table db @
                     [pending_effect \<lparr>idempotencyKey = key, effectJobId = job_id j, kind = reconcile_job, payload = body\<rparr> now]\<rparr>, True)
              else (let settled = (\<lambda>x. idempotencyKey x = key \<and>
                          (effStatus x = EffDone \<or> effStatus x = EffFailed \<or> effStatus x = EffDead)) in
                Inr (update_effect db settled (reopen_effect now), changes settled (effects_table db) = 1)))))"

subsection \<open>What the operations write\<close>

text \<open>A leased effect has an end of its lease.\<close>

definition timed :: "stored_effect \<Rightarrow> bool" where
  "timed x \<longleftrightarrow> (effStatus x = EffLeased \<longrightarrow> leaseExpiresAt x \<noteq> None)"

lemma timed_simps [simp]: "timed (take_lease ow g t ms x)" "s \<noteq> EffLeased \<Longrightarrow> timed (drop_lease s err t x)"
  "timed (pending_effect y t)" "timed (x\<lparr>leaseExpiresAt := Some e, effectUpdatedAt := t\<rparr>)"
  "timed (x\<lparr>nextAttemptAt := n\<rparr>) = timed x" "timed (x\<lparr>effAttempts := k\<rparr>) = timed x"
  "timed (x\<lparr>payload := p, effectUpdatedAt := t\<rparr>) = timed x" "timed (x\<lparr>payload := p\<rparr>) = timed x"
  by (simp_all add: timed_def take_lease_def drop_lease_def pending_effect_def)

text \<open>
  Every operation of this theory is a sequence of writes of four kinds: rows of the queue are
  rewritten under their keys without losing the end of a lease, a pending effect with a new key
  is appended, the claims of a merge are acquired, claims are renewed.
\<close>

inductive queue_write :: "database \<Rightarrow> database \<Rightarrow> bool" for db where
  same: "queue_write db db"
| rewrite: "queue_write db db1 \<Longrightarrow> (\<And>x. idempotencyKey (f x) = idempotencyKey x) \<Longrightarrow> (\<And>x. timed x \<Longrightarrow> timed (f x)) \<Longrightarrow>
    queue_write db (update_effect db1 p f)"
| append: "queue_write db db1 \<Longrightarrow> (\<forall>y \<in> set (effects_table db1). idempotencyKey y \<noteq> idempotencyKey x) \<Longrightarrow> timed x \<Longrightarrow>
    queue_write db (db1\<lparr>effects_table := effects_table db1 @ [x]\<rparr>)"
| merge: "queue_write db db1 \<Longrightarrow> acquireMergeClaims db1 j ow g t ms = Inr (Some db2) \<Longrightarrow> queue_write db db2"
| renew: "queue_write db db1 \<Longrightarrow>
    queue_write db (db1\<lparr>claims_table := update_where p (\<lambda>c. c\<lparr>claimExpiresAt := e, renewedAt := t\<rparr>) (claims_table db1)\<rparr>)"

lemmas queue_write_same [simp] = queue_write.same

lemma queue_write_trans: "queue_write db1 db2 \<Longrightarrow> queue_write db db1 \<Longrightarrow> queue_write db db2"
  by (induction rule: queue_write.induct) (auto intro: queue_write.intros)

lemma queue_write_rewrite:
  "(\<And>x. idempotencyKey (f x) = idempotencyKey x) \<Longrightarrow> (\<And>x. timed x \<Longrightarrow> timed (f x)) \<Longrightarrow> queue_write db (update_effect db p f)"
  by (rule queue_write.rewrite [OF queue_write.same])

lemma bind_intent_write: "bindPolicyApprovalIntent ans db x now = (db', r) \<Longrightarrow> queue_write db db'"
  by (auto simp: bindPolicyApprovalIntent_def Let_def split: if_splits intent_answer.splits intro!: queue_write_rewrite)

lemma fence_write: "lease_fence ans db a x ow g t ms = Inr (FencePassed db') \<Longrightarrow> queue_write db db'"
  by (auto simp: lease_fence_def rbind_eq_Inr split: if_splits option.splits intro: queue_write.merge [OF queue_write.same])

lemma candidates_write:
  "lease_candidates ans db t a w ow g now ms xs = Inr (Some (db', t', r)) \<Longrightarrow> queue_write db db'"
proof (induction xs arbitrary: db t)
  case (Cons x xs)
  obtain db1 y where b: "bindPolicyApprovalIntent ans db x now = (db1, y)" by (cases "bindPolicyApprovalIntent ans db x now")
  have "queue_write db1 db'"
  proof (cases y)
    case None
    with Cons b show ?thesis by simp
  next
    case (Some z)
    obtain t1 ok where ad: "admit_effects db1 t z now (TASK_AUTHORITY_EFFECT_REQUIREMENTS (kind z)) = (t1, ok)"
      by (cases "admit_effects db1 t z now (TASK_AUTHORITY_EFFECT_REQUIREMENTS (kind z))")
    let ?hit = "\<lambda>v. idempotencyKey v = idempotencyKey z \<and> effectJobId v = effectJobId z \<and> leasable v now"
    have lease: "queue_write db2 (update_effect db2 ?hit (take_lease ow g now ms))" for db2 by (rule queue_write_rewrite) simp_all
    show ?thesis
    proof (cases "List.member NAVIGATOR_EFFECTS (kind z) \<or> \<not> admissionAllowsEffect a z w \<or>
        TASK_AUTHORITY_EFFECT_REQUIREMENTS (kind z) = [] \<or> \<not> ok")
      case True
      with Cons.prems show ?thesis by (auto simp: b Some ad dest: Cons.IH split: if_splits)
    next
      case False
      with Cons.prems obtain f where f: "lease_fence ans db1 a z ow g now ms = Inr f"
        by (auto simp: b Some ad rbind_eq_Inr)
      with False Cons.prems show ?thesis
      proof (cases f)
        case (FencePassed db2)
        have q: "queue_write db1 db2" using f FencePassed by (simp add: fence_write)
        from False Cons.prems f FencePassed
        have "db' = update_effect db2 ?hit (take_lease ow g now ms) \<or> lease_candidates ans db2 t1 a w ow g now ms xs = Inr (Some (db', t', r))"
          by (auto simp: b Some ad Let_def split: if_splits)
        then have "queue_write db2 db'" using Cons.IH lease by blast
        from queue_write_trans [OF this q] show ?thesis .
      qed (auto simp: b Some ad dest: Cons.IH)
    qed
  qed
  with bind_intent_write [OF b] show ?case by (rule queue_write_trans [rotated])
qed simp

lemma leaseNext_write: "leaseNextJobEffect ans db t i = Inr (db', t', r) \<Longrightarrow> queue_write db db'"
  by (auto simp: leaseNextJobEffect_def Let_def rthen_eq_Inr rbind_eq_Inr
      split: if_splits option.splits dest: candidates_write)

lemma lease_due_write: "lease_due_rows ans db t ow g now ms xs = (db', t', r) \<Longrightarrow> queue_write db db'"
proof (induction xs arbitrary: db t r)
  case (Cons x xs)
  let ?db1 = "update_effect db (\<lambda>y. idempotencyKey y = idempotencyKey x \<and> leasable y (whole now)) (take_lease ow (whole g) (whole now) (whole ms))"
  have lease: "queue_write db ?db1" by (rule queue_write_rewrite) simp_all
  from Cons.prems show ?case
    by (auto simp: Let_def split: if_splits sum.splits prod.splits option.splits
        dest: Cons.IH leaseNext_write intro: queue_write_trans lease)
qed simp

lemma leaseEffects_write: "leaseEffects ans db t ow g now lim ms = (db', t', r) \<Longrightarrow> queue_write db db'"
  by (auto simp: leaseEffects_def split: sum.splits if_splits dest: lease_due_write)

lemma renewJob_write: "renewJobOperationFences ans db key i = Inr (db', r) \<Longrightarrow> queue_write db db'"
proof -
  assume "renewJobOperationFences ans db key i = Inr (db', r)"
  let ?now = "whole (jlNow i)"
  let ?e = "whole (jlNow i) + whole (jlLeaseMs i)"
  have w: "queue_write db (update_effect db p (\<lambda>y. y\<lparr>leaseExpiresAt := Some ?e, effectUpdatedAt := ?now\<rparr>))" for p
    by (rule queue_write_rewrite) simp_all
  have r: "queue_write db (update_effect db p (\<lambda>y. y\<lparr>leaseExpiresAt := Some ?e, effectUpdatedAt := ?now\<rparr>)\<lparr>claims_table :=
      update_where q (\<lambda>c. c\<lparr>claimExpiresAt := ?e, renewedAt := ?now\<rparr>) (claims_table db)\<rparr>)" for p q
    using queue_write.renew [OF w [of p], where p = q and e = ?e and t = ?now] by (simp add: update_effect_def)
  from \<open>renewJobOperationFences ans db key i = Inr (db', r)\<close> show ?thesis
    unfolding renewJobOperationFences_def Let_def rthen_eq_Inr
    by (auto simp: w r split: if_splits option.splits)
qed

lemma navigator_lease_write: "updateNavigatorEffectLease db x ow g now ms = (db', r) \<Longrightarrow> queue_write db db'"
  by (auto simp: updateNavigatorEffectLease_def Let_def intro: queue_write_rewrite)

lemma timed_reopen [simp]: "timed (reopen_effect now x)" "idempotencyKey (reopen_effect now x) = idempotencyKey x"
  by (simp_all add: reopen_effect_def)

lemma reconcile_write:
  assumes "enqueueReconcileForKnownThread web db found tid now = Inr (db', r)"
  shows "queue_write db db'"
proof (cases found)
  case None
  with assms show ?thesis by (simp add: enqueueReconcileForKnownThread_def)
next
  case (Some j)
  let ?key = "''reconcile:'' @ job_id j @ '':'' @ tid"
  let ?x = "pending_effect \<lparr>idempotencyKey = ?key, effectJobId = job_id j, kind = reconcile_job, payload = [(''threadId'', JStr tid)]\<rparr> now"
  from assms Some have "(effectByKey db ?key = None \<and> db' = db\<lparr>effects_table := effects_table db @ [?x]\<rparr>) \<or>
      (\<exists>p. db' = update_effect db p (reopen_effect now))"
    by (auto simp: enqueueReconcileForKnownThread_def Let_def rbind_eq_Inr split: if_splits)
  then show ?thesis
  proof (elim disjE conjE exE)
    assume new: "effectByKey db ?key = None" and db': "db' = db\<lparr>effects_table := effects_table db @ [?x]\<rparr>"
    show ?thesis unfolding db'
      by (rule queue_write.append [OF queue_write.same]) (use new in \<open>auto simp: effectByKey_def get_where_None pending_effect_def timed_def\<close>)
  qed (simp add: queue_write_rewrite)
qed

lemmas job_lease_writes = leaseNext_write leaseEffects_write renewJob_write navigator_lease_write reconcile_write

lemma queue_write_ok: "queue_write db db' \<Longrightarrow> db_ok db \<Longrightarrow> db_ok db'"
proof (induction rule: queue_write.induct)
  case (rewrite db1 f p)
  then show ?case by (intro update_effect_ok) simp_all
next
  case (append db1 x)
  then show ?case by (auto simp: db_ok_defs unique_append)
next
  case (merge db1 j ow g t ms db2)
  then show ?case by (blast intro: acquireMergeClaims_ok)
next
  case (renew db1 p e t)
  then show ?case by (intro update_claims_ok) simp_all
qed simp

end
