(* ===== verification/Job_Events.thy ===== *)
theory Job_Events
  imports Release
begin

text \<open>
  The operations of \<open>src/storage/store.ts\<close> through which the rest of the program moves a job:
  \<open>createJob\<close>, \<open>selectProjectAndQueueAdmission\<close>, \<open>applyJobEvent\<close> and \<open>retryFailedJob\<close>, with the
  native-adapter requirement of \<open>src/capabilities/native-adapters.ts\<close> that guards the second to last.

  Each also writes rows of tables outside the model (authority receipts, release findings, the
  outbox, worker recoveries); those writes are left out.
\<close>

subsection \<open>Native adapters\<close>

datatype native_adapter_transition = PlanWorktreeCreated | ImplementationWorktreeCreated | ReviewCreated | BranchFinished

record native_adapter_activation =
  selectedCapabilityIds :: "string list"
  deniedCapabilityIds :: "string list" \<comment> \<open>each for the reason \<open>one_writer_worktree\<close>\<close>

datatype terminal_outcome = OutcomePassed | OutcomeFindings | OutcomeBlocked | OutcomeFailed

record native_adapter_requirement =
  requiredTransition :: native_adapter_transition
  capabilityIds :: "string list"
  acceptedOutcomes :: "terminal_outcome list"

definition workflowDiscipline :: string where "workflowDiscipline = ''hanoon-native-using-superpowers''"

definition sortedUnique :: "string list \<Rightarrow> string list" where
  "sortedUnique values = sort (remdups values)"

text \<open>\<open>laneCount\<close> is the optional field of \<open>REVIEW_STARTED\<close> that the reducer does not read.\<close>

definition nativeAdapterActivationForTransition ::
  "job \<Rightarrow> native_adapter_transition \<Rightarrow> js_number option \<Rightarrow> native_adapter_activation result" where
  "nativeAdapterActivationForTransition j t laneCount =
     (case t of
        PlanWorktreeCreated \<Rightarrow>
          Inr \<lparr>selectedCapabilityIds = sort [''hanoon-native-using-git-worktrees'', workflowDiscipline], deniedCapabilityIds = []\<rparr>
      | ImplementationWorktreeCreated \<Rightarrow>
          Inr \<lparr>selectedCapabilityIds = sortedUnique ([''hanoon-native-using-git-worktrees'', workflowDiscipline] @
                 (if taskRecipe j = Architectural then [''hanoon-native-executing-plans''] else [])),
               deniedCapabilityIds = [''hanoon-native-subagent-driven-development'']\<rparr>
      | ReviewCreated \<Rightarrow>
          (case laneCount of
             Some (Whole n) \<Rightarrow>
               if n < 1 \<or> n > 4 then Inl (TypeError ''Active review adapter requires a bounded review-lane count'')
               else Inr \<lparr>selectedCapabilityIds = sortedUnique ([''hanoon-native-requesting-code-review'', workflowDiscipline] @
                      (if n > 1 then [''hanoon-native-dispatching-parallel-agents''] else [])), deniedCapabilityIds = []\<rparr>
           | _ \<Rightarrow> Inl (TypeError ''Active review adapter requires a bounded review-lane count''))
      | BranchFinished \<Rightarrow>
          Inr \<lparr>selectedCapabilityIds = sort [''hanoon-native-finishing-a-development-branch'', workflowDiscipline],
               deniedCapabilityIds = []\<rparr>)"

definition adapterIdsForTransition :: "job \<Rightarrow> native_adapter_transition \<Rightarrow> js_number option \<Rightarrow> string list result" where
  "adapterIdsForTransition j t laneCount =
     rbind (nativeAdapterActivationForTransition j t laneCount) (\<lambda>a. Inr (selectedCapabilityIds a))"

fun event_adapter :: "job_state \<Rightarrow> job_event \<Rightarrow> (native_adapter_transition \<times> terminal_outcome list) option" where
  "event_adapter s (PLAN_CREATED _ _ _) = Some (PlanWorktreeCreated, [OutcomePassed])"
| "event_adapter s (IMPLEMENTATION_CREATED _ _) = Some (ImplementationWorktreeCreated, [OutcomePassed])"
| "event_adapter s REVIEW_STARTED = Some (ReviewCreated, [OutcomePassed])"
| "event_adapter s (PR_LOCATED _ _) = (if s = LocatingPr then Some (BranchFinished, [OutcomePassed]) else None)"
| "event_adapter s (PR_MISSING _) = (if s = LocatingPr then Some (BranchFinished, [OutcomeFailed, OutcomeBlocked]) else None)"
| "event_adapter s (PR_UNAVAILABLE _) = (if s = LocatingPr then Some (BranchFinished, [OutcomeFailed, OutcomeBlocked]) else None)"
| "event_adapter s _ = None"

definition nativeAdapterRequirementForEvent ::
  "job \<Rightarrow> job_event \<Rightarrow> js_number option \<Rightarrow> native_adapter_requirement option result" where
  "nativeAdapterRequirementForEvent j e laneCount =
     (if workflowEngine j \<noteq> RecipeV1 \<or> routingMode j \<noteq> ActiveRouting then Inr None
      else case event_adapter (state j) e of
          None \<Rightarrow> Inr None
        | Some (t, outcomes) \<Rightarrow>
            rbind (adapterIdsForTransition j t laneCount) (\<lambda>ids.
              Inr (Some \<lparr>requiredTransition = t, capabilityIds = ids, acceptedOutcomes = outcomes\<rparr>)))"

subsection \<open>The events any caller may apply\<close>

definition ADMITTED_EVENTS :: "string list" where
  "ADMITTED_EVENTS = [''CONFIRMED'', ''CONTINUE_REVIEW'', ''RETRY'']"

definition FENCED_JOB_EVENT_TYPES :: "string list" where
  "FENCED_JOB_EVENT_TYPES = [''MERGE_SUCCEEDED'', ''MERGE_FAILED'', ''DEPLOY_SUCCEEDED'', ''DEPLOY_FAILED'',
     ''CANARY_SUCCEEDED'', ''CANARY_FAILED'', ''PRODUCTION_INCIDENT_RECOVERED'', ''WORKER_RECOVERY_REQUESTED'',
     ''WORKER_RECOVERY_REQUEUED'']"

definition NAVIGATOR_RELEASE_STATES :: "job_state list" where
  "NAVIGATOR_RELEASE_STATES = [LocatingPr, ResolvingPrHead, Validating, Reviewing, Remediating, Documenting,
     ResolvingDocsHead, FinalValidating, FinalReviewing, AwaitingMergeApproval, Merging, Deploying, VerifyingProduction]"

text \<open>
  The job's part of \<open>settleNavigatorReleaseReturn\<close>: a job of the navigator engine that leaves the
  release states starts a new revision of its workflow.
\<close>

definition settleNavigatorReleaseReturn :: "database \<Rightarrow> job \<Rightarrow> job \<Rightarrow> database \<times> job" where
  "settleNavigatorReleaseReturn db previous j =
     (let leave = (\<lambda>i. i\<lparr>workflowRevision := workflowRevision i + 1, currentWorkflowStepId := None\<rparr>) in
      if workflowEngine previous \<noteq> NavigatorV1 \<or> \<not> List.member NAVIGATOR_RELEASE_STATES (state previous) \<or>
         \<not> List.member [Implementing, Complete, Merged, ProductionFailed] (state j) then (db, j)
      else (db\<lparr>jobs_table := update_where (\<lambda>r. row_id r = job_id j) (\<lambda>r. r\<lparr>row_job := leave (row_job r)\<rparr>) (jobs_table db)\<rparr>,
            leave j))"

definition markAdmissionDrainingForTerminal :: "database \<Rightarrow> job \<Rightarrow> int \<Rightarrow> database result" where
  "markAdmissionDrainingForTerminal db j now =
     (if \<not> isReleaseCandidate (state j) then Inr db
      else rbind (markDrainingInTransaction db (job_id j) (Whole now)) (\<lambda>(db', _). Inr db'))"

text \<open>The part of a transaction that every operation which moves a job shares: transition, job row, effects.\<close>

definition store_transition ::
  "js_runtime \<Rightarrow> js_web \<Rightarrow> database \<Rightarrow> job \<Rightarrow> job_event \<Rightarrow> int \<Rightarrow> (database \<times> job) result" where
  "store_transition rt web db j e now =
     rbind (transition rt j e now) (\<lambda>(j', es).
     rbind (persistJobTransition web db (job_id j) (version j) j') (\<lambda>db1.
     rbind (persistPendingEffects web db1 es now) (\<lambda>db2. Inr (db2, j'))))"

definition applyJobEvent ::
  "js_runtime \<Rightarrow> js_web \<Rightarrow> database \<Rightarrow> string \<Rightarrow> int \<Rightarrow> job_event \<Rightarrow> js_number option \<Rightarrow> int \<Rightarrow> (database \<times> job) result" where
  "applyJobEvent rt web db jid expectedVersion e laneCount now =
     (if List.member ADMITTED_EVENTS (event_type e) then Inl (AdmissionRequiredError (event_type e))
      else if List.member FENCED_JOB_EVENT_TYPES (event_type e)
      then Inl (PlainError (event_type e @ '' must be applied through its fenced executor API''))
      else case readJobById db jid of
        None \<Rightarrow> Inl (PlainError (''Job '' @ jid @ '' was not found''))
      | Some j \<Rightarrow>
          if version j \<noteq> expectedVersion then Inl (VersionConflictError jid expectedVersion)
          else rbind (nativeAdapterRequirementForEvent j e laneCount) (\<lambda>adapter.
            if adapter \<noteq> None
            then Inl (PlainError (event_type e @ '' requires the fenced native-adapter transition API''))
            else rbind (store_transition rt web db j e now) (\<lambda>(db1, j').
              (let (db2, j2) = settleNavigatorReleaseReturn db1 j j'
               in rbind (markAdmissionDrainingForTerminal db2 j2 now) (\<lambda>db3. Inr (db3, j2))))))"

subsection \<open>Into the queue, and a retry\<close>

text \<open>\<open>INSERT OR IGNORE\<close>: a row whose id or update id is taken is dropped, and the stored one compared.\<close>

definition createJob ::
  "database \<Rightarrow> string \<Rightarrow> js_number \<Rightarrow> string \<Rightarrow> workflow_mode option \<Rightarrow> int \<Rightarrow> (database \<times> job) result" where
  "createJob db jid sourceUpdate task navigatorMode now =
     (if jid = [] \<or> task = [] then Inl (TypeError ''Job id and request text are required'')
      else if \<not> is_integer sourceUpdate \<or> whole sourceUpdate < 0
      then Inl (TypeError ''sourceUpdateId must be a non-negative integer'')
      else if navigatorMode = Some LiveMode then Inl (TypeError ''navigator workflow identity is invalid'')
      else (let engine = (if navigatorMode = None then RecipeV1 else NavigatorV1);
                md = opt_default navigatorMode LiveMode;
                new = \<lparr>row_job = new_job_row jid (whole sourceUpdate) task engine md now, autoContinueCount = 0,
                       autoContinueKey = None, autoContinueEscalatedAt = None\<rparr>;
                taken = (\<lambda>r. row_id r = jid \<or> sourceUpdateId (row_job r) = whole sourceUpdate);
                db' = (if list_ex taken (jobs_table db) then db else db\<lparr>jobs_table := jobs_table db @ [new]\<rparr>);
                stored = (case readJobById db' jid of
                            Some j \<Rightarrow> Some j
                          | None \<Rightarrow> map_option row_job
                              (get_where (\<lambda>r. sourceUpdateId (row_job r) = whole sourceUpdate) (jobs_table db')))
            in case stored of
                 None \<Rightarrow> Inl (PlainError ''Job was not stored'')
               | Some j \<Rightarrow>
                   if sourceUpdateId j \<noteq> whole sourceUpdate \<or> requestText j \<noteq> task \<or> workflowEngine j \<noteq> engine \<or>
                      workflowMode j \<noteq> md
                   then Inl (IdempotencyConflictError (whole sourceUpdate)) else Inr (db', j)))"

definition assertControllerIdentifier :: "string \<Rightarrow> string \<Rightarrow> unit result" where
  "assertControllerIdentifier v field =
     guard (v \<noteq> [] \<and> length v \<le> 256) (TypeError (field @ '' must be between 1 and 256 characters''))"

definition selectProjectAndQueueAdmission ::
  "js_runtime \<Rightarrow> js_web \<Rightarrow> database \<Rightarrow> string \<Rightarrow> js_number \<Rightarrow> string \<Rightarrow> js_number \<Rightarrow> project_policy \<Rightarrow> js_number \<Rightarrow>
   (database \<times> job) result" where
  "selectProjectAndQueueAdmission rt web db jid expectedVersion pid policyVer p now =
     rthen (assertNotEmpty jid ''jobId'')
    (rthen (assertPositiveInteger expectedVersion ''expectedVersion'')
    (rthen (assertControllerIdentifier pid ''projectId'')
    (rthen (assertPositiveInteger policyVer ''policyVersion'')
    (rthen (assertNonNegativeInteger now ''now'')
       (case readJobById db jid of
          None \<Rightarrow> Inl (PlainError (''Job '' @ jid @ '' was not found''))
        | Some j \<Rightarrow>
            if version j \<noteq> whole expectedVersion then Inl (VersionConflictError jid (whole expectedVersion))
            else rbind
              (if state j = AwaitingProject
               then store_transition rt web db j (PROJECT_SELECTED pid policyVer p) (whole now)
               else if state j \<noteq> AwaitingConfirmation \<or> projectId j \<noteq> Some pid \<or> policyVersion j \<noteq> Some (whole policyVer) \<or>
                  (case policy j of None \<Rightarrow> True | Some q \<Rightarrow> policyProjectId q \<noteq> pid)
               then Inl (AutonomyAdmissionConflictError jid ''project selection is no longer current'')
               else Inr (db, j))
              (\<lambda>(db1, j').
                 rbind (queueAdmissionInTransaction db1 \<lparr>writeJobId = jid, writeVersion = Whole (version j'),
                          writeProjectId = pid, writeResumeEvent = ResumeConfirmed, writeNow = now\<rparr> QueueMode)
                   (\<lambda>(db2, _). Inr (db2, j'))))))))"

datatype retry_job_result =
  JobRetried job job_admission | RetryQueued job job_admission | RetryAlreadyQueued job job_admission | RetryUnavailable

text \<open>The transaction of \<open>retryFailedJob\<close>, without the recovery row it marks.\<close>

definition retry_in_transaction ::
  "js_runtime \<Rightarrow> js_web \<Rightarrow> database \<Rightarrow> string \<Rightarrow> js_number \<Rightarrow> js_number \<Rightarrow> (database \<times> retry_job_result) result" where
  "retry_in_transaction rt web db jid expectedVersion now =
     (case (readJobById db jid, readAdmission db jid) of
        (Some j, Some a) \<Rightarrow>
          if version j \<noteq> whole expectedVersion \<or> cancelRequestedAt j \<noteq> None \<or>
             \<not> (state j = Failed \<and> resumeState j \<noteq> None \<or> isResumablePermanentFailure j)
          then Inr (db, RetryUnavailable)
          else if projectId j \<noteq> Some (admProjectId a) \<or>
             (case policy j of None \<Rightarrow> True | Some p \<Rightarrow> policyProjectId p \<noteq> admProjectId a)
          then Inr (db, RetryUnavailable)
          else (case admState a of
              Queued \<Rightarrow> Inr (db, if admResumeEvent a = ResumeByRetry then RetryAlreadyQueued j a else RetryUnavailable)
            | Released \<Rightarrow>
                rbind (queueAdmissionInTransaction db \<lparr>writeJobId = jid, writeVersion = expectedVersion,
                         writeProjectId = admProjectId a, writeResumeEvent = ResumeByRetry, writeNow = now\<rparr> RequeueMode)
                  (\<lambda>(db', b). Inr (db', RetryQueued j b))
            | Draining \<Rightarrow> Inr (db, RetryUnavailable)
            | Admitted \<Rightarrow>
                rbind (store_transition rt web db j RETRY (whole now)) (\<lambda>(db', j'). Inr (db', JobRetried j' a)))
      | _ \<Rightarrow> Inr (db, RetryUnavailable))"

definition retryFailedJob ::
  "js_runtime \<Rightarrow> js_web \<Rightarrow> database \<Rightarrow> string \<Rightarrow> js_number \<Rightarrow> js_number \<Rightarrow> (database \<times> retry_job_result) result" where
  "retryFailedJob rt web db jid expectedVersion now =
     rthen (assertNotEmpty jid ''jobId'')
    (rthen (assertPositiveInteger expectedVersion ''expectedVersion'')
    (rthen (assertNonNegativeInteger now ''now'')
       (case retry_in_transaction rt web db jid expectedVersion now of
          Inl (AutonomyAdmissionConflictError _ _) \<Rightarrow> Inr (db, RetryUnavailable)
        | r \<Rightarrow> r)))"

end
