(* ===== verification/Scheduler.thy ===== *)
theory Scheduler
  imports Admission_Lemmas
begin

text \<open>
  The admission scheduler (\<open>src/autonomy/scheduler.ts\<close>): one tick reads the free slots, the
  projects on hold and the oldest queued job of each project, selects what may start, and admits
  each through the repository.
\<close>

subsection \<open>Candidates\<close>

record admission_candidate =
  candJobId :: string
  candProjectId :: string
  candQueueSeq :: int

definition compareCandidates :: "admission_candidate \<Rightarrow> admission_candidate \<Rightarrow> int" where
  "compareCandidates l r =
     (if candQueueSeq l \<noteq> candQueueSeq r then candQueueSeq l - candQueueSeq r
      else if candJobId l < candJobId r then - 1
      else if candJobId l > candJobId r then 1
      else 0)"

text \<open>The loop, with the number of slots left: paused projects are passed over, and each other project is seen once.\<close>

fun select_loop ::
  "string list \<Rightarrow> string list \<Rightarrow> nat \<Rightarrow> string list \<Rightarrow> admission_candidate list \<Rightarrow> admission_candidate list" where
  "select_loop paused held slots seen [] = []"
| "select_loop paused held slots seen (c # cs) =
     (if slots = 0 then []
      else if List.member paused (candProjectId c) then select_loop paused held slots seen cs
      else if List.member seen (candProjectId c) then select_loop paused held slots seen cs
      else if List.member held (projectResourceKey (candProjectId c))
      then select_loop paused held slots (candProjectId c # seen) cs
      else c # select_loop paused held (slots - 1) (candProjectId c # seen) cs)"

definition selectOldestEligibleAdmissions ::
  "admission_candidate list \<Rightarrow> string list \<Rightarrow> js_number \<Rightarrow> string list option \<Rightarrow> admission_candidate list result" where
  "selectOldestEligibleAdmissions candidates heldKeys slots paused =
     (if \<not> is_integer slots \<or> whole slots < 0 \<or> whole slots > MAX_CONCURRENT_JOBS
      then Inl (TypeError ''availableSlots must be an integer from 0 through 8'')
      else Inr (select_loop (opt_default paused []) heldKeys (nat (whole slots)) [] (sort_by compareCandidates candidates)))"

subsection \<open>A run\<close>

definition assertSchedulerInput :: "admission_attempt_input \<Rightarrow> unit result" where
  "assertSchedulerInput i =
     rthen (guard (is_safe_integer (maxConcurrentJobs i) \<and> 1 \<le> whole (maxConcurrentJobs i) \<and>
              whole (maxConcurrentJobs i) \<le> MAX_CONCURRENT_JOBS)
              (TypeError ''maxConcurrentJobs must be an integer from 1 through 8''))
    (rthen (guard (attemptOwner i \<noteq> [] \<and> length (attemptOwner i) \<le> 256)
              (TypeError ''ownerId must be a bounded non-empty string''))
    (rthen (guard (is_safe_integer (attemptGeneration i) \<and> 1 \<le> whole (attemptGeneration i))
              (TypeError ''generation must be a positive safe integer''))
    (rthen (guard (is_safe_integer (attemptNow i) \<and> 0 \<le> whole (attemptNow i))
              (TypeError ''now must be a non-negative safe integer''))
       (guard (is_safe_integer (attemptLeaseMs i) \<and> 1 \<le> whole (attemptLeaseMs i))
              (TypeError ''leaseMs must be a positive safe integer'')))))"

definition heldProjectKeys :: "database \<Rightarrow> int \<Rightarrow> string list result" where
  "heldProjectKeys db limit = rbind (listCurrentHeldProjectClaims db (Whole limit)) (\<lambda>cs. Inr (map claimKey cs))"

record scheduler_result =
  occupiedCount :: int
  availableSlots :: int
  runAdmissions :: "admission_attempt list"

text \<open>
  The paused projects: none without a source, \<open>None\<close> when the source throws.  The source, a
  query of the failure-loop table, is an argument: what it returned.
\<close>

definition pausedProjectIds :: "string list result option \<Rightarrow> string list option" where
  "pausedProjectIds pauses =
     (case pauses of None \<Rightarrow> Some [] | Some (Inr ids) \<Rightarrow> Some ids | Some (Inl _) \<Rightarrow> None)"

text \<open>Each selected job in turn; an error ends the run, and the admissions before it stay committed.\<close>

fun admit_each :: "('db \<Rightarrow> string \<Rightarrow> ('db \<times> 'a) result) \<Rightarrow> 'db \<Rightarrow> string list \<Rightarrow> 'db \<times> 'a list result" where
  "admit_each admit db [] = (db, Inr [])"
| "admit_each admit db (jid # jids) =
     (case admit db jid of
        Inl e \<Rightarrow> (db, Inl e)
      | Inr (db1, a) \<Rightarrow>
          (let (db2, r) = admit_each admit db1 jids in (db2, rbind r (\<lambda>as. Inr (a # as)))))"

definition candidate_of :: "job_admission \<Rightarrow> admission_candidate" where
  "candidate_of a = \<lparr>candJobId = admJobId a, candProjectId = admProjectId a, candQueueSeq = queueSeq a\<rparr>"

definition run_selection :: "database \<Rightarrow> int \<Rightarrow> int \<Rightarrow> string list \<Rightarrow> admission_candidate list result" where
  "run_selection db occ slots paused =
     rbind (listOldestQueuedPerProject db (Whole (occ + slots))) (\<lambda>as.
     rbind (heldProjectKeys db (min 100 (max 1 (occ + slots)))) (\<lambda>keys.
       selectOldestEligibleAdmissions (map candidate_of as) keys (Whole slots) (Some paused)))"

definition run ::
  "js_runtime \<Rightarrow> js_web \<Rightarrow> database \<Rightarrow> string list result option \<Rightarrow> admission_attempt_input \<Rightarrow>
   database \<times> scheduler_result result" where
  "run rt web db pauses i =
     (case assertSchedulerInput i of
        Inl e \<Rightarrow> (db, Inl e)
      | Inr _ \<Rightarrow>
          (let occ = countOccupiedAdmissions db;
               slots = max 0 (whole (maxConcurrentJobs i) - occ);
               idle = (db, Inr \<lparr>occupiedCount = occ, availableSlots = slots, runAdmissions = []\<rparr>)
           in if slots = 0 then idle
              else case pausedProjectIds pauses of
                None \<Rightarrow> idle
              | Some paused \<Rightarrow>
                  (case run_selection db occ slots paused of
                     Inl e \<Rightarrow> (db, Inl e)
                   | Inr selected \<Rightarrow>
                       (let (db', r) = admit_each (\<lambda>d jid. tryAdmit rt web d (i\<lparr>attemptJobId := jid\<rparr>)) db
                                         (map candJobId selected)
                        in (db', rbind r (\<lambda>as. Inr \<lparr>occupiedCount = occ, availableSlots = slots, runAdmissions = as\<rparr>))))))"

subsection \<open>What is selected\<close>

definition candidate_key :: "admission_candidate \<Rightarrow> int \<times> string" where
  "candidate_key c = (candQueueSeq c, candJobId c)"

lemma compareCandidates_le: "compareCandidates l r \<le> 0 \<longleftrightarrow> candidate_key l \<le> candidate_key r"
  by (auto simp: compareCandidates_def candidate_key_def less_eq_prod_def)

text \<open>The comparator sort is the sort by queue sequence and job id.\<close>

lemma sort_by_candidates: "sort_by compareCandidates cs = sort_key candidate_key cs"
  by (rule sort_by_sort_key) (rule compareCandidates_le)

text \<open>The first candidate of each project, in order.\<close>

fun project_firsts :: "string list \<Rightarrow> admission_candidate list \<Rightarrow> admission_candidate list" where
  "project_firsts seen [] = []"
| "project_firsts seen (c # cs) =
     (if candProjectId c \<in> set seen then project_firsts seen cs
      else c # project_firsts (candProjectId c # seen) cs)"

lemma select_loop_firsts:
  "select_loop paused held n seen cs =
     take n (filter (\<lambda>c. projectResourceKey (candProjectId c) \<notin> set held)
       (project_firsts seen (filter (\<lambda>c. candProjectId c \<notin> set paused) cs)))"
proof (induction cs arbitrary: n seen)
  case (Cons c cs)
  then show ?case by (cases n) auto
qed simp

lemma project_firsts_sub: "set (project_firsts seen cs) \<subseteq> {c \<in> set cs. candProjectId c \<notin> set seen}"
proof (induction cs arbitrary: seen)
  case (Cons c cs)
  from Cons [of seen] Cons [of "candProjectId c # seen"] show ?case by auto
qed simp

lemma project_firsts_distinct: "distinct (map candProjectId (project_firsts seen cs))"
proof (induction cs arbitrary: seen)
  case (Cons c cs)
  then show ?case using project_firsts_sub [of "candProjectId c # seen" cs] by auto
qed simp

lemma project_firsts_sorted: "sorted_wrt R cs \<Longrightarrow> sorted_wrt R (project_firsts seen cs)"
proof (induction cs arbitrary: seen)
  case (Cons c cs)
  then show ?case using project_firsts_sub [of "candProjectId c # seen" cs] by auto
qed simp

text \<open>Every project has its least candidate among the firsts of a sorted list.\<close>

lemma project_firsts_least:
  assumes "sorted_wrt R cs" "c \<in> set cs" "candProjectId c \<notin> set seen"
  shows "\<exists>d \<in> set (project_firsts seen cs). candProjectId d = candProjectId c \<and> (d = c \<or> R d c)"
  using assms
proof (induction cs arbitrary: seen)
  case (Cons x cs)
  show ?case
  proof (cases "candProjectId x \<in> set seen")
    case True
    with Cons.prems have "c \<in> set cs" by auto
    with Cons True show ?thesis by simp
  next
    case False
    then show ?thesis
    proof (cases "candProjectId x = candProjectId c")
      case True
      with False Cons.prems show ?thesis by auto
    next
      case neq: False
      then have "c \<in> set cs" using Cons.prems by auto
      with Cons.IH [of "candProjectId x # seen"] Cons.prems neq False show ?thesis by fastforce
    qed
  qed
qed simp

lemmas selection_defs = selectOldestEligibleAdmissions_def sort_by_candidates select_loop_firsts MAX_CONCURRENT_JOBS_def

subsection \<open>Admitting one after the other\<close>

text \<open>
  What the loop relies on in the repository: an admission keeps the invariant of the store and
  fills no slot beyond the cap.
\<close>

locale bounded_admitter =
  fixes admit :: "'db \<Rightarrow> string \<Rightarrow> ('db \<times> 'a) result"
    and level :: "'db \<Rightarrow> int"
    and ok :: "'db \<Rightarrow> bool"
    and cap :: int
  assumes admit_ok: "ok db \<Longrightarrow> admit db jid = Inr (db', a) \<Longrightarrow> ok db'"
    and admit_level: "admit db jid = Inr (db', a) \<Longrightarrow> level db' \<le> max (level db) cap"
begin

lemma admit_each_ok: "admit_each admit db jids = (db', r) \<Longrightarrow> ok db \<Longrightarrow> ok db'"
proof (induction jids arbitrary: db r)
  case (Cons jid jids)
  then show ?case by (auto split: sum.splits prod.splits dest: admit_ok)
qed simp

lemma admit_each_level: "admit_each admit db jids = (db', r) \<Longrightarrow> level db' \<le> max (level db) cap"
proof (induction jids arbitrary: db r)
  case (Cons jid jids)
  then show ?case by (fastforce split: sum.splits prod.splits dest: admit_level)
qed simp

end

lemma admitted_count:
  assumes "admitted rt web db i a j e j' db'"
  shows "countOccupiedAdmissions db' \<le> whole (maxConcurrentJobs i)"
  using assms
proof cases
  case (1 db1 db2 es db3)
  let ?f = "\<lambda>b. b\<lparr>admState := Admitted, admittedAt := Some (whole (attemptNow i))\<rparr>"
  from persistJobTransition_fields [OF 1(14)] have "admissions_table db' = update_where (admit_hit a) ?f (admissions_table db)"
    using 1(11,15) by auto
  moreover have "changes occupied (update_where (admit_hit a) ?f (admissions_table db)) \<le> changes occupied (admissions_table db) + 1"
    by (rule changes_update_enter) (use 1(12) in \<open>auto simp: admit_hit_def occupied_def\<close>)
  ultimately show ?thesis using 1(8) by (simp add: countOccupiedAdmissions_def)
qed

lemma tryAdmit_count:
  assumes "tryAdmit rt web db i = Inr (db', r)"
  shows "countOccupiedAdmissions db' \<le> max (countOccupiedAdmissions db) (whole (maxConcurrentJobs i))"
proof (cases r)
  case (AttemptAdmitted j' a' c)
  with assms obtain a j e where "admitted rt web db i a j e j' db'" using tryAdmit_admitted by blast
  from admitted_count [OF this] show ?thesis by simp
next
  case (NotAdmitted x)
  with assms show ?thesis using tryAdmit_rejected [of rt web db i db' x] by simp
qed

interpretation scheduler_admits: bounded_admitter "\<lambda>db jid. tryAdmit rt web db (i\<lparr>attemptJobId := jid\<rparr>)"
    countOccupiedAdmissions db_ok "whole (maxConcurrentJobs i)" for rt web i
proof unfold_locales
  show "db_ok db'" if "db_ok db" "tryAdmit rt web db (i\<lparr>attemptJobId := jid\<rparr>) = Inr (db', a)" for db jid db' a
    using tryAdmit_ok that by blast
  show "countOccupiedAdmissions db' \<le> max (countOccupiedAdmissions db) (whole (maxConcurrentJobs i))"
    if "tryAdmit rt web db (i\<lparr>attemptJobId := jid\<rparr>) = Inr (db', a)" for db jid db' a
    using tryAdmit_count [OF that] by simp
qed

lemma run_admits:
  assumes "run rt web db pauses i = (db', r)"
  obtains (idle) "db' = db"
  | (ran) paused selected as where "pausedProjectIds pauses = Some paused"
      "countOccupiedAdmissions db < whole (maxConcurrentJobs i)"
      "run_selection db (countOccupiedAdmissions db) (whole (maxConcurrentJobs i) - countOccupiedAdmissions db) paused = Inr selected"
      "admit_each (\<lambda>d jid. tryAdmit rt web d (i\<lparr>attemptJobId := jid\<rparr>)) db (map candJobId selected) = (db', as)"
  using assms unfolding run_def Let_def
  by (auto split: sum.splits if_splits option.splits prod.splits simp: max_def)

lemma run_ok: "run rt web db pauses i = (db', r) \<Longrightarrow> db_ok db \<Longrightarrow> db_ok db'"
  by (erule run_admits) (auto dest: scheduler_admits.admit_each_ok)

lemma run_count:
  "run rt web db pauses i = (db', r) \<Longrightarrow>
   countOccupiedAdmissions db' \<le> max (countOccupiedAdmissions db) (whole (maxConcurrentJobs i))"
  by (erule run_admits) (auto dest: scheduler_admits.admit_each_level)

end
