(* ===== verification/Pipeline_System.thy ===== *)
theory Pipeline_System
  imports Job_Leases Job_Events Scheduler
begin

text \<open>
  The pipeline as one transition system: the states are databases, the steps the transactions of
  the program.  Every database reached from the empty one satisfies the invariant of the tables,
  and every job in it is one the job lifecycle reaches.
\<close>

subsection \<open>Storing a transition\<close>

lemma store_transition_cases:
  assumes "store_transition rt web db j e now = Inr (db', j')"
  obtains es db1 where "transition rt j e now = Inr (j', es)" "persistJobTransition web db (job_id j) (version j) j' = Inr db1"
    "persistPendingEffects web db1 es now = Inr db'" "db' = db1\<lparr>effects_table := store_pending now (effects_table db1) es\<rparr>"
proof -
  from assms obtain es db1 where p: "transition rt j e now = Inr (j', es)" "persistJobTransition web db (job_id j) (version j) j' = Inr db1"
    "persistPendingEffects web db1 es now = Inr db'" by (auto simp: store_transition_def rbind_eq_Inr)
  from that [OF p persistPendingEffects_ok [OF p(3)]] show ?thesis .
qed

lemma store_transition_ok: "store_transition rt web db j e now = Inr (db', j') \<Longrightarrow> db_ok db \<Longrightarrow> db_ok db'"
  by (erule store_transition_cases) (blast intro: persist_job_ok persist_effects_ok)

lemma transition_job_id: "transition rt j e now = Inr (j', es) \<Longrightarrow> job_id j' = job_id j"
  using job_transition_frame(1) [OF transition_steps] by (simp add: same_identity_def)

lemma store_transition_fields:
  "store_transition rt web db j e now = Inr (db', j') \<Longrightarrow>
   admissions_table db' = admissions_table db \<and> claims_table db' = claims_table db \<and> job_id j' = job_id j"
  by (erule store_transition_cases) (auto dest!: persistJobTransition_fields dest: transition_job_id)

lemma store_transition_reachable:
  assumes "store_transition rt web db j e now = Inr (db', j')" "jobs_ok db" "jobs_reachable rt db" "readJobById db (job_id j) = Some j"
  shows "jobs_reachable rt db' \<and> reachable rt j'"
  using assms(1)
proof (rule store_transition_cases)
  fix es db1
  assume t: "transition rt j e now = Inr (j', es)" and p: "persistJobTransition web db (job_id j) (version j) j' = Inr db1"
    and db': "db' = db1\<lparr>effects_table := store_pending now (effects_table db1) es\<rparr>"
  from persist_reachable [OF p assms(2,3,4) t] have "jobs_reachable rt db'" by (simp add: db' jobs_reachable_def)
  moreover have "reachable rt j'" using read_reachable [OF assms(3,4)] t by (rule reachable.event)
  ultimately show ?thesis ..
qed

text \<open>A step that leaves the jobs alone.\<close>

lemma same_jobs_reachable: "jobs_table db' = jobs_table db \<Longrightarrow> jobs_reachable rt db' = jobs_reachable rt db"
  by (simp add: jobs_reachable_def)

text \<open>An update of rows that keeps their ids.\<close>

lemma update_jobs_ok:
  assumes "db_ok db" "\<And>r. row_id (f r) = row_id r"
  shows "db_ok (db\<lparr>jobs_table := update_where p f (jobs_table db)\<rparr>)"
  using assms by (auto simp: db_ok_defs intro: unique_update_where)

lemma update_jobs_reachable:
  assumes "jobs_reachable rt db" "\<And>r. r \<in> set (jobs_table db) \<Longrightarrow> p r \<Longrightarrow> reachable rt (row_job (f r))"
  shows "jobs_reachable rt (db\<lparr>jobs_table := update_where p f (jobs_table db)\<rparr>)"
  using assms by (auto simp: jobs_reachable_def set_update_where)

lemma settleNavigator_ok:
  assumes "settleNavigatorReleaseReturn db p j = (db', j')" "db_ok db" "jobs_reachable rt db"
  shows "db_ok db' \<and> jobs_reachable rt db' \<and> job_id j' = job_id j \<and> admissions_table db' = admissions_table db \<and>
    claims_table db' = claims_table db"
proof -
  let ?leave = "\<lambda>i. i\<lparr>workflowRevision := workflowRevision i + 1, currentWorkflowStepId := None\<rparr>"
  let ?db = "db\<lparr>jobs_table := update_where (\<lambda>r. row_id r = job_id j) (\<lambda>r. r\<lparr>row_job := ?leave (row_job r)\<rparr>) (jobs_table db)\<rparr>"
  have "reachable rt (?leave i)" if "reachable rt i" for i
    using reachable.workflow [where j = i and v = "version i" and r = "workflowRevision i + 1" and s = None and
        b = "artifactBindings i" and now = "updatedAt i", OF that] by simp
  then have "jobs_reachable rt ?db" using assms(3) by (intro update_jobs_reachable) (auto simp: jobs_reachable_def)
  moreover have "db_ok ?db" using assms(2) by (intro update_jobs_ok) simp_all
  ultimately show ?thesis using assms by (auto simp: settleNavigatorReleaseReturn_def Let_def split: if_splits)
qed

lemma markDraining_jobs: "markDrainingInTransaction db jid now = Inr (db', r) \<Longrightarrow> jobs_table db' = jobs_table db"
  using markDraining_cases [of db jid now db' r] by auto

lemma markTerminal_ok:
  assumes "markAdmissionDrainingForTerminal db j now = Inr db'" "db_ok db"
  shows "db_ok db' \<and> jobs_table db' = jobs_table db"
  using assms by (auto simp: markAdmissionDrainingForTerminal_def rbind_eq_Inr split: if_splits
      dest: markDraining_ok markDraining_jobs)

lemma applyJobEvent_cases:
  assumes "applyJobEvent rt web db jid v e lanes now = Inr (db', j')"
  obtains j j1 db1 db2 where "readJobById db jid = Some j" "version j = v"
    "\<not> List.member ADMITTED_EVENTS (event_type e)" "\<not> List.member FENCED_JOB_EVENT_TYPES (event_type e)"
    "nativeAdapterRequirementForEvent j e lanes = Inr None"
    "store_transition rt web db j e now = Inr (db1, j1)" "settleNavigatorReleaseReturn db1 j j1 = (db2, j')"
    "markAdmissionDrainingForTerminal db2 j' now = Inr db'"
proof -
  from assms obtain j j1 db1 where *: "readJobById db jid = Some j" "version j = v"
    "\<not> List.member ADMITTED_EVENTS (event_type e)" "\<not> List.member FENCED_JOB_EVENT_TYPES (event_type e)"
    "nativeAdapterRequirementForEvent j e lanes = Inr None" "store_transition rt web db j e now = Inr (db1, j1)"
    "snd (settleNavigatorReleaseReturn db1 j j1) = j'"
    "markAdmissionDrainingForTerminal (fst (settleNavigatorReleaseReturn db1 j j1)) j' now = Inr db'"
    unfolding applyJobEvent_def Let_def by (auto simp: rbind_eq_Inr case_prod_beta split: if_splits option.splits)
  from that [OF *(1-6) _ *(8)] *(7) show ?thesis by (metis prod.collapse)
qed

lemma applyJobEvent_ok:
  assumes "applyJobEvent rt web db jid v e lanes now = Inr (db', j')" "db_ok db" "jobs_reachable rt db"
  shows "db_ok db' \<and> jobs_reachable rt db'"
  using assms(1)
proof (rule applyJobEvent_cases)
  fix j j1 db1 db2
  assume j: "readJobById db jid = Some j" and s: "store_transition rt web db j e now = Inr (db1, j1)"
    and n: "settleNavigatorReleaseReturn db1 j j1 = (db2, j')" and m: "markAdmissionDrainingForTerminal db2 j' now = Inr db'"
  have jobs: "jobs_ok db" using assms(2) by (simp add: db_ok_def)
  have read: "readJobById db (job_id j) = Some j" using j readJobById_id [OF j] by simp
  from store_transition_ok [OF s assms(2)] store_transition_reachable [OF s jobs assms(3) read]
  have "db_ok db1" "jobs_reachable rt db1" by simp_all
  with settleNavigator_ok [OF n] have "db_ok db2" "jobs_reachable rt db2" by simp_all
  with markTerminal_ok [OF m] same_jobs_reachable [of db' db2 rt] show ?thesis by simp
qed

lemma retryFailedJob_cases:
  assumes "retryFailedJob rt web db jid v now = Inr (db', r)"
  obtains (same) "db' = db"
  | (queued) i b where "queueAdmissionInTransaction db i RequeueMode = Inr (db', b)"
  | (retried) j j' a where "readJobById db jid = Some j" "store_transition rt web db j RETRY (whole now) = Inr (db', j')"
      "r = JobRetried j' a"
  using assms unfolding retryFailedJob_def retry_in_transaction_def rthen_eq_Inr
  by (auto simp: rbind_eq_Inr split: sum.splits error.splits option.splits if_splits admission_state.splits)

lemma selectProject_cases:
  assumes "selectProjectAndQueueAdmission rt web db jid v pid pv p now = Inr (db', j')"
  obtains (selected) j db1 i b where "readJobById db jid = Some j"
      "store_transition rt web db j (PROJECT_SELECTED pid pv p) (whole now) = Inr (db1, j')"
      "queueAdmissionInTransaction db1 i QueueMode = Inr (db', b)"
  | (stored) i b where "queueAdmissionInTransaction db i QueueMode = Inr (db', b)"
  using assms unfolding selectProjectAndQueueAdmission_def rthen_eq_Inr
  by (auto simp: rbind_eq_Inr split: option.splits if_splits)

lemma queueAdmission_jobs: "queueAdmissionInTransaction db i mode = Inr (db', a) \<Longrightarrow> jobs_table db' = jobs_table db"
  by (erule queueAdmission_cases) simp_all

subsection \<open>The steps\<close>

text \<open>
  A rewrite of a job's columns outside the reducer: message and thread ids, the task authority,
  the workflow columns, the two settlements of a merge.
\<close>

inductive bookkeeping :: "job \<Rightarrow> job \<Rightarrow> bool" where
  status_message: "bookkeeping j (j\<lparr>statusMessageId := Some m, version := version j + 1, updatedAt := now\<rparr>)"
| review_thread: "bookkeeping j (j\<lparr>reviewThreadId := t, version := version j + 1, updatedAt := now\<rparr>)"
| workflow: "v = version j \<or> v = version j + 1 \<Longrightarrow>
    bookkeeping j (j\<lparr>workflowRevision := r, currentWorkflowStepId := s, artifactBindings := b, version := v, updatedAt := now\<rparr>)"
| authority: "bookkeeping j (j\<lparr>taskOutcome := out, taskConstraints := cs, mergePreApprovedAt := p, updatedAt := now\<rparr>)"
| merge_cancelled: "cancelUnknownMergeJob j now = Some (j', x) \<Longrightarrow> bookkeeping j j'"
| merge_failed: "failLeasedMergeJob j now = Some (j', x) \<Longrightarrow> bookkeeping j j'"

lemma bookkeeping_reachable: "bookkeeping j j' \<Longrightarrow> reachable rt j \<Longrightarrow> reachable rt j'"
  by (erule bookkeeping.cases) (auto intro: reachable.intros)

lemma bookkeeping_id: "bookkeeping j j' \<Longrightarrow> job_id j' = job_id j"
  by (erule bookkeeping.cases) (auto simp: cancelUnknownMergeJob_def failLeasedMergeJob_def Let_def split: if_splits)

lemma touched_reachable: "reachable rt j \<Longrightarrow> reachable rt (j\<lparr>updatedAt := t\<rparr>)"
  using reachable.authority [where j = j and out = "taskOutcome j" and cs = "taskConstraints j" and
      p = "mergePreApprovedAt j" and now = t] by simp

text \<open>
  The transactions.  Five of the steps stand for several writers of the source that differ in what
  they read outside these tables: \<open>new_effect\<close> is any insertion of a pending effect (the merge an
  accepted approval enqueues, steering, the effects of the navigator), \<open>note_payload\<close> a receipt or a
  fence written into a leased effect, \<open>hand_back\<close> the end of a lease with any status that is not leased
  (the settlements of merges and of the navigator), \<open>new_claim\<close> and \<open>transfer_claims\<close> the claims that a
  lease of the navigator takes.
\<close>

inductive db_step :: "js_runtime \<Rightarrow> js_web \<Rightarrow> database \<Rightarrow> database \<Rightarrow> bool" for rt web where
  lease: "lease_step (executorLease db) l \<Longrightarrow> db_step rt web db (db\<lparr>executorLease := l\<rparr>)"
| new_job: "reachable rt (row_job r) \<Longrightarrow> \<forall>q \<in> set (jobs_table db). row_id q \<noteq> row_id r \<Longrightarrow>
    db_step rt web db (db\<lparr>jobs_table := jobs_table db @ [r]\<rparr>)"
| select: "selectProjectAndQueueAdmission rt web db jid v pid pv p now = Inr (db', j') \<Longrightarrow> db_step rt web db db'"
| queue: "queueAdmissionInTransaction db i mode = Inr (db', a) \<Longrightarrow> db_step rt web db db'"
| admit: "tryAdmit rt web db i = Inr (db', r) \<Longrightarrow> db_step rt web db db'"
| adopt: "adoptHeldClaims db jid ow g now ms = Inr (db', b) \<Longrightarrow> db_step rt web db db'"
| auto_continue: "recordAutoContinue db jid key now = Inr db' \<Longrightarrow> db_step rt web db db'"
| escalation: "recordContinuationEscalation db jid now = Inr db' \<Longrightarrow> db_step rt web db db'"
| apply_event: "applyJobEvent rt web db jid v e lanes now = Inr (db', j') \<Longrightarrow> db_step rt web db db'"
| executor_event: "readJobById db jid = Some j \<Longrightarrow> store_transition rt web db j e now = Inr (db1, j') \<Longrightarrow>
    markAdmissionDrainingForTerminal db1 j' now = Inr db' \<Longrightarrow> db_step rt web db db'"
| retry: "retryFailedJob rt web db jid v now = Inr (db', r) \<Longrightarrow> db_step rt web db db'"
| books: "readJobById db jid = Some j \<Longrightarrow> bookkeeping j j' \<Longrightarrow>
    db_step rt web db (db\<lparr>jobs_table := update_where (\<lambda>r. row_id r = jid) (\<lambda>r. r\<lparr>row_job := j'\<rparr>) (jobs_table db)\<rparr>)"
| lease_control: "leaseControlEffects db ow g now ms limit busy = Inr (db', xs) \<Longrightarrow> db_step rt web db db'"
| renew_control: "renewControlEffectFence db jid key ow g now ms = Inr (db', b) \<Longrightarrow> db_step rt web db db'"
| complete: "completeEffect db key ow g now = Inr (db', b) \<Longrightarrow> db_step rt web db db'"
| fail: "failEffect db key ow g err next now = Inr (db', b) \<Longrightarrow> db_step rt web db db'"
| dead: "deadLetterEffect db key ow g err now = Inr (db', b) \<Longrightarrow> db_step rt web db db'"
| merge_claims: "acquireMergeClaims db j ow g t ms = Inr (Some db') \<Longrightarrow> db_step rt web db db'"
| settle_claims: "ProjectResource \<notin> set kinds \<Longrightarrow>
    db_step rt web db (settleResourceClaimsInTransaction db jid ow g t why kinds)"
| drain: "beginDraining db jid ow g now = Inr (db', r) \<Longrightarrow> db_step rt web db db'"
| release: "finalizeRelease rt web db jid ow g now = Inr (db', r) \<Longrightarrow> db_step rt web db db'"
| requeue_review: "requeueReviewAdmission db jid v now = Inr (db', r) \<Longrightarrow> db_step rt web db db'"
| lease_job: "leaseNextJobEffect ans db t i = Inr (db', t', r) \<Longrightarrow> db_step rt web db db'"
| lease_due: "leaseEffects ans db t ow g now limit ms = (db', t', r) \<Longrightarrow> db_step rt web db db'"
| renew_job: "renewJobOperationFences ans db key i = Inr (db', b) \<Longrightarrow> db_step rt web db db'"
| lease_navigator: "updateNavigatorEffectLease db x ow g now ms = (db', b) \<Longrightarrow> db_step rt web db db'"
| reconcile: "enqueueReconcileForKnownThread web db found tid now = Inr (db', b) \<Longrightarrow> db_step rt web db db'"
| new_effect: "\<forall>y \<in> set (effects_table db). idempotencyKey y \<noteq> idempotencyKey x \<Longrightarrow> effStatus x = EffPending \<Longrightarrow>
    db_step rt web db (db\<lparr>effects_table := effects_table db @ [x]\<rparr>)"
| note_payload: "db_step rt web db (update_effect db (\<lambda>x. idempotencyKey x = key \<and> effStatus x = EffLeased)
    (\<lambda>x. x\<lparr>payload := p, effectUpdatedAt := now\<rparr>))"
| hand_back: "s \<noteq> EffLeased \<Longrightarrow> db_step rt web db (update_effect db (\<lambda>x. idempotencyKey x = key \<and> effStatus x = EffLeased)
    (\<lambda>x. (drop_lease s err now x)\<lparr>payload := p x, nextAttemptAt := n x\<rparr>))"
| new_claim: "insertHeldClaim db jid key k ow g t ms = Inr db' \<Longrightarrow> db_step rt web db db'"
| transfer_claims: "db_step rt web db (db\<lparr>claims_table := update_where q
    (\<lambda>c. c\<lparr>claimOwner := ow, claimGeneration := g, claimExpiresAt := e, renewedAt := t\<rparr>) (claims_table db)\<rparr>)"
| others: "db_step rt web db (db\<lparr>workers_table := ws, approvals_table := aps\<rparr>)"

definition empty_database :: database where
  "empty_database = \<lparr>jobs_table = [], effects_table = [], admissions_table = [], claims_table = [], nextQueueSeq = 1,
     nextClaimId = 1, executorLease = \<lparr>leaseHolder = None, executorGeneration = 0, heartbeatAt = None, leaseUntil = None\<rparr>,
     workers_table = [], approvals_table = []\<rparr>"

definition reachable_db :: "js_runtime \<Rightarrow> js_web \<Rightarrow> database \<Rightarrow> bool" where
  "reachable_db rt web db \<longleftrightarrow> (db_step rt web)\<^sup>*\<^sup>* empty_database db"

subsection \<open>The steps keep the invariant\<close>

lemma requeueReview_cases:
  assumes "requeueReviewAdmission db jid v now = Inr (db', r)"
  obtains (same) "db' = db" | (queued) i b where "queueAdmissionInTransaction db i RequeueMode = Inr (db', b)"
  using assms unfolding requeueReviewAdmission_def rthen_eq_Inr requeueAdmission_def
  by (auto split: sum.splits error.splits option.splits if_splits admission_state.splits)

lemma beginDraining_cases:
  assumes "beginDraining db jid ow g now = Inr (db', r)"
  obtains (same) "db' = db" | (drained) q where "markDrainingInTransaction db jid now = Inr (db', q)"
  using assms unfolding beginDraining_def rthen_eq_Inr by (auto simp: rbind_eq_Inr split: option.splits if_splits)

lemma new_job_ok:
  assumes "db_ok db" "\<forall>q \<in> set (jobs_table db). row_id q \<noteq> row_id r"
  shows "db_ok (db\<lparr>jobs_table := jobs_table db @ [r]\<rparr>)"
  using assms by (auto simp: db_ok_defs unique_append)

lemma ladder_ok:
  assumes "db_ok db"
  shows "recordAutoContinue db jid key now = Inr db' \<Longrightarrow> db_ok db'"
    "recordContinuationEscalation db jid now = Inr db' \<Longrightarrow> db_ok db'"
  using assms by (auto simp: recordAutoContinue_def recordContinuationEscalation_def rthen_eq_Inr intro!: update_jobs_ok)

lemma step_ok: "db_step rt web db db' \<Longrightarrow> db_ok db \<Longrightarrow> jobs_reachable rt db \<Longrightarrow> db_ok db'"
proof (induction rule: db_step.induct)
  case (lease db l)
  then show ?case by (simp add: db_ok_defs)
next
  case (new_job r db)
  then show ?case by (blast intro: new_job_ok)
next
  case (select db jid v pid pv p now db' j')
  from select(1) show ?case
    by (rule selectProject_cases) (blast intro: queueAdmission_ok store_transition_ok select(2))+
next
  case (books db jid j j')
  from bookkeeping_id [OF books(2)] readJobById_id [OF books(1)] have "job_id j' = jid" by simp
  with rewrite_job_ok [of db j' jid "\<lambda>r. row_id r = jid"] books(3) show ?case by (simp add: db_ok_defs)
next
  case (executor_event db jid j e now db1 j' db')
  then show ?case using markTerminal_ok store_transition_ok by blast
next
  case (retry db jid v now db' r)
  from retry(1) show ?case
    by (rule retryFailedJob_cases) (use retry(2) in \<open>auto intro: queueAdmission_ok store_transition_ok\<close>)
next
  case (drain db jid ow g now db' r)
  from drain(1) show ?case by (rule beginDraining_cases) (use drain(2) in \<open>auto intro: markDraining_ok\<close>)
next
  case (requeue_review db jid v now db' r)
  from requeue_review(1) show ?case
    by (rule requeueReview_cases) (use requeue_review(2) in \<open>auto intro: queueAdmission_ok\<close>)
next
  case (apply_event db jid v e lanes now db' j')
  then show ?case using applyJobEvent_ok by blast
next
  case (new_effect db x)
  then show ?case by (auto simp: db_ok_defs unique_append)
next
  case (note_payload db key p now)
  then show ?case by (intro update_effect_ok) simp_all
next
  case (hand_back s db key err now p n)
  from hand_back(2) show ?case by (rule update_effect_ok) simp
next
  case (transfer_claims db q ow g e t)
  then show ?case by (intro update_claims_ok) simp_all
next
  case (others db ws aps)
  then show ?case by (simp add: db_ok_defs)
qed (blast intro: queueAdmission_ok tryAdmit_ok adoptHeldClaims_ok ladder_ok leaseControlEffects_ok renewControlEffectFence_ok
    completeEffect_ok failEffect_ok deadLetterEffect_ok acquireMergeClaims_ok settleResourceClaims_ok finalizeRelease_ok
    job_lease_writes queue_write_ok insertHeldClaim_db_ok)+

subsection \<open>The steps keep the jobs reachable\<close>

lemma update_effect_jobs [simp]: "jobs_table (update_effect db p f) = jobs_table db"
  by (simp add: update_effect_def)

lemma lease_rows_jobs: "lease_rows db ow g t ms xs = (db', ys) \<Longrightarrow> jobs_table db' = jobs_table db"
proof (induction xs arbitrary: db ys)
  case (Cons x xs)
  then show ?case by (auto simp: Let_def split: if_splits prod.splits)
qed simp

lemma effect_ops_jobs:
  "leaseControlEffects db ow g now ms limit busy = Inr (db', xs) \<Longrightarrow> jobs_table db' = jobs_table db"
  "renewControlEffectFence db jid key ow g now ms = Inr (db', b) \<Longrightarrow> jobs_table db' = jobs_table db"
  "completeEffect db key ow g now = Inr (db', b) \<Longrightarrow> jobs_table db' = jobs_table db"
    apply (auto simp: leaseControlEffects_def rthen_eq_Inr dest: lease_rows_jobs split: if_splits)[1]
   apply (auto simp: renewControlEffectFence_def rthen_eq_Inr Let_def split: if_splits option.splits)[1]
  apply (auto simp: completeEffect_def rthen_eq_Inr Let_def)
  done

lemma insertHeldClaim_jobs: "insertHeldClaim db jid key k ow g t ms = Inr db' \<Longrightarrow> jobs_table db' = jobs_table db"
  using insertHeldClaim_ok [of db jid key k ow g t ms db'] by simp

lemma merge_claims_jobs: "acquireMergeClaims db j ow g t ms = Inr (Some db') \<Longrightarrow> jobs_table db' = jobs_table db"
proof -
  have "insertMissingMergeClaims db j ow g t ms rows reqs = Inr db' \<Longrightarrow> jobs_table db' = jobs_table db" for rows reqs db db'
    by (induction db j ow g t ms rows reqs rule: insertMissingMergeClaims.induct)
      (auto simp: rbind_eq_Inr dest: insertHeldClaim_jobs split: if_splits)
  then show "acquireMergeClaims db j ow g t ms = Inr (Some db') \<Longrightarrow> jobs_table db' = jobs_table db"
    by (auto simp: acquireMergeClaims_def Let_def split: option.splits if_splits sum.splits error.splits)
qed

lemma queue_write_jobs: "queue_write db db' \<Longrightarrow> jobs_table db' = jobs_table db"
  by (induction rule: queue_write.induct) (simp_all add: merge_claims_jobs)

lemmas job_lease_jobs = job_lease_writes [THEN queue_write_jobs]

lemma claim_ops_jobs:
  "adoptHeldClaims db jid ow g now ms = Inr (db', b) \<Longrightarrow> jobs_table db' = jobs_table db"
  "jobs_table (settleResourceClaimsInTransaction db jid ow gn t why kinds) = jobs_table db"
  using adoptHeldClaims_cases [of db jid ow g now ms db' b] by (auto simp: settleResourceClaimsInTransaction_def)

lemma release_jobs:
  "releaseInTransaction db jid now why = Inr (db', r) \<Longrightarrow> jobs_table db' = jobs_table db"
  "release_now db jid now = Inr (db'', q) \<Longrightarrow> jobs_table db'' = jobs_table db"
proof -
  show *: "releaseInTransaction db jid now why = Inr (db', r) \<Longrightarrow> jobs_table db' = jobs_table db" for db db' r why
    using releaseInTransaction_cases [of db jid now why db' r] by auto
  show "release_now db jid now = Inr (db'', q) \<Longrightarrow> jobs_table db'' = jobs_table db"
    by (auto simp: release_now_def rbind_eq_Inr Let_def dest!: * markDraining_jobs)
qed

lemma tryAdmit_reachable:
  assumes "tryAdmit rt web db i = Inr (db', r)" "db_ok db" "jobs_reachable rt db"
  shows "jobs_reachable rt db'"
proof (cases r)
  case (AttemptAdmitted j' a' c)
  with assms(1) obtain a j e where "admitted rt web db i a j e j' db'" using tryAdmit_admitted by blast
  then show ?thesis
  proof cases
    case (1 db1 db2 es db3)
    have jobs: "jobs_table db2 = jobs_table db" using 1(11) insertHeldClaim_jobs [OF 1(10)] by simp
    then have "jobs_ok db2" "jobs_reachable rt db2" "readJobById db2 (job_id j) = Some j"
      using assms(2,3) 1(4) readJobById_id [OF 1(4)] by (simp_all add: db_ok_def jobs_ok_def jobs_reachable_def readJobById_def)
    from persist_reachable [OF 1(14) this 1(13)] show ?thesis using 1(15) by (simp add: jobs_reachable_def)
  qed
next
  case (NotAdmitted x)
  with assms show ?thesis using tryAdmit_rejected [of rt web db i db' x] by simp
qed

lemma safe_failure: "assertSafeFailureSummary err = Inr () \<Longrightarrow> safe_summary err"
  by (auto simp: assertSafeFailureSummary_def safe_summary_def MAX_FAILURE_SUMMARY_LENGTH_def split: if_splits)

lemma failEffect_reachable:
  assumes "failEffect db key ow g err n t = Inr (db', b)" "jobs_reachable rt db"
  shows "jobs_reachable rt db'"
  using assms unfolding failEffect_def rthen_eq_Inr
  by (auto simp: same_jobs_reachable [of "update_effect _ _ _"] Let_def split: option.splits if_splits
      intro: dead_letter_reachable safe_failure)

lemma deadLetterEffect_reachable:
  assumes "deadLetterEffect db key ow g err t = Inr (db', b)" "jobs_reachable rt db"
  shows "jobs_reachable rt db'"
  using assms unfolding deadLetterEffect_def rthen_eq_Inr
  by (auto split: option.splits if_splits intro: dead_letter_reachable safe_failure)

lemma finalizeRelease_reachable:
  assumes "finalizeRelease rt web db jid ow g t = Inr (db', r)" "db_ok db" "jobs_reachable rt db"
  shows "jobs_reachable rt db'"
  using assms(1)
proof (cases rule: finalizeRelease_cases)
  case same
  with assms(3) show ?thesis by simp
next
  case released
  with assms(3) same_jobs_reachable [of db' db rt] release_jobs(2) show ?thesis by blast
next
  case (cancelled j j' es db1)
  have "jobs_ok db" using assms(2) by (simp add: db_ok_def)
  from persist_reachable [OF cancelled(3) this assms(3) cancelled(1,2)] persistPendingEffects_ok [OF cancelled(4)]
  show ?thesis by (simp add: jobs_reachable_def)
qed

lemma step_reachable: "db_step rt web db db' \<Longrightarrow> db_ok db \<Longrightarrow> jobs_reachable rt db \<Longrightarrow> jobs_reachable rt db'"
proof (induction rule: db_step.induct)
  case (new_job r db)
  then show ?case by (simp add: jobs_reachable_def)
next
  case (select db jid v pid pv p now db' j')
  have jobs: "jobs_ok db" using select(2) by (simp add: db_ok_def)
  from select(1) show ?case
  proof (cases rule: selectProject_cases)
    case (selected j db1 i b)
    have "readJobById db (job_id j) = Some j" using selected(1) readJobById_id [OF selected(1)] by simp
    from store_transition_reachable [OF selected(2) jobs select(3) this] queueAdmission_jobs [OF selected(3)]
    show ?thesis using same_jobs_reachable [of db' db1 rt] by simp
  next
    case (stored i b)
    then show ?thesis using same_jobs_reachable [of db' db rt] queueAdmission_jobs select(3) by blast
  qed
next
  case (books db jid j j')
  have "reachable rt j'" by (rule bookkeeping_reachable [OF books(2) read_reachable [OF books(4,1)]])
  with books(4) show ?case by (intro update_jobs_reachable) simp_all
next
  case (executor_event db jid j e now db1 j' db')
  have "jobs_ok db" "readJobById db (job_id j) = Some j"
    using executor_event(1,4) readJobById_id [OF executor_event(1)] by (simp_all add: db_ok_def)
  from store_transition_reachable [OF executor_event(2) this(1) executor_event(5) this(2)]
  have "jobs_reachable rt db1" ..
  with markTerminal_ok [OF executor_event(3) store_transition_ok [OF executor_event(2,4)]]
  show ?case using same_jobs_reachable [of db' db1 rt] by simp
next
  case (retry db jid v now db' r)
  from retry(1) show ?case
  proof (cases rule: retryFailedJob_cases)
    case same
    with retry(3) show ?thesis by simp
  next
    case (queued i b)
    then show ?thesis using same_jobs_reachable [of db' db rt] queueAdmission_jobs retry(3) by blast
  next
    case (retried j j' a)
    have "jobs_ok db" "readJobById db (job_id j) = Some j"
      using retried(1) retry(2) readJobById_id [OF retried(1)] by (simp_all add: db_ok_def)
    from store_transition_reachable [OF retried(2) this(1) retry(3) this(2)] show ?thesis ..
  qed
next
  case (auto_continue db jid key now db')
  then show ?case by (auto simp: recordAutoContinue_def rthen_eq_Inr jobs_reachable_def set_update_where intro!: touched_reachable)
next
  case (escalation db jid now db')
  then show ?case by (auto simp: recordContinuationEscalation_def rthen_eq_Inr jobs_reachable_def set_update_where intro!: touched_reachable)
next
  case (drain db jid ow g now db' r)
  from drain(1) show ?case
    by (rule beginDraining_cases) (use drain(3) same_jobs_reachable [of db' db rt] markDraining_jobs in blast)+
next
  case (requeue_review db jid v now db' r)
  from requeue_review(1) show ?case
    by (rule requeueReview_cases) (use requeue_review(3) same_jobs_reachable [of db' db rt] queueAdmission_jobs in blast)+
next
  case (apply_event db jid v e lanes now db' j')
  then show ?case using applyJobEvent_ok by blast
next
  case (admit db i db' r)
  then show ?case by (blast intro: tryAdmit_reachable)
next
  case (release db jid ow g now db' r)
  then show ?case by (blast intro: finalizeRelease_reachable)
next
  case (fail db key ow g err "next" now db' b)
  then show ?case by (blast intro: failEffect_reachable)
next
  case (dead db key ow g err now db' b)
  then show ?case by (blast intro: deadLetterEffect_reachable)
next
  case (queue db i mode db' a)
  then show ?case using same_jobs_reachable [of db' db rt] queueAdmission_jobs by blast
next
  case (adopt db jid ow g now ms db' b)
  then show ?case using same_jobs_reachable [of db' db rt] claim_ops_jobs(1) by blast
next
  case (merge_claims db j ow g t ms db')
  then show ?case using same_jobs_reachable [of db' db rt] merge_claims_jobs by blast
next
  case (lease_control db ow g now ms limit busy db' xs)
  then show ?case using same_jobs_reachable [of db' db rt] effect_ops_jobs(1) by blast
next
  case (renew_control db jid key ow g now ms db' b)
  then show ?case using same_jobs_reachable [of db' db rt] effect_ops_jobs(2) by blast
next
  case (complete db key ow g now db' b)
  then show ?case using same_jobs_reachable [of db' db rt] effect_ops_jobs(3) by blast
qed (auto simp: jobs_reachable_def claim_ops_jobs(2) dest!: job_lease_jobs insertHeldClaim_jobs)

text \<open>Every database of the program satisfies the invariant, and its jobs are reachable.\<close>

lemma reachable_db_inv: "reachable_db rt web db \<Longrightarrow> db_ok db \<and> jobs_reachable rt db"
  unfolding reachable_db_def
proof (induction rule: rtranclp_induct)
  case base
  show ?case by (simp add: empty_database_def db_ok_defs jobs_reachable_def unique_key_def changes_def)
next
  case (step db db')
  then show ?case using step_ok step_reachable by blast
qed

end
