(* ===== verification/Pipeline_Demo.thy ===== *)
theory Pipeline_Demo
  imports Pipeline_System
begin

text \<open>
  One run of the store on concrete inputs, on which the properties of the pipeline are
  instantiated: a job is queued, an executor takes the lease, the job is admitted, its status
  effects are leased and settled, the owner cancels, and the admission is released.
\<close>

definition demo_web :: js_web where
  "demo_web = \<lparr>parse_url = (\<lambda>_. None), decode_uri_component = Some\<rparr>"

definition demo_job_row :: "job \<Rightarrow> job_row" where
  "demo_job_row j = \<lparr>row_job = j, autoContinueCount = 0, autoContinueKey = None, autoContinueEscalatedAt = None\<rparr>"

definition demo_waiting :: job where
  "demo_waiting = demo_selected\<lparr>state := AwaitingConfirmation, version := 2, updatedAt := 2\<rparr>"

definition demo_running :: job where
  "demo_running = demo_selected\<lparr>state := Implementing, version := 3, updatedAt := 11\<rparr>"

definition demo_render :: "int \<Rightarrow> int \<Rightarrow> stored_effect" where
  "demo_render v t = pending_effect \<lparr>idempotencyKey = effect_key ''job1'' v render_status, effectJobId = ''job1'',
     kind = render_status, payload = []\<rparr> t"

definition demo_admission :: job_admission where
  "demo_admission = \<lparr>admJobId = ''job1'', admProjectId = ''proj_demo'', queueSeq = 1, admState = Queued,
     admResumeEvent = ResumeConfirmed, queuedAt = 2, admittedAt = None, drainingAt = None, releasedAt = None, releaseReason = None\<rparr>"

definition demo_new_db :: database where
  "demo_new_db = empty_database\<lparr>jobs_table := [demo_job_row demo_row]\<rparr>"

definition demo_queued_db :: database where
  "demo_queued_db = empty_database\<lparr>jobs_table := [demo_job_row demo_waiting], effects_table := [demo_render 2 2],
     admissions_table := [demo_admission], nextQueueSeq := 2\<rparr>"

definition demo_leased_db :: database where
  "demo_leased_db = demo_queued_db\<lparr>executorLease := \<lparr>leaseHolder = Some ''ex'', executorGeneration = 1,
     heartbeatAt = Some 10, leaseUntil = Some 1010\<rparr>\<rparr>"

definition demo_claim :: resource_claim where
  "demo_claim = held_claim 1 ''job1'' (projectResourceKey ''proj_demo'') ProjectResource ''ex'' 1 11 60000"

definition demo_admitted_db :: database where
  "demo_admitted_db = demo_leased_db\<lparr>jobs_table := [demo_job_row demo_running], effects_table := [demo_render 2 2, demo_render 3 11],
     admissions_table := [demo_admission\<lparr>admState := Admitted, admittedAt := Some 11\<rparr>], claims_table := [demo_claim],
     nextClaimId := 2\<rparr>"

definition demo_attempt :: admission_attempt_input where
  "demo_attempt = \<lparr>attemptJobId = ''job1'', maxConcurrentJobs = Whole 5, attemptOwner = ''ex'', attemptGeneration = Whole 1,
     attemptNow = Whole 11, attemptLeaseMs = Whole 60000\<rparr>"

lemmas demo_dbs = demo_new_db_def demo_queued_db_def demo_leased_db_def demo_admitted_db_def empty_database_def
  demo_job_row_def demo_waiting_def demo_running_def demo_render_def demo_admission_def demo_claim_def demo_jobs

lemmas demo_tables = update_where_def changes_def get_where_def Let_def

subsection \<open>The steps\<close>

lemma demo_empty_payload: "serializeBoundedJson demo_web (JObj []) ''effect payload'' MAX_MERGE_RESULT_JSON = Inr ''{}''"
proof -
  have "\<not> containsForbiddenCallbackMaterial ''{}''" by code_simp
  moreover have "json_text (JObj []) = ''{}''" by code_simp
  ultimately show ?thesis
    by (simp add: serializeBoundedJson_def assertNoRawMergeCallback_def guard_def rthen_def MAX_MERGE_RESULT_JSON_def Let_def del: json_text.simps)
qed

lemma demo_select_step: "transition demo_runtime demo_row (PROJECT_SELECTED ''proj_demo'' (Whole 1) demo_policy) 2 =
   Inr (demo_waiting, [\<lparr>idempotencyKey = effect_key ''job1'' 2 render_status, effectJobId = ''job1'', kind = render_status, payload = []\<rparr>])"
  by (simp add: handler_eval demo_policy_ok demo_policy_fields demo_jobs demo_waiting_def)

lemma demo_confirm_step: "transition demo_runtime demo_waiting CONFIRMED 11 =
   Inr (demo_running, [\<lparr>idempotencyKey = effect_key ''job1'' 3 render_status, effectJobId = ''job1'', kind = render_status, payload = []\<rparr>])"
  by (simp add: handler_eval demo_eval demo_waiting_def demo_running_def)

lemma demo_store_select: "store_transition demo_runtime demo_web demo_new_db demo_row (PROJECT_SELECTED ''proj_demo'' (Whole 1) demo_policy) 2 =
   Inr (empty_database\<lparr>jobs_table := [demo_job_row demo_waiting], effects_table := [demo_render 2 2]\<rparr>, demo_waiting)"
  unfolding store_transition_def demo_select_step
  by (simp add: persistJobTransition_def rthen_def demo_empty_payload insert_effect_def demo_tables demo_dbs write_columns_def)

lemma demo_waiting_fields:
  "job_id demo_waiting = ''job1''" "version demo_waiting = 2" "projectId demo_waiting = Some ''proj_demo''"
  "policy demo_waiting = Some demo_policy" "policyVersion demo_waiting = Some 1" "state demo_waiting = AwaitingConfirmation"
  "cancelRequestedAt demo_waiting = None"
  by (simp_all add: demo_waiting_def demo_jobs)

lemmas demo_checks = rthen_def guard_def is_safe_integer.simps MAX_SAFE_INTEGER_def assertNotEmpty_def assertPositiveInteger_def
  assertNonNegativeInteger_def assertControllerIdentifier_def assertIdentifier_def assertPositiveSafe_def assertNonNegativeSafe_def

definition demo_write :: admission_write where
  "demo_write = \<lparr>writeJobId = ''job1'', writeVersion = Whole 2, writeProjectId = ''proj_demo'', writeResumeEvent = ResumeConfirmed,
     writeNow = Whole 2\<rparr>"

definition demo_before_queue :: database where
  "demo_before_queue = empty_database\<lparr>jobs_table := [demo_job_row demo_waiting], effects_table := [demo_render 2 2]\<rparr>"

lemma demo_queue: "queueAdmissionInTransaction demo_before_queue demo_write QueueMode = Inr (demo_queued_db, demo_admission)"
  by (simp add: queueAdmissionInTransaction_def assertWriteInput_def demo_checks persistQueuedAdmission_def readJobById_def
      assertJobIdentity_def assertContinuationState_def readAdmission_def allocateQueueSequence_def readSequence_def
      insertQueuedAdmission_def queued_admission_def demo_tables demo_waiting_fields demo_job_row_def empty_database_def
      demo_queued_db_def demo_admission_def demo_policy_fields demo_write_def demo_before_queue_def)

lemma demo_select_project: "selectProjectAndQueueAdmission demo_runtime demo_web demo_new_db ''job1'' (Whole 1) ''proj_demo'' (Whole 1)
   demo_policy (Whole 2) = Inr (demo_queued_db, demo_waiting)"
proof -
  have read: "readJobById demo_new_db ''job1'' = Some demo_row" "version demo_row = 1" "state demo_row = AwaitingProject"
    by (simp_all add: readJobById_def demo_tables demo_dbs)
  show ?thesis
    using demo_queue
    by (simp add: selectProjectAndQueueAdmission_def demo_checks read demo_store_select demo_waiting_fields
        demo_before_queue_def demo_write_def)
qed

lemma demo_lease: "acquireExecutorLease demo_queued_db ''ex'' (Whole 10) (Whole 1000) = Inr (demo_leased_db, Some 1)"
  by (simp add: acquireExecutorLease_def assertLeaseInput_def demo_checks demo_leased_db_def demo_queued_db_def empty_database_def)

lemma demo_store_confirm:
  assumes "jobs_table db = [demo_job_row demo_waiting]" "effects_table db = [demo_render 2 2]"
  shows "store_transition demo_runtime demo_web db demo_waiting CONFIRMED 11 =
    Inr (db\<lparr>jobs_table := [demo_job_row demo_running], effects_table := [demo_render 2 2, demo_render 3 11]\<rparr>, demo_running)"
  unfolding store_transition_def demo_confirm_step
  by (simp add: persistJobTransition_def rthen_def demo_empty_payload insert_effect_def demo_tables assms
      demo_job_row_def demo_waiting_def demo_running_def demo_render_def demo_jobs write_columns_def pending_effect_def effect_key_def)

lemma demo_resume: "resumeEventForAdmission demo_waiting ResumeConfirmed = Some CONFIRMED"
  by (simp add: resumeEventForAdmission_def demo_waiting_fields)

lemma demo_admit: "tryAdmit demo_runtime demo_web demo_leased_db demo_attempt =
   Inr (demo_admitted_db, AttemptAdmitted demo_running (demo_admission\<lparr>admState := Admitted, admittedAt := Some 11\<rparr>) demo_claim)"
proof -
  let ?a = "demo_admission\<lparr>admState := Admitted, admittedAt := Some 11\<rparr>"
  let ?db2 = "demo_leased_db\<lparr>claims_table := [demo_claim], nextClaimId := 2, admissions_table := [?a]\<rparr>"
  have store: "persistJobTransition demo_web ?db2 (job_id demo_waiting) (version demo_waiting) demo_running =
      Inr (?db2\<lparr>jobs_table := [demo_job_row demo_running]\<rparr>)"
    by (simp add: persistJobTransition_def rthen_def demo_tables demo_leased_db_def demo_queued_db_def empty_database_def
        demo_job_row_def demo_waiting_def demo_running_def demo_jobs write_columns_def)
  have effects: "persistPendingEffects demo_web (?db2\<lparr>jobs_table := [demo_job_row demo_running]\<rparr>)
      [\<lparr>idempotencyKey = effect_key ''job1'' 3 render_status, effectJobId = ''job1'', kind = render_status, payload = []\<rparr>] 11 =
      Inr demo_admitted_db"
    by (simp add: demo_empty_payload insert_effect_def demo_admitted_db_def demo_leased_db_def demo_queued_db_def empty_database_def
        demo_render_def pending_effect_def effect_key_def)
  have pre: "executorLeaseIsCurrent demo_leased_db ''ex'' 1 11" "readAdmission demo_leased_db ''job1'' = Some demo_admission"
      "readJobById demo_leased_db ''job1'' = Some demo_waiting" "admission_identity demo_waiting demo_admission"
      "countOccupiedAdmissions demo_leased_db = 0" "readHeldProjectClaim demo_leased_db (projectResourceKey ''proj_demo'') = None"
      "insertHeldClaim demo_leased_db ''job1'' (projectResourceKey ''proj_demo'') ProjectResource ''ex'' 1 11 60000 =
        Inr (demo_leased_db\<lparr>claims_table := [demo_claim], nextClaimId := 2\<rparr>)"
      "demo_admission\<lparr>admState := Queued\<rparr> = demo_admission"
    by (simp_all add: executorLeaseIsCurrent_def readAdmission_def readJobById_def admission_identity_def countOccupiedAdmissions_def
        occupied_def readHeldProjectClaim_def insertHeldClaim_def demo_tables demo_leased_db_def demo_queued_db_def empty_database_def
        demo_admission_def demo_waiting_fields demo_policy_fields demo_job_row_def demo_claim_def projectResourceKey_def)
  have adm: "admState demo_admission = Queued" "admResumeEvent demo_admission = ResumeConfirmed" "admProjectId demo_admission = ''proj_demo''"
      "admJobId demo_admission = ''job1''" "admissions_table demo_leased_db = [demo_admission]"
    by (simp_all add: demo_admission_def demo_leased_db_def demo_queued_db_def)
  have post: "readAdmission demo_admitted_db ''job1'' = Some ?a"
      "readHeldProjectClaim demo_admitted_db (projectResourceKey ''proj_demo'') = Some demo_claim"
    by (simp_all add: readAdmission_def readHeldProjectClaim_def demo_tables demo_admitted_db_def demo_leased_db_def
        demo_admission_def demo_claim_def held_claim_def)
  have "tryAdmitInTransaction demo_runtime demo_web demo_leased_db demo_attempt = Inr (demo_admitted_db, AttemptAdmitted demo_running ?a demo_claim)"
    using store effects
    by (simp add: tryAdmitInTransaction_def demo_attempt_def pre adm demo_resume demo_confirm_step demo_waiting_fields post changes_def
        update_where_def)
  then show ?thesis
    by (simp add: tryAdmit_def assertAdmissionAttemptInput_def demo_attempt_def assertMaxConcurrentJobs_def assertClaimLease_def
        demo_checks MAX_CONCURRENT_JOBS_def)
qed

subsection \<open>The databases are reachable\<close>

lemma lease_step_acquired: "acquireExecutorLease db ow now ms = Inr (db', Some g) \<Longrightarrow> db_step rt web db db'"
  using db_step.lease [OF lease_step.acquired, of db ow now ms db' g rt web] acquired_lease [of db ow now ms db' g] by simp

lemma reachable_db_step: "reachable_db rt web db \<Longrightarrow> db_step rt web db db' \<Longrightarrow> reachable_db rt web db'"
  unfolding reachable_db_def by (rule rtranclp.rtrancl_into_rtrancl)

lemma reachable_empty: "reachable_db rt web empty_database"
  by (simp add: reachable_db_def)

lemma reachable_demo_dbs:
  "reachable_db demo_runtime demo_web demo_new_db" "reachable_db demo_runtime demo_web demo_queued_db"
  "reachable_db demo_runtime demo_web demo_leased_db" "reachable_db demo_runtime demo_web demo_admitted_db"
proof -
  have "db_step demo_runtime demo_web empty_database (empty_database\<lparr>jobs_table := jobs_table empty_database @ [demo_job_row demo_row]\<rparr>)"
    by (rule db_step.new_job) (simp_all add: demo_job_row_def reachable_demo_row empty_database_def)
  then show n: "reachable_db demo_runtime demo_web demo_new_db"
    by (intro reachable_db_step [OF reachable_empty]) (simp add: demo_new_db_def empty_database_def)
  show q: "reachable_db demo_runtime demo_web demo_queued_db"
    by (rule reachable_db_step [OF n db_step.select [OF demo_select_project]])
  show l: "reachable_db demo_runtime demo_web demo_leased_db"
    by (rule reachable_db_step [OF q lease_step_acquired [OF demo_lease]])
  show "reachable_db demo_runtime demo_web demo_admitted_db"
    by (rule reachable_db_step [OF l db_step.admit [OF demo_admit]])
qed

end
