(* ===== verification/Pipeline_Frame.thy ===== *)
theory Pipeline_Frame
  imports Pipeline_System
begin

text \<open>
  What no step of the pipeline breaks: a leased effect has an end of its lease, and only the three
  operations on the executor lease write the lease.
\<close>

definition leases_timed :: "database \<Rightarrow> bool" where
  "leases_timed db \<longleftrightarrow> (\<forall>x \<in> set (effects_table db). timed x)"

definition frame :: "database \<Rightarrow> database \<Rightarrow> bool" where
  "frame db db' \<longleftrightarrow> executorLease db' = executorLease db \<and> (leases_timed db \<longrightarrow> leases_timed db')"

named_theorems frames "operations that keep the executor lease and the ends of the effect leases"

lemma frame_refl [intro, simp]: "frame db db"
  by (simp add: frame_def)

lemma frame_trans [trans]: "frame db db1 \<Longrightarrow> frame db1 db2 \<Longrightarrow> frame db db2"
  by (auto simp: frame_def)

lemma frame_same: "executorLease db' = executorLease db \<Longrightarrow> effects_table db' = effects_table db \<Longrightarrow> frame db db'"
  by (simp add: frame_def leases_timed_def)

lemma frame_update_effect:
  assumes "\<And>x. timed x \<Longrightarrow> timed (f x)"
  shows "frame db (update_effect db p f)"
  using assms by (fastforce simp: frame_def leases_timed_def update_effect_def set_update_where)

lemma insert_effect_timed: "\<forall>x \<in> set t. timed x \<Longrightarrow> \<forall>x \<in> set (insert_effect (pending_effect y n) t). timed x"
  by (simp add: insert_effect_def)

lemma store_pending_timed: "\<forall>x \<in> set t. timed x \<Longrightarrow> \<forall>x \<in> set (store_pending now t es). timed x"
  unfolding store_pending_def
proof (induction es arbitrary: t)
  case (Cons e es)
  from Cons.IH [OF insert_effect_timed [OF Cons.prems, of e now]] show ?case by simp
qed simp

lemma frame_effects:
  assumes "executorLease db' = executorLease db"
    "effects_table db' = store_pending now (effects_table db) es \<or> effects_table db' = insert_effect (pending_effect y n) (effects_table db)"
  shows "frame db db'"
  using assms(2)
proof
  assume e: "effects_table db' = store_pending now (effects_table db) es"
  show ?thesis unfolding frame_def leases_timed_def e
    using assms(1) store_pending_timed [of "effects_table db" now es] by blast
next
  assume e: "effects_table db' = insert_effect (pending_effect y n) (effects_table db)"
  show ?thesis unfolding frame_def leases_timed_def e
    using assms(1) insert_effect_timed [of "effects_table db" y n] by blast
qed

subsection \<open>Operations\<close>

lemma frame_persist_job [frames]: "persistJobTransition web db jid v j = Inr db' \<Longrightarrow> frame db db'"
  by (auto dest!: persistJobTransition_fields intro: frame_same)

lemma frame_persist_effects [frames]: "persistPendingEffects web db es now = Inr db' \<Longrightarrow> frame db db'"
  by (rule frame_effects) (auto dest!: persistPendingEffects_ok)

lemma frame_store [frames]: "store_transition rt web db j e now = Inr (db', j') \<Longrightarrow> frame db db'"
  by (erule store_transition_cases) (blast intro: frame_trans frames)

lemma frame_queue [frames]: "queueAdmissionInTransaction db i mode = Inr (db', a) \<Longrightarrow> frame db db'"
  by (erule queueAdmission_cases) (auto intro: frame_same)

lemma frame_drain [frames]: "markDrainingInTransaction db jid now = Inr (db', r) \<Longrightarrow> frame db db'"
  using markDraining_cases [of db jid now db' r] by (auto intro: frame_same)

lemma frame_terminal [frames]: "markAdmissionDrainingForTerminal db j now = Inr db' \<Longrightarrow> frame db db'"
  by (auto simp: markAdmissionDrainingForTerminal_def rbind_eq_Inr split: if_splits intro: frames)

lemma frame_insert_claim [frames]: "insertHeldClaim db jid key k ow g t ms = Inr db' \<Longrightarrow> frame db db'"
  using insertHeldClaim_ok [of db jid key k ow g t ms db'] by (auto intro: frame_same)

lemma frame_admit [frames]:
  assumes "tryAdmit rt web db i = Inr (db', r)"
  shows "frame db db'"
proof (cases r)
  case (AttemptAdmitted j' a' c)
  with assms obtain a j e where "admitted rt web db i a j e j' db'" using tryAdmit_admitted by blast
  then show ?thesis
  proof cases
    case (1 db1 db2 es db3)
    have "executorLease db3 = executorLease db"
      using persistJobTransition_fields [OF 1(14)] insertHeldClaim_ok [OF 1(10)] 1(11) by auto
    with 1(15) show ?thesis by (intro frame_effects) auto
  qed
next
  case (NotAdmitted x)
  with assms show ?thesis using tryAdmit_rejected [of rt web db i db' x] by simp
qed

lemma frame_adopt [frames]: "adoptHeldClaims db jid ow g now ms = Inr (db', b) \<Longrightarrow> frame db db'"
  using adoptHeldClaims_cases [of db jid ow g now ms db' b] by (auto intro: frame_same)

lemma frame_ladder [frames]:
  "recordAutoContinue db jid key now = Inr db' \<Longrightarrow> frame db db'"
  "recordContinuationEscalation db jid now = Inr db' \<Longrightarrow> frame db db'"
  by (auto simp: recordAutoContinue_def recordContinuationEscalation_def rthen_eq_Inr intro: frame_same)

lemma frame_navigator [frames]: "settleNavigatorReleaseReturn db p j = (db', j') \<Longrightarrow> frame db db'"
  by (auto simp: settleNavigatorReleaseReturn_def Let_def split: if_splits intro: frame_same)

lemma frame_event [frames]: "applyJobEvent rt web db jid v e lanes now = Inr (db', j') \<Longrightarrow> frame db db'"
proof (erule applyJobEvent_cases)
  fix j j1 db1 db2
  assume "store_transition rt web db j e now = Inr (db1, j1)" "settleNavigatorReleaseReturn db1 j j1 = (db2, j')"
    "markAdmissionDrainingForTerminal db2 j' now = Inr db'"
  then have "frame db db1" "frame db1 db2" "frame db2 db'" by - (rule frames, assumption)+
  then show "frame db db'" by (blast intro: frame_trans)
qed

lemma frame_retry [frames]: "retryFailedJob rt web db jid v now = Inr (db', r) \<Longrightarrow> frame db db'"
  by (erule retryFailedJob_cases) (auto intro: frames)

lemma frame_select [frames]: "selectProjectAndQueueAdmission rt web db jid v pid pv p now = Inr (db', j') \<Longrightarrow> frame db db'"
  by (erule selectProject_cases) (blast intro: frame_trans frames)+

lemma frame_lease_rows: "lease_rows db ow g t ms xs = (db', ys) \<Longrightarrow> frame db db'"
proof (induction xs arbitrary: db ys)
  case (Cons x xs)
  let ?db1 = "update_effect db (\<lambda>y. idempotencyKey y = idempotencyKey x \<and> leasable y t) (take_lease ow g t ms)"
  have "frame db ?db1" by (rule frame_update_effect) simp
  with Cons show ?case by (auto simp: Let_def split: if_splits prod.splits intro: frame_trans)
qed simp

lemma frame_lease_control [frames]: "leaseControlEffects db ow g now ms limit busy = Inr (db', xs) \<Longrightarrow> frame db db'"
  by (auto simp: leaseControlEffects_def rthen_eq_Inr dest: frame_lease_rows split: if_splits)

lemma frame_renew [frames]: "renewControlEffectFence db jid key ow g now ms = Inr (db', b) \<Longrightarrow> frame db db'"
  by (auto simp: renewControlEffectFence_def rthen_eq_Inr Let_def split: if_splits option.splits
      intro!: frame_update_effect)

lemma frame_complete [frames]: "completeEffect db key ow g now = Inr (db', b) \<Longrightarrow> frame db db'"
  by (auto simp: completeEffect_def rthen_eq_Inr Let_def intro!: frame_update_effect)

lemma frame_block: "frame db (blockDeadJob db jid err now)"
  using blockDeadJob_cases [of db jid err now]
proof (elim disjE exE conjE)
  fix j j' x aps
  assume "blockDeadJob db jid err now = db\<lparr>jobs_table := update_where (\<lambda>r. row_id r = jid \<and> version (row_job r) = version j)
        (\<lambda>r. r\<lparr>row_job := j'\<rparr>) (jobs_table db), approvals_table := aps,
        effects_table := insert_effect (pending_effect x now) (effects_table db)\<rparr>"
  then show ?thesis by (intro frame_effects) auto
qed simp

lemma frame_dead_letter: "dead_letter db x key ow g err t = (db', r) \<Longrightarrow> frame db db'"
proof -
  let ?db1 = "update_effect db (\<lambda>y. idempotencyKey y = key \<and> lease_held y ow g t) (drop_lease EffDead (Some err) t)"
  have "frame db ?db1" by (rule frame_update_effect) simp
  then show "dead_letter db x key ow g err t = (db', r) \<Longrightarrow> frame db db'"
    by (auto simp: dead_letter_def Let_def settleDeadEffect_def frame_block intro: frame_trans split: if_splits)
qed

lemma frame_fail [frames]: "failEffect db key ow g err n now = Inr (db', b) \<Longrightarrow> frame db db'"
  by (auto simp: failEffect_def rthen_eq_Inr Let_def split: if_splits option.splits
      intro!: frame_update_effect dest: frame_dead_letter)

lemma frame_dead [frames]: "deadLetterEffect db key ow g err now = Inr (db', b) \<Longrightarrow> frame db db'"
  by (auto simp: deadLetterEffect_def rthen_eq_Inr split: if_splits option.splits dest: frame_dead_letter)

lemma frame_merge_claims [frames]: "acquireMergeClaims db j ow g t ms = Inr (Some db') \<Longrightarrow> frame db db'"
proof -
  have "insertMissingMergeClaims db j ow g t ms rows reqs = Inr db' \<Longrightarrow> frame db db'" for rows reqs db db'
  proof (induction db j ow g t ms rows reqs rule: insertMissingMergeClaims.induct)
    case (2 db j ow g t ms rows k key reqs)
    then show ?case by (auto simp: rbind_eq_Inr split: if_splits intro: frame_trans frames)
  qed simp
  then show "acquireMergeClaims db j ow g t ms = Inr (Some db') \<Longrightarrow> frame db db'"
    by (auto simp: acquireMergeClaims_def Let_def split: option.splits if_splits sum.splits error.splits)
qed

lemma frame_settle_claims: "frame db (settleResourceClaimsInTransaction db jid ow g t why kinds)"
  by (auto simp: settleResourceClaimsInTransaction_def intro: frame_same)

lemma frame_begin_draining [frames]: "beginDraining db jid ow g now = Inr (db', r) \<Longrightarrow> frame db db'"
  by (erule beginDraining_cases) (auto intro: frames)

lemma frame_release_admission [frames]: "releaseInTransaction db jid now why = Inr (db', r) \<Longrightarrow> frame db db'"
  using releaseInTransaction_cases [of db jid now why db' r] by (auto intro: frame_same)

lemma frame_release_now [frames]: "release_now db jid now = Inr (db', r) \<Longrightarrow> frame db db'"
proof -
  assume "release_now db jid now = Inr (db', r)"
  then obtain db1 q s where d: "markDrainingInTransaction db jid now = Inr (db1, q)" and
      rel: "releaseInTransaction (update_effect db1 (superseded jid (whole now))
              (drop_lease EffDone (Some ''superseded:job_released'') (whole now))
            \<lparr>claims_table := update_where (\<lambda>c. claimJobId c = jid \<and> claimHeld c)
              (release_claim (whole now) ''job_released'') (claims_table db1)\<rparr>) jid now ''job_released'' = Inr (db', s)"
    by (auto simp: release_now_def rbind_eq_Inr Let_def update_effect_def)
  let ?e = "update_effect db1 (superseded jid (whole now)) (drop_lease EffDone (Some ''superseded:job_released'') (whole now))"
  have "frame db db1" by (rule frame_drain [OF d])
  also have "frame db1 ?e" by (rule frame_update_effect) simp
  also have "frame ?e (?e\<lparr>claims_table := cs\<rparr>)" for cs by (rule frame_same) simp_all
  also note frame_release_admission [OF rel]
  finally show ?thesis .
qed

lemma frame_finalize [frames]: "finalizeRelease rt web db jid ow g now = Inr (db', r) \<Longrightarrow> frame db db'"
  by (erule finalizeRelease_cases) (auto intro: frames frame_trans)

lemma frame_queue_write: "queue_write db db' \<Longrightarrow> frame db db'"
proof (induction rule: queue_write.induct)
  case (rewrite db1 f p)
  have "frame db1 (update_effect db1 p f)" by (rule frame_update_effect) (rule rewrite(3))
  with rewrite(4) show ?case by (rule frame_trans)
next
  case (append db1 x)
  then show ?case by (auto simp: frame_def leases_timed_def)
next
  case (merge db1 j ow g t ms db2)
  then show ?case by (blast intro: frame_trans frame_merge_claims)
next
  case (renew db1 p t e)
  have "frame db1 (db1\<lparr>claims_table := update_where p (\<lambda>c. c\<lparr>claimExpiresAt := e, renewedAt := t\<rparr>) (claims_table db1)\<rparr>)"
    by (rule frame_same) simp_all
  with renew(2) show ?case by (rule frame_trans)
qed simp

lemmas frame_job_leases [frames] = job_lease_writes [THEN frame_queue_write]

lemma frame_requeue_review [frames]: "requeueReviewAdmission db jid v now = Inr (db', r) \<Longrightarrow> frame db db'"
  by (erule requeueReview_cases) (auto intro: frames)

subsection \<open>Steps\<close>

text \<open>A step is one of the lease, or keeps the lease; either way a leased effect keeps an end of its lease.\<close>

lemma frame_step:
  "frame db db' \<Longrightarrow> lease_step (executorLease db) (executorLease db') \<and> (leases_timed db \<longrightarrow> leases_timed db')"
  by (simp add: frame_def lease_step.other)

lemma step_frame:
  assumes "db_step rt web db db'"
  shows "lease_step (executorLease db) (executorLease db') \<and> (leases_timed db \<longrightarrow> leases_timed db')"
  using assms
proof cases
  case (lease l)
  then show ?thesis by (simp add: leases_timed_def)
next
  case (settle_claims kinds jid ow g t why)
  show ?thesis unfolding settle_claims(1) by (rule frame_step [OF frame_settle_claims])
next
  case (new_effect x)
  then show ?thesis by (auto simp: leases_timed_def timed_def lease_step.other)
next
  case (note_payload key p now)
  show ?thesis unfolding note_payload by (intro frame_step frame_update_effect) simp
next
  case (hand_back s key err now p n)
  show ?thesis unfolding hand_back(1) by (intro frame_step frame_update_effect) (use hand_back(2) in simp)
next
  case (transfer_claims q ow g e t)
  show ?thesis unfolding transfer_claims by (intro frame_step frame_same) simp_all
next
  case (executor_event jid j e now db1 j')
  have "frame db db1" "frame db1 db'" using executor_event by (blast intro: frames)+
  then show ?thesis by (intro frame_step) (rule frame_trans)
qed (simp add: lease_step.other leases_timed_def; fail | rule frame_step, rule frames, assumption)+

lemma reachable_db_timed: "reachable_db rt web db \<Longrightarrow> leases_timed db"
  unfolding reachable_db_def
proof (induction rule: rtranclp_induct)
  case base
  show ?case by (simp add: leases_timed_def empty_database_def)
next
  case (step db db')
  then show ?case using step_frame by blast
qed

end
