(* ===== verification/Pipeline_Properties.thy ===== *)
theory Pipeline_Properties
  imports Pipeline_Demo Pipeline_Frame
begin

text \<open>
  The properties of the store of the pipeline, each with an instance on the run of
  \<open>Pipeline_Demo\<close>.
\<close>

subsection \<open>The tables\<close>

text \<open>C8: in every database the modelled transactions reach from the empty one, ids and keys are unique, every admitted or
draining job holds the claim of its project, at most eight jobs are admitted or draining at a time, and every leased effect has
an end of its lease.  The transactions include every lease of an effect, of control effects, of the effects that do the work of a
job and of those of the navigator, their renewals and their settlements.\<close>
theorem database_invariant:
  assumes "reachable_db rt web db"
  shows "distinct (map row_id (jobs_table db)) \<and> distinct (map idempotencyKey (effects_table db)) \<and>
    distinct (map queueSeq (admissions_table db)) \<and>
    (\<forall>a \<in> set (admissions_table db). occupied a \<longrightarrow>
       (\<exists>c \<in> set (claims_table db). claimHeld c \<and> claimKey c = projectResourceKey (admProjectId a) \<and> claimJobId c = admJobId a)) \<and>
    countOccupiedAdmissions db \<le> MAX_CONCURRENT_JOBS \<and>
    (\<forall>x \<in> set (effects_table db). effStatus x = EffLeased \<longrightarrow> leaseExpiresAt x \<noteq> None)"
  using reachable_db_inv [OF assms] reachable_db_timed [OF assms]
  by (auto simp: db_ok_defs unique_key_def holds_project_def countOccupiedAdmissions_def MAX_CONCURRENT_JOBS_def leases_timed_def timed_def)

definition demo_answers :: lease_answers where
  "demo_answers = \<lparr>approvalIntent = (\<lambda>_ _. IntentRefused), mergeApproved = (\<lambda>_ _. False), ticketClaimHeld = (\<lambda>_ _. False),
     navigatorClaimsCurrent = (\<lambda>_ _. False)\<rparr>"

definition demo_lease_input :: job_lease_input where
  "demo_lease_input = \<lparr>jlJobId = ''job1'', jlOwner = ''ex'', jlGeneration = Whole 1, jlNow = Whole 12, jlLeaseMs = Whole 500\<rparr>"

definition demo_no_authority :: authority_tables where
  "demo_no_authority = \<lparr>authorities_table = [], revisions_table = [], current_table = [], authority_events = [], admissions_of_effects = []\<rparr>"

definition demo_working_db :: database where
  "demo_working_db = demo_admitted_db\<lparr>effects_table := [take_lease ''ex'' 1 12 500 (demo_render 2 2), demo_render 3 11]\<rparr>"

lemma demo_row_key: "idempotencyKey (demo_render v t) = effect_key ''job1'' v render_status" "kind (demo_render v t) = render_status"
  "effectJobId (demo_render v t) = ''job1''" "effStatus (demo_render v t) = EffPending" "nextAttemptAt (demo_render v t) = t"
  "effectCreatedAt (demo_render v t) = t"
  by (simp_all add: demo_render_def pending_effect_def)

lemma demo_job_lease: "leaseNextJobEffect demo_answers demo_admitted_db demo_no_authority demo_lease_input =
   Inr (demo_working_db, demo_no_authority, Some (take_lease ''ex'' 1 12 500 (demo_render 2 2)))"
proof -
  let ?a = "demo_admission\<lparr>admState := Admitted, admittedAt := Some 11\<rparr>"
  let ?x = "demo_render 2 2"
  have keys: "effect_key ''job1'' 3 render_status \<noteq> effect_key ''job1'' 2 render_status"
    by (simp add: effect_key_def)
  have table: "effects_table demo_admitted_db = [?x, demo_render 3 11]" by (simp add: demo_admitted_db_def)
  have rows: "select_ordered (\<lambda>x. effectJobId x = ''job1'' \<and> leasable x 12) (\<lambda>x. (effectCreatedAt x, idempotencyKey x)) 100
      (effects_table demo_admitted_db) = [?x, demo_render 3 11]"
    by (simp add: select_ordered_def table leasable_def demo_row_key)
  have pre: "executorLeaseIsCurrent demo_admitted_db ''ex'' 1 12" "readAdmission demo_admitted_db ''job1'' = Some ?a"
      "claims_table demo_admitted_db = [demo_claim]" "claim_current demo_claim ''job1'' ''ex'' 1 12"
      "claimKey demo_claim = projectResourceKey (admProjectId ?a)" "claimKind demo_claim = ProjectResource"
    by (simp_all add: executorLeaseIsCurrent_def readAdmission_def demo_tables demo_admitted_db_def demo_leased_db_def demo_admission_def
        demo_claim_def claim_current_def)
  have allowed: "admissionAllowsEffect ?a ?x w" for w by (simp add: admissionAllowsEffect_def demo_row_key demo_admission_def)
  have job: "readJobById demo_admitted_db ''job1'' = Some demo_running" "taskOutcome demo_running = None"
    by (simp_all add: readJobById_def demo_tables demo_admitted_db_def demo_job_row_def demo_running_def demo_jobs)
  have admitted: "admit_effects demo_admitted_db demo_no_authority ?x 12 [ReadEffect] = (demo_no_authority, True)"
    by (simp add: admitEffect_def effect_of_job_def job table demo_tables demo_row_key readAuthority_def demo_no_authority_def)
  have lease: "lease_candidates demo_answers demo_admitted_db demo_no_authority ?a w ''ex'' 1 12 500 [?x, demo_render 3 11] =
      Inr (Some (demo_working_db, demo_no_authority, Some (take_lease ''ex'' 1 12 500 ?x)))" for w
    using admitted allowed [of w] keys
    by (simp add: bindPolicyApprovalIntent_def demo_row_key NAVIGATOR_EFFECTS_def lease_fence_def fenced_kind_def changes_def table
        update_effect_def update_where_def leasable_def effectByKey_def get_where_def demo_working_db_def rbind.simps)
  show ?thesis
    using pre rows lease
    by (simp add: leaseNextJobEffect_def demo_lease_input_def assertLeaseInput_def demo_checks table lease_live_def demo_row_key demo_admission_def)
qed

theorem database_invariant_witness:
  "countOccupiedAdmissions demo_working_db \<le> 8 \<and> leaseExpiresAt (take_lease ''ex'' 1 12 500 (demo_render 2 2)) \<noteq> None"
proof -
  have "reachable_db demo_runtime demo_web demo_working_db"
    by (rule reachable_db_step [OF reachable_demo_dbs(4) db_step.lease_job [OF demo_job_lease]])
  from database_invariant [OF this] show ?thesis
    by (auto simp: MAX_CONCURRENT_JOBS_def demo_working_db_def take_lease_def)
qed

text \<open>Two jobs of one project are never admitted or draining at the same time.\<close>
theorem one_job_per_project:
  assumes "reachable_db rt web db" "a \<in> set (admissions_table db)" "b \<in> set (admissions_table db)"
    "occupied a" "occupied b" "admProjectId a = admProjectId b"
  shows "admJobId a = admJobId b"
  using one_occupied_per_project [OF _ assms(2-6)] reachable_db_inv [OF assms(1)] by blast

theorem one_job_per_project_witness:
  "admJobId (demo_admission\<lparr>admState := Admitted, admittedAt := Some 11\<rparr>) = ''job1''"
  using one_job_per_project [OF reachable_demo_dbs(4), of "demo_admission\<lparr>admState := Admitted, admittedAt := Some 11\<rparr>"
      "demo_admission\<lparr>admState := Admitted, admittedAt := Some 11\<rparr>"]
  by (simp add: demo_admitted_db_def occupied_def demo_admission_def)

text \<open>C9: every job in a database the program reaches is one its lifecycle reaches, so what the state machine
guarantees holds of what is stored: a head under review is a full commit id, and a job that deploys has a merge commit.\<close>
theorem stored_jobs_are_sound:
  assumes "reachable_db rt web db" "readJobById db jid = Some j"
  shows "reachable rt j \<and> (\<forall>sha. prHeadSha j = Some sha \<longrightarrow> valid_head sha) \<and>
    (state j = Deploying \<or> state j = VerifyingProduction \<longrightarrow> mergeCommitSha j \<noteq> None \<and> policy_production j \<noteq> None)"
proof -
  have r: "reachable rt j" using reachable_db_inv [OF assms(1)] assms(2) read_reachable by blast
  from reachable_inv [OF r] have "head_inv j" "deploy_inv j" by (simp_all add: job_inv_def)
  with r show ?thesis by (auto simp: head_inv_def deploy_inv_def live_states_def)
qed

theorem stored_jobs_are_sound_witness: "reachable demo_runtime demo_running"
  using stored_jobs_are_sound [OF reachable_demo_dbs(4), of "''job1''" demo_running]
  by (simp add: readJobById_def get_where_def demo_admitted_db_def demo_job_row_def demo_running_def demo_jobs)

text \<open>C10: an event that is applied is what is read found: the stored job is the one the state machine computed,
column by column, and no other job
changes.\<close>
theorem stored_transition_reads_back:
  assumes "jobs_ok db" "readJobById db (job_id j) = Some j" "store_transition rt web db j e now = Inr (db', j')"
  shows "readJobById db' (job_id j) = Some j' \<and> (\<forall>i. i \<noteq> job_id j \<longrightarrow> readJobById db' i = readJobById db i)"
  using assms(3)
proof (rule store_transition_cases)
  fix es db1
  assume t: "transition rt j e now = Inr (j', es)" and p: "persistJobTransition web db (job_id j) (version j) j' = Inr db1"
    and db': "db' = db1\<lparr>effects_table := store_pending now (effects_table db1) es\<rparr>"
  from read_after_persist [OF p assms(1,2) t] show ?thesis by (simp add: db' readJobById_def)
qed

theorem stored_transition_reads_back_witness:
  "readJobById (empty_database\<lparr>jobs_table := [demo_job_row demo_waiting], effects_table := [demo_render 2 2]\<rparr>) ''job1'' = Some demo_waiting"
proof -
  have "jobs_ok demo_new_db" "readJobById demo_new_db (job_id demo_row) = Some demo_row" "job_id demo_row = ''job1''"
    by (simp_all add: jobs_ok_def unique_key_def demo_new_db_def demo_job_row_def readJobById_def get_where_def demo_row_def row_defs)
  with stored_transition_reads_back [OF _ _ demo_store_select] show ?thesis by simp
qed

subsection \<open>Admission\<close>

lemma admitted_moves:
  assumes "admitted rt web db i a j e j' db'" "db_ok db"
  shows "\<exists>j e es a. readJobById db (attemptJobId i) = Some j \<and> cancelRequestedAt j = None \<and>
      readAdmission db (attemptJobId i) = Some a \<and> admState a = Queued \<and> resumeEventForAdmission j (admResumeEvent a) = Some e \<and>
      transition rt j e (whole (attemptNow i)) = Inr (j', es) \<and> readJobById db' (attemptJobId i) = Some j'"
  using assms(1)
proof cases
  case (1 db1 db2 es db3)
  have jobs: "jobs_table db2 = jobs_table db" using 1(11) insertHeldClaim_jobs [OF 1(10)] by simp
  have "jobs_ok db2" "readJobById db2 (job_id j) = Some j"
    using assms(2) 1(4) readJobById_id [OF 1(4)] jobs by (simp_all add: db_ok_def jobs_ok_def readJobById_def)
  from read_after_persist [OF 1(14) this 1(13)] have "readJobById db' (attemptJobId i) = Some j'"
    using readJobById_id [OF 1(4)] 1(15) by (simp add: readJobById_def)
  with 1 show ?thesis by blast
qed

lemma admitted_claims:
  assumes "admitted rt web db i a j e j' db'" "db_ok db'" "readAdmission db' (attemptJobId i) = Some a'"
    "readHeldProjectClaim db' (projectResourceKey (admProjectId a)) = Some c"
  shows "admState a' = Admitted \<and> claimHeld c \<and> claimJobId c = attemptJobId i \<and> claimKey c = projectResourceKey (admProjectId a') \<and>
    claimOwner c = attemptOwner i \<and> claimGeneration c = whole (attemptGeneration i) \<and>
    executorLeaseIsCurrent db (attemptOwner i) (whole (attemptGeneration i)) (whole (attemptNow i))"
  using assms(1)
proof cases
  case (1 db1 db2 es db3)
  let ?f = "\<lambda>b. b\<lparr>admState := Admitted, admittedAt := Some (whole (attemptNow i))\<rparr>"
  let ?c = "held_claim (nextClaimId db) (attemptJobId i) (projectResourceKey (admProjectId a)) ProjectResource (attemptOwner i)
    (whole (attemptGeneration i)) (whole (attemptNow i)) (whole (attemptLeaseMs i))"
  from persistJobTransition_fields [OF 1(14)] insertHeldClaim_ok [OF 1(10)] 1(11,15)
  have fields: "admissions_table db' = update_where (admit_hit a) ?f (admissions_table db)" "claims_table db' = claims_table db @ [?c]"
    by auto
  have a: "a \<in> set (admissions_table db)" "admJobId a = attemptJobId i" using readAdmission_id [OF 1(2)] by auto
  have "?f a \<in> set (admissions_table db')" using a(1) 1(3) by (force simp: fields(1) set_update_where admit_hit_def)
  moreover have "a' \<in> set (admissions_table db')" "admJobId a' = attemptJobId i" using readAdmission_id [OF assms(3)] by auto
  ultimately have a': "a' = ?f a"
    using unique_eqI [of admJobId "admissions_table db'" a' "?f a"] assms(2) a(2) by (simp add: db_ok_def admissions_ok_def)
  have "c \<in> set (claims_table db')" "claimHeld c" "claimKey c = projectResourceKey (admProjectId a)"
    using get_where_Some [OF assms(4) [unfolded readHeldProjectClaim_def]] by auto
  moreover have "?c \<in> set (claims_table db')" by (simp add: fields(2))
  ultimately have "c = ?c" using assms(2) held_unique [of db' c ?c] by (simp add: db_ok_def)
  with a' 1(1) show ?thesis by simp
qed

text \<open>C11: an admitted job was queued, not cancelled and waiting to start; it moved by the event it was queued for, its
admission is marked, it holds its project's claim for the executor that admitted it, and the limit is kept.\<close>
theorem admission_starts_job:
  assumes "tryAdmit rt web db i = Inr (db', AttemptAdmitted j' a' c)" "db_ok db"
  shows "(\<exists>j e es a. readJobById db (attemptJobId i) = Some j \<and> cancelRequestedAt j = None \<and>
      readAdmission db (attemptJobId i) = Some a \<and> admState a = Queued \<and> resumeEventForAdmission j (admResumeEvent a) = Some e \<and>
      transition rt j e (whole (attemptNow i)) = Inr (j', es) \<and> readJobById db' (attemptJobId i) = Some j') \<and>
    admState a' = Admitted \<and> claimHeld c \<and> claimJobId c = attemptJobId i \<and> claimKey c = projectResourceKey (admProjectId a') \<and>
      claimOwner c = attemptOwner i \<and> claimGeneration c = whole (attemptGeneration i) \<and>
      executorLeaseIsCurrent db (attemptOwner i) (whole (attemptGeneration i)) (whole (attemptNow i)) \<and>
      countOccupiedAdmissions db' \<le> whole (maxConcurrentJobs i)"
proof -
  from tryAdmit_admitted [OF assms(1)] obtain a j e where adm: "admitted rt web db i a j e j' db'"
      and found: "readAdmission db' (attemptJobId i) = Some a'" "readHeldProjectClaim db' (projectResourceKey (admProjectId a)) = Some c"
    by blast
  from admitted_claims [OF adm tryAdmit_ok [OF assms] found] admitted_moves [OF adm assms(2)] admitted_count [OF adm]
  show ?thesis by blast
qed

theorem admission_starts_job_witness: "admState (demo_admission\<lparr>admState := Admitted, admittedAt := Some 11\<rparr>) = Admitted \<and>
    claimOwner demo_claim = ''ex'' \<and> countOccupiedAdmissions demo_admitted_db \<le> 5"
  using admission_starts_job [OF demo_admit] reachable_db_inv [OF reachable_demo_dbs(3)] by (simp add: demo_attempt_def)

text \<open>An attempt that is not admitted, or that throws, changes nothing.\<close>
theorem rejected_admission_changes_nothing:
  assumes "tryAdmit rt web db i = Inr (db', NotAdmitted r)"
  shows "db' = db"
  by (rule tryAdmit_rejected [OF assms])

theorem rejected_admission_changes_nothing_witness:
  "tryAdmit demo_runtime demo_web demo_queued_db demo_attempt = Inr (demo_queued_db, NotAdmitted ExecutorLeaseLost)"
proof -
  obtain db' r where *: "tryAdmit demo_runtime demo_web demo_queued_db demo_attempt = Inr (db', NotAdmitted r)" "r = ExecutorLeaseLost"
    by (simp add: tryAdmit_def assertAdmissionAttemptInput_def demo_attempt_def assertMaxConcurrentJobs_def assertClaimLease_def
        demo_checks MAX_CONCURRENT_JOBS_def tryAdmitInTransaction_def executorLeaseIsCurrent_def demo_queued_db_def empty_database_def)
  with rejected_admission_changes_nothing [OF *(1)] show ?thesis by simp
qed

text \<open>Queueing is idempotent: the same request again returns the stored admission and changes nothing.\<close>
theorem queueing_is_idempotent:
  assumes "queueAdmissionInTransaction db i mode = Inr (db1, a)" "db_ok db"
  shows "queueAdmissionInTransaction db1 i mode = Inr (db1, a)"
proof -
  have jobs: "readJobById db1 = readJobById db" using queueAdmission_jobs [OF assms(1)] by (auto simp: readJobById_def)
  have "admissions_ok db1" using queueAdmission_ok [OF assms] by (simp add: db_ok_def)
  moreover have "a \<in> set (admissions_table db1) \<and> admJobId a = writeJobId i \<and> admState a \<noteq> Released \<and>
      admProjectId a = writeProjectId i \<and> admResumeEvent a = writeResumeEvent i"
    using assms(1)
  proof (cases rule: queueAdmission_cases)
    case (replayed b)
    then show ?thesis using readAdmission_id by blast
  next
    case (replaced b)
    with readAdmission_id [OF replaced(1)] show ?thesis by (force simp: set_update_where queued_admission_def)
  next
    case inserted
    then show ?thesis by (simp add: queued_admission_def)
  qed
  ultimately have "readAdmission db1 (writeJobId i) = Some a" "admState a \<noteq> Released" "assertReplayIdentity a i = Inr ()"
    using readAdmission_Some [of db1 "writeJobId i" a] by (simp_all add: assertReplayIdentity_def guard_def)
  moreover have "assertWriteInput i = Inr ()" "\<exists>j. readJobById db (writeJobId i) = Some j \<and> assertJobIdentity j i = Inr () \<and>
      assertContinuationState j (writeResumeEvent i) = Inr ()"
    using assms(1) by (auto simp: queueAdmissionInTransaction_def persistQueuedAdmission_def rthen_eq_Inr split: option.splits)
  ultimately show ?thesis
    using jobs by (auto simp: queueAdmissionInTransaction_def persistQueuedAdmission_def rthen_def)
qed

theorem queueing_is_idempotent_witness:
  "queueAdmissionInTransaction demo_queued_db demo_write QueueMode = Inr (demo_queued_db, demo_admission)"
  by (rule queueing_is_idempotent [OF demo_queue]) (simp add: demo_before_queue_def demo_dbs db_ok_defs unique_key_def changes_def)

text \<open>From the candidates it is given the selection takes, in queue order, the first of each project that is neither paused
nor busy, as many as there are free slots.\<close>
theorem selection_is_oldest_per_project:
  assumes "0 \<le> n" "n \<le> 8"
  shows "selectOldestEligibleAdmissions cs held (Whole n) (Some paused) =
    Inr (take (nat n) (filter (\<lambda>c. projectResourceKey (candProjectId c) \<notin> set held)
      (project_firsts [] (filter (\<lambda>c. candProjectId c \<notin> set paused) (sort_key (\<lambda>c. (candQueueSeq c, candJobId c)) cs)))))"
  using assms by (simp add: selection_defs opt_default_def candidate_key_def [abs_def])

theorem selection_is_oldest_per_project_witness:
  "selectOldestEligibleAdmissions [\<lparr>candJobId = ''j2'', candProjectId = ''p'', candQueueSeq = 5\<rparr>,
     \<lparr>candJobId = ''j1'', candProjectId = ''p'', candQueueSeq = 3\<rparr>, \<lparr>candJobId = ''j3'', candProjectId = ''q'', candQueueSeq = 1\<rparr>]
     [] (Whole 2) (Some [''q'']) = Inr [\<lparr>candJobId = ''j1'', candProjectId = ''p'', candQueueSeq = 3\<rparr>]"
  by (subst selection_is_oldest_per_project) simp_all

lemma sort_key_sorted: "sorted (map f xs) \<Longrightarrow> sort_key f xs = xs"
  by (induction xs) (auto simp: insort_is_Cons)

lemma project_firsts_id: "distinct (map candProjectId cs) \<Longrightarrow> candProjectId ` set cs \<inter> set seen = {} \<Longrightarrow> project_firsts seen cs = cs"
  by (induction cs arbitrary: seen) auto

lemma oldest_sorted: "sorted (map queue_key (select_ordered p queue_key n t))"
  by (simp add: select_ordered_def take_map [symmetric] sorted_wrt_take)

lemma oldest_distinct:
  assumes "admissions_ok db"
  shows "distinct (map admProjectId (select_ordered (project_first (admissions_table db)) queue_key n (admissions_table db)))"
proof -
  let ?t = "admissions_table db"
  have ids: "distinct (map queueSeq ?t)" using assms by (simp add: admissions_ok_def unique_key_def)
  have "inj_on admProjectId {a \<in> set ?t. project_first ?t a}"
  proof (rule inj_onI)
    fix a b
    assume ab: "a \<in> {a \<in> set ?t. project_first ?t a}" "b \<in> {a \<in> set ?t. project_first ?t a}" "admProjectId a = admProjectId b"
    then have "queue_key a \<le> queue_key b" "queue_key b \<le> queue_key a" by (auto simp: project_first_def list_all_iff)
    then have "queueSeq a = queueSeq b" by (auto simp: queue_key_def less_eq_prod_def)
    with ab ids show "a = b" by (auto simp: distinct_map inj_on_def)
  qed
  moreover have "distinct ?t" using ids by (simp add: distinct_map)
  ultimately have "distinct (map admProjectId (sort_key queue_key (filter (project_first ?t) ?t)))"
    by (simp add: distinct_map)
  then show ?thesis unfolding select_ordered_def by (simp add: take_map [symmetric])
qed

text \<open>C12: a tick of the scheduler considers the oldest waiting job of each project, in queue order, as many projects as the
limit on concurrent jobs; of those it admits, one after the other and up to the free slots, the jobs whose project is neither
paused nor held by a running job.\<close>
theorem tick_starts_oldest_per_project:
  assumes "assertSchedulerInput i = Inr ()" "db_ok db" "countOccupiedAdmissions db < whole (maxConcurrentJobs i)"
    "heldProjectKeys db (whole (maxConcurrentJobs i)) = Inr held"
  shows "run rt web db (Some (Inr paused)) i =
    (let slots = whole (maxConcurrentJobs i) - countOccupiedAdmissions db;
         heads = take (nat (whole (maxConcurrentJobs i)))
           (sort_key (\<lambda>a. (queueSeq a, admJobId a)) (filter (project_first (admissions_table db)) (admissions_table db)));
         starts = take (nat slots) (filter (\<lambda>a. admProjectId a \<notin> set paused \<and> projectResourceKey (admProjectId a) \<notin> set held) heads);
         (db', r) = admit_each (\<lambda>d jid. tryAdmit rt web d (i\<lparr>attemptJobId := jid\<rparr>)) db (map admJobId starts)
     in (db', rbind r (\<lambda>as. Inr \<lparr>occupiedCount = countOccupiedAdmissions db, availableSlots = slots, runAdmissions = as\<rparr>)))"
proof -
  let ?occ = "countOccupiedAdmissions db" and ?max = "whole (maxConcurrentJobs i)"
  let ?t = "admissions_table db"
  let ?heads = "select_ordered (project_first ?t) queue_key (nat ?max) ?t"
  let ?starts = "take (nat (?max - ?occ)) (filter (\<lambda>a. admProjectId a \<notin> set paused \<and> projectResourceKey (admProjectId a) \<notin> set held) ?heads)"
  have max: "1 \<le> ?max" "?max \<le> 8"
    using assms(1) by (cases "maxConcurrentJobs i"; auto simp: assertSchedulerInput_def MAX_CONCURRENT_JOBS_def rthen_eq_Inr guard_def split: if_splits)+
  have occ: "0 \<le> ?occ" by (simp add: countOccupiedAdmissions_def)
  have "nat ?max \<le> 16" using max by simp
  with max have list: "listOldestQueuedPerProject db (Whole ?max) = Inr ?heads"
    by (simp add: listOldestQueuedPerProject_def boundedLimit_def assertPositiveSafe_def MAX_SAFE_INTEGER_def
        MAX_SCHEDULER_CANDIDATES_def rthen_def guard_def rbind.simps min_def)
  have "sorted (map candidate_key (map candidate_of ?heads))"
    using oldest_sorted [of "project_first ?t" "nat ?max" ?t]
    by (simp add: comp_def candidate_key_def candidate_of_def queue_key_def [abs_def])
  then have same: "sort_key candidate_key (map candidate_of ?heads) = map candidate_of ?heads" by (rule sort_key_sorted)
  have "distinct (map candProjectId (map candidate_of ?heads))"
    using oldest_distinct [of db] assms(2) by (simp add: comp_def candidate_of_def db_ok_def)
  then have "project_firsts [] (filter (\<lambda>c. candProjectId c \<notin> set paused) (map candidate_of ?heads)) =
      filter (\<lambda>c. candProjectId c \<notin> set paused) (map candidate_of ?heads)"
    by (intro project_firsts_id) (simp_all add: distinct_map_filter del: map_map)
  with same have "selectOldestEligibleAdmissions (map candidate_of ?heads) held (Whole (?max - ?occ)) (Some paused) =
      Inr (map candidate_of ?starts)"
    using max occ assms(3)
    by (simp add: selection_defs opt_default_def filter_map comp_def candidate_of_def take_map conj_commute)
  then have "run_selection db ?occ (?max - ?occ) paused = Inr (map candidate_of ?starts)"
    using list assms(4) max by (simp add: run_selection_def rbind.simps min_def max_def)
  then show ?thesis
    using assms(1,3) by (simp add: run_def Let_def pausedProjectIds_def comp_def candidate_of_def queue_key_def [abs_def] select_ordered_def)
qed

theorem tick_starts_oldest_per_project_witness:
  "run demo_runtime demo_web demo_leased_db (Some (Inr [])) demo_attempt =
     (demo_admitted_db, Inr \<lparr>occupiedCount = 0, availableSlots = 5, runAdmissions =
        [AttemptAdmitted demo_running (demo_admission\<lparr>admState := Admitted, admittedAt := Some 11\<rparr>) demo_claim]\<rparr>)"
proof -
  have i: "assertSchedulerInput demo_attempt = Inr ()"
    by (simp add: assertSchedulerInput_def demo_attempt_def demo_checks MAX_CONCURRENT_JOBS_def)
  have t: "admissions_table demo_leased_db = [demo_admission]" by (simp add: demo_leased_db_def demo_queued_db_def)
  have o: "countOccupiedAdmissions demo_leased_db = 0" "whole (maxConcurrentJobs demo_attempt) = 5"
    by (simp_all add: countOccupiedAdmissions_def t occupied_def demo_admission_def demo_attempt_def demo_tables)
  have h: "heldProjectKeys demo_leased_db (whole (maxConcurrentJobs demo_attempt)) = Inr []"
    by (simp add: o heldProjectKeys_def listCurrentHeldProjectClaims_def boundedLimit_def demo_checks rbind.simps select_ordered_def
        demo_leased_db_def demo_queued_db_def empty_database_def)
  have first: "project_first [demo_admission] demo_admission" "admJobId demo_admission = ''job1''"
    by (simp_all add: project_first_def demo_admission_def)
  have same: "demo_attempt\<lparr>attemptJobId := ''job1''\<rparr> = demo_attempt" by (simp add: demo_attempt_def)
  have "countOccupiedAdmissions demo_leased_db < whole (maxConcurrentJobs demo_attempt)" by (simp add: o)
  from tick_starts_oldest_per_project [OF i _ this h, of demo_runtime demo_web "[]"] show ?thesis
    using reachable_db_inv [OF reachable_demo_dbs(3)] demo_admit first
    by (simp add: o t same rbind.simps)
qed

text \<open>No project gets two jobs, none that is paused or busy gets one, and no older waiting job of a selected project is
passed over.\<close>
theorem selection_is_fair:
  assumes "selectOldestEligibleAdmissions cs held slots (Some paused) = Inr selected" "c \<in> set selected" "d \<in> set cs"
    "candProjectId d = candProjectId c"
  shows "c \<in> set cs \<and> candProjectId c \<notin> set paused \<and> projectResourceKey (candProjectId c) \<notin> set held \<and>
    (candQueueSeq c, candJobId c) \<le> (candQueueSeq d, candJobId d) \<and> distinct (map candProjectId selected) \<and>
    int (length selected) \<le> whole slots"
proof -
  let ?cs = "filter (\<lambda>c. candProjectId c \<notin> set paused) (sort_key candidate_key cs)"
  let ?free = "\<lambda>c. projectResourceKey (candProjectId c) \<notin> set held"
  from assms(1) have sel: "selected = take (nat (whole slots)) (filter ?free (project_firsts [] ?cs))" "0 \<le> whole slots"
    by (auto simp: selection_defs opt_default_def split: if_splits)
  have c: "c \<in> set (project_firsts [] ?cs)" "?free c" using assms(2) unfolding sel by (auto dest: in_set_takeD)
  have "sorted_wrt (\<lambda>a b. candidate_key a \<le> candidate_key b) (sort_key candidate_key cs)"
    using sorted_sort_key [of candidate_key cs] unfolding sorted_map .
  then have sorted: "sorted_wrt (\<lambda>a b. candidate_key a \<le> candidate_key b) ?cs" by (rule sorted_wrt_filter)
  have c': "c \<in> set cs" "candProjectId c \<notin> set paused" using c(1) project_firsts_sub [of "[]" ?cs] by auto
  then have "d \<in> set ?cs" using assms(3,4) by simp
  from project_firsts_least [OF sorted this, of "[]"] obtain f where
    f: "f \<in> set (project_firsts [] ?cs)" "candProjectId f = candProjectId d" "f = d \<or> candidate_key f \<le> candidate_key d" by auto
  have dist: "distinct (map candProjectId (project_firsts [] ?cs))" by (rule project_firsts_distinct)
  with f(1,2) c(1) assms(4) have "f = c" by (auto simp: distinct_map inj_on_def)
  with f(3) have "(candQueueSeq c, candJobId c) \<le> (candQueueSeq d, candJobId d)" by (auto simp: candidate_key_def)
  moreover have "distinct (map candProjectId selected)"
    unfolding sel by (metis dist distinct_map_filter distinct_take take_map)
  ultimately show ?thesis using c c' sel by simp
qed

theorem selection_is_fair_witness:
  "\<exists>selected. selectOldestEligibleAdmissions [\<lparr>candJobId = ''j2'', candProjectId = ''p'', candQueueSeq = 5\<rparr>,
     \<lparr>candJobId = ''j1'', candProjectId = ''p'', candQueueSeq = 3\<rparr>, \<lparr>candJobId = ''j3'', candProjectId = ''q'', candQueueSeq = 1\<rparr>]
     [] (Whole 2) (Some [''q'']) = Inr selected \<and> distinct (map candProjectId selected) \<and> length selected \<le> 2"
proof -
  let ?j = "\<lambda>j p n. \<lparr>candJobId = j, candProjectId = p, candQueueSeq = n\<rparr>"
  have "selectOldestEligibleAdmissions [?j ''j2'' ''p'' 5, ?j ''j1'' ''p'' 3, ?j ''j3'' ''q'' 1] [] (Whole 2) (Some [''q'']) =
      Inr [?j ''j1'' ''p'' 3]"
    by code_simp
  with selection_is_fair [OF this, of "?j ''j1'' ''p'' 3" "?j ''j2'' ''p'' 5"] show ?thesis by simp
qed

text \<open>A run of the scheduler keeps the tables sound and never takes the admitted jobs above the limit it was given,
whatever the pause list says and however many of its attempts fail.\<close>
theorem scheduler_keeps_limit:
  assumes "run rt web db pauses i = (db', r)" "db_ok db"
  shows "db_ok db' \<and> countOccupiedAdmissions db' \<le> max (countOccupiedAdmissions db) (whole (maxConcurrentJobs i))"
  using run_ok [OF assms] run_count [OF assms(1)] by blast

theorem scheduler_keeps_limit_witness: "countOccupiedAdmissions (fst (run demo_runtime demo_web demo_leased_db None demo_attempt)) \<le> 5"
proof -
  have "countOccupiedAdmissions demo_leased_db = 0"
    by (simp add: countOccupiedAdmissions_def demo_leased_db_def demo_queued_db_def changes_def occupied_def demo_admission_def)
  then show ?thesis
    using scheduler_keeps_limit [where rt = demo_runtime and web = demo_web and db = demo_leased_db and pauses = None and i = demo_attempt,
        OF surjective_pairing]
      reachable_db_inv [OF reachable_demo_dbs(3)] by (simp add: demo_attempt_def)
qed

text \<open>When the list of paused projects cannot be read, a tick admits nothing.\<close>
theorem unreadable_pauses_admit_nothing:
  "fst (run rt web db (Some (Inl e)) i) = db \<and>
   (case snd (run rt web db (Some (Inl e)) i) of Inl _ \<Rightarrow> True | Inr s \<Rightarrow> runAdmissions s = [])"
  by (auto simp: run_def Let_def pausedProjectIds_def split: sum.splits)

end
