(* ===== verification/Effect_Properties.thy ===== *)
theory Effect_Properties
  imports Pipeline_Frame Pipeline_Demo
begin

text \<open>
  The properties of the effect queue, of the executor lease and of the release of an admission.
\<close>

subsection \<open>Databases for the instances\<close>

definition demo_busy_db :: database where
  "demo_busy_db = demo_admitted_db\<lparr>effects_table := [take_lease ''ex'' 1 12 500 (demo_render 3 11)]\<rparr>"

definition demo_merge_effect :: stored_effect where
  "demo_merge_effect = (take_lease ''ex'' 1 12 500 (pending_effect \<lparr>idempotencyKey = ''merge'', effectJobId = ''job1'',
     kind = merge_pr, payload = []\<rparr> 11))\<lparr>effAttempts := 20\<rparr>"

definition demo_dying_db :: database where
  "demo_dying_db = demo_admitted_db\<lparr>jobs_table := [demo_job_row (demo_in Merging 8)], effects_table := [demo_merge_effect]\<rparr>"

definition demo_ended_db :: database where
  "demo_ended_db = demo_admitted_db\<lparr>jobs_table := [demo_job_row ((demo_in Cancelled 6)\<lparr>cancelRequestedAt := Some 6\<rparr>)],
     effects_table := [drop_lease EffDone None 12 (demo_render 3 11),
       pending_effect \<lparr>idempotencyKey = ''stop'', effectJobId = ''job1'', kind = stop_thread, payload = []\<rparr> 11],
     admissions_table := [demo_admission\<lparr>admState := Draining, admittedAt := Some 11, drainingAt := Some 12\<rparr>]\<rparr>"

lemma demo_lease_current: "executorLeaseIsCurrent (demo_leased_db\<lparr>jobs_table := js, effects_table := es, admissions_table := as,
    claims_table := cs, nextClaimId := n\<rparr>) ''ex'' 1 13"
  by (simp add: executorLeaseIsCurrent_def demo_leased_db_def)

lemma demo_dbs_ok: "db_ok demo_busy_db" "db_ok demo_dying_db" "db_ok demo_ended_db"
  by (simp_all add: demo_busy_db_def demo_dying_db_def demo_ended_db_def demo_admitted_db_def demo_leased_db_def demo_queued_db_def
      empty_database_def demo_job_row_def demo_claim_def demo_admission_def db_ok_defs unique_key_def changes_def occupied_def
      holds_project_def held_claim_def demo_merge_effect_def demo_render_def pending_effect_def effect_key_def)

subsection \<open>The lease\<close>

lemma steps_lease: "(db_step rt web)\<^sup>*\<^sup>* db db' \<Longrightarrow> lease_step\<^sup>*\<^sup>* (executorLease db) (executorLease db')"
proof (induction rule: rtranclp_induct)
  case (step db1 db2)
  then show ?case using step_frame by (meson rtranclp.rtrancl_into_rtrancl)
qed simp

text \<open>C13: an executor that held the lease never holds it again under its generation once another acquisition has succeeded,
however much later and whatever happens before and after: the acquisition has a newer generation, and no later database accepts
the old one.\<close>
theorem overtaken_executor_is_fenced:
  assumes "executorLeaseIsCurrent db owner g t" "(db_step rt web)\<^sup>*\<^sup>* db db1"
    "acquireExecutorLease db1 other now ms = Inr (db2, Some g')" "(db_step rt web)\<^sup>*\<^sup>* db2 db3"
  shows "g < g' \<and> \<not> executorLeaseIsCurrent db3 owner g t'"
proof -
  have "g = executorGeneration (executorLease db)" using assms(1) by (simp add: executorLeaseIsCurrent_def Let_def)
  also have "\<dots> \<le> executorGeneration (executorLease db1)"
    by (rule executor_fence.generation_mono_rtrancl [OF steps_lease [OF assms(2)]])
  finally have "g < g'" "g' = executorGeneration (executorLease db2)" using acquired_lease [OF assms(3)] by auto
  with executor_fence.fenced_off [OF steps_lease [OF assms(4)], of g] show ?thesis
    by (simp add: executorLeaseIsCurrent_iff)
qed

theorem overtaken_executor_is_fenced_witness:
  "\<exists>db2. acquireExecutorLease demo_admitted_db ''ex2'' (Whole 2000) (Whole 1000) = Inr (db2, Some 2) \<and>
     executorLeaseIsCurrent demo_admitted_db ''ex'' 1 11 \<and> \<not> executorLeaseIsCurrent db2 ''ex'' 1 11"
proof -
  have cur: "executorLeaseIsCurrent demo_leased_db ''ex'' 1 11" "executorLeaseIsCurrent demo_admitted_db ''ex'' 1 11"
    by (simp_all add: executorLeaseIsCurrent_def demo_admitted_db_def demo_leased_db_def)
  obtain db2 where a: "acquireExecutorLease demo_admitted_db ''ex2'' (Whole 2000) (Whole 1000) = Inr (db2, Some 2)"
    by (simp add: acquireExecutorLease_def assertLeaseInput_def demo_checks demo_admitted_db_def demo_leased_db_def)
  have "(db_step demo_runtime demo_web)\<^sup>*\<^sup>* demo_leased_db demo_admitted_db"
    using db_step.admit [OF demo_admit] by (rule r_into_rtranclp)
  from overtaken_executor_is_fenced [OF cur(1) this a rtranclp.rtrancl_refl] a cur(2) show ?thesis by blast
qed

subsection \<open>Settling effects\<close>

text \<open>Only the executor that leased an effect, while both its leases last, completes it; any other attempt reports
failure and changes nothing.\<close>
theorem only_the_lessee_completes:
  assumes "completeEffect db key owner gen now = Inr (db', ok)" "effects_ok db"
  shows "(ok \<longleftrightarrow> (\<exists>x. effectByKey db key = Some x \<and> effectLeaseIsActiveForRow db x owner (whole gen) (whole now))) \<and>
    (if ok then \<exists>x. effectByKey db' key = Some x \<and> effStatus x = EffDone else db' = db)"
proof -
  let ?hit = "\<lambda>x. idempotencyKey x = key \<and> lease_held x owner (whole gen) (whole now) \<and>
    executorLeaseIsCurrent db owner (whole gen) (whole now)"
  have u: "unique_key idempotencyKey (effects_table db)" using assms(2) by (simp add: effects_ok_def)
  have ok: "ok = (changes ?hit (effects_table db) = 1)" and db': "db' = update_effect db ?hit (drop_lease EffDone None (whole now))"
    using assms(1) by (auto simp: completeEffect_def rthen_eq_Inr Let_def)
  have one: "changes ?hit (effects_table db) = 1 \<longleftrightarrow> (\<exists>x \<in> set (effects_table db). ?hit x)"
    using changes_unique [OF u, of ?hit key] changes_pos [of ?hit "effects_table db"] by auto
  have "ok \<longleftrightarrow> (\<exists>x. effectByKey db key = Some x \<and> effectLeaseIsActiveForRow db x owner (whole gen) (whole now))"
    unfolding ok one effectByKey_def effectLeaseIsActiveForRow_def by (auto simp: get_unique [OF u])
  moreover have "\<exists>x. effectByKey db' key = Some x \<and> effStatus x = EffDone" if "ok"
  proof -
    from that ok one obtain x where x: "x \<in> set (effects_table db)" "?hit x" by auto
    then have "get_where (\<lambda>y. idempotencyKey y = key) (effects_table db) = Some x" by (simp add: get_unique [OF u])
    then show ?thesis using x(2) unfolding db' effectByKey_def update_effect_def
      by (simp add: get_update_where [of idempotencyKey] drop_lease_def)
  qed
  moreover have "db' = db" if "\<not> ok"
  proof -
    from that ok one have "\<forall>x \<in> set (effects_table db). \<not> ?hit x" by blast
    then have "update_where ?hit (drop_lease EffDone None (whole now)) (effects_table db) = effects_table db"
      unfolding update_where_def by (intro map_idI) auto
    then show ?thesis by (simp only: db' update_effect_def) simp
  qed
  ultimately show ?thesis by simp
qed

theorem only_the_lessee_completes_witness:
  "(\<exists>db'. completeEffect demo_busy_db (effect_key ''job1'' 3 render_status) ''ex'' (Whole 1) (Whole 13) = Inr (db', True)) \<and>
   completeEffect demo_busy_db (effect_key ''job1'' 3 render_status) ''other'' (Whole 1) (Whole 13) = Inr (demo_busy_db, False)"
proof -
  have active: "effectByKey demo_busy_db (effect_key ''job1'' 3 render_status) = Some (take_lease ''ex'' 1 12 500 (demo_render 3 11))"
    by (simp add: effectByKey_def get_where_def demo_busy_db_def demo_render_def pending_effect_def take_lease_def)
  have live: "effectLeaseIsActiveForRow demo_busy_db (take_lease ''ex'' 1 12 500 (demo_render 3 11)) ow 1 13 \<longleftrightarrow> ow = ''ex''" for ow
    by (auto simp: effectLeaseIsActiveForRow_def lease_held_def take_lease_def executorLeaseIsCurrent_def demo_busy_db_def
        demo_admitted_db_def demo_leased_db_def)
  have ok: "effects_ok demo_busy_db" using demo_dbs_ok(1) by (simp add: db_ok_def)
  obtain db1 b1 where c1: "completeEffect demo_busy_db (effect_key ''job1'' 3 render_status) ''ex'' (Whole 1) (Whole 13) = Inr (db1, b1)"
    by (simp add: completeEffect_def assertLeaseIdentity_def demo_checks Let_def effect_key_def)
  obtain db2 b2 where c2: "completeEffect demo_busy_db (effect_key ''job1'' 3 render_status) ''other'' (Whole 1) (Whole 13) = Inr (db2, b2)"
    by (simp add: completeEffect_def assertLeaseIdentity_def demo_checks Let_def effect_key_def)
  from only_the_lessee_completes [OF c1 ok] active live have "b1" by simp
  moreover from only_the_lessee_completes [OF c2 ok] active live have "\<not> b2" "db2 = demo_busy_db" by (auto split: if_splits)
  ultimately show ?thesis using c1 c2 by simp
qed

lemma blockDeadJob_stores:
  assumes "db_ok db" "readJobById db jid = Some j" "markJobPermanentFailure j err now = Some (j', x)"
  shows "readJobById (blockDeadJob db jid err now) jid = Some j'"
    "get_where (\<lambda>y. idempotencyKey y = key) (effects_table db) = Some z \<Longrightarrow> effectByKey (blockDeadJob db jid err now) key = Some z"
proof -
  let ?hit = "\<lambda>r. row_id r = jid \<and> version (row_job r) = version j"
  have jobs: "jobs_ok db" using assms(1) by (simp add: db_ok_def)
  then obtain r where r: "r \<in> set (jobs_table db)" "row_job r = j" "job_id j = jid"
    using assms(2) by (auto simp: readJobById_Some)
  have "changes ?hit (jobs_table db) = 1"
    by (rule changes_one [of row_id _ ?hit jid r]) (use jobs r in \<open>simp_all add: jobs_ok_def\<close>)
  then have b: "jobs_table (blockDeadJob db jid err now) = update_where ?hit (\<lambda>r. r\<lparr>row_job := j'\<rparr>) (jobs_table db)"
      "effects_table (blockDeadJob db jid err now) = insert_effect (pending_effect x now) (effects_table db)"
    using assms(2,3) by (simp_all add: blockDeadJob_def Let_def)
  have "jobs_ok (blockDeadJob db jid err now)" using blockDeadJob_ok [OF assms(1)] by (simp add: db_ok_def)
  moreover have "r\<lparr>row_job := j'\<rparr> \<in> set (jobs_table (blockDeadJob db jid err now))"
    unfolding b set_update_where using r by force
  moreover have "job_id j' = jid" using blocked_job_id [OF assms(3)] r(3) by simp
  ultimately show "readJobById (blockDeadJob db jid err now) jid = Some j'" by (force simp: readJobById_Some)
  show "effectByKey (blockDeadJob db jid err now) key = Some z"
    if "get_where (\<lambda>y. idempotencyKey y = key) (effects_table db) = Some z"
    using that by (simp add: effectByKey_def b insert_effect_def get_append)
qed

text \<open>C14: an effect that fails on its twentieth lease or later is dead, and unless it only redraws the status it stops its
job with the error.  A merged job that deploys or verifies production becomes a production failure, which is not retried.  Any
other job that has not ended is blocked, and can be retried from the stage it was in exactly when no cancellation was requested
and that stage is one of those a retry may enter.  A job that has ended or is blocked stays as it is.\<close>
theorem dead_effect_stops_job:
  assumes "failEffect db key owner gen err next now = Inr (db', True)" "db_ok db" "effectByKey db key = Some x" "20 \<le> effAttempts x"
    "readJobById db (effectJobId x) = Some j"
  shows "(\<exists>y. effectByKey db' key = Some y \<and> effStatus y = EffDead \<and> effectError y = Some err) \<and>
    (\<exists>j'. readJobById db' (effectJobId x) = Some j' \<and>
       (if kind x = render_status \<or> state j \<in> {Merged, Cancelled, Blocked, Complete, ProductionFailed} then j' = j
        else lastError j' = Some err \<and>
          (if mergeCommitSha j \<noteq> None \<and> state j \<in> {Deploying, VerifyingProduction}
           then state j' = ProductionFailed \<and> resumeState j' = None \<and> \<not> retryable j'
           else state j' = Blocked \<and> blockedReason j' = Some PermanentEffectFailure \<and> resumeState j' = Some (state j) \<and>
             (retryable j' \<longleftrightarrow> cancelRequestedAt j = None \<and> List.member RETRYABLE_RESUME_STATES (state j)))))"
proof -
  let ?hit = "\<lambda>y. idempotencyKey y = key \<and> lease_held y owner (whole gen) (whole now)"
  let ?f = "drop_lease EffDead (Some err) (whole now)"
  let ?db1 = "update_effect db ?hit ?f"
  from assms(1,3,4) have active: "effectLeaseIsActiveForRow db x owner (whole gen) (whole now)"
      and dl: "dead_letter db x key owner (whole gen) err (whole now) = (db', True)"
    by (auto simp: failEffect_def rthen_eq_Inr split: if_splits)
  from dl have db': "db' = (if kind x = render_status then ?db1 else blockDeadJob ?db1 (effectJobId x) err (whole now))"
    by (auto simp: dead_letter_def Let_def settleDeadEffect_def COSMETIC_EFFECT_KINDS_def split: if_splits)
  have ok1: "db_ok ?db1" by (rule update_effect_ok [OF assms(2)]) simp
  have read1: "readJobById ?db1 (effectJobId x) = Some j" using assms(5) by (simp add: readJobById_def)
  have row: "get_where (\<lambda>y. idempotencyKey y = key) (effects_table ?db1) = Some (?f x)"
    using assms(3) active get_where_Some [OF assms(3) [unfolded effectByKey_def]]
    by (simp add: update_effect_def effectByKey_def get_update_where [of idempotencyKey] effectLeaseIsActiveForRow_def)
  have dead: "effStatus (?f x) = EffDead" "effectError (?f x) = Some err" by (simp_all add: drop_lease_def)
  show ?thesis
  proof (cases "kind x = render_status \<or> markJobPermanentFailure j err (whole now) = None")
    case True
    then have "db' = ?db1" using read1 by (auto simp: db' blockDeadJob_def)
    moreover have "kind x = render_status \<or> state j \<in> {Merged, Cancelled, Blocked, Complete, ProductionFailed}"
      using True by (auto simp: markJobPermanentFailure_def split: if_splits)
    ultimately show ?thesis using row read1 dead by (simp add: effectByKey_def)
  next
    case False
    then obtain j' e where b: "markJobPermanentFailure j err (whole now) = Some (j', e)" by auto
    have db'': "db' = blockDeadJob ?db1 (effectJobId x) err (whole now)" using False by (simp add: db')
    have "effectByKey db' key = Some (?f x)" "readJobById db' (effectJobId x) = Some j'"
      unfolding db'' by (rule blockDeadJob_stores(2) [OF ok1 read1 b row], rule blockDeadJob_stores(1) [OF ok1 read1 b])
    moreover have "state j \<notin> {Merged, Cancelled, Blocked, Complete, ProductionFailed}"
      using b by (auto simp: markJobPermanentFailure_def split: if_splits)
    ultimately show ?thesis
      using b dead False
      by (auto simp: markJobPermanentFailure_def retryable_def isResumablePermanentFailure_def isProductionIncident_def)
  qed
qed

lemma demo_dies:
  "\<exists>db'. failEffect demo_dying_db ''merge'' ''ex'' (Whole 1) ''GitHub refused'' (Whole 20) (Whole 13) = Inr (db', True)"
proof -
  have row: "effectByKey demo_dying_db ''merge'' = Some demo_merge_effect"
    by (simp add: effectByKey_def get_where_def demo_dying_db_def demo_merge_effect_def take_lease_def pending_effect_def)
  have live: "effectLeaseIsActiveForRow demo_dying_db demo_merge_effect ''ex'' 1 13" "effAttempts demo_merge_effect = 20"
      "idempotencyKey demo_merge_effect = ''merge''"
    by (simp_all add: effectLeaseIsActiveForRow_def lease_held_def take_lease_def executorLeaseIsCurrent_def demo_dying_db_def
        demo_admitted_db_def demo_leased_db_def demo_merge_effect_def pending_effect_def)
  have accepted: "assertSafeFailureSummary ''GitHub refused'' = Inr ()" "assertNoRawMergeCallback ''GitHub refused'' ''effect error'' = Inr ()"
    by code_simp+
  have held: "lease_held demo_merge_effect ''ex'' 1 13" using live(1) by (simp add: effectLeaseIsActiveForRow_def)
  show ?thesis
    using row live held
    by (simp add: failEffect_def assertLeaseIdentity_def demo_checks accepted dead_letter_def Let_def changes_def demo_dying_db_def)
qed

theorem dead_effect_stops_job_witness:
  "\<exists>db' j'. failEffect demo_dying_db ''merge'' ''ex'' (Whole 1) ''GitHub refused'' (Whole 20) (Whole 13) = Inr (db', True) \<and>
     readJobById db' ''job1'' = Some j' \<and> state j' = Blocked \<and> retryable j'"
proof -
  obtain db' where f: "failEffect demo_dying_db ''merge'' ''ex'' (Whole 1) ''GitHub refused'' (Whole 20) (Whole 13) = Inr (db', True)"
    using demo_dies by blast
  have row: "effectByKey demo_dying_db ''merge'' = Some demo_merge_effect"
    by (simp add: effectByKey_def get_where_def demo_dying_db_def demo_merge_effect_def take_lease_def pending_effect_def)
  have x: "20 \<le> effAttempts demo_merge_effect" "kind demo_merge_effect = merge_pr" "effectJobId demo_merge_effect = ''job1''"
    by (simp_all add: demo_merge_effect_def take_lease_def pending_effect_def)
  have job: "readJobById demo_dying_db ''job1'' = Some (demo_in Merging 8)" "state (demo_in Merging 8) = Merging"
      "cancelRequestedAt (demo_in Merging 8) = None"
    by (simp_all add: readJobById_def get_where_def demo_dying_db_def demo_job_row_def demo_jobs)
  from dead_effect_stops_job [OF f demo_dbs_ok(2) row x(1), unfolded x(3), OF job(1)] obtain j' where
    "readJobById db' ''job1'' = Some j'" "state j' = Blocked" "retryable j'"
    using x(2) job(2,3) by (auto simp: RETRYABLE_RESUME_STATES_def)
  with f show ?thesis by blast
qed

subsection \<open>Releasing\<close>

lemma no_claim_left:
  assumes "c \<in> set (update_where (\<lambda>c. claimJobId c = jid \<and> claimHeld c) (release_claim t why) cs)" "claimJobId c = jid"
  shows "\<not> claimHeld c"
proof -
  from assms(1) obtain d where "d \<in> set cs" "c = (if claimJobId d = jid \<and> claimHeld d then release_claim t why d else d)"
    by (auto simp: set_update_where)
  with assms(2) show ?thesis by (cases "claimJobId d = jid \<and> claimHeld d") auto
qed

lemma released_state:
  assumes "releaseInTransaction db jid now why = Inr (db', Some a)" "admissions_ok db"
  shows "admState a = Released"
proof (rule disjE [OF releaseInTransaction_cases [OF assms(1)]])
  let ?hit = "\<lambda>b. admJobId b = jid \<and> (admState b = Queued \<or> admState b = Draining)"
  let ?f = "\<lambda>b. b\<lparr>admState := Released, releasedAt := Some (whole now), releaseReason := Some why\<rparr>"
  assume "\<exists>b. readAdmission db jid = Some b \<and> (admState b = Queued \<or> admState b = Draining \<or> admState b = Admitted) \<and>
     changes ?hit (admissions_table db) = 1 \<and> db' = db\<lparr>admissions_table := update_where ?hit ?f (admissions_table db)\<rparr> \<and>
     Some a = readAdmission db' jid"
  then obtain b where b: "readAdmission db jid = Some b" "changes ?hit (admissions_table db) = 1"
      "db' = db\<lparr>admissions_table := update_where ?hit ?f (admissions_table db)\<rparr>" "readAdmission db' jid = Some a" by auto
  from b(2) obtain h where h: "h \<in> set (admissions_table db)" "?hit h" using changes_pos [of ?hit "admissions_table db"] by auto
  then have "b = h" using b(1) readAdmission_Some [OF assms(2), of jid h] by simp
  with h b(1) have "get_where (\<lambda>c. admJobId c = jid) (admissions_table db) = Some h" "?hit h" by (simp_all add: readAdmission_def)
  with b(4) show ?thesis unfolding b(3) by (auto simp: readAdmission_def get_update_where [of admJobId])
qed auto

text \<open>C15: when the release of an admission succeeds, nothing of the job is left behind: it holds no claim, so its project is
free, and none of its effects waits: each is settled, or still runs under a live lease and touches neither the branch nor production.\<close>
theorem release_leaves_nothing:
  assumes "finalizeRelease rt web db jid owner gen now = Inr (db', Some (ReleaseDone a))" "db_ok db"
    "leases_timed db" "readAdmission db jid = Some a0" "admState a0 \<noteq> Released"
  shows "admState a = Released \<and> (\<forall>c \<in> set (claims_table db'). claimJobId c = jid \<longrightarrow> \<not> claimHeld c) \<and>
    (\<forall>x \<in> set (effects_table db'). effectJobId x = jid \<longrightarrow>
       effStatus x = EffDone \<or> effStatus x = EffDead \<or> lease_live x (whole now) \<and> kind x \<notin> {merge_pr, deploy_production, verify_production})"
proof -
  from assms(1,4,5) have rel: "release_now db jid now = Inr (db', Some (ReleaseDone a))"
      and controls: "\<not> list_ex (unsettled_control jid) (effects_table db)"
      and open_effects: "\<not> list_ex (unresolved_effect jid (whole now)) (effects_table db)"
    unfolding finalizeRelease_def rthen_eq_Inr Let_def by (auto simp: rbind_eq_Inr split: if_splits option.splits)
  let ?f = "drop_lease EffDone (Some ''superseded:job_released'') (whole now)"
  from rel obtain db1 q where d: "markDrainingInTransaction db jid now = Inr (db1, q)" and
      r: "releaseInTransaction (update_effect db1 (superseded jid (whole now)) ?f
            \<lparr>claims_table := update_where (\<lambda>c. claimJobId c = jid \<and> claimHeld c)
              (release_claim (whole now) ''job_released'') (claims_table db1)\<rparr>) jid now ''job_released'' = Inr (db', Some a)"
    by (auto simp: release_now_def rbind_eq_Inr Let_def update_effect_def)
  let ?db3 = "update_effect db1 (superseded jid (whole now)) ?f\<lparr>claims_table := update_where (\<lambda>c. claimJobId c = jid \<and> claimHeld c)
              (release_claim (whole now) ''job_released'') (claims_table db1)\<rparr>"
  have same: "effects_table db1 = effects_table db" using markDraining_cases [OF d] by auto
  have adm: "admissions_ok ?db3" using markDraining_ok [OF d assms(2)] by (simp add: db_ok_def admissions_ok_def update_effect_def)
  have fields: "claims_table db' = claims_table ?db3" "effects_table db' = effects_table ?db3"
    using releaseInTransaction_cases [OF r] by auto
  have "admState a = Released" by (rule released_state [OF r adm])
  moreover have "\<forall>c \<in> set (claims_table db'). claimJobId c = jid \<longrightarrow> \<not> claimHeld c"
    unfolding fields using no_claim_left by fastforce
  moreover have "effStatus x = EffDone \<or> effStatus x = EffDead \<or> lease_live x (whole now) \<and> kind x \<notin> {merge_pr, deploy_production, verify_production}"
    if "x \<in> set (effects_table db')" "effectJobId x = jid" for x
  proof -
    from that(1) obtain x0 where x0: "x0 \<in> set (effects_table db)" "x = (if superseded jid (whole now) x0 then ?f x0 else x0)"
      unfolding fields by (auto simp: update_effect_def same set_update_where)
    show ?thesis
    proof (cases "superseded jid (whole now) x0")
      case True
      with x0(2) show ?thesis by (simp add: drop_lease_def)
    next
      case False
      with x0 have "x \<in> set (effects_table db)" "\<not> superseded jid (whole now) x" by simp_all
      moreover from this(1) have "timed x" using assms(3) by (simp add: leases_timed_def)
      ultimately show ?thesis using controls open_effects that(2)
        by (cases "effStatus x") (auto simp: timed_def list_ex_iff unsettled_control_def unresolved_effect_def superseded_def lease_live_def
          isSafeControlEffect_def SAFE_CONTROL_EFFECTS_def split: option.splits)
    qed
  qed
  ultimately show ?thesis by blast
qed

theorem release_leaves_nothing_witness:
  "\<exists>db' a. finalizeRelease demo_runtime demo_web demo_ended_db ''job1'' ''ex'' (Whole 1) (Whole 13) = Inr (db', Some (ReleaseDone a)) \<and>
     admState a = Released"
proof -
  let ?a = "demo_admission\<lparr>admState := Draining, admittedAt := Some 11, drainingAt := Some 12\<rparr>"
  have timed: "leases_timed demo_ended_db" by (simp add: leases_timed_def demo_ended_db_def)
  have a: "readAdmission demo_ended_db ''job1'' = Some ?a" by (simp add: readAdmission_def get_where_def demo_ended_db_def demo_admission_def)
  have job: "readJobById demo_ended_db ''job1'' = Some ((demo_in Cancelled 6)\<lparr>cancelRequestedAt := Some 6\<rparr>)"
    by (simp add: readJobById_def get_where_def demo_ended_db_def demo_job_row_def demo_jobs)
  have state: "state ((demo_in Cancelled 6)\<lparr>cancelRequestedAt := Some 6\<rparr>) = Cancelled" "admState ?a = Draining"
      "executorLeaseIsCurrent demo_ended_db ''ex'' 1 13" "getWorkerLiveness demo_ended_db ''job1'' = None"
    by (simp_all add: demo_in_def executorLeaseIsCurrent_def demo_ended_db_def demo_admitted_db_def demo_leased_db_def
        getWorkerLiveness_def select_ordered_def empty_database_def demo_queued_db_def)
  have quiet: "\<not> list_ex (unsettled_control ''job1'') (effects_table demo_ended_db)"
      "\<not> list_ex (unresolved_effect ''job1'' 13) (effects_table demo_ended_db)"
    by (simp_all add: demo_ended_db_def unsettled_control_def unresolved_effect_def lease_live_def isSafeControlEffect_def
        SAFE_CONTROL_EFFECTS_def drop_lease_def pending_effect_def demo_render_def)
  obtain db' b where "release_now demo_ended_db ''job1'' (Whole 13) = Inr (db', Some (ReleaseDone b))"
    by (simp add: release_now_def markDrainingInTransaction_def releaseInTransaction_def demo_checks a readAdmission_def demo_tables
        update_effect_def demo_ended_db_def demo_admission_def)
  then have "finalizeRelease demo_runtime demo_web demo_ended_db ''job1'' ''ex'' (Whole 1) (Whole 13) = Inr (db', Some (ReleaseDone b))"
    using job state quiet a
    by (simp add: finalizeRelease_def assertExecutorFence_def demo_checks isReleaseCandidate_def RELEASE_CANDIDATE_JOB_STATES_def
        queued_cancellation_def)
  with release_leaves_nothing [OF this demo_dbs_ok(3) timed a] show ?thesis by auto
qed

end
