(* ===== verification/Guards.thy ===== *)
theory Guards
  imports Json_Schema
begin

text \<open>
  Capability guards (\<open>src/capabilities/guards.ts\<close>): the results guards report on one change, the
  policy they were selected under, and the assessment of the one against the other.

  \<open>createHash("sha256")\<close> is the argument \<open>sha256\<close> and \<open>localeCompare\<close> the argument \<open>lc\<close>, which only
  orders the findings.
\<close>

subsection \<open>Envelopes and policies\<close>

datatype guard_outcome = GuardPassed | GuardFindings | GuardBlocked | GuardFailed

record guard_finding =
  gfRuleId :: string
  gfSeverity :: review_severity
  gfSubject :: string
  gfLine :: "int option"
  gfEvidence :: string
  gfEvidenceClass :: string
  gfRequirementId :: "string option"

record guard_terminal_result =
  grCapabilityId :: string
  grDescriptorDigest :: string
  grOutcome :: guard_outcome
  grFindings :: "guard_finding list"

record guard_envelope =
  envProfileId :: string
  envProfileRevision :: int
  envHeadSha :: string
  envDiffDigest :: string
  envGuards :: "guard_terminal_result list"

record selected_guard =
  sgCapabilityId :: string
  sgDescriptorDigest :: string
  sgMandatory :: bool
  sgSubstitutes :: "string list"

record guard_policy =
  gpProfileId :: string
  gpProfileRevision :: int
  gpHeadSha :: string
  gpDiffDigest :: string
  gpSelectedGuards :: "selected_guard list"
  gpRequirementIds :: "string list"
  gpMustFixRuleIds :: "string list"
  gpAdvisoryRuleIds :: "string list"

definition MAX_GUARDS :: nat where "MAX_GUARDS = 16"
definition MAX_FINDINGS :: nat where "MAX_FINDINGS = 100"

definition isBoundedPolicyKey :: "string \<Rightarrow> bool" where
  "isBoundedPolicyKey v = regex_test False BOUNDED_KEY v"

lemma digest_test: "regex_test False digest_regex s \<longleftrightarrow> length s = 64 \<and> list_all hex_char s"
proof -
  have cls: "class_test False (CC False [(CHR ''0'', CHR ''9''), (CHR ''a'', CHR ''f'')]) = hex_char"
    by (rule ext) (simp add: class_test_def hex_char_def)
  show ?thesis unfolding digest_regex_def hex_class_def fixed_length_test cls ..
qed

definition severity_values :: "(string \<times> review_severity) list" where
  "severity_values = [(''critical'', SevCritical), (''high'', SevHigh), (''medium'', SevMedium), (''low'', SevLow)]"

definition guardFindingSchema :: "guard_finding schema" where
  "guardFindingSchema v =
     Option.bind (z_strict [''ruleId'', ''severity'', ''subject'', ''line'', ''evidence'', ''evidenceClass'', ''requirementId''] v) (\<lambda>obj.
     Option.bind (z_field obj ''ruleId'' (z_pattern BOUNDED_KEY)) (\<lambda>rule.
     Option.bind (z_field obj ''severity'' (z_enum severity_values)) (\<lambda>sev.
     Option.bind (z_field obj ''subject'' (z_between 1 512)) (\<lambda>subject.
     Option.bind (z_field obj ''line'' (z_nullable (z_int (\<lambda>n. 0 < n)))) (\<lambda>line.
     Option.bind (z_field obj ''evidence'' (z_between 1 2000)) (\<lambda>evidence.
     Option.bind (z_field obj ''evidenceClass'' (z_pattern BOUNDED_KEY)) (\<lambda>cls.
     Option.bind (z_field obj ''requirementId'' (z_nullable (z_pattern BOUNDED_KEY))) (\<lambda>req.
       Some \<lparr>gfRuleId = rule, gfSeverity = sev, gfSubject = subject, gfLine = line, gfEvidence = evidence,
         gfEvidenceClass = cls, gfRequirementId = req\<rparr>))))))))"

definition guard_outcome_values :: "(string \<times> guard_outcome) list" where
  "guard_outcome_values = [(''passed'', GuardPassed), (''findings'', GuardFindings), (''blocked'', GuardBlocked), (''failed'', GuardFailed)]"

definition guardTerminalResultSchema :: "guard_terminal_result schema" where
  "guardTerminalResultSchema v =
     Option.bind (z_strict [''capabilityId'', ''descriptorDigest'', ''outcome'', ''findings''] v) (\<lambda>obj.
     Option.bind (z_field obj ''capabilityId'' (z_pattern BOUNDED_KEY)) (\<lambda>cid.
     Option.bind (z_field obj ''descriptorDigest'' (z_pattern digest_regex)) (\<lambda>digest.
     Option.bind (z_field obj ''outcome'' (z_enum guard_outcome_values)) (\<lambda>outcome.
     Option.bind (z_field obj ''findings'' (z_array MAX_FINDINGS guardFindingSchema)) (\<lambda>findings.
       if (outcome = GuardFindings) = (findings \<noteq> [])
       then Some \<lparr>grCapabilityId = cid, grDescriptorDigest = digest, grOutcome = outcome, grFindings = findings\<rparr>
       else None)))))"

definition z_literal1 :: "int schema" where
  "z_literal1 = z_int (\<lambda>n. n = 1)"

definition guardResultEnvelopeSchema :: "guard_envelope schema" where
  "guardResultEnvelopeSchema v =
     Option.bind (z_strict [''schemaVersion'', ''profileId'', ''profileRevision'', ''reviewedHeadSha'', ''diffDigest'', ''guards''] v) (\<lambda>obj.
     Option.bind (z_field obj ''schemaVersion'' z_literal1) (\<lambda>_.
     Option.bind (z_field obj ''profileId'' (z_between 1 256)) (\<lambda>pid.
     Option.bind (z_field obj ''profileRevision'' (z_int (\<lambda>n. 0 < n))) (\<lambda>rev.
     Option.bind (z_field obj ''reviewedHeadSha'' (z_pattern HEAD_SHA)) (\<lambda>head.
     Option.bind (z_field obj ''diffDigest'' (z_pattern digest_regex)) (\<lambda>digest.
     Option.bind (z_field obj ''guards'' (z_array MAX_GUARDS guardTerminalResultSchema)) (\<lambda>guards.
       Some \<lparr>envProfileId = pid, envProfileRevision = rev, envHeadSha = head, envDiffDigest = digest, envGuards = guards\<rparr>)))))))"

definition selectedGuardPolicySchema :: "selected_guard schema" where
  "selectedGuardPolicySchema v =
     Option.bind (z_strict [''capabilityId'', ''descriptorDigest'', ''mandatory'', ''substitutes''] v) (\<lambda>obj.
     Option.bind (z_field obj ''capabilityId'' (z_pattern BOUNDED_KEY)) (\<lambda>cid.
     Option.bind (z_field obj ''descriptorDigest'' (z_pattern digest_regex)) (\<lambda>digest.
     Option.bind (z_field obj ''mandatory'' z_bool) (\<lambda>mandatory.
     Option.bind (z_field obj ''substitutes'' (z_array 8 (z_pattern BOUNDED_KEY))) (\<lambda>subs.
       Some \<lparr>sgCapabilityId = cid, sgDescriptorDigest = digest, sgMandatory = mandatory, sgSubstitutes = subs\<rparr>)))))"

definition guardAssessmentPolicySchema :: "guard_policy schema" where
  "guardAssessmentPolicySchema v =
     Option.bind (z_strict [''profileId'', ''profileRevision'', ''reviewedHeadSha'', ''diffDigest'', ''selectedGuards'', ''requirementIds'',
       ''mustFixRuleIds'', ''advisoryRuleIds''] v) (\<lambda>obj.
     Option.bind (z_field obj ''profileId'' (z_between 1 256)) (\<lambda>pid.
     Option.bind (z_field obj ''profileRevision'' (z_int (\<lambda>n. 0 < n))) (\<lambda>rev.
     Option.bind (z_field obj ''reviewedHeadSha'' (z_pattern HEAD_SHA)) (\<lambda>head.
     Option.bind (z_field obj ''diffDigest'' (z_pattern digest_regex)) (\<lambda>digest.
     Option.bind (z_field obj ''selectedGuards'' (z_array MAX_GUARDS selectedGuardPolicySchema)) (\<lambda>guards.
     Option.bind (z_field obj ''requirementIds'' (z_array 100 (z_pattern BOUNDED_KEY))) (\<lambda>reqs.
     Option.bind (z_field obj ''mustFixRuleIds'' (z_array 100 (z_pattern BOUNDED_KEY))) (\<lambda>must.
     Option.bind (z_field obj ''advisoryRuleIds'' (z_array 100 (z_pattern BOUNDED_KEY))) (\<lambda>adv.
       Some \<lparr>gpProfileId = pid, gpProfileRevision = rev, gpHeadSha = head, gpDiffDigest = digest, gpSelectedGuards = guards,
         gpRequirementIds = reqs, gpMustFixRuleIds = must, gpAdvisoryRuleIds = adv\<rparr>)))))))))"

text \<open>The same conditions on values that are already records (an envelope or a policy that is parsed again).\<close>

definition guardFinding_ok :: "guard_finding \<Rightarrow> bool" where
  "guardFinding_ok f \<longleftrightarrow> isBoundedPolicyKey (gfRuleId f) \<and> 1 \<le> length (gfSubject f) \<and> length (gfSubject f) \<le> 512 \<and>
     (case gfLine f of None \<Rightarrow> True | Some n \<Rightarrow> 0 < n \<and> n \<le> MAX_SAFE_INTEGER) \<and>
     1 \<le> length (gfEvidence f) \<and> length (gfEvidence f) \<le> 2000 \<and> isBoundedPolicyKey (gfEvidenceClass f) \<and>
     (case gfRequirementId f of None \<Rightarrow> True | Some r \<Rightarrow> isBoundedPolicyKey r)"

definition guardTerminalResult_ok :: "guard_terminal_result \<Rightarrow> bool" where
  "guardTerminalResult_ok r \<longleftrightarrow> isBoundedPolicyKey (grCapabilityId r) \<and> regex_test False digest_regex (grDescriptorDigest r) \<and>
     length (grFindings r) \<le> MAX_FINDINGS \<and> list_all guardFinding_ok (grFindings r) \<and>
     (grOutcome r = GuardFindings) = (grFindings r \<noteq> [])"

definition guardResultEnvelope_ok :: "guard_envelope \<Rightarrow> bool" where
  "guardResultEnvelope_ok e \<longleftrightarrow> 1 \<le> length (envProfileId e) \<and> length (envProfileId e) \<le> 256 \<and>
     0 < envProfileRevision e \<and> envProfileRevision e \<le> MAX_SAFE_INTEGER \<and> regex_test False HEAD_SHA (envHeadSha e) \<and>
     regex_test False digest_regex (envDiffDigest e) \<and> length (envGuards e) \<le> MAX_GUARDS \<and> list_all guardTerminalResult_ok (envGuards e)"

definition selectedGuardPolicy_ok :: "selected_guard \<Rightarrow> bool" where
  "selectedGuardPolicy_ok g \<longleftrightarrow> isBoundedPolicyKey (sgCapabilityId g) \<and> regex_test False digest_regex (sgDescriptorDigest g) \<and>
     length (sgSubstitutes g) \<le> 8 \<and> list_all isBoundedPolicyKey (sgSubstitutes g)"

definition bounded_keys :: "nat \<Rightarrow> string list \<Rightarrow> bool" where
  "bounded_keys maximum vs \<longleftrightarrow> length vs \<le> maximum \<and> list_all isBoundedPolicyKey vs"

definition guardAssessmentPolicy_ok :: "guard_policy \<Rightarrow> bool" where
  "guardAssessmentPolicy_ok p \<longleftrightarrow> 1 \<le> length (gpProfileId p) \<and> length (gpProfileId p) \<le> 256 \<and>
     0 < gpProfileRevision p \<and> gpProfileRevision p \<le> MAX_SAFE_INTEGER \<and> regex_test False HEAD_SHA (gpHeadSha p) \<and>
     regex_test False digest_regex (gpDiffDigest p) \<and> length (gpSelectedGuards p) \<le> MAX_GUARDS \<and>
     list_all selectedGuardPolicy_ok (gpSelectedGuards p) \<and>
     bounded_keys 100 (gpRequirementIds p) \<and> bounded_keys 100 (gpMustFixRuleIds p) \<and> bounded_keys 100 (gpAdvisoryRuleIds p)"

subsection \<open>Dispositions\<close>

datatype disposition = MustFix | Advisory

record finding_policy =
  defaultDisposition :: disposition
  mustFixRules :: "string list"
  advisoryRules :: "string list"
  knownRequirements :: "string list"

definition evaluateFindingDisposition :: "guard_finding \<Rightarrow> finding_policy \<Rightarrow> disposition option" where
  "evaluateFindingDisposition f p =
     (if (case gfRequirementId f of None \<Rightarrow> False | Some r \<Rightarrow> \<not> List.member (knownRequirements p) r) then None
      else if gfSeverity f = SevCritical \<or> gfSeverity f = SevHigh then Some MustFix
      else if gfRequirementId f \<noteq> None \<or> gfEvidenceClass f = ''public-contract'' then Some MustFix
      else if List.member (mustFixRules p) (gfRuleId f) then Some MustFix
      else if List.member (advisoryRules p) (gfRuleId f) then Some Advisory
      else Some (defaultDisposition p))"

record assessed_finding =
  asFinding :: guard_finding
  asCapabilityId :: string
  asDescriptorDigest :: string
  asDisposition :: disposition
  asFingerprint :: string

datatype envelope_outcome = EnvPass | EnvPassWithAdvisories | EnvChangesRequested | EnvBlocked

record guard_assessment =
  gaOutcome :: envelope_outcome
  gaReasons :: "string list"
  gaFindings :: "assessed_finding list"
  gaSubstitutions :: "(string \<times> string) list"

definition guard_blocked :: "string \<Rightarrow> guard_assessment" where
  "guard_blocked why = \<lparr>gaOutcome = EnvBlocked, gaReasons = [why], gaFindings = [], gaSubstitutions = []\<rparr>"

definition hasUniqueBoundedKeys :: "string list \<Rightarrow> nat \<Rightarrow> bool" where
  "hasUniqueBoundedKeys vs maximum \<longleftrightarrow> length vs \<le> maximum \<and> distinct vs \<and> list_all isBoundedPolicyKey vs"

definition validPolicy :: "guard_policy \<Rightarrow> bool" where
  "validPolicy p \<longleftrightarrow> guardAssessmentPolicy_ok p \<and> hasUniqueBoundedKeys (gpRequirementIds p) 100 \<and>
     hasUniqueBoundedKeys (gpMustFixRuleIds p) 100 \<and> hasUniqueBoundedKeys (gpAdvisoryRuleIds p) 100 \<and>
     (let ids = map sgCapabilityId (gpSelectedGuards p) in
      hasUniqueBoundedKeys ids MAX_GUARDS \<and>
      list_all (\<lambda>g. regex_test False digest_regex (sgDescriptorDigest g) \<and> hasUniqueBoundedKeys (sgSubstitutes g) 8 \<and>
        list_all (\<lambda>s. List.member ids s \<and> s \<noteq> sgCapabilityId g) (sgSubstitutes g)) (gpSelectedGuards p))"

subsection \<open>Subjects and fingerprints\<close>

text \<open>\<open>/\/{2,}/gu\<close> to one slash.\<close>

fun squeeze_slashes :: "string \<Rightarrow> string" where
  "squeeze_slashes (a # b # s) =
     (if a = CHR ''/'' \<and> b = CHR ''/'' then squeeze_slashes (b # s) else a # squeeze_slashes (b # s))"
| "squeeze_slashes s = s"

definition normalized_subject :: "string \<Rightarrow> string" where
  "normalized_subject raw =
     (let forward = map (\<lambda>c. if c = CHR 0x5C then CHR ''/'' else c) raw;
          undotted = (if starts_with ''./'' forward then drop 2 forward else forward);
          squeezed = squeeze_slashes undotted
      in if ends_with ''/'' squeezed then butlast squeezed else squeezed)"

definition drive_path :: "string \<Rightarrow> bool" where
  "drive_path s \<longleftrightarrow> (case s of c # d # e # _ \<Rightarrow>
     in_ranges [(CHR ''A'', CHR ''Z''), (CHR ''a'', CHR ''z'')] c \<and> d = CHR '':'' \<and> e = CHR ''/'' | _ \<Rightarrow> False)"

definition normalizeGuardSubject :: "string \<Rightarrow> string result" where
  "normalizeGuardSubject raw =
     (let s = normalized_subject raw in
      if length s < 1 \<or> length s > 512 \<or> starts_with ''/'' s \<or> drive_path s \<or> CHR 0x00 \<in> set s \<or>
         list_ex (\<lambda>seg. seg = ''.'' \<or> seg = ''..'' \<or> seg = []) (split_at (CHR ''/'') s)
      then Inl (TypeError ''Guard finding subject must be a normalized project-relative identity'')
      else Inr s)"

definition findingRequirementClass :: "guard_finding \<Rightarrow> string" where
  "findingRequirementClass f =
     (case gfRequirementId f of None \<Rightarrow> ''evidence:'' @ gfEvidenceClass f | Some r \<Rightarrow> ''requirement:'' @ r)"

definition guardFindingFingerprint :: "(string \<Rightarrow> string) \<Rightarrow> string \<Rightarrow> guard_finding \<Rightarrow> string result" where
  "guardFindingFingerprint sha256 digest f =
     rthen (guard (regex_test False digest_regex digest) (TypeError ''Guard fingerprint requires a descriptor digest''))
    (rthen (guard (guardFinding_ok f) (ZodError ''finding''))
    (rbind (normalizeGuardSubject (gfSubject f)) (\<lambda>subject.
       Inr (sha256 (json_text (JList [JStr digest, JStr (gfRuleId f), JStr subject, JStr (findingRequirementClass f)]))))))"

subsection \<open>The assessment\<close>

fun outcome_name :: "guard_outcome \<Rightarrow> string" where
  "outcome_name GuardPassed = ''passed''"
| "outcome_name GuardFindings = ''findings''"
| "outcome_name GuardBlocked = ''blocked''"
| "outcome_name GuardFailed = ''failed''"

fun first_duplicate :: "string list \<Rightarrow> string list \<Rightarrow> string option" where
  "first_duplicate seen [] = None"
| "first_duplicate seen (x # xs) = (if List.member seen x then Some x else first_duplicate (x # seen) xs)"

definition result_of :: "guard_envelope \<Rightarrow> string \<Rightarrow> guard_terminal_result option" where
  "result_of e cid = List.find (\<lambda>r. grCapabilityId r = cid) (envGuards e)"

definition selected_problem :: "guard_envelope \<Rightarrow> selected_guard \<Rightarrow> string option" where
  "selected_problem e g =
     (case result_of e (sgCapabilityId g) of
        None \<Rightarrow> Some (''guard result is missing '' @ sgCapabilityId g)
      | Some r \<Rightarrow> if grDescriptorDigest r \<noteq> sgDescriptorDigest g
                 then Some (''guard result descriptor changed for '' @ sgCapabilityId g) else None)"

fun first_problem :: "('a \<Rightarrow> string option) \<Rightarrow> 'a list \<Rightarrow> string option" where
  "first_problem f [] = None"
| "first_problem f (x # xs) = (case f x of Some p \<Rightarrow> Some p | None \<Rightarrow> first_problem f xs)"

text \<open>What keeps an envelope from being assessed: \<open>None\<close> when it reports exactly the selected guards.\<close>

definition envelope_problem :: "guard_envelope \<Rightarrow> guard_policy \<Rightarrow> string option" where
  "envelope_problem e p =
     (if envProfileId e \<noteq> gpProfileId p \<or> envProfileRevision e \<noteq> gpProfileRevision p
      then Some ''guard result targets a different capability profile''
      else if envHeadSha e \<noteq> gpHeadSha p then Some ''guard result targets a different head''
      else if envDiffDigest e \<noteq> gpDiffDigest p then Some ''guard result targets a different diff''
      else case first_duplicate [] (map grCapabilityId (envGuards e)) of
        Some cid \<Rightarrow> Some (''guard result contains duplicate '' @ cid)
      | None \<Rightarrow>
          if length (envGuards e) \<noteq> length (gpSelectedGuards p)
          then Some ''guard result does not contain exactly the selected guards''
          else case first_problem (selected_problem e) (gpSelectedGuards p) of
            Some why \<Rightarrow> Some why
          | None \<Rightarrow> first_problem (\<lambda>cid. if list_ex (\<lambda>g. sgCapabilityId g = cid) (gpSelectedGuards p) then None
                      else Some (''guard result contains unselected '' @ cid)) (map grCapabilityId (envGuards e)))"

definition disposition_policy :: "guard_policy \<Rightarrow> finding_policy" where
  "disposition_policy p = \<lparr>defaultDisposition = Advisory, mustFixRules = gpMustFixRuleIds p,
     advisoryRules = gpAdvisoryRuleIds p, knownRequirements = gpRequirementIds p\<rparr>"

definition unknown_requirement :: "guard_policy \<Rightarrow> guard_finding \<Rightarrow> bool" where
  "unknown_requirement p f \<longleftrightarrow> (case gfRequirementId f of None \<Rightarrow> False | Some r \<Rightarrow> \<not> List.member (gpRequirementIds p) r)"

definition requirement_reason :: "guard_finding \<Rightarrow> string" where
  "requirement_reason f = ''guard finding references unknown requirement '' @
     (case gfRequirementId f of None \<Rightarrow> ''null'' | Some r \<Rightarrow> r)"

text \<open>A finding with its subject in normal form, its disposition and fingerprint; an inner \<open>Inl\<close> blocks the whole assessment.\<close>

definition assess_finding ::
  "(string \<Rightarrow> string) \<Rightarrow> guard_policy \<Rightarrow> selected_guard \<Rightarrow> guard_finding \<Rightarrow> (string + assessed_finding) result" where
  "assess_finding sha256 p g f =
     (if unknown_requirement p f then Inr (Inl (requirement_reason f))
      else case normalizeGuardSubject (gfSubject f) of
        Inl _ \<Rightarrow> Inr (Inl ''guard finding subject is not project-relative'')
      | Inr subject \<Rightarrow>
          (let nf = f\<lparr>gfSubject := subject\<rparr> in
           case evaluateFindingDisposition nf (disposition_policy p) of
             None \<Rightarrow> Inr (Inl (requirement_reason f))
           | Some d \<Rightarrow>
               rbind (guardFindingFingerprint sha256 (sgDescriptorDigest g) nf) (\<lambda>fp.
                 Inr (Inr \<lparr>asFinding = nf, asCapabilityId = sgCapabilityId g, asDescriptorDigest = sgDescriptorDigest g,
                   asDisposition = d, asFingerprint = fp\<rparr>))))"

fun assess_findings ::
  "(string \<Rightarrow> string) \<Rightarrow> guard_policy \<Rightarrow> selected_guard \<Rightarrow> guard_finding list \<Rightarrow> (string + assessed_finding list) result" where
  "assess_findings sha256 p g [] = Inr (Inr [])"
| "assess_findings sha256 p g (f # fs) =
     rbind (assess_finding sha256 p g f) (\<lambda>r.
       case r of Inl why \<Rightarrow> Inr (Inl why)
       | Inr a \<Rightarrow> rbind (assess_findings sha256 p g fs) (\<lambda>rs.
           case rs of Inl why \<Rightarrow> Inr (Inl why) | Inr as \<Rightarrow> Inr (Inr (a # as))))"

record guard_progress =
  prReasons :: "string list"
  prFindings :: "assessed_finding list"
  prSubstitutions :: "(string \<times> string) list"
  prMandatoryFailure :: bool
  prAdvisory :: bool

definition guard_down :: "guard_terminal_result \<Rightarrow> bool" where
  "guard_down r \<longleftrightarrow> grOutcome r = GuardBlocked \<or> grOutcome r = GuardFailed"

definition substitute_for :: "guard_envelope \<Rightarrow> selected_guard \<Rightarrow> string option" where
  "substitute_for e g = List.find (\<lambda>c. case result_of e c of None \<Rightarrow> False
     | Some r \<Rightarrow> grOutcome r = GuardPassed \<or> grOutcome r = GuardFindings) (sgSubstitutes g)"

text \<open>What a mandatory guard that is blocked or failed leads to.\<close>

definition guard_down_step :: "guard_envelope \<Rightarrow> selected_guard \<Rightarrow> guard_terminal_result \<Rightarrow> guard_progress \<Rightarrow> guard_progress" where
  "guard_down_step e g r w =
     (if \<not> guard_down r then w
      else case substitute_for e g of
        Some s \<Rightarrow> w\<lparr>prSubstitutions := prSubstitutions w @ [(sgCapabilityId g, s)],
                     prReasons := prReasons w @ [''guard '' @ sgCapabilityId g @ '' used admitted substitute '' @ s], prAdvisory := True\<rparr>
      | None \<Rightarrow> w\<lparr>prMandatoryFailure := True,
                   prReasons := prReasons w @ [''mandatory guard '' @ sgCapabilityId g @ '' '' @ outcome_name (grOutcome r)]\<rparr>)"

fun assess_guards ::
  "(string \<Rightarrow> string) \<Rightarrow> guard_envelope \<Rightarrow> guard_policy \<Rightarrow> selected_guard list \<Rightarrow> guard_progress \<Rightarrow>
   (string + guard_progress) result" where
  "assess_guards sha256 e p [] w = Inr (Inr w)"
| "assess_guards sha256 e p (g # gs) w =
     (case result_of e (sgCapabilityId g) of
        None \<Rightarrow> assess_guards sha256 e p gs w
      | Some r \<Rightarrow>
          if guard_down r \<and> \<not> sgMandatory g
          then assess_guards sha256 e p gs (w\<lparr>prAdvisory := True,
                 prReasons := prReasons w @ [''optional guard '' @ sgCapabilityId g @ '' '' @ outcome_name (grOutcome r)]\<rparr>)
          else rbind (assess_findings sha256 p g (grFindings r)) (\<lambda>fr.
            case fr of Inl why \<Rightarrow> Inr (Inl why)
            | Inr as \<Rightarrow> (let w' = guard_down_step e g r w in
                assess_guards sha256 e p gs (w'\<lparr>prFindings := prFindings w' @ as\<rparr>))))"

definition line_rank :: "int option \<Rightarrow> int" where
  "line_rank l = (case l of None \<Rightarrow> MAX_SAFE_INTEGER | Some n \<Rightarrow> n)"

definition compareAssessed :: "(string \<Rightarrow> string \<Rightarrow> int) \<Rightarrow> assessed_finding \<Rightarrow> assessed_finding \<Rightarrow> int" where
  "compareAssessed lc l r =
     (if asDisposition l \<noteq> asDisposition r then (if asDisposition l = MustFix then - 1 else 1)
      else if asCapabilityId l \<noteq> asCapabilityId r then lc (asCapabilityId l) (asCapabilityId r)
      else if gfSubject (asFinding l) \<noteq> gfSubject (asFinding r) then lc (gfSubject (asFinding l)) (gfSubject (asFinding r))
      else if gfRuleId (asFinding l) \<noteq> gfRuleId (asFinding r) then lc (gfRuleId (asFinding l)) (gfRuleId (asFinding r))
      else line_rank (gfLine (asFinding l)) - line_rank (gfLine (asFinding r)))"

definition settle_assessment :: "(string \<Rightarrow> string \<Rightarrow> int) \<Rightarrow> guard_progress \<Rightarrow> guard_assessment" where
  "settle_assessment lc w =
     (let fs = sort_by (compareAssessed lc) (prFindings w);
          settled = (\<lambda>oc. \<lparr>gaOutcome = oc, gaReasons = prReasons w, gaFindings = fs, gaSubstitutions = prSubstitutions w\<rparr>)
      in if prMandatoryFailure w then settled EnvBlocked
         else if list_ex (\<lambda>f. asDisposition f = MustFix) fs then settled EnvChangesRequested
         else if fs \<noteq> [] \<or> prAdvisory w then settled EnvPassWithAdvisories
         else \<lparr>gaOutcome = EnvPass, gaReasons = [], gaFindings = [], gaSubstitutions = []\<rparr>)"

definition assessGuardEnvelope ::
  "(string \<Rightarrow> string) \<Rightarrow> (string \<Rightarrow> string \<Rightarrow> int) \<Rightarrow> guard_envelope \<Rightarrow> guard_policy \<Rightarrow> guard_assessment result" where
  "assessGuardEnvelope sha256 lc e p =
     (if \<not> validPolicy p then Inr (guard_blocked ''guard assessment policy is invalid'')
      else if \<not> guardResultEnvelope_ok e then Inr (guard_blocked ''guard result envelope is invalid'')
      else case envelope_problem e p of
        Some why \<Rightarrow> Inr (guard_blocked why)
      | None \<Rightarrow> rbind (assess_guards sha256 e p (gpSelectedGuards p)
            \<lparr>prReasons = [], prFindings = [], prSubstitutions = [], prMandatoryFailure = False, prAdvisory = False\<rparr>) (\<lambda>r.
          case r of Inl why \<Rightarrow> Inr (guard_blocked why) | Inr w \<Rightarrow> Inr (settle_assessment lc w)))"

text \<open>A fingerprint the repository has seen for the third time stops the remediation.\<close>

datatype recurrence_outcome = Remediate | RecurrenceBlocked

definition fingerprint_recurrence :: "js_number \<Rightarrow> recurrence_outcome result" where
  "fingerprint_recurrence occurrence =
     (if \<not> is_safe_integer occurrence \<or> whole occurrence < 1 \<or> whole occurrence > 3
      then Inl (TypeError ''Guard fingerprint repository returned an invalid occurrence'')
      else Inr (if whole occurrence = 3 then RecurrenceBlocked else Remediate))"

end
