(* ===== verification/Review.thy ===== *)
theory Review
  imports Guards
begin

text \<open>
  Reviews: the verdict of one reviewer (\<open>src/domain/review.ts\<close>) and the assessment of a group of
  review lenses on one head (\<open>src/domain/review-lenses.ts\<close>).

  \<open>JSON.parse\<close> is the argument \<open>parse\<close>, \<open>None\<close> for a \<open>SyntaxError\<close>; \<open>sha256\<close> and \<open>lc\<close> are as in
  \<open>Guards\<close>.
\<close>

subsection \<open>Verdicts\<close>

datatype review_verdict_kind = VerdictPass | VerdictChangesRequested | VerdictBlocked

datatype check_outcome = CheckPassed | CheckFailed | CheckBlocked

record review_check =
  checkName :: string
  checkCommand :: "string option"
  checkOutcome :: check_outcome
  checkExitCode :: "int option"
  checkSummary :: string

record review_verdict =
  verdictKind :: review_verdict_kind
  reviewedHeadSha :: string
  verdictSummary :: string
  verdictFindings :: "review_finding list"
  verdictChecks :: "review_check list"

definition reviewFindingSchema :: "review_finding schema" where
  "reviewFindingSchema v =
     Option.bind (z_strict [''severity'', ''file'', ''line'', ''title'', ''details''] v) (\<lambda>obj.
     Option.bind (z_field obj ''severity'' (z_enum severity_values)) (\<lambda>sev.
     Option.bind (z_field obj ''file'' (z_nullable (z_string (\<lambda>s. 1 \<le> length s)))) (\<lambda>file.
     Option.bind (z_field obj ''line'' (z_nullable (z_int (\<lambda>n. 0 < n)))) (\<lambda>line.
     Option.bind (z_field obj ''title'' (z_between 1 200)) (\<lambda>title.
     Option.bind (z_field obj ''details'' (z_between 1 2000)) (\<lambda>details.
       Some \<lparr>severity = sev, findingFile = file, findingLine = line, findingTitle = title, findingDetails = details\<rparr>))))))"

definition reviewCheckSchema :: "review_check schema" where
  "reviewCheckSchema v =
     Option.bind (z_strict [''name'', ''command'', ''outcome'', ''exitCode'', ''summary''] v) (\<lambda>obj.
     Option.bind (z_field obj ''name'' (z_between 1 100)) (\<lambda>name.
     Option.bind (z_field obj ''command'' (z_nullable (z_string (\<lambda>_. True)))) (\<lambda>cmd.
     Option.bind (z_field obj ''outcome'' (z_enum [(''passed'', CheckPassed), (''failed'', CheckFailed), (''blocked'', CheckBlocked)])) (\<lambda>outcome.
     Option.bind (z_field obj ''exitCode'' (z_nullable (z_int (\<lambda>_. True)))) (\<lambda>code.
     Option.bind (z_field obj ''summary'' (z_between 1 1000)) (\<lambda>summary.
       Some \<lparr>checkName = name, checkCommand = cmd, checkOutcome = outcome, checkExitCode = code, checkSummary = summary\<rparr>))))))"

definition reviewVerdictSchema :: "review_verdict schema" where
  "reviewVerdictSchema v =
     Option.bind (z_strict [''verdict'', ''reviewedHeadSha'', ''summary'', ''findings'', ''checks''] v) (\<lambda>obj.
     Option.bind (z_field obj ''verdict'' (z_enum [(''pass'', VerdictPass), (''changes_requested'', VerdictChangesRequested),
       (''blocked'', VerdictBlocked)])) (\<lambda>verdict.
     Option.bind (z_field obj ''reviewedHeadSha'' (z_pattern HEAD_SHA)) (\<lambda>head.
     Option.bind (z_field obj ''summary'' (z_between 1 2000)) (\<lambda>summary.
     Option.bind (z_field obj ''findings'' (z_array 100 reviewFindingSchema)) (\<lambda>findings.
     Option.bind (z_field obj ''checks'' (z_array 50 reviewCheckSchema)) (\<lambda>checks.
       Some \<lparr>verdictKind = verdict, reviewedHeadSha = head, verdictSummary = summary, verdictFindings = findings,
         verdictChecks = checks\<rparr>))))))"

definition invalid_review_output :: error where
  "invalid_review_output = NamedError ''InvalidReviewOutputError'' ''Review output does not match the strict JSON contract''"

definition parseReviewVerdict :: "(string \<Rightarrow> jval option) \<Rightarrow> string \<Rightarrow> review_verdict result" where
  "parseReviewVerdict parse txt =
     (let trimmed = js_trim txt in
      if \<not> starts_with ''{'' trimmed \<or> \<not> ends_with ''}'' trimmed then Inl invalid_review_output
      else case parse trimmed of
        None \<Rightarrow> Inl invalid_review_output
      | Some v \<Rightarrow> (case reviewVerdictSchema v of None \<Rightarrow> Inl invalid_review_output | Some r \<Rightarrow> Inr r))"

definition parseGuardResultEnvelope :: "(string \<Rightarrow> jval option) \<Rightarrow> string \<Rightarrow> guard_envelope result" where
  "parseGuardResultEnvelope parse txt =
     (let trimmed = js_trim txt;
          invalid = Inl (NamedError ''InvalidReviewOutputError'' ''Guard output does not match the strict JSON contract'') in
      if \<not> starts_with ''{'' trimmed \<or> \<not> ends_with ''}'' trimmed then invalid
      else case parse trimmed of
        None \<Rightarrow> invalid
      | Some v \<Rightarrow> (case guardResultEnvelopeSchema v of None \<Rightarrow> invalid | Some e \<Rightarrow> Inr e))"

subsection \<open>The order of findings\<close>

fun SEVERITY_RANK :: "review_severity \<Rightarrow> int" where
  "SEVERITY_RANK SevCritical = 0"
| "SEVERITY_RANK SevHigh = 1"
| "SEVERITY_RANK SevMedium = 2"
| "SEVERITY_RANK SevLow = 3"

fun compareNullableText :: "string option \<Rightarrow> string option \<Rightarrow> int" where
  "compareNullableText None None = 0"
| "compareNullableText None (Some _) = 1"
| "compareNullableText (Some _) None = - 1"
| "compareNullableText (Some l) (Some r) = (if l = r then 0 else if l < r then - 1 else 1)"

definition compareFindings :: "review_finding \<Rightarrow> review_finding \<Rightarrow> int" where
  "compareFindings l r =
     (let severityOrder = SEVERITY_RANK (severity l) - SEVERITY_RANK (severity r);
          fileOrder = compareNullableText (findingFile l) (findingFile r);
          leftLine = (case findingLine l of None \<Rightarrow> MAX_SAFE_INTEGER | Some n \<Rightarrow> n);
          rightLine = (case findingLine r of None \<Rightarrow> MAX_SAFE_INTEGER | Some n \<Rightarrow> n)
      in if severityOrder \<noteq> 0 then severityOrder
         else if fileOrder \<noteq> 0 then fileOrder
         else if leftLine \<noteq> rightLine then leftLine - rightLine
         else if findingTitle l \<noteq> findingTitle r then (if findingTitle l < findingTitle r then - 1 else 1)
         else if findingDetails l = findingDetails r then 0
         else if findingDetails l < findingDetails r then - 1 else 1)"

definition sortedFindings :: "review_finding list \<Rightarrow> review_finding list" where
  "sortedFindings fs = sort_by compareFindings fs"

subsection \<open>One review\<close>

datatype review_outcome = ReviewPass | ReviewChangesRequested | ReviewBlocked

record review_assessment =
  raOutcome :: review_outcome
  raReasons :: "string list"
  raFindings :: "review_finding list"

definition blockedCheckReason :: "review_check \<Rightarrow> string" where
  "blockedCheckReason c = ''check '' @ checkName c @ '' was blocked: '' @ checkSummary c"

definition failedCheckReason :: "review_check \<Rightarrow> string" where
  "failedCheckReason c = ''check '' @ checkName c @ '' failed: '' @ checkSummary c"

definition assessReview :: "review_verdict \<Rightarrow> string \<Rightarrow> review_assessment" where
  "assessReview v expectedSha =
     (let fs = sortedFindings (verdictFindings v);
          answer = (\<lambda>oc why. \<lparr>raOutcome = oc, raReasons = why, raFindings = fs\<rparr>) in
      if reviewedHeadSha v \<noteq> expectedSha
      then answer ReviewBlocked [''reviewed head SHA does not match the expected head SHA'']
      else case List.find (\<lambda>c. checkOutcome c = CheckBlocked) (verdictChecks v) of
        Some c \<Rightarrow> answer ReviewBlocked [blockedCheckReason c]
      | None \<Rightarrow> (case List.find (\<lambda>c. checkOutcome c = CheckFailed) (verdictChecks v) of
          Some c \<Rightarrow> answer ReviewChangesRequested [failedCheckReason c]
        | None \<Rightarrow>
            if verdictKind v = VerdictBlocked then answer ReviewBlocked [''review verdict was blocked'']
            else if verdictKind v = VerdictChangesRequested
            then answer ReviewChangesRequested [''review verdict requested changes'']
            else if fs \<noteq> [] then answer ReviewChangesRequested [''review reported findings despite a pass verdict'']
            else answer ReviewPass []))"

subsection \<open>Lenses\<close>

datatype review_lens = QualityLens | RiskLens | ConsensusLens

text \<open>\<open>resultJson\<close> is the stored text; \<open>parse\<close> reads it.\<close>

record lens_attempt =
  attemptId :: string
  reviewLens :: "review_lens option"
  attemptHeadSha :: "string option"
  resultJson :: "string option"

record settled_lens =
  settledLens :: review_lens
  settledOutcome :: review_outcome
  settledFindings :: "review_finding list"
  settledReasons :: "string list"
  settledSummary :: string

datatype group_outcome = GroupPending | GroupPass | GroupChangesRequested | GroupBlocked

record group_assessment =
  groupOutcome :: group_outcome
  groupAttemptIds :: "string list"
  groupFindings :: "review_finding list"
  groupReasons :: "string list"
  groupSummary :: "string option"

fun LENS_ORDER :: "review_lens \<Rightarrow> int" where
  "LENS_ORDER QualityLens = 0"
| "LENS_ORDER RiskLens = 1"
| "LENS_ORDER ConsensusLens = 2"

fun lens_name :: "review_lens \<Rightarrow> string" where
  "lens_name QualityLens = ''quality''"
| "lens_name RiskLens = ''risk''"
| "lens_name ConsensusLens = ''consensus''"

fun requiredReviewLenses :: "delivery_mode \<Rightarrow> review_lens list" where
  "requiredReviewLenses SmallFix = [QualityLens]"
| "requiredReviewLenses FullDelivery = [QualityLens, RiskLens]"

fun outcome_text :: "review_outcome \<Rightarrow> string" where
  "outcome_text ReviewPass = ''pass''"
| "outcome_text ReviewChangesRequested = ''changes_requested''"
| "outcome_text ReviewBlocked = ''blocked''"

fun envelope_outcome_text :: "envelope_outcome \<Rightarrow> string" where
  "envelope_outcome_text EnvPass = ''pass''"
| "envelope_outcome_text EnvPassWithAdvisories = ''pass_with_advisories''"
| "envelope_outcome_text EnvChangesRequested = ''changes_requested''"
| "envelope_outcome_text EnvBlocked = ''blocked''"

datatype lens_reading = LensPending | LensInvalid | LensSettled settled_lens

fun all_strings :: "jval list \<Rightarrow> string list option" where
  "all_strings [] = Some []"
| "all_strings (JStr s # vs) = map_option ((#) s) (all_strings vs)"
| "all_strings (_ # vs) = None"

definition reasons_of :: "(string \<Rightarrow> jval option) \<Rightarrow> string list option" where
  "reasons_of obj = (case obj ''reasons'' of Some (JList vs) \<Rightarrow> all_strings vs | _ \<Rightarrow> None)"

definition guard_review_finding :: "assessed_finding \<Rightarrow> review_finding" where
  "guard_review_finding a = \<lparr>severity = gfSeverity (asFinding a), findingFile = Some (gfSubject (asFinding a)),
     findingLine = gfLine (asFinding a), findingTitle = asCapabilityId a @ '':'' @ gfRuleId (asFinding a),
     findingDetails = gfEvidence (asFinding a)\<rparr>"

fun expected_outcome :: "envelope_outcome \<Rightarrow> review_outcome" where
  "expected_outcome EnvBlocked = ReviewBlocked"
| "expected_outcome EnvChangesRequested = ReviewChangesRequested"
| "expected_outcome _ = ReviewPass"

text \<open>A result that carries a guard envelope, or the policy of one.\<close>

definition parse_guard_lens ::
  "(string \<Rightarrow> string) \<Rightarrow> (string \<Rightarrow> string \<Rightarrow> int) \<Rightarrow> review_lens \<Rightarrow> (string \<Rightarrow> jval option) \<Rightarrow> string list \<Rightarrow> string \<Rightarrow>
   lens_reading result" where
  "parse_guard_lens sha256 lc lens obj reasons expectedHead =
     (case (Option.bind (obj ''guardEnvelope'') guardResultEnvelopeSchema, Option.bind (obj ''guardPolicy'') guardAssessmentPolicySchema) of
        (Some e, Some p) \<Rightarrow>
          rbind (assessGuardEnvelope sha256 lc e p) (\<lambda>a.
            (let oc = expected_outcome (gaOutcome a) in
             if obj ''outcome'' \<noteq> Some (JStr (outcome_text oc)) \<or> obj ''reviewedHeadSha'' \<noteq> Some (JStr (envHeadSha e)) \<or>
                envHeadSha e \<noteq> expectedHead \<or>
                json_text (JList (map JStr reasons)) \<noteq> json_text (JList (map JStr (gaReasons a)))
             then Inr LensInvalid
             else Inr (LensSettled \<lparr>settledLens = lens, settledOutcome = oc, settledFindings = map guard_review_finding (gaFindings a),
               settledReasons = gaReasons a, settledSummary = ''guard assessment '' @ envelope_outcome_text (gaOutcome a)\<rparr>)))
      | _ \<Rightarrow> Inr LensInvalid)"

definition parse_verdict_lens :: "review_lens \<Rightarrow> (string \<Rightarrow> jval option) \<Rightarrow> string list \<Rightarrow> string \<Rightarrow> lens_reading" where
  "parse_verdict_lens lens obj reasons expectedHead =
     (case Option.bind (obj ''verdict'') reviewVerdictSchema of
        None \<Rightarrow>
          if obj ''outcome'' \<noteq> Some (JStr ''blocked'') \<or> reasons = [] then LensInvalid
          else LensSettled \<lparr>settledLens = lens, settledOutcome = ReviewBlocked, settledFindings = [], settledReasons = reasons,
                 settledSummary = join_with ''; '' reasons\<rparr>
      | Some v \<Rightarrow>
          (let a = assessReview v expectedHead in
           if obj ''outcome'' \<noteq> Some (JStr (outcome_text (raOutcome a))) \<or>
              obj ''reviewedHeadSha'' \<noteq> Some (JStr (reviewedHeadSha v)) \<or> raOutcome a = ReviewPass \<and> reasons \<noteq> []
           then LensInvalid
           else LensSettled \<lparr>settledLens = lens, settledOutcome = raOutcome a, settledFindings = raFindings a,
                  settledReasons = reasons, settledSummary = verdictSummary v\<rparr>))"

definition parseSettledLens ::
  "(string \<Rightarrow> jval option) \<Rightarrow> (string \<Rightarrow> string) \<Rightarrow> (string \<Rightarrow> string \<Rightarrow> int) \<Rightarrow> review_lens \<Rightarrow> string option \<Rightarrow> string \<Rightarrow>
   lens_reading result" where
  "parseSettledLens parse sha256 lc lens stored expectedHead =
     (case stored of
        None \<Rightarrow> Inr LensPending
      | Some txt \<Rightarrow>
          (case parse txt of
             Some (JObj fs) \<Rightarrow>
               (let obj = map_of fs in
                if obj ''outcome'' = Some (JStr ''format_correction_sent'') then Inr LensPending
                else case reasons_of obj of
                  None \<Rightarrow> Inr LensInvalid
                | Some reasons \<Rightarrow>
                    if obj ''guardEnvelope'' \<noteq> None \<or> obj ''guardPolicy'' \<noteq> None
                    then parse_guard_lens sha256 lc lens obj reasons expectedHead
                    else Inr (parse_verdict_lens lens obj reasons expectedHead))
           | _ \<Rightarrow> Inr LensInvalid))"

subsection \<open>The consensus pass\<close>

datatype consensus_assessment = ConsensusPending | ConsensusPass | ConsensusNotPass

definition assessConsensusReview ::
  "(string \<Rightarrow> jval option) \<Rightarrow> (string \<Rightarrow> string) \<Rightarrow> (string \<Rightarrow> string \<Rightarrow> int) \<Rightarrow> lens_attempt option \<Rightarrow> string \<Rightarrow>
   consensus_assessment result" where
  "assessConsensusReview parse sha256 lc attempt expectedHead =
     (case attempt of
        None \<Rightarrow> Inr ConsensusPending
      | Some a \<Rightarrow>
          if reviewLens a \<noteq> Some ConsensusLens then Inr ConsensusPending
          else if attemptHeadSha a \<noteq> Some expectedHead then Inr ConsensusNotPass
          else rbind (parseSettledLens parse sha256 lc ConsensusLens (resultJson a) expectedHead) (\<lambda>r.
            Inr (case r of
              LensPending \<Rightarrow> ConsensusPending
            | LensInvalid \<Rightarrow> ConsensusNotPass
            | LensSettled s \<Rightarrow> if settledOutcome s = ReviewPass \<and> settledFindings s = [] then ConsensusPass else ConsensusNotPass)))"

subsection \<open>A group of lenses\<close>

definition blocked_group :: "string list \<Rightarrow> string \<Rightarrow> group_assessment" where
  "blocked_group ids why = \<lparr>groupOutcome = GroupBlocked, groupAttemptIds = ids, groupFindings = [], groupReasons = [why],
     groupSummary = None\<rparr>"

definition pending_group :: "string list \<Rightarrow> group_assessment" where
  "pending_group ids = \<lparr>groupOutcome = GroupPending, groupAttemptIds = ids, groupFindings = [], groupReasons = [],
     groupSummary = None\<rparr>"

definition lens_rank :: "lens_attempt \<Rightarrow> int" where
  "lens_rank a = (case reviewLens a of None \<Rightarrow> 2 | Some l \<Rightarrow> LENS_ORDER l)"

definition compareAttempts :: "(string \<Rightarrow> string \<Rightarrow> int) \<Rightarrow> lens_attempt \<Rightarrow> lens_attempt \<Rightarrow> int" where
  "compareAttempts lc l r =
     (if lens_rank l - lens_rank r \<noteq> 0 then lens_rank l - lens_rank r else lc (attemptId l) (attemptId r))"

text \<open>The attempts by lens, or why the group is blocked.\<close>

fun collect_lenses ::
  "review_lens list \<Rightarrow> (review_lens \<times> lens_attempt) list \<Rightarrow> lens_attempt list \<Rightarrow> string + (review_lens \<times> lens_attempt) list" where
  "collect_lenses required by_lens [] = Inr by_lens"
| "collect_lenses required by_lens (a # as) =
     (case reviewLens a of
        None \<Rightarrow> Inl ''review evidence contains an unexpected lens''
      | Some l \<Rightarrow>
          if \<not> List.member required l then Inl ''review evidence contains an unexpected lens''
          else if map_of by_lens l \<noteq> None then Inl (''review evidence contains duplicate '' @ lens_name l @ '' lenses'')
          else collect_lenses required (by_lens @ [(l, a)]) as)"

datatype lens_group = GroupStop group_assessment | GroupSettled "settled_lens list"

fun settle_lenses ::
  "(string \<Rightarrow> jval option) \<Rightarrow> (string \<Rightarrow> string) \<Rightarrow> (string \<Rightarrow> string \<Rightarrow> int) \<Rightarrow> string list \<Rightarrow> (review_lens \<times> lens_attempt) list \<Rightarrow>
   string \<Rightarrow> review_lens list \<Rightarrow> settled_lens list \<Rightarrow> lens_group result" where
  "settle_lenses parse sha256 lc ids by_lens expectedHead [] settled = Inr (GroupSettled settled)"
| "settle_lenses parse sha256 lc ids by_lens expectedHead (l # ls) settled =
     (case map_of by_lens l of
        None \<Rightarrow> Inr (GroupStop (pending_group ids))
      | Some a \<Rightarrow>
          if attemptHeadSha a \<noteq> Some expectedHead
          then Inr (GroupStop (blocked_group ids (lens_name l @ '' review evidence targets a different head'')))
          else rbind (parseSettledLens parse sha256 lc l (resultJson a) expectedHead) (\<lambda>r.
            case r of
              LensPending \<Rightarrow> Inr (GroupStop (pending_group ids))
            | LensInvalid \<Rightarrow> Inr (GroupStop (blocked_group ids (lens_name l @ '' review evidence is invalid'')))
            | LensSettled s \<Rightarrow> settle_lenses parse sha256 lc ids by_lens expectedHead ls (settled @ [s])))"

text \<open>The character after a summary that is cut is the ellipsis, written here as code unit \<open>0x85\<close>.\<close>

definition group_summary :: "settled_lens list \<Rightarrow> string" where
  "group_summary settled =
     (let combined = join_with ''; '' (map (\<lambda>s. lens_name (settledLens s) @ '': '' @ settledSummary s) settled) in
      if length combined \<le> 2000 then combined
      else rev (dropWhile js_space (rev (take 1999 combined))) @ [CHR 0x85])"

definition settle_group :: "string list \<Rightarrow> settled_lens list \<Rightarrow> group_assessment" where
  "settle_group ids settled =
     (let oc = (if list_ex (\<lambda>s. settledOutcome s = ReviewBlocked) settled then GroupBlocked
                else if list_ex (\<lambda>s. settledOutcome s = ReviewChangesRequested) settled then GroupChangesRequested
                else GroupPass)
      in \<lparr>groupOutcome = oc, groupAttemptIds = ids, groupFindings = take 100 (concat (map settledFindings settled)),
          groupReasons = take 100 (concat (map (\<lambda>s. map (\<lambda>why. lens_name (settledLens s) @ '': '' @ why) (settledReasons s)) settled)),
          groupSummary = Some (group_summary settled)\<rparr>)"

definition assessReviewGroup ::
  "(string \<Rightarrow> jval option) \<Rightarrow> (string \<Rightarrow> string) \<Rightarrow> (string \<Rightarrow> string \<Rightarrow> int) \<Rightarrow> lens_attempt list \<Rightarrow> delivery_mode \<Rightarrow> string \<Rightarrow>
   group_assessment result" where
  "assessReviewGroup parse sha256 lc attempts mode expectedHead =
     (let required = requiredReviewLenses mode;
          ordered = sort_by (compareAttempts lc) attempts;
          ids = map attemptId ordered
      in case collect_lenses required [] ordered of
           Inl why \<Rightarrow> Inr (blocked_group ids why)
         | Inr by_lens \<Rightarrow>
             if list_ex (\<lambda>l. map_of by_lens l = None) required then Inr (pending_group ids)
             else rbind (settle_lenses parse sha256 lc ids by_lens expectedHead required []) (\<lambda>g.
               case g of GroupStop a \<Rightarrow> Inr a | GroupSettled settled \<Rightarrow> Inr (settle_group ids settled)))"

end
