(* ===== verification/Review_Lemmas.thy ===== *)
theory Review_Lemmas
  imports Review
begin

text \<open>
  What the assessments of guards and lenses rest on: the fingerprint of an accepted finding exists,
  the loop over the selected guards records every finding and every failure, and the loop over the
  lenses reads one attempt for each.
\<close>

subsection \<open>Subjects\<close>

lemma split_at_not_Nil: "split_at sep s \<noteq> []"
  by (induction s) (auto split: list.splits)

lemma split_at_end_sep: "split_at sep (s @ [sep]) = split_at sep s @ [[]]"
  by (induction s) (auto split: list.splits simp: split_at_not_Nil)

lemma in_set_tlD: "x \<in> set (tl xs) \<Longrightarrow> x \<in> set xs"
  by (cases xs) auto

lemma squeeze_slashes_id: "[] \<notin> set (tl (split_at (CHR ''/'') s)) \<Longrightarrow> squeeze_slashes s = s"
proof (induction s rule: squeeze_slashes.induct)
  case (1 a b s)
  show ?case
  proof (cases "a = CHR ''/''")
    case True
    with 1 have "[] \<notin> set (split_at (CHR ''/'') (b # s))" by simp
    moreover from this have "b \<noteq> CHR ''/''" by auto
    ultimately show ?thesis using 1 True by (auto dest: in_set_tlD)
  next
    case False
    then have "tl (split_at (CHR ''/'') (a # b # s)) = tl (split_at (CHR ''/'') (b # s))"
      using split_at_not_Nil [of "CHR ''/''" "b # s"] by (cases "split_at (CHR ''/'') (b # s)") auto
    with 1 False show ?thesis by (simp del: split_at.simps)
  qed
qed simp_all

lemma set_squeeze: "set (squeeze_slashes s) \<subseteq> set s"
  by (induction s rule: squeeze_slashes.induct) auto

lemma set_squeeze_drop: "set (squeeze_slashes (if q then drop n f else f)) \<subseteq> set f"
proof (cases q)
  case True
  have "set (squeeze_slashes (drop n f)) \<subseteq> set f" by (rule subset_trans [OF set_squeeze set_drop_subset])
  with True show ?thesis by simp
next
  case False
  with set_squeeze [of f] show ?thesis by simp
qed

lemma no_backslash: "CHR 0x5C \<notin> set (normalized_subject raw)"
proof -
  let ?f = "map (\<lambda>c. if c = CHR 0x5C then CHR ''/'' else c) raw"
  have "CHR 0x5C \<notin> set ?f" by auto
  moreover have "set (squeeze_slashes (if starts_with ''./'' ?f then drop 2 ?f else ?f)) \<subseteq> set ?f" by (rule set_squeeze_drop)
  ultimately have "CHR 0x5C \<notin> set (squeeze_slashes (if starts_with ''./'' ?f then drop 2 ?f else ?f))" by blast
  then show ?thesis by (auto simp: normalized_subject_def Let_def dest: in_set_butlastD)
qed

lemma ends_with_snoc: "ends_with [c] s \<Longrightarrow> \<exists>t. s = t @ [c]"
  by (cases s rule: rev_cases) (auto simp: ends_with_def starts_with_def)

lemma normalize_idem:
  assumes "normalizeGuardSubject raw = Inr s"
  shows "normalizeGuardSubject s = Inr s"
proof -
  from assms have s: "s = normalized_subject raw"
      and ok: "\<not> (length s < 1 \<or> length s > 512 \<or> starts_with ''/'' s \<or> drive_path s \<or> CHR 0x00 \<in> set s \<or>
         list_ex (\<lambda>seg. seg = ''.'' \<or> seg = ''..'' \<or> seg = []) (split_at (CHR ''/'') s))"
    by (auto simp: normalizeGuardSubject_def Let_def split: if_splits)
  from ok have segs: "[] \<notin> set (split_at (CHR ''/'') s)" "''.'' \<notin> set (split_at (CHR ''/'') s)" by (auto simp: list_ex_iff)
  from segs(1) have squeezed: "[] \<notin> set (tl (split_at (CHR ''/'') s))" by (blast dest: in_set_tlD)
  have "CHR 0x5C \<notin> set s" using no_backslash s by simp
  then have "map (\<lambda>c. if c = CHR 0x5C then CHR ''/'' else c) s = s" by (auto intro: map_idI)
  moreover have "\<not> starts_with ''./'' s"
  proof
    assume "starts_with ''./'' s"
    then obtain t where "s = CHR ''.'' # CHR ''/'' # t"
      by (cases s; cases "tl s") (auto simp: starts_with_def)
    with segs(2) show False by simp
  qed
  moreover have "\<not> ends_with ''/'' s" using ends_with_snoc [of "CHR ''/''" s] split_at_end_sep [of "CHR ''/''"] segs(1) by auto
  ultimately have "normalized_subject s = s" by (simp add: normalized_subject_def Let_def squeeze_slashes_id [OF squeezed])
  with ok show ?thesis by (simp add: normalizeGuardSubject_def)
qed

lemma fingerprint_exists:
  assumes "guardFinding_ok f" "regex_test False digest_regex digest" "normalizeGuardSubject (gfSubject f) = Inr s"
  shows "\<exists>fp. guardFindingFingerprint sha256 digest (f\<lparr>gfSubject := s\<rparr>) = Inr fp"
proof -
  from assms(3) have "s \<noteq> [] \<and> length s \<le> 512"
    by (auto simp: normalizeGuardSubject_def Let_def split: if_splits)
  then have "1 \<le> length s \<and> length s \<le> 512" by (cases s) auto
  with assms(1) have "guardFinding_ok (f\<lparr>gfSubject := s\<rparr>)" by (simp add: guardFinding_ok_def)
  with assms(2) normalize_idem [OF assms(3)] show ?thesis by (simp add: guardFindingFingerprint_def)
qed

subsection \<open>The loop over the guards\<close>

lemma assess_finding_read:
  assumes "guardFinding_ok f" "regex_test False digest_regex (sgDescriptorDigest g)"
  shows "(\<exists>why. assess_finding sha256 p g f = Inr (Inl why)) \<or>
    (\<exists>a. assess_finding sha256 p g f = Inr (Inr a) \<and> asCapabilityId a = sgCapabilityId g \<and>
       evaluateFindingDisposition f (disposition_policy p) = Some (asDisposition a))"
proof (cases "normalizeGuardSubject (gfSubject f)")
  case (Inl e)
  then show ?thesis by (simp add: assess_finding_def)
next
  case (Inr s)
  have same: "evaluateFindingDisposition (f\<lparr>gfSubject := s\<rparr>) q = evaluateFindingDisposition f q" for q
    by (simp add: evaluateFindingDisposition_def)
  from fingerprint_exists [OF assms Inr] obtain fp where
    "guardFindingFingerprint sha256 (sgDescriptorDigest g) (f\<lparr>gfSubject := s\<rparr>) = Inr fp" by blast
  with Inr show ?thesis by (auto simp: assess_finding_def same Let_def split: option.splits)
qed

lemma assess_findings_read:
  assumes "list_all guardFinding_ok fs" "regex_test False digest_regex (sgDescriptorDigest g)"
  shows "(\<exists>why. assess_findings sha256 p g fs = Inr (Inl why)) \<or>
    (\<exists>as. assess_findings sha256 p g fs = Inr (Inr as) \<and>
       map (\<lambda>f. evaluateFindingDisposition f (disposition_policy p)) fs = map (\<lambda>a. Some (asDisposition a)) as)"
  using assms(1)
proof (induction fs)
  case (Cons f fs)
  then have "guardFinding_ok f" "list_all guardFinding_ok fs" by simp_all
  with assess_finding_read [OF _ assms(2), of f sha256 p] Cons.IH show ?case by auto
qed simp

definition guard_fails :: "guard_envelope \<Rightarrow> selected_guard \<Rightarrow> bool" where
  "guard_fails e g \<longleftrightarrow> (\<exists>r. result_of e (sgCapabilityId g) = Some r \<and> guard_down r \<and> sgMandatory g \<and> substitute_for e g = None)"

definition guard_counts :: "guard_envelope \<Rightarrow> selected_guard \<Rightarrow> guard_terminal_result \<Rightarrow> bool" where
  "guard_counts e g r \<longleftrightarrow> result_of e (sgCapabilityId g) = Some r \<and> \<not> (guard_down r \<and> \<not> sgMandatory g)"

lemma guard_down_step_fields:
  "prFindings (guard_down_step e g r w) = prFindings w"
  "prMandatoryFailure (guard_down_step e g r w) \<longleftrightarrow> prMandatoryFailure w \<or> guard_down r \<and> substitute_for e g = None"
  by (auto simp: guard_down_step_def split: option.splits)

text \<open>What a run of the loop records: a mandatory failure exactly when there is one, and a disposition for every finding.\<close>

definition guards_read :: "guard_envelope \<Rightarrow> guard_policy \<Rightarrow> selected_guard list \<Rightarrow> guard_progress \<Rightarrow> guard_progress \<Rightarrow> bool" where
  "guards_read e p gs w w' \<longleftrightarrow>
     (prMandatoryFailure w' \<longleftrightarrow> prMandatoryFailure w \<or> (\<exists>g \<in> set gs. guard_fails e g)) \<and>
     set (prFindings w) \<subseteq> set (prFindings w') \<and>
     (\<forall>g \<in> set gs. \<forall>r. guard_counts e g r \<longrightarrow> (\<forall>f \<in> set (grFindings r). \<exists>a \<in> set (prFindings w').
        evaluateFindingDisposition f (disposition_policy p) = Some (asDisposition a)))"

lemma guards_read_skip:
  assumes "guards_read e p gs w1 w'" "prFindings w1 = prFindings w" "prMandatoryFailure w1 = prMandatoryFailure w"
    "\<forall>r. \<not> guard_counts e g r"
  shows "guards_read e p (g # gs) w w'"
proof -
  have "\<not> guard_fails e g" using assms(4) by (auto simp: guard_fails_def guard_counts_def)
  with assms show ?thesis by (simp add: guards_read_def)
qed

lemma guards_read_go:
  assumes "guards_read e p gs w1 w'" "prFindings w1 = prFindings w @ as"
    "prMandatoryFailure w1 \<longleftrightarrow> prMandatoryFailure w \<or> guard_down r \<and> substitute_for e g = None" "guard_counts e g r"
    "\<forall>f \<in> set (grFindings r). \<exists>a \<in> set as. evaluateFindingDisposition f (disposition_policy p) = Some (asDisposition a)"
  shows "guards_read e p (g # gs) w w'"
proof -
  have "guard_fails e g \<longleftrightarrow> guard_down r \<and> substitute_for e g = None"
    using assms(4) by (auto simp: guard_fails_def guard_counts_def)
  moreover have "r' = r" if "guard_counts e g r'" for r' using that assms(4) by (simp add: guard_counts_def)
  moreover have "set as \<subseteq> set (prFindings w')" using assms(1,2) by (simp add: guards_read_def)
  ultimately have "\<forall>f \<in> set (grFindings r'). \<exists>a \<in> set (prFindings w').
      evaluateFindingDisposition f (disposition_policy p) = Some (asDisposition a)" if "guard_counts e g r'" for r'
    using that assms(5) by blast
  moreover have "guard_fails e g \<longleftrightarrow> guard_down r \<and> substitute_for e g = None" by fact
  ultimately show ?thesis using assms(1,2,3) by (simp add: guards_read_def)
qed

text \<open>The loop never throws.\<close>

lemma assess_guards_read:
  assumes "list_all guardTerminalResult_ok (envGuards e)" "\<forall>g \<in> set gs. regex_test False digest_regex (sgDescriptorDigest g)"
  shows "(\<exists>why. assess_guards sha256 e p gs w = Inr (Inl why)) \<or>
    (\<exists>w'. assess_guards sha256 e p gs w = Inr (Inr w') \<and> guards_read e p gs w w')"
  using assms(2)
proof (induction gs arbitrary: w)
  case Nil
  then show ?case by (simp add: guards_read_def)
next
  case (Cons g gs)
  show ?case
  proof (cases "result_of e (sgCapabilityId g)")
    case None
    then have skipped: "\<forall>r. \<not> guard_counts e g r" by (simp add: guard_counts_def)
    have step: "assess_guards sha256 e p (g # gs) w = assess_guards sha256 e p gs w"
      by (simp only: assess_guards.simps None option.case)
    from Cons.IH [of w] Cons.prems guards_read_skip [OF _ refl refl skipped] show ?thesis unfolding step by auto
  next
    case (Some r)
    show ?thesis
    proof (cases "guard_down r \<and> \<not> sgMandatory g")
      case True
      let ?w = "w\<lparr>prAdvisory := True,
        prReasons := prReasons w @ [''optional guard '' @ sgCapabilityId g @ '' '' @ outcome_name (grOutcome r)]\<rparr>"
      have step: "assess_guards sha256 e p (g # gs) w = assess_guards sha256 e p gs ?w"
        by (simp only: assess_guards.simps Some option.case True if_True simp_thms)
      have skipped: "\<forall>r. \<not> guard_counts e g r" using Some True by (simp add: guard_counts_def)
      from Cons.IH [of ?w] Cons.prems guards_read_skip [of e p gs ?w _ w, OF _ _ _ skipped] show ?thesis
        unfolding step by auto
    next
      case False
      from Some have "r \<in> set (envGuards e)" unfolding result_of_def by (auto simp: find_Some_iff)
      with assms(1) have "guardTerminalResult_ok r" by (simp add: list_all_iff)
      then have "list_all guardFinding_ok (grFindings r)" by (simp add: guardTerminalResult_ok_def)
      with assess_findings_read [of "grFindings r" g sha256 p] Cons.prems
      consider (stop) why where "assess_findings sha256 p g (grFindings r) = Inr (Inl why)"
        | (go) as where "assess_findings sha256 p g (grFindings r) = Inr (Inr as)"
            "map (\<lambda>f. evaluateFindingDisposition f (disposition_policy p)) (grFindings r) = map (\<lambda>a. Some (asDisposition a)) as"
        by auto
      then show ?thesis
      proof cases
        case stop
        then show ?thesis by (simp only: assess_guards.simps Some option.case False if_False rbind.simps sum.case) simp
      next
        case go
        let ?w = "(guard_down_step e g r w)\<lparr>prFindings := prFindings (guard_down_step e g r w) @ as\<rparr>"
        have step: "assess_guards sha256 e p (g # gs) w = assess_guards sha256 e p gs ?w"
          by (simp only: assess_guards.simps Some option.case False if_False go(1) rbind.simps sum.case Let_def)
        have "\<exists>a \<in> set as. evaluateFindingDisposition f (disposition_policy p) = Some (asDisposition a)"
          if "f \<in> set (grFindings r)" for f
        proof -
          from that have "evaluateFindingDisposition f (disposition_policy p) \<in>
              set (map (\<lambda>f. evaluateFindingDisposition f (disposition_policy p)) (grFindings r))" by simp
          then show ?thesis unfolding go(2) by auto
        qed
        with guards_read_go [of e p gs ?w _ w as r g] Cons.IH [of ?w] Cons.prems Some False show ?thesis
          unfolding step by (simp add: guard_down_step_fields guard_counts_def) blast
      qed
    qed
  qed
qed

end
