(* ===== verification/Merge_Gates.thy ===== *)
theory Merge_Gates
  imports Json_Schema
begin

text \<open>
  The gates before a merge (\<open>src/domain/gates.ts\<close>): every piece of evidence against the job, its
  policy and one head; and the reading of \<open>git ls-remote\<close> rows (\<open>src/bb/validation.ts\<close>).

  \<open>Date.parse\<close> is the argument \<open>date\<close>, \<open>None\<close> for NaN; an instant is a whole number of
  milliseconds.
\<close>

subsection \<open>Rows of \<open>git ls-remote\<close>\<close>

text \<open>\<open>split(/\r?\n/)\<close>.\<close>

definition split_lines :: "string \<Rightarrow> string list" where
  "split_lines s =
     (let ps = split_at (CHR 0x0A) s;
          strip = (\<lambda>p. if ends_with [CHR 0x0D] p then butlast p else p)
      in map strip (butlast ps) @ [last ps])"

text \<open>\<open>split(/\s+/)\<close>.\<close>

function split_spaces :: "string \<Rightarrow> string list" where
  "split_spaces s =
     (let w = takeWhile (\<lambda>c. \<not> js_space c) s; r = dropWhile (\<lambda>c. \<not> js_space c) s in
      if r = [] then [w] else w # split_spaces (dropWhile js_space r))"
  by pat_completeness auto

lemma dropWhile_head_shorter:
  assumes "dropWhile (\<lambda>c. \<not> p c) s \<noteq> []"
  shows "length (dropWhile p (dropWhile (\<lambda>c. \<not> p c) s)) < length s"
proof -
  let ?r = "dropWhile (\<lambda>c. \<not> p c) s"
  have "p (hd ?r)" using hd_dropWhile [OF assms] by simp
  then have "dropWhile p ?r = dropWhile p (tl ?r)" using assms by (cases ?r) auto
  then have "length (dropWhile p ?r) \<le> length (tl ?r)" using length_dropWhile_le [of p "tl ?r"] by simp
  also have "\<dots> < length ?r" using assms by (cases ?r) auto
  also have "\<dots> \<le> length s" by (rule length_dropWhile_le)
  finally show ?thesis .
qed

termination split_spaces
  by (relation "measure length") (auto intro: dropWhile_head_shorter)

declare split_spaces.simps [simp del]

definition validatePrNumber :: "js_number \<Rightarrow> unit result" where
  "validatePrNumber n = guard (is_integer n \<and> 1 \<le> whole n)
     (ValidationError ''invalid_pr_number'' ''Pull-request number must be a positive integer'')"

definition pull_ref :: "int \<Rightarrow> string" where
  "pull_ref n = ''refs/pull/'' @ show_int n @ ''/head''"

definition parseLsRemoteHead :: "string \<Rightarrow> js_number \<Rightarrow> string result" where
  "parseLsRemoteHead output number =
     rthen (validatePrNumber number)
       (let rows = filter (\<lambda>r. r \<noteq> []) (map js_trim (split_lines output)) in
        if rows = [] then Inl (ValidationError ''missing_ls_remote_row'' ''Git remote did not return the pull-request head'')
        else if length rows \<noteq> 1
        then Inl (ValidationError ''multiple_ls_remote_rows'' ''Git remote returned multiple pull-request head rows'')
        else (let fields = split_spaces (hd rows) in
          if length fields \<noteq> 2 \<or> \<not> regex_test False HEAD_SHA (fields ! 0)
          then Inl (ValidationError ''invalid_ls_remote'' ''Git remote returned a malformed pull-request head row'')
          else if fields ! 1 \<noteq> pull_ref (whole number)
          then Inl (ValidationError ''wrong_ls_remote_ref'' ''Git remote returned an unexpected pull-request ref'')
          else Inr (js_lower (fields ! 0))))"

subsection \<open>The evidence\<close>

datatype gate_reason_code =
  ProjectMismatch | EnvironmentMismatch | EnvironmentUnavailable | WorktreeDirty | CheckoutNotBranch |
  OriginRepositoryMismatch | LocalHeadMissing | LocalHeadMismatch | RemoteHeadMissing | RemoteHeadMalformed |
  RemoteHeadMultiple | RemoteHeadWrongRef | RemoteHeadMoved | PrUnavailable | PrDraft | PrClosed |
  PrBaseMismatch | PrNumberMismatch | MergeConflict | MergeBlocked | MergeabilityUnknown | MergeStateUnknown |
  ReviewerMutated | ReviewShaMismatch | GateReviewFindings | ValidationShaMismatch | ValidationFailed |
  RequiredCheckMissing | RequiredCheckUnknown | RequiredCheckPending | RequiredCheckFailed | RequiredCheckCancelled |
  ReceiptBindingMismatch | ReceiptTimeInvalid | ReceiptExpiryInvalid | JobVersionStale | ReceiptExpired

record gate_reason =
  reasonCode :: gate_reason_code
  reasonMessage :: string

record merge_ready_receipt =
  rcJobId :: string
  rcJobVersion :: int
  rcProjectId :: string
  rcEnvironmentId :: string
  rcPrNumber :: int
  rcBaseBranch :: string
  rcHeadSha :: string
  rcReviewAttemptId :: string
  rcValidationCompletedAt :: string
  rcRequiredCheckNames :: "string list"
  rcMergeMethod :: merge_method
  rcExpiresAt :: string

datatype date_like = DateText string | DateMillis "int option"

record gate_job =
  gjId :: string
  gjVersion :: int
  gjProjectId :: string
  gjEnvironmentId :: string
  gjPrNumber :: int
  gjRepository :: string
  gjBaseBranch :: string
  gjRequiredChecks :: "string list"
  gjMergeMethod :: merge_method

record gate_environment =
  geId :: string
  geProjectId :: string
  geStatus :: string
  geClean :: bool
  geUntracked :: "string list"
  geCheckoutKind :: string
  geBranch :: "string option"
  geBranchName :: "string option"
  geHeadSha :: "string option"

record gate_pull_request =
  gpAvailable :: bool
  gpNumber :: int
  gpState :: string
  gpIsDraft :: bool
  gpBaseRefName :: string
  gpMergeStateStatus :: string
  gpMergeable :: "string option"

record gate_review =
  grAttemptId :: string
  grHeadSha :: "string option"
  grVerdict :: string
  grFindingCount :: nat
  grReviewerMutated :: bool

record required_check =
  rqName :: string
  rqBucket :: string

record gate_validation =
  gvOutcome :: string
  gvHeadSha :: "string option"
  gvCompletedAt :: string
  gvChecks :: "required_check list"
  gvAggregateBucket :: "string option"

record gate_input =
  giNow :: date_like
  giProjectId :: string
  giEnvironmentId :: string
  giJob :: gate_job
  giEnvironment :: gate_environment
  giOriginRepository :: string
  giFirstRows :: "string list"
  giSecondRows :: "string list"
  giPullRequest :: gate_pull_request
  giGithubPr :: js_object
  giReview :: gate_review
  giValidation :: gate_validation
  giReceipt :: merge_ready_receipt

subsection \<open>Single gates\<close>

definition reason_if :: "bool \<Rightarrow> gate_reason_code \<Rightarrow> string \<Rightarrow> gate_reason list" where
  "reason_if b code message = (if b then [\<lparr>reasonCode = code, reasonMessage = message\<rparr>] else [])"

definition dateValue :: "(string \<Rightarrow> int option) \<Rightarrow> date_like \<Rightarrow> int option" where
  "dateValue date v = (case v of DateText s \<Rightarrow> date s | DateMillis m \<Rightarrow> m)"

definition remoteRows :: "string list \<Rightarrow> int \<Rightarrow> string option \<times> gate_reason list" where
  "remoteRows rows n =
     (if rows = [] then (None, reason_if True RemoteHeadMissing ''The remote pull-request head lookup returned no rows'')
      else if length rows > 1
      then (None, reason_if True RemoteHeadMultiple ''The remote pull-request head lookup returned multiple rows'')
      else case parseLsRemoteHead (hd rows) (Whole n) of
        Inr sha \<Rightarrow> (Some sha, [])
      | Inl (ValidationError code _) \<Rightarrow>
          if code = ''wrong_ls_remote_ref''
          then (None, reason_if True RemoteHeadWrongRef ''The remote head row has the wrong ref name'')
          else (None, reason_if True RemoteHeadMalformed ''The remote pull-request head row is malformed'')
      | Inl _ \<Rightarrow> (None, reason_if True RemoteHeadMalformed ''The remote pull-request head row is malformed''))"

definition check_reason :: "string \<Rightarrow> required_check \<Rightarrow> gate_reason list" where
  "check_reason required c =
     (let b = js_lower (rqBucket c) in
      if b = ''pass'' then []
      else if b = ''pending'' then reason_if True RequiredCheckPending (''Required check '' @ required @ '' is pending'')
      else if b = ''fail'' \<or> b = ''failure'' then reason_if True RequiredCheckFailed (''Required check '' @ required @ '' is failing'')
      else if b = ''cancel'' \<or> b = ''cancelled''
      then reason_if True RequiredCheckCancelled (''Required check '' @ required @ '' was cancelled'')
      else reason_if True RequiredCheckUnknown (''Required check '' @ required @ '' has an unknown outcome''))"

fun check_priority :: "gate_reason_code \<Rightarrow> int" where
  "check_priority RequiredCheckUnknown = 0"
| "check_priority RequiredCheckFailed = 1"
| "check_priority RequiredCheckCancelled = 2"
| "check_priority _ = 3"

definition requiredCheckReason :: "string \<Rightarrow> required_check list \<Rightarrow> gate_reason list" where
  "requiredCheckReason required checks =
     (let matching = filter (\<lambda>c. rqName c = required) checks in
      if matching = [] then reason_if True RequiredCheckMissing (''Required check '' @ required @ '' is missing'')
      else take 1 (sort_by (\<lambda>l r. check_priority (reasonCode l) - check_priority (reasonCode r))
             (concat (map (check_reason required) matching))))"

definition receiptBindingReasons :: "gate_input \<Rightarrow> string \<Rightarrow> string list \<Rightarrow> gate_reason list" where
  "receiptBindingReasons i headSha names =
     (let r = giReceipt i in
      reason_if (rcJobId r \<noteq> gjId (giJob i) \<or> rcProjectId r \<noteq> giProjectId i \<or> rcEnvironmentId r \<noteq> giEnvironmentId i \<or>
          rcPrNumber r \<noteq> gjPrNumber (giJob i) \<or> rcBaseBranch r \<noteq> gjBaseBranch (giJob i) \<or> rcHeadSha r \<noteq> headSha \<or>
          rcReviewAttemptId r \<noteq> grAttemptId (giReview i) \<or> rcValidationCompletedAt r \<noteq> gvCompletedAt (giValidation i) \<or>
          rcMergeMethod r \<noteq> gjMergeMethod (giJob i) \<or>
          (names \<noteq> [] \<and> json_text (JList (map JStr (rcRequiredCheckNames r))) \<noteq> json_text (JList (map JStr names))))
        ReceiptBindingMismatch ''The ready receipt is not bound to the current evidence'')"

text \<open>Truthiness of a \<open>string | null\<close>.\<close>

definition some_text :: "string option \<Rightarrow> bool" where
  "some_text v = truthy_str v"

definition environment_reasons :: "gate_input \<Rightarrow> gate_reason list" where
  "environment_reasons i =
     (let e = giEnvironment i; j = giJob i; branch = (case geBranchName e of Some b \<Rightarrow> Some b | None \<Rightarrow> geBranch e) in
      reason_if (giProjectId i \<noteq> gjProjectId j \<or> geProjectId e \<noteq> giProjectId i)
        ProjectMismatch ''The evidence is not for the active project'' @
      reason_if (giEnvironmentId i \<noteq> gjEnvironmentId j \<or> geId e \<noteq> giEnvironmentId i)
        EnvironmentMismatch ''The evidence is not for the active environment'' @
      reason_if (geStatus e \<noteq> ''available'') EnvironmentUnavailable ''The environment is not available'' @
      reason_if (\<not> geClean e \<or> geUntracked e \<noteq> [])
        WorktreeDirty ''The environment worktree has uncommitted or untracked changes'' @
      reason_if (geCheckoutKind e \<noteq> ''branch'' \<or> \<not> some_text branch)
        CheckoutNotBranch ''The environment is not checked out on a named branch'' @
      reason_if (js_lower (giOriginRepository i) \<noteq> js_lower (gjRepository j))
        OriginRepositoryMismatch ''The origin repository does not match policy'' @
      (case geHeadSha e of
         None \<Rightarrow> reason_if True LocalHeadMissing ''The environment has no local HEAD''
       | Some sha \<Rightarrow> reason_if (\<not> regex_test False HEAD_SHA sha) LocalHeadMissing ''The environment HEAD is not a full lowercase SHA''))"

definition pull_request_reasons :: "gate_input \<Rightarrow> gate_reason list" where
  "pull_request_reasons i =
     (let p = giPullRequest i; j = giJob i in
      reason_if (gpNumber p \<noteq> gjPrNumber j \<or> map_of (giGithubPr i) ''number'' \<noteq> Some (JNum (gjPrNumber j)))
        PrNumberMismatch ''Pull-request metadata numbers do not match the job'' @
      (if \<not> gpAvailable p then reason_if True PrUnavailable ''The pull request is unavailable''
       else
         reason_if (gpIsDraft p) PrDraft ''The pull request is still a draft'' @
         reason_if (gpState p \<noteq> ''OPEN'' \<and> gpState p \<noteq> ''open'') PrClosed ''The pull request is not open'' @
         reason_if (gpBaseRefName p \<noteq> gjBaseBranch j) PrBaseMismatch ''The pull request targets the wrong base branch'' @
         (if gpMergeable p = Some ''CONFLICTING'' then reason_if True MergeConflict ''The pull request has merge conflicts''
          else reason_if (gpMergeable p \<noteq> Some ''MERGEABLE'') MergeabilityUnknown ''The pull request mergeability is unknown'') @
         (if gpMergeStateStatus p = ''BLOCKED'' then reason_if True MergeBlocked ''The pull request is blocked from merging''
          else reason_if (gpMergeStateStatus p \<noteq> ''CLEAN'') MergeStateUnknown
            ''The pull request merge state is not explicitly safe'')))"

definition review_reasons :: "gate_input \<Rightarrow> string option \<Rightarrow> gate_reason list" where
  "review_reasons i remoteHead =
     (let r = giReview i; local = geHeadSha (giEnvironment i) in
      reason_if (grReviewerMutated r) ReviewerMutated ''The review evidence was changed by the reviewer'' @
      reason_if (grHeadSha r \<noteq> local \<or> grHeadSha r \<noteq> remoteHead)
        ReviewShaMismatch ''The review does not cover the verified head SHA'' @
      reason_if (grVerdict r \<noteq> ''pass'') GateReviewFindings ''The review did not pass'' @
      reason_if (grFindingCount r > 0) GateReviewFindings ''The review contains findings'')"

definition validation_reasons :: "gate_input \<Rightarrow> string option \<Rightarrow> gate_reason list" where
  "validation_reasons i remoteHead =
     (let v = giValidation i; local = geHeadSha (giEnvironment i); names = sort (gjRequiredChecks (giJob i)) in
      reason_if (gvHeadSha v \<noteq> local \<or> gvHeadSha v \<noteq> remoteHead)
        ValidationShaMismatch ''Validation does not cover the verified head SHA'' @
      reason_if (gvOutcome v \<noteq> ''pass'') ValidationFailed ''Configured validation did not pass'' @
      (if names \<noteq> [] then concat (map (\<lambda>n. requiredCheckReason n (gvChecks v)) names)
       else if some_text (gvAggregateBucket v) \<and> gvAggregateBucket v \<noteq> Some ''no_checks''
       then reason_if (map_option js_lower (gvAggregateBucket v) \<noteq> Some ''pass'')
              RequiredCheckUnknown ''The aggregate required-check result is not passing''
       else []))"

definition receipt_reasons :: "(string \<Rightarrow> int option) \<Rightarrow> gate_input \<Rightarrow> gate_reason list" where
  "receipt_reasons date i =
     (let now = dateValue date (giNow i); expiry = dateValue date (DateText (rcExpiresAt (giReceipt i))) in
      reason_if (gjVersion (giJob i) \<noteq> rcJobVersion (giReceipt i))
        JobVersionStale ''The ready receipt was created for an older job version'' @
      reason_if (now = None) ReceiptTimeInvalid ''The gate evaluation time is invalid'' @
      (case (expiry, now) of
         (None, _) \<Rightarrow> reason_if True ReceiptExpiryInvalid ''The ready receipt expiry is invalid''
       | (Some t, Some n) \<Rightarrow> reason_if (t \<le> n) ReceiptExpired ''The ready receipt has expired''
       | (Some _, None) \<Rightarrow> []))"

subsection \<open>All gates\<close>

definition head_reasons :: "gate_input \<Rightarrow> gate_reason list \<times> string option" where
  "head_reasons i =
     (let (first, why1) = remoteRows (giFirstRows i) (gjPrNumber (giJob i));
          (second, why2) = remoteRows (giSecondRows i) (gjPrNumber (giJob i));
          remoteHead = (case first of Some s \<Rightarrow> Some s | None \<Rightarrow> second);
          local = geHeadSha (giEnvironment i)
      in (why1 @ why2 @
          reason_if (some_text first \<and> some_text second \<and> first \<noteq> second)
            RemoteHeadMoved ''The remote pull-request head moved during collection'' @
          reason_if (some_text remoteHead \<and> some_text local \<and> remoteHead \<noteq> local)
            LocalHeadMismatch ''Local HEAD does not match the verified remote pull-request head'', remoteHead))"

datatype gate_evaluation = GateNotReady "gate_reason list" | GateReady merge_ready_receipt

definition evaluateMergeGates :: "(string \<Rightarrow> int option) \<Rightarrow> gate_input \<Rightarrow> gate_evaluation" where
  "evaluateMergeGates date i =
     (let (why_head, remoteHead) = head_reasons i;
          names = sort (gjRequiredChecks (giJob i));
          headForReceipt = (case remoteHead of Some s \<Rightarrow> s | None \<Rightarrow>
            (case geHeadSha (giEnvironment i) of Some s \<Rightarrow> s | None \<Rightarrow> []));
          reasons = environment_reasons i @ why_head @ pull_request_reasons i @ review_reasons i remoteHead @
            validation_reasons i remoteHead @ receipt_reasons date i @ receiptBindingReasons i headForReceipt names
      in if reasons \<noteq> [] then GateNotReady reasons
         else GateReady \<lparr>rcJobId = gjId (giJob i), rcJobVersion = gjVersion (giJob i), rcProjectId = giProjectId i,
           rcEnvironmentId = giEnvironmentId i, rcPrNumber = gjPrNumber (giJob i), rcBaseBranch = gjBaseBranch (giJob i),
           rcHeadSha = headForReceipt, rcReviewAttemptId = grAttemptId (giReview i),
           rcValidationCompletedAt = gvCompletedAt (giValidation i), rcRequiredCheckNames = names,
           rcMergeMethod = gjMergeMethod (giJob i), rcExpiresAt = rcExpiresAt (giReceipt i)\<rparr>)"

end
