(* ===== verification/Gate_Properties.thy ===== *)
theory Gate_Properties
  imports Merge_Gates
begin

text \<open>What a ready merge gate promises, and the reading of the row it rests on.\<close>

lemma reason_if_Nil [simp]: "reason_if b code m = [] \<longleftrightarrow> \<not> b"
  by (simp add: reason_if_def)

lemma remoteRows_read:
  assumes "remoteRows rows n = (sha, why)"
  shows "(why = [] \<longleftrightarrow> sha \<noteq> None) \<and> (\<forall>s. sha = Some s \<longrightarrow> (\<exists>row. rows = [row] \<and> parseLsRemoteHead row (Whole n) = Inr s))"
proof (cases rows)
  case (Cons row rest)
  then show ?thesis
    using assms by (cases rest) (auto simp: remoteRows_def split: sum.splits error.splits if_splits)
qed (use assms in \<open>auto simp: remoteRows_def\<close>)

lemma check_reason_Nil [simp]: "check_reason n c = [] \<longleftrightarrow> js_lower (rqBucket c) = ''pass''"
  by (simp add: check_reason_def Let_def)

lemma sort_by_Nil [simp]: "sort_by cmp xs = [] \<longleftrightarrow> xs = []"
  by (metis length_sort_by length_0_conv)

lemma sort_Nil: "sort xs = [] \<longleftrightarrow> xs = []"
  by (metis set_empty set_sort)

lemma requiredCheckReason_Nil:
  "requiredCheckReason n cs = [] \<longleftrightarrow>
     (\<exists>c \<in> set cs. rqName c = n) \<and> (\<forall>c \<in> set cs. rqName c = n \<longrightarrow> js_lower (rqBucket c) = ''pass'')"
proof -
  have "requiredCheckReason n cs = [] \<longleftrightarrow>
      filter (\<lambda>c. rqName c = n) cs \<noteq> [] \<and> concat (map (check_reason n) (filter (\<lambda>c. rqName c = n) cs)) = []"
    by (auto simp: requiredCheckReason_def Let_def simp del: concat_eq_Nil_conv)
  then show ?thesis by (auto simp: filter_empty_conv)
qed

lemmas gate_lists = environment_reasons_def pull_request_reasons_def review_reasons_def validation_reasons_def
  receipt_reasons_def receiptBindingReasons_def Let_def

text \<open>The heads of a gate without a reason: the environment and both reads of the remote agree.\<close>

lemma parsed_head_nonempty: "parseLsRemoteHead row n = Inr s \<Longrightarrow> s \<noteq> []"
  by (auto simp: parseLsRemoteHead_def rthen_eq_Inr Let_def head_sha_test js_lower_def split: if_splits)

lemma gate_heads:
  assumes "head_reasons i = ([], remote)" "geHeadSha (giEnvironment i) = Some local" "local \<noteq> []"
  shows "\<exists>row1 row2. remote = Some local \<and> giFirstRows i = [row1] \<and> giSecondRows i = [row2] \<and>
    parseLsRemoteHead row1 (Whole (gjPrNumber (giJob i))) = Inr local \<and>
    parseLsRemoteHead row2 (Whole (gjPrNumber (giJob i))) = Inr local"
proof -
  obtain first why1 where f: "remoteRows (giFirstRows i) (gjPrNumber (giJob i)) = (first, why1)" by force
  obtain second why2 where s: "remoteRows (giSecondRows i) (gjPrNumber (giJob i)) = (second, why2)" by force
  from assms(1) f s have quiet: "why1 = []" "why2 = []" and remote: "remote = (case first of Some s \<Rightarrow> Some s | None \<Rightarrow> second)"
      and moved: "\<not> (some_text first \<and> some_text second \<and> first \<noteq> second)"
      and differs: "\<not> (some_text remote \<and> some_text (Some local) \<and> remote \<noteq> Some local)"
    using assms(2) by (auto simp: head_reasons_def Let_def)
  from remoteRows_read [OF f] quiet obtain h1 row1 where r1: "first = Some h1" "giFirstRows i = [row1]"
      "parseLsRemoteHead row1 (Whole (gjPrNumber (giJob i))) = Inr h1" by auto
  from remoteRows_read [OF s] quiet obtain h2 row2 where r2: "second = Some h2" "giSecondRows i = [row2]"
      "parseLsRemoteHead row2 (Whole (gjPrNumber (giJob i))) = Inr h2" by auto
  have "h1 \<noteq> []" "h2 \<noteq> []" using r1 r2 parsed_head_nonempty by blast+
  then have "h1 = h2" "h1 = local" using moved differs remote r1(1) r2(1) assms(3) by (simp_all add: some_text_def)
  with r1 r2 remote show ?thesis by simp
qed

lemma environment_head:
  assumes "environment_reasons i = []"
  shows "\<exists>local. geHeadSha (giEnvironment i) = Some local \<and> local \<noteq> [] \<and>
    geClean (giEnvironment i) \<and> geUntracked (giEnvironment i) = []"
proof -
  from assms obtain local where local: "geHeadSha (giEnvironment i) = Some local" "regex_test False HEAD_SHA local"
    by (auto simp: environment_reasons_def Let_def split: option.splits)
  from local(2) have "length local = 40" by (simp add: head_sha_test)
  then have "local \<noteq> []" by auto
  with local assms show ?thesis by (simp add: environment_reasons_def Let_def)
qed

text \<open>C16: a merge is ready only when every gate is met.  One commit is the head everywhere: in the checkout, in both reads of the
remote, in the review that passed without a finding and was not touched by its reviewer, and in the validation that passed.  The
checkout is an available environment of the job's project, clean and on a named branch of the policy's repository.  The pull request
is the job's, open, not a draft, on the right base, mergeable and in a clean merge state.  Every required check is present and
passed, and where none is required the aggregate result passed unless there is none.  The receipt names this version of the job and
all of this evidence and has not expired, and it is what is returned, with the sorted names of the checks.\<close>
theorem merge_gate_is_sound:
  assumes "evaluateMergeGates date i = GateReady r"
  shows "(\<exists>row1 row2. giFirstRows i = [row1] \<and> giSecondRows i = [row2] \<and>
      parseLsRemoteHead row1 (Whole (gjPrNumber (giJob i))) = Inr (rcHeadSha r) \<and>
      parseLsRemoteHead row2 (Whole (gjPrNumber (giJob i))) = Inr (rcHeadSha r)) \<and>
    giProjectId i = gjProjectId (giJob i) \<and> geProjectId (giEnvironment i) = giProjectId i \<and>
    giEnvironmentId i = gjEnvironmentId (giJob i) \<and> geId (giEnvironment i) = giEnvironmentId i \<and>
    geStatus (giEnvironment i) = ''available'' \<and> geCheckoutKind (giEnvironment i) = ''branch'' \<and>
    truthy_str (case geBranchName (giEnvironment i) of Some b \<Rightarrow> Some b | None \<Rightarrow> geBranch (giEnvironment i)) \<and>
    js_lower (giOriginRepository i) = js_lower (gjRepository (giJob i)) \<and>
    geHeadSha (giEnvironment i) = Some (rcHeadSha r) \<and> geClean (giEnvironment i) \<and> geUntracked (giEnvironment i) = [] \<and>
    grHeadSha (giReview i) = Some (rcHeadSha r) \<and> grVerdict (giReview i) = ''pass'' \<and> grFindingCount (giReview i) = 0 \<and>
    \<not> grReviewerMutated (giReview i) \<and> gvHeadSha (giValidation i) = Some (rcHeadSha r) \<and> gvOutcome (giValidation i) = ''pass'' \<and>
    (\<forall>n \<in> set (gjRequiredChecks (giJob i)). (\<exists>c \<in> set (gvChecks (giValidation i)). rqName c = n) \<and>
       (\<forall>c \<in> set (gvChecks (giValidation i)). rqName c = n \<longrightarrow> js_lower (rqBucket c) = ''pass'')) \<and>
    (gjRequiredChecks (giJob i) = [] \<longrightarrow> truthy_str (gvAggregateBucket (giValidation i)) \<longrightarrow>
       gvAggregateBucket (giValidation i) = Some ''no_checks'' \<or> map_option js_lower (gvAggregateBucket (giValidation i)) = Some ''pass'') \<and>
    gpNumber (giPullRequest i) = gjPrNumber (giJob i) \<and> map_of (giGithubPr i) ''number'' = Some (JNum (gjPrNumber (giJob i))) \<and>
    gpAvailable (giPullRequest i) \<and> \<not> gpIsDraft (giPullRequest i) \<and> gpState (giPullRequest i) \<in> {''OPEN'', ''open''} \<and>
    gpMergeable (giPullRequest i) = Some ''MERGEABLE'' \<and>
    gpMergeStateStatus (giPullRequest i) = ''CLEAN'' \<and> gpBaseRefName (giPullRequest i) = gjBaseBranch (giJob i) \<and>
    rcJobId r = gjId (giJob i) \<and> rcJobVersion r = gjVersion (giJob i) \<and> rcProjectId r = giProjectId i \<and>
    rcEnvironmentId r = giEnvironmentId i \<and> rcPrNumber r = gjPrNumber (giJob i) \<and> rcBaseBranch r = gjBaseBranch (giJob i) \<and>
    rcReviewAttemptId r = grAttemptId (giReview i) \<and> rcValidationCompletedAt r = gvCompletedAt (giValidation i) \<and>
    rcMergeMethod r = gjMergeMethod (giJob i) \<and>
    r = (giReceipt i)\<lparr>rcRequiredCheckNames := sort (gjRequiredChecks (giJob i))\<rparr> \<and>
    (\<exists>now t. dateValue date (giNow i) = Some now \<and> date (rcExpiresAt (giReceipt i)) = Some t \<and> now < t)"
proof -
  obtain why remote where h: "head_reasons i = (why, remote)" by force
  let ?names = "sort (gjRequiredChecks (giJob i))"
  from assms h have none: "environment_reasons i = []" "why = []" "pull_request_reasons i = []" "review_reasons i remote = []"
      "validation_reasons i remote = []" "receipt_reasons date i = []"
      and bound: "receiptBindingReasons i (rcHeadSha r) ?names = []"
      and head: "rcHeadSha r = (case remote of Some s \<Rightarrow> s | None \<Rightarrow> (case geHeadSha (giEnvironment i) of Some s \<Rightarrow> s | None \<Rightarrow> []))"
      and r: "r = \<lparr>rcJobId = gjId (giJob i), rcJobVersion = gjVersion (giJob i), rcProjectId = giProjectId i,
           rcEnvironmentId = giEnvironmentId i, rcPrNumber = gjPrNumber (giJob i), rcBaseBranch = gjBaseBranch (giJob i),
           rcHeadSha = rcHeadSha r, rcReviewAttemptId = grAttemptId (giReview i),
           rcValidationCompletedAt = gvCompletedAt (giValidation i), rcRequiredCheckNames = ?names,
           rcMergeMethod = gjMergeMethod (giJob i), rcExpiresAt = rcExpiresAt (giReceipt i)\<rparr>"
    by (auto simp: evaluateMergeGates_def Let_def split: if_splits)
  from environment_head [OF none(1)] obtain local where local: "geHeadSha (giEnvironment i) = Some local" "local \<noteq> []" by blast
  have env: "giProjectId i = gjProjectId (giJob i) \<and> geProjectId (giEnvironment i) = giProjectId i \<and>
      giEnvironmentId i = gjEnvironmentId (giJob i) \<and> geId (giEnvironment i) = giEnvironmentId i \<and>
      geStatus (giEnvironment i) = ''available'' \<and> geCheckoutKind (giEnvironment i) = ''branch'' \<and>
      truthy_str (case geBranchName (giEnvironment i) of Some b \<Rightarrow> Some b | None \<Rightarrow> geBranch (giEnvironment i)) \<and>
      js_lower (giOriginRepository i) = js_lower (gjRepository (giJob i)) \<and> geClean (giEnvironment i) \<and> geUntracked (giEnvironment i) = []"
    using none(1) by (simp add: environment_reasons_def Let_def some_text_def)
  from gate_heads [OF _ local] h none(2) obtain row1 row2 where rows: "remote = Some local" "giFirstRows i = [row1]"
      "giSecondRows i = [row2]" "parseLsRemoteHead row1 (Whole (gjPrNumber (giJob i))) = Inr local"
      "parseLsRemoteHead row2 (Whole (gjPrNumber (giJob i))) = Inr local" by auto
  have sha: "rcHeadSha r = local" using head rows(1) by simp
  have checks: "\<forall>n \<in> set (gjRequiredChecks (giJob i)). requiredCheckReason n (gvChecks (giValidation i)) = []"
    using none(5) by (cases "gjRequiredChecks (giJob i) = []") (auto simp: validation_reasons_def Let_def sort_Nil)
  have bucket: "gjRequiredChecks (giJob i) = [] \<longrightarrow> truthy_str (gvAggregateBucket (giValidation i)) \<longrightarrow>
      gvAggregateBucket (giValidation i) = Some ''no_checks'' \<or> map_option js_lower (gvAggregateBucket (giValidation i)) = Some ''pass''"
    using none(5) by (auto simp: validation_reasons_def Let_def some_text_def split: if_splits)
  have pr: "gpNumber (giPullRequest i) = gjPrNumber (giJob i) \<and> map_of (giGithubPr i) ''number'' = Some (JNum (gjPrNumber (giJob i))) \<and>
      gpAvailable (giPullRequest i) \<and> \<not> gpIsDraft (giPullRequest i) \<and> gpState (giPullRequest i) \<in> {''OPEN'', ''open''} \<and>
      gpMergeable (giPullRequest i) = Some ''MERGEABLE'' \<and>
      gpMergeStateStatus (giPullRequest i) = ''CLEAN'' \<and> gpBaseRefName (giPullRequest i) = gjBaseBranch (giJob i)"
    using none(3) by (auto simp: pull_request_reasons_def Let_def split: if_splits)
  have rev: "grHeadSha (giReview i) = Some local \<and> grVerdict (giReview i) = ''pass'' \<and> grFindingCount (giReview i) = 0 \<and>
      \<not> grReviewerMutated (giReview i)"
    using none(4) rows(1) by (simp add: review_reasons_def Let_def)
  have val: "gvHeadSha (giValidation i) = Some local \<and> gvOutcome (giValidation i) = ''pass''"
    using none(5) rows(1) by (simp add: validation_reasons_def Let_def)
  have exp: "rcJobVersion (giReceipt i) = gjVersion (giJob i) \<and>
      (\<exists>now t. dateValue date (giNow i) = Some now \<and> date (rcExpiresAt (giReceipt i)) = Some t \<and> now < t)"
    using none(6) by (auto simp: receipt_reasons_def Let_def dateValue_def split: option.splits)
  have given: "r = (giReceipt i)\<lparr>rcRequiredCheckNames := ?names\<rparr>"
    using bound exp by (subst r) (simp add: receiptBindingReasons_def Let_def)
  have named: "rcJobId r = gjId (giJob i) \<and> rcJobVersion r = gjVersion (giJob i) \<and> rcProjectId r = giProjectId i \<and>
      rcEnvironmentId r = giEnvironmentId i \<and> rcPrNumber r = gjPrNumber (giJob i) \<and> rcBaseBranch r = gjBaseBranch (giJob i) \<and>
      rcReviewAttemptId r = grAttemptId (giReview i) \<and> rcValidationCompletedAt r = gvCompletedAt (giValidation i) \<and>
      rcMergeMethod r = gjMergeMethod (giJob i)"
    by (subst (1 2 3 4 5 6 7 8 9) r) simp
  from checks have passed: "\<forall>n \<in> set (gjRequiredChecks (giJob i)). (\<exists>c \<in> set (gvChecks (giValidation i)). rqName c = n) \<and>
       (\<forall>c \<in> set (gvChecks (giValidation i)). rqName c = n \<longrightarrow> js_lower (rqBucket c) = ''pass'')"
    by (simp add: requiredCheckReason_Nil)
  have heads: "\<exists>row1 row2. giFirstRows i = [row1] \<and> giSecondRows i = [row2] \<and>
      parseLsRemoteHead row1 (Whole (gjPrNumber (giJob i))) = Inr (rcHeadSha r) \<and>
      parseLsRemoteHead row2 (Whole (gjPrNumber (giJob i))) = Inr (rcHeadSha r)"
    using rows sha by simp
  show ?thesis
    unfolding sha using heads [unfolded sha] env local(1) rev val passed bucket pr named given exp by blast
qed

subsection \<open>The row of a pull-request head\<close>

lemma split_at_none: "sep \<notin> set s \<Longrightarrow> split_at sep s = [s]"
  by (induction s) auto

lemma split_at_end: "sep \<notin> set s \<Longrightarrow> split_at sep (s @ [sep]) = [s, []]"
  by (induction s) auto

lemma js_trim_id: "s \<noteq> [] \<Longrightarrow> \<not> js_space (hd s) \<Longrightarrow> \<not> js_space (last s) \<Longrightarrow> js_trim s = s"
proof -
  assume *: "s \<noteq> []" "\<not> js_space (hd s)" "\<not> js_space (last s)"
  then have "dropWhile js_space s = s" by (cases s) auto
  moreover have "dropWhile js_space (rev s) = rev s" using * by (cases s rule: rev_cases) auto
  ultimately show ?thesis by (simp add: js_trim_def)
qed

lemma ends_with_char: "ends_with [c] s \<longleftrightarrow> s \<noteq> [] \<and> last s = c"
  by (cases s rule: rev_cases) (auto simp: ends_with_def starts_with_def)

lemma dropWhile_split:
  assumes "list_all (\<lambda>c. \<not> js_space c) w" "js_space x"
  shows "takeWhile (\<lambda>c. \<not> js_space c) (w @ x # r) = w" "dropWhile (\<lambda>c. \<not> js_space c) (w @ x # r) = x # r"
  using assms by (induction w) auto

lemma split_spaces_two:
  assumes "list_all (\<lambda>c. \<not> js_space c) w" "list_all (\<lambda>c. \<not> js_space c) v" "js_space x" "v \<noteq> []"
  shows "split_spaces (w @ x # v) = [w, v]"
proof -
  have v: "takeWhile (\<lambda>c. \<not> js_space c) v = v" "dropWhile (\<lambda>c. \<not> js_space c) v = []" "dropWhile js_space v = v"
    using assms(2,4) by (auto simp: list_all_iff dropWhile_eq_self_iff)
  then have "split_spaces v = [v]" by (simp add: split_spaces.simps [of v])
  then show ?thesis
    using assms(3) v(3) by (simp add: split_spaces.simps [of "w @ x # v"] dropWhile_split [OF assms(1,3)])
qed

lemma hex_not_space: "hex_char c \<Longrightarrow> \<not> js_space c \<and> c \<noteq> CHR 0x0A \<and> c \<noteq> CHR 0x0D \<and> js_lower_char c = c"
  by (auto simp: hex_char_def js_space_def js_lower_char_def Let_def)

definition plain_char :: "char \<Rightarrow> bool" where
  "plain_char c \<longleftrightarrow> \<not> js_space c \<and> c \<noteq> CHR 0x0A \<and> c \<noteq> CHR 0x0D"

lemma plain_hex: "hex_char c \<Longrightarrow> plain_char c"
  by (simp add: plain_char_def hex_not_space)

lemma plain_show_int: "list_all plain_char (show_int n)"
proof -
  have "list_all plain_char ''-0123456789''" by code_simp
  then have "plain_char c" if "c \<in> insert (CHR ''-'') (set ''0123456789'')" for c
    using that by (auto simp: list_all_iff)
  with set_show_int [of n] show ?thesis unfolding list_all_iff by blast
qed

lemma plain_pull_ref: "list_all plain_char (pull_ref n)" "pull_ref n \<noteq> []"
proof -
  have "list_all plain_char ''refs/pull/''" "list_all plain_char ''/head''" by code_simp+
  with plain_show_int [of n] show "list_all plain_char (pull_ref n)"
    unfolding pull_ref_def list_all_append by blast
qed (simp add: pull_ref_def)

lemma ls_row_read:
  assumes "valid_head sha" "1 \<le> n"
  shows "parseLsRemoteHead (sha @ [CHR 0x09] @ pull_ref n @ [CHR 0x0A]) (Whole n) = Inr sha"
proof -
  let ?row = "sha @ CHR 0x09 # pull_ref n"
  have sha: "length sha = 40" "list_all hex_char sha" using assms(1) by (simp_all add: valid_head_def head_sha_test)
  then have plain: "list_all plain_char sha" "sha \<noteq> []" using plain_hex by (auto simp: list_all_iff)
  have tab: "js_space (CHR 0x09)" by code_simp
  have "CHR 0x0A \<notin> set ?row" using plain(1) plain_pull_ref(1) [of n] by (auto simp: list_all_iff plain_char_def)
  then have lines: "split_at (CHR 0x0A) (?row @ [CHR 0x0A]) = [?row, []]" by (rule split_at_end)
  have "\<not> js_space (hd ?row)" "\<not> js_space (last ?row)" "last ?row \<noteq> CHR 0x0D"
    using plain plain_pull_ref [of n] by (auto simp: list_all_iff plain_char_def)
  then have row: "js_trim ?row = ?row" "\<not> ends_with [CHR 0x0D] ?row"
    using js_trim_id [of ?row] by (simp_all add: ends_with_char)
  have "filter (\<lambda>r. r \<noteq> []) (map js_trim (split_lines (?row @ [CHR 0x0A]))) = [?row]"
    using row unfolding split_lines_def lines by (simp add: js_trim_def [of "[]"] ends_with_char)
  moreover have "split_spaces ?row = [sha, pull_ref n]"
    using plain plain_pull_ref [of n] tab by (intro split_spaces_two) (auto simp: list_all_iff plain_char_def)
  moreover have "js_lower sha = sha" using sha(2) hex_not_space by (simp add: js_lower_def list_all_iff map_idI)
  ultimately show ?thesis
    using sha assms(2) by (simp add: parseLsRemoteHead_def validatePrNumber_def head_sha_test)
qed

text \<open>What `git ls-remote` prints for the head of a pull request is read back as that head.\<close>
theorem ls_remote_round_trip:
  assumes "valid_head sha" "1 \<le> n"
  shows "parseLsRemoteHead (sha @ [CHR 0x09] @ pull_ref n @ [CHR 0x0A]) (Whole n) = Inr sha"
  by (rule ls_row_read [OF assms])

theorem ls_remote_round_trip_witness:
  "parseLsRemoteHead (replicate 40 (CHR ''b'') @ [CHR 0x09] @ pull_ref 7 @ [CHR 0x0A]) (Whole 7) = Inr (replicate 40 (CHR ''b''))"
  by (rule ls_remote_round_trip) (simp_all add: valid_head_def head_sha_test list_all_iff hex_char_def)

subsection \<open>A ready gate\<close>

definition gate_head :: string where
  "gate_head = replicate 40 (CHR ''b'')"

definition gate_row :: string where
  "gate_row = gate_head @ [CHR 0x09] @ pull_ref 7 @ [CHR 0x0A]"

definition gate_demo :: gate_input where
  "gate_demo = \<lparr>giNow = DateMillis (Some 10), giProjectId = ''p'', giEnvironmentId = ''env'',
     giJob = \<lparr>gjId = ''job1'', gjVersion = 4, gjProjectId = ''p'', gjEnvironmentId = ''env'', gjPrNumber = 7,
       gjRepository = ''acme/web'', gjBaseBranch = ''main'', gjRequiredChecks = [''ci''], gjMergeMethod = MergeSquash\<rparr>,
     giEnvironment = \<lparr>geId = ''env'', geProjectId = ''p'', geStatus = ''available'', geClean = True, geUntracked = [],
       geCheckoutKind = ''branch'', geBranch = None, geBranchName = Some ''topic'', geHeadSha = Some gate_head\<rparr>,
     giOriginRepository = ''acme/web'', giFirstRows = [gate_row], giSecondRows = [gate_row],
     giPullRequest = \<lparr>gpAvailable = True, gpNumber = 7, gpState = ''OPEN'', gpIsDraft = False, gpBaseRefName = ''main'',
       gpMergeStateStatus = ''CLEAN'', gpMergeable = Some ''MERGEABLE''\<rparr>,
     giGithubPr = [(''number'', JNum 7)],
     giReview = \<lparr>grAttemptId = ''r1'', grHeadSha = Some gate_head, grVerdict = ''pass'', grFindingCount = 0, grReviewerMutated = False\<rparr>,
     giValidation = \<lparr>gvOutcome = ''pass'', gvHeadSha = Some gate_head, gvCompletedAt = ''t'',
       gvChecks = [\<lparr>rqName = ''ci'', rqBucket = ''pass''\<rparr>], gvAggregateBucket = None\<rparr>,
     giReceipt = \<lparr>rcJobId = ''job1'', rcJobVersion = 4, rcProjectId = ''p'', rcEnvironmentId = ''env'', rcPrNumber = 7,
       rcBaseBranch = ''main'', rcHeadSha = gate_head, rcReviewAttemptId = ''r1'', rcValidationCompletedAt = ''t'',
       rcRequiredCheckNames = [''ci''], rcMergeMethod = MergeSquash, rcExpiresAt = ''later''\<rparr>\<rparr>"

lemma gate_head_valid: "valid_head gate_head"
  by (simp add: gate_head_def valid_head_def head_sha_test list_all_iff hex_char_def)

lemma gate_row_head: "remoteRows [gate_row] 7 = (Some gate_head, [])"
proof -
  have "parseLsRemoteHead gate_row (Whole 7) = Inr gate_head"
    using ls_row_read [OF gate_head_valid, of 7] by (simp add: gate_row_def)
  then show ?thesis by (simp add: remoteRows_def)
qed

lemma gate_demo_ready: "evaluateMergeGates (\<lambda>_. Some 20) gate_demo = GateReady (giReceipt gate_demo)"
proof -
  have fields: "giFirstRows gate_demo = [gate_row]" "giSecondRows gate_demo = [gate_row]" "gjPrNumber (giJob gate_demo) = 7"
      "geHeadSha (giEnvironment gate_demo) = Some gate_head"
    by (simp_all add: gate_demo_def)
  have "regex_test False HEAD_SHA gate_head" using gate_head_valid by (simp add: valid_head_def)
  moreover have "head_reasons gate_demo = ([], Some gate_head)" by (simp add: head_reasons_def fields gate_row_head)
  ultimately show ?thesis
    by (simp add: evaluateMergeGates_def environment_reasons_def pull_request_reasons_def review_reasons_def validation_reasons_def
        receipt_reasons_def receiptBindingReasons_def gate_demo_def some_text_def dateValue_def requiredCheckReason_Nil
        js_lower_def js_lower_char_def)
qed

theorem merge_gate_is_sound_witness:
  "grHeadSha (giReview gate_demo) = Some gate_head \<and> (\<exists>c \<in> set (gvChecks (giValidation gate_demo)). rqName c = ''ci'')"
  using merge_gate_is_sound [OF gate_demo_ready] by (simp add: gate_demo_def)

end
