(* ===== verification/Sorting_Lemmas.thy ===== *)
theory Sorting_Lemmas
  imports Prelude "HOL-Library.Multiset"
begin

text \<open>
  \<open>sort_by\<close>, the model of a JavaScript sort with a comparator, rearranges its list whatever the
  comparator answers.
\<close>

lemma mset_insert_by: "mset (insert_by cmp x xs) = add_mset x (mset xs)"
  by (induction xs) auto

lemma mset_sort_by [simp]: "mset (sort_by cmp xs) = mset xs"
  unfolding sort_by_def by (induction xs) (simp_all add: mset_insert_by)

lemma distinct_sort_by_map: "distinct (map f (sort_by cmp xs)) = distinct (map f xs)"
proof -
  have "mset (map f (sort_by cmp xs)) = mset (map f xs)" by simp
  then show ?thesis using mset_eq_imp_distinct_iff by blast
qed

end
