(* ===== verification/Review_Properties.thy ===== *)
theory Review_Properties
  imports Review_Lemmas Gate_Properties Sorting_Lemmas "HOL-Library.Product_Lexorder"
begin

text \<open>
  Properties of reviews: an assessment of guards always returns, a pass of guards or of a group of
  lenses is backed by the evidence it needs, and findings are shown in one fixed order.
\<close>

subsection \<open>Guards\<close>

lemma guards_selected_digests:
  "validPolicy p \<Longrightarrow> \<forall>g \<in> set (gpSelectedGuards p). regex_test False digest_regex (sgDescriptorDigest g)"
  by (auto simp: validPolicy_def Let_def list_all_iff)

lemma envelope_results_ok: "guardResultEnvelope_ok e \<Longrightarrow> list_all guardTerminalResult_ok (envGuards e)"
  by (simp add: guardResultEnvelope_ok_def)

abbreviation no_progress :: guard_progress where
  "no_progress \<equiv> \<lparr>prReasons = [], prFindings = [], prSubstitutions = [], prMandatoryFailure = False, prAdvisory = False\<rparr>"

lemma assess_selected_read:
  assumes "validPolicy p" "guardResultEnvelope_ok e"
  shows "(\<exists>why. assess_guards sha256 e p (gpSelectedGuards p) no_progress = Inr (Inl why)) \<or>
    (\<exists>w. assess_guards sha256 e p (gpSelectedGuards p) no_progress = Inr (Inr w) \<and>
      guards_read e p (gpSelectedGuards p) no_progress w)"
  by (rule assess_guards_read [OF envelope_results_ok [OF assms(2)] guards_selected_digests [OF assms(1)]])

text \<open>Assessing a guard envelope against a policy always returns an assessment: whatever the reported
  guards and the policy hold, nothing in it throws, since every accepted finding has a fingerprint
  and every other input is answered by a blocked assessment.\<close>

theorem guard_assessment_returns: "\<exists>a. assessGuardEnvelope sha256 lc e p = Inr a"
proof (cases "validPolicy p \<and> guardResultEnvelope_ok e")
  case True
  with assess_selected_read [of p e sha256] show ?thesis
    by (auto simp: assessGuardEnvelope_def split: option.split)
next
  case False
  then show ?thesis by (auto simp: assessGuardEnvelope_def)
qed

lemma first_problem_None: "first_problem f xs = None \<longleftrightarrow> (\<forall>x \<in> set xs. f x = None)"
  by (induction xs) (auto split: option.split)

lemma result_of_SomeD: "result_of e c = Some r \<Longrightarrow> r \<in> set (envGuards e) \<and> grCapabilityId r = c"
  by (auto simp: result_of_def find_Some_iff)

lemma substitute_for_SomeD:
  "substitute_for e g = Some s \<Longrightarrow> s \<in> set (sgSubstitutes g) \<and>
     (\<exists>r \<in> set (envGuards e). grCapabilityId r = s \<and> \<not> guard_down r)"
  by (auto simp: substitute_for_def find_Some_iff guard_down_def dest: result_of_SomeD split: option.splits)

lemma advisory_finding:
  "evaluateFindingDisposition f (disposition_policy p) = Some Advisory \<Longrightarrow>
     gfSeverity f \<noteq> SevCritical \<and> gfSeverity f \<noteq> SevHigh \<and> gfRequirementId f = None \<and> gfEvidenceClass f \<noteq> ''public-contract'' \<and>
     gfRuleId f \<notin> set (gpMustFixRuleIds p)"
  by (auto simp: evaluateFindingDisposition_def disposition_policy_def List.member_iff split: if_splits)

lemma settled_pass_iff:
  "gaOutcome (settle_assessment lc w) \<in> {EnvPass, EnvPassWithAdvisories} \<longleftrightarrow>
     \<not> prMandatoryFailure w \<and> (\<forall>f \<in> set (prFindings w). asDisposition f \<noteq> MustFix)"
  by (auto simp: settle_assessment_def Let_def list_ex_iff)

definition guard_evidence :: "guard_envelope \<Rightarrow> guard_policy \<Rightarrow> selected_guard \<Rightarrow> guard_terminal_result \<Rightarrow> bool" where
  "guard_evidence e p g r \<longleftrightarrow> r \<in> set (envGuards e) \<and> grCapabilityId r = sgCapabilityId g \<and>
     grDescriptorDigest r = sgDescriptorDigest g \<and>
     (if guard_down r \<and> \<not> sgMandatory g then True
      else (guard_down r \<longrightarrow> (\<exists>s \<in> set (envGuards e). grCapabilityId s \<in> set (sgSubstitutes g) \<and> \<not> guard_down s)) \<and>
        (\<forall>f \<in> set (grFindings r). gfSeverity f \<notin> {SevCritical, SevHigh} \<and> gfRequirementId f = None \<and>
           gfEvidenceClass f \<noteq> ''public-contract'' \<and> gfRuleId f \<notin> set (gpMustFixRuleIds p)))"

lemma guard_evidence_intro:
  assumes "guards_read e p gs no_progress w" "\<not> prMandatoryFailure w" "\<forall>f \<in> set (prFindings w). asDisposition f \<noteq> MustFix"
    "selected_problem e g = None" "g \<in> set gs"
  shows "\<exists>r. guard_evidence e p g r"
proof -
  from assms(4) obtain r where r: "result_of e (sgCapabilityId g) = Some r" "grDescriptorDigest r = sgDescriptorDigest g"
    by (auto simp: selected_problem_def split: option.splits if_splits)
  have "\<not> guard_fails e g" using assms(1,2,5) by (simp add: guards_read_def)
  then have down: "substitute_for e g \<noteq> None" if "guard_down r" "sgMandatory g" using that r(1) by (simp add: guard_fails_def)
  have findings: "evaluateFindingDisposition f (disposition_policy p) = Some Advisory"
    if "\<not> (guard_down r \<and> \<not> sgMandatory g)" "f \<in> set (grFindings r)" for f
  proof -
    have "guard_counts e g r" using that r(1) by (simp add: guard_counts_def)
    with assms(1,5) that(2) obtain a where "a \<in> set (prFindings w)"
        "evaluateFindingDisposition f (disposition_policy p) = Some (asDisposition a)"
      unfolding guards_read_def by blast
    moreover from this assms(3) have "asDisposition a = Advisory" by (cases "asDisposition a") auto
    ultimately show ?thesis by simp
  qed
  have "guard_evidence e p g r"
    using result_of_SomeD [OF r(1)] r(2) advisory_finding [OF findings] down substitute_for_SomeD [of e g]
    unfolding guard_evidence_def by fastforce
  then show ?thesis ..
qed

text \<open>C18: An assessment of guards that passes is backed by evidence for the profile, head and diff of the
  policy: every selected guard has a result under its own descriptor; a mandatory one that was
  blocked or failed has an admitted substitute that ran; and no finding that counts is critical or
  high, names a requirement, is evidence about a public contract or breaks a must-fix rule.\<close>

theorem guard_pass_is_sound:
  assumes "assessGuardEnvelope sha256 lc e p = Inr a" "gaOutcome a = EnvPass \<or> gaOutcome a = EnvPassWithAdvisories"
  shows "envProfileId e = gpProfileId p \<and> envProfileRevision e = gpProfileRevision p \<and> envHeadSha e = gpHeadSha p \<and>
    envDiffDigest e = gpDiffDigest p \<and> (\<forall>g \<in> set (gpSelectedGuards p). \<exists>r. guard_evidence e p g r)"
proof -
  have unblocked: "a \<noteq> guard_blocked why" for why using assms(2) by (auto simp: guard_blocked_def)
  then have ok: "validPolicy p" "guardResultEnvelope_ok e" "envelope_problem e p = None"
    using assms(1) by (auto simp: assessGuardEnvelope_def split: if_splits option.splits)
  have "assess_guards sha256 e p (gpSelectedGuards p) no_progress \<noteq> Inr (Inl why)" for why
    using assms(1) unblocked [of why] ok by (auto simp: assessGuardEnvelope_def)
  with assess_selected_read [OF ok(1,2), of sha256] assms(1) ok obtain w where
      w: "a = settle_assessment lc w" "guards_read e p (gpSelectedGuards p) no_progress w"
    by (auto simp: assessGuardEnvelope_def)
  from w(1) assms(2) have clean: "\<not> prMandatoryFailure w" "\<forall>f \<in> set (prFindings w). asDisposition f \<noteq> MustFix"
    using settled_pass_iff [of lc w] by auto
  from ok(3) have "\<forall>g \<in> set (gpSelectedGuards p). selected_problem e g = None"
    by (auto simp: envelope_problem_def first_problem_None split: if_splits option.splits)
  with guard_evidence_intro [OF w(2) clean] ok(3) show ?thesis
    by (auto simp: envelope_problem_def split: if_splits)
qed

subsection \<open>The order of findings\<close>

definition finding_key :: "review_finding \<Rightarrow> int \<times> (bool \<times> string) \<times> int \<times> string \<times> string" where
  "finding_key f = (SEVERITY_RANK (severity f),
     (case findingFile f of None \<Rightarrow> (True, '''') | Some p \<Rightarrow> (False, p)),
     (case findingLine f of None \<Rightarrow> MAX_SAFE_INTEGER | Some n \<Rightarrow> n),
     findingTitle f, findingDetails f)"

lemma compareNullableText_key:
  "compareNullableText a b < 0 \<longleftrightarrow> (case a of None \<Rightarrow> (True, '''') | Some p \<Rightarrow> (False, p)) < (case b of None \<Rightarrow> (True, '''') | Some p \<Rightarrow> (False, p))"
  "compareNullableText a b = 0 \<longleftrightarrow> a = b" "compareNullableText c c = 0"
  by (cases a; cases b; cases c; auto simp: less_prod_def)+

lemma compareFindings_key: "compareFindings l r \<le> 0 \<longleftrightarrow> finding_key l \<le> finding_key r"
proof -
  have files: "(case a of None \<Rightarrow> (True, '''') | Some p \<Rightarrow> (False, p)) = (case b of None \<Rightarrow> (True, '''') | Some p \<Rightarrow> (False, p)) \<longleftrightarrow> a = b"
    for a b :: "string option" by (cases a; cases b) auto
  show ?thesis
    by (simp add: compareFindings_def finding_key_def Let_def less_eq_prod_simp files compareNullableText_key(1) [symmetric]
        compareNullableText_key(2,3) order.order_iff_strict) auto
qed

text \<open>The findings of a review are shown in one fixed order, whatever order the reviewer gave them in:
  they are stably sorted by severity, then file with unplaced findings last, then line with findings
  without a line last, then title, then details, a total order on the text of a finding.\<close>

theorem findings_order_is_lexicographic: "sortedFindings fs = sort_key finding_key fs"
  unfolding sortedFindings_def by (rule sort_by_sort_key) (rule compareFindings_key)

subsection \<open>Groups of lenses\<close>

definition passing_verdict :: "review_verdict \<Rightarrow> string \<Rightarrow> bool" where
  "passing_verdict v head \<longleftrightarrow> verdictKind v = VerdictPass \<and> reviewedHeadSha v = head \<and> verdictFindings v = [] \<and>
     (\<forall>c \<in> set (verdictChecks v). checkOutcome c = CheckPassed)"

lemma sortedFindings_Nil [simp]: "sortedFindings fs = [] \<longleftrightarrow> fs = []"
proof -
  have "set (sortedFindings fs) = set fs" by (simp add: sortedFindings_def)
  then show ?thesis by (metis set_empty)
qed

lemma assessReview_pass: "raOutcome (assessReview v head) = ReviewPass \<longleftrightarrow> passing_verdict v head"
proof -
  have "(\<forall>c \<in> set (verdictChecks v). checkOutcome c = CheckPassed) \<longleftrightarrow>
      List.find (\<lambda>c. checkOutcome c = CheckBlocked) (verdictChecks v) = None \<and>
      List.find (\<lambda>c. checkOutcome c = CheckFailed) (verdictChecks v) = None"
    by (auto simp: find_None_iff intro: check_outcome.exhaust)
  moreover have "verdictKind v = VerdictPass \<longleftrightarrow> verdictKind v \<noteq> VerdictBlocked \<and> verdictKind v \<noteq> VerdictChangesRequested"
    by (cases "verdictKind v") auto
  ultimately show ?thesis by (auto simp: assessReview_def passing_verdict_def Let_def split: option.splits)
qed

text \<open>What the stored result of a lens holds when it passes.\<close>

definition passing_evidence ::
  "(string \<Rightarrow> jval option) \<Rightarrow> (string \<Rightarrow> string) \<Rightarrow> (string \<Rightarrow> string \<Rightarrow> int) \<Rightarrow> string option \<Rightarrow> string \<Rightarrow> bool" where
  "passing_evidence parse sha256 lc stored head \<longleftrightarrow> (\<exists>txt fs. stored = Some txt \<and> parse txt = Some (JObj fs) \<and>
     ((\<exists>v. Option.bind (map_of fs ''verdict'') reviewVerdictSchema = Some v \<and> passing_verdict v head) \<or>
      (\<exists>e p a. Option.bind (map_of fs ''guardEnvelope'') guardResultEnvelopeSchema = Some e \<and>
         Option.bind (map_of fs ''guardPolicy'') guardAssessmentPolicySchema = Some p \<and> envHeadSha e = head \<and>
         assessGuardEnvelope sha256 lc e p = Inr a \<and> (gaOutcome a = EnvPass \<or> gaOutcome a = EnvPassWithAdvisories))))"

lemma expected_outcome_pass: "expected_outcome oc = ReviewPass \<longleftrightarrow> oc = EnvPass \<or> oc = EnvPassWithAdvisories"
  by (cases oc) auto

lemma parse_guard_lens_pass:
  assumes "parse_guard_lens sha256 lc l obj reasons head = Inr (LensSettled s)" "settledOutcome s = ReviewPass"
  shows "\<exists>e p a. Option.bind (obj ''guardEnvelope'') guardResultEnvelopeSchema = Some e \<and>
    Option.bind (obj ''guardPolicy'') guardAssessmentPolicySchema = Some p \<and> envHeadSha e = head \<and>
    assessGuardEnvelope sha256 lc e p = Inr a \<and> (gaOutcome a = EnvPass \<or> gaOutcome a = EnvPassWithAdvisories)"
  using assms
  by (auto simp: parse_guard_lens_def expected_outcome_pass Let_def simp: rbind_eq_Inr split: option.splits if_splits)

lemma parse_verdict_lens_pass:
  assumes "parse_verdict_lens l obj reasons head = LensSettled s" "settledOutcome s = ReviewPass"
  shows "\<exists>v. Option.bind (obj ''verdict'') reviewVerdictSchema = Some v \<and> passing_verdict v head"
  using assms by (auto simp: parse_verdict_lens_def Let_def assessReview_pass [symmetric] split: option.splits if_splits)

lemma settled_lens_pass:
  assumes "parseSettledLens parse sha256 lc l stored head = Inr (LensSettled s)" "settledOutcome s = ReviewPass"
  shows "passing_evidence parse sha256 lc stored head"
proof -
  from assms(1) obtain body fs where stored: "stored = Some body" "parse body = Some (JObj fs)"
    by (auto simp: parseSettledLens_def split: option.splits jval.splits)
  with assms parse_guard_lens_pass parse_verdict_lens_pass show ?thesis
    unfolding passing_evidence_def parseSettledLens_def
    by (auto simp: Let_def split: option.splits if_splits)
qed

lemma collect_lenses_read:
  assumes "collect_lenses req bl as = Inr out" "distinct (map fst bl)"
  shows "out = bl @ map (\<lambda>a. (the (reviewLens a), a)) as \<and> distinct (map fst out) \<and>
    (\<forall>a \<in> set as. \<exists>l \<in> set req. reviewLens a = Some l)"
  using assms
proof (induction as arbitrary: bl)
  case (Cons a as)
  from Cons.prems(1) obtain l where l: "reviewLens a = Some l" "l \<in> set req" "map_of bl l = None"
      and rest: "collect_lenses req (bl @ [(l, a)]) as = Inr out"
    by (simp add: List.member_iff split: option.splits if_splits)
  from l(3) Cons.prems(2) have "distinct (map fst (bl @ [(l, a)]))" by (auto simp: map_of_eq_None_iff)
  note read = Cons.IH [OF rest this]
  show ?case
  proof (intro conjI)
    show "distinct (map fst out)" using read by blast
    show "out = bl @ map (\<lambda>a. (the (reviewLens a), a)) (a # as)" using read l(1) by simp
    show "\<forall>a \<in> set (a # as). \<exists>l \<in> set req. reviewLens a = Some l" using read l(1,2) by simp
  qed
qed simp

lemma settle_lenses_read:
  assumes "settle_lenses parse sha256 lc ids bl head ls settled = Inr g"
  shows "(\<exists>a. g = GroupStop a \<and> groupOutcome a \<noteq> GroupPass) \<or>
    (\<exists>ss. g = GroupSettled (settled @ ss) \<and>
       list_all2 (\<lambda>l s. \<exists>a. map_of bl l = Some a \<and> attemptHeadSha a = Some head \<and>
         parseSettledLens parse sha256 lc l (resultJson a) head = Inr (LensSettled s)) ls ss)"
  using assms
proof (induction ls arbitrary: settled)
  case (Cons l ls)
  show ?case
  proof (cases "map_of bl l")
    case None
    with Cons.prems show ?thesis by (auto simp: pending_group_def)
  next
    case (Some a)
    show ?thesis
    proof (cases "attemptHeadSha a = Some head")
      case True
      with Cons.prems Some obtain r where
        "parseSettledLens parse sha256 lc l (resultJson a) head = Inr r" by (auto simp: rbind_eq_Inr)
      with Cons.prems Some True Cons.IH [of "settled @ [_]"] show ?thesis
        by (cases r) (fastforce simp: pending_group_def blocked_group_def)+
    next
      case False
      with Cons.prems Some show ?thesis by (auto simp: blocked_group_def)
    qed
  qed
qed simp

lemma list_all2_left: "list_all2 P xs ys \<Longrightarrow> x \<in> set xs \<Longrightarrow> \<exists>y \<in> set ys. P x y"
  by (induction rule: list_all2_induct) auto

lemma settle_group_pass: "groupOutcome (settle_group ids ss) = GroupPass \<Longrightarrow> \<forall>s \<in> set ss. settledOutcome s = ReviewPass"
  by (auto simp: settle_group_def Let_def list_ex_iff split: if_splits) (metis review_outcome.exhaust)

lemma required_distinct: "distinct (requiredReviewLenses mode)"
  by (cases mode) auto

text \<open>C17: A group of review lenses that passes is complete and bound to the reviewed head: it holds exactly
  one attempt for each lens its delivery mode requires and no other, and every attempt targets that
  head and stores a passing verdict without findings or unpassed checks, or a passing guard
  assessment of that head.\<close>

theorem review_group_pass_is_sound:
  assumes "assessReviewGroup parse sha256 lc attempts mode head = Inr g" "groupOutcome g = GroupPass"
  shows "mset (map reviewLens attempts) = mset (map Some (requiredReviewLenses mode)) \<and>
    (\<forall>a \<in> set attempts. attemptHeadSha a = Some head \<and> passing_evidence parse sha256 lc (resultJson a) head)"
proof -
  let ?as = "sort_by (compareAttempts lc) attempts" and ?req = "requiredReviewLenses mode"
  from assms obtain bl where bl: "collect_lenses ?req [] ?as = Inr bl" "\<forall>l \<in> set ?req. map_of bl l \<noteq> None"
    by (auto simp: assessReviewGroup_def Let_def blocked_group_def pending_group_def list_ex_iff split: sum.splits if_splits)
  then have "assessReviewGroup parse sha256 lc attempts mode head =
      rbind (settle_lenses parse sha256 lc (map attemptId ?as) bl head ?req []) (\<lambda>g.
        case g of GroupStop a \<Rightarrow> Inr a | GroupSettled ss \<Rightarrow> Inr (settle_group (map attemptId ?as) ss))"
    by (auto simp: assessReviewGroup_def Let_def list_ex_iff)
  with assms(1) obtain g' where g': "settle_lenses parse sha256 lc (map attemptId ?as) bl head ?req [] = Inr g'"
      "(case g' of GroupStop a \<Rightarrow> Inr a | GroupSettled ss \<Rightarrow> Inr (settle_group (map attemptId ?as) ss)) = (Inr g :: group_assessment result)"
    by (auto simp: rbind_eq_Inr)
  from settle_lenses_read [OF g'(1)] g'(2) assms(2) obtain ss where ss: "g = settle_group (map attemptId ?as) ss"
      "list_all2 (\<lambda>l s. \<exists>a. map_of bl l = Some a \<and> attemptHeadSha a = Some head \<and>
         parseSettledLens parse sha256 lc l (resultJson a) head = Inr (LensSettled s)) ?req ss" by auto
  from collect_lenses_read [OF bl(1)] have out: "bl = map (\<lambda>a. (the (reviewLens a), a)) ?as" "distinct (map fst bl)"
      "\<forall>a \<in> set attempts. \<exists>l \<in> set ?req. reviewLens a = Some l" by auto
  have each: "attemptHeadSha a = Some head \<and> passing_evidence parse sha256 lc (resultJson a) head" if "a \<in> set attempts" for a
  proof -
    from that out(3) obtain l where l: "l \<in> set ?req" "reviewLens a = Some l" by blast
    with that out(1) have "(l, a) \<in> set bl" by force
    with out(2) have "map_of bl l = Some a" by simp
    with list_all2_left [OF ss(2) l(1)] obtain s where s: "s \<in> set ss" "attemptHeadSha a = Some head"
        "parseSettledLens parse sha256 lc l (resultJson a) head = Inr (LensSettled s)"
      by auto
    with settle_group_pass ss(1) assms(2) show ?thesis by (blast intro: settled_lens_pass)
  qed
  have keys: "map Some (map fst bl) = map reviewLens ?as"
    using out(1,3) by (force simp: comp_def)
  have "set (map fst bl) = set ?req"
  proof
    show "set (map fst bl) \<subseteq> set ?req" using out(1,3) by force
    show "set ?req \<subseteq> set (map fst bl)" using bl(2) by (auto simp: map_of_eq_None_iff)
  qed
  with out(2) required_distinct have "mset (map fst bl) = mset ?req" by (metis mset_set_set set_eq_iff_mset_eq_distinct)
  with keys have "mset (map reviewLens ?as) = mset (map Some ?req)" by (metis mset_map)
  moreover have "mset ?as = mset attempts" by simp
  ultimately show ?thesis using each by (metis mset_map)
qed

subsection \<open>Instances\<close>

definition demo_digest :: "char \<Rightarrow> string" where
  "demo_digest c = replicate 64 c"

definition demo_finding :: guard_finding where
  "demo_finding = \<lparr>gfRuleId = ''naming'', gfSeverity = SevLow, gfSubject = ''src/a.ts'', gfLine = Some 3, gfEvidence = ''x'',
     gfEvidenceClass = ''style'', gfRequirementId = None\<rparr>"

definition demo_envelope :: guard_envelope where
  "demo_envelope = \<lparr>envProfileId = ''profile'', envProfileRevision = 1, envHeadSha = gate_head, envDiffDigest = demo_digest CHR ''d'',
     envGuards = [\<lparr>grCapabilityId = ''lint'', grDescriptorDigest = demo_digest CHR ''a'', grOutcome = GuardFindings,
       grFindings = [demo_finding]\<rparr>]\<rparr>"

definition demo_policy :: guard_policy where
  "demo_policy = \<lparr>gpProfileId = ''profile'', gpProfileRevision = 1, gpHeadSha = gate_head, gpDiffDigest = demo_digest CHR ''d'',
     gpSelectedGuards = [\<lparr>sgCapabilityId = ''lint'', sgDescriptorDigest = demo_digest CHR ''a'', sgMandatory = True, sgSubstitutes = []\<rparr>],
     gpRequirementIds = [], gpMustFixRuleIds = [''secrets''], gpAdvisoryRuleIds = []\<rparr>"

lemma demo_keys: "isBoundedPolicyKey ''lint''" "isBoundedPolicyKey ''naming''" "isBoundedPolicyKey ''style''" "isBoundedPolicyKey ''secrets''"
  by (simp_all add: isBoundedPolicyKey_def bounded_key_test key_tail_ranges_def key_ranges_def)

lemma demo_digests: "regex_test False digest_regex (demo_digest CHR ''a'')" "regex_test False digest_regex (demo_digest CHR ''d'')"
  by (simp_all add: digest_test demo_digest_def list_all_iff hex_char_def)

lemma demo_subject: "normalizeGuardSubject ''src/a.ts'' = Inr ''src/a.ts''"
  by code_simp

lemma demo_guards_pass: "\<exists>a. assessGuardEnvelope sha256 lc demo_envelope demo_policy = Inr a \<and> gaOutcome a = EnvPassWithAdvisories"
  using gate_head_valid
  by (simp add: assessGuardEnvelope_def validPolicy_def guardAssessmentPolicy_ok_def guardResultEnvelope_ok_def demo_envelope_def
      demo_policy_def demo_keys demo_digests hasUniqueBoundedKeys_def bounded_keys_def selectedGuardPolicy_ok_def
      guardTerminalResult_ok_def guardFinding_ok_def demo_finding_def MAX_GUARDS_def MAX_FINDINGS_def MAX_SAFE_INTEGER_def
      valid_head_def envelope_problem_def selected_problem_def result_of_def assess_finding_def demo_subject
      evaluateFindingDisposition_def disposition_policy_def guardFindingFingerprint_def guard_down_step_def guard_down_def
      settle_assessment_def sort_by_def Let_def unknown_requirement_def)

theorem guard_pass_is_sound_witness:
  "envHeadSha demo_envelope = gate_head \<and> (\<exists>r. guard_evidence demo_envelope demo_policy (hd (gpSelectedGuards demo_policy)) r)"
proof -
  obtain a where "assessGuardEnvelope (\<lambda>s. s) (\<lambda>_ _. 0) demo_envelope demo_policy = Inr a" "gaOutcome a = EnvPassWithAdvisories"
    using demo_guards_pass by blast
  from guard_pass_is_sound [OF this(1)] this(2) show ?thesis by (simp add: demo_policy_def)
qed

definition demo_verdict :: jval where
  "demo_verdict = JObj [(''verdict'', JStr ''pass''), (''reviewedHeadSha'', JStr gate_head), (''summary'', JStr ''fine''),
     (''findings'', JList []), (''checks'', JList [])]"

definition demo_stored :: jval where
  "demo_stored = JObj [(''outcome'', JStr ''pass''), (''reviewedHeadSha'', JStr gate_head), (''reasons'', JList []),
     (''verdict'', demo_verdict)]"

definition demo_attempt :: lens_attempt where
  "demo_attempt = \<lparr>attemptId = ''r1'', reviewLens = Some QualityLens, attemptHeadSha = Some gate_head, resultJson = Some ''stored''\<rparr>"

lemma demo_verdict_read: "reviewVerdictSchema demo_verdict = Some \<lparr>verdictKind = VerdictPass, reviewedHeadSha = gate_head,
    verdictSummary = ''fine'', verdictFindings = [], verdictChecks = []\<rparr>"
  using gate_head_valid
  by (simp add: reviewVerdictSchema_def demo_verdict_def z_strict_def z_field_def z_enum_def z_pattern_def z_between_def z_array_def
      valid_head_def)

lemma demo_group_passes:
  "\<exists>g. assessReviewGroup (\<lambda>_. Some demo_stored) sha256 lc [demo_attempt] SmallFix gate_head = Inr g \<and> groupOutcome g = GroupPass"
  by (simp add: assessReviewGroup_def sort_by_def demo_attempt_def parseSettledLens_def demo_stored_def reasons_of_def
      parse_verdict_lens_def demo_verdict_read assessReview_def sortedFindings_def settle_group_def Let_def)

theorem review_group_pass_is_sound_witness:
  "passing_evidence (\<lambda>_. Some demo_stored) (\<lambda>s. s) (\<lambda>_ _. 0) (Some ''stored'') gate_head"
proof -
  obtain g where "assessReviewGroup (\<lambda>_. Some demo_stored) (\<lambda>s. s) (\<lambda>_ _. 0) [demo_attempt] SmallFix gate_head = Inr g"
      "groupOutcome g = GroupPass"
    using demo_group_passes by blast
  from review_group_pass_is_sound [OF this] show ?thesis by (simp add: demo_attempt_def)
qed

end
