(* ===== verification/Model_Routes.thy ===== *)
theory Model_Routes
  imports Json_Schema
begin

text \<open>
  Model pools (\<open>src/capabilities/models.ts\<close>): the registry of routes, the choice of a pool for a
  piece of work, and what a provider failure leads to; with the part of \<open>src/services/effect-runner.ts\<close>
  that reads the trials of a worker and picks the route of its next attempt.

  \<open>createHash("sha256")\<close> is the argument \<open>sha256\<close>, a function from text to hexadecimal text.
\<close>

subsection \<open>Routes and registries\<close>

datatype execution_class = ControllerClass | PipelineClass | WorkerClass | BackgroundClass

record model_route_tuple =
  tupleProviderId :: string
  tupleModelId :: string
  tupleReasoning :: reasoning_level
  tupleServiceTier :: service_tier

record model_route =
  pool :: stage_tier
  poolProviderId :: string
  poolModelId :: string
  poolReasoning :: reasoning_level
  poolServiceTier :: service_tier

type_synonym model_pool_registry = "execution_class \<Rightarrow> stage_tier \<Rightarrow> model_route_tuple"

text \<open>\<open>/^(?:configured[-_ ]?default|configured[-_ ]?controller|default|inherit|unknown|auto)$/iu\<close>\<close>

definition placeholder_identifier :: regex where
  "placeholder_identifier =
     (let sep = r_opt (RClass (CC False [(CHR ''-'', CHR ''-''), (CHR ''_'', CHR ''_''), (CHR '' '', CHR '' '')])) in
      r_seq [RStart, r_alt [r_seq [r_lit ''configured'', sep, r_lit ''default''],
        r_seq [r_lit ''configured'', sep, r_lit ''controller''], r_lit ''default'', r_lit ''inherit'', r_lit ''unknown'',
        r_lit ''auto''], REnd])"

definition real_identifier :: "nat \<Rightarrow> string \<Rightarrow> string result" where
  "real_identifier maximum v =
     (let t = js_trim v in
      if t = [] \<or> length t > maximum then Inl (ZodError ''identifier'')
      else if regex_test True placeholder_identifier t
      then Inl (ZodError ''model route contains a placeholder identifier'')
      else Inr t)"

definition modelRouteTuple_parse :: "model_route_tuple \<Rightarrow> model_route_tuple result" where
  "modelRouteTuple_parse t =
     rbind (real_identifier 128 (tupleProviderId t)) (\<lambda>p.
     rbind (real_identifier 256 (tupleModelId t)) (\<lambda>m.
       Inr (t\<lparr>tupleProviderId := p, tupleModelId := m\<rparr>)))"

definition pool_route :: "stage_tier \<Rightarrow> model_route_tuple \<Rightarrow> model_route" where
  "pool_route p t = \<lparr>pool = p, poolProviderId = tupleProviderId t, poolModelId = tupleModelId t,
     poolReasoning = tupleReasoning t, poolServiceTier = tupleServiceTier t\<rparr>"

definition codex_entry :: "string \<Rightarrow> reasoning_level \<Rightarrow> service_tier \<Rightarrow> model_route_tuple" where
  "codex_entry m r s = \<lparr>tupleProviderId = ''codex'', tupleModelId = m, tupleReasoning = r, tupleServiceTier = s\<rparr>"

fun DEFAULT_MODEL_POOL_REGISTRY :: model_pool_registry where
  "DEFAULT_MODEL_POOL_REGISTRY ControllerClass Fast = codex_entry ''gpt-5.6-luna'' RLow FastTier"
| "DEFAULT_MODEL_POOL_REGISTRY ControllerClass Standard = codex_entry ''gpt-5.6-terra'' RHigh FastTier"
| "DEFAULT_MODEL_POOL_REGISTRY ControllerClass Strong = codex_entry ''gpt-5.6-sol'' RXhigh FastTier"
| "DEFAULT_MODEL_POOL_REGISTRY PipelineClass Fast = codex_entry ''gpt-5.6-luna'' RHigh DefaultTier"
| "DEFAULT_MODEL_POOL_REGISTRY PipelineClass Standard = codex_entry ''gpt-5.6-terra'' RHigh DefaultTier"
| "DEFAULT_MODEL_POOL_REGISTRY PipelineClass Strong = codex_entry ''gpt-5.6-sol'' RXhigh DefaultTier"
| "DEFAULT_MODEL_POOL_REGISTRY WorkerClass Fast = codex_entry ''gpt-5.6-luna'' RHigh DefaultTier"
| "DEFAULT_MODEL_POOL_REGISTRY WorkerClass Standard = codex_entry ''gpt-5.6-terra'' RHigh DefaultTier"
| "DEFAULT_MODEL_POOL_REGISTRY WorkerClass Strong = codex_entry ''gpt-5.6-sol'' RXhigh DefaultTier"
| "DEFAULT_MODEL_POOL_REGISTRY BackgroundClass Fast = codex_entry ''gpt-5.6-luna'' RLow FastTier"
| "DEFAULT_MODEL_POOL_REGISTRY BackgroundClass Standard = codex_entry ''gpt-5.6-terra'' RMedium FastTier"
| "DEFAULT_MODEL_POOL_REGISTRY BackgroundClass Strong = codex_entry ''gpt-5.6-sol'' RHigh FastTier"

definition execution_classes :: "execution_class list" where
  "execution_classes = [ControllerClass, PipelineClass, WorkerClass, BackgroundClass]"

text \<open>Parsing the whole registry: the first entry that is refused is the error.\<close>

fun each_route :: "model_pool_registry \<Rightarrow> (execution_class \<times> stage_tier) list \<Rightarrow> unit result" where
  "each_route reg [] = Inr ()"
| "each_route reg ((c, p) # cps) = rbind (modelRouteTuple_parse (reg c p)) (\<lambda>_. each_route reg cps)"

definition modelPoolRegistry_parse :: "model_pool_registry \<Rightarrow> model_pool_registry result" where
  "modelPoolRegistry_parse reg =
     rthen (each_route reg (List.product execution_classes [Fast, Standard, Strong]))
       (Inr (\<lambda>c p. case modelRouteTuple_parse (reg c p) of Inr t \<Rightarrow> t | Inl _ \<Rightarrow> reg c p))"

definition defineModelPoolRegistry :: "model_pool_registry \<Rightarrow> model_pool_registry result" where
  "defineModelPoolRegistry reg =
     (case modelPoolRegistry_parse reg of
        Inl _ \<Rightarrow> Inl (TypeError ''Invalid model pool registry'')
      | Inr r \<Rightarrow> Inr r)"

subsection \<open>Choosing a pool\<close>

datatype risk_level = RiskLow | RiskMedium | RiskHigh | RiskCritical

datatype complexity = ComplexityLow | ComplexityMedium | ComplexityHigh

record model_route_selection =
  selClass :: execution_class
  selRecipe :: task_recipe
  selStage :: string
  selRisk :: risk_level
  selComplexity :: "complexity option"
  selMinimumPool :: "stage_tier option"

definition maximumPool :: "stage_tier \<Rightarrow> stage_tier \<Rightarrow> stage_tier" where
  "maximumPool l r = (if tier_rank l \<ge> tier_rank r then l else r)"

definition strong_stages :: "string list" where
  "strong_stages = [''architecture'', ''grilling'', ''planning'', ''critique'', ''integrated-review'', ''high-risk-review'']"

definition mechanical_stages :: "string list" where
  "mechanical_stages = [''delivery-metadata'', ''formatting'', ''extraction'', ''mechanical'', ''implementation'']"

definition defaultPool :: "model_route_selection \<Rightarrow> stage_tier" where
  "defaultPool i =
     (if selRecipe i = Architectural \<or> selRisk i = RiskHigh \<or> selRisk i = RiskCritical \<or>
         selComplexity i = Some ComplexityHigh \<or> List.member strong_stages (selStage i) then Strong
      else if selRisk i = RiskLow \<and> selComplexity i \<noteq> Some ComplexityMedium \<and>
         (selClass i = BackgroundClass \<or> selRecipe i = Direct \<and> List.member mechanical_stages (selStage i)) then Fast
      else Standard)"

text \<open>\<open>/^[a-z][a-z0-9._:-]{0,127}$/u\<close>\<close>

definition stage_identifier :: regex where
  "stage_identifier = r_seq [RStart, RClass (CC False [(CHR ''a'', CHR ''z'')]),
     RRep (RClass (CC False [(CHR ''a'', CHR ''z''), (CHR ''0'', CHR ''9''), (CHR ''.'', CHR ''.''), (CHR ''_'', CHR ''_''),
       (CHR '':'', CHR '':''), (CHR ''-'', CHR ''-'')])) 0 (Some 127), REnd]"

definition selectModelRoute :: "model_route_selection \<Rightarrow> model_pool_registry \<Rightarrow> model_route result" where
  "selectModelRoute i reg =
     (if \<not> regex_test False stage_identifier (selStage i) then Inl (ZodError ''stage'')
      else rbind (modelPoolRegistry_parse reg) (\<lambda>validated.
        (let p = (case selMinimumPool i of None \<Rightarrow> defaultPool i | Some m \<Rightarrow> maximumPool (defaultPool i) m)
         in Inr (pool_route p (validated (selClass i) p)))))"

subsection \<open>Failures\<close>

datatype js_thrown = ThrownError string string | ThrownOther string \<comment> \<open>name and message, or \<open>String(value)\<close>\<close>

text \<open>\<open>.\<close>: any code unit but a line break.\<close>

definition any_char :: regex where
  "any_char = RClass (CC True [(CHR 0x0A, CHR 0x0A), (CHR 0x0D, CHR 0x0D)])"

definition whole_word :: "string \<Rightarrow> regex" where
  "whole_word s = r_seq [RWordBoundary, r_lit s, RWordBoundary]"

definition error_patterns :: "(regex \<times> string) list" where
  "error_patterns =
    [(r_alt [r_lit ''auth'', r_lit ''credential'',
        r_seq [r_lit ''unauthori'', RClass (CC False [(CHR ''s'', CHR ''s''), (CHR ''z'', CHR ''z'')]), r_lit ''ed''],
        r_lit ''forbidden'', r_lit ''401'', r_lit ''403''], ''authentication''),
     (r_alt [r_seq [r_lit ''rate'', r_opt any_char, r_lit ''limit''], r_lit ''too many requests'', whole_word ''429''], ''rate_limited''),
     (r_alt [r_seq [r_lit ''time'', r_opt (r_lit ''d''), r_star r_space, r_lit ''out''], r_lit ''timeout'', r_lit ''deadline''],
       ''timeout''),
     (r_alt [r_lit ''missing executable'', r_lit ''enoent'', r_lit ''not installed''], ''missing_executable''),
     (r_alt [r_lit ''unavailable'', r_lit ''connection'', r_lit ''network'', r_lit ''econn'',
        r_seq [RWordBoundary, r_lit ''50'', RClass (CC False [(CHR ''2'', CHR ''4'')]), RWordBoundary]], ''unavailable''),
     (r_alt [r_lit ''invalid request'', r_lit ''bad request'', whole_word ''400''], ''invalid_request''),
     (r_alt [r_lit ''cancel'', r_lit ''abort''], ''cancelled'')]"

definition error_name_char :: "char \<Rightarrow> char" where
  "error_name_char c =
     (if in_ranges [(CHR ''A'', CHR ''Z''), (CHR ''a'', CHR ''z''), (CHR ''0'', CHR ''9''), (CHR ''_'', CHR ''_''), (CHR ''-'', CHR ''-'')] c
      then c else CHR ''_'')"

definition normalizedErrorClass :: "js_thrown \<Rightarrow> string" where
  "normalizedErrorClass e =
     (let raw = (case e of ThrownError n m \<Rightarrow> n @ '' '' @ m | ThrownOther s \<Rightarrow> s);
          txt = js_lower raw
      in case List.find (\<lambda>(re, _). regex_test False re txt) error_patterns of
           Some (_, c) \<Rightarrow> c
         | None \<Rightarrow> (case e of
             ThrownError n _ \<Rightarrow> (let s = take 64 (js_lower (map error_name_char n)) in if s = [] then ''error'' else s)
           | ThrownOther _ \<Rightarrow> ''unknown''))"

definition failure_identity :: "model_route \<Rightarrow> string \<Rightarrow> string \<Rightarrow> js_thrown \<Rightarrow> jval" where
  "failure_identity r st op e = JObj [(''providerId'', JStr (poolProviderId r)), (''modelId'', JStr (poolModelId r)),
     (''stage'', JStr st), (''errorClass'', JStr (normalizedErrorClass e)), (''operation'', JStr op)]"

definition modelRoute_parse :: "model_route \<Rightarrow> model_route result" where
  "modelRoute_parse r =
     rbind (real_identifier 128 (poolProviderId r)) (\<lambda>p.
     rbind (real_identifier 256 (poolModelId r)) (\<lambda>m. Inr (r\<lparr>poolProviderId := p, poolModelId := m\<rparr>)))"

definition modelFailureSignature ::
  "(string \<Rightarrow> string) \<Rightarrow> model_route \<Rightarrow> string \<Rightarrow> string \<Rightarrow> js_thrown \<Rightarrow> string result" where
  "modelFailureSignature sha256 r st op e =
     rbind (modelRoute_parse r) (\<lambda>r'.
     rthen (guard (regex_test False stage_identifier st) (ZodError ''stage''))
    (rthen (guard (regex_test False stage_identifier op) (ZodError ''operation''))
       (Inr (sha256 (json_text (failure_identity r' st op e))))))"

datatype failure_action = RetryRoute | EscalateRoute | BlockRoute

record model_failure_decision =
  failureAction :: failure_action
  failureRoute :: model_route
  failureSignature :: string
  equivalentFailures :: nat
  nextPool :: "stage_tier option"

definition recordModelFailure ::
  "(string \<Rightarrow> string) \<Rightarrow> model_route \<Rightarrow> string \<Rightarrow> string \<Rightarrow> js_thrown \<Rightarrow> string list \<Rightarrow> model_failure_decision result" where
  "recordModelFailure sha256 r st op e prior =
     rbind (modelRoute_parse r) (\<lambda>route.
     rthen (guard (length prior \<le> 100 \<and> list_all (regex_test False digest_regex) prior) (ZodError ''priorFailureSignatures''))
    (rbind (modelFailureSignature sha256 r st op e) (\<lambda>sig.
       (let n = length (filter (\<lambda>c. c = sig) prior) + 1 in
        Inr (if n < 2
             then \<lparr>failureAction = RetryRoute, failureRoute = route, failureSignature = sig, equivalentFailures = n,
                   nextPool = Some (pool route)\<rparr>
             else if pool route = Strong
             then \<lparr>failureAction = BlockRoute, failureRoute = route, failureSignature = sig, equivalentFailures = n,
                   nextPool = None\<rparr>
             else \<lparr>failureAction = EscalateRoute, failureRoute = route, failureSignature = sig, equivalentFailures = n,
                   nextPool = Some (if pool route = Fast then Standard else Strong)\<rparr>)))))"

subsection \<open>The trials of a worker\<close>

datatype trial_outcome = TrialSelected | TrialPassed | TrialFailed | TrialBlocked

record model_trial =
  trialRoute :: model_route
  trialOutcome :: trial_outcome
  trialSignature :: "string option"

definition nextModelPool :: "stage_tier \<Rightarrow> stage_tier option" where
  "nextModelPool p = (if p = Fast then Some Standard else if p = Standard then Some Strong else None)"

definition sameModelRoute :: "model_route \<Rightarrow> model_route \<Rightarrow> bool" where
  "sameModelRoute l r \<longleftrightarrow> pool l = pool r \<and> poolProviderId l = poolProviderId r \<and> poolModelId l = poolModelId r \<and>
     poolReasoning l = poolReasoning r \<and> poolServiceTier l = poolServiceTier r"

lemma sameModelRoute_eq [simp]: "sameModelRoute l r \<longleftrightarrow> l = r"
  by (cases l; cases r) (auto simp: sameModelRoute_def)

text \<open>Two failures in a row with the same signature, on the route the worker still has.\<close>

definition equivalent_failures :: "model_route \<Rightarrow> model_trial list \<Rightarrow> bool" where
  "equivalent_failures r ts =
     (case rev ts of
        current # previous # _ \<Rightarrow>
          trialOutcome previous = TrialFailed \<and> trialOutcome current = TrialFailed \<and>
          trialSignature previous \<noteq> None \<and> trialSignature previous = trialSignature current \<and>
          sameModelRoute (trialRoute previous) (trialRoute current) \<and> sameModelRoute (trialRoute current) r
      | _ \<Rightarrow> False)"

text \<open>
  The route of the next attempt: \<open>sel\<close> is the selection the code builds from the job, \<open>minimum\<close>
  the configured pool a first attempt starts at.
\<close>

definition next_route ::
  "model_route_selection \<Rightarrow> stage_tier option \<Rightarrow> model_route option \<Rightarrow> model_trial list \<Rightarrow> model_route result" where
  "next_route sel minimum existing ts =
     (case existing of
        None \<Rightarrow> selectModelRoute (sel\<lparr>selMinimumPool := minimum\<rparr>) DEFAULT_MODEL_POOL_REGISTRY
      | Some r \<Rightarrow>
          if ts \<noteq> [] \<and> trialOutcome (last ts) = TrialBlocked
          then Inl (NamedError ''PermanentEffectError'' ''Model provider route is durably blocked after equivalent strong-pool failures'')
          else if ts \<noteq> [] \<and> trialOutcome (last ts) = TrialSelected
          then (if \<not> sameModelRoute (trialRoute (last ts)) r
                then Inl (NamedError ''PermanentEffectError'' ''Unsettled model trial does not match the immutable worker profile'')
                else Inr r)
          else if \<not> equivalent_failures r ts then Inr r
          else (case nextModelPool (pool r) of
              None \<Rightarrow> Inl (NamedError ''PermanentEffectError'' ''Model provider route exhausted the strong pool'')
            | Some p \<Rightarrow> selectModelRoute (sel\<lparr>selMinimumPool := Some p\<rparr>) DEFAULT_MODEL_POOL_REGISTRY))"

definition has_trait :: "job \<Rightarrow> string \<Rightarrow> bool" where
  "has_trait j name = list_ex (\<lambda>t. case t of JObj fs \<Rightarrow> map_of fs ''id'' = Some (JStr name) | _ \<Rightarrow> False) (taskTraits j)"

definition worker_selection :: "job \<Rightarrow> string \<Rightarrow> bool \<Rightarrow> risk_level \<Rightarrow> model_route_selection" where
  "worker_selection j st pipelineRole risk =
     \<lparr>selClass = (if pipelineRole then PipelineClass else WorkerClass), selRecipe = taskRecipe j, selStage = st, selRisk = risk,
      selComplexity = (if has_trait j ''multi-session'' then Some ComplexityHigh else None), selMinimumPool = None\<rparr>"

definition modelRouteForWorkerProfile ::
  "job \<Rightarrow> string \<Rightarrow> bool \<Rightarrow> risk_level \<Rightarrow> stage_tier option \<Rightarrow> model_route option \<Rightarrow> model_trial list \<Rightarrow> model_route result" where
  "modelRouteForWorkerProfile j st pipelineRole risk minimum existing ts =
     next_route (worker_selection j st pipelineRole risk) minimum existing ts"

definition prior_signatures :: "model_trial list \<Rightarrow> string list" where
  "prior_signatures ts = concat (map (\<lambda>t. case trialSignature t of None \<Rightarrow> [] | Some s \<Rightarrow> [s])
     (filter (\<lambda>t. trialOutcome t = TrialFailed) ts))"

text \<open>What a failing call of the provider leaves behind: the settled trial of its attempt.\<close>

definition settle_failure ::
  "(string \<Rightarrow> string) \<Rightarrow> model_route \<Rightarrow> string \<Rightarrow> string \<Rightarrow> js_thrown \<Rightarrow> model_trial list \<Rightarrow> model_trial list result" where
  "settle_failure sha256 r st op e ts =
     rbind (recordModelFailure sha256 r st op e (prior_signatures ts)) (\<lambda>d.
       Inr (ts @ [\<lparr>trialRoute = r, trialOutcome = (if failureAction d = BlockRoute then TrialBlocked else TrialFailed),
                   trialSignature = Some (failureSignature d)\<rparr>]))"

text \<open>An attempt whose provider call fails with the error \<open>e\<close>, and a series of them.\<close>

definition failing_attempt ::
  "(string \<Rightarrow> string) \<Rightarrow> model_route_selection \<Rightarrow> stage_tier option \<Rightarrow> string \<Rightarrow> js_thrown \<Rightarrow>
   model_route option \<times> model_trial list \<Rightarrow> (model_route option \<times> model_trial list) result" where
  "failing_attempt sha256 sel minimum op e w =
     rbind (next_route sel minimum (fst w) (snd w)) (\<lambda>r.
     rbind (settle_failure sha256 r (selStage sel) op e (snd w)) (\<lambda>ts. Inr (Some r, ts)))"

fun failing_attempts ::
  "(string \<Rightarrow> string) \<Rightarrow> model_route_selection \<Rightarrow> stage_tier option \<Rightarrow> string \<Rightarrow> js_thrown \<Rightarrow> nat \<Rightarrow>
   (model_route option \<times> model_trial list) result" where
  "failing_attempts sha256 sel minimum op e 0 = Inr (None, [])"
| "failing_attempts sha256 sel minimum op e (Suc n) =
     rbind (failing_attempts sha256 sel minimum op e n) (failing_attempt sha256 sel minimum op e)"

end
