(* ===== verification/Model_Properties.thy ===== *)
theory Model_Properties
  imports Model_Routes
begin

text \<open>
  A worker whose provider keeps failing: the attempts climb the pools and then stop.
\<close>

subsection \<open>The routes of the default registry\<close>

lemma placeholder_free:
  "\<not> regex_test True placeholder_identifier ''codex''" "\<not> regex_test True placeholder_identifier ''gpt-5.6-luna''"
  "\<not> regex_test True placeholder_identifier ''gpt-5.6-terra''" "\<not> regex_test True placeholder_identifier ''gpt-5.6-sol''"
  by code_simp+

lemma default_identifiers:
  "real_identifier 128 ''codex'' = Inr ''codex''" "real_identifier 256 ''gpt-5.6-luna'' = Inr ''gpt-5.6-luna''"
  "real_identifier 256 ''gpt-5.6-terra'' = Inr ''gpt-5.6-terra''" "real_identifier 256 ''gpt-5.6-sol'' = Inr ''gpt-5.6-sol''"
proof -
  have trims: "js_trim ''codex'' = ''codex''" "js_trim ''gpt-5.6-luna'' = ''gpt-5.6-luna''"
    "js_trim ''gpt-5.6-terra'' = ''gpt-5.6-terra''" "js_trim ''gpt-5.6-sol'' = ''gpt-5.6-sol''" by code_simp+
  show "real_identifier 128 ''codex'' = Inr ''codex''" "real_identifier 256 ''gpt-5.6-luna'' = Inr ''gpt-5.6-luna''"
    "real_identifier 256 ''gpt-5.6-terra'' = Inr ''gpt-5.6-terra''" "real_identifier 256 ''gpt-5.6-sol'' = Inr ''gpt-5.6-sol''"
    by (simp_all add: real_identifier_def placeholder_free trims)
qed

lemma default_entry_parses: "modelRouteTuple_parse (DEFAULT_MODEL_POOL_REGISTRY c p) = Inr (DEFAULT_MODEL_POOL_REGISTRY c p)"
  by (cases c; cases p) (simp_all add: modelRouteTuple_parse_def codex_entry_def default_identifiers)

lemma default_each_route: "each_route DEFAULT_MODEL_POOL_REGISTRY cps = Inr ()"
  by (induction cps) (auto simp: default_entry_parses)

lemma default_registry_parses: "modelPoolRegistry_parse DEFAULT_MODEL_POOL_REGISTRY = Inr DEFAULT_MODEL_POOL_REGISTRY"
  by (simp add: modelPoolRegistry_parse_def default_each_route default_entry_parses)

abbreviation default_route :: "execution_class \<Rightarrow> stage_tier \<Rightarrow> model_route" where
  "default_route c p \<equiv> pool_route p (DEFAULT_MODEL_POOL_REGISTRY c p)"

lemma default_route_parses: "modelRoute_parse (default_route c p) = Inr (default_route c p)"
  by (cases c; cases p) (simp_all add: modelRoute_parse_def pool_route_def codex_entry_def default_identifiers)

lemma default_route_eq: "default_route c p = default_route c q \<longleftrightarrow> p = q"
  by (auto simp: pool_route_def)

lemma select_default:
  assumes "regex_test False stage_identifier (selStage sel)"
  shows "selectModelRoute (sel\<lparr>selMinimumPool := m\<rparr>) DEFAULT_MODEL_POOL_REGISTRY =
    Inr (default_route (selClass sel) (case m of None \<Rightarrow> defaultPool sel | Some q \<Rightarrow> maximumPool (defaultPool sel) q))"
proof -
  have "defaultPool (sel\<lparr>selMinimumPool := m\<rparr>) = defaultPool sel" for m by (simp add: defaultPool_def)
  with assms show ?thesis by (simp add: selectModelRoute_def default_registry_parses Let_def split: option.split)
qed

subsection \<open>One failing attempt\<close>

definition route_signature :: "(string \<Rightarrow> string) \<Rightarrow> execution_class \<Rightarrow> string \<Rightarrow> string \<Rightarrow> js_thrown \<Rightarrow> stage_tier \<Rightarrow> string" where
  "route_signature sha256 c st op e p = sha256 (json_text (failure_identity (default_route c p) st op e))"

definition trial_of :: "(string \<Rightarrow> string) \<Rightarrow> execution_class \<Rightarrow> string \<Rightarrow> string \<Rightarrow> js_thrown \<Rightarrow> stage_tier \<Rightarrow> trial_outcome \<Rightarrow> model_trial" where
  "trial_of sha256 c st op e p oc = \<lparr>trialRoute = default_route c p, trialOutcome = oc,
     trialSignature = Some (route_signature sha256 c st op e p)\<rparr>"

lemma trial_of_outcome [simp]: "trialOutcome (trial_of sha256 c st op e p oc) = oc"
  by (simp add: trial_of_def)

lemma prior_of_failed:
  "prior_signatures (map (\<lambda>p. trial_of sha256 c st op e p TrialFailed) ps) = map (route_signature sha256 c st op e) ps"
  unfolding prior_signatures_def by (induction ps) (auto simp: trial_of_def)

lemma settle_failed:
  assumes "regex_test False stage_identifier st" "regex_test False stage_identifier op" "\<forall>s. regex_test False digest_regex (sha256 s)"
    "length ps \<le> 100"
  shows "settle_failure sha256 (default_route c p) st op e (map (\<lambda>p. trial_of sha256 c st op e p TrialFailed) ps) =
    Inr (map (\<lambda>p. trial_of sha256 c st op e p TrialFailed) ps @
      [trial_of sha256 c st op e p (if p = Strong \<and> route_signature sha256 c st op e p \<in> route_signature sha256 c st op e ` set ps
         then TrialBlocked else TrialFailed)])"
proof -
  let ?sig = "route_signature sha256 c st op e"
  have "list_all (regex_test False digest_regex) (map ?sig ps)"
    using assms(3) by (simp add: list_all_iff route_signature_def)
  moreover have "length (filter (\<lambda>c. c = ?sig p) (map ?sig ps)) = 0 \<longleftrightarrow> ?sig p \<notin> ?sig ` set ps"
    unfolding length_0_conv filter_empty_conv by (metis imageE imageI list.set_map)
  moreover have "pool (default_route c p) = p" by (simp add: pool_route_def)
  moreover have "modelFailureSignature sha256 (default_route c p) st op e = Inr (?sig p)"
    using assms(1,2) by (simp add: modelFailureSignature_def default_route_parses route_signature_def)
  ultimately obtain d where d: "recordModelFailure sha256 (default_route c p) st op e (map ?sig ps) = Inr d"
      "failureSignature d = ?sig p" "failureAction d = BlockRoute \<longleftrightarrow> p = Strong \<and> ?sig p \<in> ?sig ` set ps"
    using assms(4) by (simp add: recordModelFailure_def default_route_parses Let_def split: if_splits)
  then have "settle_failure sha256 (default_route c p) st op e (map (\<lambda>p. trial_of sha256 c st op e p TrialFailed) ps) =
      Inr (map (\<lambda>p. trial_of sha256 c st op e p TrialFailed) ps @ [\<lparr>trialRoute = default_route c p,
        trialOutcome = (if failureAction d = BlockRoute then TrialBlocked else TrialFailed), trialSignature = Some (?sig p)\<rparr>])"
    by (simp add: settle_failure_def prior_of_failed)
  then show ?thesis unfolding trial_of_def d(3) .
qed

subsection \<open>The series\<close>

abbreviation refused :: "'a result \<Rightarrow> bool" where
  "refused m \<equiv> \<exists>why. m = Inl (NamedError ''PermanentEffectError'' why)"

lemma maximumPool_above: "tier_rank p \<le> tier_rank q \<Longrightarrow> maximumPool p q = q"
  by (cases p; cases q) (auto simp: maximumPool_def)

definition start_pool :: "model_route_selection \<Rightarrow> stage_tier option \<Rightarrow> stage_tier" where
  "start_pool sel minimum = (case minimum of None \<Rightarrow> defaultPool sel | Some q \<Rightarrow> maximumPool (defaultPool sel) q)"

lemma start_pool_above: "tier_rank (defaultPool sel) \<le> tier_rank (start_pool sel minimum)"
  by (cases minimum) (auto simp: start_pool_def maximumPool_def)

lemma attempt_first:
  assumes "regex_test False stage_identifier (selStage sel)"
  shows "next_route sel minimum None ts = Inr (default_route (selClass sel) (start_pool sel minimum))"
  by (simp add: next_route_def select_default [OF assms] start_pool_def)

lemma attempt_again:
  assumes "ts = [] \<or> trialOutcome (last ts) = TrialFailed" "\<not> equivalent_failures r ts"
  shows "next_route sel minimum (Some r) ts = Inr r"
  using assms by (auto simp: next_route_def)

lemma attempt_climbs:
  assumes "regex_test False stage_identifier (selStage sel)" "ts \<noteq> []" "trialOutcome (last ts) = TrialFailed"
    "equivalent_failures (default_route c p) ts" "nextModelPool p = Some q" "tier_rank (defaultPool sel) \<le> tier_rank q"
  shows "next_route sel minimum (Some (default_route c p)) ts = Inr (default_route (selClass sel) q)"
  using assms select_default [OF assms(1), of "Some q"] maximumPool_above [OF assms(6)]
  by (simp add: next_route_def pool_route_def [of p])

lemma attempt_stops: "ts \<noteq> [] \<Longrightarrow> trialOutcome (last ts) = TrialBlocked \<Longrightarrow> refused (next_route sel minimum (Some r) ts)"
  by (simp add: next_route_def)

lemma refused_rbind: "refused m \<Longrightarrow> refused (rbind m k)"
  by auto

lemma equivalent_failures_iff:
  "equivalent_failures (default_route c p) (map (\<lambda>p. trial_of sha256 c st op e p TrialFailed) ps) \<longleftrightarrow> (\<exists>qs. ps = qs @ [p, p])"
proof (cases ps rule: rev_cases)
  case (snoc qs y)
  then show ?thesis
  proof (cases qs rule: rev_cases)
    case (snoc rs x)
    with \<open>ps = qs @ [y]\<close> show ?thesis by (auto simp: equivalent_failures_def trial_of_def default_route_eq)
  qed (auto simp: equivalent_failures_def)
qed (simp add: equivalent_failures_def)

text \<open>What the lemmas below assume of the work and of the digest.\<close>

definition traceable :: "(string \<Rightarrow> string) \<Rightarrow> model_route_selection \<Rightarrow> string \<Rightarrow> bool" where
  "traceable sha256 sel op \<longleftrightarrow> regex_test False stage_identifier (selStage sel) \<and> regex_test False stage_identifier op \<and>
     (\<forall>s. regex_test False digest_regex (sha256 s))"

abbreviation failed_trials :: "(string \<Rightarrow> string) \<Rightarrow> model_route_selection \<Rightarrow> string \<Rightarrow> js_thrown \<Rightarrow> stage_tier list \<Rightarrow> model_trial list" where
  "failed_trials sha256 sel op e ps \<equiv> map (\<lambda>p. trial_of sha256 (selClass sel) (selStage sel) op e p TrialFailed) ps"

lemma attempt_fails:
  assumes "traceable sha256 sel op" "length ps \<le> 100"
    "next_route sel minimum ex (failed_trials sha256 sel op e ps) = Inr (default_route (selClass sel) p)"
  shows "\<exists>oc. failing_attempt sha256 sel minimum op e (ex, failed_trials sha256 sel op e ps) =
      Inr (Some (default_route (selClass sel) p),
        failed_trials sha256 sel op e ps @ [trial_of sha256 (selClass sel) (selStage sel) op e p oc]) \<and>
    (oc = TrialFailed \<or> oc = TrialBlocked) \<and> (p \<noteq> Strong \<longrightarrow> oc = TrialFailed) \<and> (p = Strong \<and> p \<in> set ps \<longrightarrow> oc = TrialBlocked) \<and>
    (oc = TrialBlocked \<longrightarrow> route_signature sha256 (selClass sel) (selStage sel) op e p \<in>
       route_signature sha256 (selClass sel) (selStage sel) op e ` set ps)"
  using assms settle_failed [where st = "selStage sel" and op = op and ?sha256.0 = sha256 and ps = ps and c = "selClass sel" and p = p and e = e] by (auto simp: failing_attempt_def traceable_def)

lemma pool_is_left:
  assumes "traceable sha256 sel op" "length ps \<le> 90" "p \<noteq> Strong" "p \<notin> set ps"
    "next_route sel minimum ex (failed_trials sha256 sel op e ps) = Inr (default_route (selClass sel) p)"
    "failing_attempts sha256 sel minimum op e n = Inr (ex, failed_trials sha256 sel op e ps)"
  shows "failing_attempts sha256 sel minimum op e (Suc (Suc n)) =
    Inr (Some (default_route (selClass sel) p), failed_trials sha256 sel op e (ps @ [p, p]))"
proof -
  let ?ts = "failed_trials sha256 sel op e (ps @ [p])"
  have "failing_attempt sha256 sel minimum op e (ex, failed_trials sha256 sel op e ps) =
      Inr (Some (default_route (selClass sel) p), ?ts)"
    using attempt_fails [OF assms(1) _ assms(5)] assms(2,3) by auto
  then have once: "failing_attempts sha256 sel minimum op e (Suc n) = Inr (Some (default_route (selClass sel) p), ?ts)"
    using assms(6) by simp
  have "next_route sel minimum (Some (default_route (selClass sel) p)) ?ts = Inr (default_route (selClass sel) p)"
    using assms(4) by (intro attempt_again) (auto simp: equivalent_failures_iff last_map simp del: map_append list.map)
  from attempt_fails [OF assms(1) _ this] assms(2,3) once show ?thesis by auto
qed

text \<open>The pools of a series that climbs from pool to pool and tries each twice.\<close>

fun climb :: "stage_tier \<Rightarrow> stage_tier list" where
  "climb Fast = [Fast, Fast, Standard, Standard, Strong, Strong]"
| "climb Standard = [Standard, Standard, Strong, Strong]"
| "climb Strong = [Strong, Strong]"

definition pools_of :: "model_trial list \<Rightarrow> stage_tier list" where
  "pools_of ts = map (\<lambda>t. pool (trialRoute t)) ts"

text \<open>Two routes of one class whose failures have the same signature.\<close>

definition signatures_collide :: "(string \<Rightarrow> string) \<Rightarrow> model_route_selection \<Rightarrow> string \<Rightarrow> js_thrown \<Rightarrow> bool" where
  "signatures_collide sha256 sel op e \<longleftrightarrow> (\<exists>p q. p \<noteq> q \<and>
     route_signature sha256 (selClass sel) (selStage sel) op e p = route_signature sha256 (selClass sel) (selStage sel) op e q)"

lemma pools_of_trials: "pools_of (failed_trials sha256 sel op e ps) = ps"
  "pools_of (ts @ [trial_of sha256 c st op e p oc]) = pools_of ts @ [p]"
  by (simp_all add: pools_of_def comp_def trial_of_def pool_route_def)

lemma strong_pool_stops:
  assumes "traceable sha256 sel op" "length ps \<le> 90" "Strong \<notin> set ps"
    "next_route sel minimum ex (failed_trials sha256 sel op e ps) = Inr (default_route (selClass sel) Strong)"
    "failing_attempts sha256 sel minimum op e n = Inr (ex, failed_trials sha256 sel op e ps)" "length ps = n"
  shows "\<exists>k r ts. failing_attempts sha256 sel minimum op e k = Inr (r, ts) \<and> length ts = k \<and>
    (pools_of ts = ps @ [Strong, Strong] \<or> pools_of ts = ps @ [Strong] \<and> signatures_collide sha256 sel op e) \<and>
    refused (failing_attempts sha256 sel minimum op e (Suc k))"
proof -
  let ?r = "default_route (selClass sel) Strong" and ?trial = "trial_of sha256 (selClass sel) (selStage sel) op e Strong"
  have blocked: "refused (failing_attempt sha256 sel minimum op e (Some ?r, us @ [?trial TrialBlocked]))" for us
    unfolding failing_attempt_def by (rule refused_rbind) (simp add: attempt_stops trial_of_def)
  from attempt_fails [OF assms(1) _ assms(4)] assms(2,5) obtain oc where
      once: "failing_attempts sha256 sel minimum op e (Suc n) = Inr (Some ?r, failed_trials sha256 sel op e ps @ [?trial oc])"
      and oc: "oc = TrialFailed \<or> oc = TrialBlocked"
      and sig: "oc = TrialBlocked \<longrightarrow> route_signature sha256 (selClass sel) (selStage sel) op e Strong \<in>
        route_signature sha256 (selClass sel) (selStage sel) op e ` set ps" by auto
  from oc show ?thesis
  proof
    assume b: "oc = TrialBlocked"
    with sig assms(3) have "signatures_collide sha256 sel op e" unfolding signatures_collide_def by (metis imageE)
    moreover have "refused (failing_attempts sha256 sel minimum op e (Suc (Suc n)))"
      using once b blocked [of "failed_trials sha256 sel op e ps"]
      by (simp only: failing_attempts.simps(2) [of _ _ _ _ _ "Suc n"] rbind.simps)
    ultimately show ?thesis using once assms(6)
      by (intro exI [of _ "Suc n"] exI [of _ "Some ?r"] exI [of _ "failed_trials sha256 sel op e ps @ [?trial oc]"])
        (simp add: pools_of_trials)
  next
    assume "oc = TrialFailed"
    then have ts: "failed_trials sha256 sel op e ps @ [?trial oc] = failed_trials sha256 sel op e (ps @ [Strong])" by simp
    have "next_route sel minimum (Some ?r) (failed_trials sha256 sel op e (ps @ [Strong])) = Inr ?r"
      using assms(3) by (intro attempt_again) (auto simp: equivalent_failures_iff last_map simp del: map_append list.map)
    from attempt_fails [OF assms(1) _ this] assms(2) once ts have
        twice: "failing_attempts sha256 sel minimum op e (Suc (Suc n)) =
          Inr (Some ?r, failed_trials sha256 sel op e (ps @ [Strong]) @ [?trial TrialBlocked])" by auto
    moreover have "refused (failing_attempts sha256 sel minimum op e (Suc (Suc (Suc n))))"
      using twice blocked [of "failed_trials sha256 sel op e (ps @ [Strong])"]
      by (simp only: failing_attempts.simps(2) [of _ _ _ _ _ "Suc (Suc n)"] rbind.simps)
    moreover have "pools_of (failed_trials sha256 sel op e (ps @ [Strong]) @ [?trial TrialBlocked]) = ps @ [Strong, Strong]"
      unfolding pools_of_trials by simp
    ultimately show ?thesis using assms(6)
      by (intro exI [of _ "Suc (Suc n)"] exI [of _ "Some ?r"]
          exI [of _ "failed_trials sha256 sel op e (ps @ [Strong]) @ [?trial TrialBlocked]"]) simp
  qed
qed

text \<open>C19: a worker whose provider keeps failing in the same way is given up.  Its attempts climb from the pool its work starts
  at to the strong one, exactly two on each pool, so there are at most six, and the next attempt is refused with a permanent error;
  only when the digests of two different routes collide may the second attempt on the strong pool be missing.\<close>

theorem failing_series_ends:
  assumes "regex_test False stage_identifier (selStage sel)" "regex_test False stage_identifier op"
    "\<forall>s. regex_test False digest_regex (sha256 s)"
  shows "\<exists>n r ts. failing_attempts sha256 sel minimum op e n = Inr (r, ts) \<and> length ts = n \<and> n \<le> 6 \<and>
    (pools_of ts = climb (start_pool sel minimum) \<or>
     pools_of ts = butlast (climb (start_pool sel minimum)) \<and> signatures_collide sha256 sel op e) \<and>
    (\<exists>why. failing_attempts sha256 sel minimum op e (Suc n) = Inl (NamedError ''PermanentEffectError'' why))"
proof -
  let ?c = "selClass sel" and ?p = "start_pool sel minimum"
  have tr: "traceable sha256 sel op" using assms by (simp add: traceable_def)
  have first: "next_route sel minimum None (failed_trials sha256 sel op e []) = Inr (default_route ?c ?p)"
    by (simp add: attempt_first assms(1))
  have start: "failing_attempts sha256 sel minimum op e 0 = Inr (None, failed_trials sha256 sel op e [])" by simp
  have climbs: "next_route sel minimum (Some (default_route ?c p)) (failed_trials sha256 sel op e (ps @ [p, p])) =
      Inr (default_route ?c q)" if "nextModelPool p = Some q" "tier_rank (defaultPool sel) \<le> tier_rank q" for p q ps
    using that assms(1) by (intro attempt_climbs) (auto simp: equivalent_failures_iff last_map simp del: map_append list.map)
  have above: "tier_rank (defaultPool sel) \<le> tier_rank ?p" by (rule start_pool_above)
  have strong: "tier_rank (defaultPool sel) \<le> tier_rank Strong" by (cases "defaultPool sel") auto
  have fine: ?thesis
    if "\<exists>k r ts. failing_attempts sha256 sel minimum op e k = Inr (r, ts) \<and> length ts = k \<and>
      (pools_of ts = ps @ [Strong, Strong] \<or> pools_of ts = ps @ [Strong] \<and> signatures_collide sha256 sel op e) \<and>
      refused (failing_attempts sha256 sel minimum op e (Suc k))" and "climb ?p = ps @ [Strong, Strong]" "length ps \<le> 4" for ps
  proof -
    from that(1) obtain k r ts where k: "failing_attempts sha256 sel minimum op e k = Inr (r, ts)" "length ts = k"
      "pools_of ts = ps @ [Strong, Strong] \<or> pools_of ts = ps @ [Strong] \<and> signatures_collide sha256 sel op e"
      "refused (failing_attempts sha256 sel minimum op e (Suc k))" by blast
    have "length (pools_of ts) = k" using k(2) by (simp add: pools_of_def)
    then have "k \<le> 6" using k(3) that(3) by auto
    moreover have "butlast (climb ?p) = ps @ [Strong]" using that(2) by (simp add: butlast_append)
    ultimately show ?thesis using k that(2) by metis
  qed
  show ?thesis
  proof (cases ?p)
    case Strong
    from strong_pool_stops [OF tr _ _ first [unfolded Strong] start] show ?thesis by (intro fine [of "[]"]) (simp_all add: Strong)
  next
    case Standard
    from pool_is_left [OF tr _ _ _ first [unfolded Standard] start]
    have "failing_attempts sha256 sel minimum op e 2 = Inr (Some (default_route ?c Standard), failed_trials sha256 sel op e ([] @ [Standard, Standard]))"
      by (simp add: numeral_2_eq_2)
    from strong_pool_stops [OF tr _ _ climbs [of Standard Strong] this] strong show ?thesis
      by (intro fine [of "[Standard, Standard]"]) (simp_all add: nextModelPool_def Standard)
  next
    case Fast
    from pool_is_left [OF tr _ _ _ first [unfolded Fast] start]
    have two: "failing_attempts sha256 sel minimum op e 2 = Inr (Some (default_route ?c Fast), failed_trials sha256 sel op e ([] @ [Fast, Fast]))"
      by (simp add: numeral_2_eq_2)
    have "tier_rank (defaultPool sel) \<le> tier_rank Standard" using above Fast by (cases "defaultPool sel") auto
    from pool_is_left [OF tr _ _ _ climbs [OF _ this, of Fast] two]
    have "failing_attempts sha256 sel minimum op e 4 =
        Inr (Some (default_route ?c Standard), failed_trials sha256 sel op e (([] @ [Fast, Fast]) @ [Standard, Standard]))"
      by (simp add: nextModelPool_def numeral_eq_Suc)
    from strong_pool_stops [OF tr _ _ climbs [of Standard Strong] this] strong show ?thesis
      by (intro fine [of "[Fast, Fast, Standard, Standard]"]) (simp_all add: nextModelPool_def Fast)
  qed
qed

definition demo_selection :: model_route_selection where
  "demo_selection = \<lparr>selClass = WorkerClass, selRecipe = Direct, selStage = ''implementation'', selRisk = RiskLow,
     selComplexity = None, selMinimumPool = None\<rparr>"

lemma demo_stages: "regex_test False stage_identifier ''implementation''" "regex_test False stage_identifier ''spawn''"
  unfolding stage_identifier_def head_tail_test by (simp_all add: class_test_def)

theorem failing_series_ends_witness:
  "\<exists>n r ts. failing_attempts (\<lambda>_. replicate 64 (CHR ''a'')) demo_selection (Some Fast) ''spawn'' (ThrownOther ''timeout'') n = Inr (r, ts) \<and>
     (pools_of ts = [Fast, Fast, Standard, Standard, Strong, Strong] \<or> pools_of ts = [Fast, Fast, Standard, Standard, Strong]) \<and>
     (\<exists>why. failing_attempts (\<lambda>_. replicate 64 (CHR ''a'')) demo_selection (Some Fast) ''spawn'' (ThrownOther ''timeout'') (Suc n) =
       Inl (NamedError ''PermanentEffectError'' why))"
proof -
  have digest: "\<forall>s. regex_test False digest_regex ((\<lambda>_. replicate 64 (CHR ''a'')) s)"
    unfolding digest_regex_def hex_class_def fixed_length_test by (simp add: list_all_iff class_test_def)
  have "regex_test False stage_identifier (selStage demo_selection)" by (simp add: demo_selection_def demo_stages)
  moreover have "climb (start_pool demo_selection (Some Fast)) = [Fast, Fast, Standard, Standard, Strong, Strong]" by code_simp
  ultimately show ?thesis
    using failing_series_ends [OF _ demo_stages(2) digest, of demo_selection "Some Fast" "ThrownOther ''timeout''"] by fastforce
qed

end
