(* ===== verification/Authority_Lemmas.thy ===== *)
theory Authority_Lemmas
  imports Authority_Store
begin

text \<open>
  The repository of authorities refines a history per job: a job's authority is the last entry of its
  history, and every operation either leaves the histories alone or appends one entry to one of them.
\<close>

subsection \<open>Histories\<close>

definition history :: "authority_tables \<Rightarrow> string \<Rightarrow> task_authority list" where
  "history t jid = filter (\<lambda>r. taJobId r = jid) (revisions_table t)"

definition history_ok :: "current_authority \<Rightarrow> task_authority list \<Rightarrow> bool" where
  "history_ok c h \<longleftrightarrow> h \<noteq> [] \<and> curRevision c = int (length h) \<and>
     (\<forall>i < length h. taRevision (h ! i) = int (Suc i) \<and> taAuthorityId (h ! i) = curAuthorityId c \<and> revision_row_ok (h ! i))"

definition store_ok :: "authority_tables \<Rightarrow> bool" where
  "store_ok t \<longleftrightarrow> unique_key curJobId (current_table t) \<and> unique_key curAuthorityId (current_table t) \<and>
     authorities_table t = map (\<lambda>c. (curAuthorityId c, curJobId c)) (current_table t) \<and>
     (\<forall>c \<in> set (current_table t). history_ok c (history t (curJobId c))) \<and>
     (\<forall>r \<in> set (revisions_table t). \<exists>c \<in> set (current_table t). curJobId c = taJobId r)"

lemma history_set: "r \<in> set (history t jid) \<longleftrightarrow> r \<in> set (revisions_table t) \<and> taJobId r = jid"
  by (auto simp: history_def)

lemma find_filter: "(\<And>r. r \<in> set rs \<Longrightarrow> p r \<Longrightarrow> q r) \<Longrightarrow> List.find p (filter q rs) = List.find p rs"
  by (induction rs) auto

lemma find_in_history:
  assumes "\<And>r. p r \<Longrightarrow> r \<in> set (revisions_table t) \<Longrightarrow> taJobId r = jid"
  shows "get_where p (revisions_table t) = get_where p (history t jid)"
  unfolding get_where_def history_def by (rule find_filter [symmetric]) (use assms in auto)

lemma int_pred_length: "xs \<noteq> [] \<Longrightarrow> 1 + int (length xs - Suc 0) = int (length xs)"
  by (cases xs) auto

lemma last_of_history:
  assumes "history_ok c h"
  shows "get_where (\<lambda>r. taAuthorityId r = curAuthorityId c \<and> taRevision r = curRevision c) h = Some (last h)"
proof -
  from assms have h: "h \<noteq> []" and len: "curRevision c = int (length h)"
    and each: "\<And>i. i < length h \<Longrightarrow> taRevision (h ! i) = int (Suc i) \<and> taAuthorityId (h ! i) = curAuthorityId c"
    by (auto simp: history_ok_def)
  have lst: "last h = h ! (length h - 1)" using h by (rule last_conv_nth)
  have "\<exists>i < length h. taAuthorityId (h ! i) = curAuthorityId c \<and> taRevision (h ! i) = curRevision c \<and> h ! i = last h \<and>
      (\<forall>j < i. \<not> (taAuthorityId (h ! j) = curAuthorityId c \<and> taRevision (h ! j) = curRevision c))"
    using h len each lst by (intro exI [of _ "length h - 1"]) (auto simp: int_pred_length)
  then show ?thesis unfolding get_where_def find_Some_iff by metis
qed

lemma readAuthority_history:
  assumes "store_ok t"
  shows "readAuthority t jid = (if history t jid = [] then None else Some (last (history t jid)))"
proof (cases "get_where (\<lambda>c. curJobId c = jid) (current_table t)")
  case None
  then have "\<forall>c \<in> set (current_table t). curJobId c \<noteq> jid" by (simp add: get_where_None)
  with assms have "history t jid = []" by (auto simp: store_ok_def history_def filter_empty_conv)
  with None show ?thesis by (simp add: readAuthority_def)
next
  case (Some c)
  then have c: "c \<in> set (current_table t)" "curJobId c = jid" using get_where_Some [OF Some] by auto
  with assms have ok: "history_ok c (history t jid)" by (auto simp: store_ok_def)
  have own: "taJobId r = jid" if "taAuthorityId r = curAuthorityId c \<and> taRevision r = curRevision c" "r \<in> set (revisions_table t)" for r
  proof -
    from that(2) assms obtain d where d: "d \<in> set (current_table t)" "curJobId d = taJobId r" by (auto simp: store_ok_def)
    with assms have "history_ok d (history t (taJobId r))" by (auto simp: store_ok_def)
    moreover have "r \<in> set (history t (taJobId r))" using that(2) by (simp add: history_set)
    ultimately have "taAuthorityId r = curAuthorityId d" by (auto simp: history_ok_def in_set_conv_nth)
    with that(1) d(1) c(1) assms have "d = c" by (auto simp: store_ok_def intro: unique_eqI)
    with d c show ?thesis by simp
  qed
  have "get_where (\<lambda>r. taAuthorityId r = curAuthorityId c \<and> taRevision r = curRevision c) (revisions_table t) = Some (last (history t jid))"
    using find_in_history [of "\<lambda>r. taAuthorityId r = curAuthorityId c \<and> taRevision r = curRevision c" t jid] own
      last_of_history [OF ok] by simp
  with Some ok show ?thesis by (simp add: readAuthority_def history_ok_def)
qed

lemma readAuthority_current:
  assumes "store_ok t" "readAuthority t jid = Some a"
  shows "\<exists>c \<in> set (current_table t). curJobId c = jid \<and> curAuthorityId c = taAuthorityId a \<and> curRevision c = taRevision a \<and>
    taJobId a = jid \<and> taRevision a = int (length (history t jid)) \<and> a = last (history t jid) \<and> history t jid \<noteq> [] \<and> revision_row_ok a"
proof -
  from assms readAuthority_history [OF assms(1), of jid] have h: "history t jid \<noteq> []" "a = last (history t jid)"
    by (auto split: if_splits)
  then have "a \<in> set (history t jid)" by simp
  then have job: "taJobId a = jid" "a \<in> set (revisions_table t)" by (auto simp: history_set)
  with assms(1) obtain c where c: "c \<in> set (current_table t)" "curJobId c = jid" by (auto simp: store_ok_def)
  with assms(1) have ok: "history_ok c (history t jid)" by (auto simp: store_ok_def)
  have "a = history t jid ! (length (history t jid) - 1)" "length (history t jid) - 1 < length (history t jid)"
    using h by (simp_all add: last_conv_nth)
  with ok have "taRevision a = int (length (history t jid)) \<and> taAuthorityId a = curAuthorityId c \<and> revision_row_ok a"
    using h(1) by (auto simp: history_ok_def int_pred_length)
  moreover have "curRevision c = int (length (history t jid))" using ok by (simp add: history_ok_def)
  ultimately show ?thesis using c job h by auto
qed

subsection \<open>Appending\<close>

lemma history_append: "history (t\<lparr>revisions_table := revisions_table t @ [a]\<rparr>) jid =
    (if jid = taJobId a then history t jid @ [a] else history t jid)"
  by (auto simp: history_def)

lemma insert_revision_fresh:
  assumes "store_ok t" "\<forall>r \<in> set (history t (taJobId a)). taRevision r \<noteq> taRevision a"
    "\<forall>c \<in> set (current_table t). curAuthorityId c = taAuthorityId a \<longrightarrow> curJobId c = taJobId a" "revision_row_ok a"
  shows "insert_revision a t = Inr (t\<lparr>revisions_table := revisions_table t @ [a]\<rparr>)"
proof -
  have "taJobId r = taJobId a" if "r \<in> set (revisions_table t)" "taAuthorityId r = taAuthorityId a" for r
  proof -
    from that(1) assms(1) obtain d where d: "d \<in> set (current_table t)" "curJobId d = taJobId r" by (auto simp: store_ok_def)
    with assms(1) have "history_ok d (history t (taJobId r))" by (auto simp: store_ok_def)
    moreover have "r \<in> set (history t (taJobId r))" using that(1) by (simp add: history_set)
    ultimately have "taAuthorityId r = curAuthorityId d" by (auto simp: history_ok_def in_set_conv_nth)
    with that(2) d assms(3) show ?thesis by auto
  qed
  with assms(2,4) show ?thesis by (auto simp: insert_revision_def history_set)
qed

lemma history_ok_snoc:
  assumes "history_ok c h" "taRevision a = int (Suc (length h))" "taAuthorityId a = curAuthorityId c" "revision_row_ok a"
  shows "history_ok (c\<lparr>curRevision := taRevision a\<rparr>) (h @ [a])"
  using assms by (auto simp: history_ok_def nth_append less_Suc_eq)

lemma appendRevision_ok:
  assumes ok: "store_ok t" and a: "readAuthority t jid = Some a"
    and b: "taJobId b = jid" "taAuthorityId b = taAuthorityId a" "taRevision b = taRevision a + 1" "revision_row_ok b"
  shows "\<exists>t'. appendRevision t b = Inr t' \<and> store_ok t' \<and> readAuthority t' jid = Some b \<and>
    (\<forall>j. history t' j = (if j = jid then history t j @ [b] else history t j)) \<and>
    admissions_of_effects t' = admissions_of_effects t \<and> authority_events t' = authority_events t"
proof -
  from readAuthority_current [OF ok a] obtain c where c: "c \<in> set (current_table t)" "curJobId c = jid"
      "curAuthorityId c = taAuthorityId a" "curRevision c = taRevision a"
    and len: "taRevision a = int (length (history t jid))" and h: "history t jid \<noteq> []" by blast
  have keys: "unique_key curJobId (current_table t)" "unique_key curAuthorityId (current_table t)" using ok by (simp_all add: store_ok_def)
  have hist: "history_ok c (history t jid)" using ok c by (auto simp: store_ok_def)
  have fresh: "insert_revision b t = Inr (t\<lparr>revisions_table := revisions_table t @ [b]\<rparr>)"
  proof (rule insert_revision_fresh [OF ok _ _ b(4)])
    show "\<forall>r \<in> set (history t (taJobId b)). taRevision r \<noteq> taRevision b"
      using hist len b(1,3) by (auto simp: history_ok_def in_set_conv_nth)
    show "\<forall>d \<in> set (current_table t). curAuthorityId d = taAuthorityId b \<longrightarrow> curJobId d = taJobId b"
      using unique_eqI [OF keys(2) _ c(1)] c(2,3) b(1,2) by auto
  qed
  let ?t1 = "t\<lparr>revisions_table := revisions_table t @ [b]\<rparr>"
  let ?hit = "\<lambda>d. curJobId d = taJobId b \<and> curAuthorityId d = taAuthorityId b \<and> curRevision d = taRevision b - 1"
  let ?cur = "update_where ?hit (\<lambda>d. d\<lparr>curRevision := taRevision b\<rparr>) (current_table t)"
  let ?t2 = "?t1\<lparr>current_table := ?cur\<rparr>"
  have "changes ?hit (current_table t) = 1" using keys(1) c b by (intro changes_one [of curJobId _ _ jid c]) auto
  then have moved: "appendRevision t b = Inr ?t2" by (simp add: appendRevision_def fresh)
  have hist2: "history ?t2 j = (if j = jid then history t j @ [b] else history t j)" for j
    using b(1) by (simp add: history_def)
  have hit: "?hit d \<longleftrightarrow> d = c" if "d \<in> set (current_table t)" for d
    using unique_eqI [OF keys(1) that c(1)] c b by auto
  have cur: "set ?cur = insert (c\<lparr>curRevision := taRevision b\<rparr>) (set (current_table t) - {c})"
  proof -
    have "set ?cur = (\<lambda>d. if d = c then c\<lparr>curRevision := taRevision b\<rparr> else d) ` set (current_table t)"
      unfolding update_where_def set_map using hit by (intro image_cong) auto
    with c(1) show ?thesis by auto
  qed
  have good: "history_ok d (history ?t2 (curJobId d))" if "d \<in> set ?cur" for d
  proof (cases "d = c\<lparr>curRevision := taRevision b\<rparr>")
    case True
    have "history_ok (c\<lparr>curRevision := taRevision b\<rparr>) (history t jid @ [b])"
      using hist b c(3) len by (intro history_ok_snoc) auto
    with True c(2) show ?thesis by (simp add: hist2)
  next
    case False
    with that cur have d: "d \<in> set (current_table t)" "d \<noteq> c" by auto
    with unique_eqI [OF keys(1) _ c(1)] c(2) have "curJobId d \<noteq> jid" by auto
    with d(1) ok show ?thesis by (auto simp: hist2 store_ok_def)
  qed
  have fixed: "map curJobId ?cur = map curJobId (current_table t)" "map curAuthorityId ?cur = map curAuthorityId (current_table t)"
    by (rule map_update_where, simp)+
  have pairs: "map (\<lambda>d. (curAuthorityId d, curJobId d)) ?cur = map (\<lambda>d. (curAuthorityId d, curJobId d)) (current_table t)"
    by (rule map_update_where) simp
  have owned: "\<exists>d \<in> set ?cur. curJobId d = taJobId r" if "r \<in> set (revisions_table ?t2)" for r
  proof -
    from that have "r \<in> set (revisions_table t) \<or> r = b" by auto
    then have "\<exists>d \<in> set (current_table t). curJobId d = taJobId r" using ok c b(1) by (auto simp: store_ok_def)
    then have "taJobId r \<in> set (map curJobId (current_table t))" by force
    then have "taJobId r \<in> set (map curJobId ?cur)" unfolding fixed(1) .
    then show ?thesis by auto
  qed
  have "unique_key curJobId ?cur" "unique_key curAuthorityId ?cur"
    using keys fixed by (simp_all only: unique_key_def)
  moreover have "authorities_table ?t2 = map (\<lambda>d. (curAuthorityId d, curJobId d)) ?cur"
    using ok pairs by (simp add: store_ok_def)
  ultimately have ok2: "store_ok ?t2"
    unfolding store_ok_def using good owned by (intro conjI ballI) simp_all
  moreover have "readAuthority ?t2 jid = Some b" by (simp add: readAuthority_history [OF ok2] hist2)
  ultimately show ?thesis using moved hist2 by auto
qed

end
