(* ===== verification/Authority_Steps.thy ===== *)
theory Authority_Steps
  imports Authority_Lemmas
begin

text \<open>
  The steps of the repository of authorities and what they keep: the shape of its tables, the entries
  of every history, and, but for an owner's instruction to merge, the bound on what a job may do.
\<close>

subsection \<open>Each operation\<close>

definition appends :: "authority_tables \<Rightarrow> authority_tables \<Rightarrow> string \<Rightarrow> task_authority \<Rightarrow> bool" where
  "appends t t' jid b \<longleftrightarrow> store_ok t' \<and> readAuthority t' jid = Some b \<and> admissions_of_effects t' = admissions_of_effects t \<and>
     (\<forall>j. history t' j = (if j = jid then history t j @ [b] else history t j))"

lemma record_event_same [simp]:
  "readAuthority (record_event a act why now t) jid = readAuthority t jid" "history (record_event a act why now t) jid = history t jid"
  "admissions_of_effects (record_event a act why now t) = admissions_of_effects t"
  "store_ok (record_event a act why now t) = store_ok t"
  by (auto simp: record_event_def readAuthority_def history_def store_ok_def cong: option.case_cong)

lemma revise_appends:
  assumes "store_ok t" "readAuthority t jid = Some a" "taJobId b = taJobId a" "taAuthorityId b = taAuthorityId a"
    "taRevision b = taRevision a + 1" "revision_row_ok b"
  shows "\<exists>t'. revise t b act why now missing = Inr (t', b) \<and> appends t t' jid b"
proof -
  from readAuthority_current [OF assms(1,2)] have "taJobId a = jid" by blast
  with appendRevision_ok [OF assms(1,2) _ assms(4,5,6)] assms(3) obtain t1 where
      "appendRevision t b = Inr t1" "store_ok t1" "readAuthority t1 jid = Some b" "taJobId b = jid"
      "\<forall>j. history t1 j = (if j = jid then history t j @ [b] else history t j)" "admissions_of_effects t1 = admissions_of_effects t"
    by auto
  then show ?thesis by (auto simp: revise_def stored_authority_def appends_def)
qed

lemma active_row:
  assumes "store_ok t" "readAuthority t jid = Some a" "taStatus a = AuthActive"
  shows "1 \<le> taRevision a \<and> 1 \<le> taPolicyVersion a \<and> taRevokedAt a = None \<and> taSupersededAt a = None"
  using readAuthority_current [OF assms(1,2)] assms(3) by (auto simp: revision_row_ok_def)

lemma updateArtifactGraph_spec:
  assumes "store_ok t" "regex_test False digest_regex digest"
  shows "\<exists>t' r. updateArtifactGraph t jid digest now = Inr (t', r) \<and>
    (t' = t \<or> (\<exists>a b. readAuthority t jid = Some a \<and> taStatus a = AuthActive \<and> appends t t' jid b \<and> taStatus b = AuthActive \<and>
       taOutcome b = taOutcome a \<and> taConstraints b = taConstraints a))"
proof (cases "readAuthority t jid")
  case None
  with assms show ?thesis by (simp add: updateArtifactGraph_def assertDigest_def guard_def)
next
  case (Some a)
  let ?b = "a\<lparr>taRevision := taRevision a + 1, taArtifactGraphDigest := digest, taUpdatedAt := now\<rparr>"
  show ?thesis
  proof (cases "taStatus a = AuthActive \<and> taArtifactGraphDigest a \<noteq> digest")
    case True
    with active_row [OF assms(1) Some] have "revision_row_ok ?b" by (auto simp: revision_row_ok_def)
    with revise_appends [OF assms(1) Some, of ?b] obtain t' where
        "revise t ?b ActRevised ''artifact_graph_advanced'' now ''Task authority disappeared during artifact graph update'' = Inr (t', ?b)"
        "appends t t' jid ?b" by fastforce
    with Some True assms(2) show ?thesis
      by (intro exI [of _ t'] exI [of _ "Some ?b"]) (auto simp: updateArtifactGraph_def assertDigest_def guard_def)
  next
    case False
    with Some assms(2) show ?thesis by (auto simp: updateArtifactGraph_def assertDigest_def guard_def)
  qed
qed

lemma reviseForMergeInstruction_spec:
  assumes "store_ok t"
  shows "\<exists>t' r. reviseForMergeInstruction sha256 t jid now = Inr (t', r) \<and>
    (t' = t \<or> (\<exists>a b. readAuthority t jid = Some a \<and> taStatus a = AuthActive \<and> appends t t' jid b))"
proof (cases "readAuthority t jid")
  case None
  then show ?thesis by (simp add: reviseForMergeInstruction_def)
next
  case (Some a)
  let ?cs = "filter (\<lambda>c. c \<noteq> NoMerge \<and> c \<noteq> PullRequestOnly) (taConstraints a)"
  let ?b = "a\<lparr>taRevision := taRevision a + 1, taOutcome := ShippedChange, taConstraints := ?cs,
    taScopeDigest := scope_digest sha256 (taRequestDigest a) ShippedChange ?cs, taUpdatedAt := now,
    taSupersededAt := None, taSupersededReason := None\<rparr>"
  show ?thesis
  proof (cases "taStatus a = AuthActive \<and> taOutcome a = ReviewedChange")
    case True
    with active_row [OF assms Some] have "revision_row_ok ?b" by (auto simp: revision_row_ok_def)
    with revise_appends [OF assms Some, of ?b] obtain t' where
        "revise t ?b ActRevised ''owner_merge_instruction'' now ''Revised task authority disappeared'' = Inr (t', ?b)"
        "appends t t' jid ?b" by fastforce
    with Some True show ?thesis
      by (intro exI [of _ t'] exI [of _ "Some ?b"]) (auto simp: reviseForMergeInstruction_def Let_def)
  next
    case False
    with Some show ?thesis by (auto simp: reviseForMergeInstruction_def)
  qed
qed

lemma narrow_spec:
  assumes "store_ok t" "distinct cs"
  shows "\<exists>t' r. narrow sha256 t jid oc cs now = Inr (t', r) \<and>
    (r = None \<and> t' = t \<or> (\<exists>a b. r = Some b \<and> readAuthority t jid = Some a \<and> taStatus a = AuthActive \<and> appends t t' jid b \<and> taStatus b = AuthActive \<and>
       taskAuthorityIsStrictNarrowing (taOutcome a, taConstraints a) (taOutcome b, taConstraints b)))"
proof (cases "readAuthority t jid")
  case None
  with assms show ?thesis by (simp add: narrow_def guard_def)
next
  case (Some a)
  let ?b = "a\<lparr>taRevision := taRevision a + 1, taOutcome := oc, taConstraints := cs,
    taScopeDigest := scope_digest sha256 (taRequestDigest a) oc cs, taUpdatedAt := now\<rparr>"
  show ?thesis
  proof (cases "taStatus a = AuthActive \<and> taskAuthorityIsStrictNarrowing (taOutcome a, taConstraints a) (oc, cs)")
    case True
    with active_row [OF assms(1) Some] have "revision_row_ok ?b" by (auto simp: revision_row_ok_def)
    with revise_appends [OF assms(1) Some, of ?b] obtain t' where
        "revise t ?b ActRevised ''owner_narrowing_instruction'' now ''Narrowed task authority disappeared'' = Inr (t', ?b)"
        "appends t t' jid ?b" by fastforce
    with Some True assms(2) show ?thesis
      by (intro exI [of _ t'] exI [of _ "Some ?b"]) (auto simp: narrow_def guard_def)
  next
    case False
    with Some assms(2) show ?thesis by (auto simp: narrow_def guard_def)
  qed
qed

lemma revoke_spec:
  assumes "store_ok t" "js_trim reason \<noteq> []" "length reason \<le> 256"
  shows "\<exists>t' r. revoke t jid reason now w = Inr (t', r) \<and>
    (t' = t \<or> (\<exists>a b. readAuthority t jid = Some a \<and> taStatus a = AuthActive \<and> appends t t' jid b \<and> taStatus b = withdrawn_status w))"
proof (cases "readAuthority t jid")
  case None
  with assms show ?thesis by (simp add: revoke_def assertBoundedIdentity_def guard_def)
next
  case (Some a)
  let ?b = "a\<lparr>taRevision := taRevision a + 1, taStatus := withdrawn_status w, taUpdatedAt := now,
    taRevokedAt := Some now, taRevokedReason := Some reason\<rparr>"
  show ?thesis
  proof (cases "taStatus a = AuthActive")
    case True
    with active_row [OF assms(1) Some] have "revision_row_ok ?b" by (cases w) (auto simp: revision_row_ok_def withdrawn_status_def)
    with revise_appends [OF assms(1) Some, of ?b] obtain t' where
        "revise t ?b (case w of Revoke \<Rightarrow> ActRevoked | Suspend \<Rightarrow> ActSuspended) reason now ''Revoked task authority disappeared'' = Inr (t', ?b)"
        "appends t t' jid ?b" by fastforce
    moreover have "AuthActive \<noteq> withdrawn_status w" by (cases w) (auto simp: withdrawn_status_def)
    ultimately show ?thesis using Some True assms(2,3)
      by (intro exI [of _ t'] exI [of _ "Some ?b"]) (auto simp: revoke_def assertBoundedIdentity_def guard_def)
  next
    case False
    with Some assms(2,3) show ?thesis by (auto simp: revoke_def assertBoundedIdentity_def guard_def)
  qed
qed

lemma create_spec:
  assumes ok: "store_ok t" and made: "create db controllers t i = Inr (t', a)"
  shows "t' = t \<or> history t (caJobId i) = [] \<and> appends t t' (caJobId i) (first_revision i)"
proof (cases "readAuthority t (caJobId i)")
  case (Some b)
  with made show ?thesis by (auto simp: create_def rthen_eq_Inr split: if_splits)
next
  case None
  with readAuthority_history [OF ok] have none: "history t (caJobId i) = []" by (auto split: if_splits)
  from made None obtain t1 t2 t3 where ins: "insert_authority i t = Inr t1" "insert_revision (first_revision i) t1 = Inr t2"
      "insert_current i t2 = Inr t3" and t': "t' = record_event a ActGranted None (caNow i) t3"
    by (auto simp: create_def rthen_eq_Inr rbind_eq_Inr)
  have rows: "authorities_table t3 = authorities_table t @ [(caAuthorityId i, caJobId i)]"
      "revisions_table t3 = revisions_table t @ [first_revision i]"
      "current_table t3 = current_table t @ [\<lparr>curJobId = caJobId i, curAuthorityId = caAuthorityId i, curRevision = 1\<rparr>]"
      "admissions_of_effects t3 = admissions_of_effects t"
      "(\<forall>(x, j) \<in> set (authorities_table t). x \<noteq> caAuthorityId i \<and> j \<noteq> caJobId i)" "revision_row_ok (first_revision i)"
    using ins by (auto simp: insert_authority_def insert_revision_def insert_current_def split: if_splits)
  let ?c = "\<lparr>curJobId = caJobId i, curAuthorityId = caAuthorityId i, curRevision = 1\<rparr>"
  have hist: "history t3 j = (if j = caJobId i then history t j @ [first_revision i] else history t j)" for j
    by (simp add: history_def rows first_revision_def)
  have fresh: "curJobId c \<noteq> caJobId i \<and> curAuthorityId c \<noteq> caAuthorityId i" if "c \<in> set (current_table t)" for c
    using that rows(5) ok by (auto simp: store_ok_def)
  have "history_ok ?c (history t3 (caJobId i))"
    using rows(6) none by (simp add: hist history_ok_def first_revision_def)
  moreover have "history_ok c (history t3 (curJobId c))" if "c \<in> set (current_table t)" for c
    using that fresh [OF that] ok by (auto simp: hist store_ok_def)
  moreover have "unique_key curJobId (current_table t3)" "unique_key curAuthorityId (current_table t3)"
  proof -
    have "caJobId i \<notin> curJobId ` set (current_table t)" "caAuthorityId i \<notin> curAuthorityId ` set (current_table t)"
      using fresh by force+
    with ok show "unique_key curJobId (current_table t3)" "unique_key curAuthorityId (current_table t3)"
      by (simp_all add: rows store_ok_def unique_append)
  qed
  moreover have "authorities_table t3 = map (\<lambda>c. (curAuthorityId c, curJobId c)) (current_table t3)"
    using ok by (simp add: rows store_ok_def)
  moreover have "\<exists>c \<in> set (current_table t3). curJobId c = taJobId r" if "r \<in> set (revisions_table t3)" for r
    using that ok by (auto simp: rows store_ok_def first_revision_def)
  ultimately have ok3: "store_ok t3" unfolding store_ok_def by (auto simp: rows(3))
  have "readAuthority t3 (caJobId i) = Some (first_revision i)" by (simp add: readAuthority_history [OF ok3] hist)
  with ok3 none show ?thesis by (simp add: t' appends_def hist rows(4))
qed

subsection \<open>Steps\<close>

text \<open>Steps that cannot widen what a job may do, and the one that can.\<close>

inductive shrinking_step :: "(string \<Rightarrow> string) \<Rightarrow> authority_tables \<Rightarrow> authority_tables \<Rightarrow> bool" for sha256 where
  created: "create db controllers t i = Inr (t', a) \<Longrightarrow> shrinking_step sha256 t t'"
| admitted: "admitEffect db t jid key e now = (t', answer) \<Longrightarrow> shrinking_step sha256 t t'"
| graph: "updateArtifactGraph t jid digest now = Inr (t', r) \<Longrightarrow> shrinking_step sha256 t t'"
| narrowed: "narrow sha256 t jid oc cs now = Inr (t', r) \<Longrightarrow> shrinking_step sha256 t t'"
| withdrawn: "revoke t jid reason now w = Inr (t', r) \<Longrightarrow> shrinking_step sha256 t t'"

inductive authority_step :: "(string \<Rightarrow> string) \<Rightarrow> authority_tables \<Rightarrow> authority_tables \<Rightarrow> bool" for sha256 where
  shrinks: "shrinking_step sha256 t t' \<Longrightarrow> authority_step sha256 t t'"
| merge_instructed: "reviseForMergeInstruction sha256 t jid now = Inr (t', r) \<Longrightarrow> authority_step sha256 t t'"

definition no_authorities :: authority_tables where
  "no_authorities = \<lparr>authorities_table = [], revisions_table = [], current_table = [], authority_events = [],
     admissions_of_effects = []\<rparr>"

inductive reachable_store :: "(string \<Rightarrow> string) \<Rightarrow> authority_tables \<Rightarrow> bool" for sha256 where
  start: "reachable_store sha256 no_authorities"
| step: "reachable_store sha256 t \<Longrightarrow> authority_step sha256 t t' \<Longrightarrow> reachable_store sha256 t'"

text \<open>What a job may do: without an authority the repository bounds nothing.\<close>

definition permitted :: "authority_tables \<Rightarrow> string \<Rightarrow> authority_effect set" where
  "permitted t jid = (case readAuthority t jid of None \<Rightarrow> UNIV | Some a \<Rightarrow> {e. allows a e})"

text \<open>Each admission has its own key and effect and was made under an entry of the history.\<close>

definition admission_ok :: "authority_tables \<Rightarrow> effect_admission \<Rightarrow> bool" where
  "admission_ok t m \<longleftrightarrow> (\<exists>a. readAuthority t (eaJobId m) = Some a \<and> eaRevision m \<le> taRevision a)"

definition tables_ok :: "authority_tables \<Rightarrow> bool" where
  "tables_ok t \<longleftrightarrow> store_ok t \<and> unique_key (\<lambda>m. (eaEffectKey m, eaEffect m)) (admissions_of_effects t) \<and>
     (\<forall>m \<in> set (admissions_of_effects t). admission_ok t m)"

lemma appends_grows:
  assumes "store_ok t" "appends t t' jid b"
  shows "readAuthority t j = Some a \<Longrightarrow> \<exists>a'. readAuthority t' j = Some a' \<and> taRevision a \<le> taRevision a'"
proof -
  assume a: "readAuthority t j = Some a"
  from assms(2) have ok: "store_ok t'" and h: "history t' j = (if j = jid then history t j @ [b] else history t j)"
    by (auto simp: appends_def)
  from readAuthority_current [OF assms(1) a] have "history t j \<noteq> []" "taRevision a = int (length (history t j))" by auto
  with h readAuthority_history [OF ok, of j] obtain a' where a': "readAuthority t' j = Some a'" by (auto split: if_splits)
  from readAuthority_current [OF ok a'] have "taRevision a' = int (length (history t' j))" by blast
  with a' h \<open>taRevision a = int (length (history t j))\<close> show ?thesis by auto
qed

lemma appends_tables_ok: "tables_ok t \<Longrightarrow> appends t t' jid b \<Longrightarrow> tables_ok t'"
  using appends_grows [of t t' jid b] by (fastforce simp: tables_ok_def admission_ok_def appends_def)

lemma admitEffect_cases:
  assumes "admitEffect db t jid key e now = (t', answer)"
  shows "t' = t \<or> (\<exists>a m. readAuthority t jid = Some a \<and> t' = t\<lparr>admissions_of_effects := admissions_of_effects t @ [m]\<rparr> \<and>
    eaJobId m = jid \<and> eaRevision m = taRevision a \<and> eaEffectKey m = key \<and> eaEffect m = e \<and>
    (\<forall>n \<in> set (admissions_of_effects t). (eaEffectKey n, eaEffect n) \<noteq> (key, e)))"
proof (cases "t' = t")
  case False
  with assms obtain j body a where a: "effect_of_job db jid key = Some (j, body)" "readAuthority t jid = Some a"
      "get_where (\<lambda>m. eaEffectKey m = key \<and> eaEffect m = e) (admissions_of_effects t) = None"
      and t': "t' = t\<lparr>admissions_of_effects := admissions_of_effects t @ [\<lparr>eaEffectKey = key, eaJobId = jid,
        eaAuthorityId = taAuthorityId a, eaRevision = taRevision a, eaEffect = e, eaPayloadJson = body, eaAdmittedAt = now\<rparr>]\<rparr>"
    by (auto simp: admitEffect_def split: option.splits if_splits)
  show ?thesis
    by (rule disjI2, rule exI [of _ a], rule exI [of _ "\<lparr>eaEffectKey = key, eaJobId = jid, eaAuthorityId = taAuthorityId a,
          eaRevision = taRevision a, eaEffect = e, eaPayloadJson = body, eaAdmittedAt = now\<rparr>"])
      (use a t' in \<open>auto simp: get_where_None\<close>)
qed simp

lemma admissions_only [simp]:
  "readAuthority (t\<lparr>admissions_of_effects := ms\<rparr>) jid = readAuthority t jid" "history (t\<lparr>admissions_of_effects := ms\<rparr>) jid = history t jid"
  "store_ok (t\<lparr>admissions_of_effects := ms\<rparr>) = store_ok t"
  by (auto simp: readAuthority_def history_def store_ok_def cong: option.case_cong)

text \<open>Every step leaves the repository alone, admits one effect, or appends one entry to one history.\<close>

lemma authority_step_cases:
  assumes "store_ok t" "authority_step sha256 t t'"
  shows "t' = t \<or>
    (\<exists>jid a m. readAuthority t jid = Some a \<and> t' = t\<lparr>admissions_of_effects := admissions_of_effects t @ [m]\<rparr> \<and> eaJobId m = jid \<and>
       eaRevision m = taRevision a \<and> (\<forall>n \<in> set (admissions_of_effects t). (eaEffectKey n, eaEffect n) \<noteq> (eaEffectKey m, eaEffect m))) \<or>
    (\<exists>jid b. appends t t' jid b \<and> (history t jid = [] \<or> taStatus (last (history t jid)) = AuthActive))"
proof -
  have active: "history t jid = [] \<or> taStatus (last (history t jid)) = AuthActive"
    if "readAuthority t jid = Some a" "taStatus a = AuthActive" for jid a
    using readAuthority_current [OF assms(1) that(1)] that(2) by auto
  from assms(2) show ?thesis
  proof cases
    case shrinks
    then show ?thesis
    proof cases
      case created
      from create_spec [OF assms(1) this] show ?thesis by blast
    next
      case admitted
      from admitEffect_cases [OF this] show ?thesis by auto
    next
      case (graph jid digest now r)
      then have "regex_test False digest_regex digest" by (auto simp: updateArtifactGraph_def assertDigest_def rthen_eq_Inr guard_def split: if_splits)
      from updateArtifactGraph_spec [OF assms(1) this, of jid now] graph have "t' = t \<or> (\<exists>a b. readAuthority t jid = Some a \<and> taStatus a = AuthActive \<and> appends t t' jid b)" by auto
      with active show ?thesis by blast
    next
      case (narrowed jid oc cs now r)
      then have "distinct cs" by (auto simp: narrow_def rthen_eq_Inr guard_def split: if_splits)
      from narrow_spec [OF assms(1) this, of sha256 jid oc now] narrowed have "t' = t \<or> (\<exists>a b. readAuthority t jid = Some a \<and> taStatus a = AuthActive \<and> appends t t' jid b)" by auto
      with active show ?thesis by blast
    next
      case (withdrawn jid reason now w r)
      then have "js_trim reason \<noteq> []" "length reason \<le> 256"
        by (auto simp: revoke_def assertBoundedIdentity_def rthen_eq_Inr guard_def split: if_splits)
      from revoke_spec [OF assms(1) this, of jid now w] withdrawn have "t' = t \<or> (\<exists>a b. readAuthority t jid = Some a \<and> taStatus a = AuthActive \<and> appends t t' jid b)" by auto
      with active show ?thesis by blast
    qed
  next
    case (merge_instructed jid now r)
    from reviseForMergeInstruction_spec [OF assms(1), of sha256 jid now] merge_instructed have "t' = t \<or> (\<exists>a b. readAuthority t jid = Some a \<and> taStatus a = AuthActive \<and> appends t t' jid b)" by auto
    with active show ?thesis by blast
  qed
qed

lemma authority_step_ok:
  assumes "tables_ok t" "authority_step sha256 t t'"
  shows "tables_ok t'"
proof -
  have "store_ok t" using assms(1) by (simp add: tables_ok_def)
  from authority_step_cases [OF this assms(2)] show ?thesis
  proof (elim disjE exE conjE)
    fix jid a m
    assume m: "readAuthority t jid = Some a" "t' = t\<lparr>admissions_of_effects := admissions_of_effects t @ [m]\<rparr>" "eaJobId m = jid"
      "eaRevision m = taRevision a" "\<forall>n \<in> set (admissions_of_effects t). (eaEffectKey n, eaEffect n) \<noteq> (eaEffectKey m, eaEffect m)"
    have "unique_key (\<lambda>m. (eaEffectKey m, eaEffect m)) (admissions_of_effects t @ [m])"
      using assms(1) m(5) by (auto simp: tables_ok_def unique_append)
    moreover have "admission_ok t' n" if "n \<in> set (admissions_of_effects t @ [m])" for n
      using that assms(1) m by (auto simp: tables_ok_def admission_ok_def)
    ultimately show ?thesis using assms(1) m(2) by (simp add: tables_ok_def)
  qed (use assms(1) appends_tables_ok in auto)
qed

lemma reachable_store_ok: "reachable_store sha256 t \<Longrightarrow> tables_ok t"
proof (induction rule: reachable_store.induct)
  case start
  show ?case by (simp add: tables_ok_def store_ok_def no_authorities_def unique_key_def)
next
  case (step t t')
  then show ?case by (blast intro: authority_step_ok)
qed

lemma authority_step_grows:
  assumes "tables_ok t" "authority_step sha256 t t'"
  shows "set (admissions_of_effects t) \<subseteq> set (admissions_of_effects t') \<and>
    (\<forall>j a. readAuthority t j = Some a \<longrightarrow> (\<exists>a'. readAuthority t' j = Some a' \<and> taRevision a \<le> taRevision a'))"
proof -
  have ok: "store_ok t" using assms(1) by (simp add: tables_ok_def)
  from authority_step_cases [OF ok assms(2)] show ?thesis
    using appends_grows [OF ok] by (fastforce simp: appends_def)
qed

end
