(* ===== verification/Authority_Properties.thy ===== *)
theory Authority_Properties
  imports Authority_Steps Guards Pipeline_Demo
begin

text \<open>
  What the repository of authorities promises over whole runs: its histories only grow and end for good
  when an authority is withdrawn; without an instruction to merge, what a job may do only shrinks, in at
  most three narrowings; an admission made under an older revision never counts again; and what an owner
  refuses in a request is refused by the authority derived from it.
\<close>

subsection \<open>Runs\<close>

lemma authority_run_ok:
  assumes "(authority_step sha256)\<^sup>*\<^sup>* t t'" "tables_ok t"
  shows "tables_ok t'"
  using assms by (induction rule: rtranclp_induct) (auto intro: authority_step_ok)

lemma authority_step_log:
  assumes "tables_ok t" "authority_step sha256 t t'"
  shows "history t' jid = history t jid \<or>
    (\<exists>b. history t' jid = history t jid @ [b] \<and> (history t jid = [] \<or> taStatus (last (history t jid)) = AuthActive))"
proof -
  have "store_ok t" using assms(1) by (simp add: tables_ok_def)
  from authority_step_cases [OF this assms(2)] show ?thesis
  proof (elim disjE exE conjE)
    fix j b assume b: "appends t t' j b" "history t j = []"
    then show ?thesis by (cases "jid = j") (auto simp: appends_def)
  next
    fix j b assume b: "appends t t' j b" "taStatus (last (history t j)) = AuthActive"
    then show ?thesis by (cases "jid = j") (auto simp: appends_def)
  qed auto
qed

lemma authority_run_log:
  assumes "(authority_step sha256)\<^sup>*\<^sup>* t t'" "tables_ok t"
  shows "\<exists>more. history t' jid = history t jid @ more \<and>
    (history t jid \<noteq> [] \<and> taStatus (last (history t jid)) \<noteq> AuthActive \<longrightarrow> more = [])"
  using assms
proof (induction rule: rtranclp_induct)
  case base
  show ?case by simp
next
  case (step t1 t2)
  then have "tables_ok t1" by (blast intro: authority_run_ok)
  with authority_step_log [OF this step(2), of jid] step show ?case by fastforce
qed

lemma authority_run_grows:
  assumes "(authority_step sha256)\<^sup>*\<^sup>* t t'" "tables_ok t"
  shows "set (admissions_of_effects t) \<subseteq> set (admissions_of_effects t') \<and>
    (\<forall>j a. readAuthority t j = Some a \<longrightarrow> (\<exists>a'. readAuthority t' j = Some a' \<and> taRevision a \<le> taRevision a'))"
  using assms
proof (induction rule: rtranclp_induct)
  case (step t1 t2)
  then have "tables_ok t1" by (blast intro: authority_run_ok)
  from authority_step_grows [OF this step(2)] step show ?case by (meson order_trans)
qed auto

subsection \<open>What shrinks\<close>

text \<open>A bound on what may be done that no step widens.\<close>

locale shrinking_grant =
  fixes ok :: "'s \<Rightarrow> bool" and move :: "'s \<Rightarrow> 's \<Rightarrow> bool" and grants :: "'s \<Rightarrow> 'k \<Rightarrow> 'e set"
  assumes kept: "ok s \<Longrightarrow> move s s' \<Longrightarrow> ok s'"
    and shrinks: "ok s \<Longrightarrow> move s s' \<Longrightarrow> grants s' k \<subseteq> grants s k"
begin

lemma run_keeps: "move\<^sup>*\<^sup>* s s' \<Longrightarrow> ok s \<Longrightarrow> ok s'"
  by (induction rule: rtranclp_induct) (auto intro: kept)

lemma run_shrinks: "move\<^sup>*\<^sup>* s s' \<Longrightarrow> ok s \<Longrightarrow> grants s' k \<subseteq> grants s k"
proof (induction rule: rtranclp_induct)
  case (step s1 s2)
  then have "ok s1" by (blast intro: run_keeps)
  with step shrinks [of s1 s2 k] show ?case by blast
qed simp

end

lemma effect_listed [simp]: "e \<in> set TASK_AUTHORITY_EFFECTS"
  by (cases e) (simp_all add: TASK_AUTHORITY_EFFECTS_def)

lemma allowed_effects_set: "set (allowed_effects oc cs) = {e. taskAuthorityAllowsEffect AuthActive oc cs e}"
  by (simp add: allowed_effects_def)

lemma narrowing_subset:
  "taskAuthorityIsStrictNarrowing (oc, cs) (oc', cs') \<Longrightarrow> taskAuthorityAllowsEffect AuthActive oc' cs' e \<Longrightarrow>
   taskAuthorityAllowsEffect AuthActive oc cs e"
proof -
  assume "taskAuthorityIsStrictNarrowing (oc, cs) (oc', cs')" "taskAuthorityAllowsEffect AuthActive oc' cs' e"
  then have "e \<in> set (allowed_effects oc cs)"
    by (auto simp: taskAuthorityIsStrictNarrowing_def Let_def list_all_iff allowed_effects_set)
  then show ?thesis by (simp add: allowed_effects_set)
qed

lemma withdrawn_permits_nothing: "taStatus a \<noteq> AuthActive \<Longrightarrow> \<not> allows a e"
  by (simp add: allows_def taskAuthorityAllowsEffect_def)

lemma permitted_same_history:
  assumes "store_ok t" "store_ok t'" "history t' jid = history t jid"
  shows "permitted t' jid = permitted t jid"
  using assms by (simp add: permitted_def readAuthority_history)

lemma permitted_admissions [simp]: "permitted (t\<lparr>admissions_of_effects := ms\<rparr>) jid = permitted t jid"
  by (simp add: permitted_def)

lemma appends_permitted:
  assumes "store_ok t" "appends t t' jid b"
    and "readAuthority t jid = None \<or> (\<exists>a. readAuthority t jid = Some a \<and> (\<forall>e. allows b e \<longrightarrow> allows a e))"
  shows "permitted t' k \<subseteq> permitted t k"
proof (cases "k = jid")
  case True
  with assms show ?thesis by (auto simp: permitted_def appends_def)
next
  case False
  with assms permitted_same_history [of t t' k] show ?thesis by (auto simp: appends_def)
qed

lemma shrinking_step_permitted:
  assumes ok: "tables_ok t" and s: "shrinking_step sha256 t t'"
  shows "permitted t' k \<subseteq> permitted t k"
proof -
  have st: "store_ok t" using ok by (simp add: tables_ok_def)
  from s show ?thesis
  proof cases
    case (created db controllers i a)
    from create_spec [OF st this] appends_permitted [OF st, of t' "caJobId i" "first_revision i" k]
      readAuthority_history [OF st, of "caJobId i"] show ?thesis by auto
  next
    case admitted
    from admitEffect_cases [OF this] show ?thesis by auto
  next
    case (graph jid digest now r)
    then have "regex_test False digest_regex digest"
      by (auto simp: updateArtifactGraph_def assertDigest_def rthen_eq_Inr guard_def split: if_splits)
    from updateArtifactGraph_spec [OF st this, of jid now] graph have "t' = t \<or> (\<exists>a b. readAuthority t jid = Some a \<and>
        appends t t' jid b \<and> taStatus b = taStatus a \<and> taOutcome b = taOutcome a \<and> taConstraints b = taConstraints a)" by auto
    then show ?thesis
    proof (elim disjE exE conjE)
      fix a b
      assume b: "readAuthority t jid = Some a" "appends t t' jid b" "taStatus b = taStatus a" "taOutcome b = taOutcome a"
        "taConstraints b = taConstraints a"
      then show ?thesis by (intro appends_permitted [OF st b(2)]) (simp add: allows_def)
    qed simp
  next
    case (narrowed jid oc cs now r)
    then have "distinct cs" by (auto simp: narrow_def rthen_eq_Inr guard_def split: if_splits)
    from narrow_spec [OF st this, of sha256 jid oc now] narrowed have "t' = t \<or> (\<exists>a b. readAuthority t jid = Some a \<and>
        appends t t' jid b \<and> taStatus a = AuthActive \<and> taStatus b = AuthActive \<and>
        taskAuthorityIsStrictNarrowing (taOutcome a, taConstraints a) (taOutcome b, taConstraints b))" by auto
    then show ?thesis
    proof (elim disjE exE conjE)
      fix a b
      assume b: "readAuthority t jid = Some a" "appends t t' jid b" "taStatus a = AuthActive" "taStatus b = AuthActive"
        "taskAuthorityIsStrictNarrowing (taOutcome a, taConstraints a) (taOutcome b, taConstraints b)"
      then have "\<forall>e. allows b e \<longrightarrow> allows a e" using narrowing_subset [OF b(5)] by (simp add: allows_def)
      with b show ?thesis by (intro appends_permitted [OF st b(2)]) auto
    qed simp
  next
    case (withdrawn jid reason now w r)
    then have "js_trim reason \<noteq> []" "length reason \<le> 256"
      by (auto simp: revoke_def assertBoundedIdentity_def rthen_eq_Inr guard_def split: if_splits)
    from revoke_spec [OF st this, of jid now w] withdrawn have "t' = t \<or> (\<exists>a b. readAuthority t jid = Some a \<and>
        appends t t' jid b \<and> taStatus b = withdrawn_status w)" by auto
    moreover have "withdrawn_status w \<noteq> AuthActive" by (cases w) (simp_all add: withdrawn_status_def)
    ultimately show ?thesis using appends_permitted [OF st] withdrawn_permits_nothing by (metis (full_types) equalityE)
  qed
qed

interpretation authority: shrinking_grant tables_ok "shrinking_step sha256" permitted for sha256
proof
  show "tables_ok t \<Longrightarrow> shrinking_step sha256 t t' \<Longrightarrow> tables_ok t'" for t t'
    by (blast intro: authority_step_ok authority_step.shrinks)
  show "tables_ok t \<Longrightarrow> shrinking_step sha256 t t' \<Longrightarrow> permitted t' k \<subseteq> permitted t k" for t t' k
    by (rule shrinking_step_permitted)
qed

text \<open>How often what a job may do can be narrowed.\<close>

definition grants_of :: "authority_effect list list" where
  "grants_of = (let base = [ReadEffect, ArtifactWrite]; change = base @ [WorktreeWrite, CommitEffect, PushEffect, PullRequestEffect] in
     [base, base @ [PrototypeWrite], change, change @ [MergeEffect], change @ [DeployEffect, RollbackEffect],
      change @ [MergeEffect, DeployEffect, RollbackEffect]])"

lemma allowed_effects_cases: "allowed_effects oc cs \<in> set grants_of"
  by (cases oc; cases "List.member cs NoMerge"; cases "List.member cs NoDeploy"; cases "List.member cs ArtifactOnly";
        cases "List.member cs PullRequestOnly")
      (simp_all only: allowed_effects_def TASK_AUTHORITY_EFFECTS_def filter.simps taskAuthorityAllowsEffect_def
         taskAuthorityAllows_def grants_of_def Let_def append.simps list.set insert_iff simp_thms if_True if_False
         authority_effect.distinct task_outcome.distinct list.distinct list.inject)

definition grant_rank :: "authority_effect list \<Rightarrow> nat" where
  "grant_rank es = (if List.member es MergeEffect \<and> List.member es DeployEffect then 3
     else if List.member es MergeEffect \<or> List.member es DeployEffect then 2
     else if List.member es WorktreeWrite \<or> List.member es PrototypeWrite then 1 else 0)"

lemma smaller_grant_ranks:
  "list_all (\<lambda>c. list_all (\<lambda>n. length n < length c \<and> list_all (List.member c) n \<longrightarrow> grant_rank n < grant_rank c) grants_of) grants_of"
  by code_simp

lemma narrowing_ranks:
  assumes "taskAuthorityIsStrictNarrowing (oc, cs) (oc', cs')"
  shows "grant_rank (allowed_effects oc' cs') < grant_rank (allowed_effects oc cs)"
  using assms smaller_grant_ranks allowed_effects_cases [of oc cs] allowed_effects_cases [of oc' cs']
  by (simp add: taskAuthorityIsStrictNarrowing_def Let_def list_all_iff)

lemma grant_rank_bound: "grant_rank es \<le> 3"
  by (simp add: grant_rank_def)

text \<open>A series of requests to narrow one authority: how many of them took effect.\<close>

fun narrowings ::
  "(string \<Rightarrow> string) \<Rightarrow> authority_tables \<Rightarrow> string \<Rightarrow> (task_outcome \<times> task_constraint list \<times> int) list \<Rightarrow> nat" where
  "narrowings sha256 t jid [] = 0"
| "narrowings sha256 t jid ((oc, cs, now) # rs) =
     (case narrow sha256 t jid oc cs now of
        Inl _ \<Rightarrow> narrowings sha256 t jid rs
      | Inr (t', None) \<Rightarrow> narrowings sha256 t' jid rs
      | Inr (t', Some _) \<Rightarrow> Suc (narrowings sha256 t' jid rs))"

lemma narrow_cases:
  assumes ok: "store_ok t" and n: "narrow sha256 t jid oc cs now = Inr (t', r)"
  shows "r = None \<and> t' = t \<or> (\<exists>a b. r = Some b \<and> readAuthority t jid = Some a \<and> appends t t' jid b \<and>
    taskAuthorityIsStrictNarrowing (taOutcome a, taConstraints a) (taOutcome b, taConstraints b))"
proof -
  from n have d: "distinct cs" by (auto simp: narrow_def rthen_eq_Inr guard_def split: if_splits)
  from narrow_spec [OF ok d, of sha256 jid oc now] n show ?thesis by auto
qed

lemma narrowings_rank:
  assumes "store_ok t" "readAuthority t jid = Some a"
  shows "narrowings sha256 t jid rs \<le> grant_rank (allowed_effects (taOutcome a) (taConstraints a))"
  using assms
proof (induction sha256 t jid rs arbitrary: a rule: narrowings.induct)
  case (2 sha256 t jid oc cs now rs)
  show ?case
  proof (cases "narrow sha256 t jid oc cs now")
    case (Inl e)
    with 2 show ?thesis by simp
  next
    case (Inr p)
    obtain t' r where p: "p = (t', r)" by (cases p)
    from narrow_cases [of t sha256 jid oc cs now t' r] "2.prems"(1) Inr p consider "r = None" "t' = t"
      | b where "r = Some b" "appends t t' jid b" "taskAuthorityIsStrictNarrowing (taOutcome a, taConstraints a) (taOutcome b, taConstraints b)"
      using "2.prems"(2) by auto
    then show ?thesis
    proof cases
      case 1
      with 2 Inr p show ?thesis by simp
    next
      case (2 b)
      then have "narrowings sha256 t' jid rs \<le> grant_rank (allowed_effects (taOutcome b) (taConstraints b))"
        using "2.IH"(3) Inr p by (auto simp: appends_def)
      with narrowing_ranks [OF 2(3)] 2(1) Inr p show ?thesis by simp
    qed
  qed
qed simp

lemma narrowings_without: "store_ok t \<Longrightarrow> readAuthority t jid = None \<Longrightarrow> narrowings sha256 t jid rs = 0"
proof (induction sha256 t jid rs rule: narrowings.induct)
  case (2 sha256 t jid oc cs now rs)
  show ?case
  proof (cases "narrow sha256 t jid oc cs now")
    case (Inr p)
    obtain t' r where "p = (t', r)" by (cases p)
    with narrow_cases [of t sha256 jid oc cs now t' r] 2 Inr show ?thesis by auto
  qed (use 2 in simp)
qed simp

subsection \<open>Requests\<close>

lemma derived:
  assumes "deriveTaskOutcome sha256 request = Inr d" "normalizeRequest request = Inr s"
  shows "taskAuthorityAllowsEffect AuthActive (tdOutcome d) (tdConstraints d) e \<longleftrightarrow>
    (if isArtifactRequest s then e = ReadEffect \<or> e = ArtifactWrite
     else if regex_test False NO_MERGE s \<or> regex_test False NO_DEPLOY s \<or>
        \<not> regex_test False SHIPPING_CONFIRMATION s \<and> (regex_test False PULL_REQUEST_ONLY s \<or> regex_test False PREPARE_PULL_REQUEST s)
     then e \<noteq> PrototypeWrite \<and> e \<noteq> MergeEffect \<and> e \<noteq> DeployEffect \<and> e \<noteq> RollbackEffect
     else e \<noteq> PrototypeWrite)"
proof -
  from assms obtain a pr m n where d: "a = isArtifactRequest s" "m = regex_test False NO_MERGE s" "n = regex_test False NO_DEPLOY s"
      "pr = (\<not> regex_test False SHIPPING_CONFIRMATION s \<and> (regex_test False PULL_REQUEST_ONLY s \<or> regex_test False PREPARE_PULL_REQUEST s))"
      "tdConstraints d = deriveConstraints a pr m n"
      "tdOutcome d = (if a then ArtifactOutcome else if pr \<or> m \<or> n then ReviewedChange else ShippedChange)"
    by (auto simp: deriveTaskOutcome_def Let_def)
  then have "taskAuthorityAllowsEffect AuthActive (tdOutcome d) (tdConstraints d) e \<longleftrightarrow>
      (if a then e = ReadEffect \<or> e = ArtifactWrite
       else if m \<or> n \<or> pr then e \<noteq> PrototypeWrite \<and> e \<noteq> MergeEffect \<and> e \<noteq> DeployEffect \<and> e \<noteq> RollbackEffect
       else e \<noteq> PrototypeWrite)"
    by (cases a; cases pr; cases m; cases n; cases e)
      (simp_all add: deriveConstraints_def taskAuthorityAllowsEffect_def taskAuthorityAllows_def)
  with d(1-4) show ?thesis by (simp add: disj_assoc)
qed

subsection \<open>Instances\<close>

definition demo_grant :: create_authority where
  "demo_grant = \<lparr>caAuthorityId = ''auth1'', caJobId = ''job1'', caOwnerUserId = ''owner'', caOwnerChatId = ''chat'',
     caControllerKey = ''controller'', caSourceUpdateId = 1, caRequestDigest = replicate 64 (CHR ''a''), caProjectId = ''proj_demo'',
     caOutcome = ShippedChange, caScopeDigest = replicate 64 (CHR ''a''), caConstraints = [], caPolicyVersion = 1,
     caPolicyDigest = replicate 64 (CHR ''a''), caArtifactGraphDigest = replicate 64 (CHR ''a''), caNow = 2\<rparr>"

definition demo_narrowed :: task_authority where
  "demo_narrowed = (first_revision demo_grant)\<lparr>taRevision := 2, taOutcome := ReviewedChange, taScopeDigest := replicate 64 (CHR ''a''), taUpdatedAt := 4\<rparr>"

definition demo_owned_db :: database where
  "demo_owned_db = empty_database\<lparr>jobs_table := [demo_job_row (demo_row\<lparr>taskOutcome := Some ShippedChange\<rparr>)],
     effects_table := [demo_render 2 2]\<rparr>"

definition demo_granted :: authority_tables where
  "demo_granted = \<lparr>authorities_table = [(''auth1'', ''job1'')], revisions_table = [first_revision demo_grant],
     current_table = [\<lparr>curJobId = ''job1'', curAuthorityId = ''auth1'', curRevision = 1\<rparr>],
     authority_events = [\<lparr>aeAuthorityId = ''auth1'', aeJobId = ''job1'', aeRevision = 1, aeAction = ActGranted, aeReason = None,
       aeOccurredAt = 2\<rparr>], admissions_of_effects = []\<rparr>"

definition demo_key :: string where
  "demo_key = effect_key ''job1'' 2 render_status"

definition demo_admission :: effect_admission where
  "demo_admission = \<lparr>eaEffectKey = demo_key, eaJobId = ''job1'', eaAuthorityId = ''auth1'', eaRevision = 1, eaEffect = ReadEffect,
     eaPayloadJson = ''{}'', eaAdmittedAt = 3\<rparr>"

definition demo_admitted :: authority_tables where
  "demo_admitted = demo_granted\<lparr>admissions_of_effects := [demo_admission]\<rparr>"

definition demo_revised :: authority_tables where
  "demo_revised = demo_admitted\<lparr>revisions_table := [first_revision demo_grant, demo_narrowed],
     current_table := [\<lparr>curJobId = ''job1'', curAuthorityId = ''auth1'', curRevision = 2\<rparr>],
     authority_events := authority_events demo_granted @ [\<lparr>aeAuthorityId = ''auth1'', aeJobId = ''job1'', aeRevision = 2,
       aeAction = ActRevised, aeReason = Some ''owner_narrowing_instruction'', aeOccurredAt = 4\<rparr>]\<rparr>"

abbreviation demo_sha :: "string \<Rightarrow> string" where "demo_sha \<equiv> (\<lambda>_. replicate 64 (CHR ''a''))"

lemma demo_grant_checked: "create_input_ok demo_grant = Inr ()"
proof -
  have digest: "assertDigest (replicate 64 (CHR ''a'')) f = Inr ()" for f
    by (simp add: assertDigest_def guard_def digest_test list_all_iff hex_char_def)
  have identity: "assertBoundedIdentity ''auth1'' f = Inr ()" "assertBoundedIdentity ''job1'' f = Inr ()" "assertBoundedIdentity ''owner'' f = Inr ()"
    "assertBoundedIdentity ''chat'' f = Inr ()" "assertBoundedIdentity ''controller'' f = Inr ()" "assertBoundedIdentity ''proj_demo'' f = Inr ()" for f
    by code_simp+
  show ?thesis by (simp add: create_input_ok_def demo_grant_def digest identity guard_def)
qed

lemma get_where_only: "m \<in> set t \<Longrightarrow> p m \<Longrightarrow> (\<And>n. n \<in> set t \<Longrightarrow> p n \<Longrightarrow> n = m) \<Longrightarrow> get_where p t = Some m"
  by (metis get_where_None get_where_Some option.exhaust)

lemma demo_owned_job: "readJobById demo_owned_db ''job1'' = Some (demo_row\<lparr>taskOutcome := Some ShippedChange\<rparr>)"
  by (simp add: demo_owned_db_def readJobById_def demo_tables demo_dbs)

lemmas demo_grants = demo_grant_def first_revision_def demo_granted_def demo_admitted_def demo_revised_def demo_narrowed_def
  demo_admission_def no_authorities_def

lemma demo_create: "create demo_owned_db (\<lambda>_. True) no_authorities demo_grant = Inr (demo_granted, first_revision demo_grant)"
proof -
  have job: "caJobId demo_grant = ''job1''" by (simp add: demo_grant_def)
  have fresh: "readAuthority no_authorities ''job1'' = None" by (simp add: readAuthority_def no_authorities_def get_where_def)
  show ?thesis unfolding create_def demo_grant_checked job fresh demo_owned_job
    by (simp add: guard_def insert_authority_def insert_revision_def insert_current_def stored_authority_def readAuthority_def
        record_event_def revision_row_ok_def get_where_def demo_grants)
qed

lemma demo_effect_of_job: "effect_of_job demo_owned_db ''job1'' demo_key = Some (demo_row\<lparr>taskOutcome := Some ShippedChange\<rparr>, ''{}'')"
proof -
  have "json_text (JObj []) = ''{}''" by code_simp
  then show ?thesis unfolding effect_of_job_def demo_owned_job
    by (simp add: demo_owned_db_def demo_key_def demo_render_def pending_effect_def get_where_def empty_database_def)
qed

lemma demo_reads:
  "readAuthority demo_granted ''job1'' = Some (first_revision demo_grant)"
  "readAuthority demo_admitted ''job1'' = Some (first_revision demo_grant)"
  "readAuthority demo_revised ''job1'' = Some demo_narrowed"
  by (simp_all add: readAuthority_def demo_grants get_where_def)

lemma demo_admit_effect: "admitEffect demo_owned_db demo_granted ''job1'' demo_key ReadEffect 3 = (demo_admitted, True)"
proof -
  have "job_projects (demo_row\<lparr>taskOutcome := Some ShippedChange\<rparr>) (first_revision demo_grant)"
    by (simp add: job_projects_def demo_grants demo_jobs)
  moreover have "allows (first_revision demo_grant) ReadEffect"
    by (simp add: allows_def demo_grants taskAuthorityAllowsEffect_def taskAuthorityAllows_def List.member_iff)
  ultimately show ?thesis unfolding admitEffect_def demo_effect_of_job demo_reads
    by (simp add: demo_grants get_where_def)
qed

lemma demo_narrow: "narrow demo_sha demo_admitted ''job1'' ReviewedChange [] 4 = Inr (demo_revised, Some demo_narrowed)"
proof -
  have "taskAuthorityIsStrictNarrowing (ShippedChange, []) (ReviewedChange, [])" by code_simp
  then show ?thesis unfolding narrow_def demo_reads
    by (simp add: guard_def revise_def appendRevision_def insert_revision_def stored_authority_def readAuthority_def record_event_def
        revision_row_ok_def get_where_def changes_def update_where_def scope_digest_def demo_grants)
qed

lemma demo_reachable: "reachable_store demo_sha demo_granted" "reachable_store demo_sha demo_admitted" "reachable_store demo_sha demo_revised"
proof -
  show g: "reachable_store demo_sha demo_granted"
    by (rule reachable_store.step [OF reachable_store.start authority_step.shrinks [OF shrinking_step.created [OF demo_create]]])
  then show a: "reachable_store demo_sha demo_admitted"
    by (rule reachable_store.step [OF _ authority_step.shrinks [OF shrinking_step.admitted [OF demo_admit_effect]]])
  then show "reachable_store demo_sha demo_revised"
    by (rule reachable_store.step [OF _ authority_step.shrinks [OF shrinking_step.narrowed [OF demo_narrow]]])
qed

subsection \<open>Properties\<close>

text \<open>C20: in every reachable repository the authority of a job is the last entry of its history, and the entry number is its
  revision; a history keeps all its entries along every run, and gets no more once its last entry is not active: what was
  revoked, suspended or superseded stays so.
\<close>

theorem authority_log_only_grows:
  assumes "reachable_store sha256 t" "(authority_step sha256)\<^sup>*\<^sup>* t t'"
  shows "readAuthority t jid = (if history t jid = [] then None else Some (last (history t jid))) \<and>
    (\<forall>i < length (history t jid). taRevision (history t jid ! i) = int (Suc i)) \<and>
    (\<exists>more. history t' jid = history t jid @ more \<and>
      (history t jid \<noteq> [] \<and> taStatus (last (history t jid)) \<noteq> AuthActive \<longrightarrow> more = []))"
proof -
  from assms(1) have ok: "tables_ok t" by (rule reachable_store_ok)
  then have st: "store_ok t" by (simp add: tables_ok_def)
  have "\<forall>i < length (history t jid). taRevision (history t jid ! i) = int (Suc i)"
  proof (cases "readAuthority t jid")
    case None
    with readAuthority_history [OF st, of jid] show ?thesis by (auto split: if_splits)
  next
    case (Some a)
    with readAuthority_current [OF st Some] st show ?thesis by (auto simp: store_ok_def history_ok_def)
  qed
  with readAuthority_history [OF st] authority_run_log [OF assms(2) ok] show ?thesis by blast
qed

theorem authority_log_only_grows_witness:
  "\<exists>more. history demo_revised ''job1'' = history demo_admitted ''job1'' @ more \<and> more = [demo_narrowed] \<and>
     readAuthority demo_admitted ''job1'' = Some (last (history demo_admitted ''job1''))"
proof -
  have "(authority_step demo_sha)\<^sup>*\<^sup>* demo_admitted demo_revised"
    using authority_step.shrinks [OF shrinking_step.narrowed [OF demo_narrow]] by blast
  from authority_log_only_grows [OF demo_reachable(2) this, of "''job1''"] show ?thesis
    by (auto simp: history_def demo_grants)
qed

text \<open>C21: from every reachable repository, along every run in which no owner instructs a merge, what a job may do only shrinks.
\<close>

theorem authority_only_shrinks:
  assumes "reachable_store sha256 t" "(shrinking_step sha256)\<^sup>*\<^sup>* t t'"
  shows "permitted t' jid \<subseteq> permitted t jid"
  using authority.run_shrinks [OF assms(2)] reachable_store_ok [OF assms(1)] by blast

theorem authority_only_shrinks_witness:
  "permitted demo_revised ''job1'' \<subseteq> permitted demo_granted ''job1'' \<and> MergeEffect \<in> permitted demo_granted ''job1'' \<and>
   MergeEffect \<notin> permitted demo_revised ''job1''"
proof -
  have "(shrinking_step demo_sha)\<^sup>*\<^sup>* demo_granted demo_revised"
    using shrinking_step.admitted [OF demo_admit_effect] shrinking_step.narrowed [OF demo_narrow]
    by (meson converse_rtranclp_into_rtranclp r_into_rtranclp)
  moreover have "MergeEffect \<in> permitted demo_granted ''job1''" "MergeEffect \<notin> permitted demo_revised ''job1''"
    unfolding permitted_def demo_reads
    by (simp_all add: allows_def demo_narrowed_def demo_grant_def first_revision_def taskAuthorityAllowsEffect_def taskAuthorityAllows_def)
  ultimately show ?thesis using authority_only_shrinks [OF demo_reachable(1)] by blast
qed

text \<open>an effect admitted under an older revision of a job's authority is not current, and is not admitted again, in any later
  state of the repository: each revision, even one that adds permissions, invalidates for good what was admitted before it.
\<close>

theorem stale_admission_never_revives:
  assumes "reachable_store sha256 t" "m \<in> set (admissions_of_effects t)" "readAuthority t (eaJobId m) = Some a"
    "eaRevision m < taRevision a" "(authority_step sha256)\<^sup>*\<^sup>* t t'"
  shows "\<not> effectAdmissionIsCurrent db t' (eaJobId m) (eaEffectKey m) (eaEffect m) \<and>
    admitEffect db t' (eaJobId m) (eaEffectKey m) (eaEffect m) now = (t', False)"
proof -
  have ok: "tables_ok t" by (rule reachable_store_ok [OF assms(1)])
  with assms(5) have ok': "tables_ok t'" by (rule authority_run_ok)
  from authority_run_grows [OF assms(5) ok] assms(2-4) obtain a' where m: "m \<in> set (admissions_of_effects t')"
      and a': "readAuthority t' (eaJobId m) = Some a'" "eaRevision m < taRevision a'" by fastforce
  have uniq: "n = m" if "n \<in> set (admissions_of_effects t')" "eaEffectKey n = eaEffectKey m" "eaEffect n = eaEffect m" for n
    using ok' m that unique_eqI [of "\<lambda>m. (eaEffectKey m, eaEffect m)" "admissions_of_effects t'" n m] by (simp add: tables_ok_def)
  have "get_where (\<lambda>n. eaEffectKey n = eaEffectKey m \<and> eaEffect n = eaEffect m) (admissions_of_effects t') = Some m"
      "get_where (\<lambda>n. eaEffectKey n = eaEffectKey m \<and> eaJobId n = eaJobId m \<and> eaEffect n = eaEffect m) (admissions_of_effects t') = Some m"
    by (rule get_where_only; use m uniq in auto)+
  with a' show ?thesis
    by (auto simp: effectAdmissionIsCurrent_def admitEffect_def admission_matches_def split: option.splits)
qed

theorem stale_admission_never_revives_witness:
  "\<not> effectAdmissionIsCurrent demo_owned_db demo_revised ''job1'' demo_key ReadEffect \<and>
   effectAdmissionIsCurrent demo_owned_db demo_admitted ''job1'' demo_key ReadEffect"
proof -
  have m: "demo_admission \<in> set (admissions_of_effects demo_revised)" "eaJobId demo_admission = ''job1''" "eaEffectKey demo_admission = demo_key"
      "eaEffect demo_admission = ReadEffect" "eaRevision demo_admission < taRevision demo_narrowed"
    by (simp_all add: demo_grants)
  have "\<not> effectAdmissionIsCurrent demo_owned_db demo_revised ''job1'' demo_key ReadEffect"
    using stale_admission_never_revives [OF demo_reachable(3) m(1) _ m(5) rtranclp.rtrancl_refl] m demo_reads(3) by auto
  moreover have "effectAdmissionIsCurrent demo_owned_db demo_admitted ''job1'' demo_key ReadEffect"
    unfolding effectAdmissionIsCurrent_def demo_effect_of_job demo_reads
    by (simp add: demo_grants get_where_def admission_matches_def job_projects_def demo_jobs allows_def
        taskAuthorityAllowsEffect_def taskAuthorityAllows_def)
  ultimately show ?thesis by simp
qed

text \<open>whatever a series of requests to narrow a job's authority asks, at most three of them take effect: each that does
  leaves the job strictly fewer effects, and there is no longer chain of the grants the code can express.
\<close>

theorem narrowing_is_bounded:
  assumes "reachable_store sha256 t"
  shows "narrowings sha256 t jid requests \<le> 3"
proof -
  have st: "store_ok t" using reachable_store_ok [OF assms] by (simp add: tables_ok_def)
  show ?thesis
  proof (cases "readAuthority t jid")
    case None
    with narrowings_without [OF st] show ?thesis by simp
  next
    case (Some a)
    from narrowings_rank [OF st Some] grant_rank_bound show ?thesis by (rule order_trans)
  qed
qed

theorem narrowing_is_bounded_witness:
  "narrowings demo_sha demo_admitted ''job1'' [(ReviewedChange, [], 4)] \<le> 3 \<and>
   narrowings demo_sha demo_admitted ''job1'' [(ReviewedChange, [], 4)] = 1"
  using narrowing_is_bounded [OF demo_reachable(2)] by (simp add: demo_narrow)

text \<open>the authority derived from a request allows exactly: for a request for an artifact, reading and writing artifacts; for
  one that refuses a merge or a deployment, or that asks for a pull request without confirming shipping, no merge, deployment,
  rollback or prototype; otherwise everything but a prototype.
\<close>

theorem derived_authority_is_exact:
  assumes "deriveTaskOutcome sha256 request = Inr d"
  shows "\<exists>s. normalizeRequest request = Inr s \<and>
    (\<forall>e. taskAuthorityAllowsEffect AuthActive (tdOutcome d) (tdConstraints d) e \<longleftrightarrow>
      (if isArtifactRequest s then e = ReadEffect \<or> e = ArtifactWrite
       else if regex_test False NO_MERGE s \<or> regex_test False NO_DEPLOY s \<or>
          \<not> regex_test False SHIPPING_CONFIRMATION s \<and> (regex_test False PULL_REQUEST_ONLY s \<or> regex_test False PREPARE_PULL_REQUEST s)
       then e \<noteq> PrototypeWrite \<and> e \<noteq> MergeEffect \<and> e \<noteq> DeployEffect \<and> e \<noteq> RollbackEffect
       else e \<noteq> PrototypeWrite))"
proof -
  from assms obtain s where s: "normalizeRequest request = Inr s"
    by (auto simp: deriveTaskOutcome_def rbind_eq_Inr)
  with derived [OF assms s] show ?thesis by blast
qed

text \<open>How the words of two requests are read.\<close>

lemma merge_request_words:
  "normalizeRequest ''Do not merge.'' = Inr ''do not merge''" by code_simp

lemma merge_request_explicit: "\<not> regex_test False EXPLICIT_ARTIFACT_ONLY ''do not merge''" by code_simp

lemma merge_request_verb: "\<not> regex_test False DIRECT_ARTIFACT_VERB ''do not merge''" by code_simp

lemma merge_request_language: "\<not> regex_test False ARTIFACT_LANGUAGE ''do not merge''" by code_simp

lemma merge_request_refuses: "regex_test False NO_MERGE ''do not merge''" by code_simp

theorem derived_authority_is_exact_witness:
  "\<exists>d. deriveTaskOutcome demo_sha ''Do not merge.'' = Inr d \<and>
     \<not> taskAuthorityAllowsEffect AuthActive (tdOutcome d) (tdConstraints d) MergeEffect \<and>
     taskAuthorityAllowsEffect AuthActive (tdOutcome d) (tdConstraints d) PushEffect"
proof -
  have "\<not> isArtifactRequest ''do not merge''"
    by (simp add: isArtifactRequest_def merge_request_explicit merge_request_verb merge_request_language)
  moreover obtain d where d: "deriveTaskOutcome demo_sha ''Do not merge.'' = Inr d"
    by (simp add: deriveTaskOutcome_def merge_request_words Let_def)
  ultimately show ?thesis
    using derived_authority_is_exact [OF d] merge_request_refuses by (auto simp: merge_request_words)
qed

text \<open>
  A refusal that the patterns do not know: of a pull request that is not to be shipped, the word \<open>ship\<close> is read as the
  confirmation to ship it.
\<close>

lemma unshipped_request_words: "normalizeRequest ''Open a PR. Do not ship.'' = Inr ''open a pr do not ship''" by code_simp

lemma unshipped_request_explicit: "\<not> regex_test False EXPLICIT_ARTIFACT_ONLY ''open a pr do not ship''" by code_simp

lemma unshipped_request_verb: "\<not> regex_test False DIRECT_ARTIFACT_VERB ''open a pr do not ship''" by code_simp

lemma unshipped_request_language: "\<not> regex_test False ARTIFACT_LANGUAGE ''open a pr do not ship''" by code_simp

lemma unshipped_request_merge: "\<not> regex_test False NO_MERGE ''open a pr do not ship''" by code_simp

lemma unshipped_request_deploy: "\<not> regex_test False NO_DEPLOY ''open a pr do not ship''" by code_simp

lemma unshipped_request_confirms: "regex_test False SHIPPING_CONFIRMATION ''open a pr do not ship''" by code_simp

lemma refused_shipping_is_confirmed:
  "\<exists>d. deriveTaskOutcome sha256 ''Open a PR. Do not ship.'' = Inr d \<and> tdOutcome d = ShippedChange \<and> tdConstraints d = [] \<and>
     taskAuthorityAllowsEffect AuthActive (tdOutcome d) (tdConstraints d) MergeEffect"
  by (simp add: deriveTaskOutcome_def Let_def unshipped_request_words isArtifactRequest_def unshipped_request_explicit unshipped_request_verb
      unshipped_request_language unshipped_request_merge unshipped_request_deploy unshipped_request_confirms deriveConstraints_def
      taskAuthorityAllowsEffect_def taskAuthorityAllows_def)

end
