(* ===== verification/Stage_Routing.thy ===== *)
theory Stage_Routing
  imports Model_Routes Review Job_Database
begin

text \<open>
  What a stage of a job runs on: the arguments of a spawned worker (\<open>stage-execution.ts\<close>), the execution
  of a job's stage and of a capability route (\<open>stage-routing.ts\<close>), the arguments the runner passes on
  (\<open>bb/runner.ts\<close>), and the evidence about the consensus pass of a head (\<open>effect-runner.ts\<close>).
\<close>

subsection \<open>Arguments of a spawn\<close>

text \<open>\<open>spawnExplicit\<close> holds the keys of \<open>executionInputSources\<close>, each with the value \<open>explicit\<close>.\<close>

record spawn_args =
  spawnProviderId :: string
  spawnModel :: string
  spawnReasoningLevel :: reasoning_level
  spawnServiceTier :: "service_tier option"
  spawnPermissionMode :: "permission_mode option"
  spawnExplicit :: "string list"

definition executionSpawnArgs ::
  "string \<Rightarrow> string \<Rightarrow> reasoning_level \<Rightarrow> service_tier \<Rightarrow> permission_mode option \<Rightarrow> spawn_args" where
  "executionSpawnArgs prov mdl reasoning st perm =
     (let entry = stageModelEntry mdl;
          withTier = (case entry of None \<Rightarrow> True | Some e \<Rightarrow> supportsServiceTier e);
          withPermission = (perm \<noteq> None)
      in \<lparr>spawnProviderId = prov, spawnModel = mdl, spawnReasoningLevel = reasoning,
          spawnServiceTier = (if withTier then Some st else None),
          spawnPermissionMode = perm,
          spawnExplicit = [''providerId'', ''model'', ''reasoningLevel''] @ (if withTier then [''serviceTier''] else []) @
            (if withPermission then [''permissionMode''] else [])\<rparr>)"

definition stageExecutionSpawnArgs :: "resolved_stage_execution \<Rightarrow> spawn_args" where
  "stageExecutionSpawnArgs r = executionSpawnArgs (providerId r) (model r) (reasoningLevel r) (serviceTier r) (permissionMode r)"

definition modelRouteSpawnArgs ::
  "string \<Rightarrow> string \<Rightarrow> reasoning_level \<Rightarrow> service_tier \<Rightarrow> permission_mode option \<Rightarrow> spawn_args" where
  "modelRouteSpawnArgs prov mid reasoning st perm =
     executionSpawnArgs prov mid reasoning st (Some (compatiblePermissionMode prov (opt_default perm AutoMode)))"

definition capabilityRouteExecution ::
  "pipeline_stage \<Rightarrow> stage_tier \<Rightarrow> string \<Rightarrow> string \<Rightarrow> reasoning_level \<Rightarrow> service_tier \<Rightarrow> permission_mode option \<Rightarrow>
   resolved_stage_execution" where
  "capabilityRouteExecution st t prov mdl reasoning svc perm =
     \<lparr>stage = st, baseTier = t, tier = t, escalationSteps = 0,
      maxEscalations = defaultMaxEscalations (DEFAULT_STAGE_PROFILES st), modelPinned = True, providerId = prov, model = mdl,
      reasoningLevel = reasoning, serviceTier = svc, permissionMode = perm, source = CapabilityRoute\<rparr>"

subsection \<open>The execution of a job's stage\<close>

fun repeatedCycles :: "job \<Rightarrow> pipeline_stage \<Rightarrow> int" where
  "repeatedCycles j PlanStage = planCycle j"
| "repeatedCycles j CritiqueStage = planCycle j"
| "repeatedCycles j ImplementationStage = reviewCycle j"
| "repeatedCycles j ReviewStage = reviewCycle j"
| "repeatedCycles j _ = 0"

definition jobStageExecution ::
  "job \<Rightarrow> project_policy \<Rightarrow> pipeline_stage \<Rightarrow> int option \<Rightarrow> model_route option \<Rightarrow> resolved_stage_execution" where
  "jobStageExecution j p st attemptOrdinal route =
     (let configured = resolveStageExecution st (stageExecution p) (Some (policy_legacy p))
            (Some (stageEscalationSteps attemptOrdinal (Some (repeatedCycles j st)) None))
      in case route of
           None \<Rightarrow> configured
         | Some r \<Rightarrow> capabilityRouteExecution st (pool r) (poolProviderId r) (poolModelId r) (poolReasoning r) (poolServiceTier r)
             (permissionMode configured))"

subsection \<open>The runner\<close>

definition stageExecutionArgs ::
  "job \<Rightarrow> project_policy \<Rightarrow> pipeline_stage \<Rightarrow> int option \<Rightarrow> model_route option \<Rightarrow> spawn_args" where
  "stageExecutionArgs j p st attemptOrdinal route = stageExecutionSpawnArgs (jobStageExecution j p st attemptOrdinal route)"

definition policy_consensus :: "project_policy \<Rightarrow> resolved_stage_execution option" where
  "policy_consensus p = resolveConsensusExecution (stageExecution p) (Some (policy_legacy p))
     (case autonomy p of None \<Rightarrow> None | Some a \<Rightarrow> consensusReview a)"

definition consensusExecutionArgs :: "project_policy \<Rightarrow> spawn_args result" where
  "consensusExecutionArgs p =
     (case policy_consensus p of
        None \<Rightarrow> Inl (PlainError ''Consensus review has no independent route to run on'')
      | Some r \<Rightarrow> Inr (stageExecutionSpawnArgs r))"

text \<open>\<open>profile\<close>: the model route of the attempt's persisted capability profile, when it has one.\<close>

definition workerExecutionArgs ::
  "job \<Rightarrow> int \<Rightarrow> model_route option \<Rightarrow> project_policy \<Rightarrow> pipeline_stage \<Rightarrow> spawn_args result" where
  "workerExecutionArgs j ordinal profile p st =
     (if routingMode j \<noteq> ActiveRouting then Inr (stageExecutionArgs j p st (Some ordinal) None)
      else (case profile of
          None \<Rightarrow> Inl (TypeError ''Active worker dispatch is missing its persisted model route'')
        | Some r \<Rightarrow> Inr (stageExecutionArgs j p st (Some ordinal) (Some r))))"

definition pipelineExecutionArgs ::
  "job \<Rightarrow> int \<Rightarrow> model_route option \<Rightarrow> project_policy \<Rightarrow> pipeline_stage \<Rightarrow> spawn_args result" where
  "pipelineExecutionArgs j ordinal profile p st =
     (if routingMode j \<noteq> ActiveRouting then Inr (stageExecutionArgs j p st (Some ordinal) None)
      else (case profile of
          None \<Rightarrow> Inl (TypeError ''Active pipeline dispatch is missing its persisted model route'')
        | Some r \<Rightarrow> Inr (stageExecutionArgs j p st (Some ordinal) (Some r))))"

subsection \<open>The consensus pass of a head\<close>

definition consensusExecution :: "job \<Rightarrow> resolved_stage_execution option" where
  "consensusExecution j =
     (case policy j of
        None \<Rightarrow> None
      | Some p \<Rightarrow> if routingMode j = ActiveRouting then None else policy_consensus p)"

record consensus_evidence =
  requested :: bool
  assessment :: consensus_assessment
  routeAvailable :: bool

text \<open>A row of the table of attempts, and the latest consensus attempt on a head.\<close>

record attempt_row = lens_attempt +
  attemptRowJobId :: string
  attemptIsReview :: bool
  attemptReviewStage :: "string option"
  attemptOrdinal :: int

definition getConsensusReviewAttempt :: "attempt_row list \<Rightarrow> string \<Rightarrow> string \<Rightarrow> attempt_row option result" where
  "getConsensusReviewAttempt attempts jid head =
     rthen (guard (jid \<noteq> []) (TypeError ''consensus attempt query is invalid''))
    (rthen (guard (regex_test False HEAD_SHA head) (TypeError ''headSha must be a 40-character lowercase SHA''))
       (Inr (case select_ordered (\<lambda>a. attemptRowJobId a = jid \<and> attemptIsReview a \<and> attemptReviewStage a = Some ''consensus'' \<and>
                  reviewLens a = Some ConsensusLens \<and> attemptHeadSha a = Some head)
                (\<lambda>a. (- attemptOrdinal a, attemptId a)) 1 attempts of
             [] \<Rightarrow> None | a # _ \<Rightarrow> Some a)))"

definition consensusEvidence ::
  "(string \<Rightarrow> jval option) \<Rightarrow> (string \<Rightarrow> string) \<Rightarrow> (string \<Rightarrow> string \<Rightarrow> int) \<Rightarrow> database \<Rightarrow> attempt_row list \<Rightarrow> job \<Rightarrow>
   consensus_evidence result" where
  "consensusEvidence parse sha256 lc db attempts j =
     (if \<not> truthy_str (prHeadSha j) \<or> policy j = None
      then Inr \<lparr>requested = False, assessment = ConsensusPending, routeAvailable = False\<rparr>
      else (let head = the (prHeadSha j);
                asked = list_ex (\<lambda>x. effectJobId x = job_id j \<and> kind x = spawn_consensus_review \<and>
                  map_of (payload x) ''headSha'' = Some (JStr head)) (effects_table db)
        in rbind (getConsensusReviewAttempt attempts (job_id j) head) (\<lambda>a.
           rbind (assessConsensusReview parse sha256 lc (map_option lens_attempt.truncate a) head) (\<lambda>v.
             Inr \<lparr>requested = asked, assessment = v, routeAvailable = (consensusExecution j \<noteq> None)\<rparr>))))"

end
