(* ===== verification/Merge_Authority.thy ===== *)
theory Merge_Authority
  imports Stage_Routing Authority_Store Job_Events
begin

text \<open>
  Who may let a job merge: \<open>src/services/merge-authority.ts\<close>, the standing grants of the store
  (\<open>getMergeGrantEvidence\<close> and its neighbours in \<open>store.ts\<close>), and the effect that issues an approval
  (\<open>issueApproval\<close> of \<open>effect-runner.ts\<close>).
\<close>

subsection \<open>Grants\<close>

record merge_grant =
  grantProjectId :: string
  grantedAt :: int
  grantedByUserId :: string
  grantedByChatId :: string
  grantRevokedAt :: "int option"
  grantRevokedReason :: "string option"

datatype grant_source = ButtonGrant | PolicyGrant | TaskGrant

record grant_evidence =
  standingGrant :: "merge_grant option"
  lastRevokedAt :: "int option"
  policyStoredAt :: "int option"

definition policyGrantIsLive :: "project_policy option \<Rightarrow> grant_evidence \<Rightarrow> bool" where
  "policyGrantIsLive p ev =
     (case p of None \<Rightarrow> False
      | Some pol \<Rightarrow> (case autonomy pol of None \<Rightarrow> False
        | Some au \<Rightarrow> unattendedMerge au \<and>
            (case lastRevokedAt ev of None \<Rightarrow> True
             | Some r \<Rightarrow> (case policyStoredAt ev of None \<Rightarrow> False | Some s \<Rightarrow> r < s))))"

definition taskGrantIsLive :: "task_authority option \<Rightarrow> string option \<Rightarrow> string option \<Rightarrow> bool" where
  "taskGrantIsLive ta pid jid =
     (case ta of None \<Rightarrow> False
      | Some a \<Rightarrow> allows a MergeEffect \<and> pid = Some (taProjectId a) \<and> jid = Some (taJobId a))"

definition grantIsLive :: "merge_grant option \<Rightarrow> string option \<Rightarrow> bool" where
  "grantIsLive g pid = (case g of None \<Rightarrow> False | Some x \<Rightarrow> grantRevokedAt x = None \<and> pid = Some (grantProjectId x))"

definition resolveMergeGrant ::
  "string option \<Rightarrow> string option \<Rightarrow> project_policy option \<Rightarrow> grant_evidence \<Rightarrow> task_authority option \<Rightarrow> grant_source option" where
  "resolveMergeGrant pid jid pol ev ta =
     (if taskGrantIsLive ta pid jid then Some TaskGrant
      else if grantIsLive (standingGrant ev) pid then Some ButtonGrant
      else if pid \<noteq> None \<and> policyGrantIsLive pol ev then Some PolicyGrant
      else None)"

subsection \<open>Deciding without the owner\<close>

datatype approval_decision =
  AutoApprove | AskOwner string | StartConsensus | AwaitConsensus | ContinueRemediation string

definition REMEDIATION_ASK_THRESHOLD :: int where "REMEDIATION_ASK_THRESHOLD = 2"

definition rounds_reason :: "job \<Rightarrow> string" where
  "rounds_reason j = ''the change needed '' @ show_int (reviewCycle j) @ '' rounds of review fixes''"

definition decideRemediatedChange :: "job \<Rightarrow> consensus_evidence option \<Rightarrow> bool \<Rightarrow> approval_decision" where
  "decideRemediatedChange j cons taskGrant =
     (case cons of
        Some c \<Rightarrow>
          if routeAvailable c
          then (case assessment c of
              ConsensusPass \<Rightarrow> AutoApprove
            | ConsensusNotPass \<Rightarrow>
                if taskGrant then ContinueRemediation ''The independent review did not clear the current head; continue remediation''
                else AskOwner (rounds_reason j @ '' and a second review did not clear it'')
            | ConsensusPending \<Rightarrow> if requested c then AwaitConsensus else StartConsensus)
          else if taskGrant then ContinueRemediation ''Independent review is unavailable; continue fixing the reviewed change''
          else AskOwner (rounds_reason j)
      | None \<Rightarrow>
          if taskGrant then ContinueRemediation ''Independent review is unavailable; continue fixing the reviewed change''
          else AskOwner (rounds_reason j))"

definition policy_has_production :: "project_policy option \<Rightarrow> bool" where
  "policy_has_production p = (case p of None \<Rightarrow> False | Some pol \<Rightarrow> production pol \<noteq> None)"

definition merges_without_production :: "project_policy option \<Rightarrow> bool" where
  "merges_without_production p =
     (case p of None \<Rightarrow> False | Some pol \<Rightarrow> (case autonomy pol of None \<Rightarrow> False | Some au \<Rightarrow> mergeWithoutProduction au))"

definition decideAutoApproval ::
  "job \<Rightarrow> grant_evidence \<Rightarrow> task_authority option \<Rightarrow> consensus_evidence option \<Rightarrow> approval_decision" where
  "decideAutoApproval j ev ta cons =
     (case resolveMergeGrant (projectId j) (Some (job_id j)) (policy j) ev ta of
        None \<Rightarrow> AskOwner ''no standing approval for this project''
      | Some live \<Rightarrow>
          if cancelRequestedAt j \<noteq> None then AskOwner ''the owner asked for this job to stop''
          else if \<not> truthy_str (prHeadSha j) then AskOwner ''the pull-request head is not established''
          else if \<not> policy_has_production (policy j) \<and> \<not> merges_without_production (policy j)
          then AskOwner ''the project has no production configuration''
          else if policy_has_production (policy j) \<and> \<not> productionHasRollbackCommand (policy j)
          then AskOwner ''the project has no production rollback command''
          else if REMEDIATION_ASK_THRESHOLD \<le> reviewCycle j then decideRemediatedChange j cons (live = TaskGrant)
          else AutoApprove)"

subsection \<open>The grants of a project\<close>

datatype grant_action = GrantGranted | GrantRevoked | GrantUsed

record grant_event =
  geProjectId :: string
  geAction :: grant_action
  geJobId :: "string option"
  geActorUserId :: "string option"
  geActorChatId :: "string option"
  geReason :: "string option"
  geOccurredAt :: int

record stored_policy =
  storedPolicy :: project_policy
  storedVersion :: int
  storedCreatedAt :: int
  storedUpdatedAt :: int

record grant_tables =
  merge_authority :: "merge_grant list"
  merge_authority_events :: "grant_event list"
  project_policies :: "stored_policy list"

definition getProjectPolicy :: "grant_tables \<Rightarrow> string \<Rightarrow> stored_policy option" where
  "getProjectPolicy t pid = get_where (\<lambda>r. policyProjectId (storedPolicy r) = pid) (project_policies t)"

text \<open>\<open>project_policies\<close> has one row per project and one per alias.\<close>

definition upsertProjectPolicy ::
  "js_runtime \<Rightarrow> grant_tables \<Rightarrow> project_policy \<Rightarrow> int \<Rightarrow> (grant_tables \<times> stored_policy) result" where
  "upsertProjectPolicy rt t p now =
     rbind (projectPolicySchema_parse rt p) (\<lambda>v.
       (let own = (\<lambda>r. policyProjectId (storedPolicy r) = policyProjectId v) in
        if \<exists>r \<in> set (project_policies t). \<not> own r \<and> policyAlias (storedPolicy r) = policyAlias v then Inl SqliteConstraintUnique
        else (let t' = t\<lparr>project_policies := (if get_where own (project_policies t) = None
                    then project_policies t @ [\<lparr>storedPolicy = v, storedVersion = 1, storedCreatedAt = now, storedUpdatedAt = now\<rparr>]
                    else update_where own (\<lambda>r. r\<lparr>storedPolicy := v, storedVersion := storedVersion r + 1, storedUpdatedAt := now\<rparr>)
                           (project_policies t))\<rparr>
              in case getProjectPolicy t' (policyProjectId v) of
                   None \<Rightarrow> Inl (PlainError ''Project policy was not stored'') | Some r \<Rightarrow> Inr (t', r))))"

definition grant_of :: "grant_tables \<Rightarrow> string \<Rightarrow> merge_grant option" where
  "grant_of t pid = get_where (\<lambda>g. grantProjectId g = pid) (merge_authority t)"

definition getMergeAuthority :: "grant_tables \<Rightarrow> string \<Rightarrow> merge_grant option result" where
  "getMergeAuthority t pid = rthen (assertControllerIdentifier pid ''projectId'') (Inr (grant_of t pid))"

definition appendMergeAuthorityEvent :: "grant_event \<Rightarrow> grant_tables \<Rightarrow> grant_tables" where
  "appendMergeAuthorityEvent e t = t\<lparr>merge_authority_events := merge_authority_events t @ [e]\<rparr>"

definition grantMergeAuthority ::
  "grant_tables \<Rightarrow> string \<Rightarrow> string \<Rightarrow> string \<Rightarrow> js_number \<Rightarrow> (grant_tables \<times> merge_grant) result" where
  "grantMergeAuthority t pid user chat now =
     rthen (assertControllerIdentifier pid ''projectId'')
    (rthen (assertNonNegativeInteger now ''now'')
       (let g = \<lparr>grantProjectId = pid, grantedAt = whole now, grantedByUserId = user, grantedByChatId = chat, grantRevokedAt = None,
              grantRevokedReason = None\<rparr>;
            own = (\<lambda>x. grantProjectId x = pid);
            t1 = t\<lparr>merge_authority := (if grant_of t pid = None then merge_authority t @ [g]
                     else update_where own (\<lambda>_. g) (merge_authority t))\<rparr>;
            t2 = appendMergeAuthorityEvent \<lparr>geProjectId = pid, geAction = GrantGranted, geJobId = None, geActorUserId = Some user,
                   geActorChatId = Some chat, geReason = None, geOccurredAt = whole now\<rparr> t1
        in case grant_of t2 pid of
             None \<Rightarrow> Inl (PlainError ''merge authority grant did not persist'') | Some x \<Rightarrow> Inr (t2, x)))"

definition last_revocation :: "grant_tables \<Rightarrow> string \<Rightarrow> int option" where
  "last_revocation t pid =
     (let at = map geOccurredAt (filter (\<lambda>e. geProjectId e = pid \<and> geAction e = GrantRevoked) (merge_authority_events t))
      in if at = [] then None else Some (Max (set at)))"

definition grant_evidence_of :: "grant_tables \<Rightarrow> string \<Rightarrow> grant_evidence" where
  "grant_evidence_of t pid =
     \<lparr>standingGrant = grant_of t pid, lastRevokedAt = last_revocation t pid,
      policyStoredAt = map_option storedUpdatedAt
        (get_where (\<lambda>r. policyProjectId (storedPolicy r) = pid \<and> enabled (storedPolicy r)) (project_policies t))\<rparr>"

definition getMergeGrantEvidence :: "grant_tables \<Rightarrow> string \<Rightarrow> grant_evidence result" where
  "getMergeGrantEvidence t pid = rthen (assertControllerIdentifier pid ''projectId'') (Inr (grant_evidence_of t pid))"

text \<open>\<open>assertMemoryText\<close> returns the text with its runs of blanks made one space each.\<close>

fun collapse_blanks :: "string \<Rightarrow> string" where
  "collapse_blanks [] = []"
| "collapse_blanks (c # s) =
     (if \<not> js_space c then c # collapse_blanks s
      else if s \<noteq> [] \<and> js_space (hd s) then collapse_blanks s
      else CHR '' '' # collapse_blanks s)"

definition assertMemoryText :: "string \<Rightarrow> nat \<Rightarrow> string \<Rightarrow> string result" where
  "assertMemoryText v limit field =
     (let s = js_trim (collapse_blanks v) in
      if s = [] \<or> limit < length s
      then Inl (TypeError (field @ '' must be between 1 and '' @ show_nat limit @ '' characters'')) else Inr s)"

definition revokeMergeAuthority ::
  "grant_tables \<Rightarrow> string \<Rightarrow> string \<Rightarrow> js_number \<Rightarrow> string option \<Rightarrow> string option \<Rightarrow> (grant_tables \<times> bool) result" where
  "revokeMergeAuthority t pid reason now user chat =
     rthen (assertControllerIdentifier pid ''projectId'')
    (rthen (assertNonNegativeInteger now ''now'')
    (rbind (assertMemoryText reason 200 ''revocation reason'') (\<lambda>why.
       (let hit = (\<lambda>g. grantProjectId g = pid \<and> grantRevokedAt g = None);
            clearedGrant = (changes hit (merge_authority t) = 1);
            t1 = t\<lparr>merge_authority := update_where hit
                   (\<lambda>g. g\<lparr>grantRevokedAt := Some (whole now), grantRevokedReason := Some why\<rparr>) (merge_authority t)\<rparr>;
            silencedPolicyGrant = (resolveMergeGrant (Some pid) None (map_option storedPolicy (getProjectPolicy t1 pid))
              ((grant_evidence_of t1 pid)\<lparr>standingGrant := None\<rparr>) None = Some PolicyGrant);
            revoked = (clearedGrant \<or> silencedPolicyGrant)
        in Inr (if revoked
                then appendMergeAuthorityEvent \<lparr>geProjectId = pid, geAction = GrantRevoked, geJobId = None, geActorUserId = user,
                       geActorChatId = chat, geReason = Some why, geOccurredAt = whole now\<rparr> t1
                else t1, revoked)))))"

definition recordMergeAuthorityUse :: "grant_tables \<Rightarrow> string \<Rightarrow> string \<Rightarrow> js_number \<Rightarrow> grant_tables result" where
  "recordMergeAuthorityUse t pid jid now =
     rthen (assertControllerIdentifier pid ''projectId'')
    (rthen (assertNonNegativeInteger now ''now'')
       (Inr (appendMergeAuthorityEvent \<lparr>geProjectId = pid, geAction = GrantUsed, geJobId = Some jid, geActorUserId = None,
          geActorChatId = None, geReason = None, geOccurredAt = whole now\<rparr> t)))"

subsection \<open>Issuing an approval\<close>

text \<open>
  What the effect \<open>issue_approval\<close> does with a job: \<open>j\<close> is the job it was dispatched with, \<open>current\<close> the
  job as it is read again before anything changes.  The value is the step taken: nothing, a pause for a
  policy decision, the acceptance of a task's merge (by the store), an event applied to \<open>current\<close> (with
  the use of a standing grant recorded or not), or the issue of a one-use approval to the owner.
\<close>

datatype approval_step =
  NoStep | PauseForPolicy string | AcceptTaskMerge job | ApplyToJob job job_event | ApplyRecorded job job_event |
  IssueApproval "string option" bool

definition no_evidence :: grant_evidence where
  "no_evidence = \<lparr>standingGrant = None, lastRevokedAt = None, policyStoredAt = None\<rparr>"

definition policy_pause :: "job \<Rightarrow> string option" where
  "policy_pause j =
     (if \<not> policy_has_production (policy j) \<and> \<not> merges_without_production (policy j)
      then Some ''No production policy or merge-without-production permission is configured for this project''
      else if policy_has_production (policy j) \<and> \<not> productionHasRollbackCommand (policy j)
      then Some ''This project deploys to production with no rollback command, so a failed unattended release cannot be restored''
      else None)"

definition still_awaits :: "job \<Rightarrow> job option \<Rightarrow> job option" where
  "still_awaits j current =
     (case current of None \<Rightarrow> None
      | Some c \<Rightarrow> if state c \<noteq> AwaitingMergeApproval \<or> prHeadSha c \<noteq> prHeadSha j then None else Some c)"

definition accept_merge :: "job \<Rightarrow> job \<Rightarrow> bool \<Rightarrow> bool \<Rightarrow> approval_step" where
  "accept_merge j c taskGrant recorded =
     (if taskGrant then AcceptTaskMerge c
      else if recorded then ApplyRecorded c (APPROVAL_ACCEPTED (the (prHeadSha j)))
      else ApplyToJob c (APPROVAL_ACCEPTED (the (prHeadSha j))))"

definition decided_step :: "job \<Rightarrow> job option \<Rightarrow> grant_source option \<Rightarrow> task_authority option \<Rightarrow> approval_decision \<Rightarrow> approval_step" where
  "decided_step j current live ta d =
     (let ask = (\<lambda>why. IssueApproval why (live \<noteq> None)) in
      case d of
        AwaitConsensus \<Rightarrow> NoStep
      | StartConsensus \<Rightarrow> (case still_awaits j current of
            None \<Rightarrow> NoStep | Some c \<Rightarrow> ApplyToJob c (CONSENSUS_REQUIRED (the (prHeadSha j))))
      | ContinueRemediation why \<Rightarrow> (case current of
            None \<Rightarrow> NoStep
          | Some c \<Rightarrow> if state c \<noteq> AwaitingMergeApproval then NoStep else ApplyToJob c (REMEDIATION_CONTINUED why))
      | AutoApprove \<Rightarrow>
          if projectId j = None then ask None
          else (case still_awaits j current of
            None \<Rightarrow> NoStep | Some c \<Rightarrow> accept_merge j c (live = Some TaskGrant \<and> ta \<noteq> None) True)
      | AskOwner why \<Rightarrow> ask (Some why))"

definition issueApproval ::
  "grant_tables \<Rightarrow> job \<Rightarrow> job option \<Rightarrow> task_authority option \<Rightarrow> consensus_evidence result \<Rightarrow> approval_step result" where
  "issueApproval t j current ta cons =
     (if \<not> truthy_str (prHeadSha j)
      then Inl (NamedError ''PermanentEffectError'' ''approval requires an authoritative pull-request head'')
      else rbind (case projectId j of None \<Rightarrow> Inr None
             | Some pid \<Rightarrow> rbind (getMergeGrantEvidence t pid) (\<lambda>ev. Inr (Some ev))) (\<lambda>ev.
        (let live = (case ev of None \<Rightarrow> None | Some e \<Rightarrow> resolveMergeGrant (projectId j) (Some (job_id j)) (policy j) e ta);
             pause = (if live = Some TaskGrant \<and> map_option taOutcome ta = Some ShippedChange then policy_pause j else None)
         in case pause of
              Some blocker \<Rightarrow> Inr (case still_awaits j current of None \<Rightarrow> NoStep | Some _ \<Rightarrow> PauseForPolicy blocker)
            | None \<Rightarrow>
                if mergePreApprovedAt j \<noteq> None
                then Inr (case still_awaits j current of
                    None \<Rightarrow> NoStep
                  | Some c \<Rightarrow> if mergePreApprovedAt c = None \<or> cancelRequestedAt c \<noteq> None then NoStep
                             else accept_merge j c (live = Some TaskGrant \<and> ta \<noteq> None) False)
                else rbind cons (\<lambda>cv.
                  Inr (decided_step j current live ta
                    (decideAutoApproval j (case ev of None \<Rightarrow> no_evidence | Some e \<Rightarrow> e) ta (Some cv)))))))"

end
