(* ===== verification/Policy_Properties.thy ===== *)
theory Policy_Properties
  imports Merge_Authority Pipeline_Demo
begin

text \<open>
  What a stage runs on is always something its provider takes; a second opinion never comes from the
  provider of the first; and nothing merges without the owner but under a live grant.
\<close>

subsection \<open>Stages\<close>

lemma preferred: "m \<in> set PERMISSION_PREFERENCE"
  by (cases m) (simp_all add: PERMISSION_PREFERENCE_def)

lemma modes_not_empty: "providerPermissionModes p \<noteq> []"
  by (auto simp: providerPermissionModes_def EXECUTION_PROVIDER_PERMISSION_MODES_def UNKNOWN_PROVIDER_PERMISSION_MODES_def
      split: option.splits if_splits)

lemma compatible_is_honoured: "providerHonoursPermissionMode p (compatiblePermissionMode p m)"
proof (cases "providerHonoursPermissionMode p m")
  case False
  obtain n where n: "n \<in> set (providerPermissionModes p)" using modes_not_empty [of p] by (meson last_in_set)
  have "List.find (List.member (providerPermissionModes p)) PERMISSION_PREFERENCE \<noteq> None"
    using n preferred [of n] by (auto simp: find_None_iff)
  then obtain k where k: "List.find (List.member (providerPermissionModes p)) PERMISSION_PREFERENCE = Some k" by blast
  then have "List.member (providerPermissionModes p) k" by (auto simp: find_Some_iff)
  with False k show ?thesis unfolding compatiblePermissionMode_def by (simp add: providerHonoursPermissionMode_def Let_def)
qed (simp add: compatiblePermissionMode_def)

lemma resolved_mode_is_honoured: "providerHonoursPermissionMode p (opt_default (resolvedPermissionMode p m) AutoMode)"
  by (auto simp: resolvedPermissionMode_def opt_default_def compatible_is_honoured split: option.splits)

lemma tier_entries: "\<exists>e. stageModelEntry (routeModel (STAGE_TIER_ROUTES t)) = Some e \<and> entryProviderId e = ''codex''"
  by (cases t) (simp_all add: stageModelEntry_def PIPELINE_MODEL_CATALOG_def)

lemma escalated: "0 \<le> n \<Longrightarrow> tier_rank (escalatedTier b n) = min (tier_rank b + n) 2"
proof -
  assume "0 \<le> n"
  then consider "n = 0" | "n = 1" | "2 \<le> n" by linarith
  then show ?thesis by cases (cases b; simp add: escalatedTier_def stage_tiers_def min_def eval_nat_numeral)+
qed

lemma validated_entry:
  assumes "\<not> isl (validateStageModel prov mdl svc perm)"
  shows "case mdl of None \<Rightarrow> prov = None
    | Some m \<Rightarrow> \<exists>e. stageModelEntry m = Some e \<and> (prov = None \<or> prov = Some (entryProviderId e))"
  using assms by (auto simp: validateStageModel_def Let_def split: if_splits option.splits)

lemma stage_in_all: "st \<in> set all_stages"
  by (cases st) (simp_all add: all_stages_def)

definition stage_policy_ok :: "stage_execution_policy option \<Rightarrow> bool" where
  "stage_policy_ok pol \<longleftrightarrow> (case pol of None \<Rightarrow> True | Some p \<Rightarrow> stageExecutionPolicy_ok p)"

lemma configured_ok:
  assumes "stage_policy_ok pol" "(case pol of None \<Rightarrow> None | Some p \<Rightarrow> p st) = Some c"
  shows "stageExecutionProfile_ok c"
  using assms stage_in_all [of st] by (auto simp: stage_policy_ok_def stageExecutionPolicy_ok_def list_all_iff split: option.splits)

lemma default_escalations: "0 \<le> defaultMaxEscalations (DEFAULT_STAGE_PROFILES st) \<and> defaultMaxEscalations (DEFAULT_STAGE_PROFILES st) \<le> 2"
  by (cases st) simp_all

lemma resolved_fields:
  fixes st pol legacy steps
  defines "r \<equiv> resolveStageExecution st pol legacy steps"
  shows "escalationSteps r = (if modelPinned r then 0 else min (max 0 (opt_default steps 0)) (maxEscalations r))"
    and "tier r = escalatedTier (baseTier r) (escalationSteps r)"
    and "providerHonoursPermissionMode (providerId r) (opt_default (permissionMode r) AutoMode)"
    and "stageModelEntry (model r) = Some e \<Longrightarrow> \<not> supportsServiceTier e \<Longrightarrow> serviceTier r = DefaultTier"
    and "maxEscalations r = (case (case pol of None \<Rightarrow> None | Some p \<Rightarrow> p st) of None \<Rightarrow> defaultMaxEscalations (DEFAULT_STAGE_PROFILES st)
           | Some c \<Rightarrow> opt_default (xMaxEscalations c) (defaultMaxEscalations (DEFAULT_STAGE_PROFILES st)))"
  unfolding r_def resolveStageExecution_def Let_def
  by (simp_all add: resolved_mode_is_honoured)

lemma resolved_escalations:
  assumes "stage_policy_ok pol"
  shows "0 \<le> maxEscalations (resolveStageExecution st pol legacy steps) \<and> maxEscalations (resolveStageExecution st pol legacy steps) \<le> 2"
proof (cases "case pol of None \<Rightarrow> None | Some p \<Rightarrow> p st")
  case None
  with default_escalations [of st] show ?thesis by (simp add: resolved_fields(5))
next
  case (Some c)
  with configured_ok [OF assms Some] default_escalations [of st] show ?thesis
    by (auto simp: resolved_fields(5) stageExecutionProfile_ok_def opt_default_def split: option.splits)
qed

lemma resolved_route:
  fixes st pol legacy steps
  defines "r \<equiv> resolveStageExecution st pol legacy steps"
    and "c \<equiv> (case pol of None \<Rightarrow> None | Some p \<Rightarrow> p st)"
  defines "over \<equiv> merged_overrides (if c = None then legacyProfileFor st legacy else None) c"
  shows "model r = opt_default (xModel over) (routeModel (STAGE_TIER_ROUTES (tier r)))"
    and "providerId r = opt_default (xProviderId over) (case stageModelEntry (model r) of Some e \<Rightarrow> entryProviderId e
       | None \<Rightarrow> routeProviderId (STAGE_TIER_ROUTES (tier r)))"
  unfolding r_def over_def c_def resolveStageExecution_def Let_def by (simp_all only: resolved_stage_execution.simps)

lemma resolved_model:
  assumes "stage_policy_ok pol" "source (resolveStageExecution st pol legacy steps) \<noteq> LegacyPolicy"
  shows "\<exists>e. stageModelEntry (model (resolveStageExecution st pol legacy steps)) = Some e \<and>
    entryProviderId e = providerId (resolveStageExecution st pol legacy steps)"
proof (cases "case pol of None \<Rightarrow> None | Some p \<Rightarrow> p st")
  case None
  with assms(2) have "legacyProfileFor st legacy = None"
    by (auto simp: resolveStageExecution_def Let_def split: if_splits)
  with None tier_entries show ?thesis
    by (auto simp: resolveStageExecution_def Let_def merged_overrides_def opt_default_def empty_profile_def split: option.splits)
next
  case (Some c)
  from validated_entry configured_ok [OF assms(1) Some]
  have v: "case xModel c of None \<Rightarrow> xProviderId c = None
      | Some m \<Rightarrow> \<exists>e. stageModelEntry m = Some e \<and> (xProviderId c = None \<or> xProviderId c = Some (entryProviderId e))"
    by (auto simp: stageExecutionProfile_ok_def)
  let ?r = "resolveStageExecution st pol legacy steps"
  have r: "model ?r = opt_default (xModel c) (routeModel (STAGE_TIER_ROUTES (tier ?r)))"
    "providerId ?r = opt_default (xProviderId c) (case stageModelEntry (model ?r) of Some e \<Rightarrow> entryProviderId e
       | None \<Rightarrow> routeProviderId (STAGE_TIER_ROUTES (tier ?r)))"
    using resolved_route [of st pol legacy steps] Some by (simp_all add: merged_overrides_def Let_def opt_default_def empty_profile_def)
  from tier_entries [of "tier ?r"] obtain e where e: "stageModelEntry (routeModel (STAGE_TIER_ROUTES (tier ?r))) = Some e" by blast
  show ?thesis
  proof (cases "xModel c")
    case None
    with v have "model ?r = routeModel (STAGE_TIER_ROUTES (tier ?r))" "xProviderId c = None" using r by (auto simp: opt_default_def)
    with e r(2) show ?thesis by (simp add: opt_default_def)
  next
    case (Some m)
    with v r(1) have "model ?r = m" by (simp add: opt_default_def)
    with v r(2) Some show ?thesis by (auto simp: opt_default_def)
  qed
qed

lemma provider_ignores_steps:
  "providerId (resolveStageExecution st pol legacy steps) = providerId (resolveStageExecution st pol legacy steps')"
proof -
  have "opt_default p (case stageModelEntry (opt_default m (routeModel (STAGE_TIER_ROUTES t))) of Some e \<Rightarrow> entryProviderId e
       | None \<Rightarrow> routeProviderId (STAGE_TIER_ROUTES t)) =
     opt_default p (case stageModelEntry (opt_default m (routeModel (STAGE_TIER_ROUTES t'))) of Some e \<Rightarrow> entryProviderId e
       | None \<Rightarrow> routeProviderId (STAGE_TIER_ROUTES t'))" for p m t t'
  proof (cases m)
    case None
    with tier_entries [of t] tier_entries [of t'] show ?thesis by (auto simp: opt_default_def split: option.splits)
  next
    case (Some x)
    have "routeProviderId (STAGE_TIER_ROUTES t) = routeProviderId (STAGE_TIER_ROUTES t')" by (cases t; cases t') simp_all
    with Some show ?thesis by (auto simp: opt_default_def split: option.splits)
  qed
  then show ?thesis unfolding resolveStageExecution_def Let_def by (simp only: resolved_stage_execution.simps)
qed

lemma consensus_is_independent:
  "resolveConsensusExecution pol legacy pinned = Some r \<Longrightarrow> providerId r \<noteq> reviewStageProviderId pol legacy"
  by (auto simp: resolveConsensusExecution_def reviewStageProviderId_def Let_def split: option.splits if_splits)

subsection \<open>Grants\<close>

text \<open>What the decision to merge without the owner rests on.\<close>

definition release_is_covered :: "project_policy option \<Rightarrow> bool" where
  "release_is_covered p \<longleftrightarrow> (if policy_has_production p then productionHasRollbackCommand p else merges_without_production p)"

lemma auto_approval_rests_on:
  assumes "decideAutoApproval j ev ta cons = AutoApprove"
  shows "resolveMergeGrant (projectId j) (Some (job_id j)) (policy j) ev ta \<noteq> None" "cancelRequestedAt j = None"
    "truthy_str (prHeadSha j)" "release_is_covered (policy j)"
    "reviewCycle j < REMEDIATION_ASK_THRESHOLD \<or> (\<exists>c. cons = Some c \<and> routeAvailable c \<and> assessment c = ConsensusPass)"
  using assms
  by (auto simp: decideAutoApproval_def release_is_covered_def decideRemediatedChange_def
      split: option.splits if_splits consensus_assessment.splits)

lemma consensus_attempt_of:
  assumes "getConsensusReviewAttempt attempts jid head = Inr (Some b)"
  shows "b \<in> set attempts \<and> attemptRowJobId b = jid \<and> attemptIsReview b \<and> attemptReviewStage b = Some ''consensus''"
proof -
  from assms obtain bs where "select_ordered (\<lambda>a. attemptRowJobId a = jid \<and> attemptIsReview a \<and> attemptReviewStage a = Some ''consensus'' \<and>
      reviewLens a = Some ConsensusLens \<and> attemptHeadSha a = Some head) (\<lambda>a. (- attemptOrdinal a, attemptId a)) 1 attempts = b # bs"
    by (auto simp: getConsensusReviewAttempt_def rthen_eq_Inr split: list.splits)
  then have "b \<in> set (select_ordered (\<lambda>a. attemptRowJobId a = jid \<and> attemptIsReview a \<and> attemptReviewStage a = Some ''consensus'' \<and>
      reviewLens a = Some ConsensusLens \<and> attemptHeadSha a = Some head) (\<lambda>a. (- attemptOrdinal a, attemptId a)) 1 attempts)" by simp
  from set_select_ordered [OF this] show ?thesis by simp
qed

lemma consensus_of_the_head:
  assumes "consensusEvidence parse sha256 lc db attempts j = Inr c" "routeAvailable c" "assessment c = ConsensusPass"
  shows "\<exists>r a s. consensusExecution j = Some r \<and> a \<in> set attempts \<and> attemptRowJobId a = job_id j \<and> attemptIsReview a \<and>
    attemptReviewStage a = Some ''consensus'' \<and> reviewLens a = Some ConsensusLens \<and>
    attemptHeadSha a = prHeadSha j \<and> parseSettledLens parse sha256 lc ConsensusLens (resultJson a) (the (prHeadSha j)) = Inr (LensSettled s) \<and>
    settledOutcome s = ReviewPass \<and> settledFindings s = []"
proof -
  from assms obtain head a v where h: "prHeadSha j = Some head" and a: "getConsensusReviewAttempt attempts (job_id j) head = Inr a"
      and v: "assessConsensusReview parse sha256 lc (map_option lens_attempt.truncate a) head = Inr v" "v = ConsensusPass"
      and r: "consensusExecution j \<noteq> None"
    by (cases "prHeadSha j") (auto simp: consensusEvidence_def Let_def rbind_eq_Inr split: if_splits)
  from v obtain b x where b: "a = Some b" "reviewLens b = Some ConsensusLens" "attemptHeadSha b = Some head"
      and x: "parseSettledLens parse sha256 lc ConsensusLens (resultJson b) head = Inr x"
        "(case x of LensPending \<Rightarrow> ConsensusPending | LensInvalid \<Rightarrow> ConsensusNotPass
          | LensSettled s \<Rightarrow> if settledOutcome s = ReviewPass \<and> settledFindings s = [] then ConsensusPass else ConsensusNotPass) = ConsensusPass"
    by (auto simp: assessConsensusReview_def rbind_eq_Inr lens_attempt.truncate_def split: option.splits if_splits)
  from x(2) obtain s where "x = LensSettled s" "settledOutcome s = ReviewPass" "settledFindings s = []"
    by (cases x) (auto split: if_splits)
  with b x(1) have b: "a = Some b" "reviewLens b = Some ConsensusLens" "attemptHeadSha b = Some head"
      "parseSettledLens parse sha256 lc ConsensusLens (resultJson b) head = Inr (LensSettled s)" "settledOutcome s = ReviewPass" "settledFindings s = []"
    by simp_all
  from consensus_attempt_of [of attempts "job_id j" head b] a b(1)
  have "b \<in> set attempts \<and> attemptRowJobId b = job_id j \<and> attemptIsReview b \<and> attemptReviewStage b = Some ''consensus''" by simp
  with b r h show ?thesis by auto
qed

subsection \<open>Withdrawal\<close>

text \<open>The steps on the grants that neither grant a project its standing approval nor store its policy.\<close>

inductive other_grant_step :: "js_runtime \<Rightarrow> string \<Rightarrow> grant_tables \<Rightarrow> grant_tables \<Rightarrow> bool" for rt pid where
  granted: "grantMergeAuthority t q user chat now = Inr (t', g) \<Longrightarrow> q \<noteq> pid \<Longrightarrow> other_grant_step rt pid t t'"
| stored: "upsertProjectPolicy rt t p now = Inr (t', r) \<Longrightarrow> policyProjectId p \<noteq> pid \<Longrightarrow> other_grant_step rt pid t t'"
| withdrawn: "revokeMergeAuthority t q reason now user chat = Inr (t', b) \<Longrightarrow> other_grant_step rt pid t t'"
| used: "recordMergeAuthorityUse t q jid now = Inr t' \<Longrightarrow> other_grant_step rt pid t t'"

definition silenced :: "string \<Rightarrow> int \<Rightarrow> grant_tables \<Rightarrow> bool" where
  "silenced pid at t \<longleftrightarrow> (\<forall>g \<in> set (merge_authority t). grantProjectId g = pid \<longrightarrow> grantRevokedAt g \<noteq> None) \<and>
     (\<exists>e \<in> set (merge_authority_events t). geProjectId e = pid \<and> geAction e = GrantRevoked \<and> at \<le> geOccurredAt e) \<and>
     (\<forall>r \<in> set (project_policies t). policyProjectId (storedPolicy r) = pid \<longrightarrow> storedUpdatedAt r \<le> at)"

lemma parsed_policy: "projectPolicySchema_parse rt p = Inr v \<Longrightarrow> v = p"
  by (auto simp: projectPolicySchema_parse_def split: if_splits)

lemma silenced_step:
  assumes "other_grant_step rt pid t t'" "silenced pid at t"
  shows "silenced pid at t'"
  using assms
proof cases
  case (granted q user chat now g)
  with assms(2) show ?thesis
    by (auto simp: silenced_def grantMergeAuthority_def appendMergeAuthorityEvent_def rthen_eq_Inr update_where_def Let_def
        split: if_splits option.splits)
next
  case (stored p now r)
  then obtain v where v: "projectPolicySchema_parse rt p = Inr v" by (auto simp: upsertProjectPolicy_def rbind_eq_Inr)
  with stored(1) have t': "merge_authority t' = merge_authority t" "merge_authority_events t' = merge_authority_events t"
      "\<forall>r \<in> set (project_policies t'). r \<in> set (project_policies t) \<or> policyProjectId (storedPolicy r) = policyProjectId v"
    by (auto simp: upsertProjectPolicy_def rbind_eq_Inr Let_def update_where_def split: if_splits option.splits)
  with stored(2) parsed_policy [OF v] assms(2) show ?thesis unfolding silenced_def by auto
next
  case (withdrawn q reason now user chat b)
  with assms(2) show ?thesis
    by (auto simp: silenced_def revokeMergeAuthority_def appendMergeAuthorityEvent_def rthen_eq_Inr rbind_eq_Inr update_where_def Let_def
        split: if_splits)
next
  case used
  with assms(2) show ?thesis
    by (auto simp: silenced_def recordMergeAuthorityUse_def appendMergeAuthorityEvent_def rthen_eq_Inr)
qed

lemma silenced_grant:
  assumes "silenced pid at t"
  shows "resolveMergeGrant (Some pid) jid pol (grant_evidence_of t pid) ta = (if taskGrantIsLive ta (Some pid) jid then Some TaskGrant else None)"
proof -
  have button: "\<not> grantIsLive (grant_of t pid) (Some pid)"
  proof (cases "grant_of t pid")
    case (Some g)
    then have "g \<in> set (merge_authority t) \<and> grantProjectId g = pid" unfolding grant_of_def by (rule get_where_Some)
    with assms Some show ?thesis by (simp add: grantIsLive_def silenced_def)
  qed (simp add: grantIsLive_def)
  let ?at = "map geOccurredAt (filter (\<lambda>e. geProjectId e = pid \<and> geAction e = GrantRevoked) (merge_authority_events t))"
  from assms obtain x where x: "x \<in> set ?at" "at \<le> x" by (auto simp: silenced_def)
  have "?at \<noteq> []" using x(1) by (cases ?at) simp_all
  then have last: "last_revocation t pid = Some (Max (set ?at))" unfolding last_revocation_def Let_def by (rule if_not_P)
  have "x \<le> Max (set ?at)" using x(1) by (rule Max_ge [OF finite_set])
  with x(2) have "at \<le> Max (set ?at)" by (rule order_trans)
  with last obtain r where r: "last_revocation t pid = Some r" "at \<le> r" by blast
  have "s \<le> at" if "policyStoredAt (grant_evidence_of t pid) = Some s" for s
  proof -
    from that obtain p where p: "get_where (\<lambda>r. policyProjectId (storedPolicy r) = pid \<and> enabled (storedPolicy r)) (project_policies t) = Some p"
        "s = storedUpdatedAt p" by (auto simp: grant_evidence_of_def)
    from get_where_Some [OF p(1)] assms p(2) show ?thesis by (simp add: silenced_def)
  qed
  with r have "\<not> policyGrantIsLive pol (grant_evidence_of t pid)"
    by (fastforce simp: policyGrantIsLive_def grant_evidence_of_def split: option.splits)
  with button show ?thesis by (simp add: resolveMergeGrant_def grant_evidence_of_def)
qed

lemma withdrawal_silences:
  assumes "revokeMergeAuthority t pid reason now user chat = Inr (t1, True)"
    "\<forall>r \<in> set (project_policies t). policyProjectId (storedPolicy r) = pid \<longrightarrow> storedUpdatedAt r \<le> whole now"
  shows "silenced pid (whole now) t1"
proof -
  from assms(1) obtain why e where t1: "t1 = appendMergeAuthorityEvent e (t\<lparr>merge_authority :=
        update_where (\<lambda>g. grantProjectId g = pid \<and> grantRevokedAt g = None)
          (\<lambda>g. g\<lparr>grantRevokedAt := Some (whole now), grantRevokedReason := Some why\<rparr>) (merge_authority t)\<rparr>)"
      "geProjectId e = pid" "geAction e = GrantRevoked" "geOccurredAt e = whole now"
    unfolding revokeMergeAuthority_def Let_def by (fastforce simp: rthen_eq_Inr rbind_eq_Inr simp del: not_None_eq)
  with assms(2) show ?thesis by (auto simp: silenced_def appendMergeAuthorityEvent_def update_where_def)
qed

lemma silenced_run: "(other_grant_step rt pid)\<^sup>*\<^sup>* t t' \<Longrightarrow> silenced pid at t \<Longrightarrow> silenced pid at t'"
  by (induction rule: rtranclp_induct) (auto intro: silenced_step)

subsection \<open>Properties\<close>

text \<open>C22: whatever a project configures, a resolved stage is legal: its provider takes the permission mode it is spawned with (the
  usual automatic mode when none is sent), its tier is its base tier raised by the steps taken, which stay within the stage's
  limit of at most two, a pinned model is never escalated, a model without a fast tier runs on the default one, and, unless a
  stored profile from before the stage table decides, the model is in the catalog and belongs to the provider.
\<close>

theorem resolved_stage_is_legal:
  assumes "stage_policy_ok pol"
  shows "let r = resolveStageExecution st pol legacy steps in
    providerHonoursPermissionMode (providerId r) (opt_default (permissionMode r) AutoMode) \<and>
    tier_rank (tier r) = min (tier_rank (baseTier r) + escalationSteps r) 2 \<and>
    0 \<le> escalationSteps r \<and> escalationSteps r \<le> maxEscalations r \<and> maxEscalations r \<le> 2 \<and>
    (modelPinned r \<longrightarrow> tier r = baseTier r) \<and>
    (\<forall>e. stageModelEntry (model r) = Some e \<and> \<not> supportsServiceTier e \<longrightarrow> serviceTier r = DefaultTier) \<and>
    (source r \<noteq> LegacyPolicy \<longrightarrow> (\<exists>e. stageModelEntry (model r) = Some e \<and> entryProviderId e = providerId r))"
proof -
  define r where "r = resolveStageExecution st pol legacy steps"
  have max: "0 \<le> maxEscalations r" "maxEscalations r \<le> 2" using resolved_escalations [OF assms(1)] by (simp_all add: r_def)
  have steps: "escalationSteps r = (if modelPinned r then 0 else min (max 0 (opt_default steps 0)) (maxEscalations r))"
    and tier: "tier r = escalatedTier (baseTier r) (escalationSteps r)"
    unfolding r_def by (rule resolved_fields)+
  from steps max have bounds: "0 \<le> escalationSteps r" "escalationSteps r \<le> maxEscalations r" by auto
  have rank: "tier_rank (tier r) = min (tier_rank (baseTier r) + escalationSteps r) 2" unfolding tier by (rule escalated [OF bounds(1)])
  have "tier_rank (baseTier r) \<le> 2" by (cases "baseTier r") simp_all
  with rank steps have "modelPinned r \<longrightarrow> tier r = baseTier r" by (simp add: tier_rank_inject [symmetric])
  with max bounds rank resolved_fields(3,4) [of st pol legacy steps] resolved_model [OF assms(1), of st legacy steps] show ?thesis
    unfolding Let_def r_def [symmetric] by blast
qed

theorem resolved_stage_is_legal_witness:
  "providerHonoursPermissionMode (providerId (resolveStageExecution ReviewStage None None (Some 3)))
     (opt_default (permissionMode (resolveStageExecution ReviewStage None None (Some 3))) AutoMode)"
  using resolved_stage_is_legal [of None ReviewStage None "Some 3"] by (simp add: stage_policy_ok_def Let_def)

text \<open>the second opinion on a change never comes from the provider of its reviews: when a job may have a consensus pass, every
  review worker of the job, at any attempt, is spawned on a provider other than the one the pass is spawned on.
\<close>

theorem consensus_runs_elsewhere:
  assumes "consensusExecution j = Some r" "policy j = Some p"
  shows "consensusExecutionArgs p = Inr (stageExecutionSpawnArgs r) \<and>
    (\<exists>args. workerExecutionArgs j ordinal profile p ReviewStage = Inr args \<and>
       spawnProviderId args \<noteq> spawnProviderId (stageExecutionSpawnArgs r))"
proof -
  from assms have r: "routingMode j \<noteq> ActiveRouting" "policy_consensus p = Some r"
    by (auto simp: consensusExecution_def split: if_splits)
  let ?review = "\<lambda>n. resolveStageExecution ReviewStage (stageExecution p) (Some (policy_legacy p)) n"
  from r(2) have "providerId r \<noteq> providerId (?review None)"
    using consensus_is_independent by (auto simp: policy_consensus_def reviewStageProviderId_def)
  then have "providerId (?review n) \<noteq> providerId r" for n
    using provider_ignores_steps [of ReviewStage "stageExecution p" "Some (policy_legacy p)" n None] by simp
  with r show ?thesis
    by (simp add: consensusExecutionArgs_def workerExecutionArgs_def stageExecutionArgs_def jobStageExecution_def Let_def
        stageExecutionSpawnArgs_def executionSpawnArgs_def)
qed

lemma consensus_on_other_provider:
  assumes "consensusExecution j = Some r"
  shows "\<exists>p. policy j = Some p \<and> policy_consensus p = Some r \<and>
    (\<forall>n. providerId (resolveStageExecution ReviewStage (stageExecution p) (Some (policy_legacy p)) n) \<noteq> providerId r)"
proof -
  from assms obtain p where p: "policy j = Some p" "policy_consensus p = Some r"
    by (auto simp: consensusExecution_def split: option.splits if_splits)
  let ?review = "\<lambda>n. resolveStageExecution ReviewStage (stageExecution p) (Some (policy_legacy p)) n"
  from p(2) have "providerId r \<noteq> providerId (?review None)"
    using consensus_is_independent by (auto simp: policy_consensus_def reviewStageProviderId_def)
  then have "providerId (?review n) \<noteq> providerId r" for n
    using provider_ignores_steps [of ReviewStage "stageExecution p" "Some (policy_legacy p)" n None] by simp
  with p show ?thesis by blast
qed

definition starts_merge :: "approval_step \<Rightarrow> job \<Rightarrow> bool" where
  "starts_merge s c \<longleftrightarrow> s = AcceptTaskMerge c \<or> (\<exists>h. s = ApplyToJob c (APPROVAL_ACCEPTED h) \<or> s = ApplyRecorded c (APPROVAL_ACCEPTED h))"

lemma decided_merge:
  assumes "starts_merge (decided_step j current live ta d) c"
  shows "d = AutoApprove \<and> projectId j \<noteq> None \<and> still_awaits j current = Some c"
  using assms by (auto simp: starts_merge_def decided_step_def accept_merge_def Let_def split: approval_decision.splits option.splits if_splits)

lemma accepted_merge: "starts_merge (accept_merge j c task recorded) d \<Longrightarrow> d = c"
  by (auto simp: starts_merge_def accept_merge_def split: if_splits)

lemma still_awaits_Some: "still_awaits j current = Some c \<longleftrightarrow> current = Some c \<and> state c = AwaitingMergeApproval \<and> prHeadSha c = prHeadSha j"
  by (auto simp: still_awaits_def split: option.splits)

text \<open>C23: a merge that the effect of issuing an approval sets going is always of a job that, read again, still awaits its approval
  at the head the effect was dispatched for; and either the owner approved it beforehand and has not asked it to stop, or a
  grant is live, the job was not asked to stop, its project can roll back what it deploys (or may merge without deploying),
  and, after two rounds of review fixes, a review attempt of the consensus stage, with the consensus lens and on that very head,
  passed without a finding, where the consensus reviewer of the job is routed to another provider than its reviews ever are.
\<close>

theorem merge_without_owner_is_covered:
  assumes "issueApproval t j current ta (consensusEvidence parse sha256 lc db attempts j) = Inr s" "starts_merge s c"
  shows "current = Some c \<and> state c = AwaitingMergeApproval \<and> prHeadSha c = prHeadSha j \<and> truthy_str (prHeadSha j) \<and>
    (if mergePreApprovedAt j \<noteq> None then mergePreApprovedAt c \<noteq> None \<and> cancelRequestedAt c = None
     else cancelRequestedAt j = None \<and> release_is_covered (policy j) \<and>
       (\<exists>pid. projectId j = Some pid \<and> resolveMergeGrant (Some pid) (Some (job_id j)) (policy j) (grant_evidence_of t pid) ta \<noteq> None) \<and>
       (reviewCycle j < REMEDIATION_ASK_THRESHOLD \<or>
        (\<exists>r a v. consensusExecution j = Some r \<and> a \<in> set attempts \<and> attemptRowJobId a = job_id j \<and> attemptHeadSha a = prHeadSha j \<and>
           attemptIsReview a \<and> attemptReviewStage a = Some ''consensus'' \<and> reviewLens a = Some ConsensusLens \<and>
           (\<exists>p. policy j = Some p \<and> policy_consensus p = Some r \<and>
              (\<forall>n. providerId (resolveStageExecution ReviewStage (stageExecution p) (Some (policy_legacy p)) n) \<noteq> providerId r)) \<and>
           parseSettledLens parse sha256 lc ConsensusLens (resultJson a) (the (prHeadSha j)) = Inr (LensSettled v) \<and>
           settledOutcome v = ReviewPass \<and> settledFindings v = [])))"
proof -
  from assms(1) obtain ev cv where head: "truthy_str (prHeadSha j)"
      and ev: "ev = None \<and> projectId j = None \<or> (\<exists>pid. projectId j = Some pid \<and> ev = Some (grant_evidence_of t pid))"
      and s: "mergePreApprovedAt j \<noteq> None \<and> (\<exists>task. s = (case still_awaits j current of None \<Rightarrow> NoStep
            | Some c \<Rightarrow> if mergePreApprovedAt c = None \<or> cancelRequestedAt c \<noteq> None then NoStep else accept_merge j c task False)) \<or>
          (\<exists>b. s = (case still_awaits j current of None \<Rightarrow> NoStep | Some _ \<Rightarrow> PauseForPolicy b)) \<or>
          mergePreApprovedAt j = None \<and> consensusEvidence parse sha256 lc db attempts j = Inr cv \<and>
          (\<exists>live. s = decided_step j current live ta
            (decideAutoApproval j (case ev of None \<Rightarrow> no_evidence | Some e \<Rightarrow> e) ta (Some cv)))"
    by (force simp: issueApproval_def Let_def rbind_eq_Inr getMergeGrantEvidence_def rthen_eq_Inr split: if_splits option.splits)
  from s show ?thesis
  proof (elim disjE conjE exE)
    fix b assume "s = (case still_awaits j current of None \<Rightarrow> NoStep | Some _ \<Rightarrow> PauseForPolicy b)"
    with assms(2) show ?thesis by (auto simp: starts_merge_def split: option.splits)
  next
    fix task assume pre: "mergePreApprovedAt j \<noteq> None" and "s = (case still_awaits j current of None \<Rightarrow> NoStep
      | Some c \<Rightarrow> if mergePreApprovedAt c = None \<or> cancelRequestedAt c \<noteq> None then NoStep else accept_merge j c task False)"
    with assms(2) obtain d where "still_awaits j current = Some d" "mergePreApprovedAt d \<noteq> None" "cancelRequestedAt d = None"
        and m: "starts_merge (accept_merge j d task False) c"
      by (auto simp: starts_merge_def split: option.splits if_splits)
    with accepted_merge [OF m] pre head show ?thesis by (auto simp: still_awaits_Some)
  next
    fix live assume pre: "mergePreApprovedAt j = None" and cv: "consensusEvidence parse sha256 lc db attempts j = Inr cv"
      and "s = decided_step j current live ta (decideAutoApproval j (case ev of None \<Rightarrow> no_evidence | Some e \<Rightarrow> e) ta (Some cv))"
    with decided_merge assms(2) have d: "decideAutoApproval j (case ev of None \<Rightarrow> no_evidence | Some e \<Rightarrow> e) ta (Some cv) = AutoApprove"
        "projectId j \<noteq> None" "still_awaits j current = Some c" by blast+
    with ev obtain pid where pid: "projectId j = Some pid" "ev = Some (grant_evidence_of t pid)" by auto
    note rests = auto_approval_rests_on [OF d(1)]
    have "\<exists>r a v. consensusExecution j = Some r \<and> a \<in> set attempts \<and> attemptRowJobId a = job_id j \<and> attemptHeadSha a = prHeadSha j \<and>
        attemptIsReview a \<and> attemptReviewStage a = Some ''consensus'' \<and> reviewLens a = Some ConsensusLens \<and>
        (\<exists>p. policy j = Some p \<and> policy_consensus p = Some r \<and>
           (\<forall>n. providerId (resolveStageExecution ReviewStage (stageExecution p) (Some (policy_legacy p)) n) \<noteq> providerId r)) \<and>
        parseSettledLens parse sha256 lc ConsensusLens (resultJson a) (the (prHeadSha j)) = Inr (LensSettled v) \<and>
        settledOutcome v = ReviewPass \<and> settledFindings v = []"
      if "\<not> reviewCycle j < REMEDIATION_ASK_THRESHOLD"
    proof -
      from rests(5) that have "routeAvailable cv" "assessment cv = ConsensusPass" by auto
      from consensus_of_the_head [OF cv this] show ?thesis using consensus_on_other_provider by blast
    qed
    moreover have "\<exists>pid. projectId j = Some pid \<and> resolveMergeGrant (Some pid) (Some (job_id j)) (policy j) (grant_evidence_of t pid) ta \<noteq> None"
      using rests(1) pid by simp
    ultimately show ?thesis using rests(2,4) d(3) pre head by (auto simp: still_awaits_Some)
  qed
qed

subsection \<open>Instances\<close>

definition demo_button :: grant_tables where
  "demo_button = \<lparr>merge_authority = [\<lparr>grantProjectId = ''proj_demo'', grantedAt = 1, grantedByUserId = ''owner'', grantedByChatId = ''chat'',
       grantRevokedAt = None, grantRevokedReason = None\<rparr>], merge_authority_events = [], project_policies = []\<rparr>"

lemma demo_consensus_route:
  "policy_consensus demo_policy = Some \<lparr>stage = ReviewStage, baseTier = Strong, tier = Strong, escalationSteps = 0, maxEscalations = 0,
     modelPinned = True, providerId = ''claude-code'', model = ''claude-opus-5[1m]'', reasoningLevel = RXhigh, serviceTier = DefaultTier,
     permissionMode = None, source = DefaultSource\<rparr>"
  by code_simp

lemma demo_awaiting_fields:
  "policy (demo_in AwaitingMergeApproval 7) = Some demo_policy" "projectId (demo_in AwaitingMergeApproval 7) = Some ''proj_demo''"
  "routingMode (demo_in AwaitingMergeApproval 7) = LegacyRouting" "prHeadSha (demo_in AwaitingMergeApproval 7) = Some demo_head"
  "cancelRequestedAt (demo_in AwaitingMergeApproval 7) = None" "mergePreApprovedAt (demo_in AwaitingMergeApproval 7) = None"
  "reviewCycle (demo_in AwaitingMergeApproval 7) = 0" "state (demo_in AwaitingMergeApproval 7) = AwaitingMergeApproval"
  "job_id (demo_in AwaitingMergeApproval 7) = ''job1''"
  by (simp_all add: demo_jobs)

theorem consensus_runs_elsewhere_witness:
  "\<exists>r args. consensusExecution (demo_in AwaitingMergeApproval 7) = Some r \<and>
     workerExecutionArgs (demo_in AwaitingMergeApproval 7) 2 None demo_policy ReviewStage = Inr args \<and>
     spawnProviderId args \<noteq> spawnProviderId (stageExecutionSpawnArgs r)"
proof -
  obtain r where "consensusExecution (demo_in AwaitingMergeApproval 7) = Some r"
    by (simp add: consensusExecution_def demo_awaiting_fields demo_consensus_route)
  with consensus_runs_elsewhere [OF this demo_awaiting_fields(1), of 2 None] show ?thesis by auto
qed

lemma demo_issue:
  "\<exists>cv. consensusEvidence parse sha256 lc empty_database [] (demo_in AwaitingMergeApproval 7) = Inr cv \<and>
     issueApproval demo_button (demo_in AwaitingMergeApproval 7) (Some (demo_in AwaitingMergeApproval 7)) None (Inr cv) =
       Inr (ApplyRecorded (demo_in AwaitingMergeApproval 7) (APPROVAL_ACCEPTED demo_head))"
proof -
  have h: "regex_test False HEAD_SHA demo_head" using demo_head_ok(1) by (auto simp: assertHeadSha_def guard_def split: if_splits)
  then have "getConsensusReviewAttempt [] ''job1'' demo_head = Inr None"
    by (simp add: getConsensusReviewAttempt_def guard_def select_ordered_def)
  then obtain cv where cv: "consensusEvidence parse sha256 lc empty_database [] (demo_in AwaitingMergeApproval 7) = Inr cv"
    by (simp add: consensusEvidence_def Let_def demo_awaiting_fields assessConsensusReview_def demo_head_def)
  have policies: "policy_has_production (Some demo_policy)" "productionHasRollbackCommand (Some demo_policy)"
    by (simp_all add: policy_has_production_def productionHasRollbackCommand_def demo_policy_def)
  have grant: "resolveMergeGrant (Some ''proj_demo'') (Some ''job1'') (Some demo_policy) (grant_evidence_of demo_button ''proj_demo'') None = Some ButtonGrant"
    by (simp add: resolveMergeGrant_def taskGrantIsLive_def grantIsLive_def grant_evidence_of_def grant_of_def get_where_def demo_button_def)
  have auto_approve: "decideAutoApproval (demo_in AwaitingMergeApproval 7) (grant_evidence_of demo_button ''proj_demo'') None (Some cv) = AutoApprove"
    unfolding decideAutoApproval_def demo_awaiting_fields grant
    by (simp add: policies REMEDIATION_ASK_THRESHOLD_def demo_head_def)
  have still: "still_awaits (demo_in AwaitingMergeApproval 7) (Some (demo_in AwaitingMergeApproval 7)) = Some (demo_in AwaitingMergeApproval 7)"
    by (simp add: still_awaits_def demo_awaiting_fields)
  have "issueApproval demo_button (demo_in AwaitingMergeApproval 7) (Some (demo_in AwaitingMergeApproval 7)) None (Inr cv) =
      Inr (ApplyRecorded (demo_in AwaitingMergeApproval 7) (APPROVAL_ACCEPTED demo_head))"
    using auto_approve grant still
    by (simp add: issueApproval_def demo_awaiting_fields getMergeGrantEvidence_def assertControllerIdentifier_def guard_def demo_head_def
        decided_step_def accept_merge_def)
  with cv show ?thesis by blast
qed

theorem merge_without_owner_is_covered_witness:
  "\<exists>s. issueApproval demo_button (demo_in AwaitingMergeApproval 7) (Some (demo_in AwaitingMergeApproval 7)) None
       (consensusEvidence (\<lambda>_. None) (\<lambda>_. []) (\<lambda>_ _. 0) empty_database [] (demo_in AwaitingMergeApproval 7)) = Inr s \<and>
     starts_merge s (demo_in AwaitingMergeApproval 7) \<and> release_is_covered (policy (demo_in AwaitingMergeApproval 7))"
proof -
  obtain s where s: "issueApproval demo_button (demo_in AwaitingMergeApproval 7) (Some (demo_in AwaitingMergeApproval 7)) None
      (consensusEvidence (\<lambda>_. None) (\<lambda>_. []) (\<lambda>_ _. 0) empty_database [] (demo_in AwaitingMergeApproval 7)) = Inr s"
      "starts_merge s (demo_in AwaitingMergeApproval 7)"
    using demo_issue [of "\<lambda>_. None" "\<lambda>_. []" "\<lambda>_ _. 0"] by (auto simp: starts_merge_def)
  from merge_without_owner_is_covered [OF s] s show ?thesis by (auto simp: demo_awaiting_fields)
qed

text \<open>A job whose change argued with its review twice, on a task's own grant.\<close>

definition demo_disputed :: "int \<Rightarrow> job" where
  "demo_disputed v = (demo_in AwaitingMergeApproval v)\<lparr>reviewCycle := 2, taskOutcome := Some ShippedChange,
     routingMode := ActiveRouting\<rparr>"

definition demo_shipped :: task_authority where
  "demo_shipped = \<lparr>taAuthorityId = ''auth1'', taJobId = ''job1'', taRevision = 1, taOwnerUserId = ''owner'', taOwnerChatId = ''chat'',
     taControllerKey = ''controller'', taSourceUpdateId = 1, taRequestDigest = [], taProjectId = ''proj_demo'', taOutcome = ShippedChange,
     taScopeDigest = [], taConstraints = [], taPolicyVersion = 1, taPolicyDigest = [], taArtifactGraphDigest = [], taStatus = AuthActive,
     taCreatedAt = 1, taUpdatedAt = 1, taRevokedAt = None, taRevokedReason = None, taSupersededAt = None, taSupersededReason = None\<rparr>"

definition rework_round :: "int \<Rightarrow> (job_event \<times> int) list" where
  "rework_round v =
     [(REMEDIATION_CONTINUED ''Independent review is unavailable; continue fixing the reviewed change'', v + 1), (REMEDIATION_SENT, v + 2),
      (RELEASE_STARTED (Whole 7) ''https://github.com/acme/demo/pull/7'' ''env1'', v + 3), (PR_HEAD_RESOLVED demo_head, v + 4),
      (VALIDATION_PASSED demo_head, v + 5), (REVIEW_PASSED demo_head None, v + 6)]"

lemma demo_rework: "run_events demo_runtime (demo_disputed v) (rework_round v) = Inr (demo_disputed (v + 6))"
  by (simp add: handler_eval demo_eval demo_disputed_def rework_round_def transitionRemediating_def taskRequiresRelease_def
      completeReviewedWork_def)

text \<open>C24: once a withdrawal reports that it withdrew something, no standing approval and no policy lets a job of the project merge
  unattended, whatever policy the job carries, until the owner grants the project again or stores its policy anew: after any
  other steps on the grants only a job's own task authority is left.
\<close>

theorem withdrawal_lasts:
  assumes "revokeMergeAuthority t pid reason now user chat = Inr (t1, True)"
    "\<forall>r \<in> set (project_policies t). policyProjectId (storedPolicy r) = pid \<longrightarrow> storedUpdatedAt r \<le> whole now"
    "(other_grant_step rt pid)\<^sup>*\<^sup>* t1 t2"
  shows "resolveMergeGrant (Some pid) jid pol (grant_evidence_of t2 pid) ta = (if taskGrantIsLive ta (Some pid) jid then Some TaskGrant else None)"
  by (rule silenced_grant [OF silenced_run [OF assms(3) withdrawal_silences [OF assms(1,2)]]])

definition no_grants :: grant_tables where
  "no_grants = \<lparr>merge_authority = [], merge_authority_events = [], project_policies = []\<rparr>"

definition demo_unattended :: project_policy where
  "demo_unattended = demo_policy\<lparr>autonomy := Some \<lparr>unattendedMerge = True, mergeWithoutProduction = False, consensusReview = None,
     intakeMaxJobsPerDay = None\<rparr>\<rparr>"

definition demo_withdrawn :: grant_tables where
  "demo_withdrawn = \<lparr>merge_authority = [\<lparr>grantProjectId = ''proj_demo'', grantedAt = 1, grantedByUserId = ''owner'', grantedByChatId = ''chat'',
       grantRevokedAt = Some 5, grantRevokedReason = Some ''off''\<rparr>],
     merge_authority_events = [\<lparr>geProjectId = ''proj_demo'', geAction = GrantRevoked, geJobId = None, geActorUserId = None,
       geActorChatId = None, geReason = Some ''off'', geOccurredAt = 5\<rparr>], project_policies = []\<rparr>"

lemma demo_withdraw: "revokeMergeAuthority demo_button ''proj_demo'' ''off'' (Whole 5) None None = Inr (demo_withdrawn, True)"
proof -
  have "assertMemoryText ''off'' 200 ''revocation reason'' = Inr ''off''" by code_simp
  then show ?thesis
    by (simp add: revokeMergeAuthority_def assertControllerIdentifier_def assertNonNegativeInteger_def guard_def demo_button_def
        demo_withdrawn_def changes_def update_where_def appendMergeAuthorityEvent_def Let_def)
qed

theorem withdrawal_lasts_witness:
  "resolveMergeGrant (Some ''proj_demo'') (Some ''job1'') (Some demo_unattended) (grant_evidence_of demo_withdrawn ''proj_demo'') None = None \<and>
   resolveMergeGrant (Some ''proj_demo'') (Some ''job1'') (Some demo_unattended) (grant_evidence_of demo_button ''proj_demo'') None = Some ButtonGrant"
proof -
  have "resolveMergeGrant (Some ''proj_demo'') (Some ''job1'') (Some demo_unattended) (grant_evidence_of demo_withdrawn ''proj_demo'') None = None"
    using withdrawal_lasts [OF demo_withdraw _ rtranclp.rtrancl_refl] by (simp add: demo_button_def taskGrantIsLive_def)
  then show ?thesis
    by (simp add: resolveMergeGrant_def taskGrantIsLive_def grantIsLive_def grant_evidence_of_def grant_of_def get_where_def demo_button_def)
qed

text \<open>
  A withdrawal asks the project's current policy whether there is anything to withdraw.  A job carries the policy it was started
  with: when only that one allowed merging unattended, nothing is recorded, and the job keeps its grant.
\<close>

definition demo_tightened :: grant_tables where
  "demo_tightened = \<lparr>merge_authority = [], merge_authority_events = [],
     project_policies = [\<lparr>storedPolicy = demo_policy, storedVersion = 2, storedCreatedAt = 1, storedUpdatedAt = 3\<rparr>]\<rparr>"

lemma withdrawal_misses_older_policy:
  "revokeMergeAuthority demo_tightened ''proj_demo'' ''off'' (Whole 5) None None = Inr (demo_tightened, False) \<and>
   resolveMergeGrant (Some ''proj_demo'') (Some ''job1'') (Some demo_unattended) (grant_evidence_of demo_tightened ''proj_demo'') None = Some PolicyGrant"
proof -
  have "assertMemoryText ''off'' 200 ''revocation reason'' = Inr ''off''" by code_simp
  then have "revokeMergeAuthority demo_tightened ''proj_demo'' ''off'' (Whole 5) None None = Inr (demo_tightened, False)"
    by (simp add: revokeMergeAuthority_def assertControllerIdentifier_def assertNonNegativeInteger_def guard_def demo_tightened_def
        changes_def update_where_def getProjectPolicy_def get_where_def demo_policy_fields Let_def resolveMergeGrant_def
        taskGrantIsLive_def grantIsLive_def policyGrantIsLive_def) (simp add: demo_policy_def)
  moreover have "resolveMergeGrant (Some ''proj_demo'') (Some ''job1'') (Some demo_unattended) (grant_evidence_of demo_tightened ''proj_demo'') None = Some PolicyGrant"
    by (simp add: resolveMergeGrant_def taskGrantIsLive_def grantIsLive_def policyGrantIsLive_def grant_evidence_of_def grant_of_def
        get_where_def last_revocation_def demo_tightened_def demo_unattended_def)
  ultimately show ?thesis by simp
qed

text \<open>C25: a job on its task's own grant whose change needed two rounds of review fixes and that has no independent reviewer,
  because it is routed by capability or its policy leaves none, is sent back to be fixed whenever its approval is issued, provided
  that the owner neither approved it beforehand nor asked it to stop and that its release is covered; the round counts neither
  towards the review cycles nor towards their limit, so it is outside the bound of C5.  In the instance a round of six events leads
  such a job back to where it was, and the next approval sends it back again.
\<close>

theorem disputed_task_is_sent_back:
  assumes "projectId j = Some pid" "resolveMergeGrant (Some pid) (Some (job_id j)) (policy j) (grant_evidence_of t pid) ta = Some TaskGrant"
    "length pid \<in> {1..256}" "cancelRequestedAt j = None" "truthy_str (prHeadSha j)" "release_is_covered (policy j)" "mergePreApprovedAt j = None"
    "state j = AwaitingMergeApproval" "REMEDIATION_ASK_THRESHOLD \<le> reviewCycle j"
    "routingMode j = ActiveRouting \<or> (\<forall>p. policy j = Some p \<longrightarrow> policy_consensus p = None)"
    "consensusEvidence parse sha256 lc db attempts j = Inr cv"
  shows "\<exists>why. issueApproval t j (Some j) ta (consensusEvidence parse sha256 lc db attempts j) = Inr (ApplyToJob j (REMEDIATION_CONTINUED why)) \<and>
    (\<forall>rt now j' es. transition rt j (REMEDIATION_CONTINUED why) now = Inr (j', es) \<longrightarrow>
       state j' = Remediating \<and> reviewCycle j' = reviewCycle j \<and> reviewBlockAt j' = reviewBlockAt j)"
proof -
  have "consensusExecution j = None" using assms(10) by (auto simp: consensusExecution_def split: option.splits)
  then have "\<not> routeAvailable cv" using assms(11) by (auto simp: consensusEvidence_def Let_def rbind_eq_Inr split: if_splits)
  then have "decideAutoApproval j (grant_evidence_of t pid) ta (Some cv) =
      ContinueRemediation ''Independent review is unavailable; continue fixing the reviewed change''"
    using assms by (auto simp: decideAutoApproval_def decideRemediatedChange_def release_is_covered_def split: if_splits)
  moreover have "policy_pause j = None" using assms(6) by (auto simp: policy_pause_def release_is_covered_def split: if_splits)
  moreover have "getMergeGrantEvidence t pid = Inr (grant_evidence_of t pid)"
    using assms(3) by (auto simp: getMergeGrantEvidence_def assertControllerIdentifier_def guard_def)
  ultimately have "issueApproval t j (Some j) ta (consensusEvidence parse sha256 lc db attempts j) =
      Inr (ApplyToJob j (REMEDIATION_CONTINUED ''Independent review is unavailable; continue fixing the reviewed change''))"
    using assms(1-9,11) by (simp add: issueApproval_def decided_step_def Let_def)
  moreover have "state j' = Remediating \<and> reviewCycle j' = reviewCycle j \<and> reviewBlockAt j' = reviewBlockAt j"
    if "transition rt j (REMEDIATION_CONTINUED why) now = Inr (j', es)" for rt why now j' es
    using that assms(4,8) by (auto simp: handler_eval rthen_eq_Inr rbind_eq_Inr split: if_splits)
  ultimately show ?thesis by blast
qed

lemma demo_disputed_fields:
  "projectId (demo_disputed v) = Some ''proj_demo''" "cancelRequestedAt (demo_disputed v) = None"
  "prHeadSha (demo_disputed v) = Some demo_head" "mergePreApprovedAt (demo_disputed v) = None" "policy (demo_disputed v) = Some demo_policy"
  "state (demo_disputed v) = AwaitingMergeApproval" "reviewCycle (demo_disputed v) = 2" "job_id (demo_disputed v) = ''job1''"
  "routingMode (demo_disputed v) = ActiveRouting"
  by (simp_all add: demo_disputed_def demo_jobs)

lemma demo_no_consensus:
  "consensusEvidence (\<lambda>_. None) (\<lambda>_. []) (\<lambda>_ _. 0) empty_database [] (demo_disputed v) =
     Inr \<lparr>requested = False, assessment = ConsensusPending, routeAvailable = False\<rparr>"
proof -
  have h: "regex_test False HEAD_SHA demo_head" using demo_head_ok(1) by (auto simp: assertHeadSha_def guard_def split: if_splits)
  then have "getConsensusReviewAttempt [] ''job1'' demo_head = Inr None"
    by (simp add: getConsensusReviewAttempt_def guard_def select_ordered_def)
  then show ?thesis
    by (simp add: consensusEvidence_def Let_def demo_disputed_fields assessConsensusReview_def consensusExecution_def empty_database_def)
qed

theorem disputed_task_is_sent_back_witness:
  "(\<exists>why. issueApproval no_grants (demo_disputed 7) (Some (demo_disputed 7)) (Some demo_shipped)
       (consensusEvidence (\<lambda>_. None) (\<lambda>_. []) (\<lambda>_ _. 0) empty_database [] (demo_disputed 7)) =
     Inr (ApplyToJob (demo_disputed 7) (REMEDIATION_CONTINUED why))) \<and>
   (\<forall>v. run_events demo_runtime (demo_disputed v) (rework_round v) = Inr (demo_disputed (v + 6)))"
proof -
  have "allows demo_shipped MergeEffect"
    by (simp add: allows_def demo_shipped_def taskAuthorityAllowsEffect_def taskAuthorityAllows_def)
  then have "resolveMergeGrant (Some ''proj_demo'') (Some ''job1'') (Some demo_policy) (grant_evidence_of no_grants ''proj_demo'') (Some demo_shipped) = Some TaskGrant"
    by (simp add: resolveMergeGrant_def taskGrantIsLive_def) (simp add: demo_shipped_def)
  moreover have "release_is_covered (Some demo_policy)"
    by (simp add: release_is_covered_def policy_has_production_def productionHasRollbackCommand_def demo_policy_def)
  moreover have "truthy_str (Some demo_head)" "REMEDIATION_ASK_THRESHOLD \<le> 2" by (simp_all add: demo_head_def REMEDIATION_ASK_THRESHOLD_def)
  ultimately have "\<exists>why. issueApproval no_grants (demo_disputed 7) (Some (demo_disputed 7)) (Some demo_shipped)
       (consensusEvidence (\<lambda>_. None) (\<lambda>_. []) (\<lambda>_ _. 0) empty_database [] (demo_disputed 7)) =
     Inr (ApplyToJob (demo_disputed 7) (REMEDIATION_CONTINUED why))"
    using disputed_task_is_sent_back [of "demo_disputed 7", OF _ _ _ _ _ _ _ _ _ _ demo_no_consensus] by (fastforce simp: demo_disputed_fields)
  with demo_rework show ?thesis by blast
qed

end
