(* ===== verification/Release_Receipts.thy ===== *)
theory Release_Receipts
  imports Merge_Authority Merge_Gates
begin

text \<open>
  The receipts that let one merge effect run (\<open>src/storage/release-authority-repository.ts\<close>), with the
  store's use of them.  \<open>sha256\<close> is the hash of a text, as a hexadecimal string.
\<close>

subsection \<open>Receipts\<close>

datatype receipt_source = FromTask | FromExplicit | FromButton | FromPolicy
datatype receipt_status = ReceiptActive | ReceiptConsumed | ReceiptRevoked

record receipt_terms =
  rtReceiptId :: string
  rtJobId :: string
  rtEffectKey :: string
  rtAuthorityId :: "string option"
  rtAuthorityRevision :: "js_number option"
  rtSource :: receipt_source
  rtProjectId :: string
  rtRepository :: string
  rtBaseBranch :: string
  rtEnvironmentId :: string
  rtPrNumber :: js_number
  rtHeadSha :: string
  rtArtifactGraphDigest :: "string option"
  rtReviewAttemptId :: string
  rtValidationCompletedAt :: js_number
  rtRequiredCheckNames :: "string list"
  rtMergeMethod :: merge_method
  rtProductionPolicyDigest :: "string option"
  rtGateReceiptDigest :: string

record release_receipt =
  receiptTerms :: receipt_terms
  receiptStatus :: receipt_status
  receiptCreatedAt :: int
  receiptUpdatedAt :: int
  receiptConsumedAt :: "int option"
  receiptRevokedAt :: "int option"
  receiptRevokedReason :: "string option"

definition releaseAuthorityReceiptId :: "(string \<Rightarrow> string) \<Rightarrow> string \<Rightarrow> string" where
  "releaseAuthorityReceiptId sha256 key = ''releaseauth_'' @ take 32 (sha256 (json_text (JStr key)))"

fun merge_method_text :: "merge_method \<Rightarrow> string" where
  "merge_method_text MergeCommit = ''merge''"
| "merge_method_text MergeRebase = ''rebase''"
| "merge_method_text MergeSquash = ''squash''"

definition releaseGateReceiptDigest ::
  "(string \<Rightarrow> string) \<Rightarrow> string \<Rightarrow> merge_ready_receipt \<Rightarrow> int \<Rightarrow> string option \<Rightarrow> string" where
  "releaseGateReceiptDigest sha256 repository rc validationCompletedAt productionDigest =
     sha256 (json_text (JObj
       [(''projectId'', JStr (rcProjectId rc)), (''repository'', JStr repository), (''baseBranch'', JStr (rcBaseBranch rc)),
        (''environmentId'', JStr (rcEnvironmentId rc)), (''prNumber'', JNum (rcPrNumber rc)), (''headSha'', JStr (rcHeadSha rc)),
        (''reviewAttemptId'', JStr (rcReviewAttemptId rc)), (''validationCompletedAt'', JNum validationCompletedAt),
        (''requiredCheckNames'', JList (map JStr (sort (rcRequiredCheckNames rc)))),
        (''mergeMethod'', JStr (merge_method_text (rcMergeMethod rc))),
        (''productionPolicyDigest'', case productionDigest of None \<Rightarrow> JNull | Some d \<Rightarrow> JStr d)]))"

subsection \<open>Checks\<close>

definition assertBounded :: "string \<Rightarrow> string \<Rightarrow> nat \<Rightarrow> unit result" where
  "assertBounded v field limit =
     guard (js_trim v \<noteq> [] \<and> length v \<le> limit) (TypeError (field @ '' must be a bounded non-empty string''))"

definition assertTimestamp :: "js_number \<Rightarrow> string \<Rightarrow> unit result" where
  "assertTimestamp v field =
     guard (is_safe_integer v \<and> 0 \<le> whole v) (TypeError (field @ '' must be a non-negative safe integer''))"

definition assertOptionalDigest :: "string option \<Rightarrow> string \<Rightarrow> unit result" where
  "assertOptionalDigest v field = (case v of None \<Rightarrow> Inr () | Some d \<Rightarrow> assertDigest d field)"

definition assertInput :: "receipt_terms \<Rightarrow> js_number \<Rightarrow> unit result" where
  "assertInput i now =
     rthen (assertBounded (rtReceiptId i) ''receiptId'' 512)
    (rthen (assertBounded (rtJobId i) ''jobId'' 512)
    (rthen (assertBounded (rtEffectKey i) ''effectIdempotencyKey'' 512)
    (rthen (assertBounded (rtProjectId i) ''projectId'' 512)
    (rthen (assertBounded (rtRepository i) ''repository'' 512)
    (rthen (assertBounded (rtBaseBranch i) ''baseBranch'' 512)
    (rthen (assertBounded (rtEnvironmentId i) ''environmentId'' 512)
    (rthen (assertBounded (rtReviewAttemptId i) ''reviewAttemptId'' 512)
    (rthen (assertDigest (rtGateReceiptDigest i) ''gateReceiptDigest'')
    (rthen (case rtAuthorityId i of None \<Rightarrow> Inr () | Some a \<Rightarrow> assertBounded a ''authorityId'' 512)
    (rthen (assertOptionalDigest (rtArtifactGraphDigest i) ''artifactGraphDigest'')
    (rthen (assertOptionalDigest (rtProductionPolicyDigest i) ''productionPolicyDigest'')
    (rthen (case rtAuthorityRevision i of None \<Rightarrow> Inr ()
            | Some n \<Rightarrow> guard (is_safe_integer n \<and> 1 \<le> whole n) (TypeError ''authorityRevision must be a positive integer''))
    (rthen (guard (is_safe_integer (rtPrNumber i) \<and> 1 \<le> whole (rtPrNumber i)) (TypeError ''prNumber must be positive''))
    (rthen (guard (regex_test False HEAD_SHA (rtHeadSha i)) (TypeError ''headSha must be a full lowercase SHA''))
    (rthen (assertTimestamp (rtValidationCompletedAt i) ''validationCompletedAt'')
    (rthen (assertTimestamp now ''now'')
    (rthen (guard (length (rtRequiredCheckNames i) \<le> 50 \<and>
              list_all (\<lambda>n. n \<noteq> [] \<and> length n \<le> 512) (rtRequiredCheckNames i))
             (TypeError ''requiredCheckNames must be bounded strings''))
           (guard (distinct (rtRequiredCheckNames i) \<and> sort (rtRequiredCheckNames i) = rtRequiredCheckNames i)
             (TypeError ''requiredCheckNames must be unique and sorted'')))))))))))))))))))"

definition OUTCOME_CONSTRAINTS :: "task_constraint list" where
  "OUTCOME_CONSTRAINTS = [ArtifactOnly, PullRequestOnly, NoMerge]"

definition taskAuthorityIsUsable :: "receipt_terms \<Rightarrow> task_authority option \<Rightarrow> bool" where
  "taskAuthorityIsUsable i ta =
     (case ta of None \<Rightarrow> False
      | Some a \<Rightarrow> taStatus a = AuthActive \<and> taJobId a = rtJobId i \<and> taProjectId a = rtProjectId i \<and>
          taOutcome a = ShippedChange \<and> Some (taAuthorityId a) = rtAuthorityId i \<and>
          Some (Whole (taRevision a)) = rtAuthorityRevision i \<and> Some (taArtifactGraphDigest a) = rtArtifactGraphDigest i \<and>
          \<not> list_ex (List.member OUTCOME_CONSTRAINTS) (taConstraints a))"

subsection \<open>The repository\<close>

definition getByEffect :: "release_receipt list \<Rightarrow> string \<Rightarrow> release_receipt option" where
  "getByEffect t key = get_where (\<lambda>r. rtEffectKey (receiptTerms r) = key) t"

definition listForJob :: "release_receipt list \<Rightarrow> string \<Rightarrow> release_receipt list result" where
  "listForJob t jid =
     rthen (assertBounded jid ''jobId'' 512)
       (Inr (sort_key (\<lambda>r. (receiptCreatedAt r, rtReceiptId (receiptTerms r))) (filter (\<lambda>r. rtJobId (receiptTerms r) = jid) t)))"

definition releaseAuthorityReceiptMatches :: "release_receipt \<Rightarrow> receipt_terms \<Rightarrow> bool" where
  "releaseAuthorityReceiptMatches r i \<longleftrightarrow>
     receiptTerms r = i\<lparr>rtRequiredCheckNames := sort (rtRequiredCheckNames i)\<rparr>"

text \<open>The checks of the table's columns that \<open>assertInput\<close> does not already make.\<close>

definition receipt_row_ok :: "receipt_terms \<Rightarrow> bool" where
  "receipt_row_ok i \<longleftrightarrow> (rtSource i = FromTask) =
     (rtAuthorityId i \<noteq> None \<and> rtAuthorityRevision i \<noteq> None \<and> rtArtifactGraphDigest i \<noteq> None)"

text \<open>\<open>known\<close>: the keys of the tables of jobs and of authorities that the row refers to exist.\<close>

definition record_receipt ::
  "(receipt_terms \<Rightarrow> bool) \<Rightarrow> release_receipt list \<Rightarrow> receipt_terms \<Rightarrow> task_authority option \<Rightarrow> js_number \<Rightarrow>
   (release_receipt list \<times> release_receipt) result" where
  "record_receipt known t i ta now =
     rthen (assertInput i now)
    (rthen (guard (rtSource i = FromTask \<longrightarrow> taskAuthorityIsUsable i ta)
              (TypeError ''task release authority is not live for this exact job and artifact graph''))
       (case getByEffect t (rtEffectKey i) of
          Some r \<Rightarrow>
            if releaseAuthorityReceiptMatches r i then Inr (t, r)
            else Inl (PlainError ''release authority receipt identity changed on replay'')
        | None \<Rightarrow>
            if \<not> receipt_row_ok i then Inl SqliteConstraintCheck
            else if \<exists>r \<in> set t. rtReceiptId (receiptTerms r) = rtReceiptId i then Inl SqliteConstraintUnique
            else if \<not> known i then Inl (NamedError ''SqliteError'' ''FOREIGN KEY constraint failed'')
            else (let r = \<lparr>receiptTerms = i, receiptStatus = ReceiptActive, receiptCreatedAt = whole now, receiptUpdatedAt = whole now,
                         receiptConsumedAt = None, receiptRevokedAt = None, receiptRevokedReason = None\<rparr>;
                      t' = t @ [r]
                  in case getByEffect t' (rtEffectKey i) of
                       None \<Rightarrow> Inl (PlainError ''release authority receipt was not stored'') | Some s \<Rightarrow> Inr (t', s))))"

definition revokeForJob :: "release_receipt list \<Rightarrow> string \<Rightarrow> string \<Rightarrow> js_number \<Rightarrow> (release_receipt list \<times> nat) result" where
  "revokeForJob t jid reason now =
     rthen (assertBounded jid ''jobId'' 512)
    (rthen (assertBounded reason ''reason'' 500)
    (rthen (assertTimestamp now ''now'')
       (let hit = (\<lambda>r. rtJobId (receiptTerms r) = jid \<and> receiptStatus r = ReceiptActive) in
        Inr (update_where hit (\<lambda>r. r\<lparr>receiptStatus := ReceiptRevoked, receiptRevokedAt := Some (whole now),
               receiptRevokedReason := Some reason, receiptUpdatedAt := whole now\<rparr>) t, changes hit t))))"

definition consume :: "release_receipt list \<Rightarrow> string \<Rightarrow> js_number \<Rightarrow> (release_receipt list \<times> bool) result" where
  "consume t key now =
     rthen (assertBounded key ''effectIdempotencyKey'' 512)
    (rthen (assertTimestamp now ''now'')
       (let hit = (\<lambda>r. rtEffectKey (receiptTerms r) = key \<and> receiptStatus r = ReceiptActive) in
        Inr (update_where hit (\<lambda>r. r\<lparr>receiptStatus := ReceiptConsumed, receiptConsumedAt := Some (whole now),
               receiptUpdatedAt := whole now\<rparr>) t, changes hit t = 1)))"

subsection \<open>The store\<close>

definition releaseAuthorityContext ::
  "grant_tables \<Rightarrow> task_authority option \<Rightarrow> job \<Rightarrow> (receipt_source \<times> task_authority option) result" where
  "releaseAuthorityContext t ta j =
     rbind (case projectId j of None \<Rightarrow> Inr None
            | Some pid \<Rightarrow> rbind (getMergeGrantEvidence t pid)
                (\<lambda>ev. Inr (resolveMergeGrant (projectId j) (Some (job_id j)) (policy j) ev ta))) (\<lambda>g.
       Inr (case g of None \<Rightarrow> FromExplicit | Some TaskGrant \<Rightarrow> FromTask | Some ButtonGrant \<Rightarrow> FromButton
            | Some PolicyGrant \<Rightarrow> FromPolicy, ta))"

text \<open>\<open>terms\<close>: the terms the store derives from the job and its merge receipt (\<open>releaseAuthorityReceiptInput\<close>).\<close>

definition releaseAuthorityReceiptIsCurrent :: "release_receipt list \<Rightarrow> string \<Rightarrow> receipt_terms result \<Rightarrow> bool result" where
  "releaseAuthorityReceiptIsCurrent t key terms =
     rthen (assertBounded key ''effectIdempotencyKey'' 512)
       (case getByEffect t key of
          None \<Rightarrow> Inr False
        | Some r \<Rightarrow> if receiptStatus r \<noteq> ReceiptActive then Inr False
            else rbind terms (\<lambda>i. Inr (releaseAuthorityReceiptMatches r i)))"

fun is_type_error :: "error \<Rightarrow> bool" where
  "is_type_error (TypeError _) = True"
| "is_type_error _ = False"

definition ensureReleaseAuthorityReceipt ::
  "(receipt_terms \<Rightarrow> bool) \<Rightarrow> release_receipt list \<Rightarrow> string \<Rightarrow> receipt_terms result \<Rightarrow> task_authority option \<Rightarrow> js_number \<Rightarrow>
   (release_receipt list \<times> bool) result" where
  "ensureReleaseAuthorityReceipt known t key terms ta now =
     rthen (assertBounded key ''effectIdempotencyKey'' 512)
       (case getByEffect t key of
          Some r \<Rightarrow>
            if receiptStatus r \<noteq> ReceiptActive then Inr (t, False)
            else rbind (releaseAuthorityReceiptIsCurrent t key terms) (\<lambda>b. Inr (t, b))
        | None \<Rightarrow>
            (case rbind terms (\<lambda>i. record_receipt known t i ta now) of
               Inr (t', _) \<Rightarrow> Inr (t', True)
             | Inl e \<Rightarrow> if is_type_error e then Inr (t, False) else Inl e))"

end
