(* ===== verification/Receipt_Properties.thy ===== *)
theory Receipt_Properties
  imports Release_Receipts Guards Pipeline_Demo
begin

text \<open>
  A release receipt is good for one merge: its terms never change, once consumed or revoked it stays so,
  and so no effect consumes a receipt twice.
\<close>

inductive receipt_step :: "release_receipt list \<Rightarrow> release_receipt list \<Rightarrow> bool" where
  recorded: "record_receipt known t i ta now = Inr (t', r) \<Longrightarrow> receipt_step t t'"
| revoked: "revokeForJob t jid reason now = Inr (t', n) \<Longrightarrow> receipt_step t t'"
| used: "consume t key now = Inr (t', b) \<Longrightarrow> receipt_step t t'"

inductive reachable_receipts :: "release_receipt list \<Rightarrow> bool" where
  none: "reachable_receipts []"
| step: "reachable_receipts t \<Longrightarrow> receipt_step t t' \<Longrightarrow> reachable_receipts t'"

abbreviation receipt_key :: "release_receipt \<Rightarrow> string" where
  "receipt_key r \<equiv> rtEffectKey (receiptTerms r)"

definition settles :: "(release_receipt \<Rightarrow> release_receipt) \<Rightarrow> bool" where
  "settles f \<longleftrightarrow> (\<forall>r. receiptTerms (f r) = receiptTerms r)"

lemma settle_updates [simp]:
  "settles (\<lambda>r. r\<lparr>receiptStatus := ReceiptRevoked, receiptRevokedAt := a, receiptRevokedReason := b, receiptUpdatedAt := c\<rparr>)"
  "settles (\<lambda>r. r\<lparr>receiptStatus := ReceiptConsumed, receiptConsumedAt := a, receiptUpdatedAt := c\<rparr>)"
  by (simp_all add: settles_def)

text \<open>Every step either inserts a receipt under a new key or settles active ones.\<close>

lemma receipt_step_cases:
  assumes "receipt_step t t'"
  shows "t' = t \<or> (\<exists>r. t' = t @ [r] \<and> receiptStatus r = ReceiptActive \<and> (\<forall>s \<in> set t. receipt_key s \<noteq> receipt_key r)) \<or>
    (\<exists>p f. t' = update_where p f t \<and> settles f \<and> (\<forall>r. p r \<longrightarrow> receiptStatus r = ReceiptActive))"
  using assms
proof cases
  case (recorded known i ta now r)
  then have "t' = t \<or> (\<exists>s. t' = t @ [s] \<and> receiptStatus s = ReceiptActive \<and> receipt_key s = rtEffectKey i \<and> getByEffect t (rtEffectKey i) = None)"
    by (auto simp: record_receipt_def rthen_eq_Inr Let_def split: option.splits if_splits)
  then show ?thesis by (auto simp: getByEffect_def get_where_None)
next
  case (revoked jid reason now n)
  then have "t' = update_where (\<lambda>r. rtJobId (receiptTerms r) = jid \<and> receiptStatus r = ReceiptActive)
      (\<lambda>r. r\<lparr>receiptStatus := ReceiptRevoked, receiptRevokedAt := Some (whole now), receiptRevokedReason := Some reason,
         receiptUpdatedAt := whole now\<rparr>) t"
    by (auto simp: revokeForJob_def rthen_eq_Inr Let_def)
  then show ?thesis using settle_updates(1) by blast
next
  case (used key now b)
  then have "t' = update_where (\<lambda>r. receipt_key r = key \<and> receiptStatus r = ReceiptActive)
      (\<lambda>r. r\<lparr>receiptStatus := ReceiptConsumed, receiptConsumedAt := Some (whole now), receiptUpdatedAt := whole now\<rparr>) t"
    by (auto simp: consume_def rthen_eq_Inr Let_def)
  then show ?thesis using settle_updates(2) by blast
qed

lemma settles_keys: "settles f \<Longrightarrow> map receipt_key (update_where p f t) = map receipt_key t"
  by (rule map_update_where) (simp add: settles_def)

lemma receipt_step_unique: "receipt_step t t' \<Longrightarrow> unique_key receipt_key t \<Longrightarrow> unique_key receipt_key t'"
proof -
  assume s: "receipt_step t t'" and u: "unique_key receipt_key t"
  from receipt_step_cases [OF s] show ?thesis
  proof (elim disjE exE conjE)
    fix r assume "t' = t @ [r]" "\<forall>s \<in> set t. receipt_key s \<noteq> receipt_key r"
    with u show ?thesis by (auto simp: unique_append)
  next
    fix p f assume "t' = update_where p f t" "settles f"
    with u settles_keys show ?thesis by (simp add: unique_key_def)
  qed (use u in simp)
qed

lemma reachable_receipts_unique: "reachable_receipts t \<Longrightarrow> unique_key receipt_key t"
  by (induction rule: reachable_receipts.induct) (auto simp: unique_key_def [of _ "[]"] intro: receipt_step_unique)

lemma receipt_step_keeps:
  assumes "receipt_step t t'" "r \<in> set t"
  shows "\<exists>r' \<in> set t'. receiptTerms r' = receiptTerms r \<and> (receiptStatus r \<noteq> ReceiptActive \<longrightarrow> r' = r)"
  using receipt_step_cases [OF assms(1)]
proof (elim disjE exE conjE)
  fix p f assume t': "t' = update_where p f t" "settles f" "\<forall>r. p r \<longrightarrow> receiptStatus r = ReceiptActive"
  show ?thesis
  proof (cases "p r")
    case True
    then have "f r \<in> set t'" using assms(2) t'(1) by (force simp: set_update_where)
    with True t' show ?thesis by (auto simp: settles_def)
  next
    case False
    then have "r \<in> set t'" using assms(2) t'(1) by (force simp: set_update_where)
    then show ?thesis by auto
  qed
qed (use assms(2) in auto)

lemma receipt_run_keeps:
  assumes "receipt_step\<^sup>*\<^sup>* t t'" "r \<in> set t"
  shows "\<exists>r' \<in> set t'. receiptTerms r' = receiptTerms r \<and> (receiptStatus r \<noteq> ReceiptActive \<longrightarrow> r' = r)"
  using assms
proof (induction rule: rtranclp_induct)
  case (step t1 t2)
  then obtain r1 where "r1 \<in> set t1" "receiptTerms r1 = receiptTerms r" "receiptStatus r \<noteq> ReceiptActive \<longrightarrow> r1 = r" by auto
  with receipt_step_keeps [OF step(2), of r1] show ?case by auto
qed auto

lemma receipt_run_unique: "receipt_step\<^sup>*\<^sup>* t t' \<Longrightarrow> unique_key receipt_key t \<Longrightarrow> unique_key receipt_key t'"
  by (induction rule: rtranclp_induct) (auto intro: receipt_step_unique)

text \<open>A receipt authorises one merge.  Its terms (job, head, policy, review, checks) never change; and once its effect has
  consumed it, the effect never consumes a receipt again, in whatever order receipts are recorded, revoked and consumed after.
\<close>

theorem receipt_is_used_once:
  assumes "reachable_receipts t" "consume t key now = Inr (t1, True)" "receipt_step\<^sup>*\<^sup>* t1 t2" "consume t2 key later = Inr (t3, again)"
  shows "\<not> again \<and> t3 = t2 \<and> (\<forall>r \<in> set t. \<exists>r' \<in> set t2. receiptTerms r' = receiptTerms r)"
proof -
  have run: "receipt_step\<^sup>*\<^sup>* t t2" using receipt_step.used [OF assms(2)] assms(3) by (rule converse_rtranclp_into_rtranclp)
  have unique: "unique_key receipt_key t2" by (rule receipt_run_unique [OF run reachable_receipts_unique [OF assms(1)]])
  let ?hit = "\<lambda>r. receipt_key r = key \<and> receiptStatus r = ReceiptActive"
  from assms(2) have "changes ?hit t = 1" and t1: "t1 = update_where ?hit
      (\<lambda>r. r\<lparr>receiptStatus := ReceiptConsumed, receiptConsumedAt := Some (whole now), receiptUpdatedAt := whole now\<rparr>) t"
    by (auto simp: consume_def rthen_eq_Inr Let_def)
  then have "filter ?hit t \<noteq> []" by (auto simp: changes_def)
  then obtain r where "r \<in> set t" "?hit r" by (auto simp: filter_empty_conv)
  with t1 obtain s where s: "s \<in> set t1" "receipt_key s = key" "receiptStatus s = ReceiptConsumed"
    by (force simp: set_update_where)
  with receipt_run_keeps [OF assms(3) s(1)] have "s \<in> set t2" by auto
  then have none: "\<not> ?hit r" if "r \<in> set t2" for r
    using unique_eqI [OF unique that] s(2,3) by auto
  then have "changes ?hit t2 = 0" by (auto simp: changes_def filter_empty_conv)
  moreover have "update_where ?hit f t2 = t2" for f unfolding update_where_def by (rule map_idI) (use none in auto)
  ultimately show ?thesis using assms(4) receipt_run_keeps [OF run] by (auto simp: consume_def rthen_eq_Inr Let_def)
qed

definition demo_terms :: receipt_terms where
  "demo_terms = \<lparr>rtReceiptId = ''r1'', rtJobId = ''job1'', rtEffectKey = ''k1'', rtAuthorityId = None, rtAuthorityRevision = None,
     rtSource = FromButton, rtProjectId = ''p'', rtRepository = ''acme'', rtBaseBranch = ''main'', rtEnvironmentId = ''env1'',
     rtPrNumber = Whole 7, rtHeadSha = demo_head, rtArtifactGraphDigest = None, rtReviewAttemptId = ''a1'',
     rtValidationCompletedAt = Whole 5, rtRequiredCheckNames = [''ci''], rtMergeMethod = MergeSquash, rtProductionPolicyDigest = None,
     rtGateReceiptDigest = replicate 64 (CHR ''a'')\<rparr>"

definition demo_receipt :: release_receipt where
  "demo_receipt = \<lparr>receiptTerms = demo_terms, receiptStatus = ReceiptActive, receiptCreatedAt = 6, receiptUpdatedAt = 6,
     receiptConsumedAt = None, receiptRevokedAt = None, receiptRevokedReason = None\<rparr>"

definition demo_used :: release_receipt where
  "demo_used = demo_receipt\<lparr>receiptStatus := ReceiptConsumed, receiptConsumedAt := Some 7, receiptUpdatedAt := 7\<rparr>"

lemma demo_bounded: "assertBounded ''k1'' f 512 = Inr ()"
  by code_simp

lemma demo_record: "record_receipt (\<lambda>_. True) [] demo_terms None (Whole 6) = Inr ([demo_receipt], demo_receipt)"
proof -
  have ids: "assertBounded ''r1'' f 512 = Inr ()" "assertBounded ''job1'' f 512 = Inr ()" "assertBounded ''p'' f 512 = Inr ()"
    "assertBounded ''acme'' f 512 = Inr ()" "assertBounded ''main'' f 512 = Inr ()" "assertBounded ''env1'' f 512 = Inr ()"
    "assertBounded ''a1'' f 512 = Inr ()" for f
    by code_simp+
  have digest: "assertDigest (replicate 64 (CHR ''a'')) f = Inr ()" for f
    by (simp add: assertDigest_def guard_def digest_test list_all_iff hex_char_def)
  have head: "regex_test False HEAD_SHA demo_head" using demo_head_ok(1) by (auto simp: assertHeadSha_def guard_def split: if_splits)
  have "assertInput demo_terms (Whole 6) = Inr ()"
    by (simp add: assertInput_def demo_terms_def ids digest demo_bounded head assertOptionalDigest_def assertTimestamp_def guard_def
        MAX_SAFE_INTEGER_def)
  then show ?thesis
    by (simp add: record_receipt_def guard_def getByEffect_def get_where_def receipt_row_ok_def demo_receipt_def Let_def)
      (simp add: demo_terms_def)
qed

lemma demo_consume: "consume [demo_receipt] ''k1'' (Whole 7) = Inr ([demo_used], True)"
  by (simp add: consume_def demo_bounded assertTimestamp_def guard_def MAX_SAFE_INTEGER_def demo_used_def demo_receipt_def demo_terms_def
      update_where_def changes_def)

lemma demo_consume_again: "consume [demo_used] ''k1'' (Whole 8) = Inr ([demo_used], False)"
  by (simp add: consume_def demo_bounded assertTimestamp_def guard_def MAX_SAFE_INTEGER_def demo_used_def demo_receipt_def demo_terms_def
      update_where_def changes_def)

theorem receipt_is_used_once_witness:
  "receiptTerms demo_used = receiptTerms demo_receipt \<and> receiptStatus demo_used = ReceiptConsumed"
  using receipt_is_used_once [OF reachable_receipts.step [OF reachable_receipts.none receipt_step.recorded [OF demo_record]]
      demo_consume rtranclp.rtrancl_refl demo_consume_again] by (simp add: demo_used_def)

end
