(* ===== verification/Cron.thy ===== *)
theory Cron
  imports Merge_Gates
begin

text \<open>
  The cron evaluator (\<open>src/services/cron.ts\<close>): parsing the five fields, matching an instant, and the
  search for the next occurrence.

  An instant is a whole number of milliseconds.  The local components of a \<open>Date\<close>, which depend on the
  host's time zone, are read through a \<open>local_clock\<close>.  A JavaScript set of numbers is the list of its
  elements.
\<close>

subsection \<open>Fields\<close>

definition FIELD_BOUNDS :: "(nat \<times> nat) list" where
  "FIELD_BOUNDS = [(0, 59), (0, 23), (1, 31), (1, 12), (0, 7)]"

definition all_digits :: "string \<Rightarrow> bool" where
  "all_digits s \<longleftrightarrow> s \<noteq> [] \<and> list_all (\<lambda>c. List.member ''0123456789'' c) s"

text \<open>\<open>for (let value = low; value <= high; value += step) values.add(value)\<close>\<close>

definition stepped :: "nat \<Rightarrow> nat \<Rightarrow> nat \<Rightarrow> nat list" where
  "stepped low high step = map (\<lambda>k. low + k * step) [0..<Suc ((high - low) div step)]"

definition part_bounds :: "nat \<Rightarrow> nat \<Rightarrow> string \<Rightarrow> bool \<Rightarrow> (nat \<times> nat) option" where
  "part_bounds lo hi spec stepped_part =
     (if spec = ''*'' then Some (lo, hi)
      else if all_digits spec then Some (read_nat spec, if stepped_part then hi else read_nat spec)
      else (case split_at (CHR ''-'') spec of
          [a, b] \<Rightarrow> if all_digits a \<and> all_digits b then Some (read_nat a, read_nat b) else None
        | _ \<Rightarrow> None))"

definition parse_part :: "nat \<Rightarrow> nat \<Rightarrow> string \<Rightarrow> nat list option" where
  "parse_part lo hi part =
     (let range = (\<lambda>spec stepText.
            if stepText \<noteq> None \<and> (\<not> all_digits (the stepText) \<or> read_nat (the stepText) < 1) then None
            else (case part_bounds lo hi spec (stepText \<noteq> None) of
                None \<Rightarrow> None
              | Some (low, high) \<Rightarrow>
                  if low < lo \<or> high > hi \<or> low > high then None
                  else Some (stepped low high (case stepText of None \<Rightarrow> 1 | Some s \<Rightarrow> read_nat s))))
      in if part = [] then None
         else (case split_at (CHR ''/'') part of
             [spec] \<Rightarrow> range spec None
           | [spec, s] \<Rightarrow> range spec (Some s)
           | _ \<Rightarrow> None))"

fun parse_parts :: "nat \<Rightarrow> nat \<Rightarrow> string list \<Rightarrow> nat list option" where
  "parse_parts lo hi [] = Some []"
| "parse_parts lo hi (p # ps) =
     (case parse_part lo hi p of
        None \<Rightarrow> None
      | Some vs \<Rightarrow> (case parse_parts lo hi ps of None \<Rightarrow> None | Some ws \<Rightarrow> Some (vs @ ws)))"

definition parseField :: "string \<Rightarrow> nat \<Rightarrow> nat list option" where
  "parseField raw index =
     (let (lo, hi) = FIELD_BOUNDS ! index in
      case parse_parts lo hi (split_at (CHR '','') raw) of
        None \<Rightarrow> None
      | Some vs \<Rightarrow>
          if vs = [] then None
          else if index = 4 \<and> List.member vs 7 then Some (filter (\<lambda>v. v \<noteq> 7) vs @ [0])
          else Some vs)"

record cron_schedule =
  cronMinute :: "nat list"
  cronHour :: "nat list"
  cronDayOfMonth :: "nat list"
  cronMonth :: "nat list"
  cronDayOfWeek :: "nat list"
  dayOfMonthRestricted :: bool
  dayOfWeekRestricted :: bool

definition parseCron :: "string \<Rightarrow> cron_schedule option" where
  "parseCron expression =
     (case split_spaces (js_trim expression) of
        [a0, a1, a2, a3, a4] \<Rightarrow>
          (case (parseField a0 0, parseField a1 1, parseField a2 2, parseField a3 3, parseField a4 4) of
             (Some f0, Some f1, Some f2, Some f3, Some f4) \<Rightarrow>
               Some \<lparr>cronMinute = f0, cronHour = f1, cronDayOfMonth = f2, cronMonth = f3, cronDayOfWeek = f4,
                     dayOfMonthRestricted = (a2 \<noteq> ''*''), dayOfWeekRestricted = (a4 \<noteq> ''*'')\<rparr>
           | _ \<Rightarrow> None)
      | _ \<Rightarrow> None)"

subsection \<open>Matching\<close>

text \<open>The getters of \<open>Date\<close> in the host's zone; \<open>getMonth\<close> counts from 0 and Sunday is 0.\<close>

record local_clock =
  getMinutes :: "int \<Rightarrow> nat"
  getHours :: "int \<Rightarrow> nat"
  getDate :: "int \<Rightarrow> nat"
  getMonth :: "int \<Rightarrow> nat"
  getDay :: "int \<Rightarrow> nat"

definition matchesDay :: "local_clock \<Rightarrow> cron_schedule \<Rightarrow> int \<Rightarrow> bool" where
  "matchesDay clock s at =
     (let dayOfMonth = List.member (cronDayOfMonth s) (getDate clock at);
          dayOfWeek = List.member (cronDayOfWeek s) (getDay clock at)
      in if dayOfMonthRestricted s \<and> dayOfWeekRestricted s then dayOfMonth \<or> dayOfWeek
         else if dayOfMonthRestricted s then dayOfMonth
         else if dayOfWeekRestricted s then dayOfWeek
         else True)"

definition matchesMonth :: "local_clock \<Rightarrow> cron_schedule \<Rightarrow> int \<Rightarrow> bool" where
  "matchesMonth clock s at = List.member (cronMonth s) (getMonth clock at + 1)"

definition matchesCron :: "local_clock \<Rightarrow> cron_schedule \<Rightarrow> int \<Rightarrow> bool" where
  "matchesCron clock s at \<longleftrightarrow> List.member (cronMinute s) (getMinutes clock at) \<and> List.member (cronHour s) (getHours clock at) \<and>
     matchesMonth clock s at \<and> matchesDay clock s at"

subsection \<open>The next occurrence\<close>

definition MINUTE_MS :: int where "MINUTE_MS = 60000"
definition MINUTES_PER_DAY :: int where "MINUTES_PER_DAY = 24 * 60"
definition MAX_SEARCH_MINUTES :: nat where "MAX_SEARCH_MINUTES = 9 * 366 + 2 * 1440"

text \<open>The loop, with the number of its passes left.\<close>

fun cron_search :: "local_clock \<Rightarrow> cron_schedule \<Rightarrow> int \<Rightarrow> nat \<Rightarrow> int \<Rightarrow> int option" where
  "cron_search clock s after 0 cursor = None"
| "cron_search clock s after (Suc n) cursor =
     (if matchesCron clock s cursor then (if after < cursor then Some cursor else None)
      else if \<not> matchesDay clock s cursor \<or> \<not> matchesMonth clock s cursor
      then cron_search clock s after n
             (cursor + (MINUTES_PER_DAY - int (getHours clock cursor * 60 + getMinutes clock cursor)) * MINUTE_MS)
      else cron_search clock s after n (cursor + MINUTE_MS))"

text \<open>\<open>after\<close> is a whole number; a number that is not finite gives null in the code.\<close>

definition nextCronOccurrence :: "local_clock \<Rightarrow> string \<Rightarrow> int \<Rightarrow> int option" where
  "nextCronOccurrence clock expression after =
     (case parseCron expression of
        None \<Rightarrow> None
      | Some s \<Rightarrow> cron_search clock s after MAX_SEARCH_MINUTES (after div MINUTE_MS * MINUTE_MS + MINUTE_MS))"

end
