(* ===== verification/Cron_Properties.thy ===== *)
theory Cron_Properties
  imports Cron
begin

text \<open>
  The schedule of a cron expression: the search is exact under a fixed offset from UTC, and what the
  day skip does on a day of another length.
\<close>

subsection \<open>Parsed fields\<close>

lemma stepped_members:
  assumes "low \<le> high"
  shows "low \<in> set (stepped low high st)" "\<And>v. v \<in> set (stepped low high st) \<Longrightarrow> low \<le> v \<and> v \<le> high"
proof -
  show "low \<in> set (stepped low high st)"
    by (force simp: stepped_def)
  fix v assume "v \<in> set (stepped low high st)"
  then obtain k where k: "v = low + k * st" "k \<in> set [0..<Suc ((high - low) div st)]"
    unfolding stepped_def set_map by blast
  then have kb: "k \<le> (high - low) div st" by (simp only: set_upt atLeastLessThan_iff less_Suc_eq_le)
  have "k * st \<le> (high - low) div st * st" using kb by simp
  also have "\<dots> \<le> high - low" by (metis div_times_less_eq_dividend)
  finally show "low \<le> v \<and> v \<le> high" using k(1) assms by simp
qed

lemma parse_part_range:
  assumes "parse_part lo hi p = Some vs"
  shows "vs \<noteq> [] \<and> (\<forall>v \<in> set vs. lo \<le> v \<and> v \<le> hi)"
proof -
  have *: "stepped low high st \<noteq> [] \<and> (\<forall>v \<in> set (stepped low high st). lo \<le> v \<and> v \<le> hi)"
    if "lo \<le> low" "high \<le> hi" "low \<le> high" for low high st
    using stepped_members(1)[OF that(3), of st] stepped_members(2)[OF that(3), where st = st] that by fastforce
  show ?thesis
    using assms by (fastforce simp: parse_part_def Let_def not_less split: if_splits option.splits list.splits prod.splits dest: *)
qed

lemma parse_parts_range:
  assumes "parse_parts lo hi ps = Some vs" and "v \<in> set vs"
  shows "lo \<le> v \<and> v \<le> hi"
  using assms
proof (induction ps arbitrary: vs)
  case (Cons p ps)
  then show ?case
    using parse_part_range[of lo hi p] by (fastforce split: option.splits)
qed simp

lemma parseField_range:
  assumes "parseField raw index = Some vs" and "index < 4" and "FIELD_BOUNDS ! index = (lo, hi)"
  shows "vs \<noteq> [] \<and> (\<forall>v \<in> set vs. lo \<le> v \<and> v \<le> hi)"
  using assms parse_parts_range[of lo hi "split_at (CHR '','') raw"]
  by (auto simp: parseField_def split: option.splits if_splits)

lemma parsed_times: 
  assumes "parseCron e = Some s"
  shows "\<exists>m h. m \<in> set (cronMinute s) \<and> h \<in> set (cronHour s) \<and> m < 60 \<and> h < 24"
proof -
  obtain a0 a1 where f: "parseField a0 0 = Some (cronMinute s)" "parseField a1 1 = Some (cronHour s)"
    using assms by (auto simp: parseCron_def split: list.splits option.splits)
  have m: "cronMinute s \<noteq> [] \<and> (\<forall>v \<in> set (cronMinute s). 0 \<le> v \<and> v \<le> 59)"
    by (rule parseField_range[OF f(1)]) (simp_all add: FIELD_BOUNDS_def)
  have h: "cronHour s \<noteq> [] \<and> (\<forall>v \<in> set (cronHour s). 0 \<le> v \<and> v \<le> 23)"
    by (rule parseField_range[OF f(2)]) (simp_all add: FIELD_BOUNDS_def)
  have "hd (cronMinute s) \<in> set (cronMinute s)" "hd (cronHour s) \<in> set (cronHour s)" using m h by auto
  moreover from this have "hd (cronMinute s) \<le> 59" "hd (cronHour s) \<le> 23" using m h by blast+
  ultimately show ?thesis by (intro exI[of _ "hd (cronMinute s)"] exI[of _ "hd (cronHour s)"]) simp
qed

subsection \<open>A zone at a fixed offset\<close>

text \<open>The number of the local minute, its day and its time of day, and what a clock reads of them.\<close>

definition local_minute :: "int \<Rightarrow> int \<Rightarrow> int" where
  "local_minute off t = (t + off) div 60000"

definition local_day :: "int \<Rightarrow> int \<Rightarrow> int" where
  "local_day off t = local_minute off t div 1440"

definition local_time :: "int \<Rightarrow> int \<Rightarrow> int" where
  "local_time off t = local_minute off t mod 1440"

definition fixed_clock :: "int \<Rightarrow> local_clock \<Rightarrow> bool" where
  "fixed_clock off clock \<longleftrightarrow> 60000 dvd off \<and>
     (\<forall>t. int (getMinutes clock t) = local_minute off t mod 60 \<and>
          int (getHours clock t) = local_minute off t div 60 mod 24) \<and>
     (\<forall>t u. local_day off t = local_day off u \<longrightarrow>
          getDate clock t = getDate clock u \<and> getMonth clock t = getMonth clock u \<and> getDay clock t = getDay clock u)"

text \<open>The least whole minute after an instant that a schedule matches.\<close>

definition first_match :: "local_clock \<Rightarrow> cron_schedule \<Rightarrow> int \<Rightarrow> int \<Rightarrow> bool" where
  "first_match clock s after u \<longleftrightarrow> 60000 dvd u \<and> after < u \<and> matchesCron clock s u \<and>
     (\<forall>v. 60000 dvd v \<and> after < v \<and> v < u \<longrightarrow> \<not> matchesCron clock s v)"

lemma local_minute_step:
  "local_minute off (t + k * 60000) = local_minute off t + k"
proof -
  have "t + k * 60000 + off = (t + off) + k * 60000" by simp
  then show ?thesis unfolding local_minute_def by (simp only: div_mult_self1)
qed

lemma aligned_difference:
  assumes "60000 dvd off" "60000 dvd t" "60000 dvd u"
  shows "u = t + (local_minute off u - local_minute off t) * 60000"
proof -
  obtain b c where bc: "t + off = 60000 * b" "u + off = 60000 * c"
    using dvd_add[OF assms(2,1)] dvd_add[OF assms(3,1)] unfolding dvd_def by blast
  then have "local_minute off t = b" "local_minute off u = c" unfolding local_minute_def by simp_all
  moreover have "u = t + (c - b) * 60000" using bc by (simp add: left_diff_distrib)
  ultimately show ?thesis by simp
qed

lemma day_and_time:
  "local_minute off t = local_day off t * 1440 + local_time off t" "0 \<le> local_time off t" "local_time off t < 1440"
  by (simp_all add: local_day_def local_time_def)

lemma day_time_unique:
  assumes "local_minute off t = d * 1440 + m" and "0 \<le> m" and "m < 1440"
  shows "local_day off t = d" "local_time off t = m"
  using assms by (simp_all add: local_day_def local_time_def)

lemma local_minute_mono: "c \<le> u \<Longrightarrow> local_minute off c \<le> local_minute off u"
  by (simp add: local_minute_def zdiv_mono1)

lemma local_day_mono: "c \<le> u \<Longrightarrow> local_day off c \<le> local_day off u"
  by (simp add: local_day_def zdiv_mono1 local_minute_mono)

lemma elapsed_today:
  assumes "fixed_clock off clock"
  shows "int (getHours clock t * 60 + getMinutes clock t) = local_time off t"
proof -
  have "local_time off t = local_minute off t div 60 mod 24 * 60 + local_minute off t mod 60"
    using zmod_zmult2_eq[of 24 "local_minute off t" 60] by (simp add: local_time_def)
  then show ?thesis using assms by (simp add: fixed_clock_def)
qed

lemma day_agrees:
  assumes "fixed_clock off clock" and "local_day off t = local_day off u"
  shows "matchesDay clock s t = matchesDay clock s u" "matchesMonth clock s t = matchesMonth clock s u"
proof -
  have "getDate clock t = getDate clock u" "getMonth clock t = getMonth clock u" "getDay clock t = getDay clock u"
    using assms unfolding fixed_clock_def by blast+
  then show "matchesDay clock s t = matchesDay clock s u" "matchesMonth clock s t = matchesMonth clock s u"
    by (simp_all add: matchesDay_def matchesMonth_def Let_def)
qed

lemma matches_at:
  assumes "fixed_clock off clock"
  shows "matchesCron clock s t \<longleftrightarrow> List.member (cronMinute s) (nat (local_minute off t mod 60)) \<and>
     List.member (cronHour s) (nat (local_minute off t div 60 mod 24)) \<and> matchesMonth clock s t \<and> matchesDay clock s t"
proof -
  have "int (getMinutes clock t) = local_minute off t mod 60" "int (getHours clock t) = local_minute off t div 60 mod 24"
    using assms by (simp_all add: fixed_clock_def)
  then have "getMinutes clock t = nat (local_minute off t mod 60)" "getHours clock t = nat (local_minute off t div 60 mod 24)"
    by (metis nat_int)+
  then show ?thesis by (simp add: matchesCron_def)
qed

text \<open>On a day that can match, the parsed minutes and hours give a match.\<close>

lemma matching_day_has_match:
  assumes "fixed_clock off clock" and "60000 dvd t" and "local_time off t = 0"
    and "matchesDay clock s t" and "matchesMonth clock s t"
    and "m \<in> set (cronMinute s)" "h \<in> set (cronHour s)" "m < 60" "h < 24"
  shows "\<exists>v. 60000 dvd v \<and> t \<le> v \<and> local_day off v = local_day off t \<and> matchesCron clock s v"
proof -
  let ?k = "int h * 60 + int m"
  let ?v = "t + ?k * 60000"
  have lv: "local_minute off ?v = local_minute off t + ?k" by (rule local_minute_step)
  have b: "0 \<le> ?k" "?k < 1440" using assms(8,9) by simp_all
  define q where "q = local_day off t"
  have q: "local_minute off t = 1440 * q" using assms(3) day_and_time(1)[of off t] by (simp add: q_def)
  have day: "local_day off ?v = local_day off t"
    using lv q b by (intro day_time_unique(1)[where m = ?k]) (simp_all add: q_def)
  have "local_minute off ?v = (24 * q + int h) * 60 + int m" using lv q by simp
  moreover from this have "local_minute off ?v div 60 = int h + q * 24" using assms(8) by simp
  moreover have "((24 * q + int h) * 60 + int m) mod 60 = int m mod 60" by (rule mod_mult_self3)
  moreover have "(int h + q * 24) mod 24 = int h mod 24" by (rule mod_mult_self1)
  ultimately have "local_minute off ?v mod 60 = int m" "local_minute off ?v div 60 mod 24 = int h"
    using assms(8,9) by (simp_all only:) simp_all
  then have "matchesCron clock s ?v"
    using matches_at[OF assms(1), of s ?v] day_agrees[OF assms(1) day, of s] assms(4-7) by (simp add: List.member_iff)
  moreover have "60000 dvd ?v" using assms(2) by simp
  moreover have "t \<le> ?v" using b by simp
  ultimately show ?thesis using day by blast
qed


subsection \<open>The search\<close>

lemma search_same_day:
  assumes "fixed_clock off clock" and "after < c" and "60000 dvd c" and "first_match clock s after u" and "c \<le> u"
    and "local_day off c = local_day off u" and "local_minute off u - local_minute off c < int n"
  shows "cron_search clock s after n c = Some u"
  using assms
proof (induction n arbitrary: c)
  case 0
  then show ?case
    using aligned_difference[of off c u] by (simp add: fixed_clock_def first_match_def)
next
  case (Suc n)
  note fm = Suc.prems(4)[unfolded first_match_def]
  have d: "u = c + (local_minute off u - local_minute off c) * 60000"
    using Suc.prems(1,3) fm by (intro aligned_difference) (simp_all add: fixed_clock_def)
  show ?case
  proof (cases "c = u")
    case True
    then show ?thesis using fm by simp
  next
    case False
    then have less: "local_minute off c < local_minute off u" using d Suc.prems(5) by (smt (verit))
    then have ne: "\<not> matchesCron clock s c" using fm Suc.prems(2,3,5) False by auto
    have "matchesDay clock s c" "matchesMonth clock s c"
      using day_agrees[OF Suc.prems(1,6), of s] fm by (simp_all add: matchesCron_def)
    moreover have lm: "local_minute off (c + MINUTE_MS) = local_minute off c + 1"
      using local_minute_step[of off c 1] by (simp add: MINUTE_MS_def)
    have "cron_search clock s after n (c + MINUTE_MS) = Some u"
    proof (rule Suc.IH[OF Suc.prems(1) _ _ Suc.prems(4)])
      show "after < c + MINUTE_MS" "60000 dvd c + MINUTE_MS" using Suc.prems(2,3) by (simp_all add: MINUTE_MS_def)
      show "c + MINUTE_MS \<le> u" using d less by (simp add: MINUTE_MS_def)
      show "local_minute off u - local_minute off (c + MINUTE_MS) < int n" using Suc.prems(7) lm by simp
      have "local_day off c \<le> local_day off (c + MINUTE_MS)" "local_day off (c + MINUTE_MS) \<le> local_day off u"
        using d less by (auto intro!: local_day_mono simp: MINUTE_MS_def)
      then show "local_day off (c + MINUTE_MS) = local_day off u" using Suc.prems(6) by simp
    qed
    ultimately show ?thesis using ne by simp
  qed
qed

text \<open>The day skip lands on the next local midnight, which is not after a match on a later day.\<close>

abbreviation next_day :: "local_clock \<Rightarrow> int \<Rightarrow> int" where
  "next_day clock c \<equiv> c + (MINUTES_PER_DAY - int (getHours clock c * 60 + getMinutes clock c)) * MINUTE_MS"

lemma skip_to_midnight:
  assumes "fixed_clock off clock"
  shows "local_minute off (next_day clock c) = (local_day off c + 1) * 1440"
proof -
  have "local_minute off (c + (1440 - local_time off c) * 60000) = local_minute off c + (1440 - local_time off c)"
    by (rule local_minute_step)
  also have "\<dots> = (local_day off c + 1) * 1440"
    using day_and_time(1)[of off c] by simp
  finally show ?thesis
    using elapsed_today[OF assms, of c] by (simp only: MINUTES_PER_DAY_def MINUTE_MS_def) simp
qed

lemma minutes_ahead: "u = x + (k - j) * 60000 \<Longrightarrow> j \<le> k \<Longrightarrow> x \<le> (u :: int)"
  by simp

lemma skipped_day:
  assumes "fixed_clock off clock" and "60000 dvd c" and "60000 dvd u"
    and "local_day off c < local_day off u"
  shows "c < next_day clock c" "60000 dvd next_day clock c" "next_day clock c \<le> u"
    "local_time off (next_day clock c) = 0"
    "local_day off (next_day clock c) = local_day off c + 1"
proof -
  note lm = skip_to_midnight[OF assms(1), of c]
  show "c < next_day clock c"
    using elapsed_today[OF assms(1), of c] day_and_time(3)[of off c] by (simp add: MINUTES_PER_DAY_def MINUTE_MS_def)
  show a: "60000 dvd next_day clock c" using assms(2) by (simp add: MINUTE_MS_def)
  have "local_minute off (next_day clock c) \<le> local_minute off u"
    unfolding lm using assms(4) day_and_time(1,2)[of off u] by simp
  moreover have "u = next_day clock c + (local_minute off u - local_minute off (next_day clock c)) * 60000"
    using assms(1,3) a by (intro aligned_difference) (simp_all add: fixed_clock_def)
  ultimately show "next_day clock c \<le> u" by (rule minutes_ahead[rotated])
  show "local_time off (next_day clock c) = 0" "local_day off (next_day clock c) = local_day off c + 1"
    using day_time_unique[of off "next_day clock c" "local_day off c + 1" 0] lm by (simp_all only: add_0_right)
qed

text \<open>From a local midnight, one pass for each day before the match.\<close>

lemma search_from_midnight:
  assumes "fixed_clock off clock" and "\<exists>m h. m \<in> set (cronMinute s) \<and> h \<in> set (cronHour s) \<and> m < 60 \<and> h < 24"
    and "first_match clock s after u"
    and "after < c" and "60000 dvd c" and "c \<le> u" and "local_time off c = 0"
    and "local_day off u - local_day off c + local_time off u < int n"
  shows "cron_search clock s after n c = Some u"
  using assms(4-)
proof (induction n arbitrary: c)
  case 0
  then show ?case using local_day_mono[OF 0(3), of off] day_and_time(2)[of off u] by simp
next
  case (Suc n)
  note fm = assms(3)[unfolded first_match_def]
  show ?case
  proof (cases "local_day off c = local_day off u")
    case True
    have "local_minute off u - local_minute off c = local_time off u"
      using True Suc.prems(4) day_and_time(1)[of off u] day_and_time(1)[of off c] by simp
    then show ?thesis
      using Suc.prems True by (intro search_same_day[OF assms(1) Suc.prems(1,2) assms(3)]) simp_all
  next
    case False
    have less: "local_day off c < local_day off u" using False local_day_mono[OF Suc.prems(3), of off] by simp
    have idle: "\<not> (matchesDay clock s c \<and> matchesMonth clock s c)"
    proof
      assume "matchesDay clock s c \<and> matchesMonth clock s c"
      then obtain v where v: "60000 dvd v" "c \<le> v" "local_day off v = local_day off c" "matchesCron clock s v"
        using matching_day_has_match[OF assms(1) Suc.prems(2,4)] assms(2) by blast
      then have "v < u" using less local_day_mono[of u v off] by (cases "u \<le> v") simp_all
      then show False using fm v Suc.prems(1) by fastforce
    qed
    then have ne: "\<not> matchesCron clock s c" by (auto simp: matchesCron_def)
    note skip = skipped_day[OF assms(1) Suc.prems(2) _ less]
    have "cron_search clock s after n (next_day clock c) = Some u"
      using skip fm Suc.prems(1,5) by (intro Suc.IH) simp_all
    then show ?thesis using ne idle by (simp only: cron_search.simps if_False if_True de_Morgan_conj[symmetric] not_False_eq_True)
  qed
qed

text \<open>From any minute: what is left of this day, one pass for each day between, the day of the match.\<close>

lemma search_later_day:
  assumes "fixed_clock off clock" and "\<exists>m h. m \<in> set (cronMinute s) \<and> h \<in> set (cronHour s) \<and> m < 60 \<and> h < 24"
    and "first_match clock s after u"
    and "after < c" and "60000 dvd c" and "local_day off c < local_day off u"
    and "(1440 - local_time off c) + (local_day off u - local_day off c - 1)
      + local_time off u < int n"
  shows "cron_search clock s after n c = Some u"
  using assms(4-)
proof (induction n arbitrary: c)
  case 0
  then show ?case using day_and_time(3)[of off c] day_and_time(2)[of off u] by simp
next
  case (Suc n)
  note fm = assms(3)[unfolded first_match_def]
  note skip = skipped_day[OF assms(1) Suc.prems(2) _ Suc.prems(3)]
  have "c < u" using skip fm by (meson less_le_trans)
  then have ne: "\<not> matchesCron clock s c" using fm Suc.prems(1,2) by blast
  have left: "local_time off c < 1440" by (rule day_and_time)
  show ?case
  proof (cases "matchesDay clock s c \<and> matchesMonth clock s c")
    case False
    have "cron_search clock s after n (next_day clock c) = Some u"
      using skip fm Suc.prems(1,4) left by (intro search_from_midnight[OF assms(1-3)]; linarith)
    then show ?thesis using ne False by (simp only: cron_search.simps if_False if_True de_Morgan_conj[symmetric] not_False_eq_True)
  next
    case True
    have lm: "local_minute off (c + MINUTE_MS) = local_minute off c + 1"
      using local_minute_step[of off c 1] by (simp add: MINUTE_MS_def)
    have "cron_search clock s after n (c + MINUTE_MS) = Some u"
    proof (cases "local_time off c = 1439")
      case True
      have "c + MINUTE_MS = next_day clock c"
        using elapsed_today[OF assms(1), of c] True by (simp add: MINUTES_PER_DAY_def MINUTE_MS_def)
      then show ?thesis
        using skip fm Suc.prems(1,4) True left by (simp only:) (intro search_from_midnight[OF assms(1-3)]; simp)
    next
      case False
      then have "local_minute off (c + MINUTE_MS) = local_day off c * 1440 + (local_time off c + 1)" "local_time off c + 1 < 1440"
        using lm left day_and_time(1)[of off c] by simp_all
      then have "local_day off (c + MINUTE_MS) = local_day off c" "local_time off (c + MINUTE_MS) = local_time off c + 1"
        using day_and_time(2)[of off c] by (auto intro: day_time_unique)
      then show ?thesis using Suc.prems by (intro Suc.IH) (simp_all add: MINUTE_MS_def)
    qed
    then show ?thesis using ne True by (simp only: cron_search.simps if_False if_True simp_thms)
  qed
qed

lemma cursor_bounds:
  fixes after :: int
  shows "after < after div MINUTE_MS * MINUTE_MS + MINUTE_MS" "60000 dvd after div MINUTE_MS * MINUTE_MS + MINUTE_MS"
    "\<And>u. 60000 dvd u \<Longrightarrow> after < u \<Longrightarrow> after div MINUTE_MS * MINUTE_MS + MINUTE_MS \<le> u"
proof -
  define q where "q = after div 60000"
  have q: "after div MINUTE_MS = q" "q * 60000 \<le> after" "after < q * 60000 + 60000"
    using div_mult_mod_eq[of after 60000] pos_mod_sign[of 60000 after] pos_mod_bound[of 60000 after]
    unfolding q_def MINUTE_MS_def by simp_all
  show "after < after div MINUTE_MS * MINUTE_MS + MINUTE_MS" "60000 dvd after div MINUTE_MS * MINUTE_MS + MINUTE_MS"
    using q by (simp_all add: MINUTE_MS_def)
  fix u :: int assume u: "60000 dvd u" "after < u"
  then obtain k where k: "u = 60000 * k" by auto
  then have "q < k" using u(2) q(2) by simp
  then show "after div MINUTE_MS * MINUTE_MS + MINUTE_MS \<le> u" using q(1) k by (simp add: MINUTE_MS_def)
qed

lemma next_finds_first:
  assumes "fixed_clock off clock" and "parseCron e = Some s" and "first_match clock s after u"
    and "u \<le> after + 9 * 366 * 86400000"
  shows "nextCronOccurrence clock e after = Some u"
proof -
  define c where "c = after div MINUTE_MS * MINUTE_MS + MINUTE_MS"
  note c = cursor_bounds[of after, folded c_def]
  note fm = assms(3)[unfolded first_match_def]
  have cu: "c \<le> u" using cursor_bounds(3)[of u after] fm by (simp only: c_def simp_thms)
  have "u \<le> c + 4743360 * 60000" using assms(4) c(1) by simp
  then have far: "local_minute off u \<le> local_minute off c + 4743360"
    using local_minute_mono[of u "c + 4743360 * 60000" off] local_minute_step[of off c 4743360] by simp
  have "cron_search clock s after MAX_SEARCH_MINUTES c = Some u"
  proof (cases "local_day off c = local_day off u")
    case True
    then have "local_minute off u - local_minute off c < 1440"
      using day_and_time[of off u] day_and_time[of off c] by simp
    then show ?thesis
      using True by (intro search_same_day[OF assms(1) c(1,2) assms(3) cu]) (simp_all add: MAX_SEARCH_MINUTES_def)
  next
    case False
    then have less: "local_day off c < local_day off u" using local_day_mono[OF cu, of off] by simp
    have "local_day off u * 1440 \<le> (local_day off c + 3294) * 1440 + local_time off c"
      using far day_and_time(1,2)[of off u] day_and_time(1)[of off c] by simp
    then have "local_day off u \<le> local_day off c + 3294" using day_and_time(3)[of off c] by simp
    then have "local_day off u - local_day off c + local_time off u - local_time off c < 4734"
      using day_and_time(3)[of off u] day_and_time(2)[of off c] by simp
    then show ?thesis
      using less by (intro search_later_day[OF assms(1) parsed_times[OF assms(2)] assms(3) c(1,2)]) (simp_all add: MAX_SEARCH_MINUTES_def)
  qed
  then show ?thesis using assms(2) by (simp add: nextCronOccurrence_def c_def)
qed


lemma search_result:
  assumes "cron_search clock s after n c = Some u" and "60000 dvd c"
  shows "60000 dvd u" "after < u" "matchesCron clock s u"
  using assms
  by (induction n arbitrary: c) (auto simp: MINUTE_MS_def split: if_splits)

lemma search_forward:
  assumes "cron_search clock s after n c = Some u" and "\<And>t. int (getHours clock t * 60 + getMinutes clock t) \<le> 1440"
  shows "c \<le> u"
  using assms(1)
proof (induction n arbitrary: c)
  case (Suc n)
  have "0 \<le> (MINUTES_PER_DAY - int (getHours clock c * 60 + getMinutes clock c)) * MINUTE_MS"
    using assms(2)[of c] by (simp add: MINUTES_PER_DAY_def MINUTE_MS_def)
  then have "c \<le> next_day clock c" by simp
  moreover have "c \<le> c + MINUTE_MS" by (simp add: MINUTE_MS_def)
  ultimately show ?case using Suc.prems Suc.IH by (fastforce split: if_splits)
qed simp

lemma first_match_exists:
  assumes "60000 dvd u" and "after < u" and "matchesCron clock s u"
  shows "\<exists>v \<le> u. first_match clock s after v"
proof -
  let ?P = "\<lambda>v. 60000 dvd v \<and> after < v \<and> matchesCron clock s v"
  obtain v where v: "?P v" "\<And>w. ?P w \<Longrightarrow> nat (v - after) \<le> nat (w - after)"
    using ex_has_least_nat[of ?P u "\<lambda>v. nat (v - after)"] assms by blast
  have "v \<le> w" if "?P w" for w using v(2)[OF that] v(1) that by linarith
  then show ?thesis using v(1) assms unfolding first_match_def by (meson not_less)
qed

subsection \<open>The properties\<close>

text \<open>C26: where the zone has one offset, the next occurrence of a parsed expression within nine years is exactly the
  first whole minute after the given instant that the expression matches: no matching minute is passed over by the
  day skip, no minute that does not match is returned, and the bound on the passes is enough.\<close>

theorem next_occurrence_is_first:
  assumes "fixed_clock off clock" and "parseCron e = Some s" and "u \<le> after + 9 * 366 * 86400000"
  shows "nextCronOccurrence clock e after = Some u \<longleftrightarrow> first_match clock s after u"
proof
  assume r: "nextCronOccurrence clock e after = Some u"
  then have "cron_search clock s after MAX_SEARCH_MINUTES (after div MINUTE_MS * MINUTE_MS + MINUTE_MS) = Some u"
    using assms(2) by (simp add: nextCronOccurrence_def)
  from search_result[OF this cursor_bounds(2)] obtain v where "v \<le> u" "first_match clock s after v"
    using first_match_exists by blast
  then show "first_match clock s after u"
    using next_finds_first[OF assms(1,2), of after v] assms(3) r by simp
next
  assume "first_match clock s after u"
  then show "nextCronOccurrence clock e after = Some u"
    by (rule next_finds_first[OF assms(1,2) _ assms(3)])
qed

text \<open>A zone at UTC, with months of thirty days.\<close>

definition utc_clock :: local_clock where
  "utc_clock = \<lparr>getMinutes = (\<lambda>t. nat (t div 60000 mod 60)), getHours = (\<lambda>t. nat (t div 60000 div 60 mod 24)),
     getDate = (\<lambda>t. nat (t div 60000 div 1440 mod 30) + 1), getMonth = (\<lambda>t. nat (t div 60000 div 1440 div 30 mod 12)),
     getDay = (\<lambda>t. nat ((t div 60000 div 1440 + 4) mod 7))\<rparr>"

lemma utc_clock_fixed: "fixed_clock 0 utc_clock"
  unfolding fixed_clock_def utc_clock_def local_clock.simps local_minute_def local_day_def add_0_right
  by (intro conjI allI impI dvd_0_right) (simp_all only: int_nat_eq pos_mod_sign zero_less_numeral if_True)

lemma daily_schedule:
  "parseCron ''1 0 * * *'' = Some \<lparr>cronMinute = [1], cronHour = [0], cronDayOfMonth = [1..<32], cronMonth = [1..<13],
     cronDayOfWeek = [0..<7] @ [0], dayOfMonthRestricted = False, dayOfWeekRestricted = False\<rparr>"
  by code_simp

theorem next_occurrence_is_first_witness:
  "nextCronOccurrence utc_clock ''1 0 * * *'' 0 = Some 60000"
proof -
  have "first_match utc_clock \<lparr>cronMinute = [1], cronHour = [0], cronDayOfMonth = [1..<32], cronMonth = [1..<13],
     cronDayOfWeek = [0..<7] @ [0], dayOfMonthRestricted = False, dayOfWeekRestricted = False\<rparr> 0 60000"
    by (simp add: first_match_def matchesCron_def matchesMonth_def matchesDay_def utc_clock_def)
  then show ?thesis
    using next_occurrence_is_first[OF utc_clock_fixed daily_schedule, of 60000 0] by simp
qed

text \<open>A day of 23 hours: the clocks go from 02:00 to 03:00 on a Sunday that begins at instant 0.\<close>

definition spring_minute :: "int \<Rightarrow> int" where
  "spring_minute t = t div 60000 + (if 7200000 \<le> t then 60 else 0)"

definition spring_clock :: local_clock where
  "spring_clock = \<lparr>getMinutes = (\<lambda>t. nat (spring_minute t mod 60)), getHours = (\<lambda>t. nat (spring_minute t div 60 mod 24)),
     getDate = (\<lambda>t. nat (spring_minute t div 1440 mod 30) + 1), getMonth = (\<lambda>t. nat (spring_minute t div 1440 div 30 mod 12)),
     getDay = (\<lambda>t. nat (spring_minute t div 1440 mod 7))\<rparr>"

definition monday_schedule :: cron_schedule where
  "monday_schedule = \<lparr>cronMinute = [30], cronHour = [0], cronDayOfMonth = [1..<32], cronMonth = [1..<13],
     cronDayOfWeek = [1], dayOfMonthRestricted = False, dayOfWeekRestricted = True\<rparr>"

lemma monday_parses: "parseCron ''30 0 * * 1'' = Some monday_schedule"
  by code_simp

text \<open>Where a day has 23 hours the day skip can pass over a match: from the Sunday on which the clocks go
  forward, the search for Monday at 00:30 lands at Monday 01:00, so the minute that matches is not returned.\<close>

theorem short_day_is_skipped:
  "matchesCron spring_clock monday_schedule 84600000 \<and>
   nextCronOccurrence spring_clock ''30 0 * * 1'' (- 60000) \<noteq> Some 84600000"
proof
  show "matchesCron spring_clock monday_schedule 84600000"
    by (simp add: matchesCron_def matchesMonth_def matchesDay_def spring_clock_def spring_minute_def monday_schedule_def)
  have bound: "int (getHours spring_clock t * 60 + getMinutes spring_clock t) \<le> 1440" for t
    using pos_mod_bound[of 24 "spring_minute t div 60"] pos_mod_bound[of 60 "spring_minute t"]
    by (simp add: spring_clock_def)
  have sunday: "\<not> matchesDay spring_clock monday_schedule 0" "next_day spring_clock 0 = 86400000"
    by (simp_all add: matchesDay_def spring_clock_def spring_minute_def monday_schedule_def MINUTES_PER_DAY_def MINUTE_MS_def)
  have "MAX_SEARCH_MINUTES = Suc 6173" by (simp add: MAX_SEARCH_MINUTES_def)
  then have "nextCronOccurrence spring_clock ''30 0 * * 1'' (- 60000)
      = cron_search spring_clock monday_schedule (- 60000) (Suc 6173) 0"
    by (simp only: nextCronOccurrence_def monday_parses option.case MINUTE_MS_def) simp
  also have "\<dots> = cron_search spring_clock monday_schedule (- 60000) 6173 86400000"
    using sunday by (simp only: cron_search.simps matchesCron_def simp_thms if_True if_False)
  finally show "nextCronOccurrence spring_clock ''30 0 * * 1'' (- 60000) \<noteq> Some 84600000"
    using search_forward[OF _ bound, of monday_schedule "- 60000" 6173 86400000 84600000] by fastforce
qed

end
