(* ===== verification/Finding_Assessment.thy ===== *)
theory Finding_Assessment
  imports Guards
begin

text \<open>
  The finding ledger of the navigator, first half (\<open>src/navigator/finding-ledger.ts\<close>): the review
  finding and its schema, the policy a capability admits, the fingerprint that identifies a finding,
  and the checks that turn the proposed and the confirmed findings of one verification into the facts
  the ledger records.

  The tables of the capability catalog are data of \<open>src/capabilities/catalog.ts\<close>; the lookups that are
  used here are the fields of a \<open>ledger_env\<close>, beside SHA-256 in its two encodings and \<open>localeCompare\<close>.
  A check that returns \<open>rejected(code)\<close> is \<open>Inr (Inl code)\<close>; a thrown \<open>TypeError\<close> is \<open>Inl\<close>.
\<close>

subsection \<open>Findings\<close>

record nav_finding =
  nfRootCauseId :: string
  nfCapabilityId :: string
  nfRuleId :: string
  nfSeverity :: review_severity
  nfSubject :: string
  nfLine :: "int option"
  nfRequirementId :: "string option"
  nfEvidenceClass :: string
  nfSummary :: string
  nfEvidenceRefs :: "string list"

text \<open>\<open>z.string().trim().min(lo).max(hi)\<close>\<close>

definition z_trimmed :: "nat \<Rightarrow> nat \<Rightarrow> string \<Rightarrow> string option" where
  "z_trimmed lo hi s = (let t = js_trim s in if lo \<le> length t \<and> length t \<le> hi then Some t else None)"

definition path_refined :: "string \<Rightarrow> bool" where
  "path_refined path =
     (let forward = map (\<lambda>c. if c = CHR 0x5C then CHR ''/'' else c) path;
          normalized = (if starts_with ''./'' forward then drop 2 forward else forward)
      in \<not> starts_with ''/'' path \<and> \<not> drive_path normalized \<and> \<not> List.member path (CHR 0x00) \<and>
         list_all (\<lambda>seg. seg \<noteq> [] \<and> seg \<noteq> ''.'' \<and> seg \<noteq> ''..'') (split_at (CHR ''/'') normalized))"

definition projectPathSchema :: "string \<Rightarrow> string option" where
  "projectPathSchema s = (case z_trimmed 1 4096 s of None \<Rightarrow> None | Some p \<Rightarrow> if path_refined p then Some p else None)"

fun all_some :: "('a \<Rightarrow> 'b option) \<Rightarrow> 'a list \<Rightarrow> 'b list option" where
  "all_some f [] = Some []"
| "all_some f (x # xs) = (case f x of None \<Rightarrow> None | Some y \<Rightarrow> map_option (\<lambda>ys. y # ys) (all_some f xs))"

definition requiredEvidenceRefsSchema :: "string list \<Rightarrow> string list option" where
  "requiredEvidenceRefsSchema refs =
     (if refs = [] \<or> length refs > 128 then None else all_some (z_trimmed 1 1024) refs)"

definition optional_id :: "string option \<Rightarrow> string option option" where
  "optional_id v = (case v of None \<Rightarrow> Some None | Some s \<Rightarrow> map_option Some (z_trimmed 1 256 s))"

definition navigatorReviewFindingSchema :: "nav_finding \<Rightarrow> nav_finding option" where
  "navigatorReviewFindingSchema f =
     (case (z_trimmed 1 256 (nfRootCauseId f), z_trimmed 1 256 (nfCapabilityId f), z_trimmed 1 256 (nfRuleId f)) of
        (Some root, Some cap, Some rule) \<Rightarrow>
          (case (projectPathSchema (nfSubject f), optional_id (nfRequirementId f), z_trimmed 1 256 (nfEvidenceClass f),
                 z_trimmed 1 8000 (nfSummary f), requiredEvidenceRefsSchema (nfEvidenceRefs f)) of
             (Some subject, Some req, Some cls, Some summary, Some refs) \<Rightarrow>
               (if (case nfLine f of None \<Rightarrow> True | Some n \<Rightarrow> 0 < n \<and> n \<le> MAX_SAFE_INTEGER)
                then Some \<lparr>nfRootCauseId = root, nfCapabilityId = cap, nfRuleId = rule, nfSeverity = nfSeverity f,
                           nfSubject = subject, nfLine = nfLine f, nfRequirementId = req, nfEvidenceClass = cls,
                           nfSummary = summary, nfEvidenceRefs = refs\<rparr>
                else None)
           | _ \<Rightarrow> None)
      | _ \<Rightarrow> None)"

definition normalizedFinding :: "nav_finding \<Rightarrow> nav_finding result" where
  "normalizedFinding f =
     rbind (normalizeGuardSubject (nfSubject f)) (\<lambda>subject.
       case navigatorReviewFindingSchema (f\<lparr>nfSubject := subject\<rparr>) of
         None \<Rightarrow> Inl (TypeError ''finding is invalid'')
       | Some g \<Rightarrow> Inr g)"

definition requirementClass :: "nav_finding \<Rightarrow> string" where
  "requirementClass f =
     (case nfRequirementId f of None \<Rightarrow> ''evidence:'' @ nfEvidenceClass f | Some r \<Rightarrow> ''requirement:'' @ r)"

definition navigatorFindingFingerprint :: "(string \<Rightarrow> string) \<Rightarrow> string \<Rightarrow> nav_finding \<Rightarrow> string result" where
  "navigatorFindingFingerprint sha256 digest f =
     rthen (guard (regex_test False digest_regex digest) (TypeError ''finding fingerprint inputs are invalid''))
    (rbind (normalizedFinding f) (\<lambda>n.
       Inr (sha256 (json_text (JList [JStr digest, JStr (nfRuleId n), JStr (nfSubject n), JStr (requirementClass n)])))))"

text \<open>The fields \<open>evaluateFindingDisposition\<close> reads.\<close>

definition disposition_input :: "nav_finding \<Rightarrow> guard_finding" where
  "disposition_input f = \<lparr>gfRuleId = nfRuleId f, gfSeverity = nfSeverity f, gfSubject = nfSubject f, gfLine = nfLine f,
     gfEvidence = nfSummary f, gfEvidenceClass = nfEvidenceClass f, gfRequirementId = nfRequirementId f\<rparr>"

subsection \<open>The admitted policy of a capability\<close>

record capability_view =
  cvId :: string
  cvDigest :: string
  cvVersion :: string
  cvAdmitted :: bool
  cvGuardReceipt :: bool

record ledger_env =
  leSha256 :: "string \<Rightarrow> string"
  leSha256Url :: "string \<Rightarrow> string"
  leCollate :: "string \<Rightarrow> string \<Rightarrow> int"
  leLive :: "string \<Rightarrow> capability_view option"
  leHistorical :: "string \<Rightarrow> capability_view option"
  leBundleDigest :: "string \<Rightarrow> string option"

definition capabilityDescriptorById :: "ledger_env \<Rightarrow> string \<Rightarrow> string option \<Rightarrow> capability_view option" where
  "capabilityDescriptorById env cid digest =
     (case digest of
        None \<Rightarrow> (case leLive env cid of Some d \<Rightarrow> Some d | None \<Rightarrow> leHistorical env cid)
      | Some g \<Rightarrow>
          if map_option cvDigest (leLive env cid) = Some g then leLive env cid
          else if map_option cvDigest (leHistorical env cid) = Some g then leHistorical env cid
          else None)"

record capability_policy =
  cpCapabilityId :: string
  cpDescriptorDigest :: string
  cpDescriptorVersion :: string
  cpPolicyRevision :: int
  cpRules :: finding_policy
  cpPolicyDigest :: string

definition FINDING_POLICY_DEFAULTS :: "(string \<times> disposition \<times> string list \<times> string list) list" where
  "FINDING_POLICY_DEFAULTS =
     [(''code-review'', Advisory, [], []),
      (''blast-radius'', Advisory, [], []),
      (''clean-code-guard'', Advisory, [''clean.rule-1''], [''clean.rule-10'']),
      (''docs-guard'', Advisory, [''docs.rule-1''], [''docs.rule-10'']),
      (''test-guard'', Advisory, [''tests.rule-1''], [''tests.rule-10'']),
      (''durable-boundary-audit'', Advisory, [], [])]"

fun disposition_name :: "disposition \<Rightarrow> string" where
  "disposition_name MustFix = ''must_fix''"
| "disposition_name Advisory = ''advisory''"

definition admittedCapabilityFindingPolicy :: "ledger_env \<Rightarrow> string \<Rightarrow> string \<Rightarrow> string list \<Rightarrow> capability_policy option" where
  "admittedCapabilityFindingPolicy env cid digest reqs =
     (let descriptor = (case capabilityDescriptorById env cid (Some digest) of Some d \<Rightarrow> Some d | None \<Rightarrow> leLive env cid);
          admitted = List.map_filter (\<lambda>d. d)
            [leBundleDigest env cid, map_option cvDigest descriptor, map_option cvDigest (leLive env cid)]
      in case (descriptor, map_of FINDING_POLICY_DEFAULTS cid) of
           (Some d, Some (dflt, must, adv)) \<Rightarrow>
             if \<not> cvAdmitted d \<or> \<not> cvGuardReceipt d \<or> \<not> List.member admitted digest \<or> length reqs > 100 \<or> \<not> distinct reqs
             then None
             else (let requirementIds = sort_by (leCollate env) reqs in
               Some \<lparr>cpCapabilityId = cvId d, cpDescriptorDigest = digest, cpDescriptorVersion = cvVersion d, cpPolicyRevision = 1,
                 cpRules = \<lparr>defaultDisposition = dflt, mustFixRules = must, advisoryRules = adv, knownRequirements = requirementIds\<rparr>,
                 cpPolicyDigest = leSha256 env (json_text (JObj [(''capabilityId'', JStr (cvId d)), (''descriptorDigest'', JStr digest),
                   (''descriptorVersion'', JStr (cvVersion d)), (''policyRevision'', JNum 1),
                   (''defaultDisposition'', JStr (disposition_name dflt)), (''mustFixRuleIds'', JList (map JStr must)),
                   (''advisoryRuleIds'', JList (map JStr adv)), (''requirementIds'', JList (map JStr requirementIds))]))\<rparr>)
         | _ \<Rightarrow> None)"

subsection \<open>The input of an assessment\<close>

record snapshot_binding =
  sbArtifactId :: "string option"
  sbArtifactDigest :: "string option"
  sbSpecificationId :: "string option"
  sbSpecificationDigest :: "string option"

record assessment_input =
  aiJobId :: string
  aiSliceId :: string
  aiSourceAttemptId :: string
  aiVerificationAttemptId :: string
  aiSourceDigest :: string
  aiVerificationDigest :: string
  aiHeadSha :: string
  aiSnapshots :: snapshot_binding
  aiGuards :: "(string \<times> string) list"
  aiRequirementIds :: "string list"
  aiProposed :: "nav_finding list"
  aiConfirmed :: "nav_finding list"
  aiEvidenceRefs :: "string list"
  aiNow :: js_number
  aiMaxReviewCycles :: js_number

record passing_input =
  piJobId :: string
  piSliceId :: string
  piVerificationAttemptId :: string
  piVerificationDigest :: string
  piHeadSha :: string
  piSnapshots :: snapshot_binding
  piEvidenceRefs :: "string list"
  piNow :: js_number
  piMaxReviewCycles :: js_number

text \<open>\<open>/^[A-Za-z0-9_.:/-]{1,256}$/u\<close>\<close>

definition identifier_char :: "char \<Rightarrow> bool" where
  "identifier_char c \<longleftrightarrow>
     in_ranges [(CHR ''A'', CHR ''Z''), (CHR ''a'', CHR ''z''), (CHR ''0'', CHR ''9'')] c \<or> List.member ''_.:/-'' c"

definition assertBoundedIdentifier :: "string \<Rightarrow> string \<Rightarrow> unit result" where
  "assertBoundedIdentifier v field =
     guard (1 \<le> length v \<and> length v \<le> 256 \<and> list_all identifier_char v) (TypeError (field @ '' is invalid''))"

definition assertSha :: "string \<Rightarrow> string \<Rightarrow> unit result" where
  "assertSha v field = guard (length v = 40 \<and> list_all hex_char v) (TypeError (field @ '' is invalid''))"

definition assertLedgerDigest :: "string option \<Rightarrow> string \<Rightarrow> unit result" where
  "assertLedgerDigest v field =
     guard (case v of None \<Rightarrow> True | Some d \<Rightarrow> length d = 64 \<and> list_all hex_char d) (TypeError (field @ '' is invalid''))"

definition assertSnapshotBinding :: "string option \<Rightarrow> string option \<Rightarrow> string \<Rightarrow> unit result" where
  "assertSnapshotBinding sid sdigest field =
     rthen (guard ((sid = None) = (sdigest = None)) (TypeError (field @ '' snapshot identity is incomplete'')))
    (rthen (case sid of None \<Rightarrow> Inr () | Some s \<Rightarrow> assertBoundedIdentifier s (field @ '' snapshot id''))
       (assertLedgerDigest sdigest (field @ '' snapshot digest'')))"

definition assertTiming :: "js_number \<Rightarrow> js_number \<Rightarrow> string \<Rightarrow> unit result" where
  "assertTiming now cycles field =
     guard (is_safe_integer now \<and> 0 \<le> whole now \<and> is_safe_integer cycles \<and> 1 \<le> whole cycles)
       (TypeError (field @ '' timing is invalid''))"

fun all_ok :: "('a \<Rightarrow> unit result) \<Rightarrow> 'a list \<Rightarrow> unit result" where
  "all_ok f [] = Inr ()"
| "all_ok f (x # xs) = rthen (f x) (all_ok f xs)"

definition assertSnapshots :: "snapshot_binding \<Rightarrow> unit result" where
  "assertSnapshots b =
     rthen (assertSnapshotBinding (sbArtifactId b) (sbArtifactDigest b) ''artifact'')
       (assertSnapshotBinding (sbSpecificationId b) (sbSpecificationDigest b) ''specification'')"

definition assertAssessmentIdentity :: "assessment_input \<Rightarrow> unit result" where
  "assertAssessmentIdentity i =
     rthen (all_ok (\<lambda>(v, field). assertBoundedIdentifier v field)
       [(aiJobId i, ''jobId''), (aiSliceId i, ''sliceId''), (aiSourceAttemptId i, ''sourceReviewAttemptId''),
        (aiVerificationAttemptId i, ''verificationAttemptId'')])
    (rthen (guard (aiSourceAttemptId i \<noteq> aiVerificationAttemptId i) (TypeError ''finding attempts must be independent''))
    (rthen (assertLedgerDigest (Some (aiSourceDigest i)) ''sourceAttemptDigest'')
    (rthen (assertLedgerDigest (Some (aiVerificationDigest i)) ''verificationAttemptDigest'')
    (rthen (assertSha (aiHeadSha i) ''exactHeadSha'')
    (rthen (assertSnapshots (aiSnapshots i))
       (assertTiming (aiNow i) (aiMaxReviewCycles i) ''assessment''))))))"

definition validateSelectedGuards :: "assessment_input \<Rightarrow> string option result" where
  "validateSelectedGuards i =
     (if aiGuards i = [] \<or> length (aiGuards i) > 16 then Inr (Some ''no_selected_guard_policy'')
      else rthen (all_ok (\<lambda>(cid, digest). rthen (assertBoundedIdentifier cid ''selected capability'')
                   (assertLedgerDigest (Some digest) ''selected descriptor digest'')) (aiGuards i))
        (Inr (if distinct (map fst (aiGuards i)) then None else Some ''duplicate_selected_guard'')))"

definition validateRequirementIds :: "assessment_input \<Rightarrow> string option result" where
  "validateRequirementIds i =
     (if length (aiRequirementIds i) > 100 \<or> \<not> distinct (aiRequirementIds i) then Inr (Some ''invalid_requirement_policy'')
      else rthen (all_ok (\<lambda>r. assertBoundedIdentifier r ''requirement'') (aiRequirementIds i)) (Inr None))"

definition evidenceRefsError :: "string list \<Rightarrow> string option" where
  "evidenceRefsError refs =
     (if refs = [] \<or> length refs > 128 \<or> \<not> distinct refs \<or> list_ex (\<lambda>r. js_trim r = [] \<or> length r > 1024) refs
      then Some ''invalid_evidence_refs'' else None)"

definition validateAssessmentInput :: "assessment_input \<Rightarrow> string option result" where
  "validateAssessmentInput i =
     rthen (assertAssessmentIdentity i)
    (rbind (validateSelectedGuards i) (\<lambda>a.
       if a \<noteq> None then Inr a
       else rbind (validateRequirementIds i) (\<lambda>b.
         Inr (if b \<noteq> None then b else evidenceRefsError (aiEvidenceRefs i)))))"

definition validatePassingReviewInput :: "passing_input \<Rightarrow> unit result" where
  "validatePassingReviewInput i =
     rthen (all_ok (\<lambda>(v, field). assertBoundedIdentifier v field)
       [(piJobId i, ''jobId''), (piSliceId i, ''sliceId''), (piVerificationAttemptId i, ''verificationAttemptId'')])
    (rthen (assertLedgerDigest (Some (piVerificationDigest i)) ''verificationAttemptDigest'')
    (rthen (assertSha (piHeadSha i) ''exactHeadSha'')
    (rthen (assertSnapshots (piSnapshots i))
    (rthen (guard (evidenceRefsError (piEvidenceRefs i) = None) (TypeError ''passing review evidence is invalid''))
       (assertTiming (piNow i) (piMaxReviewCycles i) ''passing review'')))))"

subsection \<open>From findings to facts\<close>

record finding_fact =
  faProposed :: nav_finding
  faObserved :: nav_finding
  faConfirmed :: bool
  faFingerprint :: string
  faNormalizedSubject :: string
  faRequirementClass :: string
  faDisposition :: disposition
  faPolicy :: capability_policy

type_synonym policy_map = "(string \<times> capability_policy) list"
type_synonym 'a verdict = "(string + 'a) result"

fun policiesFor :: "ledger_env \<Rightarrow> string list \<Rightarrow> (string \<times> string) list \<Rightarrow> policy_map \<Rightarrow> string + policy_map" where
  "policiesFor env reqs [] acc = Inr acc"
| "policiesFor env reqs ((cid, digest) # gs) acc =
     (case admittedCapabilityFindingPolicy env cid digest reqs of
        None \<Rightarrow> Inl ''finding_policy_unregistered''
      | Some p \<Rightarrow> policiesFor env reqs gs (assoc_set cid p acc))"

definition findingRequirementIsAdmitted :: "nav_finding \<Rightarrow> capability_policy \<Rightarrow> bool" where
  "findingRequirementIsAdmitted f p \<longleftrightarrow>
     (case nfRequirementId f of None \<Rightarrow> True | Some r \<Rightarrow> List.member (knownRequirements (cpRules p)) r)"

fun map_result :: "('a \<Rightarrow> 'b result) \<Rightarrow> 'a list \<Rightarrow> 'b list result" where
  "map_result f [] = Inr []"
| "map_result f (x # xs) = rbind (f x) (\<lambda>y. rbind (map_result f xs) (\<lambda>ys. Inr (y # ys)))"

text \<open>The \<open>Map\<close> from fingerprints, in the order of insertion.\<close>

type_synonym proposed_map = "(string \<times> nav_finding \<times> capability_policy) list"

fun collect_proposed :: "ledger_env \<Rightarrow> policy_map \<Rightarrow> nav_finding list \<Rightarrow> string list \<Rightarrow> proposed_map \<Rightarrow> proposed_map verdict" where
  "collect_proposed env policies [] roots acc = Inr (Inr acc)"
| "collect_proposed env policies (f # fs) roots acc =
     (case map_of policies (nfCapabilityId f) of
        None \<Rightarrow> Inr (Inl ''finding_capability_unselected'')
      | Some p \<Rightarrow>
          if \<not> findingRequirementIsAdmitted f p then Inr (Inl ''finding_requirement_unregistered'')
          else if List.member roots (nfRootCauseId f) then Inr (Inl ''duplicate_root_cause'')
          else rbind (navigatorFindingFingerprint (leSha256 env) (cpDescriptorDigest p) f) (\<lambda>fp.
            if map_of acc fp \<noteq> None then Inr (Inl ''duplicate_finding_identity'')
            else collect_proposed env policies fs (nfRootCauseId f # roots) (acc @ [(fp, f, p)])))"

definition collectProposedFindings :: "ledger_env \<Rightarrow> assessment_input \<Rightarrow> policy_map \<Rightarrow> proposed_map verdict" where
  "collectProposedFindings env i policies =
     rbind (map_result normalizedFinding (aiProposed i)) (\<lambda>fs. collect_proposed env policies fs [] [])"

fun collect_confirmed :: "ledger_env \<Rightarrow> policy_map \<Rightarrow> proposed_map \<Rightarrow> nav_finding list \<Rightarrow> (string \<times> nav_finding) list
    \<Rightarrow> (string \<times> nav_finding) list verdict" where
  "collect_confirmed env policies proposed [] acc = Inr (Inr acc)"
| "collect_confirmed env policies proposed (f # fs) acc =
     (case map_of policies (nfCapabilityId f) of
        None \<Rightarrow> Inr (Inl ''finding_capability_unselected'')
      | Some p \<Rightarrow>
          if \<not> findingRequirementIsAdmitted f p then Inr (Inl ''finding_requirement_unregistered'')
          else rbind (navigatorFindingFingerprint (leSha256 env) (cpDescriptorDigest p) f) (\<lambda>fp.
            case map_of proposed fp of
              None \<Rightarrow> Inr (Inl ''finding_verification_mismatch'')
            | Some (g, _) \<Rightarrow>
                if map_of acc fp \<noteq> None \<or> nfRootCauseId g \<noteq> nfRootCauseId f then Inr (Inl ''finding_verification_mismatch'')
                else collect_confirmed env policies proposed fs (acc @ [(fp, f)])))"

definition collectConfirmedFindings ::
  "ledger_env \<Rightarrow> assessment_input \<Rightarrow> policy_map \<Rightarrow> proposed_map \<Rightarrow> (string \<times> nav_finding) list verdict" where
  "collectConfirmedFindings env i policies proposed =
     rbind (map_result normalizedFinding (aiConfirmed i)) (\<lambda>fs. collect_confirmed env policies proposed fs [])"

definition findingFact :: "(string \<times> nav_finding) list \<Rightarrow> string \<times> nav_finding \<times> capability_policy \<Rightarrow> finding_fact result" where
  "findingFact confirmed = (\<lambda>(fp, f, p).
     let observed = (case map_of confirmed fp of None \<Rightarrow> f | Some g \<Rightarrow> g) in
     case evaluateFindingDisposition (disposition_input observed) (cpRules p) of
       None \<Rightarrow> Inl (TypeError ''finding disposition policy rejected observation'')
     | Some d \<Rightarrow> Inr \<lparr>faProposed = f, faObserved = observed, faConfirmed = (map_of confirmed fp \<noteq> None), faFingerprint = fp,
         faNormalizedSubject = nfSubject observed, faRequirementClass = requirementClass observed, faDisposition = d, faPolicy = p\<rparr>)"

definition validateFindingSet :: "ledger_env \<Rightarrow> assessment_input \<Rightarrow> policy_map \<Rightarrow> finding_fact list verdict" where
  "validateFindingSet env i policies =
     rbind (collectProposedFindings env i policies) (\<lambda>a. case a of Inl code \<Rightarrow> Inr (Inl code) | Inr proposed \<Rightarrow>
     rbind (collectConfirmedFindings env i policies proposed) (\<lambda>b. case b of Inl code \<Rightarrow> Inr (Inl code) | Inr confirmed \<Rightarrow>
     rbind (map_result (findingFact confirmed) proposed) (\<lambda>facts. Inr (Inr facts))))"

text \<open>The body of the \<open>try\<close> of \<open>NavigatorFindingLedger.assess\<close>.\<close>

definition assessment_facts :: "ledger_env \<Rightarrow> assessment_input \<Rightarrow> finding_fact list verdict" where
  "assessment_facts env i =
     rbind (validateAssessmentInput i) (\<lambda>invalid. case invalid of
         Some code \<Rightarrow> Inr (Inl code)
       | None \<Rightarrow> (case policiesFor env (aiRequirementIds i) (aiGuards i) [] of
           Inl code \<Rightarrow> Inr (Inl code)
         | Inr policies \<Rightarrow> validateFindingSet env i policies))"

end
