(* ===== verification/Finding_Ledger.thy ===== *)
theory Finding_Ledger
  imports Finding_Assessment Sql_Table
begin

text \<open>
  The finding ledger of the navigator, second half (\<open>src/navigator/finding-ledger-repository.ts\<close>): the
  append-only log of finding events, the convergence counters of a slice, and the decision read back
  from them; then what the settlement of a review makes of the decision
  (\<open>src/navigator/ticket-settlement-repository.ts\<close>).

  A transaction returns the new tables and the decision, or the error that rolls it back.  The column
  \<open>finding_json\<close> holds the text of a finding and is kept as the finding; it is checked again by the
  schema when it is read.  A work order is kept as its schema reads it: \<open>None\<close> is a text it refuses.
\<close>

subsection \<open>Tables\<close>

datatype finding_event = Opened | Reobserved | Resolved | DisputedEvent | Corrected
datatype ledger_state = StateOpen | StateResolved | StateDisputed | StateStale

record event_row =
  feSequence :: nat
  feId :: string
  feJobId :: string
  feSliceId :: string
  feSourceAttemptId :: string
  feVerificationAttemptId :: string
  feRootCauseId :: string
  feCapabilityId :: string
  feRuleId :: string
  feDisposition :: disposition
  feEvent :: finding_event
  feHeadSha :: string
  feFinding :: nav_finding
  feEvidenceRefs :: "string list"
  feOccurrence :: int
  feBurden :: int
  feCreatedAt :: int
  feSeverity :: review_severity
  feRequirementId :: "string option"
  feEvidenceClass :: string
  feNormalizedSubject :: string
  feFingerprint :: string
  feDescriptorDigest :: string
  feDescriptorVersion :: string
  fePolicyRevision :: int
  fePolicyDigest :: string
  feRequirementIds :: "string list"
  feSnapshots :: snapshot_binding
  feSourceDigest :: string
  feVerificationDigest :: string
  feConfirmed :: bool
  feSupersedes :: "string option"

record convergence_row =
  crBurden :: int
  crPlateau :: int
  crCycles :: int
  crUpdatedAt :: int
  crLastAttempt :: "string option"

record integration_row =
  inHeadSha :: string
  inSpecificationArtifactId :: string
  inSpecificationId :: string
  inSpecificationDigest :: string

record slice_row =
  slJobId :: string
  slTicketArtifactId :: string
  slTicketId :: string
  slTicketDigest :: string

record work_order_view =
  woJobId :: string
  woBaseHead :: string
  woVerification :: bool
  woTicket :: "string \<times> string \<times> string"
  woSpecification :: "string \<times> string \<times> string"

record source_attempt_row =
  waJobId :: string
  waSliceId :: string
  waKind :: string
  waWorkOrder :: "work_order_view option"

record outcome_row =
  woOutcome :: string
  woExactHead :: string
  woResultDigest :: string

record ledger_db =
  ldEvents :: "event_row list"
  ldConvergence :: "(string \<times> convergence_row) list"
  ldIntegrations :: "(string \<times> integration_row) list"
  ldSlices :: "(string \<times> slice_row) list"
  ldAttempts :: "(string \<times> source_attempt_row) list"
  ldOutcomes :: "(string \<times> outcome_row) list"

definition ZERO_DIGEST :: string where
  "ZERO_DIGEST = replicate 64 (CHR ''0'')"

subsection \<open>Entries and decisions\<close>

record ledger_entry =
  leRootCauseId :: string
  leSliceId :: string
  leSourceAttemptId :: string
  leVerificationAttemptId :: string
  leDisposition :: disposition
  leState :: ledger_state
  leOccurrence :: int
  leBurden :: int
  leHeadSha :: string
  leFingerprint :: string
  leNormalizedSubject :: string
  leRequirementClass :: string
  leDescriptorDigest :: string
  leDescriptorVersion :: string
  lePolicyRevision :: int
  lePolicyDigest :: string
  leSnapshots :: snapshot_binding
  leSourceDigest :: string
  leVerificationDigest :: string
  leSupersedes :: "string option"
  leFinding :: nav_finding

datatype ledger_outcome = LedgerAccepted | LedgerBlocked
datatype next_action = NextRepair | NextAccept | NextRecheck | NextStop

record ledger_decision =
  fdOutcome :: ledger_outcome
  fdNext :: next_action
  fdReason :: "string option"
  fdEntries :: "ledger_entry list"
  fdCurrentRoots :: "ledger_entry list"
  fdBurden :: int
  fdDelta :: int
  fdStale :: "(string \<times> string \<times> string) list"
  fdReasons :: "string list"

definition rejected_decision :: "string \<Rightarrow> ledger_decision" where
  "rejected_decision code = \<lparr>fdOutcome = LedgerBlocked, fdNext = NextStop, fdReason = Some code, fdEntries = [],
     fdCurrentRoots = [], fdBurden = 0, fdDelta = 0, fdStale = [], fdReasons = [code]\<rparr>"

definition withDelta :: "ledger_decision \<Rightarrow> int \<Rightarrow> ledger_decision" where
  "withDelta d n = d\<lparr>fdDelta := n\<rparr>"

subsection \<open>Reading a row\<close>

fun stateFor :: "finding_event \<Rightarrow> bool \<Rightarrow> ledger_state" where
  "stateFor Opened confirmed = StateOpen"
| "stateFor Reobserved confirmed = StateOpen"
| "stateFor Corrected confirmed = (if confirmed then StateOpen else StateDisputed)"
| "stateFor Resolved confirmed = StateResolved"
| "stateFor DisputedEvent confirmed = StateDisputed"

definition row_state :: "event_row \<Rightarrow> ledger_state" where
  "row_state r = stateFor (feEvent r) (feConfirmed r)"

definition rootCauseWasConfirmed :: "event_row \<Rightarrow> bool" where
  "rootCauseWasConfirmed r \<longleftrightarrow> feConfirmed r \<or> feEvent r \<in> {Opened, Reobserved, Resolved}"

definition identityFor :: "event_row \<Rightarrow> string" where
  "identityFor r = (if length (feFingerprint r) = 64 then feFingerprint r else ''legacy:'' @ feRootCauseId r)"

text \<open>\<open>COALESCE(NULLIF(fingerprint, ''), 'legacy:' || root_cause_id)\<close>\<close>

definition sql_identity :: "event_row \<Rightarrow> string" where
  "sql_identity r = (if feFingerprint r \<noteq> [] then feFingerprint r else ''legacy:'' @ feRootCauseId r)"

definition parseFinding :: "event_row \<Rightarrow> nav_finding result" where
  "parseFinding r = (case navigatorReviewFindingSchema (feFinding r) of None \<Rightarrow> Inl (ZodError ''finding'') | Some f \<Rightarrow> Inr f)"

definition row_stale :: "event_row \<Rightarrow> string \<Rightarrow> bool" where
  "row_stale r head \<longleftrightarrow> length head = 40 \<and> feHeadSha r \<noteq> head"

definition entryState :: "event_row \<Rightarrow> string \<Rightarrow> ledger_state \<times> int" where
  "entryState r head = (if row_stale r head then StateStale else row_state r, if row_stale r head then 0 else feBurden r)"

text \<open>\<open>row.requirement_id ?? ...\<close>, and \<open>text || other\<close>.\<close>

definition or_text :: "string \<Rightarrow> string \<Rightarrow> string" where
  "or_text a b = (if a \<noteq> [] then a else b)"

definition requirementClassForRow :: "event_row \<Rightarrow> nav_finding \<Rightarrow> string" where
  "requirementClassForRow r f =
     (case feRequirementId r of None \<Rightarrow> ''evidence:'' @ or_text (feEvidenceClass r) (nfEvidenceClass f)
      | Some q \<Rightarrow> ''requirement:'' @ q)"

definition entryFromRow :: "string \<Rightarrow> event_row \<Rightarrow> ledger_entry result" where
  "entryFromRow head r =
     rbind (parseFinding r) (\<lambda>f.
       Inr \<lparr>leRootCauseId = feRootCauseId r, leSliceId = feSliceId r, leSourceAttemptId = feSourceAttemptId r,
         leVerificationAttemptId = feVerificationAttemptId r, leDisposition = feDisposition r,
         leState = fst (entryState r head), leOccurrence = feOccurrence r, leBurden = snd (entryState r head),
         leHeadSha = feHeadSha r, leFingerprint = identityFor r,
         leNormalizedSubject = or_text (feNormalizedSubject r) (nfSubject f), leRequirementClass = requirementClassForRow r f,
         leDescriptorDigest = or_text (feDescriptorDigest r) ZERO_DIGEST,
         leDescriptorVersion = or_text (feDescriptorVersion r) ''legacy'', lePolicyRevision = fePolicyRevision r,
         lePolicyDigest = or_text (fePolicyDigest r) ZERO_DIGEST, leSnapshots = feSnapshots r,
         leSourceDigest = or_text (feSourceDigest r) ZERO_DIGEST, leVerificationDigest = or_text (feVerificationDigest r) ZERO_DIGEST,
         leSupersedes = feSupersedes r, leFinding = f\<rparr>)"

definition rowIsBlocking :: "ledger_entry \<Rightarrow> bool" where
  "rowIsBlocking e \<longleftrightarrow> leState e = StateOpen \<and> leDisposition e = MustFix"

definition blockingRootCount :: "ledger_entry list \<Rightarrow> int" where
  "blockingRootCount es = int (length (js_set (map leRootCauseId (filter rowIsBlocking es))))"

definition staleEvidenceFor :: "ledger_entry list \<Rightarrow> string \<Rightarrow> (string \<times> string \<times> string) list" where
  "staleEvidenceFor es head = map (\<lambda>e. (leFingerprint e, leHeadSha e, head)) (filter (\<lambda>e. leState e = StateStale) es)"

definition decision_of :: "ledger_entry list \<Rightarrow> string \<Rightarrow> ledger_decision" where
  "decision_of entries head =
     (let stale = staleEvidenceFor entries head; burden = blockingRootCount entries in
      \<lparr>fdOutcome = LedgerAccepted,
       fdNext = (if stale \<noteq> [] then NextRecheck else if burden > 0 then NextRepair else NextAccept),
       fdReason = (if stale \<noteq> [] then Some ''stale_evidence'' else if burden > 0 then Some ''blocking_findings'' else None),
       fdEntries = entries, fdCurrentRoots = filter (\<lambda>e. leState e \<noteq> StateResolved) entries,
       fdBurden = burden, fdDelta = 0, fdStale = stale,
       fdReasons = (if burden > 0 then [''blocking_findings''] else []) @ (if stale \<noteq> [] then [''stale_evidence''] else [])\<rparr>)"

definition decisionFromRows :: "event_row list \<Rightarrow> string \<Rightarrow> ledger_decision result" where
  "decisionFromRows rows head = rbind (map_result (entryFromRow head) rows) (\<lambda>es. Inr (decision_of es head))"

definition block_with :: "string \<Rightarrow> ledger_decision \<Rightarrow> ledger_decision" where
  "block_with code d = d\<lparr>fdOutcome := LedgerBlocked, fdNext := NextStop, fdReason := Some code, fdReasons := [code]\<rparr>"

definition blockedDecision :: "string \<Rightarrow> event_row list \<Rightarrow> string \<Rightarrow> ledger_decision result" where
  "blockedDecision code rows head = rbind (decisionFromRows rows head) (\<lambda>d. Inr (block_with code d))"

subsection \<open>The current rows\<close>

definition unconfirmed_event :: "event_row \<Rightarrow> bool" where
  "unconfirmed_event n \<longleftrightarrow> feEvent n = DisputedEvent \<or> (feEvent n = Corrected \<and> \<not> feConfirmed n)"

text \<open>A rejection after an earlier confirmation of the same finding does not count.\<close>

definition overruled :: "event_row list \<Rightarrow> event_row \<Rightarrow> bool" where
  "overruled evs n \<longleftrightarrow> unconfirmed_event n \<and>
     list_ex (\<lambda>c. feSliceId c = feSliceId n \<and> sql_identity c = sql_identity n \<and> feSequence c < feSequence n \<and>
        (feConfirmed c \<or> feEvent c \<in> {Opened, Reobserved, Resolved})) evs"

definition counting :: "event_row list \<Rightarrow> event_row \<Rightarrow> event_row list" where
  "counting evs r = filter (\<lambda>n. feSliceId n = feSliceId r \<and> sql_identity n = sql_identity r \<and> \<not> overruled evs n) evs"

text \<open>\<open>event.sequence = (SELECT MAX(newest.sequence) ...)\<close>\<close>

definition is_newest :: "event_row list \<Rightarrow> event_row \<Rightarrow> bool" where
  "is_newest evs r \<longleftrightarrow> counting evs r \<noteq> [] \<and> feSequence r = foldr max (map feSequence (counting evs r)) 0"

definition currentRows :: "ledger_db \<Rightarrow> string \<Rightarrow> string option \<Rightarrow> event_row list" where
  "currentRows db job slice =
     sort_key (\<lambda>r. (feSliceId r, sql_identity r))
       (filter (\<lambda>r. feJobId r = job \<and> (case slice of None \<Rightarrow> True | Some s \<Rightarrow> feSliceId r = s) \<and> is_newest (ldEvents db) r)
          (ldEvents db))"

definition integrationHead :: "ledger_db \<Rightarrow> string \<Rightarrow> string option" where
  "integrationHead db job = map_option inHeadSha (map_of (ldIntegrations db) job)"

definition attemptAlreadyRecorded :: "ledger_db \<Rightarrow> string \<Rightarrow> bool" where
  "attemptAlreadyRecorded db v \<longleftrightarrow>
     list_ex (\<lambda>e. feVerificationAttemptId e = v) (ldEvents db) \<or>
     list_ex (\<lambda>(_, c). crLastAttempt c = Some v) (ldConvergence db)"

definition convergence :: "ledger_db \<Rightarrow> string \<Rightarrow> convergence_row option" where
  "convergence db slice = map_of (ldConvergence db) slice"

definition saveConvergence :: "ledger_db \<Rightarrow> string \<Rightarrow> convergence_row \<Rightarrow> ledger_db" where
  "saveConvergence db slice c = db\<lparr>ldConvergence := assoc_set slice c (ldConvergence db)\<rparr>"

subsection \<open>Evidence that is still current\<close>

definition snapshotMatches :: "string option \<Rightarrow> string option \<Rightarrow> string \<Rightarrow> string \<Rightarrow> bool" where
  "snapshotMatches sid sdigest cid cdigest \<longleftrightarrow> sid = None \<and> sdigest = None \<or> (sid = Some cid \<and> sdigest = Some cdigest)"

definition snapshotsAreCurrent :: "ledger_db \<Rightarrow> string \<Rightarrow> string \<Rightarrow> snapshot_binding \<Rightarrow> bool" where
  "snapshotsAreCurrent db job slice b =
     (case (map_of (ldIntegrations db) job, map_of (ldSlices db) slice) of
        (Some i, Some s) \<Rightarrow> slJobId s = job \<and>
          snapshotMatches (sbArtifactId b) (sbArtifactDigest b) (slTicketId s) (slTicketDigest s) \<and>
          snapshotMatches (sbSpecificationId b) (sbSpecificationDigest b) (inSpecificationId i) (inSpecificationDigest i)
      | _ \<Rightarrow> False)"

definition exactSnapshotMatches :: "string \<Rightarrow> string \<Rightarrow> string option \<Rightarrow> string option \<Rightarrow> bool" where
  "exactSnapshotMatches cid cdigest sid sdigest \<longleftrightarrow> sid = Some cid \<and> sdigest = Some cdigest"

definition sourceEvidenceIsCurrent :: "ledger_db \<Rightarrow> assessment_input \<Rightarrow> bool" where
  "sourceEvidenceIsCurrent db i =
     (case map_of (ldAttempts db) (aiSourceAttemptId i) of None \<Rightarrow> False | Some a \<Rightarrow>
     (case (map_of (ldOutcomes db) (aiSourceAttemptId i), map_of (ldSlices db) (waSliceId a), map_of (ldIntegrations db) (waJobId a)) of
        (Some out, Some s, Some int_row) \<Rightarrow>
          waJobId a = aiJobId i \<and> waSliceId a = aiSliceId i \<and> waKind a = ''review'' \<and> woOutcome out = ''findings'' \<and>
          woResultDigest out = aiSourceDigest i \<and> woExactHead out = aiHeadSha i \<and>
          (case waWorkOrder a of None \<Rightarrow> False | Some w \<Rightarrow>
             \<not> woVerification w \<and> woJobId w = aiJobId i \<and> woBaseHead w = aiHeadSha i \<and>
             fst (woTicket w) = slTicketArtifactId s \<and> fst (woSpecification w) = inSpecificationArtifactId int_row \<and>
             exactSnapshotMatches (fst (snd (woTicket w))) (snd (snd (woTicket w)))
               (sbArtifactId (aiSnapshots i)) (sbArtifactDigest (aiSnapshots i)) \<and>
             exactSnapshotMatches (fst (snd (woSpecification w))) (snd (snd (woSpecification w)))
               (sbSpecificationId (aiSnapshots i)) (sbSpecificationDigest (aiSnapshots i)))
      | _ \<Rightarrow> False))"

subsection \<open>Writing events\<close>

text \<open>What an event carries besides the finding: the assessment or the passing review.\<close>

record event_context =
  ecJobId :: string
  ecSliceId :: string
  ecSourceAttemptId :: string
  ecVerificationAttemptId :: string
  ecHeadSha :: string
  ecEvidenceRefs :: "string list"
  ecSnapshots :: snapshot_binding
  ecSourceDigest :: string
  ecVerificationDigest :: string
  ecNow :: int

definition context_of_assessment :: "assessment_input \<Rightarrow> event_context" where
  "context_of_assessment i = \<lparr>ecJobId = aiJobId i, ecSliceId = aiSliceId i, ecSourceAttemptId = aiSourceAttemptId i,
     ecVerificationAttemptId = aiVerificationAttemptId i, ecHeadSha = aiHeadSha i, ecEvidenceRefs = aiEvidenceRefs i,
     ecSnapshots = aiSnapshots i, ecSourceDigest = aiSourceDigest i, ecVerificationDigest = aiVerificationDigest i,
     ecNow = whole (aiNow i)\<rparr>"

definition context_of_passing :: "passing_input \<Rightarrow> event_context" where
  "context_of_passing i = \<lparr>ecJobId = piJobId i, ecSliceId = piSliceId i, ecSourceAttemptId = piVerificationAttemptId i,
     ecVerificationAttemptId = piVerificationAttemptId i, ecHeadSha = piHeadSha i, ecEvidenceRefs = piEvidenceRefs i,
     ecSnapshots = piSnapshots i, ecSourceDigest = ZERO_DIGEST, ecVerificationDigest = piVerificationDigest i,
     ecNow = whole (piNow i)\<rparr>"

fun event_name :: "finding_event \<Rightarrow> string" where
  "event_name Opened = ''opened''"
| "event_name Reobserved = ''reobserved''"
| "event_name Resolved = ''resolved''"
| "event_name DisputedEvent = ''disputed''"
| "event_name Corrected = ''corrected''"

definition findingEventId :: "ledger_env \<Rightarrow> string list \<Rightarrow> string" where
  "findingEventId env parts = ''navfinding_'' @ take 24 (leSha256Url env (join_with [CHR 0x00] parts))"

text \<open>The event to write, before the database gives it a sequence number.\<close>

definition event_values ::
  "ledger_env \<Rightarrow> event_context \<Rightarrow> nav_finding \<Rightarrow> finding_fact \<Rightarrow> finding_event \<Rightarrow> int \<Rightarrow> int \<Rightarrow> bool \<Rightarrow> string option \<Rightarrow> nat \<Rightarrow> event_row" where
  "event_values env c f fct ev occurrence burden confirmed supersedes sequence =
     \<lparr>feSequence = sequence,
      feId = findingEventId env [ecVerificationAttemptId c, faFingerprint fct, event_name ev],
      feJobId = ecJobId c, feSliceId = ecSliceId c, feSourceAttemptId = ecSourceAttemptId c,
      feVerificationAttemptId = ecVerificationAttemptId c, feRootCauseId = nfRootCauseId f,
      feCapabilityId = nfCapabilityId f, feRuleId = nfRuleId f, feDisposition = faDisposition fct, feEvent = ev,
      feHeadSha = ecHeadSha c, feFinding = f, feEvidenceRefs = js_set (ecEvidenceRefs c), feOccurrence = occurrence,
      feBurden = burden, feCreatedAt = ecNow c, feSeverity = nfSeverity f, feRequirementId = nfRequirementId f,
      feEvidenceClass = nfEvidenceClass f, feNormalizedSubject = faNormalizedSubject fct, feFingerprint = faFingerprint fct,
      feDescriptorDigest = cpDescriptorDigest (faPolicy fct), feDescriptorVersion = cpDescriptorVersion (faPolicy fct),
      fePolicyRevision = cpPolicyRevision (faPolicy fct), fePolicyDigest = cpPolicyDigest (faPolicy fct),
      feRequirementIds = knownRequirements (cpRules (faPolicy fct)), feSnapshots = ecSnapshots c,
      feSourceDigest = ecSourceDigest c, feVerificationDigest = ecVerificationDigest c,
      feConfirmed = confirmed, feSupersedes = supersedes\<rparr>"

text \<open>The \<open>CHECK\<close> constraints of the table.\<close>

definition event_row_ok :: "event_row \<Rightarrow> bool" where
  "event_row_ok r \<longleftrightarrow> 1 \<le> length (feId r) \<and> length (feId r) \<le> 256 \<and> 1 \<le> length (feRootCauseId r) \<and> length (feRootCauseId r) \<le> 256 \<and>
     1 \<le> length (feCapabilityId r) \<and> length (feCapabilityId r) \<le> 256 \<and> 1 \<le> length (feRuleId r) \<and> length (feRuleId r) \<le> 256 \<and>
     length (feHeadSha r) = 40 \<and> 0 \<le> feOccurrence r \<and> feOccurrence r \<le> 3 \<and> 0 \<le> feBurden r \<and> 0 \<le> feCreatedAt r \<and>
     length (feDescriptorDigest r) = 64 \<and> 0 \<le> fePolicyRevision r \<and> length (fePolicyDigest r) = 64 \<and>
     (case sbArtifactDigest (feSnapshots r) of None \<Rightarrow> True | Some d \<Rightarrow> length d = 64) \<and>
     (case sbSpecificationDigest (feSnapshots r) of None \<Rightarrow> True | Some d \<Rightarrow> length d = 64) \<and>
     length (feSourceDigest r) = 64 \<and> length (feVerificationDigest r) = 64 \<and>
     (case feSupersedes r of None \<Rightarrow> True | Some s \<Rightarrow> 1 \<le> length s \<and> length s \<le> 256)"

definition next_sequence :: "event_row list \<Rightarrow> nat" where
  "next_sequence evs = Suc (foldr max (map feSequence evs) 0)"

definition references_ok :: "ledger_db \<Rightarrow> event_row \<Rightarrow> bool" where
  "references_ok db r \<longleftrightarrow> map_of (ldIntegrations db) (feJobId r) \<noteq> None \<and> map_of (ldSlices db) (feSliceId r) \<noteq> None \<and>
     map_of (ldAttempts db) (feSourceAttemptId r) \<noteq> None \<and> map_of (ldAttempts db) (feVerificationAttemptId r) \<noteq> None"

definition insertEvent :: "ledger_db \<Rightarrow> (nat \<Rightarrow> event_row) \<Rightarrow> ledger_db result" where
  "insertEvent db row =
     (let r = row (next_sequence (ldEvents db)) in
      if \<not> event_row_ok r then Inl SqliteConstraintCheck
      else if list_ex (\<lambda>e. feId e = feId r \<or> (feVerificationAttemptId e = feVerificationAttemptId r \<and> feRootCauseId e = feRootCauseId r))
             (ldEvents db) then Inl SqliteConstraintUnique
      else if \<not> references_ok db r then Inl (NamedError ''SqliteError'' ''FOREIGN KEY constraint failed'')
      else Inr (db\<lparr>ldEvents := ldEvents db @ [r]\<rparr>))"

definition legacyPolicy :: "event_row \<Rightarrow> capability_policy" where
  "legacyPolicy r = \<lparr>cpCapabilityId = feCapabilityId r, cpDescriptorDigest = or_text (feDescriptorDigest r) ZERO_DIGEST,
     cpDescriptorVersion = or_text (feDescriptorVersion r) ''legacy'', cpPolicyRevision = fePolicyRevision r,
     cpRules = \<lparr>defaultDisposition = feDisposition r, mustFixRules = [], advisoryRules = [], knownRequirements = feRequirementIds r\<rparr>,
     cpPolicyDigest = or_text (fePolicyDigest r) ZERO_DIGEST\<rparr>"

definition legacyFact :: "event_row \<Rightarrow> nav_finding \<Rightarrow> finding_fact" where
  "legacyFact r f = \<lparr>faProposed = f, faObserved = f, faConfirmed = (feConfirmed r \<or> row_state r = StateOpen),
     faFingerprint = identityFor r, faNormalizedSubject = or_text (feNormalizedSubject r) (nfSubject f),
     faRequirementClass = requirementClassForRow r f, faDisposition = feDisposition r, faPolicy = legacyPolicy r\<rparr>"

subsection \<open>An assessment\<close>

definition prior_of :: "event_row list \<Rightarrow> string \<Rightarrow> event_row option" where
  "prior_of prior fp = map_of (rev (map (\<lambda>r. (identityFor r, r)) prior)) fp"

definition assessmentBlockingBurden :: "finding_fact list \<Rightarrow> event_row list \<Rightarrow> int" where
  "assessmentBlockingBurden facts prior =
     int (length (js_set (List.map_filter (\<lambda>fct.
       if faConfirmed fct then (if faDisposition fct = MustFix then Some (nfRootCauseId (faProposed fct)) else None)
       else (case prior_of prior (faFingerprint fct) of
           None \<Rightarrow> None
         | Some p \<Rightarrow> if rootCauseWasConfirmed p \<and> row_state p = StateOpen \<and> feDisposition p = MustFix
                     then Some (feRootCauseId p) else None)) facts)))"

definition assessment_event :: "ledger_env \<Rightarrow> assessment_input \<Rightarrow> event_row list \<Rightarrow> int \<Rightarrow> finding_fact \<Rightarrow> nat \<Rightarrow> event_row" where
  "assessment_event env i prior burden fct =
     (let p = prior_of prior (faFingerprint fct);
          seen = (case p of None \<Rightarrow> 0 | Some r \<Rightarrow> feOccurrence r);
          occurrence = (if faConfirmed fct then min 3 (seen + 1) else seen);
          corrected = (faConfirmed fct \<and> (case p of None \<Rightarrow> False | Some r \<Rightarrow> feRootCauseId r \<noteq> nfRootCauseId (faProposed fct)));
          event = (if corrected then Corrected
                   else if faConfirmed fct \<and> map_option row_state p = Some StateOpen then Reobserved
                   else if faConfirmed fct then Opened else DisputedEvent)
      in event_values env (context_of_assessment i) (if faConfirmed fct then faObserved fct else faProposed fct) fct event
           occurrence burden (faConfirmed fct) (if corrected then map_option feRootCauseId p else None))"

fun writeAssessmentEvents ::
  "ledger_env \<Rightarrow> assessment_input \<Rightarrow> event_row list \<Rightarrow> int \<Rightarrow> finding_fact list \<Rightarrow> ledger_db \<Rightarrow> ledger_db result" where
  "writeAssessmentEvents env i prior burden [] db = Inr db"
| "writeAssessmentEvents env i prior burden (fct # facts) db =
     rbind (insertEvent db (assessment_event env i prior burden fct)) (\<lambda>db'.
       writeAssessmentEvents env i prior burden facts db')"

text \<open>Both loops that resolve rows: the event of a row, under the given context and burden.\<close>

fun resolve_rows :: "ledger_env \<Rightarrow> event_context \<Rightarrow> int \<Rightarrow> (event_row \<Rightarrow> bool) \<Rightarrow> event_row list \<Rightarrow> ledger_db \<Rightarrow> ledger_db result" where
  "resolve_rows env c burden skip [] db = Inr db"
| "resolve_rows env c burden skip (r # rs) db =
     (if row_state r \<noteq> StateOpen \<or> skip r then resolve_rows env c burden skip rs db
      else rbind (parseFinding r) (\<lambda>f.
           rbind (insertEvent db (event_values env c f (legacyFact r f) Resolved (feOccurrence r) burden True None)) (\<lambda>db'.
             resolve_rows env c burden skip rs db')))"

definition resolveMissingRoots ::
  "ledger_env \<Rightarrow> assessment_input \<Rightarrow> event_row list \<Rightarrow> string list \<Rightarrow> int \<Rightarrow> ledger_db \<Rightarrow> ledger_db result" where
  "resolveMissingRoots env i prior sourceKeys burden db =
     resolve_rows env (context_of_assessment i) burden (\<lambda>r. List.member sourceKeys (identityFor r)) prior db"

definition hasRecurrence :: "ledger_db \<Rightarrow> string \<Rightarrow> bool" where
  "hasRecurrence db slice \<longleftrightarrow>
     list_ex (\<lambda>e. feSliceId e = slice \<and> feEvent e \<in> {Opened, Reobserved, Corrected} \<and> 3 \<le> feOccurrence e) (ldEvents db)"

definition updateConvergence :: "ledger_db \<Rightarrow> assessment_input \<Rightarrow> int \<Rightarrow> convergence_row option \<Rightarrow> ledger_db \<times> string option" where
  "updateConvergence db i burden previous =
     (let cycles = (case previous of None \<Rightarrow> 0 | Some c \<Rightarrow> crCycles c) + 1;
          plateau = (case previous of None \<Rightarrow> 0 | Some c \<Rightarrow> crPlateau c);
          flat = (burden > 0 \<and> (case previous of None \<Rightarrow> False | Some c \<Rightarrow> burden \<ge> crBurden c));
          plateau' = (if flat \<and> plateau = 0 then 1 else plateau);
          reason1 = (if flat \<and> plateau \<noteq> 0 then Some ''review_burden_plateau'' else None);
          reason = (if burden > 0 \<and> hasRecurrence db (aiSliceId i) then Some ''finding_recurrence_limit''
                    else if cycles > whole (aiMaxReviewCycles i) then Some ''review_cycle_limit'' else reason1)
      in (saveConvergence db (aiSliceId i) \<lparr>crBurden = burden, crPlateau = plateau', crCycles = cycles,
            crUpdatedAt = whole (aiNow i), crLastAttempt = Some (aiVerificationAttemptId i)\<rparr>, reason))"

definition assessmentDecision :: "ledger_db \<Rightarrow> assessment_input \<Rightarrow> string option \<Rightarrow> int \<Rightarrow> ledger_decision result" where
  "assessmentDecision db i reason delta =
     rbind (decisionFromRows (currentRows db (aiJobId i) (Some (aiSliceId i))) (aiHeadSha i)) (\<lambda>d.
       Inr (withDelta (case reason of None \<Rightarrow> d | Some code \<Rightarrow> block_with code d) delta))"

definition or_head :: "string option \<Rightarrow> string \<Rightarrow> string" where
  "or_head current head = (case current of None \<Rightarrow> head | Some h \<Rightarrow> h)"

text \<open>The transaction after the checks: the events, the counters, the decision.\<close>

definition record_assessment ::
  "ledger_env \<Rightarrow> ledger_db \<Rightarrow> assessment_input \<Rightarrow> finding_fact list \<Rightarrow> event_row list \<Rightarrow> int \<Rightarrow> (ledger_db \<times> ledger_decision) result" where
  "record_assessment env db i facts prior priorBurden =
     (let burden = assessmentBlockingBurden facts prior in
      rbind (writeAssessmentEvents env i prior burden facts db) (\<lambda>db1.
      rbind (resolveMissingRoots env i prior (map faFingerprint facts) burden db1) (\<lambda>db2.
        (let (db3, reason) = updateConvergence db2 i burden (convergence db (aiSliceId i)) in
         rbind (assessmentDecision db3 i reason (burden - priorBurden)) (\<lambda>d. Inr (db3, d))))))"

definition keep_db :: "ledger_db \<Rightarrow> ledger_decision result \<Rightarrow> (ledger_db \<times> ledger_decision) result" where
  "keep_db db d = rbind d (\<lambda>x. Inr (db, x))"

definition assessInTransaction ::
  "ledger_env \<Rightarrow> ledger_db \<Rightarrow> assessment_input \<Rightarrow> finding_fact list \<Rightarrow> (ledger_db \<times> ledger_decision) result" where
  "assessInTransaction env db i facts =
     (let prior = currentRows db (aiJobId i) (Some (aiSliceId i)); head = integrationHead db (aiJobId i) in
      rbind (decisionFromRows prior (aiHeadSha i)) (\<lambda>priorDecision.
        (let priorBurden = (case convergence db (aiSliceId i) of None \<Rightarrow> fdBurden priorDecision | Some c \<Rightarrow> crBurden c) in
         if head \<noteq> None \<and> head \<noteq> Some (aiHeadSha i) then keep_db db (blockedDecision ''stale_evidence'' prior (the head))
         else if \<not> snapshotsAreCurrent db (aiJobId i) (aiSliceId i) (aiSnapshots i)
         then keep_db db (blockedDecision ''stale_evidence'' prior (or_head head (aiHeadSha i)))
         else if attemptAlreadyRecorded db (aiVerificationAttemptId i) then Inr (db, withDelta priorDecision 0)
         else if \<not> sourceEvidenceIsCurrent db i
         then keep_db db (blockedDecision ''finding_verification_source_mismatch'' prior (or_head head (aiHeadSha i)))
         else record_assessment env db i facts prior priorBurden)))"

subsection \<open>A passing review\<close>

definition record_passing ::
  "ledger_env \<Rightarrow> ledger_db \<Rightarrow> passing_input \<Rightarrow> event_row list \<Rightarrow> int \<Rightarrow> (ledger_db \<times> ledger_decision) result" where
  "record_passing env db i current priorBurden =
     (let previous = convergence db (piSliceId i);
          cycles = (case previous of None \<Rightarrow> 0 | Some c \<Rightarrow> crCycles c) + 1
      in if cycles > whole (piMaxReviewCycles i) then keep_db db (blockedDecision ''review_cycle_limit'' current (piHeadSha i))
         else rbind (resolve_rows env (context_of_passing i) 0 (\<lambda>_. False) current db) (\<lambda>db1.
           (let db2 = saveConvergence db1 (piSliceId i) \<lparr>crBurden = 0,
                  crPlateau = (case previous of None \<Rightarrow> 0 | Some c \<Rightarrow> crPlateau c), crCycles = cycles,
                  crUpdatedAt = whole (piNow i), crLastAttempt = Some (piVerificationAttemptId i)\<rparr>
            in rbind (decisionFromRows (currentRows db2 (piJobId i) (Some (piSliceId i))) (piHeadSha i)) (\<lambda>d.
                 Inr (db2, withDelta d (- priorBurden))))))"

definition resolvePassingInTransaction :: "ledger_env \<Rightarrow> ledger_db \<Rightarrow> passing_input \<Rightarrow> (ledger_db \<times> ledger_decision) result" where
  "resolvePassingInTransaction env db i =
     (let current = currentRows db (piJobId i) (Some (piSliceId i)); head = integrationHead db (piJobId i) in
      if head \<noteq> None \<and> head \<noteq> Some (piHeadSha i) then keep_db db (blockedDecision ''stale_evidence'' current (the head))
      else if \<not> snapshotsAreCurrent db (piJobId i) (piSliceId i) (piSnapshots i)
      then keep_db db (blockedDecision ''stale_evidence'' current (or_head head (piHeadSha i)))
      else if attemptAlreadyRecorded db (piVerificationAttemptId i) then keep_db db (decisionFromRows current (piHeadSha i))
      else rbind (decisionFromRows current (piHeadSha i)) (\<lambda>priorDecision.
        record_passing env db i current
          (case convergence db (piSliceId i) of None \<Rightarrow> fdBurden priorDecision | Some c \<Rightarrow> crBurden c)))"

subsection \<open>The ledger\<close>

definition type_error_caught :: "error \<Rightarrow> bool" where
  "type_error_caught e = (case e of TypeError _ \<Rightarrow> True | _ \<Rightarrow> False)"

definition ledger_assess :: "ledger_env \<Rightarrow> ledger_db \<Rightarrow> assessment_input \<Rightarrow> (ledger_db \<times> ledger_decision) result" where
  "ledger_assess env db i =
     (case assessment_facts env i of
        Inl e \<Rightarrow> if type_error_caught e then Inr (db, rejected_decision ''finding_assessment_invalid'') else Inl e
      | Inr (Inl code) \<Rightarrow> Inr (db, rejected_decision code)
      | Inr (Inr facts) \<Rightarrow> assessInTransaction env db i facts)"

definition resolvePassingReview :: "ledger_env \<Rightarrow> ledger_db \<Rightarrow> passing_input \<Rightarrow> (ledger_db \<times> ledger_decision) result" where
  "resolvePassingReview env db i =
     (case validatePassingReviewInput i of
        Inl e \<Rightarrow> if type_error_caught e then Inr (db, rejected_decision ''finding_resolution_invalid'') else Inl e
      | Inr _ \<Rightarrow> resolvePassingInTransaction env db i)"

definition currentDecision :: "ledger_db \<Rightarrow> string \<Rightarrow> string option \<Rightarrow> string option \<Rightarrow> ledger_decision result" where
  "currentDecision db job slice expected =
     decisionFromRows (currentRows db job slice)
       (case integrationHead db job of Some h \<Rightarrow> h | None \<Rightarrow> (case expected of Some h \<Rightarrow> h | None \<Rightarrow> []))"

subsection \<open>What a review settles_fact as\<close>

datatype review_settlement = SettledPolicyFailure string | SettledFindings string | SettledSucceeded string

definition reviewDecisionAssessment :: "ledger_decision \<Rightarrow> bool \<Rightarrow> review_settlement" where
  "reviewDecisionAssessment d hasFindings =
     (if fdOutcome d = LedgerBlocked \<or> fdNext d = NextRecheck \<or> fdNext d = NextStop
      then SettledPolicyFailure (case fdReason d of Some r \<Rightarrow> r | None \<Rightarrow> ''finding_assessment_blocked'')
      else if fdNext d = NextRepair then SettledFindings ''confirmed_review_findings''
      else SettledSucceeded (if hasFindings then ''accepted_advisories'' else ''findings_disputed''))"


text \<open>
  \<open>assessReview\<close>: a verification of findings goes to \<open>assess\<close>, findings that nobody verified yet are
  settled as such, a review without findings goes to \<open>resolvePassingReview\<close>.  A verification whose
  requirement context is missing has no input.
\<close>

datatype review_call = VerificationReview "assessment_input option" bool | FindingsReview | PassingReview passing_input

definition assessReviewDecision :: "ledger_env \<Rightarrow> ledger_db \<Rightarrow> review_call \<Rightarrow> (ledger_db \<times> review_settlement \<times> ledger_decision option) result" where
  "assessReviewDecision env db call =
     (case call of
        VerificationReview None hasFindings \<Rightarrow> Inr (db, SettledPolicyFailure ''finding_requirement_context_missing'', None)
      | VerificationReview (Some i) hasFindings \<Rightarrow>
          rbind (ledger_assess env db i) (\<lambda>(db', d).
            Inr (db', if fdOutcome d = LedgerBlocked
                      then SettledPolicyFailure (case fdReason d of Some r \<Rightarrow> r | None \<Rightarrow> ''finding_assessment_blocked'')
                      else reviewDecisionAssessment d hasFindings, Some d))
      | FindingsReview \<Rightarrow> Inr (db, SettledFindings ''review_findings_unverified'', None)
      | PassingReview i \<Rightarrow>
          rbind (resolvePassingReview env db i) (\<lambda>(db', d). Inr (db', reviewDecisionAssessment d False, Some d)))"

end
