(* ===== verification/Finding_Lemmas.thy ===== *)
theory Finding_Lemmas
  imports Finding_Ledger
begin

text \<open>
  The library of the finding ledger: what a transaction appends to the log, the current row of a
  finding as the last event that counts, and how an append moves it.
\<close>

subsection \<open>Sequences\<close>

definition ascending :: "event_row list \<Rightarrow> bool" where
  "ascending evs \<longleftrightarrow> sorted_wrt (<) (map feSequence evs)"

definition digests_ok :: "event_row list \<Rightarrow> bool" where
  "digests_ok evs \<longleftrightarrow> list_all (\<lambda>e. length (feFingerprint e) = 64) evs"

definition ledger_jobs_ok :: "ledger_db \<Rightarrow> bool" where
  "ledger_jobs_ok db \<longleftrightarrow> list_all (\<lambda>e. \<exists>s. map_of (ldSlices db) (feSliceId e) = Some s \<and> slJobId s = feJobId e) (ldEvents db)"

definition ledger_ok :: "ledger_db \<Rightarrow> bool" where
  "ledger_ok db \<longleftrightarrow> ascending (ldEvents db) \<and> digests_ok (ldEvents db) \<and> ledger_jobs_ok db"

lemma foldr_max_upper: "x \<in> set xs \<Longrightarrow> x \<le> foldr max xs (0::nat)"
  by (induction xs) auto

lemma ascending_append:
  "ascending (evs @ [r]) \<longleftrightarrow> ascending evs \<and> (\<forall>e \<in> set evs. feSequence e < feSequence r)"
  by (auto simp: ascending_def sorted_wrt_append)

lemma ascending_next: "ascending evs \<Longrightarrow> feSequence r = next_sequence evs \<Longrightarrow> ascending (evs @ [r])"
  using foldr_max_upper[of _ "map feSequence evs"] by (auto simp: ascending_append next_sequence_def less_Suc_eq_le)

lemma ascending_inject:
  assumes "ascending evs" and "x \<in> set evs" "y \<in> set evs" and "feSequence x = feSequence y"
  shows "x = y"
  using assms unfolding ascending_def strict_sorted_iff distinct_map inj_on_def by blast

lemma ascending_filter: "ascending evs \<Longrightarrow> ascending (filter p evs)"
  unfolding ascending_def by (induction evs) auto

lemma ascending_last:
  assumes "ascending evs" and "evs \<noteq> []"
  shows "foldr max (map feSequence evs) 0 = feSequence (last evs)"
proof -
  have "feSequence e \<le> feSequence (last evs)" if "e \<in> set evs" for e
    using assms that unfolding ascending_def
    by (induction evs) (auto split: if_splits intro: less_imp_le last_in_set)
  moreover have "foldr max (map feSequence evs) 0 \<in> insert 0 (feSequence ` set evs)"
    by (induction evs) (auto simp: max_def)
  ultimately show ?thesis
    using foldr_max_upper[of "feSequence (last evs)" "map feSequence evs"] assms(2) by (fastforce intro: antisym)
qed

subsection \<open>The current row of a finding\<close>

definition counted :: "event_row list \<Rightarrow> string \<Rightarrow> string \<Rightarrow> event_row list" where
  "counted evs slice fp = filter (\<lambda>n. feSliceId n = slice \<and> sql_identity n = fp \<and> \<not> overruled evs n) evs"

definition current_row :: "event_row list \<Rightarrow> string \<Rightarrow> string \<Rightarrow> event_row option" where
  "current_row evs slice fp = (let q = counted evs slice fp in if q = [] then None else Some (last q))"

lemma is_newest_current:
  assumes "ascending evs" and "r \<in> set evs"
  shows "is_newest evs r \<longleftrightarrow> current_row evs (feSliceId r) (sql_identity r) = Some r"
proof -
  let ?q = "counted evs (feSliceId r) (sql_identity r)"
  have q: "counting evs r = ?q" by (simp add: counting_def counted_def)
  have asc: "ascending ?q" unfolding counted_def by (rule ascending_filter[OF assms(1)])
  have sub: "set ?q \<subseteq> set evs" by (auto simp: counted_def)
  show ?thesis
  proof (cases "?q = []")
    case True
    then show ?thesis by (simp add: is_newest_def q current_row_def)
  next
    case False
    then have "last ?q \<in> set evs" using sub last_in_set by blast
    then have same: "feSequence r = feSequence (last ?q) \<longleftrightarrow> last ?q = r"
      using ascending_inject[OF assms(1) assms(2), of "last ?q"] by metis
    have "is_newest evs r \<longleftrightarrow> feSequence r = feSequence (last ?q)"
      unfolding is_newest_def q ascending_last[OF asc False] using False by simp
    also have "\<dots> \<longleftrightarrow> current_row evs (feSliceId r) (sql_identity r) = Some r"
      unfolding same current_row_def Let_def using False by simp
    finally show ?thesis .
  qed
qed

lemma current_row_Some:
  assumes "current_row evs slice fp = Some r"
  shows "r \<in> set evs" "feSliceId r = slice" "sql_identity r = fp"
proof -
  have "r \<in> set (counted evs slice fp)"
    using assms by (auto simp: current_row_def Let_def split: if_splits)
  then show "r \<in> set evs" "feSliceId r = slice" "sql_identity r = fp" by (auto simp: counted_def)
qed

lemma set_currentRows:
  assumes "ledger_ok db" and "map_of (ldSlices db) slice = Some s" and "slJobId s = job"
  shows "r \<in> set (currentRows db job (Some slice)) \<longleftrightarrow>
     feSliceId r = slice \<and> current_row (ldEvents db) slice (sql_identity r) = Some r"
proof -
  have "feJobId r = job" if "r \<in> set (ldEvents db)" "feSliceId r = slice"
    using assms that by (auto simp: ledger_ok_def ledger_jobs_ok_def list_all_iff)
  then show ?thesis
    using assms(1) is_newest_current[of "ldEvents db" r] current_row_Some[of "ldEvents db" slice "sql_identity r" r]
    by (auto simp: currentRows_def ledger_ok_def)
qed

subsection \<open>Appending an event\<close>

definition ever_confirmed :: "event_row list \<Rightarrow> string \<Rightarrow> string \<Rightarrow> bool" where
  "ever_confirmed evs slice fp \<longleftrightarrow> list_ex (\<lambda>c. feSliceId c = slice \<and> sql_identity c = fp \<and> rootCauseWasConfirmed c) evs"

lemma overruled_append:
  assumes "ascending (evs @ [r])"
  shows "e \<in> set evs \<Longrightarrow> overruled (evs @ [r]) e = overruled evs e"
    "overruled (evs @ [r]) r \<longleftrightarrow> unconfirmed_event r \<and> ever_confirmed evs (feSliceId r) (sql_identity r)"
proof -
  have less: "\<forall>e \<in> set evs. feSequence e < feSequence r" using assms by (simp add: ascending_append)
  show "e \<in> set evs \<Longrightarrow> overruled (evs @ [r]) e = overruled evs e"
    using less by (auto simp: overruled_def)
  show "overruled (evs @ [r]) r \<longleftrightarrow> unconfirmed_event r \<and> ever_confirmed evs (feSliceId r) (sql_identity r)"
    using less by (auto simp: overruled_def ever_confirmed_def rootCauseWasConfirmed_def list_ex_iff)
qed

lemma current_row_append:
  assumes "ascending (evs @ [r])"
  shows "current_row (evs @ [r]) slice fp =
     (if feSliceId r = slice \<and> sql_identity r = fp \<and> \<not> (unconfirmed_event r \<and> ever_confirmed evs slice fp)
      then Some r else current_row evs slice fp)"
proof -
  have "filter (\<lambda>n. feSliceId n = slice \<and> sql_identity n = fp \<and> \<not> overruled (evs @ [r]) n) evs = counted evs slice fp"
    unfolding counted_def using overruled_append(1)[OF assms] by (intro filter_cong) auto
  then show ?thesis
    using overruled_append(2)[OF assms] by (auto simp: current_row_def counted_def Let_def)
qed

lemma ever_confirmed_append:
  "ever_confirmed (evs @ [r]) slice fp \<longleftrightarrow>
     ever_confirmed evs slice fp \<or> (feSliceId r = slice \<and> sql_identity r = fp \<and> rootCauseWasConfirmed r)"
  by (auto simp: ever_confirmed_def)

text \<open>A row whose current state is open was confirmed once.\<close>

lemma open_was_confirmed: "row_state r = StateOpen \<Longrightarrow> rootCauseWasConfirmed r"
  by (cases "feEvent r") (auto simp: row_state_def rootCauseWasConfirmed_def split: if_splits)

subsection \<open>Inserting\<close>

text \<open>Everything but the log and the counters.\<close>

definition same_tables :: "ledger_db \<Rightarrow> ledger_db \<Rightarrow> bool" where
  "same_tables a b \<longleftrightarrow> ldIntegrations a = ldIntegrations b \<and> ldSlices a = ldSlices b \<and> ldAttempts a = ldAttempts b \<and>
     ldOutcomes a = ldOutcomes b"

lemma same_tables_refl [simp]: "same_tables a a"
  by (simp add: same_tables_def)

lemma same_tables_trans: "same_tables a b \<Longrightarrow> same_tables b c \<Longrightarrow> same_tables a c"
  by (simp add: same_tables_def)

lemma insertEvent_Inr:
  assumes "insertEvent db row = Inr db'"
  defines "r \<equiv> row (next_sequence (ldEvents db))"
  shows "ldEvents db' = ldEvents db @ [r]" "same_tables db db'" "ldConvergence db' = ldConvergence db"
    "event_row_ok r" "references_ok db r"
    "\<And>e. e \<in> set (ldEvents db) \<Longrightarrow> feVerificationAttemptId e = feVerificationAttemptId r \<Longrightarrow> feRootCauseId e \<noteq> feRootCauseId r"
  using assms by (auto simp: insertEvent_def Let_def same_tables_def list_ex_iff split: if_splits)

lemma event_values_simps [simp]:
  "feSequence (event_values env c f fct ev oc bd cf sp n) = n"
  "feSliceId (event_values env c f fct ev oc bd cf sp n) = ecSliceId c"
  "feJobId (event_values env c f fct ev oc bd cf sp n) = ecJobId c"
  "feFingerprint (event_values env c f fct ev oc bd cf sp n) = faFingerprint fct"
  "feEvent (event_values env c f fct ev oc bd cf sp n) = ev"
  "feConfirmed (event_values env c f fct ev oc bd cf sp n) = cf"
  "feHeadSha (event_values env c f fct ev oc bd cf sp n) = ecHeadSha c"
  "feRootCauseId (event_values env c f fct ev oc bd cf sp n) = nfRootCauseId f"
  "feVerificationAttemptId (event_values env c f fct ev oc bd cf sp n) = ecVerificationAttemptId c"
  "feDisposition (event_values env c f fct ev oc bd cf sp n) = faDisposition fct"
  "feFinding (event_values env c f fct ev oc bd cf sp n) = f"
  "feOccurrence (event_values env c f fct ev oc bd cf sp n) = oc"
  by (simp_all only: event_values_def event_row.simps)

lemma sql_identity_digest: "length (feFingerprint r) = 64 \<Longrightarrow> sql_identity r = feFingerprint r \<and> identityFor r = feFingerprint r"
  by (auto simp: sql_identity_def identityFor_def)

text \<open>A step that appends one event of a slice keeps the ledger well-formed and moves one current row.\<close>

lemma insert_keeps_ok:
  assumes "insertEvent db (event_values env c f fct ev oc bd cf sp) = Inr db'" and "ledger_ok db"
    and "length (faFingerprint fct) = 64" and "map_of (ldSlices db) (ecSliceId c) = Some s" and "slJobId s = ecJobId c"
  shows "ledger_ok db'" "ascending (ldEvents db @ [event_values env c f fct ev oc bd cf sp (next_sequence (ldEvents db))])"
proof -
  note ins = insertEvent_Inr[OF assms(1)]
  show asc: "ascending (ldEvents db @ [event_values env c f fct ev oc bd cf sp (next_sequence (ldEvents db))])"
    using assms(2) by (intro ascending_next) (simp_all add: ledger_ok_def)
  have "ldSlices db' = ldSlices db" using ins(2) by (simp add: same_tables_def)
  then show "ledger_ok db'"
    using asc ins(1) assms(2-5) by (simp add: ledger_ok_def digests_ok_def ledger_jobs_ok_def)
qed


subsection \<open>The loops\<close>

lemma assessment_event_simps [simp]:
  "feSequence (assessment_event env i prior b f n) = n"
  "feSliceId (assessment_event env i prior b f n) = aiSliceId i"
  "feJobId (assessment_event env i prior b f n) = aiJobId i"
  "feFingerprint (assessment_event env i prior b f n) = faFingerprint f"
  "feHeadSha (assessment_event env i prior b f n) = aiHeadSha i"
  "feVerificationAttemptId (assessment_event env i prior b f n) = aiVerificationAttemptId i"
  "feDisposition (assessment_event env i prior b f n) = faDisposition f"
  "feConfirmed (assessment_event env i prior b f n) = faConfirmed f"
  "feRootCauseId (assessment_event env i prior b f n) = nfRootCauseId (if faConfirmed f then faObserved f else faProposed f)"
  by (simp_all add: assessment_event_def Let_def context_of_assessment_def)

lemma assessment_event_kind:
  "faConfirmed f \<Longrightarrow> \<not> unconfirmed_event (assessment_event env i prior b f n) \<and> row_state (assessment_event env i prior b f n) = StateOpen"
  "\<not> faConfirmed f \<Longrightarrow> feEvent (assessment_event env i prior b f n) = DisputedEvent"
  by (simp_all add: assessment_event_def Let_def unconfirmed_event_def row_state_def)

lemma assessment_event_confirmed: "rootCauseWasConfirmed (assessment_event env i prior b f n) = faConfirmed f"
  using assessment_event_kind(2)[of f env i prior b n] by (cases "faConfirmed f") (simp_all add: rootCauseWasConfirmed_def)

lemma insert_assessment_ok:
  assumes "insertEvent db (assessment_event env i prior b f) = Inr db'" and "ledger_ok db"
    and "length (faFingerprint f) = 64" and "map_of (ldSlices db) (aiSliceId i) = Some s" and "slJobId s = aiJobId i"
  shows "ledger_ok db'" "ascending (ldEvents db @ [assessment_event env i prior b f (next_sequence (ldEvents db))])"
proof -
  note ins = insertEvent_Inr[OF assms(1)]
  show asc: "ascending (ldEvents db @ [assessment_event env i prior b f (next_sequence (ldEvents db))])"
    using assms(2) by (intro ascending_next) (simp_all add: ledger_ok_def)
  have "ldSlices db' = ldSlices db" using ins(2) by (simp add: same_tables_def)
  then show "ledger_ok db'"
    using asc ins(1) assms(2-5) by (simp add: ledger_ok_def digests_ok_def ledger_jobs_ok_def)
qed

lemma write_appends:
  assumes "writeAssessmentEvents env i prior b facts db = Inr db'"
  shows "same_tables db db' \<and> ldConvergence db' = ldConvergence db \<and>
    (\<exists>new. ldEvents db' = ldEvents db @ new \<and>
      list_all2 (\<lambda>f e. \<exists>n. e = assessment_event env i prior b f n) facts new)"
  using assms
proof (induction facts arbitrary: db)
  case (Cons f facts)
  then obtain db1 where one: "insertEvent db (assessment_event env i prior b f) = Inr db1"
    and rest: "writeAssessmentEvents env i prior b facts db1 = Inr db'"
    by (auto simp: result_simps)
  note ins = insertEvent_Inr[OF one]
  obtain new where new: "ldEvents db' = ldEvents db1 @ new"
    "list_all2 (\<lambda>f e. \<exists>n. e = assessment_event env i prior b f n) facts new"
    using Cons.IH[OF rest] by blast
  have "ldEvents db' = ldEvents db @ (assessment_event env i prior b f (next_sequence (ldEvents db)) # new)"
    using ins(1) new(1) by simp
  then show ?case
    using new(2) Cons.IH[OF rest] ins(2,3) same_tables_trans[OF ins(2)]
    by (intro conjI exI[of _ "assessment_event env i prior b f (next_sequence (ldEvents db)) # new"]) (simp_all, blast)
qed simp

text \<open>What a fact makes of the current row of its fingerprint.\<close>

definition settles_fact :: "ledger_env \<Rightarrow> assessment_input \<Rightarrow> event_row list \<Rightarrow> int \<Rightarrow> event_row list \<Rightarrow> finding_fact \<Rightarrow> event_row option \<Rightarrow> bool" where
  "settles_fact env i prior b evs f new \<longleftrightarrow>
     (if faConfirmed f \<or> \<not> ever_confirmed evs (aiSliceId i) (faFingerprint f)
      then (\<exists>n. new = Some (assessment_event env i prior b f n))
      else new = current_row evs (aiSliceId i) (faFingerprint f))"

lemma write_current:
  assumes "writeAssessmentEvents env i prior b facts db = Inr db'" and "ledger_ok db"
    and "distinct (map faFingerprint facts)" and "\<And>f. f \<in> set facts \<Longrightarrow> length (faFingerprint f) = 64"
    and "map_of (ldSlices db) (aiSliceId i) = Some s" and "slJobId s = aiJobId i"
  shows "ledger_ok db' \<and>
    (\<forall>slice fp. (slice \<noteq> aiSliceId i \<or> fp \<notin> faFingerprint ` set facts) \<longrightarrow>
       current_row (ldEvents db') slice fp = current_row (ldEvents db) slice fp \<and>
       ever_confirmed (ldEvents db') slice fp = ever_confirmed (ldEvents db) slice fp) \<and>
    (\<forall>f \<in> set facts. settles_fact env i prior b (ldEvents db) f (current_row (ldEvents db') (aiSliceId i) (faFingerprint f)) \<and>
       ever_confirmed (ldEvents db') (aiSliceId i) (faFingerprint f) =
         (ever_confirmed (ldEvents db) (aiSliceId i) (faFingerprint f) \<or> faConfirmed f))"
  using assms
proof (induction facts arbitrary: db)
  case (Cons f facts)
  then obtain db1 where one: "insertEvent db (assessment_event env i prior b f) = Inr db1"
    and rest: "writeAssessmentEvents env i prior b facts db1 = Inr db'"
    by (auto simp: result_simps)
  define r where "r = assessment_event env i prior b f (next_sequence (ldEvents db))"
  have len: "length (faFingerprint f) = 64" using Cons.prems(4) by simp
  have rid: "feSliceId r = aiSliceId i" "sql_identity r = faFingerprint f"
    using len sql_identity_digest[of r] by (simp_all add: r_def)
  have ev1: "ldEvents db1 = ldEvents db @ [r]" and sl: "ldSlices db1 = ldSlices db"
    using insertEvent_Inr(1,2)[OF one] by (simp_all add: r_def same_tables_def)
  note ok1 = insert_assessment_ok[OF one Cons.prems(2) len Cons.prems(5,6)]
  have asc: "ascending (ldEvents db @ [r])" using ok1(2) by (simp add: r_def)
  have IH: "ledger_ok db' \<and>
    (\<forall>slice fp. (slice \<noteq> aiSliceId i \<or> fp \<notin> faFingerprint ` set facts) \<longrightarrow>
       current_row (ldEvents db') slice fp = current_row (ldEvents db1) slice fp \<and>
       ever_confirmed (ldEvents db') slice fp = ever_confirmed (ldEvents db1) slice fp) \<and>
    (\<forall>f \<in> set facts. settles_fact env i prior b (ldEvents db1) f (current_row (ldEvents db') (aiSliceId i) (faFingerprint f)) \<and>
       ever_confirmed (ldEvents db') (aiSliceId i) (faFingerprint f) =
         (ever_confirmed (ldEvents db1) (aiSliceId i) (faFingerprint f) \<or> faConfirmed f))"
    using Cons.prems sl by (intro Cons.IH[OF rest ok1(1)]) simp_all
  have fresh: "faFingerprint f \<notin> faFingerprint ` set facts" using Cons.prems(3) by simp
  have outside: "current_row (ldEvents db1) slice fp = current_row (ldEvents db) slice fp"
    "ever_confirmed (ldEvents db1) slice fp = ever_confirmed (ldEvents db) slice fp"
    if "slice \<noteq> aiSliceId i \<or> fp \<noteq> faFingerprint f" for slice fp
    using that rid by (auto simp: ev1 current_row_append[OF asc] ever_confirmed_append)
  have kind: "unconfirmed_event r \<longleftrightarrow> \<not> faConfirmed f"
    using assessment_event_kind[of f env i prior b "next_sequence (ldEvents db)"] by (auto simp: r_def unconfirmed_event_def)
  have "current_row (ldEvents db1) (aiSliceId i) (faFingerprint f) =
      (if faConfirmed f \<or> \<not> ever_confirmed (ldEvents db) (aiSliceId i) (faFingerprint f) then Some r
       else current_row (ldEvents db) (aiSliceId i) (faFingerprint f))"
    using rid kind by (auto simp: ev1 current_row_append[OF asc])
  then have "settles_fact env i prior b (ldEvents db) f (current_row (ldEvents db1) (aiSliceId i) (faFingerprint f))"
    by (auto simp: settles_fact_def r_def)
  then have this_one: "settles_fact env i prior b (ldEvents db) f (current_row (ldEvents db') (aiSliceId i) (faFingerprint f))"
    using IH fresh by simp
  have others: "settles_fact env i prior b (ldEvents db) g = settles_fact env i prior b (ldEvents db1) g"
      "ever_confirmed (ldEvents db1) (aiSliceId i) (faFingerprint g) = ever_confirmed (ldEvents db) (aiSliceId i) (faFingerprint g)"
    if "g \<in> set facts" for g
  proof -
    have "faFingerprint g \<noteq> faFingerprint f" using that fresh by (metis imageI)
    then show "settles_fact env i prior b (ldEvents db) g = settles_fact env i prior b (ldEvents db1) g"
      "ever_confirmed (ldEvents db1) (aiSliceId i) (faFingerprint g) = ever_confirmed (ldEvents db) (aiSliceId i) (faFingerprint g)"
      by (auto simp: settles_fact_def outside fun_eq_iff)
  qed
  have "ever_confirmed (ldEvents db1) (aiSliceId i) (faFingerprint f) =
      (ever_confirmed (ldEvents db) (aiSliceId i) (faFingerprint f) \<or> faConfirmed f)"
    using rid by (simp add: ev1 ever_confirmed_append r_def assessment_event_confirmed)
  then have this_ever: "ever_confirmed (ldEvents db') (aiSliceId i) (faFingerprint f) =
      (ever_confirmed (ldEvents db) (aiSliceId i) (faFingerprint f) \<or> faConfirmed f)"
    using IH fresh by simp
  show ?case using IH outside this_one this_ever others by (auto simp: image_iff)
qed simp

text \<open>The loops that resolve: one resolving event for each open row that is not skipped.\<close>

definition resolving :: "(event_row \<Rightarrow> bool) \<Rightarrow> event_row list \<Rightarrow> event_row list" where
  "resolving skip rs = filter (\<lambda>r. row_state r = StateOpen \<and> \<not> skip r) rs"

lemma resolving_simps:
  "resolving skip [] = []"
  "\<not> (row_state r = StateOpen \<and> \<not> skip r) \<Longrightarrow> resolving skip (r # rs) = resolving skip rs"
  "row_state r = StateOpen \<Longrightarrow> \<not> skip r \<Longrightarrow> resolving skip (r # rs) = r # resolving skip rs"
  by (simp_all add: resolving_def)

lemma resolving_sub: "set (map feFingerprint (resolving skip rs)) \<subseteq> feFingerprint ` set rs"
  by (auto simp: resolving_def)

definition resolves :: "ledger_env \<Rightarrow> event_context \<Rightarrow> int \<Rightarrow> event_row \<Rightarrow> event_row \<Rightarrow> bool" where
  "resolves env c b r e \<longleftrightarrow> (\<exists>f n. parseFinding r = Inr f \<and>
     e = event_values env c f (legacyFact r f) Resolved (feOccurrence r) b True None n)"

lemma resolve_appends:
  assumes "resolve_rows env c b skip rs db = Inr db'"
  shows "same_tables db db' \<and> ldConvergence db' = ldConvergence db \<and>
    (\<exists>new. ldEvents db' = ldEvents db @ new \<and>
      list_all2 (resolves env c b) (resolving skip rs) new)"
  using assms
proof (induction rs arbitrary: db)
  case (Cons r rs)
  show ?case
  proof (cases "row_state r = StateOpen \<and> \<not> skip r")
    case False
    then have "resolve_rows env c b skip rs db = Inr db'" using Cons.prems by simp
    from Cons.IH[OF this] show ?thesis by (simp only: resolving_simps(2)[of r skip rs, OF False])
  next
    case True
    with Cons.prems obtain f db1 where p: "parseFinding r = Inr f"
      and one: "insertEvent db (event_values env c f (legacyFact r f) Resolved (feOccurrence r) b True None) = Inr db1"
      and rest: "resolve_rows env c b skip rs db1 = Inr db'"
      by (auto simp: result_simps)
    note ins = insertEvent_Inr[OF one]
    obtain new where new: "ldEvents db' = ldEvents db1 @ new"
      "list_all2 (resolves env c b) (resolving skip rs) new"
      using Cons.IH[OF rest] by blast
    have "ldEvents db' = ldEvents db @
      (event_values env c f (legacyFact r f) Resolved (feOccurrence r) b True None (next_sequence (ldEvents db)) # new)"
      using ins(1) new(1) by simp
    moreover have "resolves env c b r (event_values env c f (legacyFact r f) Resolved (feOccurrence r) b True None (next_sequence (ldEvents db)))"
      using p by (auto simp: resolves_def)
    ultimately show ?thesis
      using new(2) Cons.IH[OF rest] ins(2,3) True same_tables_trans by (metis list_all2_Cons resolving_simps(3))
  qed
qed (simp add: resolving_simps)

lemma resolve_current:
  assumes "resolve_rows env c b skip rs db = Inr db'" and "ledger_ok db"
    and "distinct (map feFingerprint rs)" and "\<And>r. r \<in> set rs \<Longrightarrow> length (feFingerprint r) = 64"
    and "map_of (ldSlices db) (ecSliceId c) = Some s" and "slJobId s = ecJobId c"
  shows "ledger_ok db' \<and>
    (\<forall>slice fp. (slice \<noteq> ecSliceId c \<or> fp \<notin> set (map feFingerprint (resolving skip rs))) \<longrightarrow>
       current_row (ldEvents db') slice fp = current_row (ldEvents db) slice fp \<and>
       ever_confirmed (ldEvents db') slice fp = ever_confirmed (ldEvents db) slice fp) \<and>
    (\<forall>r \<in> set (resolving skip rs). ever_confirmed (ldEvents db') (ecSliceId c) (feFingerprint r) \<and>
       (\<exists>e. resolves env c b r e \<and> current_row (ldEvents db') (ecSliceId c) (feFingerprint r) = Some e))"
  using assms
proof (induction rs arbitrary: db)
  case (Cons r rs)
  show ?case
  proof (cases "row_state r = StateOpen \<and> \<not> skip r")
    case False
    then have "resolve_rows env c b skip rs db = Inr db'" using Cons.prems(1) by simp
    from Cons.IH[OF this Cons.prems(2)] Cons.prems(3-6) show ?thesis by (simp add: resolving_simps(2)[of r skip rs, OF False])
  next
    case True
    with Cons.prems obtain f db1 where p: "parseFinding r = Inr f"
      and one: "insertEvent db (event_values env c f (legacyFact r f) Resolved (feOccurrence r) b True None) = Inr db1"
      and rest: "resolve_rows env c b skip rs db1 = Inr db'"
      by (auto simp: result_simps)
    have len: "length (feFingerprint r) = 64" using Cons.prems(4) by simp
    have fp: "faFingerprint (legacyFact r f) = feFingerprint r"
      using sql_identity_digest[OF len] by (simp add: legacyFact_def)
    define e where "e = event_values env c f (legacyFact r f) Resolved (feOccurrence r) b True None (next_sequence (ldEvents db))"
    have ids: "feSliceId e = ecSliceId c" "sql_identity e = feFingerprint r" "\<not> unconfirmed_event e"
      using len fp sql_identity_digest[of e] by (simp_all add: e_def unconfirmed_event_def)
    have ev1: "ldEvents db1 = ldEvents db @ [e]" and sl: "ldSlices db1 = ldSlices db"
      using insertEvent_Inr(1,2)[OF one] by (simp_all add: e_def same_tables_def)
    have ok1: "ledger_ok db1" "ascending (ldEvents db @ [e])"
      using insert_keeps_ok[OF one Cons.prems(2) _ Cons.prems(5,6)] fp len by (simp_all add: e_def)
    have step: "current_row (ldEvents db1) slice q =
        (if slice = ecSliceId c \<and> q = feFingerprint r then Some e else current_row (ldEvents db) slice q)" for slice q
      using ids by (auto simp: ev1 current_row_append[OF ok1(2)])
    have ever: "ever_confirmed (ldEvents db1) slice q \<longleftrightarrow>
        ever_confirmed (ldEvents db) slice q \<or> slice = ecSliceId c \<and> q = feFingerprint r" for slice q
      using ids by (auto simp: ev1 ever_confirmed_append e_def rootCauseWasConfirmed_def)
    have fresh: "feFingerprint r \<notin> set (map feFingerprint (resolving skip rs))"
      using Cons.prems(3) resolving_sub[of skip rs] by auto
    have IH: "ledger_ok db' \<and>
    (\<forall>slice fp. (slice \<noteq> ecSliceId c \<or> fp \<notin> set (map feFingerprint (resolving skip rs))) \<longrightarrow>
       current_row (ldEvents db') slice fp = current_row (ldEvents db1) slice fp \<and>
       ever_confirmed (ldEvents db') slice fp = ever_confirmed (ldEvents db1) slice fp) \<and>
    (\<forall>r \<in> set (resolving skip rs). ever_confirmed (ldEvents db') (ecSliceId c) (feFingerprint r) \<and>
       (\<exists>e. resolves env c b r e \<and> current_row (ldEvents db') (ecSliceId c) (feFingerprint r) = Some e))"
      using Cons.prems(3-6) sl by (intro Cons.IH[OF rest ok1(1)]) auto
    have "current_row (ldEvents db') (ecSliceId c) (feFingerprint r) = Some e"
      using IH fresh step by simp
    then have head: "\<exists>e. resolves env c b r e \<and> current_row (ldEvents db') (ecSliceId c) (feFingerprint r) = Some e"
      using p unfolding e_def resolves_def by blast
    have "ever_confirmed (ldEvents db') (ecSliceId c) (feFingerprint r)"
      using IH fresh ever by simp
    then show ?thesis using IH head step ever True by (auto simp: resolving_simps(3))
  qed
qed (simp add: resolving_simps)


subsection \<open>The prior rows of a slice\<close>

lemma currentRows_distinct:
  assumes "ledger_ok db" and "map_of (ldSlices db) slice = Some s" and "slJobId s = job"
  shows "distinct (map feFingerprint (currentRows db job (Some slice)))"
    "r \<in> set (currentRows db job (Some slice)) \<Longrightarrow> length (feFingerprint r) = 64 \<and> identityFor r = feFingerprint r"
proof -
  let ?rows = "currentRows db job (Some slice)"
  have mem: "r \<in> set ?rows \<longleftrightarrow> feSliceId r = slice \<and> current_row (ldEvents db) slice (sql_identity r) = Some r" for r
    by (rule set_currentRows[OF assms])
  have len: "length (feFingerprint r) = 64" if "r \<in> set (ldEvents db)" for r
    using assms(1) that by (simp add: ledger_ok_def digests_ok_def list_all_iff)
  have inl: "r \<in> set (ldEvents db)" if "r \<in> set ?rows" for r
    using that by (auto simp: currentRows_def)
  then show "r \<in> set ?rows \<Longrightarrow> length (feFingerprint r) = 64 \<and> identityFor r = feFingerprint r"
    using len sql_identity_digest by blast
  have "distinct (ldEvents db)"
    using assms(1) by (auto simp: ledger_ok_def ascending_def strict_sorted_iff distinct_map)
  then have "distinct ?rows" by (simp add: currentRows_def)
  moreover have "inj_on feFingerprint (set ?rows)"
  proof (rule inj_onI)
    fix x y assume xy: "x \<in> set ?rows" "y \<in> set ?rows" "feFingerprint x = feFingerprint y"
    then have "sql_identity x = sql_identity y" using len inl sql_identity_digest by metis
    then show "x = y" using mem[of x] mem[of y] xy by simp
  qed
  ultimately show "distinct (map feFingerprint ?rows)" by (simp add: distinct_map)
qed

lemma fingerprint_row:
  assumes "ledger_ok db" and "map_of (ldSlices db) slice = Some s" and "slJobId s = job"
  shows "r \<in> set (currentRows db job (Some slice)) \<and> feFingerprint r = fp \<longleftrightarrow> current_row (ldEvents db) slice fp = Some r"
proof -
  have len: "length (feFingerprint r) = 64" if "r \<in> set (ldEvents db)" for r
    using assms(1) that by (simp add: ledger_ok_def digests_ok_def list_all_iff)
  show ?thesis
    using set_currentRows[OF assms, of r] current_row_Some[of "ldEvents db" slice fp r] len sql_identity_digest[of r]
      currentRows_distinct(2)[OF assms, of r] by auto
qed

subsection \<open>Which path a transaction took\<close>

lemma keep_db_Inr: "keep_db db d = Inr (db', e) \<Longrightarrow> db' = db \<and> d = Inr e"
  by (auto simp: keep_db_def result_simps)

lemma assess_cases:
  assumes "ledger_assess env db i = Inr (db', d)"
  obtains (kept) "db' = db" and "fdOutcome d = LedgerBlocked"
    | (replay) "db' = db" and "attemptAlreadyRecorded db (aiVerificationAttemptId i)"
        "decisionFromRows (currentRows db (aiJobId i) (Some (aiSliceId i))) (aiHeadSha i) = Inr d"
    | (recorded) facts b where "assessment_facts env i = Inr (Inr facts)"
        "snapshotsAreCurrent db (aiJobId i) (aiSliceId i) (aiSnapshots i)"
        "integrationHead db (aiJobId i) \<in> {None, Some (aiHeadSha i)}"
        "\<not> attemptAlreadyRecorded db (aiVerificationAttemptId i)"
        "record_assessment env db i facts (currentRows db (aiJobId i) (Some (aiSliceId i))) b = Inr (db', d)"
proof (cases "assessment_facts env i")
  case (Inl e)
  then show ?thesis using assms kept by (auto simp: ledger_assess_def rejected_decision_def split: if_splits)
next
  case (Inr v)
  show ?thesis
  proof (cases v)
    case (Inl code)
    then show ?thesis using assms Inr kept by (auto simp: ledger_assess_def rejected_decision_def)
  next
    case (Inr facts)
    with \<open>assessment_facts env i = Inr v\<close> assms have run: "assessInTransaction env db i facts = Inr (db', d)"
      by (simp add: ledger_assess_def)
    obtain p where p: "decisionFromRows (currentRows db (aiJobId i) (Some (aiSliceId i))) (aiHeadSha i) = Inr p"
      using run by (auto simp: assessInTransaction_def Let_def result_simps)
    have blocked: "fdOutcome e = LedgerBlocked" if "blockedDecision c rows h = Inr e" for c rows h e
      using that by (auto simp: blockedDecision_def block_with_def result_simps)
    have "withDelta p 0 = p" using p by (auto simp: decisionFromRows_def decision_of_def withDelta_def Let_def result_simps)
    then show ?thesis
      using run p kept replay recorded[OF \<open>assessment_facts env i = Inr v\<close>[unfolded Inr]] blocked keep_db_Inr
      by (auto simp: assessInTransaction_def Let_def split: if_splits dest!: keep_db_Inr)
  qed
qed

lemma record_assessment_Inr:
  assumes "record_assessment env db i facts prior b = Inr (db', d)"
  obtains db1 db2 reason where
    "writeAssessmentEvents env i prior (assessmentBlockingBurden facts prior) facts db = Inr db1"
    "resolveMissingRoots env i prior (map faFingerprint facts) (assessmentBlockingBurden facts prior) db1 = Inr db2"
    "updateConvergence db2 i (assessmentBlockingBurden facts prior) (convergence db (aiSliceId i)) = (db', reason)"
    "assessmentDecision db' i reason (assessmentBlockingBurden facts prior - b) = Inr d"
proof -
  let ?w = "assessmentBlockingBurden facts prior"
  obtain db1 where w: "writeAssessmentEvents env i prior ?w facts db = Inr db1"
    using assms by (auto simp: record_assessment_def Let_def result_simps)
  then obtain db2 where m: "resolveMissingRoots env i prior (map faFingerprint facts) ?w db1 = Inr db2"
    using assms by (auto simp: record_assessment_def Let_def result_simps)
  obtain db3 reason where u: "updateConvergence db2 i ?w (convergence db (aiSliceId i)) = (db3, reason)"
    by fastforce
  have "db3 = db'" "assessmentDecision db' i reason (?w - b) = Inr d"
    using assms w m u by (auto simp: record_assessment_def Let_def result_simps)
  then show ?thesis using that w m u by blast
qed

lemma updateConvergence_events:
  "updateConvergence db i b p = (db', reason) \<Longrightarrow> ldEvents db' = ldEvents db \<and> same_tables db db' \<and>
     (\<exists>c. ldConvergence db' = assoc_set (aiSliceId i) c (ldConvergence db) \<and> crLastAttempt c = Some (aiVerificationAttemptId i) \<and>
        crCycles c = (case p of None \<Rightarrow> 0 | Some c \<Rightarrow> crCycles c) + 1 \<and>
        (reason = None \<longrightarrow> crCycles c \<le> whole (aiMaxReviewCycles i)))"
  by (auto simp: updateConvergence_def saveConvergence_def same_tables_def Let_def split: if_splits)

lemma pass_cases:
  assumes "resolvePassingReview env db i = Inr (db', d)"
  obtains (kept) "db' = db" and "fdOutcome d = LedgerBlocked"
    | (replay) "db' = db" and "attemptAlreadyRecorded db (piVerificationAttemptId i)"
        "decisionFromRows (currentRows db (piJobId i) (Some (piSliceId i))) (piHeadSha i) = Inr d"
    | (recorded) b where "validatePassingReviewInput i = Inr ()"
        "snapshotsAreCurrent db (piJobId i) (piSliceId i) (piSnapshots i)"
        "integrationHead db (piJobId i) \<in> {None, Some (piHeadSha i)}"
        "\<not> attemptAlreadyRecorded db (piVerificationAttemptId i)"
        "record_passing env db i (currentRows db (piJobId i) (Some (piSliceId i))) b = Inr (db', d)"
proof (cases "validatePassingReviewInput i")
  case (Inl e)
  then show ?thesis using assms kept by (auto simp: resolvePassingReview_def rejected_decision_def split: if_splits)
next
  case (Inr u)
  with assms have run: "resolvePassingInTransaction env db i = Inr (db', d)" by (simp add: resolvePassingReview_def)
  have blocked: "fdOutcome e = LedgerBlocked" if "blockedDecision c rows h = Inr e" for c rows h e
    using that by (auto simp: blockedDecision_def block_with_def result_simps)
  show ?thesis
    using run kept replay recorded Inr blocked
    by (auto simp: resolvePassingInTransaction_def Let_def result_simps split: if_splits dest!: keep_db_Inr)
qed

lemma record_passing_Inr:
  assumes "record_passing env db i rows b = Inr (db', d)"
  obtains (limit) "db' = db" "fdOutcome d = LedgerBlocked"
    | (stored) db1 e where "resolve_rows env (context_of_passing i) 0 (\<lambda>_. False) rows db = Inr db1"
        "ldEvents db' = ldEvents db1" "same_tables db1 db'"
        "\<exists>c. ldConvergence db' = assoc_set (piSliceId i) c (ldConvergence db1) \<and> crLastAttempt c = Some (piVerificationAttemptId i) \<and>
          crCycles c = (case convergence db (piSliceId i) of None \<Rightarrow> 0 | Some c \<Rightarrow> crCycles c) + 1 \<and>
          crCycles c \<le> whole (piMaxReviewCycles i)"
        "decisionFromRows (currentRows db' (piJobId i) (Some (piSliceId i))) (piHeadSha i) = Inr e" "d = withDelta e (- b)"
proof (cases "(case convergence db (piSliceId i) of None \<Rightarrow> 0 | Some c \<Rightarrow> crCycles c) + 1 > whole (piMaxReviewCycles i)")
  case True
  then show ?thesis
    using assms limit by (auto simp: record_passing_def Let_def blockedDecision_def block_with_def result_simps dest!: keep_db_Inr)
next
  case False
  define row where "row = \<lparr>crBurden = 0, crPlateau = (case convergence db (piSliceId i) of None \<Rightarrow> 0 | Some c \<Rightarrow> crPlateau c),
    crCycles = (case convergence db (piSliceId i) of None \<Rightarrow> 0 | Some c \<Rightarrow> crCycles c) + 1,
    crUpdatedAt = whole (piNow i), crLastAttempt = Some (piVerificationAttemptId i)\<rparr>"
  obtain db1 where one: "resolve_rows env (context_of_passing i) 0 (\<lambda>_. False) rows db = Inr db1"
    using assms False by (auto simp: record_passing_def Let_def result_simps)
  obtain e where e: "db' = saveConvergence db1 (piSliceId i) row" "d = withDelta e (- b)"
    "decisionFromRows (currentRows db' (piJobId i) (Some (piSliceId i))) (piHeadSha i) = Inr e"
    using assms False one by (auto simp: record_passing_def Let_def result_simps row_def)
  show ?thesis
  proof (rule stored[OF one _ _ _ e(3) e(2)])
    show "ldEvents db' = ldEvents db1" "same_tables db1 db'" by (simp_all add: e(1) saveConvergence_def same_tables_def)
    show "\<exists>c. ldConvergence db' = assoc_set (piSliceId i) c (ldConvergence db1) \<and> crLastAttempt c = Some (piVerificationAttemptId i) \<and>
          crCycles c = (case convergence db (piSliceId i) of None \<Rightarrow> 0 | Some c \<Rightarrow> crCycles c) + 1 \<and>
          crCycles c \<le> whole (piMaxReviewCycles i)"
      using False by (intro exI[of _ row]) (simp add: e(1) saveConvergence_def row_def)
  qed
qed

end
