(* ===== verification/Finding_Properties.thy ===== *)
theory Finding_Properties
  imports Finding_Lemmas
begin

text \<open>
  The correctness of the finding ledger: what a success means, how an assessment moves the current
  findings of a slice, that replaying it changes nothing, that the rounds of a slice are bounded, and
  two situations in which the ledger stops a review that should go on.
\<close>

subsection \<open>Decisions\<close>

lemma map_result_Inr: "map_result f xs = Inr ys \<longleftrightarrow> list_all2 (\<lambda>x y. f x = Inr y) xs ys"
  by (induction xs arbitrary: ys) (auto simp: result_simps list_all2_Cons1)

lemma list_all2_member: "list_all2 P xs ys \<Longrightarrow> x \<in> set xs \<Longrightarrow> \<exists>y \<in> set ys. P x y"
  by (induction rule: list_all2_induct) auto

lemma entry_simps:
  assumes "entryFromRow head r = Inr e"
  shows "leState e = fst (entryState r head)" "leDisposition e = feDisposition r" "leRootCauseId e = feRootCauseId r"
  using assms by (auto simp: entryFromRow_def result_simps)

lemma accept_is_clean:
  assumes "decisionFromRows rows head = Inr d" and "fdNext d = NextAccept" and "r \<in> set rows"
  shows "\<not> row_stale r head" "row_state r = StateOpen \<Longrightarrow> feDisposition r = Advisory"
proof -
  obtain es where es: "list_all2 (\<lambda>x y. entryFromRow head x = Inr y) rows es" and d: "d = decision_of es head"
    using assms(1) by (auto simp: decisionFromRows_def result_simps map_result_Inr)
  then obtain e where e: "e \<in> set es" "entryFromRow head r = Inr e"
    using list_all2_member[OF es assms(3)] by blast
  have stale: "staleEvidenceFor es head = []" and burden: "blockingRootCount es \<le> 0"
    using assms(2) by (auto simp: d decision_of_def Let_def split: if_splits)
  then have "leState e \<noteq> StateStale" using e(1) by (auto simp: staleEvidenceFor_def filter_empty_conv)
  then show fresh: "\<not> row_stale r head" using entry_simps(1)[OF e(2)] by (auto simp: entryState_def)
  have "length (js_set (map leRootCauseId (filter rowIsBlocking es))) = 0"
    using burden unfolding blockingRootCount_def by linarith
  then have "set (js_set (map leRootCauseId (filter rowIsBlocking es))) = {}" by simp
  then have "\<not> rowIsBlocking e" using e(1) unfolding set_js_set by auto
  moreover have "leState e = row_state r" using entry_simps(1)[OF e(2)] fresh by (simp add: entryState_def)
  ultimately show "row_state r = StateOpen \<Longrightarrow> feDisposition r = Advisory"
    using entry_simps(2)[OF e(2)] by (cases "feDisposition r") (auto simp: rowIsBlocking_def)
qed

lemma stale_is_recheck:
  assumes "decisionFromRows rows head = Inr d" and "r \<in> set rows" and "row_stale r head"
  shows "fdNext d = NextRecheck"
proof -
  obtain es where es: "list_all2 (\<lambda>x y. entryFromRow head x = Inr y) rows es" and d: "d = decision_of es head"
    using assms(1) by (auto simp: decisionFromRows_def result_simps map_result_Inr)
  then obtain e where e: "e \<in> set es" "entryFromRow head r = Inr e"
    using list_all2_member[OF es assms(2)] by blast
  have "leState e = StateStale" using entry_simps(1)[OF e(2)] assms(3) by (simp add: entryState_def)
  then have "staleEvidenceFor es head \<noteq> []" using e(1) by (auto simp: staleEvidenceFor_def filter_empty_conv)
  then show ?thesis by (simp add: d decision_of_def Let_def)
qed

lemma settled_success:
  assumes "reviewDecisionAssessment d h = SettledSucceeded why"
  shows "fdOutcome d = LedgerAccepted" "fdNext d = NextAccept"
  using assms by (cases "fdOutcome d"; cases "fdNext d"; simp add: reviewDecisionAssessment_def)+

lemma assessment_identity_head: "assessment_facts env i = Inr (Inr facts) \<Longrightarrow> length (aiHeadSha i) = 40"
  by (auto simp: assessment_facts_def validateAssessmentInput_def assertAssessmentIdentity_def assertSha_def result_simps)

lemma passing_identity_head: "validatePassingReviewInput i = Inr () \<Longrightarrow> length (piHeadSha i) = 40"
  by (auto simp: validatePassingReviewInput_def assertSha_def result_simps)

text \<open>The tables a recorded step leaves alone.\<close>

lemma assess_same_tables: "ledger_assess env db i = Inr (db', d) \<Longrightarrow> same_tables db db'"
proof (erule assess_cases)
  fix facts b assume "record_assessment env db i facts (currentRows db (aiJobId i) (Some (aiSliceId i))) b = Inr (db', d)"
  then show "same_tables db db'"
  proof (rule record_assessment_Inr)
    fix db1 db2 reason
    assume w: "writeAssessmentEvents env i (currentRows db (aiJobId i) (Some (aiSliceId i)))
        (assessmentBlockingBurden facts (currentRows db (aiJobId i) (Some (aiSliceId i)))) facts db = Inr db1"
      and m: "resolveMissingRoots env i (currentRows db (aiJobId i) (Some (aiSliceId i))) (map faFingerprint facts)
        (assessmentBlockingBurden facts (currentRows db (aiJobId i) (Some (aiSliceId i)))) db1 = Inr db2"
      and u: "updateConvergence db2 i (assessmentBlockingBurden facts (currentRows db (aiJobId i) (Some (aiSliceId i))))
        (convergence db (aiSliceId i)) = (db', reason)"
    have "same_tables db db1" "same_tables db1 db2" "same_tables db2 db'"
      using write_appends[OF w] resolve_appends[OF m[unfolded resolveMissingRoots_def]] updateConvergence_events[OF u] by blast+
    then show "same_tables db db'" using same_tables_trans by blast
  qed
qed simp_all

lemma pass_same_tables: "resolvePassingReview env db i = Inr (db', d) \<Longrightarrow> same_tables db db'"
proof (erule pass_cases)
  fix b assume "record_passing env db i (currentRows db (piJobId i) (Some (piSliceId i))) b = Inr (db', d)"
  then show "same_tables db db'"
    by (rule record_passing_Inr) (use resolve_appends same_tables_trans in \<open>fastforce+\<close>)
qed simp_all

lemma same_head: "same_tables db db' \<Longrightarrow> integrationHead db' job = integrationHead db job"
  by (simp add: same_tables_def integrationHead_def)

lemma withDelta_next [simp]: "fdNext (withDelta d n) = fdNext d" "fdOutcome (withDelta d n) = fdOutcome d" "fdReason (withDelta d n) = fdReason d"
  by (simp_all add: withDelta_def)

lemma decision_accepted: "decisionFromRows rows head = Inr d \<Longrightarrow> fdOutcome d = LedgerAccepted"
  by (auto simp: decisionFromRows_def decision_of_def Let_def result_simps)

text \<open>A decision that was not blocked is the one read back from the tables it leaves.\<close>

lemma assess_decision:
  assumes "ledger_assess env db i = Inr (db', d)" and "fdOutcome d = LedgerAccepted"
  obtains e where "decisionFromRows (currentRows db' (aiJobId i) (Some (aiSliceId i))) (aiHeadSha i) = Inr e" "fdNext d = fdNext e"
  using assms(1)
proof (cases rule: assess_cases)
  case kept
  then show ?thesis using assms(2) by simp
next
  case replay
  then show ?thesis using that by blast
next
  case (recorded facts b)
  from recorded(5) show ?thesis
  proof (rule record_assessment_Inr)
    fix reason assume "assessmentDecision db' i reason (assessmentBlockingBurden facts (currentRows db (aiJobId i) (Some (aiSliceId i))) - b) = Inr d"
    then show ?thesis
      using that assms(2) by (cases reason) (auto simp: assessmentDecision_def block_with_def result_simps)
  qed
qed

lemma pass_decision:
  assumes "resolvePassingReview env db i = Inr (db', d)" and "fdOutcome d = LedgerAccepted"
  obtains e where "decisionFromRows (currentRows db' (piJobId i) (Some (piSliceId i))) (piHeadSha i) = Inr e" "fdNext d = fdNext e"
  using assms(1)
proof (cases rule: pass_cases)
  case kept
  then show ?thesis using assms(2) by simp
next
  case replay
  then show ?thesis using that by blast
next
  case (recorded b)
  from recorded(5) show ?thesis
    by (rule record_passing_Inr) (use assms(2) that in auto)
qed


subsection \<open>A success is clean\<close>

fun call_slice :: "review_call \<Rightarrow> (string \<times> string \<times> string) option" where
  "call_slice (VerificationReview (Some i) h) = Some (aiJobId i, aiSliceId i, aiHeadSha i)"
| "call_slice (PassingReview i) = Some (piJobId i, piSliceId i, piHeadSha i)"
| "call_slice _ = None"

lemma verified_success:
  assumes "ledger_assess env db i = Inr (db', d)" and "reviewDecisionAssessment d h = SettledSucceeded why"
  shows "\<exists>e. decisionFromRows (currentRows db' (aiJobId i) (Some (aiSliceId i))) (aiHeadSha i) = Inr e \<and> fdNext e = NextAccept"
  using assess_decision[OF assms(1) settled_success(1)[OF assms(2)]] settled_success(2)[OF assms(2)] by metis

lemma passed_success:
  assumes "resolvePassingReview env db i = Inr (db', d)" and "reviewDecisionAssessment d h = SettledSucceeded why"
  shows "\<exists>e. decisionFromRows (currentRows db' (piJobId i) (Some (piSliceId i))) (piHeadSha i) = Inr e \<and> fdNext e = NextAccept"
  using pass_decision[OF assms(1) settled_success(1)[OF assms(2)]] settled_success(2)[OF assms(2)] by metis

lemma assess_success_head:
  assumes "ledger_assess env db i = Inr (db', d)" and "fdOutcome d = LedgerAccepted"
  shows "length (aiHeadSha i) = 40"
  using assms(1)
proof (cases rule: assess_cases)
  case replay
  show ?thesis using assms by (auto simp: ledger_assess_def rejected_decision_def assessment_identity_head split: sum.splits if_splits)
next
  case recorded
  then show ?thesis by (simp add: assessment_identity_head)
qed (use assms(2) in simp)

lemma pass_success_head:
  assumes "resolvePassingReview env db i = Inr (db', d)" and "fdOutcome d = LedgerAccepted"
  shows "length (piHeadSha i) = 40"
  using assms by (auto simp: resolvePassingReview_def rejected_decision_def passing_identity_head split: sum.splits if_splits)

text \<open>C27: when a review of a slice is settled as a success, every current finding of the slice has been judged at
  exactly the reviewed head, and none that must be fixed is open.\<close>

theorem settled_review_is_clean:
  assumes "assessReviewDecision env db call = Inr (db', SettledSucceeded why, d)" and "call_slice call = Some (job, slice, head)"
    and "r \<in> set (currentRows db' job (Some slice))"
  shows "feHeadSha r = head \<and> (row_state r \<noteq> StateOpen \<or> feDisposition r = Advisory)"
proof -
  have clean: "feHeadSha r = head \<and> (row_state r \<noteq> StateOpen \<or> feDisposition r = Advisory)"
    if "decisionFromRows (currentRows db' job (Some slice)) head = Inr e" "fdNext e = NextAccept" "length head = 40" for e
    using accept_is_clean[OF that(1,2) assms(3)] that(3) by (auto simp: row_stale_def)
  show ?thesis
  proof (cases call)
    case (VerificationReview oi h)
    then obtain i e where i: "oi = Some i" "ledger_assess env db i = Inr (db', e)" "reviewDecisionAssessment e h = SettledSucceeded why"
      using assms(1) by (cases oi) (auto simp: assessReviewDecision_def result_simps split: if_splits)
    then show ?thesis
      using verified_success[OF i(2,3)] assess_success_head[OF i(2) settled_success(1)[OF i(3)]] clean assms(2) VerificationReview by auto
  next
    case (PassingReview i)
    then obtain e where i: "resolvePassingReview env db i = Inr (db', e)" "reviewDecisionAssessment e False = SettledSucceeded why"
      using assms(1) by (auto simp: assessReviewDecision_def result_simps)
    then show ?thesis
      using passed_success[OF i] pass_success_head[OF i(1) settled_success(1)[OF i(2)]] clean assms(2) PassingReview by auto
  qed (use assms(2) in simp)
qed

subsection \<open>The current findings as a map\<close>

type_synonym finding_view = "((ledger_state \<times> string \<times> disposition) option \<times> bool)"

text \<open>What a slice says of a fingerprint: the state, the head and the disposition of its current row, and whether
  it was ever confirmed.\<close>

definition slice_view :: "ledger_db \<Rightarrow> string \<Rightarrow> string \<Rightarrow> finding_view" where
  "slice_view db slice fp =
     (map_option (\<lambda>r. (row_state r, feHeadSha r, feDisposition r)) (current_row (ldEvents db) slice fp),
      ever_confirmed (ldEvents db) slice fp)"

text \<open>The specification of an assessment on one fingerprint.\<close>

definition next_view :: "string \<Rightarrow> finding_fact list \<Rightarrow> string \<Rightarrow> finding_view \<Rightarrow> finding_view" where
  "next_view head facts fp = (\<lambda>(v, ever).
     case List.find (\<lambda>f. faFingerprint f = fp) facts of
       Some f \<Rightarrow>
         if faConfirmed f then (Some (StateOpen, head, faDisposition f), True)
         else if ever then (v, True)
         else (Some (StateDisputed, head, faDisposition f), False)
     | None \<Rightarrow>
         (case v of
            Some (StateOpen, _, dsp) \<Rightarrow> (Some (StateResolved, head, dsp), True)
          | _ \<Rightarrow> (v, ever)))"

lemma find_fact:
  assumes "distinct (map faFingerprint facts)"
  shows "List.find (\<lambda>f. faFingerprint f = fp) facts = Some f \<longleftrightarrow> f \<in> set facts \<and> faFingerprint f = fp"
    "List.find (\<lambda>f. faFingerprint f = fp) facts = None \<longleftrightarrow> fp \<notin> faFingerprint ` set facts"
  using assms by (induction facts) auto

lemma resolves_row:
  assumes "resolves env c b r e"
  shows "row_state e = StateResolved" "feHeadSha e = ecHeadSha c" "feDisposition e = feDisposition r"
  using assms by (auto simp: resolves_def row_state_def legacyFact_def)

lemma recorded_view:
  assumes "record_assessment env db i facts (currentRows db (aiJobId i) (Some (aiSliceId i))) b = Inr (db', d)"
    and "ledger_ok db" and "distinct (map faFingerprint facts)" and "\<And>f. f \<in> set facts \<Longrightarrow> length (faFingerprint f) = 64"
    and "map_of (ldSlices db) (aiSliceId i) = Some s" and "slJobId s = aiJobId i"
  shows "ledger_ok db' \<and> (\<forall>fp. slice_view db' (aiSliceId i) fp = next_view (aiHeadSha i) facts fp (slice_view db (aiSliceId i) fp)) \<and>
    (\<forall>slice fp. slice = aiSliceId i \<or> slice_view db' slice fp = slice_view db slice fp)"
  using assms(1)
proof (rule record_assessment_Inr)
  let ?prior = "currentRows db (aiJobId i) (Some (aiSliceId i))" and ?slice = "aiSliceId i"
  let ?w = "assessmentBlockingBurden facts ?prior"
  let ?skip = "\<lambda>r. List.member (map faFingerprint facts) (identityFor r)"
  fix db1 db2 reason
  assume w: "writeAssessmentEvents env i ?prior ?w facts db = Inr db1"
    and m: "resolveMissingRoots env i ?prior (map faFingerprint facts) ?w db1 = Inr db2"
    and u: "updateConvergence db2 i ?w (convergence db (aiSliceId i)) = (db', reason)"
  note wc = write_current[OF w assms(2,3,4,5,6)]
  note prior = currentRows_distinct[OF assms(2,5,6)]
  have sl1: "map_of (ldSlices db1) (ecSliceId (context_of_assessment i)) = Some s"
    using write_appends[OF w] assms(5) by (simp add: same_tables_def context_of_assessment_def)
  have job1: "slJobId s = ecJobId (context_of_assessment i)" using assms(6) by (simp add: context_of_assessment_def)
  note rc = resolve_current[OF m[unfolded resolveMissingRoots_def] conjunct1[OF wc] prior(1) conjunct1[OF prior(2)] sl1 job1]
  have ctx: "ecSliceId (context_of_assessment i) = ?slice" "ecHeadSha (context_of_assessment i) = aiHeadSha i"
    by (simp_all add: context_of_assessment_def)
  have ev: "ldEvents db' = ldEvents db2" "ldSlices db' = ldSlices db2"
    using updateConvergence_events[OF u] by (simp_all add: same_tables_def)
  have ok: "ledger_ok db'" using rc ev by (simp add: ledger_ok_def ledger_jobs_ok_def)
  have missing: "fp \<in> set (map feFingerprint (resolving ?skip ?prior)) \<longleftrightarrow>
      (\<exists>r. current_row (ldEvents db) ?slice fp = Some r \<and> row_state r = StateOpen \<and> fp \<notin> faFingerprint ` set facts)" for fp
  proof -
    have "fp \<in> set (map feFingerprint (resolving ?skip ?prior)) \<longleftrightarrow>
        (\<exists>r. (r \<in> set ?prior \<and> feFingerprint r = fp) \<and> row_state r = StateOpen \<and> fp \<notin> faFingerprint ` set facts)"
      using prior(2) by (auto simp: resolving_def List.member_iff)
    then show ?thesis by (simp only: fingerprint_row[OF assms(2,5,6)])
  qed
  have "slice_view db' ?slice fp = next_view (aiHeadSha i) facts fp (slice_view db ?slice fp)" for fp
  proof (cases "fp \<in> faFingerprint ` set facts")
    case True
    then obtain f where f: "f \<in> set facts" "faFingerprint f = fp" by auto
    then have find: "List.find (\<lambda>f. faFingerprint f = fp) facts = Some f" using find_fact(1)[OF assms(3)] by simp
    have "fp \<notin> set (map feFingerprint (resolving ?skip ?prior))" using missing True by blast
    then have same: "current_row (ldEvents db') ?slice fp = current_row (ldEvents db1) ?slice fp"
        "ever_confirmed (ldEvents db') ?slice fp = ever_confirmed (ldEvents db1) ?slice fp"
      using rc ctx ev by simp_all
    have st: "settles_fact env i ?prior ?w (ldEvents db) f (current_row (ldEvents db1) ?slice fp)"
      "ever_confirmed (ldEvents db1) ?slice fp = (ever_confirmed (ldEvents db) ?slice fp \<or> faConfirmed f)"
      using wc f by auto
    show ?thesis
      using st same find f(2) assessment_event_kind[of f env i ?prior ?w]
      by (auto simp: slice_view_def next_view_def settles_fact_def row_state_def)
  next
    case False
    then have find: "List.find (\<lambda>f. faFingerprint f = fp) facts = None" using find_fact(2)[OF assms(3)] by simp
    have old: "current_row (ldEvents db1) ?slice fp = current_row (ldEvents db) ?slice fp"
      "ever_confirmed (ldEvents db1) ?slice fp = ever_confirmed (ldEvents db) ?slice fp"
      using wc False by simp_all
    show ?thesis
    proof (cases "fp \<in> set (map feFingerprint (resolving ?skip ?prior))")
      case True
      then obtain r where r: "r \<in> set (resolving ?skip ?prior)" "feFingerprint r = fp" by auto
      then have cur: "current_row (ldEvents db) ?slice fp = Some r" "row_state r = StateOpen"
        using fingerprint_row[OF assms(2,5,6), of r fp] by (auto simp: resolving_def)
      obtain e where e: "resolves env (context_of_assessment i) ?w r e" "current_row (ldEvents db2) ?slice fp = Some e"
        "ever_confirmed (ldEvents db2) ?slice fp"
        using rc r ctx by auto
      then show ?thesis
        using cur find resolves_row[OF e(1)] ev ctx by (simp add: slice_view_def next_view_def)
    next
      case False
      then have "current_row (ldEvents db') ?slice fp = current_row (ldEvents db) ?slice fp"
          "ever_confirmed (ldEvents db') ?slice fp = ever_confirmed (ldEvents db) ?slice fp"
        using rc ctx ev old by simp_all
      moreover have "\<nexists>r. current_row (ldEvents db) ?slice fp = Some r \<and> row_state r = StateOpen"
        using missing False \<open>fp \<notin> faFingerprint ` set facts\<close> by blast
      ultimately show ?thesis
        using find by (auto simp: slice_view_def next_view_def split: option.splits ledger_state.splits)
    qed
  qed
  moreover have "slice_view db' slice fp = slice_view db slice fp" if "slice \<noteq> ?slice" for slice fp
    using that wc rc ctx ev by (simp add: slice_view_def)
  ultimately show ?thesis using ok by blast
qed


subsection \<open>The transaction\<close>

lemma transaction_recorded:
  assumes "assessInTransaction env db i facts = Inr (db', d)"
    and "\<not> attemptAlreadyRecorded db (aiVerificationAttemptId i)" and "attemptAlreadyRecorded db' (aiVerificationAttemptId i)"
  obtains b s where "record_assessment env db i facts (currentRows db (aiJobId i) (Some (aiSliceId i))) b = Inr (db', d)"
    "map_of (ldSlices db) (aiSliceId i) = Some s" "slJobId s = aiJobId i"
    "integrationHead db (aiJobId i) \<in> {None, Some (aiHeadSha i)}" "snapshotsAreCurrent db (aiJobId i) (aiSliceId i) (aiSnapshots i)"
proof -
  obtain p where p: "decisionFromRows (currentRows db (aiJobId i) (Some (aiSliceId i))) (aiHeadSha i) = Inr p"
    using assms(1) by (auto simp: assessInTransaction_def Let_def result_simps)
  have moved: "db' \<noteq> db" using assms(2,3) by auto
  from assms(1) p assms(2) moved obtain b where
    r: "record_assessment env db i facts (currentRows db (aiJobId i) (Some (aiSliceId i))) b = Inr (db', d)"
      "snapshotsAreCurrent db (aiJobId i) (aiSliceId i) (aiSnapshots i)" "integrationHead db (aiJobId i) \<in> {None, Some (aiHeadSha i)}"
    by (auto simp: assessInTransaction_def Let_def split: if_splits dest: keep_db_Inr)
  then show ?thesis using that by (auto simp: snapshotsAreCurrent_def split: option.splits)
qed

text \<open>C28: an assessment refines the map from fingerprints to states: a confirmed finding is open at the assessed head, a
  finding that was not confirmed keeps its state if it was ever confirmed and is disputed otherwise, an open finding
  that was not proposed again is resolved at that head, every other finding of the slice and every other slice are as
  they were.\<close>

theorem assessment_refines_map:
  assumes "assessInTransaction env db i facts = Inr (db', d)" and "ledger_ok db"
    and "\<not> attemptAlreadyRecorded db (aiVerificationAttemptId i)" and "attemptAlreadyRecorded db' (aiVerificationAttemptId i)"
    and "distinct (map faFingerprint facts)" and "list_all (\<lambda>f. length (faFingerprint f) = 64) facts"
  shows "ledger_ok db' \<and> slice_view db' slice fp =
       (if slice = aiSliceId i then next_view (aiHeadSha i) facts fp (slice_view db slice fp) else slice_view db slice fp)"
proof -
  obtain b s where r: "record_assessment env db i facts (currentRows db (aiJobId i) (Some (aiSliceId i))) b = Inr (db', d)"
    "map_of (ldSlices db) (aiSliceId i) = Some s" "slJobId s = aiJobId i"
    using transaction_recorded[OF assms(1,3,4)] by metis
  have "length (faFingerprint f) = 64" if "f \<in> set facts" for f using assms(6) that by (simp add: list_all_iff)
  note v = recorded_view[OF r(1) assms(2,5) this r(2,3)]
  show ?thesis using v by auto
qed

lemma recorded_attempt:
  assumes "ldConvergence db' = assoc_set slice c ps" and "crLastAttempt c = Some v"
  shows "attemptAlreadyRecorded db' v"
proof -
  have "map_of (ldConvergence db') slice = Some c" using assms(1) by simp
  then have "(slice, c) \<in> set (ldConvergence db')" by (rule map_of_SomeD)
  then show ?thesis using assms(2) by (force simp: attemptAlreadyRecorded_def list_ex_iff)
qed

text \<open>C29: the transaction of an assessment can be repeated: run again on the tables it left, with the same facts, it
  returns and changes nothing, whichever of its branches the first run took.\<close>

theorem assessment_is_idempotent:
  assumes "assessInTransaction env db i facts = Inr (db', d)"
  shows "\<exists>d'. assessInTransaction env db' i facts = Inr (db', d')"
proof (cases "db' = db")
  case True
  then show ?thesis using assms by blast
next
  case False
  obtain p where p: "decisionFromRows (currentRows db (aiJobId i) (Some (aiSliceId i))) (aiHeadSha i) = Inr p"
    using assms by (auto simp: assessInTransaction_def Let_def result_simps)
  from assms p False obtain b where
    r: "record_assessment env db i facts (currentRows db (aiJobId i) (Some (aiSliceId i))) b = Inr (db', d)"
      "snapshotsAreCurrent db (aiJobId i) (aiSliceId i) (aiSnapshots i)" "integrationHead db (aiJobId i) \<in> {None, Some (aiHeadSha i)}"
    by (auto simp: assessInTransaction_def Let_def split: if_splits dest: keep_db_Inr)
  from r(1) obtain reason n where "assessmentDecision db' i reason n = Inr d" and rec: "attemptAlreadyRecorded db' (aiVerificationAttemptId i)"
    and same: "same_tables db db'"
  proof (rule record_assessment_Inr)
    let ?prior = "currentRows db (aiJobId i) (Some (aiSliceId i))"
    fix db1 db2 reason
    assume w: "writeAssessmentEvents env i ?prior (assessmentBlockingBurden facts ?prior) facts db = Inr db1"
      and m: "resolveMissingRoots env i ?prior (map faFingerprint facts) (assessmentBlockingBurden facts ?prior) db1 = Inr db2"
      and u: "updateConvergence db2 i (assessmentBlockingBurden facts ?prior) (convergence db (aiSliceId i)) = (db', reason)"
      and a: "assessmentDecision db' i reason (assessmentBlockingBurden facts ?prior - b) = Inr d"
    have "same_tables db db1" "same_tables db1 db2" "same_tables db2 db'"
      using write_appends[OF w] resolve_appends[OF m[unfolded resolveMissingRoots_def]] updateConvergence_events[OF u] by blast+
    then have "same_tables db db'" using same_tables_trans by blast
    moreover have "attemptAlreadyRecorded db' (aiVerificationAttemptId i)"
      using recorded_attempt updateConvergence_events[OF u] by blast
    ultimately show thesis using that a by blast
  qed
  then obtain q where q: "decisionFromRows (currentRows db' (aiJobId i) (Some (aiSliceId i))) (aiHeadSha i) = Inr q"
    by (auto simp: assessmentDecision_def result_simps)
  have "snapshotsAreCurrent db' (aiJobId i) (aiSliceId i) (aiSnapshots i)" "integrationHead db' (aiJobId i) \<in> {None, Some (aiHeadSha i)}"
    using r(2,3) same unfolding snapshotsAreCurrent_def same_tables_def integrationHead_def by simp_all
  then show ?thesis using q rec by (auto simp: assessInTransaction_def Let_def)
qed

subsection \<open>The rounds of a slice\<close>

text \<open>A step that uses up a budget: an accepted step spends one unit of a meter that never falls and never passes
  the limit.\<close>

locale metered_steps =
  fixes step :: "'s \<Rightarrow> 'q \<Rightarrow> ('s \<times> bool) option"
    and meter :: "'s \<Rightarrow> int"
    and fresh :: "'s \<Rightarrow> 'q \<Rightarrow> bool"
    and limit :: int
  assumes grows: "step s q = Some (s', ok) \<Longrightarrow> meter s \<le> meter s'"
    and spends: "step s q = Some (s', True) \<Longrightarrow> fresh s q \<Longrightarrow> meter s < meter s' \<and> meter s' \<le> limit"
begin

fun accepted_steps :: "'s \<Rightarrow> 'q list \<Rightarrow> nat" where
  "accepted_steps s [] = 0"
| "accepted_steps s (q # qs) =
     (case step s q of
        None \<Rightarrow> 0
      | Some (s', ok) \<Rightarrow> (if ok \<and> fresh s q then 1 else 0) + accepted_steps s' qs)"

lemma accepted_bound: "int (accepted_steps s qs) \<le> max 0 (limit - meter s)"
proof (induction qs arbitrary: s)
  case (Cons q qs)
  show ?case
  proof (cases "step s q")
    case (Some r)
    obtain s' ok where r: "r = (s', ok)" by (cases r)
    have IH: "int (accepted_steps s' qs) \<le> max 0 (limit - meter s')" by (rule Cons.IH)
    show ?thesis
    proof (cases "ok \<and> fresh s q")
      case True
      then have "meter s < meter s' \<and> meter s' \<le> limit" using spends[of s q s'] Some r by simp
      then show ?thesis using IH Some r True by simp
    next
      case False
      have "meter s \<le> meter s'" using grows[of s q s' ok] Some r by simp
      then show ?thesis using IH Some r False by (auto simp: max_def split: if_splits)
    qed
  qed simp
qed simp

end


definition review_cycles :: "string \<Rightarrow> ledger_db \<Rightarrow> int" where
  "review_cycles slice db = (case convergence db slice of None \<Rightarrow> 0 | Some c \<Rightarrow> crCycles c)"

definition review_step :: "ledger_env \<Rightarrow> ledger_db \<Rightarrow> review_call \<Rightarrow> (ledger_db \<times> bool) option" where
  "review_step env db call =
     (case assessReviewDecision env db call of
        Inl e \<Rightarrow> None
      | Inr (db', _, d) \<Rightarrow> Some (db', (case d of None \<Rightarrow> False | Some x \<Rightarrow> fdOutcome x = LedgerAccepted)))"

text \<open>A new round of a slice under a given limit: not a repetition of a recorded attempt.\<close>

fun new_round :: "string \<Rightarrow> int \<Rightarrow> ledger_db \<Rightarrow> review_call \<Rightarrow> bool" where
  "new_round slice limit db (VerificationReview (Some i) h) =
     (aiSliceId i = slice \<and> whole (aiMaxReviewCycles i) = limit \<and> \<not> attemptAlreadyRecorded db (aiVerificationAttemptId i))"
| "new_round slice limit db (PassingReview i) =
     (piSliceId i = slice \<and> whole (piMaxReviewCycles i) = limit \<and> \<not> attemptAlreadyRecorded db (piVerificationAttemptId i))"
| "new_round slice limit db _ = False"

lemma cycles_assoc_set:
  assumes "ldConvergence db' = assoc_set k c (ldConvergence db)" and "crCycles c = review_cycles k db + 1"
  shows "review_cycles slice db' = (if slice = k then review_cycles slice db + 1 else review_cycles slice db)"
  using assms by (simp add: review_cycles_def convergence_def)

lemma assess_meter:
  assumes "ledger_assess env db i = Inr (db', d)"
  shows "review_cycles slice db \<le> review_cycles slice db'"
    "fdOutcome d = LedgerAccepted \<Longrightarrow> \<not> attemptAlreadyRecorded db (aiVerificationAttemptId i) \<Longrightarrow> aiSliceId i = slice \<Longrightarrow>
       review_cycles slice db < review_cycles slice db' \<and> review_cycles slice db' \<le> whole (aiMaxReviewCycles i)"
proof -
  have "review_cycles slice db \<le> review_cycles slice db' \<and>
    (fdOutcome d = LedgerAccepted \<longrightarrow> \<not> attemptAlreadyRecorded db (aiVerificationAttemptId i) \<longrightarrow> aiSliceId i = slice \<longrightarrow>
       review_cycles slice db < review_cycles slice db' \<and> review_cycles slice db' \<le> whole (aiMaxReviewCycles i))"
    using assms
  proof (cases rule: assess_cases)
    case (recorded facts b)
    from recorded(5) show ?thesis
    proof (rule record_assessment_Inr)
      let ?prior = "currentRows db (aiJobId i) (Some (aiSliceId i))"
      fix db1 db2 reason
      assume w: "writeAssessmentEvents env i ?prior (assessmentBlockingBurden facts ?prior) facts db = Inr db1"
        and m: "resolveMissingRoots env i ?prior (map faFingerprint facts) (assessmentBlockingBurden facts ?prior) db1 = Inr db2"
        and u: "updateConvergence db2 i (assessmentBlockingBurden facts ?prior) (convergence db (aiSliceId i)) = (db', reason)"
        and a: "assessmentDecision db' i reason (assessmentBlockingBurden facts ?prior - b) = Inr d"
      have conv: "ldConvergence db2 = ldConvergence db"
        using write_appends[OF w] resolve_appends[OF m[unfolded resolveMissingRoots_def]] by simp
      obtain c where c: "ldConvergence db' = assoc_set (aiSliceId i) c (ldConvergence db)"
        "crCycles c = review_cycles (aiSliceId i) db + 1" "reason = None \<longrightarrow> crCycles c \<le> whole (aiMaxReviewCycles i)"
        using updateConvergence_events[OF u] conv by (auto simp: review_cycles_def)
      have "reason = None" if "fdOutcome d = LedgerAccepted"
        using a that by (cases reason) (auto simp: assessmentDecision_def block_with_def result_simps)
      then show ?thesis using cycles_assoc_set[OF c(1,2), of slice] c(2,3) by auto
    qed
  qed auto
  then show "review_cycles slice db \<le> review_cycles slice db'"
    "fdOutcome d = LedgerAccepted \<Longrightarrow> \<not> attemptAlreadyRecorded db (aiVerificationAttemptId i) \<Longrightarrow> aiSliceId i = slice \<Longrightarrow>
       review_cycles slice db < review_cycles slice db' \<and> review_cycles slice db' \<le> whole (aiMaxReviewCycles i)"
    by blast+
qed

lemma pass_meter:
  assumes "resolvePassingReview env db i = Inr (db', d)"
  shows "review_cycles slice db \<le> review_cycles slice db'"
    "fdOutcome d = LedgerAccepted \<Longrightarrow> \<not> attemptAlreadyRecorded db (piVerificationAttemptId i) \<Longrightarrow> piSliceId i = slice \<Longrightarrow>
       review_cycles slice db < review_cycles slice db' \<and> review_cycles slice db' \<le> whole (piMaxReviewCycles i)"
proof -
  have "review_cycles slice db \<le> review_cycles slice db' \<and>
    (fdOutcome d = LedgerAccepted \<longrightarrow> \<not> attemptAlreadyRecorded db (piVerificationAttemptId i) \<longrightarrow> piSliceId i = slice \<longrightarrow>
       review_cycles slice db < review_cycles slice db' \<and> review_cycles slice db' \<le> whole (piMaxReviewCycles i))"
    using assms
  proof (cases rule: pass_cases)
    case (recorded b)
    from recorded(5) show ?thesis
    proof (cases rule: record_passing_Inr)
      case (stored db1 e)
      have "ldConvergence db1 = ldConvergence db" using resolve_appends[OF stored(1)] by simp
      then obtain c where c: "ldConvergence db' = assoc_set (piSliceId i) c (ldConvergence db)"
        "crCycles c = review_cycles (piSliceId i) db + 1" "crCycles c \<le> whole (piMaxReviewCycles i)"
        using stored(4) by (auto simp: review_cycles_def)
      then show ?thesis using cycles_assoc_set[OF c(1,2), of slice] by auto
    qed auto
  qed auto
  then show "review_cycles slice db \<le> review_cycles slice db'"
    "fdOutcome d = LedgerAccepted \<Longrightarrow> \<not> attemptAlreadyRecorded db (piVerificationAttemptId i) \<Longrightarrow> piSliceId i = slice \<Longrightarrow>
       review_cycles slice db < review_cycles slice db' \<and> review_cycles slice db' \<le> whole (piMaxReviewCycles i)"
    by blast+
qed

lemma review_step_Some:
  assumes "review_step env db call = Some (db', ok)"
  shows "(\<exists>i h d. call = VerificationReview (Some i) h \<and> ledger_assess env db i = Inr (db', d) \<and> ok = (fdOutcome d = LedgerAccepted)) \<or>
    (\<exists>i d. call = PassingReview i \<and> resolvePassingReview env db i = Inr (db', d) \<and> ok = (fdOutcome d = LedgerAccepted)) \<or>
    (db' = db \<and> \<not> ok)"
proof (cases call)
  case (VerificationReview oi h)
  then show ?thesis
    using assms by (cases oi) (auto simp: review_step_def assessReviewDecision_def split: sum.splits option.splits prod.splits elim!: rbind.elims)
next
  case (PassingReview i)
  then show ?thesis
    using assms by (auto simp: review_step_def assessReviewDecision_def split: sum.splits option.splits prod.splits elim!: rbind.elims)
qed (use assms in \<open>auto simp: review_step_def assessReviewDecision_def\<close>)

interpretation rounds: metered_steps "review_step env" "review_cycles slice" "new_round slice limit" limit
  for env slice limit
proof
  fix db call db' ok assume "review_step env db call = Some (db', ok)"
  from review_step_Some[OF this] show "review_cycles slice db \<le> review_cycles slice db'"
    by (elim disjE exE conjE) (simp_all add: assess_meter(1) pass_meter(1))
next
  fix db call db' assume "review_step env db call = Some (db', True)" and new: "new_round slice limit db call"
  then consider i h d where "call = VerificationReview (Some i) h" "ledger_assess env db i = Inr (db', d)" "fdOutcome d = LedgerAccepted"
    | i d where "call = PassingReview i" "resolvePassingReview env db i = Inr (db', d)" "fdOutcome d = LedgerAccepted"
    using review_step_Some[of env db call db' True] by metis
  then show "review_cycles slice db < review_cycles slice db' \<and> review_cycles slice db' \<le> limit"
  proof cases
    case 1
    then show ?thesis using new assess_meter(2)[OF 1(2,3), of slice] by simp
  next
    case 2
    then show ?thesis using new pass_meter(2)[OF 2(2,3), of slice] by simp
  qed
qed

text \<open>The number of new rounds of a slice that the ledger accepted, in a sequence of reviews of any slices that runs
  until one throws.\<close>

fun accepted_rounds :: "ledger_env \<Rightarrow> string \<Rightarrow> int \<Rightarrow> ledger_db \<Rightarrow> review_call list \<Rightarrow> nat" where
  "accepted_rounds env slice limit db [] = 0"
| "accepted_rounds env slice limit db (call # calls) =
     (case review_step env db call of
        None \<Rightarrow> 0
      | Some (db', ok) \<Rightarrow> (if ok \<and> new_round slice limit db call then 1 else 0) + accepted_rounds env slice limit db' calls)"

lemma accepted_rounds_meter: "accepted_rounds env slice limit db calls = rounds.accepted_steps env slice limit db calls"
  by (induction calls arbitrary: db) (simp_all add: rounds.accepted_steps.simps split: option.splits)

text \<open>C30: whatever reviews are settled in whatever order, the ledger accepts at most as many new rounds of a slice as
  the policy's limit on review cycles has left, so repairing and reviewing a slice ends.\<close>

theorem review_rounds_are_bounded:
  "int (accepted_rounds env slice limit db calls) \<le> max 0 (limit - review_cycles slice db)"
  unfolding accepted_rounds_meter by (rule rounds.accepted_bound)

subsection \<open>A finding judged at an earlier head\<close>

text \<open>C31: a finding that was settled at an earlier head stops the slice: once the current row of some finding is
  resolved or disputed at a head other than the reviewed one, a passing review of the slice is settled as a policy
  failure, because such a row counts as stale and a passing review writes rows for open findings only.\<close>

theorem settled_finding_blocks_passing_review:
  assumes "resolvePassingReview env db i = Inr (db', d)" and "ledger_ok db"
    and "map_of (ldSlices db) (piSliceId i) = Some s" and "slJobId s = piJobId i"
    and "r \<in> set (currentRows db (piJobId i) (Some (piSliceId i)))" and "row_state r \<noteq> StateOpen" and "feHeadSha r \<noteq> piHeadSha i"
  shows "\<exists>why. reviewDecisionAssessment d False = SettledPolicyFailure why"
proof -
  have recheck: ?thesis if "decisionFromRows rows (piHeadSha i) = Inr e" "r \<in> set rows" "length (piHeadSha i) = 40" "fdNext d = fdNext e" for rows e
    using stale_is_recheck[OF that(1,2)] that(3,4) assms(7) by (simp add: row_stale_def reviewDecisionAssessment_def)
  from assms(1) show ?thesis
  proof (cases rule: pass_cases)
    case kept
    then show ?thesis by (simp add: reviewDecisionAssessment_def)
  next
    case replay
    then show ?thesis using recheck[OF replay(3) assms(5)] pass_success_head[OF assms(1)] decision_accepted by blast
  next
    case (recorded b)
    from recorded(5) show ?thesis
    proof (cases rule: record_passing_Inr)
      case limit
      then show ?thesis by (simp add: reviewDecisionAssessment_def)
    next
      case (stored db1 e)
      let ?c = "context_of_passing i" and ?rows = "currentRows db (piJobId i) (Some (piSliceId i))"
      have ctx: "map_of (ldSlices db) (ecSliceId ?c) = Some s" "slJobId s = ecJobId ?c" "ecSliceId ?c = piSliceId i"
        using assms(3,4) by (simp_all add: context_of_passing_def)
      note rows = currentRows_distinct[OF assms(2,3,4)]
      note rc = resolve_current[OF stored(1) assms(2) rows(1) conjunct1[OF rows(2)] ctx(1,2)]
      have cur: "current_row (ldEvents db) (piSliceId i) (feFingerprint r) = Some r"
        by (rule iffD1[OF fingerprint_row[OF assms(2,3,4)]]) (use assms(5) in simp)
      have "feFingerprint r \<notin> set (map feFingerprint (resolving (\<lambda>_. False) ?rows))"
      proof
        assume "feFingerprint r \<in> set (map feFingerprint (resolving (\<lambda>_. False) ?rows))"
        then obtain q where q: "q \<in> set ?rows" "row_state q = StateOpen" "feFingerprint q = feFingerprint r"
          by (auto simp: resolving_def)
        have "current_row (ldEvents db) (piSliceId i) (feFingerprint r) = Some q"
          by (rule iffD1[OF fingerprint_row[OF assms(2,3,4)]]) (use q in simp)
        then have "q = r" using cur by (metis option.inject)
        then show False using q(2) assms(6) by simp
      qed
      then have keep: "current_row (ldEvents db') (piSliceId i) (feFingerprint r) = Some r"
        using rc cur ctx(3) stored(2) by simp
      have "ledger_ok db'" "map_of (ldSlices db') (piSliceId i) = Some s"
      proof -
        have sl: "ldSlices db1 = ldSlices db" "ldSlices db' = ldSlices db1"
          using stored(3) resolve_appends[OF stored(1)] unfolding same_tables_def by metis+
        show "map_of (ldSlices db') (piSliceId i) = Some s" using assms(3) unfolding sl .
        show "ledger_ok db'" using conjunct1[OF rc] unfolding ledger_ok_def ledger_jobs_ok_def sl stored(2) .
      qed
      then have "r \<in> set (currentRows db' (piJobId i) (Some (piSliceId i))) \<and> feFingerprint r = feFingerprint r"
        by (intro iffD2[OF fingerprint_row[OF _ _ assms(4)] keep])
      then show ?thesis using recheck[OF stored(5) _ passing_identity_head[OF recorded(1)]] stored(6) by simp
    qed
  qed
qed

subsection \<open>A root cause at another place\<close>

lemma resolve_unique:
  assumes "resolve_rows env c b skip rs db = Inr db'" and "r \<in> set (resolving skip rs)" and "parseFinding r = Inr g"
    and "e \<in> set (ldEvents db)" and "feVerificationAttemptId e = ecVerificationAttemptId c"
  shows "feRootCauseId e \<noteq> nfRootCauseId g"
  using assms
proof (induction rs arbitrary: db)
  case (Cons q qs)
  show ?case
  proof (cases "row_state q = StateOpen \<and> \<not> skip q")
    case False
    then have "resolve_rows env c b skip qs db = Inr db'" using Cons.prems(1) by simp
    moreover have "r \<in> set (resolving skip qs)" using Cons.prems(2) by (simp only: resolving_simps(2)[of q skip qs, OF False])
    ultimately show ?thesis using Cons.IH Cons.prems(3-5) by blast
  next
    case True
    with Cons.prems obtain f db1 where p: "parseFinding q = Inr f"
      and one: "insertEvent db (event_values env c f (legacyFact q f) Resolved (feOccurrence q) b True None) = Inr db1"
      and rest: "resolve_rows env c b skip qs db1 = Inr db'"
      by (auto simp: result_simps)
    note ins = insertEvent_Inr[OF one]
    show ?thesis
    proof (cases "r = q")
      case True
      then show ?thesis using ins(6)[OF Cons.prems(4)] Cons.prems(3,5) p by simp
    next
      case False
      then have "r \<in> set (resolving skip qs)" using Cons.prems(2) True by (simp add: resolving_simps(3))
      then show ?thesis using Cons.IH[OF rest _ Cons.prems(3) _ Cons.prems(5)] Cons.prems(4) ins(1) by simp
    qed
  qed
qed (simp add: resolving_simps)

text \<open>C32: an assessment fails with a database error when it proposes a known root cause at another place: if an open
  finding of the slice is not proposed again under its fingerprint and some proposed finding has its root cause, the
  two events of the attempt violate the uniqueness of attempt and root cause, so the transaction never returns.\<close>

theorem moved_root_cause_aborts:
  assumes "\<not> attemptAlreadyRecorded db (aiVerificationAttemptId i)" and "sourceEvidenceIsCurrent db i"
    and "snapshotsAreCurrent db (aiJobId i) (aiSliceId i) (aiSnapshots i)" and "integrationHead db (aiJobId i) = Some (aiHeadSha i)"
    and "r \<in> set (currentRows db (aiJobId i) (Some (aiSliceId i)))" and "row_state r = StateOpen" and "parseFinding r = Inr g"
    and "\<not> List.member (map faFingerprint facts) (identityFor r)"
    and "f \<in> set facts" and "nfRootCauseId (if faConfirmed f then faObserved f else faProposed f) = nfRootCauseId g"
  shows "\<not> returns (assessInTransaction env db i facts)"
proof
  assume "returns (assessInTransaction env db i facts)"
  then obtain db' d where run: "assessInTransaction env db i facts = Inr (db', d)" by (auto simp: returns_def)
  let ?prior = "currentRows db (aiJobId i) (Some (aiSliceId i))"
  obtain b where "record_assessment env db i facts ?prior b = Inr (db', d)"
    using run assms(1-4) by (auto simp: assessInTransaction_def Let_def result_simps)
  then show False
  proof (rule record_assessment_Inr)
    fix db1 db2 reason
    assume w: "writeAssessmentEvents env i ?prior (assessmentBlockingBurden facts ?prior) facts db = Inr db1"
      and m: "resolveMissingRoots env i ?prior (map faFingerprint facts) (assessmentBlockingBurden facts ?prior) db1 = Inr db2"
    obtain new where new: "ldEvents db1 = ldEvents db @ new"
      "list_all2 (\<lambda>f e. \<exists>n. e = assessment_event env i ?prior (assessmentBlockingBurden facts ?prior) f n) facts new"
      using write_appends[OF w] by blast
    then obtain e n where e: "e \<in> set new" "e = assessment_event env i ?prior (assessmentBlockingBurden facts ?prior) f n"
      using list_all2_member[OF new(2) assms(9)] by blast
    have "r \<in> set (resolving (\<lambda>r. List.member (map faFingerprint facts) (identityFor r)) ?prior)"
      using assms(5,6,8) by (simp add: resolving_def)
    then have "feRootCauseId e \<noteq> nfRootCauseId g"
      using e new(1) by (intro resolve_unique[OF m[unfolded resolveMissingRoots_def] _ assms(7)]) (simp_all add: context_of_assessment_def)
    then show False using e(2) assms(10) by simp
  qed
qed


subsection \<open>A slice with one open finding\<close>

definition head_a :: string where "head_a = replicate 40 (CHR ''a'')"
definition head_b :: string where "head_b = replicate 40 (CHR ''b'')"
definition demo_ledger_env :: ledger_env where
  "demo_ledger_env = \<lparr>leSha256 = (\<lambda>s. s), leSha256Url = (\<lambda>s. s), leCollate = (\<lambda>a b. 0), leLive = Map.empty,
     leHistorical = Map.empty, leBundleDigest = Map.empty\<rparr>"

definition demo_bindings :: snapshot_binding where
  "demo_bindings = \<lparr>sbArtifactId = Some ''t1'', sbArtifactDigest = Some ZERO_DIGEST, sbSpecificationId = Some ''p1'',
     sbSpecificationDigest = Some ZERO_DIGEST\<rparr>"

definition ledger_demo_finding :: "string \<Rightarrow> nav_finding" where
  "ledger_demo_finding root = \<lparr>nfRootCauseId = root, nfCapabilityId = ''code-review'', nfRuleId = ''r1'', nfSeverity = SevHigh,
     nfSubject = ''a.ts'', nfLine = None, nfRequirementId = None, nfEvidenceClass = ''review'', nfSummary = ''x'',
     nfEvidenceRefs = [''e1'']\<rparr>"

definition demo_rules :: capability_policy where
  "demo_rules = \<lparr>cpCapabilityId = ''code-review'', cpDescriptorDigest = ZERO_DIGEST, cpDescriptorVersion = ''1'', cpPolicyRevision = 1,
     cpRules = \<lparr>defaultDisposition = Advisory, mustFixRules = [], advisoryRules = [], knownRequirements = []\<rparr>, cpPolicyDigest = ZERO_DIGEST\<rparr>"

definition demo_fact :: "string \<Rightarrow> char \<Rightarrow> bool \<Rightarrow> finding_fact" where
  "demo_fact root c confirmed = \<lparr>faProposed = ledger_demo_finding root, faObserved = ledger_demo_finding root, faConfirmed = confirmed,
     faFingerprint = replicate 64 c, faNormalizedSubject = ''a.ts'', faRequirementClass = ''evidence:review'', faDisposition = MustFix,
     faPolicy = demo_rules\<rparr>"

definition demo_context :: "string \<Rightarrow> string \<Rightarrow> event_context" where
  "demo_context v head = \<lparr>ecJobId = ''j1'', ecSliceId = ''s1'', ecSourceAttemptId = ''w0'', ecVerificationAttemptId = v, ecHeadSha = head,
     ecEvidenceRefs = [''e1''], ecSnapshots = demo_bindings, ecSourceDigest = ZERO_DIGEST, ecVerificationDigest = ZERO_DIGEST, ecNow = 1\<rparr>"

definition ledger_demo_row :: "string \<Rightarrow> string \<Rightarrow> string \<Rightarrow> char \<Rightarrow> finding_event \<Rightarrow> nat \<Rightarrow> event_row" where
  "ledger_demo_row v head root c ev n =
     event_values demo_ledger_env (demo_context v head) (ledger_demo_finding root) (demo_fact root c True) ev 1 1 True None n"

definition demo_ledger :: "string \<Rightarrow> event_row list \<Rightarrow> ledger_db" where
  "demo_ledger head events = \<lparr>ldEvents = events, ldConvergence = [],
     ldIntegrations = [(''j1'', \<lparr>inHeadSha = head, inSpecificationArtifactId = ''p'', inSpecificationId = ''p1'', inSpecificationDigest = ZERO_DIGEST\<rparr>)],
     ldSlices = [(''s1'', \<lparr>slJobId = ''j1'', slTicketArtifactId = ''t'', slTicketId = ''t1'', slTicketDigest = ZERO_DIGEST\<rparr>)],
     ldAttempts = [(''w1'', \<lparr>waJobId = ''j1'', waSliceId = ''s1'', waKind = ''review'', waWorkOrder = Some
        \<lparr>woJobId = ''j1'', woBaseHead = head, woVerification = False, woTicket = (''t'', ''t1'', ZERO_DIGEST), woSpecification = (''p'', ''p1'', ZERO_DIGEST)\<rparr>\<rparr>),
       (''w2'', \<lparr>waJobId = ''j1'', waSliceId = ''s1'', waKind = ''review'', waWorkOrder = None\<rparr>)],
     ldOutcomes = [(''w1'', \<lparr>woOutcome = ''findings'', woExactHead = head, woResultDigest = ZERO_DIGEST\<rparr>)]\<rparr>"

definition demo_pass :: "string \<Rightarrow> passing_input" where
  "demo_pass head = \<lparr>piJobId = ''j1'', piSliceId = ''s1'', piVerificationAttemptId = ''w2'', piVerificationDigest = ZERO_DIGEST, piHeadSha = head,
     piSnapshots = demo_bindings, piEvidenceRefs = [''e1''], piNow = Whole 2, piMaxReviewCycles = Whole 3\<rparr>"

definition demo_assessment :: "string \<Rightarrow> assessment_input" where
  "demo_assessment head = \<lparr>aiJobId = ''j1'', aiSliceId = ''s1'', aiSourceAttemptId = ''w1'', aiVerificationAttemptId = ''w2'',
     aiSourceDigest = ZERO_DIGEST, aiVerificationDigest = ZERO_DIGEST, aiHeadSha = head, aiSnapshots = demo_bindings, aiGuards = [],
     aiRequirementIds = [], aiProposed = [], aiConfirmed = [], aiEvidenceRefs = [''e1''], aiNow = Whole 2, aiMaxReviewCycles = Whole 3\<rparr>"

definition demo_open :: "string \<Rightarrow> ledger_db" where
  "demo_open head = demo_ledger head [ledger_demo_row ''w0'' head_a ''A'' (CHR ''f'') Opened 1]"

lemma demo_open_ok: "ledger_ok (demo_open head)" "map_of (ldSlices (demo_open head)) ''s1'' =
    Some \<lparr>slJobId = ''j1'', slTicketArtifactId = ''t'', slTicketId = ''t1'', slTicketDigest = ZERO_DIGEST\<rparr>"
  by (simp_all add: demo_open_def demo_ledger_def ledger_ok_def ascending_def digests_ok_def ledger_jobs_ok_def ledger_demo_row_def demo_fact_def demo_context_def)

definition demo_passed :: "ledger_db \<times> review_settlement \<times> ledger_decision option" where
  "demo_passed = (case assessReviewDecision demo_ledger_env (demo_open head_a) (PassingReview (demo_pass head_a)) of Inr x \<Rightarrow> x)"

lemma demo_passed_run:
  "assessReviewDecision demo_ledger_env (demo_open head_a) (PassingReview (demo_pass head_a)) =
     Inr (fst demo_passed, SettledSucceeded ''findings_disputed'', snd (snd demo_passed))"
proof -
  have "sum.isl (assessReviewDecision demo_ledger_env (demo_open head_a) (PassingReview (demo_pass head_a))) = False" by code_simp
  then have "assessReviewDecision demo_ledger_env (demo_open head_a) (PassingReview (demo_pass head_a)) = Inr demo_passed"
    by (cases "assessReviewDecision demo_ledger_env (demo_open head_a) (PassingReview (demo_pass head_a))") (simp_all add: demo_passed_def)
  moreover have "fst (snd demo_passed) = SettledSucceeded ''findings_disputed''" by code_simp
  ultimately show ?thesis by (metis prod.collapse)
qed

theorem settled_review_is_clean_witness:
  "feHeadSha (hd (currentRows (fst demo_passed) ''j1'' (Some ''s1''))) = head_a"
proof -
  have "currentRows (fst demo_passed) ''j1'' (Some ''s1'') \<noteq> []" by code_simp
  then show ?thesis
    by (intro conjunct1[OF settled_review_is_clean[OF demo_passed_run, of "''j1''" "''s1''"]]) (simp_all add: demo_pass_def)
qed

definition demo_assessed :: "ledger_db \<times> ledger_decision" where
  "demo_assessed = (case assessInTransaction demo_ledger_env (demo_open head_b) (demo_assessment head_b) [demo_fact ''B'' (CHR ''g'') True] of Inr x \<Rightarrow> x)"

lemma demo_assessed_run:
  "assessInTransaction demo_ledger_env (demo_open head_b) (demo_assessment head_b) [demo_fact ''B'' (CHR ''g'') True] =
     Inr (fst demo_assessed, snd demo_assessed)"
proof -
  have "sum.isl (assessInTransaction demo_ledger_env (demo_open head_b) (demo_assessment head_b) [demo_fact ''B'' (CHR ''g'') True]) = False"
    by code_simp
  then show ?thesis
    by (cases "assessInTransaction demo_ledger_env (demo_open head_b) (demo_assessment head_b) [demo_fact ''B'' (CHR ''g'') True]")
      (simp_all add: demo_assessed_def)
qed

theorem assessment_refines_map_witness:
  "slice_view (fst demo_assessed) ''s1'' (replicate 64 (CHR ''f'')) = (Some (StateResolved, head_b, MustFix), True)"
proof -
  have "\<not> attemptAlreadyRecorded (demo_open head_b) (aiVerificationAttemptId (demo_assessment head_b))"
    "attemptAlreadyRecorded (fst demo_assessed) (aiVerificationAttemptId (demo_assessment head_b))" by code_simp+
  then have "slice_view (fst demo_assessed) ''s1'' (replicate 64 (CHR ''f'')) =
      next_view head_b [demo_fact ''B'' (CHR ''g'') True] (replicate 64 (CHR ''f'')) (slice_view (demo_open head_b) ''s1'' (replicate 64 (CHR ''f'')))"
    using assessment_refines_map[OF demo_assessed_run demo_open_ok(1), of "''s1''" "replicate 64 (CHR ''f'')"]
    by (simp add: demo_assessment_def demo_fact_def)
  also have "\<dots> = (Some (StateResolved, head_b, MustFix), True)" by code_simp
  finally show ?thesis .
qed

theorem assessment_is_idempotent_witness:
  "\<exists>d'. assessInTransaction demo_ledger_env (fst demo_assessed) (demo_assessment head_b) [demo_fact ''B'' (CHR ''g'') True] =
     Inr (fst demo_assessed, d')"
  by (rule assessment_is_idempotent[OF demo_assessed_run])

definition demo_resolved :: ledger_db where
  "demo_resolved = demo_ledger head_b [ledger_demo_row ''w0'' head_a ''A'' (CHR ''f'') Resolved 1]"

definition demo_blocked :: "ledger_db \<times> ledger_decision" where
  "demo_blocked = (case resolvePassingReview demo_ledger_env demo_resolved (demo_pass head_b) of Inr x \<Rightarrow> x)"

theorem settled_finding_blocks_passing_review_witness:
  "\<exists>why. reviewDecisionAssessment (snd demo_blocked) False = SettledPolicyFailure why"
proof (rule settled_finding_blocks_passing_review)
  have "sum.isl (resolvePassingReview demo_ledger_env demo_resolved (demo_pass head_b)) = False" by code_simp
  then show "resolvePassingReview demo_ledger_env demo_resolved (demo_pass head_b) = Inr (fst demo_blocked, snd demo_blocked)"
    by (cases "resolvePassingReview demo_ledger_env demo_resolved (demo_pass head_b)") (simp_all add: demo_blocked_def)
  show "ledger_ok demo_resolved" "map_of (ldSlices demo_resolved) (piSliceId (demo_pass head_b)) =
      Some \<lparr>slJobId = ''j1'', slTicketArtifactId = ''t'', slTicketId = ''t1'', slTicketDigest = ZERO_DIGEST\<rparr>"
    by (simp_all add: demo_resolved_def demo_ledger_def ledger_ok_def ascending_def digests_ok_def ledger_jobs_ok_def ledger_demo_row_def
        demo_fact_def demo_context_def demo_pass_def)
  show "slJobId \<lparr>slJobId = ''j1'', slTicketArtifactId = ''t'', slTicketId = ''t1'', slTicketDigest = ZERO_DIGEST\<rparr> = piJobId (demo_pass head_b)"
    by (simp add: demo_pass_def)
  show "ledger_demo_row ''w0'' head_a ''A'' (CHR ''f'') Resolved 1 \<in>
      set (currentRows demo_resolved (piJobId (demo_pass head_b)) (Some (piSliceId (demo_pass head_b))))" by code_simp
  show "row_state (ledger_demo_row ''w0'' head_a ''A'' (CHR ''f'') Resolved 1) \<noteq> StateOpen" by code_simp
  show "feHeadSha (ledger_demo_row ''w0'' head_a ''A'' (CHR ''f'') Resolved 1) \<noteq> piHeadSha (demo_pass head_b)" by code_simp
qed

theorem moved_root_cause_aborts_witness:
  "\<not> returns (assessInTransaction demo_ledger_env (demo_open head_b) (demo_assessment head_b) [demo_fact ''A'' (CHR ''g'') True])"
proof (rule moved_root_cause_aborts[where r = "ledger_demo_row ''w0'' head_a ''A'' (CHR ''f'') Opened 1"
      and g = "ledger_demo_finding ''A''" and f = "demo_fact ''A'' (CHR ''g'') True"])
  let ?r = "ledger_demo_row ''w0'' head_a ''A'' (CHR ''f'') Opened 1"
  show "\<not> attemptAlreadyRecorded (demo_open head_b) (aiVerificationAttemptId (demo_assessment head_b))" by code_simp
  show "sourceEvidenceIsCurrent (demo_open head_b) (demo_assessment head_b)" by code_simp
  show "snapshotsAreCurrent (demo_open head_b) (aiJobId (demo_assessment head_b)) (aiSliceId (demo_assessment head_b))
      (aiSnapshots (demo_assessment head_b))" by code_simp
  show "integrationHead (demo_open head_b) (aiJobId (demo_assessment head_b)) = Some (aiHeadSha (demo_assessment head_b))" by code_simp
  show "?r \<in> set (currentRows (demo_open head_b) (aiJobId (demo_assessment head_b)) (Some (aiSliceId (demo_assessment head_b))))"
    by code_simp
  show "row_state ?r = StateOpen" by code_simp
  show "parseFinding ?r = Inr (ledger_demo_finding ''A'')" by code_simp
  show "\<not> List.member (map faFingerprint [demo_fact ''A'' (CHR ''g'') True]) (identityFor ?r)" by code_simp
qed (simp_all add: demo_fact_def)

end
