(* ===== verification/Failure_Loop.thy ===== *)
theory Failure_Loop
  imports Js_Regex Job_Continuation
begin

text \<open>
  The detection of repeated failures (\<open>src/autonomy/failure-loop.ts\<close>): the fingerprint of a failure,
  the clusters of a window of failures, and the notice about one.

  SHA-256 and \<open>localeCompare\<close> are the arguments \<open>sha256\<close> and \<open>locale_compare\<close>.
\<close>

definition FAILURE_WINDOW_MS :: int where "FAILURE_WINDOW_MS = 4 * 60 * 60000"
definition FAILURE_CLUSTER_THRESHOLD :: int where "FAILURE_CLUSTER_THRESHOLD = 3"
definition ESCALATION_DEDUP_MS :: int where "ESCALATION_DEDUP_MS = 7 * 24 * 60 * 60000"

record failed_job =
  foJobId :: string
  foProjectId :: "string option"
  foReason :: "string option"
  foFailedAt :: int

record failure_cluster =
  fcFingerprint :: string
  fcProjectId :: "string option"
  fcReason :: string
  fcJobIds :: "string list"
  fcSize :: nat

subsection \<open>Replacing\<close>

text \<open>
  \<open>replace\<close> with the flag \<open>g\<close>: the leftmost match, then on from its end.  A backtracking matcher tries
  the longest repetition first, and for the patterns here its first success is the longest match: no
  class has a character of the pattern that follows it, but for word boundaries.
\<close>

definition longest_end :: "nat list \<Rightarrow> nat" where
  "longest_end es = foldr max es 0"

function replace_from :: "regex \<Rightarrow> string \<Rightarrow> string \<Rightarrow> nat \<Rightarrow> string" where
  "replace_from r new s i =
     (if length s \<le> i then []
      else (let e = longest_end (ends False s r i) in
            if i < e then new @ replace_from r new s e else s ! i # replace_from r new s (Suc i)))"
  by pat_completeness auto
termination by (relation "measure (\<lambda>(_, _, s, i). length s - i)") auto

declare replace_from.simps [simp del]

definition replace_all :: "regex \<Rightarrow> string \<Rightarrow> string \<Rightarrow> string" where
  "replace_all r new s = replace_from r new s 0"

definition digit_class :: regex where "digit_class = RClass (CC False [(CHR ''0'', CHR ''9'')])"

definition char_regex :: "char \<Rightarrow> regex" where "char_regex c = RClass (CC False [(c, c)])"

fun regex_seq :: "regex list \<Rightarrow> regex" where
  "regex_seq [] = REps"
| "regex_seq [r] = r"
| "regex_seq (r # rs) = RSeq r (regex_seq rs)"

text \<open>\<open>/\b[0-9a-f]{7,40}\b/\<close>\<close>

definition SHA_SHAPE :: regex where
  "SHA_SHAPE = regex_seq [RWordBoundary,
     RRep (RClass (CC False [(CHR ''0'', CHR ''9''), (CHR ''a'', CHR ''f'')])) 7 (Some 40), RWordBoundary]"

text \<open>\<open>/\b\d{4}-\d{2}-\d{2}t[\d:.]+z?\b/\<close>\<close>

definition TIME_SHAPE :: regex where
  "TIME_SHAPE = regex_seq [RWordBoundary, RRep digit_class 4 (Some 4), char_regex CHR ''-'', RRep digit_class 2 (Some 2),
     char_regex CHR ''-'', RRep digit_class 2 (Some 2), char_regex CHR ''t'',
     RRep (RClass (CC False [(CHR ''0'', CHR ''9''), (CHR '':'', CHR '':''), (CHR ''.'', CHR ''.'')])) 1 None,
     RRep (char_regex CHR ''z'') 0 (Some 1), RWordBoundary]"

text \<open>\<open>/\b\d+\b/\<close>, \<open>/(?:\/[\w.-]+){2,}/\<close> and \<open>/\s+/\<close>\<close>

definition NUMBER_SHAPE :: regex where
  "NUMBER_SHAPE = regex_seq [RWordBoundary, RRep digit_class 1 None, RWordBoundary]"

definition PATH_SHAPE :: regex where
  "PATH_SHAPE = RRep (RSeq (char_regex CHR ''/'')
     (RRep (RClass (CC False (word_ranges @ [(CHR ''.'', CHR ''.''), (CHR ''-'', CHR ''-'')]))) 1 None)) 2 None"

definition BLANKS :: regex where
  "BLANKS = RRep (RClass (CC False [(CHR 0x09, CHR 0x0D), (CHR 0x20, CHR 0x20), (CHR 0xA0, CHR 0xA0)])) 1 None"

subsection \<open>Fingerprints\<close>

definition normalized_failure :: "string option \<Rightarrow> string" where
  "normalized_failure reason =
     take 200 (js_trim (replace_all BLANKS '' '' (replace_all PATH_SHAPE ''<path>'' (replace_all NUMBER_SHAPE ''<n>''
       (replace_all TIME_SHAPE ''<time>'' (replace_all SHA_SHAPE ''<sha>'' (js_lower (opt_default reason ''unknown failure''))))))))"

definition failureFingerprint :: "(string \<Rightarrow> string) \<Rightarrow> string option \<Rightarrow> string option \<Rightarrow> string" where
  "failureFingerprint sha256 project reason =
     sha256 (opt_default project ''-'' @ [CHR 0x00] @ normalized_failure reason)"

subsection \<open>Clusters\<close>

record cluster_group =
  cgProjectId :: "string option"
  cgReason :: string
  cgJobIds :: "string list"

type_synonym cluster_map = "(string \<times> cluster_group) list"

definition add_failure :: "(string \<Rightarrow> string) \<Rightarrow> failed_job \<Rightarrow> cluster_map \<Rightarrow> cluster_map" where
  "add_failure sha256 f m =
     (let fp = failureFingerprint sha256 (foProjectId f) (foReason f) in
      case map_of m fp of
        Some g \<Rightarrow> if List.member (cgJobIds g) (foJobId f) then m
                  else assoc_set fp (g\<lparr>cgJobIds := cgJobIds g @ [foJobId f]\<rparr>) m
      | None \<Rightarrow> assoc_set fp \<lparr>cgProjectId = foProjectId f, cgReason = take 200 (opt_default (foReason f) ''unknown failure''),
                  cgJobIds = [foJobId f]\<rparr> m)"

definition group_failures :: "(string \<Rightarrow> string) \<Rightarrow> failed_job list \<Rightarrow> cluster_map" where
  "group_failures sha256 fs = foldl (\<lambda>m f. add_failure sha256 f m) [] fs"

definition cluster_of :: "string \<times> cluster_group \<Rightarrow> failure_cluster" where
  "cluster_of = (\<lambda>(fp, g). \<lparr>fcFingerprint = fp, fcProjectId = cgProjectId g, fcReason = cgReason g,
     fcJobIds = cgJobIds g, fcSize = length (cgJobIds g)\<rparr>)"

definition compareClusters :: "(string \<Rightarrow> string \<Rightarrow> int) \<Rightarrow> failure_cluster \<Rightarrow> failure_cluster \<Rightarrow> int" where
  "compareClusters locale_compare l r =
     (if fcSize l \<noteq> fcSize r then int (fcSize r) - int (fcSize l) else locale_compare (fcFingerprint l) (fcFingerprint r))"

definition detectFailureClusters ::
  "(string \<Rightarrow> string) \<Rightarrow> (string \<Rightarrow> string \<Rightarrow> int) \<Rightarrow> failed_job list \<Rightarrow> js_number option \<Rightarrow> failure_cluster list result" where
  "detectFailureClusters sha256 locale_compare failures threshold =
     (let t = opt_default threshold (Whole FAILURE_CLUSTER_THRESHOLD) in
      if \<not> is_integer t \<or> whole t < 2 then Inl (TypeError ''threshold must be an integer of at least 2'')
      else Inr (sort_by (compareClusters locale_compare)
        (filter (\<lambda>c. whole t \<le> int (fcSize c)) (map cluster_of (group_failures sha256 failures)))))"

definition failureLoopNotice :: "failure_cluster \<Rightarrow> string option \<Rightarrow> string" where
  "failureLoopNotice c al =
     (let place = (if truthy_str al then '' on '' @ take 40 (the al) else []) in
      ''The same failure has happened '' @ show_nat (fcSize c) @ '' times in a row'' @ place @
      '', so I have stopped starting new work there until someone looks at it.'' @ [CHR 0x0A, CHR 0x0A] @
      ''What keeps failing: '' @ fcReason c @ [CHR 0x0A, CHR 0x0A] @
      ''Work already running is unaffected and will finish. Tell the owner in a line or two what the repeated failure is and what you think is causing it. Do not start a job to fix it without asking. They can send /resume to start work there again.'')"

end
