(* ===== verification/Autonomous_Work.thy ===== *)
theory Autonomous_Work
  imports Failure_Loop Scheduler Job_Events Merge_Authority
begin

text \<open>
  Work the owner did not ask for, and the brake on it: the tables of pauses, escalations, intake
  findings and crash reverts with every operation of \<open>src/storage/store.ts\<close> on them, and the services
  that use them (\<open>src/services/failure-loop-service.ts\<close>, \<open>audit-intake-service.ts\<close>,
  \<open>crash-revert-service.ts\<close>, \<open>src/autonomy/crash-revert.ts\<close>).  Texts are lists of 8-bit characters: the
  dashes and bullets of the texts for the owner are written with characters of that range.
\<close>

subsection \<open>The day of a time\<close>

definition DAY_MS :: int where "DAY_MS = 86400000"

definition leap_year :: "nat \<Rightarrow> bool" where
  "leap_year y \<longleftrightarrow> 4 dvd y \<and> (\<not> 100 dvd y \<or> 400 dvd y)"

definition year_days :: "nat \<Rightarrow> nat" where "year_days y = (if leap_year y then 366 else 365)"

definition month_lengths :: "nat \<Rightarrow> nat list" where
  "month_lengths y = [31, if leap_year y then 29 else 28, 31, 30, 31, 30, 31, 31, 30, 31, 30, 31]"

function year_walk :: "nat \<Rightarrow> nat \<Rightarrow> nat \<times> nat" where
  "year_walk y d = (if d < year_days y then (y, d) else year_walk (Suc y) (d - year_days y))"
  by pat_completeness auto
termination by (relation "measure snd") (auto simp: year_days_def split: if_splits)

declare year_walk.simps [simp del]

fun month_walk :: "nat \<Rightarrow> nat list \<Rightarrow> nat \<Rightarrow> nat \<times> nat" where
  "month_walk m [] d = (m, d)"
| "month_walk m (l # ls) d = (if d < l then (m, d) else month_walk (Suc m) ls (d - l))"

fun padded :: "nat \<Rightarrow> nat \<Rightarrow> string" where
  "padded 0 n = []"
| "padded (Suc w) n = padded w (n div 10) @ [digit_char (n mod 10)]"

text \<open>The date of \<open>toISOString\<close>, for a day that is not before 1970.\<close>

definition iso_date :: "nat \<Rightarrow> string" where
  "iso_date days =
     (let (y, r) = year_walk 1970 days; (m, d) = month_walk 1 (month_lengths y) r in
      (if y \<le> 9999 then padded 4 y else ''+'' @ padded 6 y) @ ''-'' @ padded 2 m @ ''-'' @ padded 2 (Suc d))"

text \<open>\<open>now\<close> is a whole number that is not negative; a \<open>Date\<close> ends at 8.64e15.\<close>

definition utcDayOf :: "int \<Rightarrow> string result" where
  "utcDayOf now =
     (if 8640000000000000 < now then Inl (NamedError ''RangeError'' ''Invalid time value'')
      else Inr (take 10 (iso_date (nat (now div DAY_MS)))))"

subsection \<open>The tables\<close>

record pause_row =
  pauseProject :: string
  pauseReason :: string
  pauseFingerprint :: "string option"
  pausedAt :: int
  pauseClearedAt :: "int option"

datatype cleared_by = ClearedByAgent | ClearedByOwner | ClearedByLegacy

record clear_row =
  clearProject :: string
  clearFingerprint :: string
  clearAt :: int
  clearBy :: cleared_by

record escalation_row =
  escFingerprint :: string
  escProject :: "string option"
  escSize :: nat
  escReason :: string
  escalatedAt :: int
  escExpiresAt :: int

record intake_row =
  ifProject :: string
  ifFingerprint :: string
  ifAuditId :: string
  ifSubject :: string
  ifJobId :: string
  ifUtcDay :: string
  ifStartedAt :: int

record revert_row =
  crSha :: string
  crProject :: string
  crMergedJob :: string
  crJobId :: string
  crStartedAt :: int

record notice_row =
  noticeKey :: string
  noticeDetail :: string
  noticeClaimedAt :: int
  noticeExpiresAt :: int

record work_db =
  workDb :: database
  workGrants :: grant_tables
  workPauses :: "pause_row list"
  workClears :: "clear_row list"
  workEscalations :: "escalation_row list"
  workFindings :: "intake_row list"
  workReverts :: "revert_row list"
  workNotices :: "notice_row list"

text \<open>
  What the operations ask the runtime: the policy checks, URL parsing, SHA-256 in hexadecimal and in
  \<open>base64url\<close>, \<open>localeCompare\<close> and \<open>Date.parse\<close>.  \<open>weEngine\<close> and \<open>weMode\<close> are the answer of
  \<open>admissionWorkflowIdentity\<close>, a setting and a rollout table.
\<close>

record work_env =
  weRuntime :: js_runtime
  weWeb :: js_web
  weSha256 :: "string \<Rightarrow> string"
  weSha64 :: "string \<Rightarrow> string"
  weLocaleCompare :: "string \<Rightarrow> string \<Rightarrow> int"
  weParseDate :: "string \<Rightarrow> int option"
  weEngine :: workflow_engine
  weMode :: workflow_mode

subsection \<open>Failures and escalations\<close>

definition failure_states :: "job_state list" where "failure_states = [Failed, Blocked, ProductionFailed]"

definition listRecentJobFailures :: "work_db \<Rightarrow> js_number \<Rightarrow> js_number \<Rightarrow> failed_job list result" where
  "listRecentJobFailures w since limit =
     rthen (assertNonNegativeInteger since ''since'')
    (rthen (guard (is_integer limit \<and> 1 \<le> whole limit \<and> whole limit \<le> 500) (TypeError ''limit must be between 1 and 500''))
       (Inr (map (\<lambda>r. (let j = row_job r in
            \<lparr>foJobId = job_id j, foProjectId = projectId j,
             foReason = (case lastError j of Some e \<Rightarrow> Some e | None \<Rightarrow> map_option blocked_reason_name (blockedReason j)),
             foFailedAt = updatedAt j\<rparr>))
          (select_ordered (\<lambda>r. List.member failure_states (state (row_job r)) \<and> whole since \<le> updatedAt (row_job r))
             (\<lambda>r. - updatedAt (row_job r)) (nat (whole limit)) (jobs_table (workDb w))))))"

definition digest_char :: "char \<Rightarrow> bool" where
  "digest_char c \<longleftrightarrow> in_ranges [(CHR ''0'', CHR ''9''), (CHR ''a'', CHR ''f'')] c"

text \<open>\<open>input.reason || "unknown failure"\<close>\<close>

definition or_else_text :: "string \<Rightarrow> string \<Rightarrow> string" where
  "or_else_text s d = (if s = [] then d else s)"

definition claimFailureEscalation ::
  "work_db \<Rightarrow> string \<Rightarrow> string option \<Rightarrow> nat \<Rightarrow> string \<Rightarrow> js_number \<Rightarrow> int \<Rightarrow> (work_db \<times> bool) result" where
  "claimFailureEscalation w fp project csize reason now dedupMs =
     rthen (assertNonNegativeInteger now ''now'')
    (rthen (guard (length fp = 64 \<and> list_all digest_char fp) (TypeError ''fingerprint must be a sha256 digest''))
    (rbind (assertMemoryText (or_else_text reason ''unknown failure'') 200 ''failure reason'') (\<lambda>why.
       (let live = filter (\<lambda>e. whole now < escExpiresAt e) (workEscalations w) in
        Inr (if list_ex (\<lambda>e. escFingerprint e = fp) live then (w\<lparr>workEscalations := live\<rparr>, False)
             else (w\<lparr>workEscalations := live @ [\<lparr>escFingerprint = fp, escProject = project, escSize = csize, escReason = why,
                       escalatedAt = whole now, escExpiresAt = whole now + dedupMs\<rparr>]\<rparr>, True))))))"

definition claimHousekeepingNotice ::
  "work_db \<Rightarrow> string \<Rightarrow> string \<Rightarrow> js_number \<Rightarrow> js_number \<Rightarrow> (work_db \<times> bool) result" where
  "claimHousekeepingNotice w key detail now dedupMs =
     rthen (assertNonNegativeInteger now ''now'')
    (rthen (assertNonNegativeInteger dedupMs ''dedupMs'')
    (rbind (assertMemoryText key 120 ''housekeeping notice key'') (\<lambda>k.
     rbind (assertMemoryText (or_else_text detail ''-'') 500 ''housekeeping notice detail'') (\<lambda>d.
       (let live = filter (\<lambda>e. whole now < noticeExpiresAt e) (workNotices w) in
        Inr (if list_ex (\<lambda>e. noticeKey e = k) live then (w\<lparr>workNotices := live\<rparr>, False)
             else (w\<lparr>workNotices := live @ [\<lparr>noticeKey = k, noticeDetail = d, noticeClaimedAt = whole now,
                       noticeExpiresAt = whole now + whole dedupMs\<rparr>]\<rparr>, True)))))))"

subsection \<open>The brake\<close>

definition pause_of :: "work_db \<Rightarrow> string \<Rightarrow> pause_row option" where
  "pause_of w pid = get_where (\<lambda>p. pauseProject p = pid) (workPauses w)"

definition is_paused :: "work_db \<Rightarrow> string \<Rightarrow> bool" where
  "is_paused w pid \<longleftrightarrow> list_ex (\<lambda>p. pauseProject p = pid \<and> pauseClearedAt p = None) (workPauses w)"

definition live_pause :: "work_db \<Rightarrow> string \<Rightarrow> pause_row option" where
  "live_pause w pid = get_where (\<lambda>p. pauseProject p = pid \<and> pauseClearedAt p = None) (workPauses w)"

definition pauseProjectAdmission ::
  "work_db \<Rightarrow> string \<Rightarrow> string \<Rightarrow> string option \<Rightarrow> js_number \<Rightarrow> (work_db \<times> bool) result" where
  "pauseProjectAdmission w pid reason fp now =
     rthen (assertControllerIdentifier pid ''projectId'')
    (rthen (assertNonNegativeInteger now ''now'')
    (rbind (assertMemoryText reason 200 ''pause reason'') (\<lambda>why.
       (let new = \<lparr>pauseProject = pid, pauseReason = why, pauseFingerprint = fp, pausedAt = whole now, pauseClearedAt = None\<rparr>;
            hit = (\<lambda>p. pauseProject p = pid \<and> pauseClearedAt p \<noteq> None)
        in Inr (if pause_of w pid = None then (w\<lparr>workPauses := workPauses w @ [new]\<rparr>, True)
                else (w\<lparr>workPauses := update_where hit (\<lambda>_. new) (workPauses w)\<rparr>, changes hit (workPauses w) = 1))))))"

definition escalateProjectAdmissionPause ::
  "work_db \<Rightarrow> string \<Rightarrow> string \<Rightarrow> js_number \<Rightarrow> (work_db \<times> bool) result" where
  "escalateProjectAdmissionPause w pid reason now =
     rthen (assertControllerIdentifier pid ''projectId'')
    (rthen (assertNonNegativeInteger now ''now'')
    (rbind (assertMemoryText reason 200 ''pause reason'') (\<lambda>why.
       (let new = \<lparr>pauseProject = pid, pauseReason = why, pauseFingerprint = None, pausedAt = whole now, pauseClearedAt = None\<rparr>;
            w' = (if pause_of w pid = None then w\<lparr>workPauses := workPauses w @ [new]\<rparr>
                  else w\<lparr>workPauses := update_where (\<lambda>p. pauseProject p = pid)
                         (\<lambda>p. if pauseClearedAt p = None then new\<lparr>pausedAt := pausedAt p\<rparr> else new) (workPauses w)\<rparr>)
        in Inr (w', case live_pause w' pid of None \<Rightarrow> False | Some p \<Rightarrow> pauseFingerprint p = None)))))"

definition listPausedProjectAdmissions :: "work_db \<Rightarrow> (string \<times> string \<times> int) list" where
  "listPausedProjectAdmissions w =
     map (\<lambda>p. (pauseProject p, pauseReason p, pausedAt p)) (filter (\<lambda>p. pauseClearedAt p = None) (workPauses w))"

definition clear_pauses :: "(pause_row \<Rightarrow> bool) \<Rightarrow> int \<Rightarrow> pause_row list \<Rightarrow> pause_row list" where
  "clear_pauses hit at = update_where (\<lambda>p. hit p \<and> pauseClearedAt p = None) (\<lambda>p. p\<lparr>pauseClearedAt := Some at\<rparr>)"

datatype agent_clear = AgentCleared | AgentRefused string

text \<open>
  \<open>turnCurrent\<close> is the answer of \<open>canMutateControllerTurn\<close>, \<open>boundaryNow\<close> the time of the store's clock.
  The insert is under a check of the digest's length.
\<close>

definition clearProjectAdmissionPauseAsAgent ::
  "work_db \<Rightarrow> string \<Rightarrow> js_number \<Rightarrow> bool \<Rightarrow> int \<Rightarrow> (work_db \<times> agent_clear) result" where
  "clearProjectAdmissionPauseAsAgent w pid now turnCurrent boundaryNow =
     rthen (assertControllerIdentifier pid ''projectId'')
    (rthen (assertNonNegativeInteger now ''now'')
       (if \<not> turnCurrent then Inr (w, AgentRefused ''The controller turn is no longer current.'')
        else case live_pause w pid of
          None \<Rightarrow> Inr (w, AgentRefused ''That project is not paused.'')
        | Some live \<Rightarrow> (case pauseFingerprint live of
            None \<Rightarrow> Inr (w, AgentRefused ''This pause has no durable failure fingerprint, so it is the owner's call.'')
          | Some fp \<Rightarrow>
              if list_ex (\<lambda>c. clearProject c = pid \<and> clearFingerprint c = fp) (workClears w)
              then Inr (w, AgentRefused ''The same failure has already been cleared once and came back, so this one is the owner's call.'')
              else if length fp \<noteq> 64 \<or> boundaryNow < 0 then Inl SqliteConstraintCheck
              else Inr (w\<lparr>workPauses := clear_pauses (\<lambda>p. pauseProject p = pid) boundaryNow (workPauses w),
                        workClears := workClears w @ [\<lparr>clearProject = pid, clearFingerprint = fp, clearAt = boundaryNow,
                          clearBy = ClearedByAgent\<rparr>]\<rparr>, AgentCleared))))"

text \<open>\<open>INSERT OR IGNORE\<close> of the history rows of every live pause with a fingerprint.\<close>

fun record_clears :: "int \<Rightarrow> pause_row list \<Rightarrow> clear_row list \<Rightarrow> clear_row list" where
  "record_clears now [] h = h"
| "record_clears now (p # ps) h =
     (case pauseFingerprint p of
        None \<Rightarrow> record_clears now ps h
      | Some fp \<Rightarrow>
          if list_ex (\<lambda>c. clearProject c = pauseProject p \<and> clearFingerprint c = fp) h \<or> length fp \<noteq> 64
          then record_clears now ps h
          else record_clears now ps
            (h @ [\<lparr>clearProject = pauseProject p, clearFingerprint = fp, clearAt = now, clearBy = ClearedByOwner\<rparr>]))"

definition clearProjectAdmissionPause :: "work_db \<Rightarrow> string option \<Rightarrow> js_number \<Rightarrow> (work_db \<times> nat) result" where
  "clearProjectAdmissionPause w project now =
     rthen (assertNonNegativeInteger now ''now'')
    (rthen (case project of None \<Rightarrow> Inr () | Some pid \<Rightarrow> assertControllerIdentifier pid ''projectId'')
       (let hit = (\<lambda>p. (case project of None \<Rightarrow> True | Some pid \<Rightarrow> pauseProject p = pid));
            live = (\<lambda>p. hit p \<and> pauseClearedAt p = None)
        in Inr (w\<lparr>workClears := record_clears (whole now) (filter live (workPauses w)) (workClears w),
                  workPauses := clear_pauses hit (whole now) (workPauses w)\<rparr>, changes live (workPauses w))))"

subsection \<open>Work without a request\<close>

datatype autonomous_refusal =
  ProjectNotEnabled | IntakeNotConfigured | DailyCap | FindingOpen | FindingRecent | AlreadyReverted | ProjectPaused | OpenJob

datatype autonomous_outcome = AutonomousCreated job | AutonomousRefused autonomous_refusal

record intake_input =
  inFingerprint :: string
  inAuditId :: string
  inSubject :: string

record revert_input =
  rvSha :: string
  rvMergedJob :: string

record autonomous_input =
  auProjectId :: string
  auTask :: string
  auOrigin :: autonomous_origin
  auIntake :: "intake_input option"
  auRevert :: "revert_input option"
  auNow :: js_number

definition INTAKE_SUPPRESSION_MS :: int where "INTAKE_SUPPRESSION_MS = 14 * 24 * 60 * 60000"
definition AUTONOMOUS_SOURCE_UPDATE_BASE :: int where "AUTONOMOUS_SOURCE_UPDATE_BASE = 9000000000000"

definition TERMINAL_INTAKE_STATES :: "job_state list" where
  "TERMINAL_INTAKE_STATES = [Merged, Complete, Failed, Blocked, Cancelled, ProductionFailed]"

fun origin_name :: "autonomous_origin \<Rightarrow> string" where
  "origin_name AuditIntake = ''audit_intake''"
| "origin_name SelfDiagnosis = ''self_diagnosis''"
| "origin_name CrashRevert = ''crash_revert''"

definition assertControllerText :: "string \<Rightarrow> string \<Rightarrow> unit result" where
  "assertControllerText v field =
     guard (js_trim v \<noteq> [] \<and> length v \<le> 4000) (TypeError (field @ '' must be between 1 and 4000 characters''))"

definition assertFullSha :: "string \<Rightarrow> string \<Rightarrow> unit result" where
  "assertFullSha v field =
     guard (length v = 40 \<and> list_all digest_char v) (TypeError (field @ '' must be a 40-character lowercase SHA''))"

definition nextAutonomousSourceUpdateId :: "database \<Rightarrow> int result" where
  "nextAutonomousSourceUpdateId db =
     (let ids = map (\<lambda>r. sourceUpdateId (row_job r)) (jobs_table db);
          highest = (case ids of [] \<Rightarrow> 0 | x # xs \<Rightarrow> foldr max xs x)
      in if \<not> is_safe_integer (Whole highest) then Inl (PlainError ''Job source update ids are invalid'')
         else Inr (max AUTONOMOUS_SOURCE_UPDATE_BASE (highest + 1)))"

definition intake_of :: "work_db \<Rightarrow> string \<Rightarrow> string \<Rightarrow> intake_row option" where
  "intake_of w pid fp = get_where (\<lambda>f. ifProject f = pid \<and> ifFingerprint f = fp) (workFindings w)"

definition intakes_on :: "work_db \<Rightarrow> string \<Rightarrow> string \<Rightarrow> nat" where
  "intakes_on w pid day = changes (\<lambda>f. ifProject f = pid \<and> ifUtcDay f = day) (workFindings w)"

text \<open>The bounds of an intake: the day's allowance, then the job of the same finding.\<close>

definition intake_refusal :: "work_db \<Rightarrow> project_policy \<Rightarrow> string \<Rightarrow> string \<Rightarrow> intake_input \<Rightarrow> int \<Rightarrow> autonomous_refusal option" where
  "intake_refusal w pol pid day i now =
     (case (case autonomy pol of None \<Rightarrow> None | Some au \<Rightarrow> intakeMaxJobsPerDay au) of
        None \<Rightarrow> Some IntakeNotConfigured
      | Some allowance \<Rightarrow>
          if allowance \<le> int (intakes_on w pid day) then Some DailyCap
          else (case intake_of w pid (inFingerprint i) of
              None \<Rightarrow> None
            | Some f \<Rightarrow> (case readJobById (workDb w) (ifJobId f) of
                None \<Rightarrow> None
              | Some j \<Rightarrow>
                  if \<not> List.member TERMINAL_INTAKE_STATES (state j) then Some FindingOpen
                  else if now - updatedAt j < INTAKE_SUPPRESSION_MS then Some FindingRecent else None)))"

definition project_occupied :: "database \<Rightarrow> string \<Rightarrow> bool" where
  "project_occupied db pid \<longleftrightarrow>
     list_ex (\<lambda>a. admProjectId a = pid \<and> List.member [Queued, Admitted, Draining] (admState a)) (admissions_table db)"

text \<open>Every check of the transaction, in its order.\<close>

definition autonomous_refusal_of :: "work_db \<Rightarrow> project_policy \<Rightarrow> string \<Rightarrow> autonomous_input \<Rightarrow> autonomous_refusal option" where
  "autonomous_refusal_of w pol day i =
     (case (case auIntake i of None \<Rightarrow> None | Some t \<Rightarrow> intake_refusal w pol (auProjectId i) day t (whole (auNow i))) of
        Some r \<Rightarrow> Some r
      | None \<Rightarrow>
          if (case auRevert i of None \<Rightarrow> False | Some v \<Rightarrow> list_ex (\<lambda>r. crSha r = rvSha v) (workReverts w))
          then Some AlreadyReverted
          else if is_paused w (auProjectId i) then Some ProjectPaused
          else if project_occupied (workDb w) (auProjectId i) then Some OpenJob
          else None)"

definition insert_job :: "database \<Rightarrow> job \<Rightarrow> database result" where
  "insert_job db j =
     (if list_ex (\<lambda>r. row_id r = job_id j \<or> sourceUpdateId (row_job r) = sourceUpdateId j) (jobs_table db)
      then Inl SqliteConstraintUnique
      else Inr (db\<lparr>jobs_table := jobs_table db @ [\<lparr>row_job = j, autoContinueCount = 0, autoContinueKey = None,
                 autoContinueEscalatedAt = None\<rparr>]\<rparr>))"

text \<open>The job, its project and its place in the queue.\<close>

definition start_autonomous_job ::
  "work_env \<Rightarrow> database \<Rightarrow> stored_policy \<Rightarrow> autonomous_input \<Rightarrow> (database \<times> job) result" where
  "start_autonomous_job env db pol i =
     rbind (nextAutonomousSourceUpdateId db) (\<lambda>n.
       (let jid = take 22 (weSha64 env (''autonomous-job:'' @ origin_name (auOrigin i) @ '':'' @ show_int n));
            new = autonomous_job_row jid n (auTask i) (weEngine env) (weMode env) (auOrigin i) (whole (auNow i))
        in rbind (insert_job db new) (\<lambda>db1.
           case readJobById db1 jid of
             None \<Rightarrow> Inl (PlainError ''Autonomous job was not stored'')
           | Some created \<Rightarrow>
               rbind (store_transition (weRuntime env) (weWeb env) db1 created
                   (PROJECT_SELECTED (policyProjectId (storedPolicy pol)) (Whole (storedVersion pol)) (storedPolicy pol))
                   (whole (auNow i))) (\<lambda>(db2, j).
               rbind (queueAdmissionInTransaction db2 \<lparr>writeJobId = jid, writeVersion = Whole (version j),
                   writeProjectId = policyProjectId (storedPolicy pol), writeResumeEvent = ResumeConfirmed, writeNow = auNow i\<rparr>
                   QueueMode) (\<lambda>(db3, _). Inr (db3, j))))))"

definition record_intake :: "string \<Rightarrow> string \<Rightarrow> string \<Rightarrow> int \<Rightarrow> intake_input \<Rightarrow> work_db \<Rightarrow> work_db" where
  "record_intake pid day jid now i w =
     (let own = (\<lambda>f. ifProject f = pid \<and> ifFingerprint f = inFingerprint i);
          row = \<lparr>ifProject = pid, ifFingerprint = inFingerprint i, ifAuditId = inAuditId i, ifSubject = inSubject i,
                 ifJobId = jid, ifUtcDay = day, ifStartedAt = now\<rparr>
      in w\<lparr>workFindings := (if intake_of w pid (inFingerprint i) = None then workFindings w @ [row]
                            else update_where own (\<lambda>_. row) (workFindings w))\<rparr>)"

definition record_revert :: "string \<Rightarrow> string \<Rightarrow> int \<Rightarrow> revert_input \<Rightarrow> work_db \<Rightarrow> work_db result" where
  "record_revert pid jid now v w =
     (if list_ex (\<lambda>r. crSha r = rvSha v) (workReverts w) then Inl SqliteConstraintUnique
      else Inr (w\<lparr>workReverts := workReverts w @ [\<lparr>crSha = rvSha v, crProject = pid, crMergedJob = rvMergedJob v,
                 crJobId = jid, crStartedAt = now\<rparr>]\<rparr>))"

definition assertAutonomousInput :: "autonomous_input \<Rightarrow> unit result" where
  "assertAutonomousInput i =
     rthen (assertControllerIdentifier (auProjectId i) ''projectId'')
    (rthen (assertControllerText (auTask i) ''task'')
    (rthen (assertNonNegativeInteger (auNow i) ''now'')
    (rthen (case auIntake i of None \<Rightarrow> Inr ()
            | Some t \<Rightarrow> rthen (assertControllerIdentifier (inFingerprint t) ''fingerprint'')
                (rthen (assertControllerIdentifier (inAuditId t) ''auditId'') (assertControllerIdentifier (inSubject t) ''subject'')))
       (case auRevert i of None \<Rightarrow> Inr ()
        | Some v \<Rightarrow> rthen (assertFullSha (rvSha v) ''mergeCommitSha'') (assertControllerIdentifier (rvMergedJob v) ''mergedJobId'')))))"

text \<open>The writes of the transaction: the job, then the two ledgers.\<close>

definition record_start :: "string \<Rightarrow> autonomous_input \<Rightarrow> database \<Rightarrow> job \<Rightarrow> work_db \<Rightarrow> work_db result" where
  "record_start day i db j w =
     (let w1 = w\<lparr>workDb := db\<rparr>;
          w2 = (case auIntake i of None \<Rightarrow> w1
                | Some t \<Rightarrow> record_intake (auProjectId i) day (job_id j) (whole (auNow i)) t w1)
      in case auRevert i of None \<Rightarrow> Inr w2
         | Some v \<Rightarrow> record_revert (auProjectId i) (job_id j) (whole (auNow i)) v w2)"

definition createAutonomousJob :: "work_env \<Rightarrow> work_db \<Rightarrow> autonomous_input \<Rightarrow> (work_db \<times> autonomous_outcome) result" where
  "createAutonomousJob env w i =
     rthen (assertAutonomousInput i)
       (case getProjectPolicy (workGrants w) (auProjectId i) of
          None \<Rightarrow> Inr (w, AutonomousRefused ProjectNotEnabled)
        | Some pol \<Rightarrow>
            if \<not> enabled (storedPolicy pol) then Inr (w, AutonomousRefused ProjectNotEnabled)
            else rbind (utcDayOf (whole (auNow i))) (\<lambda>day.
              case autonomous_refusal_of w (storedPolicy pol) day i of
                Some r \<Rightarrow> Inr (w, AutonomousRefused r)
              | None \<Rightarrow>
                  rbind (start_autonomous_job env (workDb w) pol i) (\<lambda>(db, j).
                  rbind (record_start day i db j w) (\<lambda>w'. Inr (w', AutonomousCreated j)))))"

definition getCrashRevertJob :: "work_db \<Rightarrow> string \<Rightarrow> revert_row option result" where
  "getCrashRevertJob w sha = rthen (assertFullSha sha ''mergeCommitSha'') (Inr (get_where (\<lambda>r. crSha r = sha) (workReverts w)))"

subsection \<open>Undoing a merge that broke production\<close>

record completed_merge =
  cmJobId :: string
  cmSha :: string
  cmMergedAt :: int
  cmUnattended :: bool
  cmAutomaticRevert :: bool

definition merged_jobs :: "database \<Rightarrow> string \<Rightarrow> job list" where
  "merged_jobs db pid =
     filter (\<lambda>j. projectId j = Some pid \<and> mergeCommitSha j \<noteq> None \<and> mergedAt j \<noteq> None) (map row_job (jobs_table db))"

text \<open>The last by \<open>merged_at\<close>, then by id, both compared as texts.\<close>

definition getLatestCompletedMerge :: "work_env \<Rightarrow> work_db \<Rightarrow> string \<Rightarrow> completed_merge option result" where
  "getLatestCompletedMerge env w pid =
     rthen (assertControllerIdentifier pid ''projectId'')
       (case merged_jobs (workDb w) pid of
          [] \<Rightarrow> Inr None
        | js \<Rightarrow>
            (let j = last (sort_key (\<lambda>j. (the (mergedAt j), job_id j)) js) in
             case weParseDate env (the (mergedAt j)) of
               None \<Rightarrow> Inr None
             | Some at \<Rightarrow> Inr (Some \<lparr>cmJobId = job_id j, cmSha = the (mergeCommitSha j), cmMergedAt = at,
                 cmUnattended = list_ex (\<lambda>e. geProjectId e = pid \<and> geJobId e = Some (job_id j) \<and> geAction e = GrantUsed)
                   (merge_authority_events (workGrants w)),
                 cmAutomaticRevert = (autonomousOrigin j = Some CrashRevert)\<rparr>)))"

definition REVERT_WINDOW_MS :: int where "REVERT_WINDOW_MS = 48 * 60 * 60000"

datatype revert_decision = RevertMerge completed_merge | InvestigateFault string

definition declaresUnattendedMerge :: "project_policy option \<Rightarrow> bool" where
  "declaresUnattendedMerge p =
     (case p of None \<Rightarrow> False
      | Some pol \<Rightarrow> enabled pol \<and> (case autonomy pol of None \<Rightarrow> False | Some au \<Rightarrow> unattendedMerge au))"

definition decideCrashRevert :: "completed_merge option \<Rightarrow> project_policy option \<Rightarrow> int \<Rightarrow> revert_decision" where
  "decideCrashRevert merge pol now =
     (if \<not> declaresUnattendedMerge pol then InvestigateFault ''this project's policy has not asked to merge unattended''
      else case merge of
        None \<Rightarrow> InvestigateFault ''nothing has been merged here''
      | Some m \<Rightarrow>
          if \<not> cmUnattended m then InvestigateFault ''the last merge here was one the owner approved''
          else if cmAutomaticRevert m then InvestigateFault ''the last merge here was itself an automatic revert''
          else if now - cmMergedAt m < 0 \<or> REVERT_WINDOW_MS < now - cmMergedAt m
          then InvestigateFault ''the last unattended merge is too old to blame''
          else RevertMerge m)"

definition revertWorkOrder :: "string \<Rightarrow> string \<Rightarrow> string" where
  "revertWorkOrder sha al = join_with '' ''
     [''Revert the merge commit '' @ sha @ '' on '' @ al @ ''.'',
      ''It merged without anyone being asked, and production health checks have been failing since.'',
      ''Revert exactly that commit and nothing else, keep the revert as small as reverting it requires,'',
      ''and land it through the normal pipeline.'',
      ''If reverting that commit is not possible cleanly, or the evidence says it is not the cause,'',
      ''stop and explain what you found instead of changing anything.'']"

datatype crash_revert_outcome = RevertStarted string string | RevertRefused string

fun refusalReason :: "autonomous_refusal \<Rightarrow> string" where
  "refusalReason AlreadyReverted = ''this merge has already had its one automatic revert''"
| "refusalReason ProjectPaused = ''this project's failure brake is on''"
| "refusalReason OpenJob = ''this project already has work running''"
| "refusalReason _ = ''this project cannot take unattended work right now''"

definition revert_job_input :: "string \<Rightarrow> string \<Rightarrow> js_number \<Rightarrow> completed_merge \<Rightarrow> autonomous_input" where
  "revert_job_input pid al now m =
     \<lparr>auProjectId = pid, auTask = revertWorkOrder (cmSha m) al, auOrigin = CrashRevert, auIntake = None,
      auRevert = Some \<lparr>rvSha = cmSha m, rvMergedJob = cmJobId m\<rparr>, auNow = now\<rparr>"

text \<open>\<open>CrashRevertService.start\<close>: whatever cannot be read or created leaves the fault to be investigated.\<close>

definition start_revert :: "work_env \<Rightarrow> work_db \<Rightarrow> string \<Rightarrow> string \<Rightarrow> js_number \<Rightarrow> work_db \<times> crash_revert_outcome" where
  "start_revert env w pid al now =
     (case getLatestCompletedMerge env w pid of
        Inl _ \<Rightarrow> (w, RevertRefused ''the merge history could not be read'')
      | Inr merge \<Rightarrow>
          (case decideCrashRevert merge (map_option storedPolicy (getProjectPolicy (workGrants w) pid)) (whole now) of
             InvestigateFault why \<Rightarrow> (w, RevertRefused why)
           | RevertMerge m \<Rightarrow>
               (case createAutonomousJob env w (revert_job_input pid al now m) of
                  Inl _ \<Rightarrow> (w, RevertRefused ''the revert job could not be created'')
                | Inr (w', AutonomousRefused r) \<Rightarrow> (w', RevertRefused (refusalReason r))
                | Inr (w', AutonomousCreated j) \<Rightarrow> (w', RevertStarted (job_id j) (cmSha m)))))"

subsection \<open>Starting work from findings\<close>

definition listEnabledProjectPolicies :: "grant_tables \<Rightarrow> project_policy list" where
  "listEnabledProjectPolicies t = sort_key policyAlias (filter enabled (map storedPolicy (project_policies t)))"

definition aliasWithIntake :: "work_db \<Rightarrow> string \<Rightarrow> string option" where
  "aliasWithIntake w pid =
     (case List.find (\<lambda>p. policyProjectId p = pid) (listEnabledProjectPolicies (workGrants w)) of
        None \<Rightarrow> None
      | Some p \<Rightarrow> (case autonomy p of None \<Rightarrow> None
          | Some au \<Rightarrow> if intakeMaxJobsPerDay au = None then None else Some (policyAlias p)))"

record intake_order =
  ioAuditId :: string
  ioSubject :: string
  ioFingerprint :: string
  ioTask :: string

datatype intake_step = IntakeStarted string | IntakeSkipped | IntakeStop

definition PROJECT_WIDE_REFUSALS :: "autonomous_refusal list" where
  "PROJECT_WIDE_REFUSALS = [ProjectNotEnabled, IntakeNotConfigured, ProjectPaused, OpenJob, DailyCap]"

definition intake_job_input :: "string \<Rightarrow> autonomous_origin \<Rightarrow> js_number \<Rightarrow> intake_order \<Rightarrow> autonomous_input" where
  "intake_job_input pid org now o1 =
     \<lparr>auProjectId = pid, auTask = ioTask o1, auOrigin = org,
      auIntake = Some \<lparr>inFingerprint = ioFingerprint o1, inAuditId = ioAuditId o1, inSubject = ioSubject o1\<rparr>,
      auRevert = None, auNow = now\<rparr>"

definition start_intake ::
  "work_env \<Rightarrow> work_db \<Rightarrow> string \<Rightarrow> autonomous_origin \<Rightarrow> js_number \<Rightarrow> intake_order \<Rightarrow> work_db \<times> intake_step" where
  "start_intake env w pid org now o1 =
     (case createAutonomousJob env w (intake_job_input pid org now o1) of
        Inl _ \<Rightarrow> (w, IntakeStop)
      | Inr (w', AutonomousCreated j) \<Rightarrow> (w', IntakeStarted (job_id j))
      | Inr (w', AutonomousRefused r) \<Rightarrow> (w', if List.member PROJECT_WIDE_REFUSALS r then IntakeStop else IntakeSkipped))"

definition startedNotice :: "string \<Rightarrow> autonomous_origin \<Rightarrow> intake_order \<Rightarrow> string" where
  "startedNotice al org o1 = join_with [CHR 0x0A]
     [''A job just started on '' @ al @ '' that nobody asked for: '' @
        (if org = SelfDiagnosis then ''a failure this agent diagnosed in its own controller''
         else ''the daily check on this project found something it is configured to act on'') @ ''.'',
      [], ''What it is working on: '' @ ioTask o1,
      ''Where it came from: '' @ ioAuditId o1 @ '', on '' @ ioSubject o1 @ ''.'', [],
      ''Tell the owner in one or two plain lines that this started and what it is for. This is a notice, not a question - do not ask them to approve anything, and do not offer to stop it unless they ask.'']"

text \<open>
  \<open>enqueue\<close> is the answer of \<open>enqueueControllerTurn\<close> to a text, \<open>recipient\<close> whether an owner and a
  controller are there to be told.  A notice that cannot be queued ends the pass with its error; the
  jobs started before it stay.
\<close>

definition notify_start :: "(string \<Rightarrow> unit result) \<Rightarrow> bool \<Rightarrow> string \<Rightarrow> autonomous_origin \<Rightarrow> intake_order \<Rightarrow> unit result" where
  "notify_start enqueue recipient al org o1 = (if recipient then enqueue (startedNotice al org o1) else Inr ())"

fun consider_orders ::
  "work_env \<Rightarrow> (string \<Rightarrow> unit result) \<Rightarrow> bool \<Rightarrow> string \<Rightarrow> string \<Rightarrow> js_number \<Rightarrow> work_db \<Rightarrow> intake_order list \<Rightarrow>
   work_db \<times> string list result" where
  "consider_orders env enqueue recipient pid al now w [] = (w, Inr [])"
| "consider_orders env enqueue recipient pid al now w (o1 # os) =
     (case start_intake env w pid AuditIntake now o1 of
        (w1, IntakeStop) \<Rightarrow> (w1, Inr [])
      | (w1, IntakeSkipped) \<Rightarrow> consider_orders env enqueue recipient pid al now w1 os
      | (w1, IntakeStarted jid) \<Rightarrow>
          (case notify_start enqueue recipient al AuditIntake o1 of
             Inl e \<Rightarrow> (w1, Inl e)
           | Inr _ \<Rightarrow> (let (w2, r) = consider_orders env enqueue recipient pid al now w1 os
                       in (w2, rbind r (\<lambda>started. Inr (jid # started))))))"

text \<open>\<open>AuditIntakeService.consider\<close>, on the orders that \<open>intakeWorkOrders\<close> makes of the findings.\<close>

definition consider_findings ::
  "work_env \<Rightarrow> (string \<Rightarrow> unit result) \<Rightarrow> bool \<Rightarrow> work_db \<Rightarrow> string \<Rightarrow> intake_order list \<Rightarrow> js_number \<Rightarrow>
   work_db \<times> string list result" where
  "consider_findings env enqueue recipient w pid orders now =
     (case aliasWithIntake w pid of
        None \<Rightarrow> (w, Inr [])
      | Some al \<Rightarrow> consider_orders env enqueue recipient pid al now w orders)"

definition file_order ::
  "work_env \<Rightarrow> (string \<Rightarrow> unit result) \<Rightarrow> bool \<Rightarrow> work_db \<Rightarrow> string \<Rightarrow> intake_order \<Rightarrow> js_number \<Rightarrow>
   work_db \<times> (string + string) result" where
  "file_order env enqueue recipient w pid o1 now =
     (case aliasWithIntake w pid of
        None \<Rightarrow> (w, Inr (Inl ''the project has no audit intake allowance''))
      | Some al \<Rightarrow>
          (case start_intake env w pid SelfDiagnosis now o1 of
             (w1, IntakeStop) \<Rightarrow> (w1, Inr (Inl ''the project cannot take unattended work right now''))
           | (w1, IntakeSkipped) \<Rightarrow> (w1, Inr (Inl ''this failure has already had its job''))
           | (w1, IntakeStarted jid) \<Rightarrow>
               (w1, rthen (notify_start enqueue recipient al SelfDiagnosis o1) (Inr (Inr jid)))))"

subsection \<open>Watching for a loop\<close>

definition SCAN_INTERVAL_MS :: int where "SCAN_INTERVAL_MS = 60 * 60000"
definition MAX_FAILURES_SCANNED :: int where "MAX_FAILURES_SCANNED = 200"

definition brake_for :: "work_db \<Rightarrow> failure_cluster \<Rightarrow> int \<Rightarrow> work_db result" where
  "brake_for w c now =
     (case fcProjectId c of
        None \<Rightarrow> Inr w
      | Some pid \<Rightarrow> rbind (pauseProjectAdmission w pid (''the same failure repeated '' @ show_nat (fcSize c) @ '' times'')
          (Some (fcFingerprint c)) (Whole now)) (\<lambda>(w', _). Inr w'))"

fun scan_clusters ::
  "(string \<Rightarrow> unit result) \<Rightarrow> (string \<times> string) list \<Rightarrow> int \<Rightarrow> work_db \<Rightarrow> bool \<Rightarrow> failure_cluster list \<Rightarrow> work_db \<times> bool result" where
  "scan_clusters enqueue aliases now w worked [] = (w, Inr worked)"
| "scan_clusters enqueue aliases now w worked (c # cs) =
     (case claimFailureEscalation w (fcFingerprint c) (fcProjectId c) (fcSize c) (fcReason c) (Whole now) ESCALATION_DEDUP_MS of
        Inl e \<Rightarrow> (w, Inl e)
      | Inr (w1, False) \<Rightarrow> scan_clusters enqueue aliases now w1 worked cs
      | Inr (w1, True) \<Rightarrow>
          (case brake_for w1 c now of
             Inl e \<Rightarrow> (w1, Inl e)
           | Inr w2 \<Rightarrow>
               (case enqueue (failureLoopNotice c (case fcProjectId c of None \<Rightarrow> None | Some pid \<Rightarrow> map_of aliases pid)) of
                  Inl e \<Rightarrow> (w2, Inl e)
                | Inr _ \<Rightarrow> scan_clusters enqueue aliases now w2 True cs)))"

definition scan_failures :: "work_env \<Rightarrow> (string \<Rightarrow> unit result) \<Rightarrow> bool \<Rightarrow> work_db \<Rightarrow> int \<Rightarrow> work_db \<times> bool result" where
  "scan_failures env enqueue recipient w now =
     (if \<not> recipient then (w, Inr False)
      else case rbind (listRecentJobFailures w (Whole (max 0 (now - FAILURE_WINDOW_MS))) (Whole MAX_FAILURES_SCANNED))
          (\<lambda>fs. detectFailureClusters (weSha256 env) (weLocaleCompare env) fs (Some (Whole FAILURE_CLUSTER_THRESHOLD))) of
        Inl e \<Rightarrow> (w, Inl e)
      | Inr cs \<Rightarrow>
          if cs = [] then (w, Inr False)
          else scan_clusters enqueue
            (map (\<lambda>p. (policyProjectId p, policyAlias p)) (listEnabledProjectPolicies (workGrants w))) now w False cs)"

text \<open>\<open>FailureLoopService.processDue\<close>: the time of the last scan, the tables, and whether anything was done.\<close>

definition process_due ::
  "work_env \<Rightarrow> (string \<Rightarrow> unit result) \<Rightarrow> bool \<Rightarrow> int \<Rightarrow> work_db \<Rightarrow> int \<Rightarrow> int \<times> work_db \<times> bool" where
  "process_due env enqueue recipient lastScanAt w now =
     (if now - lastScanAt < SCAN_INTERVAL_MS then (lastScanAt, w, False)
      else case scan_failures env enqueue recipient w now of
        (w', Inr worked) \<Rightarrow> (now, w', worked)
      | (w', Inl _) \<Rightarrow> (now, w', False))"

subsection \<open>The owner's command\<close>

text \<open>\<open>handleResumeCommand\<close> of \<open>src/telegram/ingress.ts\<close>.\<close>

definition handleResumeCommand :: "work_db \<Rightarrow> string option \<Rightarrow> js_number \<Rightarrow> (work_db \<times> string) result" where
  "handleResumeCommand w arg now =
     (let paused = listPausedProjectAdmissions w;
          aliases = map (\<lambda>p. (policyProjectId p, policyAlias p)) (listEnabledProjectPolicies (workGrants w));
          name = (\<lambda>pid. opt_default (map_of aliases pid) pid);
          wanted = (case arg of None \<Rightarrow> [] | Some a \<Rightarrow> js_lower (js_trim a))
      in if paused = [] then Inr (w, ''Nothing is paused. All projects are taking work.'')
         else if wanted = [] then Inr (w, ''These projects are paused:'' @ [CHR 0x0A] @
           join_with [CHR 0x0A] (map (\<lambda>(pid, why, _). CHR 0x95 # '' '' @ name pid @ '' - '' @ why) paused) @ [CHR 0x0A, CHR 0x0A] @
           ''Send /resume <name> to start one, or /resume all for every one of them.'')
         else if wanted = ''all'' then rbind (clearProjectAdmissionPause w None now) (\<lambda>(w', n).
           Inr (w', if n = 1 then ''Done. That project is taking work again.''
                    else ''Done. Those '' @ show_nat n @ '' projects are taking work again.''))
         else (case List.find (\<lambda>(pid, _, _). name pid = wanted) paused of
             None \<Rightarrow> Inr (w, [CHR 0x22] @ wanted @ [CHR 0x22] @ '' is not paused.'')
           | Some (pid, _, _) \<Rightarrow> rbind (clearProjectAdmissionPause w (Some pid) now) (\<lambda>(w', _).
               Inr (w', ''Done. '' @ wanted @ '' is taking work again.''))))"

end
