(* ===== verification/Autonomous_Lemmas.thy ===== *)
theory Autonomous_Lemmas
  imports Autonomous_Work Pipeline_System Sorting_Lemmas
begin

text \<open>
  The calendar, the clusters of failures, and the cases in which an operation of \<open>Autonomous_Work\<close>
  succeeds with what it writes.
\<close>

subsection \<open>The calendar\<close>

definition days_before :: "nat \<Rightarrow> nat \<Rightarrow> nat" where
  "days_before y y' = (\<Sum>k = y..<y'. year_days k)"

lemma days_before_step: "y < y' \<Longrightarrow> days_before y y' = year_days y + days_before (Suc y) y'"
  unfolding days_before_def using sum.atLeast_Suc_lessThan by blast

lemma year_walk_sound: "year_walk y d = (y', r) \<Longrightarrow> y \<le> y' \<and> r < year_days y' \<and> d = days_before y y' + r"
proof (induction y d rule: year_walk.induct)
  case (1 y d)
  show ?case
  proof (cases "d < year_days y")
    case True
    then show ?thesis using 1(2) by (simp add: year_walk.simps[of y d] days_before_def)
  next
    case False
    then have "year_walk (Suc y) (d - year_days y) = (y', r)" using 1(2) by (simp add: year_walk.simps[of y d])
    from 1(1)[OF False this] False show ?thesis using days_before_step[of y y'] by auto
  qed
qed

definition days_to :: "nat \<Rightarrow> nat" where
  "days_to y = 365 * y + (y + 3) div 4 + (y + 399) div 400 - (y + 99) div 100"

lemma round_up_div: "0 < k \<Longrightarrow> (y + (k - 1)) div k = y div k + (if k dvd y then 0 else 1)" for y k :: nat
proof -
  assume k: "0 < k"
  have "(y + (k - 1)) div k = (y mod k + (k - 1) + k * (y div k)) div k" by (simp add: algebra_simps)
  also have "\<dots> = y div k + (y mod k + (k - 1)) div k" using k by (intro div_mult_self2) simp
  also have "(y mod k + (k - 1)) div k = (if y mod k = 0 then 0 else 1)"
    using k mod_less_divisor[OF k, of y] by (auto intro: div_nat_eqI)
  finally show ?thesis by (simp add: dvd_eq_mod_eq_0)
qed

lemma round_up_step: "0 < k \<Longrightarrow> (Suc y + (k - 1)) div k = (y + (k - 1)) div k + (if k dvd y then 1 else 0)" for y k :: nat
proof -
  assume k: "0 < k"
  have "(Suc y + (k - 1)) div k = (y + k) div k" using k by simp
  also have "\<dots> = y div k + 1" using k by (intro div_add_self2) simp
  finally show ?thesis using round_up_div[OF k, of y] by simp
qed

lemma days_to_step: "days_to (Suc y) = days_to y + year_days y"
proof -
  have c: "(Suc y + 3) div 4 = (y + 3) div 4 + (if 4 dvd y then 1 else 0)"
    "(Suc y + 99) div 100 = (y + 99) div 100 + (if 100 dvd y then 1 else 0)"
    "(Suc y + 399) div 400 = (y + 399) div 400 + (if 400 dvd y then 1 else 0)"
    using round_up_step[of 4 y] round_up_step[of 100 y] round_up_step[of 400 y] by (simp_all add: add.commute)
  have d: "100 dvd y \<Longrightarrow> 4 dvd y" "400 dvd y \<Longrightarrow> 100 dvd y" by (auto elim!: dvdE)
  have "(y + 99) div 100 < Suc y" by (rule less_mult_imp_div_less) simp
  then have "(y + 99) div 100 \<le> 365 * y + (y + 3) div 4 + (y + 399) div 400" by linarith
  then obtain n where "365 * y + (y + 3) div 4 + (y + 399) div 400 = (y + 99) div 100 + n" using le_Suc_ex by blast
  then show ?thesis unfolding days_to_def c year_days_def leap_year_def using d
    by (cases "100 dvd y"; cases "400 dvd y"; cases "4 dvd y"; simp; linarith)
qed

lemma days_before_to: "y \<le> y' \<Longrightarrow> days_before y y' + days_to y = days_to y'"
  unfolding days_before_def by (induction y' rule: dec_induct) (simp_all add: days_to_step)

lemma month_walk_sound:
  "month_walk m ls d = (m', r) \<Longrightarrow> m \<le> m' \<and> m' \<le> m + length ls \<and> d = sum_list (take (m' - m) ls) + r \<and>
     (d < sum_list ls \<longrightarrow> r < Max (set ls))"
proof (induction m ls d rule: month_walk.induct)
  case (2 m l ls d)
  show ?case
  proof (cases "d < l")
    case True
    then have "m' = m" "r = d" using 2(2) by auto
    moreover have "l \<le> Max (set (l # ls))" by simp
    ultimately show ?thesis using True by (auto intro: less_le_trans[OF _ Max_ge])
  next
    case False
    then have "month_walk (Suc m) ls (d - l) = (m', r)" using 2(2) by simp
    note IH = 2(1)[OF False this]
    then have le: "Suc m \<le> m'" by simp
    have split: "take (m' - m) (l # ls) = l # take (m' - Suc m) ls" using le by (simp add: take_Cons')
    have "d = sum_list (take (m' - m) (l # ls)) + r" using IH False unfolding split by simp linarith
    moreover have "m \<le> m'" "m' \<le> m + length (l # ls)" using IH by auto
    moreover have "r < Max (set (l # ls))" if "d < sum_list (l # ls)"
    proof -
      have "d - l < sum_list ls" using that False by simp
      then have "ls \<noteq> []" "r < Max (set ls)" using IH by auto
      then show ?thesis by (auto simp: less_max_iff_disj)
    qed
    ultimately show ?thesis by blast
  qed
qed simp

lemma length_padded [simp]: "length (padded w n) = w"
  by (induction w arbitrary: n) auto

lemma digit_char_code: "k < 10 \<Longrightarrow> (of_char (digit_char k) :: nat) = 48 + k"
  by (auto simp: digit_char_def less_Suc_eq numeral_eq_Suc)

lemma digit_char_inject: "m < 10 \<Longrightarrow> n < 10 \<Longrightarrow> digit_char m = digit_char n \<Longrightarrow> m = n"
proof -
  assume "m < 10" "n < 10" and e: "digit_char m = digit_char n"
  show "m = n" using digit_char_code[of m] digit_char_code[of n] e \<open>m < 10\<close> \<open>n < 10\<close> by (metis add_left_cancel)
qed

lemma padded_inject: "m < 10 ^ w \<Longrightarrow> n < 10 ^ w \<Longrightarrow> padded w m = padded w n \<Longrightarrow> m = n"
proof (induction w arbitrary: m n)
  case (Suc w)
  have "padded w (m div 10) = padded w (n div 10)" and d: "digit_char (m mod 10) = digit_char (n mod 10)" using Suc.prems(3) by auto
  moreover have "m div 10 < 10 ^ w" "n div 10 < 10 ^ w" using Suc.prems(1,2) by (auto simp: less_mult_imp_div_less mult.commute)
  ultimately have "m div 10 = n div 10" using Suc.IH by blast
  moreover have "m mod 10 = n mod 10" using digit_char_inject[OF _ _ d] by simp
  ultimately show ?case by (metis div_mult_mod_eq)
qed simp

lemma digit_not_plus: "n < 10 \<Longrightarrow> digit_char n \<noteq> CHR ''+''"
proof
  assume "n < 10" "digit_char n = CHR ''+''"
  then have "(of_char (digit_char n) :: nat) = 43" by simp
  then show False using digit_char_code[of n] \<open>n < 10\<close> by simp
qed


definition year_10000 :: int where "year_10000 = 253402300800000"

lemma iso_date_inject:
  assumes "days_to 1970 + a < days_to 10000" "days_to 1970 + b < days_to 10000" "take 10 (iso_date a) = take 10 (iso_date b)"
  shows "a = b"
proof -
  obtain y r where w: "year_walk 1970 a = (y, r)" by fastforce
  obtain m d where n: "month_walk 1 (month_lengths y) r = (m, d)" by fastforce
  obtain y' r' where w': "year_walk 1970 b = (y', r')" by fastforce
  obtain m' d' where n': "month_walk 1 (month_lengths y') r' = (m', d')" by fastforce
  have mono: "days_to 10000 \<le> days_to z" if "9999 < z" for z
    using days_before_to[of 10000 z] that by linarith
  have year: "z \<le> 9999" if "year_walk 1970 k = (z, q)" "days_to 1970 + k < days_to 10000" for k z q
    using year_walk_sound[OF that(1)] days_before_to[of 1970 z] mono[of z] that(2) by (cases "z \<le> 9999") auto
  have ys: "y \<le> 9999" "y' \<le> 9999" using year w w' assms(1,2) by blast+
  have month: "p \<le> 13 \<and> q < 99 \<and> k = sum_list (take (p - 1) (month_lengths z)) + q"
    if "month_walk 1 (month_lengths z) k = (p, q)" "k < year_days z" for z k p q
  proof -
    have "sum_list (month_lengths z) = year_days z" "Max (set (month_lengths z)) = 31" "length (month_lengths z) = 12"
      by (auto simp: month_lengths_def year_days_def)
    then show ?thesis using month_walk_sound[OF that(1)] that(2) by auto
  qed
  note ms = month[OF n] month[OF n']
  have r: "r < year_days y" "r' < year_days y'" "a = days_before 1970 y + r" "b = days_before 1970 y' + r'"
    using year_walk_sound[OF w] year_walk_sound[OF w'] by auto
  have "iso_date a = padded 4 y @ ''-'' @ padded 2 m @ ''-'' @ padded 2 (Suc d)"
    "iso_date b = padded 4 y' @ ''-'' @ padded 2 m' @ ''-'' @ padded 2 (Suc d')"
    using w n w' n' ys by (simp_all add: iso_date_def)
  then have "padded 4 y = padded 4 y'" "padded 2 m = padded 2 m'" "padded 2 (Suc d) = padded 2 (Suc d')"
    using assms(3) by auto
  then have "y = y'" "m = m'" "Suc d = Suc d'"
    using padded_inject[of y 4 y'] padded_inject[of m 2 m'] padded_inject[of "Suc d" 2 "Suc d'"] ys ms r(1,2) by auto
  then show ?thesis using r ms by simp
qed

text \<open>Before the year 10000 two times with one text are of one day.\<close>

lemma same_utc_day:
  assumes "utcDayOf s = Inr d" "utcDayOf t = Inr d" "0 \<le> s" "s < year_10000" "0 \<le> t" "t < year_10000"
  shows "s div DAY_MS = t div DAY_MS"
proof -
  have small: "days_to 1970 + nat (k div DAY_MS) < days_to 10000" if "0 \<le> k" "k < year_10000" for k
  proof -
    have "k div DAY_MS < 2932897" using that by (simp add: DAY_MS_def year_10000_def)
    then show ?thesis using that by (simp add: days_to_def DAY_MS_def)
  qed
  have "nat (s div DAY_MS) = nat (t div DAY_MS)"
    by (rule iso_date_inject) (use assms small in \<open>auto simp: utcDayOf_def split: if_splits\<close>)
  then show ?thesis using assms(3,5) by (simp add: DAY_MS_def pos_imp_zdiv_nonneg_iff)
qed

lemma utcDayOf_Inr: "t < year_10000 \<Longrightarrow> \<exists>d. utcDayOf t = Inr d"
  by (simp add: utcDayOf_def year_10000_def)


subsection \<open>Clusters\<close>

definition failing_jobs :: "(string \<Rightarrow> string) \<Rightarrow> failed_job list \<Rightarrow> string \<Rightarrow> string set" where
  "failing_jobs sha256 fs fp = foJobId ` {f \<in> set fs. failureFingerprint sha256 (foProjectId f) (foReason f) = fp}"

definition groups_ok :: "(string \<Rightarrow> string) \<Rightarrow> failed_job list \<Rightarrow> cluster_map \<Rightarrow> bool" where
  "groups_ok sha256 fs m \<longleftrightarrow> distinct (map fst m) \<and>
     (\<forall>fp. case map_of m fp of
        None \<Rightarrow> failing_jobs sha256 fs fp = {}
      | Some g \<Rightarrow> distinct (cgJobIds g) \<and> set (cgJobIds g) = failing_jobs sha256 fs fp)"

lemma failing_jobs_snoc:
  "failing_jobs sha256 (fs @ [f]) fp =
     (if failureFingerprint sha256 (foProjectId f) (foReason f) = fp then insert (foJobId f) (failing_jobs sha256 fs fp)
      else failing_jobs sha256 fs fp)"
  by (auto simp: failing_jobs_def)

lemma add_failure_map:
  "map_of (add_failure sha256 f m) fp =
     (if fp = failureFingerprint sha256 (foProjectId f) (foReason f)
      then Some (case map_of m fp of
          None \<Rightarrow> \<lparr>cgProjectId = foProjectId f, cgReason = take 200 (opt_default (foReason f) ''unknown failure''), cgJobIds = [foJobId f]\<rparr>
        | Some g \<Rightarrow> if List.member (cgJobIds g) (foJobId f) then g else g\<lparr>cgJobIds := cgJobIds g @ [foJobId f]\<rparr>)
      else map_of m fp)"
  by (auto simp: add_failure_def Let_def split: option.splits)

lemma add_failure_ok:
  assumes "groups_ok sha256 fs m"
  shows "groups_ok sha256 (fs @ [f]) (add_failure sha256 f m)"
  unfolding groups_ok_def
proof (intro conjI allI)
  have d: "distinct (map fst m)" using assms by (simp add: groups_ok_def)
  then show "distinct (map fst (add_failure sha256 f m))"
    by (auto simp: add_failure_def Let_def distinct_assoc_set split: option.splits)
  fix fp
  have "case map_of m fp of None \<Rightarrow> failing_jobs sha256 fs fp = {}
      | Some g \<Rightarrow> distinct (cgJobIds g) \<and> set (cgJobIds g) = failing_jobs sha256 fs fp"
    using assms by (simp add: groups_ok_def)
  then show "case map_of (add_failure sha256 f m) fp of None \<Rightarrow> failing_jobs sha256 (fs @ [f]) fp = {}
      | Some g \<Rightarrow> distinct (cgJobIds g) \<and> set (cgJobIds g) = failing_jobs sha256 (fs @ [f]) fp"
    unfolding add_failure_map failing_jobs_snoc by (cases "map_of m fp") (auto simp: List.member_iff split: if_splits)
qed

lemma group_failures_ok: "groups_ok sha256 fs (group_failures sha256 fs)"
proof (induction fs rule: rev_induct)
  case Nil
  show ?case by (simp add: groups_ok_def group_failures_def failing_jobs_def)
next
  case (snoc f fs)
  then show ?case using add_failure_ok[OF snoc] by (simp add: group_failures_def)
qed

lemma insert_by_size:
  "sorted_wrt (\<lambda>c d. fcSize d \<le> fcSize c) cs \<Longrightarrow> sorted_wrt (\<lambda>c d. fcSize d \<le> fcSize c) (insert_by (compareClusters lc) x cs)"
proof (induction cs)
  case (Cons c cs)
  have "fcSize x \<le> fcSize c" if "\<not> compareClusters lc x c \<le> 0"
    using that by (auto simp: compareClusters_def split: if_splits)
  moreover have "fcSize c \<le> fcSize x" if "compareClusters lc x c \<le> 0"
    using that by (auto simp: compareClusters_def split: if_splits)
  ultimately show ?case using Cons by (fastforce simp: insert_by_facts)
qed simp

lemma sort_by_size: "sorted_wrt (\<lambda>c d. fcSize d \<le> fcSize c) (sort_by (compareClusters lc) cs)"
  unfolding sort_by_def by (induction cs) (simp_all add: insert_by_size)

subsection \<open>A job nobody asked for\<close>

lemma readJobById_append:
  assumes "jobs_ok db" "readJobById db (job_id j) = None"
  shows "jobs_ok (db\<lparr>jobs_table := jobs_table db @ [r\<lparr>row_job := j\<rparr>]\<rparr>)"
    "readJobById (db\<lparr>jobs_table := jobs_table db @ [r\<lparr>row_job := j\<rparr>]\<rparr>) k = (if k = job_id j then Some j else readJobById db k)"
  using assms by (auto simp: jobs_ok_def unique_append readJobById_def get_append get_where_None dest!: get_where_Some split: option.splits)


lemma queue_keeps_jobs: "queueAdmissionInTransaction db i mode = Inr (db', a) \<Longrightarrow> jobs_table db' = jobs_table db"
  by (erule queueAdmission_cases) auto

lemma read_same_jobs: "jobs_table db' = jobs_table db \<Longrightarrow> readJobById db' k = readJobById db k"
  by (simp add: readJobById_def)

lemma store_transition_reads:
  assumes "store_transition rt web db j e now = Inr (db', j')" and "jobs_ok db" and "readJobById db (job_id j) = Some j"
  shows "jobs_ok db' \<and> job_id j' = job_id j \<and> updatedAt j' = now \<and>
    (\<forall>k. readJobById db' k = (if k = job_id j then Some j' else readJobById db k))"
  using assms(1)
proof (cases rule: store_transition_cases)
  case (1 es db1)
  note t = job_transition_frame[OF transition_steps[OF 1(1)]]
  have "jobs_ok db1" using persistJobTransition_jobs_ok[OF 1(2) assms(2)] .
  moreover have "jobs_table db' = jobs_table db1" using 1(4) by simp
  ultimately show ?thesis
    using read_after_persist[OF 1(2) assms(2,3) 1(1)] t read_same_jobs[of db' db1]
    by (auto simp: jobs_ok_def same_identity_def)
qed

lemma start_reads:
  assumes "start_autonomous_job env db pol i = Inr (db', j)" and "jobs_ok db"
  shows "jobs_ok db' \<and> readJobById db (job_id j) = None \<and> updatedAt j = whole (auNow i) \<and>
    (\<forall>k. readJobById db' k = (if k = job_id j then Some j else readJobById db k))"
proof -
  obtain n jid new db1 created db2 a where
    n: "new = autonomous_job_row jid n (auTask i) (weEngine env) (weMode env) (auOrigin i) (whole (auNow i))"
    "insert_job db new = Inr db1" "readJobById db1 jid = Some created"
    "store_transition (weRuntime env) (weWeb env) db1 created
       (PROJECT_SELECTED (policyProjectId (storedPolicy pol)) (Whole (storedVersion pol)) (storedPolicy pol)) (whole (auNow i)) = Inr (db2, j)"
    "queueAdmissionInTransaction db2 \<lparr>writeJobId = jid, writeVersion = Whole (version j),
       writeProjectId = policyProjectId (storedPolicy pol), writeResumeEvent = ResumeConfirmed, writeNow = auNow i\<rparr> QueueMode = Inr (db', a)"
    using assms(1) unfolding start_autonomous_job_def Let_def
    by (auto simp: rbind_eq_Inr split: option.splits)
  have id: "job_id new = jid" by (simp add: n(1) autonomous_job_row_def new_job_row_def)
  have fresh: "readJobById db jid = None"
    using n(2) id by (auto simp: insert_job_def list_ex_iff readJobById_def get_where_None split: if_splits)
  have db1: "db1 = db\<lparr>jobs_table := jobs_table db @ [\<lparr>row_job = new, autoContinueCount = 0, autoContinueKey = None,
      autoContinueEscalatedAt = None\<rparr>]\<rparr>"
    using n(2) by (simp add: insert_job_def split: if_splits)
  have ok1: "jobs_ok db1" "readJobById db1 k = (if k = jid then Some new else readJobById db k)" for k
    using readJobById_append[OF assms(2), of new "\<lparr>row_job = new, autoContinueCount = 0, autoContinueKey = None,
      autoContinueEscalatedAt = None\<rparr>"] fresh id unfolding db1 by simp_all
  then have c: "created = new" using n(3) by simp
  note st = store_transition_reads[OF n(4) ok1(1)]
  have "readJobById db1 (job_id created) = Some created" using n(3) c id by simp
  note st = st[OF this]
  have "readJobById db' k = readJobById db2 k" "jobs_ok db' = jobs_ok db2" for k
    using queue_keeps_jobs[OF n(5)] by (simp_all add: readJobById_def jobs_ok_def)
  then show ?thesis using st ok1 fresh c id by auto
qed

lemma create_created:
  assumes "createAutonomousJob env w i = Inr (w', AutonomousCreated j)"
  obtains pol day db where "assertAutonomousInput i = Inr ()" "getProjectPolicy (workGrants w) (auProjectId i) = Some pol"
    "enabled (storedPolicy pol)" "utcDayOf (whole (auNow i)) = Inr day" "autonomous_refusal_of w (storedPolicy pol) day i = None"
    "start_autonomous_job env (workDb w) pol i = Inr (db, j)" "workDb w' = db" "workPauses w' = workPauses w"
    "workFindings w' = (case auIntake i of None \<Rightarrow> workFindings w
       | Some t \<Rightarrow> workFindings (record_intake (auProjectId i) day (job_id j) (whole (auNow i)) t w))"
    "crSha ` set (workReverts w') = (case auRevert i of None \<Rightarrow> {} | Some v \<Rightarrow> {rvSha v}) \<union> crSha ` set (workReverts w)"
proof -
  obtain pol day db where
    *: "assertAutonomousInput i = Inr ()" "getProjectPolicy (workGrants w) (auProjectId i) = Some pol"
    "enabled (storedPolicy pol)" "utcDayOf (whole (auNow i)) = Inr day" "autonomous_refusal_of w (storedPolicy pol) day i = None"
    "start_autonomous_job env (workDb w) pol i = Inr (db, j)"
    and rec: "record_start day i db j w = Inr w'"
    using assms unfolding createAutonomousJob_def by (auto simp: result_simps split: option.splits if_splits)
  have "workDb w' = db" "workPauses w' = workPauses w"
    "workFindings w' = (case auIntake i of None \<Rightarrow> workFindings w
       | Some t \<Rightarrow> workFindings (record_intake (auProjectId i) day (job_id j) (whole (auNow i)) t w))"
    "crSha ` set (workReverts w') = (case auRevert i of None \<Rightarrow> {} | Some v \<Rightarrow> {rvSha v}) \<union> crSha ` set (workReverts w)"
    using rec by (auto simp: record_start_def record_intake_def record_revert_def intake_of_def Let_def split: option.splits if_splits)
  then show ?thesis by (rule that[OF *])
qed

end
