(* ===== verification/Autonomous_Properties.thy ===== *)
theory Autonomous_Properties
  imports Autonomous_Lemmas Pipeline_Demo
begin

text \<open>
  The bounds on work nobody asked for, the brake on a project that keeps failing, and where the brake
  does not come back.
\<close>

subsection \<open>The starts of unattended work\<close>

text \<open>One start: the project, the day, the day's allowance when it was an intake, the commit when it was a revert.\<close>

record work_start =
  stProject :: string
  stDay :: string
  stAllowance :: "int option"
  stRevert :: "string option"

definition start_of :: "work_db \<Rightarrow> autonomous_input \<Rightarrow> work_start" where
  "start_of w i =
     \<lparr>stProject = auProjectId i, stDay = (case utcDayOf (whole (auNow i)) of Inl _ \<Rightarrow> [] | Inr d \<Rightarrow> d),
      stAllowance = (case (auIntake i, getProjectPolicy (workGrants w) (auProjectId i)) of
          (Some _, Some pol) \<Rightarrow> (case autonomy (storedPolicy pol) of None \<Rightarrow> None | Some au \<Rightarrow> intakeMaxJobsPerDay au)
        | _ \<Rightarrow> None),
      stRevert = map_option rvSha (auRevert i)\<rparr>"

text \<open>
  What the rest of the program may do meanwhile: anything but touch the two ledgers, remove a job or set
  a job's \<open>updated_at\<close> back.
\<close>

definition later :: "work_db \<Rightarrow> work_db \<Rightarrow> bool" where
  "later w w' \<longleftrightarrow> workFindings w' = workFindings w \<and> workReverts w' = workReverts w \<and> jobs_ok (workDb w') \<and>
     (\<forall>k j. readJobById (workDb w) k = Some j \<longrightarrow> (\<exists>j'. readJobById (workDb w') k = Some j' \<and> updatedAt j \<le> updatedAt j'))"

inductive work_run :: "work_env \<Rightarrow> int \<Rightarrow> work_start list \<Rightarrow> work_db \<Rightarrow> bool" for env :: work_env where
  fresh: "jobs_ok (workDb w) \<Longrightarrow> workFindings w = [] \<Longrightarrow> work_run env t [] w"
| started: "work_run env t log w \<Longrightarrow> createAutonomousJob env w i = Inr (w', AutonomousCreated j) \<Longrightarrow>
    t \<le> whole (auNow i) \<Longrightarrow> whole (auNow i) < year_10000 \<Longrightarrow> work_run env (whole (auNow i)) (log @ [start_of w i]) w'"
| meanwhile: "work_run env t log w \<Longrightarrow> later w w' \<Longrightarrow> t \<le> t' \<Longrightarrow> work_run env t' log w'"

definition logged :: "work_start list \<Rightarrow> string \<Rightarrow> string \<Rightarrow> nat" where
  "logged log p d = length (filter (\<lambda>s. stProject s = p \<and> stDay s = d \<and> stAllowance s \<noteq> None) log)"

definition largest_allowance :: "work_start list \<Rightarrow> string \<Rightarrow> string \<Rightarrow> int" where
  "largest_allowance log p d =
     foldr max (map (\<lambda>s. the (stAllowance s)) (filter (\<lambda>s. stProject s = p \<and> stDay s = d \<and> stAllowance s \<noteq> None) log)) 0"

text \<open>The pipeline keeps this: a stored transition moves \<open>updated_at\<close> of its job to its own time.\<close>

lemma transition_is_later:
  assumes "store_transition rt web (workDb w) j e now = Inr (db', j')" and "jobs_ok (workDb w)"
    and "readJobById (workDb w) (job_id j) = Some j" and "updatedAt j \<le> now"
  shows "later w (w\<lparr>workDb := db'\<rparr>)"
  using store_transition_reads[OF assms(1-3)] assms(3,4) by (auto simp: later_def)

definition finding_ok :: "int \<Rightarrow> work_db \<Rightarrow> intake_row \<Rightarrow> bool" where
  "finding_ok t w f \<longleftrightarrow> 0 \<le> ifStartedAt f \<and> ifStartedAt f \<le> t \<and> ifStartedAt f < year_10000 \<and>
     utcDayOf (ifStartedAt f) = Inr (ifUtcDay f) \<and>
     (\<exists>j. readJobById (workDb w) (ifJobId f) = Some j \<and> ifStartedAt f \<le> updatedAt j)"

definition intake_key :: "intake_row \<Rightarrow> string \<times> string" where
  "intake_key f = (ifProject f, ifFingerprint f)"

definition ledger_inv :: "int \<Rightarrow> work_start list \<Rightarrow> work_db \<Rightarrow> bool" where
  "ledger_inv t log w \<longleftrightarrow> jobs_ok (workDb w) \<and> unique_key intake_key (workFindings w) \<and>
     (\<forall>f \<in> set (workFindings w). finding_ok t w f) \<and>
     (\<forall>now p d. t \<le> now \<and> now < year_10000 \<and> 0 \<le> now \<and> utcDayOf now = Inr d \<longrightarrow> logged log p d \<le> intakes_on w p d)"

lemma ledger_invI:
  assumes "jobs_ok (workDb w)" "unique_key intake_key (workFindings w)" "\<And>f. f \<in> set (workFindings w) \<Longrightarrow> finding_ok t w f"
    and "\<And>m p d. t \<le> m \<Longrightarrow> m < year_10000 \<Longrightarrow> 0 \<le> m \<Longrightarrow> utcDayOf m = Inr d \<Longrightarrow> logged log p d \<le> intakes_on w p d"
  shows "ledger_inv t log w"
  using assms by (simp add: ledger_inv_def) blast

lemma ledger_invD:
  assumes "ledger_inv t log w"
  shows "jobs_ok (workDb w)" "unique_key intake_key (workFindings w)" "f \<in> set (workFindings w) \<Longrightarrow> finding_ok t w f"
    "t \<le> m \<Longrightarrow> m < year_10000 \<Longrightarrow> 0 \<le> m \<Longrightarrow> utcDayOf m = Inr d \<Longrightarrow> logged log p d \<le> intakes_on w p d"
  using assms by (auto simp: ledger_inv_def)

lemma changes_replace:
  assumes "unique_key k t" "r \<in> set t" "k r = v" "\<not> q r"
  shows "changes q (update_where (\<lambda>r. k r = v) (\<lambda>_. x) t) = changes q t + (if q x then 1 else 0)"
  using assms(1,2)
proof (induction t)
  case (Cons y t)
  show ?case
  proof (cases "k y = v")
    case True
    then have "k z \<noteq> v" if "z \<in> set t" for z
      using Cons.prems(1) that True unfolding unique_key_def by (metis distinct.simps(2) image_eqI list.map(2) list.set_map)
    then have "update_where (\<lambda>r. k r = v) (\<lambda>_. x) t = t" by (simp add: update_where_def map_idI)
    moreover have "y = r" using unique_eqI[OF Cons.prems(1), of y r] Cons.prems(2) True assms(3) by simp
    ultimately show ?thesis using True assms(4) by (simp add: changes_def update_where_def)
  next
    case False
    then have "r \<in> set t" using Cons.prems(2) assms(3) by auto
    then show ?thesis using Cons False by (simp add: changes_def update_where_def unique_key_def)
  qed
qed simp

lemma refusal_intake:
  assumes "autonomous_refusal_of w pol day i = None" and "auIntake i = Some u"
  shows "intake_refusal w pol (auProjectId i) day u (whole (auNow i)) = None"
  using assms by (auto simp: autonomous_refusal_of_def split: option.splits)

lemma old_finding_is_old:
  assumes "intake_refusal w pol pid day u now = None" and "intake_of w pid (inFingerprint u) = Some f"
    and "\<forall>g \<in> set (workFindings w). finding_ok t w g"
  shows "ifStartedAt f + INTAKE_SUPPRESSION_MS \<le> now" "finding_ok t w f" "f \<in> set (workFindings w)" "intake_key f = (pid, inFingerprint u)"
proof -
  show f: "f \<in> set (workFindings w)" "intake_key f = (pid, inFingerprint u)"
    using get_where_Some[OF assms(2)[unfolded intake_of_def]] by (auto simp: intake_key_def)
  then show ok: "finding_ok t w f" using assms(3) by blast
  then obtain j where j: "readJobById (workDb w) (ifJobId f) = Some j" "ifStartedAt f \<le> updatedAt j" by (auto simp: finding_ok_def)
  then show "ifStartedAt f + INTAKE_SUPPRESSION_MS \<le> now"
    using assms(1,2) by (auto simp: intake_refusal_def split: option.splits if_splits)
qed

lemma same_day_near:
  assumes "utcDayOf s = Inr d" "utcDayOf t = Inr d" "0 \<le> s" "s < year_10000" "0 \<le> t" "t < year_10000"
  shows "t < s + DAY_MS"
proof -
  have "t div DAY_MS = s div DAY_MS" using same_utc_day[OF assms(2,1)] assms by blast
  moreover have "t < (t div DAY_MS + 1) * DAY_MS" "s div DAY_MS * DAY_MS \<le> s" by (simp_all add: DAY_MS_def)
  ultimately show ?thesis by (simp add: algebra_simps)
qed


text \<open>The ledger of findings after a start: one row more of that project and day, none less of a later day.\<close>

lemma recorded_intake:
  assumes inv: "ledger_inv t log w" and refusal: "intake_refusal w pol pid day u now = None"
    and now: "t \<le> now" "now < year_10000" "0 \<le> now" "utcDayOf now = Inr day"
    and later: "now \<le> m" "m < year_10000" "utcDayOf m = Inr d"
  shows "changes (\<lambda>f. ifProject f = p \<and> ifUtcDay f = d) (workFindings (record_intake pid day jid now u w)) =
      intakes_on w p d + (if p = pid \<and> d = day then 1 else 0)"
proof (cases "intake_of w pid (inFingerprint u)")
  case None
  then show ?thesis by (auto simp: record_intake_def intakes_on_def changes_def)
next
  case (Some f)
  let ?new = "\<lparr>ifProject = pid, ifFingerprint = inFingerprint u, ifAuditId = inAuditId u, ifSubject = inSubject u,
    ifJobId = jid, ifUtcDay = day, ifStartedAt = now\<rparr>"
  note f = old_finding_is_old[OF refusal Some] 
  have fok: "ifStartedAt f + INTAKE_SUPPRESSION_MS \<le> now" "finding_ok t w f" "f \<in> set (workFindings w)"
    "intake_key f = (pid, inFingerprint u)"
    using f inv by (auto simp: ledger_inv_def)
  have "ifUtcDay f \<noteq> d"
    using same_day_near[of "ifStartedAt f" d m] fok(1,2) later now
    by (auto simp: finding_ok_def INTAKE_SUPPRESSION_MS_def DAY_MS_def)
  then have "changes (\<lambda>f. ifProject f = p \<and> ifUtcDay f = d) (update_where (\<lambda>r. intake_key r = (pid, inFingerprint u)) (\<lambda>_. ?new) (workFindings w)) =
      intakes_on w p d + (if ifProject ?new = p \<and> ifUtcDay ?new = d then 1 else 0)"
    unfolding intakes_on_def using inv fok(3,4) by (intro changes_replace) (auto simp: ledger_inv_def)
  moreover have "workFindings (record_intake pid day jid now u w) =
      update_where (\<lambda>r. intake_key r = (pid, inFingerprint u)) (\<lambda>_. ?new) (workFindings w)"
    using Some by (simp add: record_intake_def intake_key_def)
  ultimately show ?thesis by auto
qed

lemma recorded_rows:
  assumes "f \<in> set (workFindings (record_intake pid day jid now u w))"
  shows "f \<in> set (workFindings w) \<or> (ifUtcDay f = day \<and> ifJobId f = jid \<and> ifStartedAt f = now)"
  using assms by (auto simp: record_intake_def Let_def table_simps split: if_splits)

lemma recorded_unique:
  "unique_key intake_key (workFindings w) \<Longrightarrow> unique_key intake_key (workFindings (record_intake pid day jid now u w))"
proof (cases "intake_of w pid (inFingerprint u)")
  case None
  assume "unique_key intake_key (workFindings w)"
  moreover have "(pid, inFingerprint u) \<notin> intake_key ` set (workFindings w)"
    using None by (auto simp: intake_of_def get_where_None intake_key_def)
  ultimately show ?thesis using None by (simp add: record_intake_def unique_append intake_key_def)
next
  case (Some f)
  assume "unique_key intake_key (workFindings w)"
  then show ?thesis using Some
    by (auto simp: record_intake_def intake_key_def intro!: update_hit_unique[of _ _ _ "(pid, inFingerprint u)"])
qed

lemma run_inv: "work_run env t log w \<Longrightarrow> ledger_inv t log w"
proof (induction rule: work_run.induct)
  case (fresh w t)
  then show ?case by (simp add: ledger_inv_def unique_key_def logged_def)
next
  case (meanwhile t log w w' t')
  note inv = ledger_invD[OF meanwhile(4)]
  have "finding_ok t' w' f" if "finding_ok t w f" for f
    using that meanwhile(2,3) unfolding finding_ok_def later_def by (meson order_trans)
  moreover have "logged log p d \<le> intakes_on w' p d" if "t' \<le> m" "m < year_10000" "0 \<le> m" "utcDayOf m = Inr d" for m p d
    using inv(4)[of m d p] that meanwhile(2,3) by (simp add: later_def intakes_on_def)
  ultimately show ?case using inv(1-3) meanwhile(2) by (intro ledger_invI) (auto simp: later_def)
next
  case (started t log w i w' j)
  let ?now = "whole (auNow i)" and ?pid = "auProjectId i"
  note inv = started(5)
  from started(2) obtain pol day db where
    c: "assertAutonomousInput i = Inr ()" "getProjectPolicy (workGrants w) ?pid = Some pol" "utcDayOf ?now = Inr day"
      "autonomous_refusal_of w (storedPolicy pol) day i = None" "start_autonomous_job env (workDb w) pol i = Inr (db, j)" "workDb w' = db"
      "workFindings w' = (case auIntake i of None \<Rightarrow> workFindings w
         | Some t \<Rightarrow> workFindings (record_intake ?pid day (job_id j) ?now t w))"
    by (rule create_created)
  have now: "t \<le> ?now" "?now < year_10000" "0 \<le> ?now"
    using started(3,4) c(1) by (auto simp: assertAutonomousInput_def assertNonNegativeInteger_def result_simps)
  have jobs: "jobs_ok db" "readJobById (workDb w) (job_id j) = None" "updatedAt j = ?now"
    "readJobById db k = (if k = job_id j then Some j else readJobById (workDb w) k)" for k
    using start_reads[OF c(5)] inv by (auto simp: ledger_inv_def)
  have keep: "finding_ok ?now w' f" if "finding_ok t w f" for f
    using that now(1) jobs(2,4) c(6) by (auto simp: finding_ok_def)
  show ?case
  proof (cases "auIntake i")
    case None
    then have "stAllowance (start_of w i) = None" by (simp add: start_of_def)
    then have "logged (log @ [start_of w i]) p d = logged log p d" for p d by (simp add: logged_def)
    moreover have "workFindings w' = workFindings w" using c(7) None by simp
    moreover have "logged log p d \<le> intakes_on w p d" if "?now \<le> m" "m < year_10000" "0 \<le> m" "utcDayOf m = Inr d" for m p d
      using ledger_invD(4)[OF inv, of m d p] that now(1) by simp
    ultimately show ?thesis using ledger_invD(2,3)[OF inv] keep c(6) jobs(1)
      by (intro ledger_invI) (simp_all add: intakes_on_def)
  next
    case (Some u)
    note refusal = refusal_intake[OF c(4) Some]
    have f: "workFindings w' = workFindings (record_intake ?pid day (job_id j) ?now u w)" using c(7) Some by simp
    have rows: "finding_ok ?now w' g" if "g \<in> set (workFindings w')" for g
      using recorded_rows[OF that[unfolded f]] keep inv now jobs c(3,6) by (auto simp: ledger_inv_def finding_ok_def)
    have "logged (log @ [start_of w i]) p d \<le> intakes_on w' p d"
      if m: "?now \<le> m" "m < year_10000" "0 \<le> m" "utcDayOf m = Inr d" for m p d
    proof -
      have "logged log p d \<le> intakes_on w p d" using ledger_invD(4)[OF inv, of m d p] m now by simp
      moreover have "intakes_on w' p d = intakes_on w p d + (if p = ?pid \<and> d = day then 1 else 0)"
        using recorded_intake[OF inv refusal now c(3) m(1,2,4), of p "job_id j"] by (simp add: intakes_on_def f)
      ultimately show ?thesis using c(3) by (auto simp: logged_def start_of_def)
    qed
    then show ?thesis
      using ledger_invD(2)[OF inv] rows jobs(1) recorded_unique[of w ?pid day "job_id j" ?now u] c(6) f by (intro ledger_invI) simp_all
  qed
qed

text \<open>C33: however often the audits and the self-diagnosis ask, whatever the pipeline does between, the jobs they start
  for a project on one UTC day are at most the largest daily allowance its policy had when one was started that day.  The histories
  are those of a clock that does not go back and stays below the year 10000, with nobody else writing the ledger.\<close>

theorem daily_allowance_is_kept:
  assumes "work_run env t log w"
  shows "int (logged log p d) \<le> largest_allowance log p d"
  using assms
proof (induction rule: work_run.induct)
  case (started t log w i w' j)
  let ?s = "start_of w i"
  show ?case
  proof (cases "stProject ?s = p \<and> stDay ?s = d \<and> stAllowance ?s \<noteq> None")
    case False
    then show ?thesis using started.IH by (auto simp: logged_def largest_allowance_def)
  next
    case True
    then obtain u where u: "auIntake i = Some u" by (auto simp: start_of_def split: option.splits)
    from started(2) obtain pol day where
      c: "assertAutonomousInput i = Inr ()" "getProjectPolicy (workGrants w) (auProjectId i) = Some pol" "utcDayOf (whole (auNow i)) = Inr day"
        "autonomous_refusal_of w (storedPolicy pol) day i = None"
      by (rule create_created)
    have pd: "p = auProjectId i" "d = day" using True c(3) by (auto simp: start_of_def)
    have "int (intakes_on w p d) < the (stAllowance ?s)"
      using refusal_intake[OF c(4) u] True u c(2) pd by (auto simp: intake_refusal_def start_of_def split: option.splits if_splits)
    moreover have "0 \<le> whole (auNow i)" using c(1) by (auto simp: assertAutonomousInput_def assertNonNegativeInteger_def result_simps)
    then have "logged log p d \<le> intakes_on w p d"
      using run_inv[OF started(1)] started(3,4) c(3) pd by (auto simp: ledger_inv_def)
    moreover have "logged (log @ [?s]) p d = Suc (logged log p d)" using True by (simp add: logged_def)
    moreover have "the (stAllowance ?s) \<le> largest_allowance (log @ [?s]) p d"
    proof -
      have "a \<le> foldr max (xs @ [a]) 0" for a :: int and xs by (induction xs) auto
      then show ?thesis using True by (simp add: largest_allowance_def del: foldr_append)
    qed
    ultimately show ?thesis by linarith
  qed
qed (simp_all add: logged_def largest_allowance_def)


lemma reverts_snoc:
  "List.map_filter stRevert (log @ [s]) = List.map_filter stRevert log @ (case stRevert s of None \<Rightarrow> [] | Some v \<Rightarrow> [v])"
  by (simp add: List.map_filter_def split: option.split)

text \<open>C34: a merge commit gets at most one automatic revert, for all time: no two starts of a history revert the same
  commit, whether the first revert failed, was cancelled or landed.\<close>

theorem merge_is_reverted_once:
  assumes "work_run env t log w"
  shows "distinct (List.map_filter stRevert log)"
proof -
  from assms have "distinct (List.map_filter stRevert log) \<and> set (List.map_filter stRevert log) \<subseteq> crSha ` set (workReverts w)"
  proof (induction rule: work_run.induct)
    case (started t log w i w' j)
    from started(2) obtain pol :: stored_policy and day where r: "autonomous_refusal_of w (storedPolicy pol) day i = None"
      "crSha ` set (workReverts w') = (case auRevert i of None \<Rightarrow> {} | Some v \<Rightarrow> {rvSha v}) \<union> crSha ` set (workReverts w)"
      by (rule create_created)
    have "rvSha v \<notin> crSha ` set (workReverts w)" if "auRevert i = Some v" for v
      using r(1) that by (auto simp: autonomous_refusal_of_def list_ex_iff split: option.splits if_splits)
    moreover have "stRevert (start_of w i) = map_option rvSha (auRevert i)" by (simp add: start_of_def)
    ultimately show ?case using started.IH r(2) unfolding reverts_snoc by (cases "auRevert i") auto
  qed (simp_all add: later_def List.map_filter_def)
  then show ?thesis by blast
qed

subsection \<open>The brake\<close>

datatype brake_call =
  CallPause string string "string option" js_number
| CallEscalate string string js_number
| CallAgentClear string js_number bool int
| CallOwnerClear "string option" js_number

text \<open>The live brakes with a cause that a clear of the owner takes off.\<close>

definition owner_lifts :: "work_db \<Rightarrow> string option \<Rightarrow> (cleared_by \<times> string \<times> string) list" where
  "owner_lifts w project = List.map_filter (\<lambda>p. map_option (\<lambda>fp. (ClearedByOwner, pauseProject p, fp)) (pauseFingerprint p))
     (filter (\<lambda>p. (case project of None \<Rightarrow> True | Some pid \<Rightarrow> pauseProject p = pid) \<and> pauseClearedAt p = None) (workPauses w))"

text \<open>One call: the tables it leaves (unchanged when it throws) and the causes it lifted, with who lifted them.\<close>

fun apply_brake :: "work_db \<Rightarrow> brake_call \<Rightarrow> work_db \<times> (cleared_by \<times> string \<times> string) list" where
  "apply_brake w (CallPause pid why fp now) =
     (case pauseProjectAdmission w pid why fp now of Inl _ \<Rightarrow> (w, []) | Inr (w', _) \<Rightarrow> (w', []))"
| "apply_brake w (CallEscalate pid why now) =
     (case escalateProjectAdmissionPause w pid why now of Inl _ \<Rightarrow> (w, []) | Inr (w', _) \<Rightarrow> (w', []))"
| "apply_brake w (CallAgentClear pid now current at) =
     (case clearProjectAdmissionPauseAsAgent w pid now current at of
        Inr (w', AgentCleared) \<Rightarrow>
          (w', [(ClearedByAgent, pid,
             case live_pause w pid of None \<Rightarrow> [] | Some p \<Rightarrow> (case pauseFingerprint p of None \<Rightarrow> [] | Some fp \<Rightarrow> fp))])
      | _ \<Rightarrow> (w, []))"
| "apply_brake w (CallOwnerClear project now) =
     (case clearProjectAdmissionPause w project now of Inl _ \<Rightarrow> (w, []) | Inr (w', _) \<Rightarrow> (w', owner_lifts w project))"

fun brake_calls :: "work_db \<Rightarrow> brake_call list \<Rightarrow> work_db \<times> (cleared_by \<times> string \<times> string) list" where
  "brake_calls w [] = (w, [])"
| "brake_calls w (c # cs) =
     (let (w1, l1) = apply_brake w c; (w2, l2) = brake_calls w1 cs in (w2, l1 @ l2))"

definition cleared_causes :: "work_db \<Rightarrow> (string \<times> string) set" where
  "cleared_causes w = (\<lambda>c. (clearProject c, clearFingerprint c)) ` set (workClears w)"

lemma record_clears_grows: "set h \<subseteq> set (record_clears now ps h)"
proof (induction ps arbitrary: h)
  case (Cons p ps)
  have "set h \<subseteq> set (record_clears now ps (h @ [c]))" for c using Cons[of "h @ [c]"] by auto
  then show ?case using Cons[of h] by (auto split: option.splits)
qed simp

lemma record_clears_records:
  "p \<in> set ps \<Longrightarrow> pauseFingerprint p = Some fp \<Longrightarrow> length fp = 64 \<Longrightarrow>
   (pauseProject p, fp) \<in> (\<lambda>c. (clearProject c, clearFingerprint c)) ` set (record_clears now ps h)"
proof (induction ps arbitrary: h)
  case (Cons q ps)
  let ?c = "\<lparr>clearProject = pauseProject q, clearFingerprint = fp, clearAt = now, clearBy = ClearedByOwner\<rparr>"
  show ?case
  proof (cases "p = q")
    case True
    show ?thesis
    proof (cases "list_ex (\<lambda>c. clearProject c = pauseProject q \<and> clearFingerprint c = fp) h")
      case known: True
      then obtain c where "c \<in> set h" "clearProject c = pauseProject q" "clearFingerprint c = fp" by (auto simp: list_ex_iff)
      moreover have "set h \<subseteq> set (record_clears now ps h)" by (rule record_clears_grows)
      ultimately show ?thesis using Cons.prems True known by force
    next
      case False
      have "?c \<in> set (record_clears now ps (h @ [?c]))" using record_clears_grows [of "h @ [?c]" now ps] by auto
      then show ?thesis using Cons.prems True False by (force simp: image_iff)
    qed
  next
    case False
    with Cons show ?thesis by (auto split: option.splits)
  qed
qed simp

lemma agent_clear_cases:
  assumes "clearProjectAdmissionPauseAsAgent w pid now current at = Inr (w', AgentCleared)"
  obtains p fp where "live_pause w pid = Some p" "pauseFingerprint p = Some fp" "(pid, fp) \<notin> cleared_causes w"
    "workClears w' = workClears w @ [\<lparr>clearProject = pid, clearFingerprint = fp, clearAt = at, clearBy = ClearedByAgent\<rparr>]"
    "workPauses w' = clear_pauses (\<lambda>p. pauseProject p = pid) at (workPauses w)" "length fp = 64"
proof -
  note d = clearProjectAdmissionPauseAsAgent_def cleared_causes_def list_ex_iff result_simps
  obtain p where p: "live_pause w pid = Some p" using assms by (cases "live_pause w pid") (auto simp: d split: if_splits)
  obtain fp where fp: "pauseFingerprint p = Some fp" using assms p by (cases "pauseFingerprint p") (auto simp: d split: if_splits)
  show thesis by (rule that[OF p fp]) (use assms p fp in \<open>auto simp: d split: if_splits\<close>)
qed

text \<open>The agent lifts nothing that was lifted before it.\<close>

definition lifted_before :: "cleared_by \<times> string \<times> string \<Rightarrow> cleared_by \<times> string \<times> string \<Rightarrow> bool" where
  "lifted_before a b \<longleftrightarrow> fst b = ClearedByAgent \<and> snd a = snd b"

definition call_lifts_ok :: "work_db \<Rightarrow> brake_call \<Rightarrow> bool" where
  "call_lifts_ok w c \<longleftrightarrow> (let (w', l) = apply_brake w c in cleared_causes w \<subseteq> cleared_causes w' \<and>
     (\<forall>x \<in> set l. length (snd (snd x)) = 64 \<longrightarrow> snd x \<in> cleared_causes w') \<and>
     (\<forall>x \<in> set l. fst x = ClearedByAgent \<longrightarrow> snd x \<notin> cleared_causes w \<and> length (snd (snd x)) = 64) \<and>
     sorted_wrt (\<lambda>a b. \<not> lifted_before a b) l)"

lemma brake_call_clears: "call_lifts_ok w c"
proof (cases c)
  case (CallPause pid why fp now)
  then show ?thesis
    by (auto simp: call_lifts_ok_def pauseProjectAdmission_def cleared_causes_def Let_def result_simps split: sum.splits if_splits)
next
  case (CallEscalate pid why now)
  then show ?thesis
    by (auto simp: call_lifts_ok_def escalateProjectAdmissionPause_def cleared_causes_def Let_def result_simps split: sum.splits if_splits)
next
  case (CallAgentClear pid now current at)
  show ?thesis
  proof (cases "\<exists>w'. clearProjectAdmissionPauseAsAgent w pid now current at = Inr (w', AgentCleared)")
    case True
    then obtain w' where w': "clearProjectAdmissionPauseAsAgent w pid now current at = Inr (w', AgentCleared)" by blast
    then show ?thesis by (rule agent_clear_cases) (use w' CallAgentClear in \<open>auto simp: call_lifts_ok_def cleared_causes_def\<close>)
  next
    case False
    then have "apply_brake w c = (w, [])" using CallAgentClear by (auto split: sum.splits agent_clear.splits)
    then show ?thesis by (simp add: call_lifts_ok_def)
  qed
next
  case (CallOwnerClear project now)
  show ?thesis
  proof (cases "clearProjectAdmissionPause w project now")
    case (Inl e)
    then show ?thesis using CallOwnerClear by (simp add: call_lifts_ok_def)
  next
    case (Inr q)
    let ?live = "filter (\<lambda>p. (case project of None \<Rightarrow> True | Some pid \<Rightarrow> pauseProject p = pid) \<and> pauseClearedAt p = None) (workPauses w)"
    from Inr have clears: "workClears (fst q) = record_clears (whole now) ?live (workClears w)"
      by (auto simp: clearProjectAdmissionPause_def Let_def result_simps)
    have lifts: "x \<in> set (owner_lifts w project) \<longleftrightarrow>
        (\<exists>p \<in> set ?live. \<exists>fp. pauseFingerprint p = Some fp \<and> x = (ClearedByOwner, pauseProject p, fp))" for x
      by (auto simp: owner_lifts_def map_filter_def image_iff)
    have "sorted_wrt (\<lambda>a b. \<not> lifted_before a b) (owner_lifts w project)"
      by (rule sorted_wrt_mono_rel [of _ "\<lambda>_ _. True"]) (auto simp: lifted_before_def lifts sorted_wrt_iff_nth_less)
    moreover have "cleared_causes w \<subseteq> cleared_causes (fst q)"
      unfolding cleared_causes_def clears by (rule image_mono [OF record_clears_grows])
    moreover have "snd x \<in> cleared_causes (fst q)" if "x \<in> set (owner_lifts w project)" "length (snd (snd x)) = 64" for x
      using that record_clears_records [of _ ?live _ "whole now" "workClears w"] unfolding lifts cleared_causes_def clears by force
    ultimately show ?thesis using Inr CallOwnerClear lifts by (auto simp: call_lifts_ok_def case_prod_beta)
  qed
qed

text \<open>C35: the agent lifts the brake of a project at most once for each failure, and never for a failure that the owner has
  lifted it for: over any sequence of pauses, brakes and clears, no lift by the agent is preceded by a lift of the same failure of
  the same project, whether the agent's own or the owner's, and none is of a failure that the history had before.\<close>

theorem agent_lifts_each_cause_once:
  "sorted_wrt (\<lambda>a b. \<not> lifted_before a b) (snd (brake_calls w cs)) \<and>
   (\<forall>x \<in> set (snd (brake_calls w cs)). fst x \<noteq> ClearedByAgent \<or> snd x \<notin> cleared_causes w)"
proof -
  have "sorted_wrt (\<lambda>a b. \<not> lifted_before a b) (snd (brake_calls w cs)) \<and>
    (\<forall>x \<in> set (snd (brake_calls w cs)). fst x = ClearedByAgent \<longrightarrow> snd x \<notin> cleared_causes w \<and> length (snd (snd x)) = 64)"
  proof (induction cs arbitrary: w)
    case (Cons c cs)
    obtain w1 l1 where c: "apply_brake w c = (w1, l1)" by fastforce
    obtain w2 l2 where cs: "brake_calls w1 cs = (w2, l2)" by fastforce
    from brake_call_clears [of w c] c have one: "cleared_causes w \<subseteq> cleared_causes w1"
      "\<forall>x \<in> set l1. length (snd (snd x)) = 64 \<longrightarrow> snd x \<in> cleared_causes w1"
      "\<forall>x \<in> set l1. fst x = ClearedByAgent \<longrightarrow> snd x \<notin> cleared_causes w \<and> length (snd (snd x)) = 64"
      "sorted_wrt (\<lambda>a b. \<not> lifted_before a b) l1" by (simp_all add: call_lifts_ok_def)
    from Cons [of w1] cs have rest: "sorted_wrt (\<lambda>a b. \<not> lifted_before a b) l2"
      "\<forall>x \<in> set l2. fst x = ClearedByAgent \<longrightarrow> snd x \<notin> cleared_causes w1 \<and> length (snd (snd x)) = 64" by simp_all
    have "\<not> lifted_before a b" if "a \<in> set l1" "b \<in> set l2" for a b
      using that one(2) rest(2) by (auto simp: lifted_before_def)
    then show ?case using one rest c cs by (auto simp: sorted_wrt_append)
  qed simp
  then show ?thesis by blast
qed

subsection \<open>A brake only the owner lifts\<close>

definition owner_held :: "work_db \<Rightarrow> string \<Rightarrow> bool" where
  "owner_held w pid \<longleftrightarrow> (\<exists>p \<in> set (workPauses w). pauseProject p = pid) \<and>
     (\<forall>p \<in> set (workPauses w). pauseProject p = pid \<longrightarrow> pauseClearedAt p = None \<and> pauseFingerprint p = None)"

lemma owner_held_live: "owner_held w pid \<Longrightarrow> \<exists>p. live_pause w pid = Some p \<and> pauseFingerprint p = None"
proof -
  assume h: "owner_held w pid"
  then have "live_pause w pid \<noteq> None" by (auto simp: owner_held_def live_pause_def get_where_None)
  then obtain p where p: "live_pause w pid = Some p" by blast
  then show ?thesis using get_where_Some[OF p[unfolded live_pause_def]] h by (auto simp: owner_held_def)
qed

lemma held_map:
  assumes "p \<in> set (workPauses w)" "pauseProject p = pid" and "workPauses w' = update_where hit f (workPauses w)"
    and "\<And>q. q \<in> set (workPauses w) \<Longrightarrow> pauseProject q = pid \<Longrightarrow> pauseProject (if hit q then f q else q) = pid \<and>
      pauseClearedAt (if hit q then f q else q) = None \<and> pauseFingerprint (if hit q then f q else q) = None"
    and "\<And>q. q \<in> set (workPauses w) \<Longrightarrow> pauseProject q \<noteq> pid \<Longrightarrow> pauseProject (if hit q then f q else q) \<noteq> pid"
  shows "owner_held w' pid"
  unfolding owner_held_def
proof
  have "(if hit p then f p else p) \<in> set (workPauses w')" using assms(1) by (auto simp: assms(3) update_where_def)
  then show "\<exists>p \<in> set (workPauses w'). pauseProject p = pid" using assms(4)[OF assms(1,2)] by blast
  show "\<forall>p \<in> set (workPauses w'). pauseProject p = pid \<longrightarrow> pauseClearedAt p = None \<and> pauseFingerprint p = None"
  proof (intro ballI impI)
    fix r assume r: "r \<in> set (workPauses w')" "pauseProject r = pid"
    then obtain q where "q \<in> set (workPauses w)" "r = (if hit q then f q else q)"
      unfolding assms(3) update_where_def by auto
    then show "pauseClearedAt r = None \<and> pauseFingerprint r = None" using assms(4,5)[of q] r(2) by (cases "pauseProject q = pid") auto
  qed
qed

lemma held_update:
  assumes "owner_held w pid" and "workPauses w' = update_where hit f (workPauses w)"
    and "\<And>q. q \<in> set (workPauses w) \<Longrightarrow> hit q \<Longrightarrow> pauseProject q = pid \<Longrightarrow>
      pauseProject (f q) = pid \<and> pauseClearedAt (f q) = None \<and> pauseFingerprint (f q) = None"
    and "\<And>q. hit q \<Longrightarrow> pauseProject q \<noteq> pid \<Longrightarrow> pauseProject (f q) \<noteq> pid"
  shows "owner_held w' pid"
proof -
  obtain p where "p \<in> set (workPauses w)" "pauseProject p = pid" using assms(1) by (auto simp: owner_held_def)
  then show ?thesis by (rule held_map[OF _ _ assms(2)]) (use assms(1,3,4) in \<open>auto simp: owner_held_def\<close>)
qed

lemma held_append: "owner_held w pid \<Longrightarrow> workPauses w' = workPauses w @ [p] \<Longrightarrow> pauseProject p \<noteq> pid \<Longrightarrow> owner_held w' pid"
  by (auto simp: owner_held_def)

lemma pause_rows:
  assumes "pauseProjectAdmission w pid why fp now = Inr (w', b)"
  obtains new where "pauseProject new = pid" "pauseClearedAt new = None"
    "workPauses w' = (if pause_of w pid = None then workPauses w @ [new]
       else update_where (\<lambda>p. pauseProject p = pid \<and> pauseClearedAt p \<noteq> None) (\<lambda>_. new) (workPauses w))"
    "workEscalations w' = workEscalations w"
proof -
  obtain reason where r: "assertMemoryText why 200 ''pause reason'' = Inr reason"
    using assms by (auto simp: pauseProjectAdmission_def result_simps)
  let ?new = "\<lparr>pauseProject = pid, pauseReason = reason, pauseFingerprint = fp, pausedAt = whole now, pauseClearedAt = None\<rparr>"
  have w': "w' = (if pause_of w pid = None then w\<lparr>workPauses := workPauses w @ [?new]\<rparr>
      else w\<lparr>workPauses := update_where (\<lambda>p. pauseProject p = pid \<and> pauseClearedAt p \<noteq> None) (\<lambda>_. ?new) (workPauses w)\<rparr>)"
    using assms r unfolding pauseProjectAdmission_def Let_def
    by (cases "pause_of w pid = None") (auto simp: result_simps)
  show ?thesis by (rule that[of ?new]) (simp_all add: w')
qed

fun owner_clears :: "string \<Rightarrow> brake_call \<Rightarrow> bool" where
  "owner_clears pid (CallOwnerClear project now) = (project = None \<or> project = Some pid)"
| "owner_clears pid _ = False"

lemma escalate_rows:
  assumes "escalateProjectAdmissionPause w pid why now = Inr (w', b)"
  obtains new where "pauseProject new = pid" "pauseClearedAt new = None" "pauseFingerprint new = None"
    "workPauses w' = (if pause_of w pid = None then workPauses w @ [new]
       else update_where (\<lambda>p. pauseProject p = pid) (\<lambda>p. if pauseClearedAt p = None then new\<lparr>pausedAt := pausedAt p\<rparr> else new) (workPauses w))"
    "b = (case live_pause w' pid of None \<Rightarrow> False | Some p \<Rightarrow> pauseFingerprint p = None)"
proof -
  obtain reason where r: "assertMemoryText why 200 ''pause reason'' = Inr reason"
    using assms by (auto simp: escalateProjectAdmissionPause_def result_simps)
  show ?thesis
    by (rule that[of "\<lparr>pauseProject = pid, pauseReason = reason, pauseFingerprint = None, pausedAt = whole now, pauseClearedAt = None\<rparr>"])
      (use assms r in \<open>auto simp: escalateProjectAdmissionPause_def Let_def result_simps cong: if_cong\<close>)
qed

lemma escalate_holds:
  assumes "escalateProjectAdmissionPause w pid why now = Inr (w', b)"
  shows "owner_held w' pid" "owner_held w q \<Longrightarrow> owner_held w' q"
proof -
  from assms obtain new where new: "pauseProject new = pid" "pauseClearedAt new = None" "pauseFingerprint new = None"
    "workPauses w' = (if pause_of w pid = None then workPauses w @ [new]
       else update_where (\<lambda>p. pauseProject p = pid) (\<lambda>p. if pauseClearedAt p = None then new\<lparr>pausedAt := pausedAt p\<rparr> else new) (workPauses w))"
    by (rule escalate_rows)
  show held: "owner_held w' pid"
  proof (cases "pause_of w pid = None")
    case True
    then show ?thesis using new by (auto simp: owner_held_def pause_of_def get_where_None)
  next
    case False
    then obtain p where p: "p \<in> set (workPauses w)" "pauseProject p = pid" by (auto simp: pause_of_def get_where_None)
    have "workPauses w' = update_where (\<lambda>p. pauseProject p = pid)
        (\<lambda>p. if pauseClearedAt p = None then new\<lparr>pausedAt := pausedAt p\<rparr> else new) (workPauses w)" using new(4) False by simp
    then show ?thesis by (rule held_map[OF p]) (use new in auto)
  qed
  show "owner_held w' q" if h: "owner_held w q"
  proof (cases "q = pid")
    case False
    show ?thesis
    proof (cases "pause_of w pid = None")
      case True
      then show ?thesis using new False by (intro held_append[OF h]) auto
    next
      case other: False
      have "workPauses w' = update_where (\<lambda>p. pauseProject p = pid)
        (\<lambda>p. if pauseClearedAt p = None then new\<lparr>pausedAt := pausedAt p\<rparr> else new) (workPauses w)" using new(4) other by simp
      then show ?thesis by (rule held_update[OF h]) (use new False in auto)
    qed
  qed (use held in simp)
qed

lemma call_holds: "owner_held w pid \<Longrightarrow> \<not> owner_clears pid c \<Longrightarrow> owner_held (fst (apply_brake w c)) pid"
proof (cases c)
  case (CallPause q why fp now)
  assume h: "owner_held w pid"
  show ?thesis
  proof (cases "pauseProjectAdmission w q why fp now")
    case (Inr r)
    then obtain w' b where r: "pauseProjectAdmission w q why fp now = Inr (w', b)" by (cases r) auto
    then obtain new where new: "pauseProject new = q"
      "workPauses w' = (if pause_of w q = None then workPauses w @ [new]
         else update_where (\<lambda>p. pauseProject p = q \<and> pauseClearedAt p \<noteq> None) (\<lambda>_. new) (workPauses w))" by (rule pause_rows)
    have "owner_held w' pid"
    proof (cases "pause_of w q = None")
      case True
      then have "q \<noteq> pid" using h by (auto simp: owner_held_def pause_of_def get_where_None)
      then show ?thesis using True new by (intro held_append[OF h]) auto
    next
      case False
      then have "workPauses w' = update_where (\<lambda>p. pauseProject p = q \<and> pauseClearedAt p \<noteq> None) (\<lambda>_. new) (workPauses w)"
        using new(2) by (simp only: if_False)
      then show ?thesis by (rule held_update[OF h]) (use h new(1) in \<open>auto simp: owner_held_def\<close>)
    qed
    then show ?thesis using CallPause r by simp
  qed (use CallPause h in simp)
next
  case (CallEscalate q why now)
  assume "owner_held w pid"
  then show ?thesis using CallEscalate escalate_holds(2) by (auto split: sum.splits)
next
  case (CallAgentClear q now current at)
  assume h: "owner_held w pid"
  show ?thesis
  proof (cases "\<exists>w'. clearProjectAdmissionPauseAsAgent w q now current at = Inr (w', AgentCleared)")
    case True
    then obtain w' where w': "clearProjectAdmissionPauseAsAgent w q now current at = Inr (w', AgentCleared)" by blast
    then obtain p fp where p: "live_pause w q = Some p" "pauseFingerprint p = Some fp"
      "workPauses w' = clear_pauses (\<lambda>p. pauseProject p = q) at (workPauses w)" by (rule agent_clear_cases)
    then have "q \<noteq> pid" using owner_held_live[OF h] by auto
    then have "owner_held w' pid" by (intro held_update[OF h p(3)[unfolded clear_pauses_def]]) auto
    then show ?thesis using w' CallAgentClear by simp
  next
    case False
    then have "apply_brake w c = (w, [])" using CallAgentClear by (auto split: sum.splits agent_clear.splits)
    then show ?thesis using h by simp
  qed
next
  case (CallOwnerClear project now)
  assume h: "owner_held w pid" "\<not> owner_clears pid c"
  show ?thesis
  proof (cases "clearProjectAdmissionPause w project now")
    case (Inr r)
    then have rows: "workPauses (fst r) = clear_pauses (\<lambda>p. (case project of None \<Rightarrow> True | Some pid \<Rightarrow> pauseProject p = pid)) (whole now) (workPauses w)"
      by (auto simp: clearProjectAdmissionPause_def Let_def result_simps)
    have "owner_held (fst r) pid"
      by (rule held_update[OF h(1) rows[unfolded clear_pauses_def]]) (use h(2) CallOwnerClear in \<open>auto split: option.splits\<close>)
    then show ?thesis using CallOwnerClear Inr by (cases r) simp
  qed (use CallOwnerClear h in simp)
qed

text \<open>C36: the brake for a production that broke and could not be rolled back is the owner's: once it is put on, over
  whatever held the project before, no sequence of failures, further brakes and attempts of the agent releases the
  project or gives it a brake that the agent could lift.\<close>

theorem owner_brake_holds:
  assumes "escalateProjectAdmissionPause w pid why now = Inr (w', b)" and "list_all (\<lambda>c. \<not> owner_clears pid c) cs"
  shows "b \<and> is_paused (fst (brake_calls w' cs)) pid \<and> map_option pauseFingerprint (live_pause (fst (brake_calls w' cs)) pid) = Some None"
proof -
  have "owner_held (fst (brake_calls v cs)) pid" if "owner_held v pid" for v
    using assms(2) that
  proof (induction cs arbitrary: v)
    case (Cons c cs)
    then have "owner_held (fst (apply_brake v c)) pid" using call_holds by simp
    then show ?case using Cons by (auto simp: case_prod_beta Let_def)
  qed simp
  then have h: "owner_held (fst (brake_calls w' cs)) pid" using escalate_holds(1)[OF assms(1)] by blast
  then have "is_paused (fst (brake_calls w' cs)) pid" by (auto simp: owner_held_def is_paused_def list_ex_iff)
  moreover have "b"
    by (rule escalate_rows[OF assms(1)]) (use owner_held_live[OF escalate_holds(1)[OF assms(1)]] in auto)
  ultimately show ?thesis using owner_held_live[OF h] by auto
qed

subsection \<open>Clusters\<close>

text \<open>C37: the clusters of a window of failures are exactly the causes that at least three different jobs failed with, each
  once, with exactly those jobs, the largest first.\<close>

theorem clusters_are_repeated_causes:
  "\<exists>cs. detectFailureClusters sha256 locale_compare fs None = Inr cs \<and> distinct (map fcFingerprint cs) \<and>
     sorted_wrt (\<lambda>c d. fcSize d \<le> fcSize c) cs \<and>
     (\<forall>fp. fp \<in> fcFingerprint ` set cs \<longleftrightarrow> 3 \<le> card (failing_jobs sha256 fs fp)) \<and>
     list_all (\<lambda>c. set (fcJobIds c) = failing_jobs sha256 fs (fcFingerprint c) \<and>
       fcSize c = card (failing_jobs sha256 fs (fcFingerprint c))) cs"
proof -
  let ?m = "group_failures sha256 fs"
  let ?cs = "sort_by (compareClusters locale_compare) (filter (\<lambda>c. 3 \<le> int (fcSize c)) (map cluster_of ?m))"
  have m: "distinct (map fst ?m)" and g: "case map_of ?m fp of None \<Rightarrow> failing_jobs sha256 fs fp = {}
      | Some g \<Rightarrow> distinct (cgJobIds g) \<and> set (cgJobIds g) = failing_jobs sha256 fs fp" for fp
    using group_failures_ok[of sha256 fs] by (auto simp: groups_ok_def)
  have entry: "set (cgJobIds g) = failing_jobs sha256 fs fp \<and> length (cgJobIds g) = card (failing_jobs sha256 fs fp)"
    if "(fp, g) \<in> set ?m" for fp g
    using g[of fp] map_of_is_SomeI[OF m that] distinct_card[of "cgJobIds g"] by auto
  have "detectFailureClusters sha256 locale_compare fs None = Inr ?cs"
    by (simp add: detectFailureClusters_def opt_default_def FAILURE_CLUSTER_THRESHOLD_def)
  moreover have "map fcFingerprint (map cluster_of ?m) = map fst ?m" by (simp add: cluster_of_def case_prod_beta comp_def)
  then have "distinct (map fcFingerprint ?cs)"
    using m distinct_map_filter_sub[of fcFingerprint "map cluster_of ?m"] by (simp only: distinct_sort_by_map)
  moreover have "sorted_wrt (\<lambda>c d. fcSize d \<le> fcSize c) ?cs" by (rule sort_by_size)
  moreover have "fp \<in> fcFingerprint ` set ?cs \<longleftrightarrow> 3 \<le> card (failing_jobs sha256 fs fp)" for fp
  proof
    assume "fp \<in> fcFingerprint ` set ?cs"
    then show "3 \<le> card (failing_jobs sha256 fs fp)" using entry by (auto simp: cluster_of_def)
  next
    assume c: "3 \<le> card (failing_jobs sha256 fs fp)"
    then have "failing_jobs sha256 fs fp \<noteq> {}" by auto
    then obtain g where "map_of ?m fp = Some g" using g[of fp] by (cases "map_of ?m fp") auto
    then have "(fp, g) \<in> set ?m" by (rule map_of_SomeD)
    then show "fp \<in> fcFingerprint ` set ?cs" using c entry[of fp g] by (force simp: cluster_of_def)
  qed
  moreover have "list_all (\<lambda>c. set (fcJobIds c) = failing_jobs sha256 fs (fcFingerprint c) \<and>
      fcSize c = card (failing_jobs sha256 fs (fcFingerprint c))) ?cs"
    using entry by (auto simp: list_all_iff cluster_of_def)
  ultimately show ?thesis by blast
qed


subsection \<open>A braked project\<close>

lemma tryAdmit_other:
  assumes "tryAdmit rt web db i = Inr (db', r)" and "jid \<noteq> attemptJobId i"
  shows "readAdmission db' jid = readAdmission db jid"
proof (cases r)
  case (AttemptAdmitted j' a' c)
  with assms(1) obtain a j e where "admitted rt web db i a j e j' db'" using tryAdmit_admitted by blast
  then show ?thesis
  proof cases
    case (1 db1 db2 es db3)
    have "admJobId a = attemptJobId i" using readAdmission_id[OF 1(2)] by simp
    moreover have "admissions_table db' = update_where (admit_hit a)
        (\<lambda>b. b\<lparr>admState := Admitted, admittedAt := Some (whole (attemptNow i))\<rparr>) (admissions_table db)"
      using persistJobTransition_fields[OF 1(14)] 1(11,15) by auto
    ultimately have id: "admJobId a = attemptJobId i" and "readAdmission db' jid = map_option
        (\<lambda>b. if admit_hit a b then b\<lparr>admState := Admitted, admittedAt := Some (whole (attemptNow i))\<rparr> else b) (readAdmission db jid)"
      by (simp_all add: readAdmission_def get_update_where[where k = admJobId])
    moreover have "\<not> admit_hit a b" if "readAdmission db jid = Some b" for b
      using readAdmission_id[OF that] id assms(2) by (simp add: admit_hit_def)
    ultimately show ?thesis by (cases "readAdmission db jid") auto
  qed
next
  case (NotAdmitted x)
  with assms(1) show ?thesis using tryAdmit_rejected by blast
qed

lemma admit_each_other:
  "admit_each (\<lambda>d jid. tryAdmit rt web d (i\<lparr>attemptJobId := jid\<rparr>)) db jids = (db', r) \<Longrightarrow> jid \<notin> set jids \<Longrightarrow>
   readAdmission db' jid = readAdmission db jid"
proof (induction jids arbitrary: db r)
  case (Cons k ks)
  show ?case
  proof (cases "tryAdmit rt web db (i\<lparr>attemptJobId := k\<rparr>)")
    case (Inr x)
    obtain d b where x: "x = (d, b)" by (cases x)
    have "readAdmission d jid = readAdmission db jid" using tryAdmit_other[OF Inr[unfolded x], of jid] Cons.prems(2) by simp
    moreover obtain q where "admit_each (\<lambda>d jid. tryAdmit rt web d (i\<lparr>attemptJobId := jid\<rparr>)) d ks = (db', q)"
      using Cons.prems(1) Inr x by (auto split: prod.splits)
    ultimately show ?thesis using Cons.IH Cons.prems(2) by simp
  qed (use Cons.prems(1) in simp)
qed simp

lemma candidates_queued:
  assumes "run_selection db occ slots paused = Inr selected" and "c \<in> set selected"
  shows "candProjectId c \<notin> set paused \<and> (\<exists>a \<in> set (admissions_table db). c = candidate_of a)"
proof -
  have firsts: "set (project_firsts seen xs) \<subseteq> set xs" for seen xs by (induction seen xs rule: project_firsts.induct) auto
  obtain as keys n where as: "as = select_ordered (project_first (admissions_table db)) queue_key n (admissions_table db)"
    "selected = select_loop paused keys (nat slots) [] (sort_by compareCandidates (map candidate_of as))"
    using assms(1)
    by (auto simp: run_selection_def listOldestQueuedPerProject_def selectOldestEligibleAdmissions_def opt_default_def result_simps split: if_splits)
  have "c \<in> set (project_firsts [] (filter (\<lambda>c. candProjectId c \<notin> set paused) (sort_by compareCandidates (map candidate_of as))))"
    using assms(2) unfolding as(2) select_loop_firsts by (auto dest: in_set_takeD)
  then have "candProjectId c \<notin> set paused \<and> c \<in> candidate_of ` set as" using firsts by fastforce
  moreover have "set as \<subseteq> set (admissions_table db)" by (auto simp: as(1) select_ordered_def dest: in_set_takeD)
  ultimately show ?thesis by blast
qed

text \<open>C38: while a project is braked nothing new starts there: no run of the scheduler touches an admission of the project,
  and no job is created for it without a request.\<close>

theorem braked_project_starts_nothing:
  assumes "is_paused w pid" and "db_ok (workDb w)" and "readAdmission (workDb w) jid = Some a" and "admProjectId a = pid"
    and "run rt web (workDb w) (Some (Inr (map fst (listPausedProjectAdmissions w)))) i = (db', r)" and "auProjectId n = pid"
  shows "readAdmission db' jid = Some a \<and> createAutonomousJob env w n \<noteq> Inr (w', AutonomousCreated j)"
proof
  have paused: "pid \<in> set (map fst (listPausedProjectAdmissions w))"
    using assms(1) by (force simp: is_paused_def list_ex_iff listPausedProjectAdmissions_def)
  show "readAdmission db' jid = Some a"
    using assms(5)
  proof (cases rule: run_admits)
    case (ran paused' selected as)
    have "jid \<notin> set (map candJobId selected)"
    proof
      assume "jid \<in> set (map candJobId selected)"
      then obtain c where c: "c \<in> set selected" "candJobId c = jid" by auto
      from candidates_queued[OF ran(3) c(1)] obtain b where
        b: "candProjectId c \<notin> set paused'" "b \<in> set (admissions_table (workDb w))" "c = candidate_of b" by blast
      have "a \<in> set (admissions_table (workDb w))" "admJobId a = jid"
        using get_where_Some[OF assms(3)[unfolded readAdmission_def]] by auto
      moreover have "unique_key admJobId (admissions_table (workDb w))" using assms(2) by (simp add: db_ok_def admissions_ok_def)
      ultimately have "b = a" using unique_eqI b(2,3) c(2) by (fastforce simp: candidate_of_def)
      moreover have "paused' = map fst (listPausedProjectAdmissions w)" using ran(1) by (simp add: pausedProjectIds_def)
      ultimately show False using b(1,3) paused assms(4) by (simp add: candidate_of_def)
    qed
    then show ?thesis using admit_each_other[OF ran(4)] assms(3) by simp
  qed (use assms(3) in simp)
  show "createAutonomousJob env w n \<noteq> Inr (w', AutonomousCreated j)"
  proof
    assume "createAutonomousJob env w n = Inr (w', AutonomousCreated j)"
    then show False
      by (rule create_created) (use assms(1,6) in \<open>auto simp: autonomous_refusal_of_def split: option.splits if_splits\<close>)
  qed
qed

text \<open>C39: the scheduler looks at no more projects than the limit on concurrent jobs before it drops the braked ones: when the
  oldest queued jobs of that many projects belong to braked projects, it admits nothing, however many slots are free and
  whichever project waits behind them.\<close>

theorem braked_heads_starve_the_queue:
  assumes "assertSchedulerInput i = Inr ()" and "countOccupiedAdmissions db < whole (maxConcurrentJobs i)"
    and "listOldestQueuedPerProject db (maxConcurrentJobs i) = Inr heads" and "list_all (\<lambda>a. List.member paused (admProjectId a)) heads"
  shows "run rt web db (Some (Inr paused)) i =
    (db, Inr \<lparr>occupiedCount = countOccupiedAdmissions db,
      availableSlots = whole (maxConcurrentJobs i) - countOccupiedAdmissions db, runAdmissions = []\<rparr>)"
proof -
  let ?occ = "countOccupiedAdmissions db" and ?max = "whole (maxConcurrentJobs i)"
  have i: "maxConcurrentJobs i = Whole ?max" "?max \<le> MAX_CONCURRENT_JOBS"
    using assms(1) by (cases "maxConcurrentJobs i"; auto simp: assertSchedulerInput_def result_simps)+
  have none: "select_loop paused held k seen cs = []" if "list_all (\<lambda>c. List.member paused (candProjectId c)) cs" for held k seen cs
    using that by (induction cs arbitrary: seen) auto
  have "list_all (\<lambda>c. List.member paused (candProjectId c)) (sort_by compareCandidates (map candidate_of heads))"
    using assms(4) by (auto simp: list_all_iff candidate_of_def)
  note none = none[OF this]
  have occ: "0 \<le> ?occ" by (simp add: countOccupiedAdmissions_def)
  have list: "listOldestQueuedPerProject db (Whole ?max) = Inr heads" using assms(3) i(1) by simp
  obtain keys where keys: "heldProjectKeys db (min 100 (max 1 ?max)) = Inr keys"
    by (auto simp: heldProjectKeys_def listCurrentHeldProjectClaims_def boundedLimit_def assertPositiveSafe_def MAX_SAFE_INTEGER_def
        min_def max_def result_simps)
  have "run_selection db ?occ (?max - ?occ) paused = Inr []"
    using none occ assms(2) i(2) list keys
    by (simp add: run_selection_def selectOldestEligibleAdmissions_def opt_default_def)
  then show ?thesis using assms(1,2) by (simp add: run_def Let_def pausedProjectIds_def)
qed


subsection \<open>A brake that does not come back\<close>

text \<open>What happens around a reported failure: scans of the loop, and calls on the brake.  Only the scans pause a project.\<close>

datatype loop_event =
  LoopScan work_env "string \<Rightarrow> unit result" bool int
| LoopCall brake_call

fun after_event :: "work_db \<Rightarrow> loop_event \<Rightarrow> work_db" where
  "after_event w (LoopScan env enqueue recipient now) = fst (scan_failures env enqueue recipient w now)"
| "after_event w (LoopCall c) = fst (apply_brake w c)"

fun happens_before :: "int \<Rightarrow> loop_event \<Rightarrow> bool" where
  "happens_before t (LoopScan env enqueue recipient now) = (now < t)"
| "happens_before t (LoopCall (CallPause pid why fp now)) = False"
| "happens_before t (LoopCall c) = True"

definition braked_by :: "work_db \<Rightarrow> string \<Rightarrow> string \<Rightarrow> bool" where
  "braked_by w pid fp \<longleftrightarrow> list_ex (\<lambda>p. pauseProject p = pid \<and> pauseClearedAt p = None \<and> pauseFingerprint p = Some fp) (workPauses w)"

definition reported_until :: "work_db \<Rightarrow> string \<Rightarrow> int \<Rightarrow> bool" where
  "reported_until w fp t \<longleftrightarrow> list_ex (\<lambda>e. escFingerprint e = fp \<and> t \<le> escExpiresAt e) (workEscalations w)"

lemma claim_reported:
  assumes "claimFailureEscalation w q project csize why (Whole now) ms = Inr (w', b)" "reported_until w fp t" "now < t"
  shows "reported_until w' fp t" "q = fp \<Longrightarrow> \<not> b" "workPauses w' = workPauses w"
proof -
  let ?live = "filter (\<lambda>e. now < escExpiresAt e) (workEscalations w)"
  obtain e where e: "e \<in> set ?live" "escFingerprint e = fp" "t \<le> escExpiresAt e"
    using assms(2,3) by (auto simp: reported_until_def list_ex_iff)
  have "w' = w\<lparr>workEscalations := ?live\<rparr> \<or> (\<exists>x. w' = w\<lparr>workEscalations := ?live @ [x]\<rparr>)"
    using assms(1) by (auto simp: claimFailureEscalation_def Let_def result_simps split: if_splits)
  then obtain es where w': "w' = w\<lparr>workEscalations := ?live @ es\<rparr>" by (metis append_Nil2)
  have "\<exists>x \<in> set (workEscalations w'). escFingerprint x = fp \<and> t \<le> escExpiresAt x"
    by (rule bexI [of _ e]) (use e w' in auto)
  then show "reported_until w' fp t" by (simp add: reported_until_def list_ex_iff)
  have "list_ex (\<lambda>x. escFingerprint x = fp) ?live" unfolding list_ex_iff by (rule bexI [of _ e]) (rule e(2), rule e(1))
  then show "q = fp \<Longrightarrow> \<not> b" using assms(1) by (auto simp: claimFailureEscalation_def Let_def result_simps)
  show "workPauses w' = workPauses w" using w' by simp
qed

lemma pause_brakes:
  assumes "pauseProjectAdmission w q why f now = Inr (w', b)"
  shows "workEscalations w' = workEscalations w" "braked_by w' pid fp \<Longrightarrow> braked_by w pid fp \<or> f = Some fp"
  using assms by (auto simp: pauseProjectAdmission_def braked_by_def list_ex_iff update_where_def Let_def result_simps split: if_splits)

lemma escalate_brakes:
  assumes "escalateProjectAdmissionPause w q why now = Inr (w', b)"
  shows "workEscalations w' = workEscalations w" "braked_by w' pid fp \<Longrightarrow> braked_by w pid fp"
  using assms by (auto simp: escalateProjectAdmissionPause_def braked_by_def list_ex_iff update_where_def Let_def result_simps split: if_splits)

lemma clear_brakes: "workPauses w' = clear_pauses hit at (workPauses w) \<Longrightarrow> braked_by w' pid fp \<Longrightarrow> braked_by w pid fp"
  by (auto simp: clear_pauses_def braked_by_def list_ex_iff update_where_def)

lemma brake_for_reported:
  assumes "brake_for w c now = Inr w'" "fcFingerprint c \<noteq> fp"
  shows "workEscalations w' = workEscalations w" "braked_by w' pid fp \<Longrightarrow> braked_by w pid fp"
  using assms pause_brakes by (fastforce simp: brake_for_def result_simps split: option.splits)+

lemma scan_does_not_brake:
  assumes "reported_until w fp t" "now < t"
  shows "reported_until (fst (scan_clusters enqueue aliases now w worked cs)) fp t \<and>
    (braked_by (fst (scan_clusters enqueue aliases now w worked cs)) pid fp \<longrightarrow> braked_by w pid fp)"
  using assms(1)
proof (induction cs arbitrary: w worked)
  case (Cons c cs)
  show ?case
  proof (cases "claimFailureEscalation w (fcFingerprint c) (fcProjectId c) (fcSize c) (fcReason c) (Whole now) ESCALATION_DEDUP_MS")
    case (Inr r)
    obtain w1 b where r: "r = (w1, b)" by (cases r)
    note claim = claim_reported [OF Inr [unfolded r] Cons.prems assms(2)]
    have same: "braked_by w1 pid fp = braked_by w pid fp" using claim(3) by (simp add: braked_by_def)
    show ?thesis
    proof (cases b)
      case False
      then show ?thesis using Cons.IH [OF claim(1)] same Inr r by simp
    next
      case True
      then have other: "fcFingerprint c \<noteq> fp" using claim(2) by blast
      show ?thesis
      proof (cases "brake_for w1 c now")
        case (Inl e)
        then show ?thesis using Inr r True claim(1) same by simp
      next
        case brake: (Inr w2)
        have two: "reported_until w2 fp t" "braked_by w2 pid fp \<Longrightarrow> braked_by w pid fp"
          using brake_for_reported [OF brake other] claim(1) same by (auto simp: reported_until_def)
        then show ?thesis using Cons.IH [OF two(1), of True] Inr r True brake by (auto split: sum.splits)
      qed
    qed
  qed (use Cons.prems in simp)
qed simp

lemma call_keeps_reports: "workEscalations (fst (apply_brake w c)) = workEscalations w"
proof (cases c)
  case (CallPause pid why fp now)
  then show ?thesis by (auto dest: pause_brakes(1) split: sum.splits)
next
  case (CallEscalate pid why now)
  then show ?thesis by (auto dest: escalate_brakes(1) split: sum.splits)
next
  case (CallAgentClear pid now current at)
  then show ?thesis
    by (auto simp: clearProjectAdmissionPauseAsAgent_def result_simps split: sum.splits agent_clear.splits option.splits if_splits)
next
  case (CallOwnerClear project now)
  then show ?thesis by (auto simp: clearProjectAdmissionPause_def Let_def result_simps split: sum.splits)
qed

lemma call_does_not_brake:
  assumes "happens_before t (LoopCall c)" "braked_by (fst (apply_brake w c)) pid fp"
  shows "braked_by w pid fp"
proof (cases c)
  case (CallPause pid why fp now)
  then show ?thesis using assms by simp
next
  case (CallEscalate q why now)
  then show ?thesis using assms(2) by (auto dest: escalate_brakes(2) split: sum.splits)
next
  case (CallAgentClear q now current at)
  show ?thesis
  proof (cases "\<exists>w'. clearProjectAdmissionPauseAsAgent w q now current at = Inr (w', AgentCleared)")
    case True
    then obtain w' where w': "clearProjectAdmissionPauseAsAgent w q now current at = Inr (w', AgentCleared)" ..
    then show ?thesis by (rule agent_clear_cases) (use w' CallAgentClear assms(2) clear_brakes in \<open>fastforce\<close>)
  next
    case False
    then show ?thesis using CallAgentClear assms(2) by (auto split: sum.splits agent_clear.splits)
  qed
next
  case (CallOwnerClear project now)
  then show ?thesis using assms(2)
    by (cases "clearProjectAdmissionPause w project now")
      (auto simp: clearProjectAdmissionPause_def Let_def result_simps, rule clear_brakes [rotated], assumption, simp)
qed

lemma event_does_not_brake:
  assumes "reported_until w fp t" "happens_before t ev"
  shows "reported_until (after_event w ev) fp t" "\<not> braked_by w pid fp \<Longrightarrow> \<not> braked_by (after_event w ev) pid fp"
proof -
  have scan: "reported_until (fst (scan_failures env enqueue recipient w now)) fp t \<and>
      (\<not> braked_by w q fp \<longrightarrow> \<not> braked_by (fst (scan_failures env enqueue recipient w now)) q fp)"
    if "now < t" for env enqueue recipient now q
    using scan_does_not_brake [OF assms(1) that] assms(1)
    by (auto simp: scan_failures_def split: sum.splits)
  show "reported_until (after_event w ev) fp t"
    using assms scan call_keeps_reports by (cases ev) (auto simp: reported_until_def)
  show "\<not> braked_by w pid fp \<Longrightarrow> \<not> braked_by (after_event w ev) pid fp"
    using assms scan call_does_not_brake by (cases ev) auto
qed

lemma events_do_not_brake:
  assumes "reported_until w fp t" "list_all (happens_before t) evs"
  shows "reported_until (foldl after_event w evs) fp t"
    "\<not> braked_by w pid fp \<Longrightarrow> \<not> braked_by (foldl after_event w evs) pid fp"
  using assms event_does_not_brake by (induction evs arbitrary: w) auto

text \<open>A report stands for seven days.\<close>

definition reports_last :: "work_db \<Rightarrow> bool" where
  "reports_last w \<longleftrightarrow> list_all (\<lambda>e. escExpiresAt e = escalatedAt e + 7 * 24 * 60 * 60 * 1000) (workEscalations w)"

lemma claim_lasts:
  assumes "claimFailureEscalation w q project csize why now ESCALATION_DEDUP_MS = Inr (w', b)" "reports_last w"
  shows "reports_last w'"
  using assms
  by (auto simp: claimFailureEscalation_def reports_last_def ESCALATION_DEDUP_MS_def list_all_iff Let_def result_simps split: if_splits)

lemma scan_lasts: "reports_last w \<Longrightarrow> reports_last (fst (scan_clusters enqueue aliases now w worked cs))"
proof (induction cs arbitrary: w worked)
  case (Cons c cs)
  show ?case
  proof (cases "claimFailureEscalation w (fcFingerprint c) (fcProjectId c) (fcSize c) (fcReason c) (Whole now) ESCALATION_DEDUP_MS")
    case (Inr r)
    obtain w1 b where r: "r = (w1, b)" by (cases r)
    have one: "reports_last w1" by (rule claim_lasts [OF Inr [unfolded r] Cons.prems])
    have two: "reports_last w2" if "brake_for w1 c now = Inr w2" for w2
    proof -
      have "workEscalations w2 = workEscalations w1"
        using that pause_brakes(1) by (fastforce simp: brake_for_def result_simps split: option.splits)
      then show ?thesis using one by (simp add: reports_last_def)
    qed
    show ?thesis using Cons.IH [OF one] Cons.IH [OF two] one two Inr r
      by (cases b; cases "brake_for w1 c now") (auto split: sum.splits)
  qed (use Cons.prems in simp)
qed simp

lemma event_lasts: "reports_last w \<Longrightarrow> reports_last (after_event w ev)"
  using scan_lasts call_keeps_reports by (cases ev) (auto simp: scan_failures_def reports_last_def split: sum.splits)

lemma events_last: "reports_last w \<Longrightarrow> reports_last (foldl after_event w evs)"
  by (induction evs arbitrary: w) (auto intro: event_lasts)

text \<open>C40: for seven days after a scan reported a failure no scan brakes a project for it again: whatever happened up to the
  report, and whatever scans run and however brakes are put on and lifted after it, once no brake of the project for that
  failure is live, none becomes live, as often as the failure may repeat.  (Only the scans put on a brake for a failure.)\<close>

theorem lifted_brake_does_not_return:
  assumes "workEscalations w0 = []" and "w = foldl after_event w0 past"
    and "list_ex (\<lambda>e. escFingerprint e = fp \<and> escalatedAt e = reported) (workEscalations w)"
    and "list_all (happens_before (reported + 7 * 24 * 60 * 60 * 1000)) (lifting @ rest)"
    and "\<not> braked_by (foldl after_event w lifting) pid fp"
  shows "\<not> braked_by (foldl after_event w (lifting @ rest)) pid fp"
proof -
  have "reports_last w" unfolding assms(2) by (rule events_last) (simp add: reports_last_def assms(1))
  with assms(3) have "reported_until w fp (reported + 7 * 24 * 60 * 60 * 1000)"
    by (auto simp: reported_until_def reports_last_def list_ex_iff list_all_iff)
  then have "reported_until (foldl after_event w lifting) fp (reported + 7 * 24 * 60 * 60 * 1000)"
    by (rule events_do_not_brake) (use assms(4) in simp)
  from events_do_not_brake(2) [OF this _ assms(5), of rest] assms(4) show ?thesis by simp
qed

subsection \<open>On concrete inputs\<close>

definition demo_work_env :: work_env where
  "demo_work_env = \<lparr>weRuntime = demo_runtime, weWeb = demo_web, weSha256 = (\<lambda>_. replicate 64 (CHR ''a'')), weSha64 = (\<lambda>_. ''job1''),
     weLocaleCompare = (\<lambda>_ _. 0), weParseDate = (\<lambda>_. Some 0), weEngine = NavigatorV1, weMode = LiveMode\<rparr>"

definition demo_autonomy_policy :: project_policy where
  "demo_autonomy_policy = demo_policy\<lparr>autonomy := Some \<lparr>unattendedMerge = True, mergeWithoutProduction = False,
     consensusReview = None, intakeMaxJobsPerDay = Some 2\<rparr>\<rparr>"

definition demo_grants :: grant_tables where
  "demo_grants = \<lparr>merge_authority = [], merge_authority_events = [], project_policies =
     [\<lparr>storedPolicy = demo_autonomy_policy, storedVersion = 1, storedCreatedAt = 0, storedUpdatedAt = 0\<rparr>]\<rparr>"

definition demo_work :: "database \<Rightarrow> work_db" where
  "demo_work db = \<lparr>workDb = db, workGrants = demo_grants, workPauses = [], workClears = [], workEscalations = [],
     workFindings = [], workReverts = [], workNotices = []\<rparr>"

definition demo_order :: autonomous_input where
  "demo_order = \<lparr>auProjectId = ''proj_demo'', auTask = ''Fix it'', auOrigin = AuditIntake,
     auIntake = Some \<lparr>inFingerprint = ''f'', inAuditId = ''a'', inSubject = ''s''\<rparr>,
     auRevert = Some \<lparr>rvSha = replicate 40 (CHR ''a''), rvMergedJob = ''job0''\<rparr>, auNow = Whole 0\<rparr>"

lemma demo_autonomy_ok: "projectPolicySchema_parse demo_runtime demo_autonomy_policy = Inr demo_autonomy_policy"
  using demo_patterns
  by (simp add: projectPolicySchema_parse_def policy_fields_ok_def policy_rules_ok_def demo_autonomy_policy_def demo_policy_def
      demo_profile_def demo_command_def demo_runtime_def executionProfile_ok_def opt_min1_def opt_ok_def
      commands_ok_def policyCommand_ok_def between_def productionPolicy_ok_def
      productionHasRollbackCommand_def starts_with_def autonomyPolicy_ok_def)

definition demo_started :: job where
  "demo_started = autonomous_job_row ''job1'' 9000000000000 ''Fix it'' NavigatorV1 LiveMode AuditIntake 0"

definition demo_started_waiting :: job where
  "demo_started_waiting = demo_started\<lparr>policy := Some demo_autonomy_policy, projectId := Some ''proj_demo'', policyVersion := Some 1,
     reviewBlockAt := 3, state := AwaitingConfirmation, version := 2, updatedAt := 0\<rparr>"

definition demo_inserted_db :: database where
  "demo_inserted_db = empty_database\<lparr>jobs_table := [demo_job_row demo_started]\<rparr>"

definition demo_moved_db :: database where
  "demo_moved_db = empty_database\<lparr>jobs_table := [demo_job_row demo_started_waiting], effects_table := [demo_render 2 0]\<rparr>"

definition demo_started_db :: database where
  "demo_started_db = demo_moved_db\<lparr>admissions_table := [demo_admission\<lparr>queuedAt := 0\<rparr>], nextQueueSeq := 2\<rparr>"

definition demo_start_write :: admission_write where
  "demo_start_write = \<lparr>writeJobId = ''job1'', writeVersion = Whole 2, writeProjectId = ''proj_demo'',
     writeResumeEvent = ResumeConfirmed, writeNow = Whole 0\<rparr>"

lemmas demo_start_jobs = demo_started_waiting_def demo_started_def row_defs

lemma demo_autonomy_fields:
  "policyProjectId demo_autonomy_policy = ''proj_demo''" "maxReviewCycles demo_autonomy_policy = 3" "enabled demo_autonomy_policy"
  "autonomy demo_autonomy_policy = Some \<lparr>unattendedMerge = True, mergeWithoutProduction = False, consensusReview = None,
     intakeMaxJobsPerDay = Some 2\<rparr>"
  by (simp_all add: demo_autonomy_policy_def demo_policy_def)

lemma demo_started_step: "transition demo_runtime demo_started (PROJECT_SELECTED ''proj_demo'' (Whole 1) demo_autonomy_policy) 0 =
   Inr (demo_started_waiting, [\<lparr>idempotencyKey = effect_key ''job1'' 2 render_status, effectJobId = ''job1'', kind = render_status, payload = []\<rparr>])"
  by (simp add: handler_eval demo_autonomy_ok demo_autonomy_fields demo_start_jobs)

lemma demo_started_moved: "store_transition demo_runtime demo_web demo_inserted_db demo_started
   (PROJECT_SELECTED ''proj_demo'' (Whole 1) demo_autonomy_policy) 0 = Inr (demo_moved_db, demo_started_waiting)"
  unfolding store_transition_def demo_started_step
  by (simp add: persistJobTransition_def rthen_def demo_empty_payload insert_effect_def demo_tables demo_inserted_db_def demo_moved_db_def
      empty_database_def demo_job_row_def demo_render_def demo_start_jobs write_columns_def)

lemma demo_started_fields:
  "job_id demo_started_waiting = ''job1''" "version demo_started_waiting = 2" "projectId demo_started_waiting = Some ''proj_demo''"
  "policy demo_started_waiting = Some demo_autonomy_policy" "policyVersion demo_started_waiting = Some 1"
  "state demo_started_waiting = AwaitingConfirmation" "cancelRequestedAt demo_started_waiting = None"
  by (simp_all add: demo_start_jobs)

lemma demo_started_queue: "queueAdmissionInTransaction demo_moved_db demo_start_write QueueMode =
   Inr (demo_started_db, demo_admission\<lparr>queuedAt := 0\<rparr>)"
  by (simp add: queueAdmissionInTransaction_def assertWriteInput_def demo_checks persistQueuedAdmission_def readJobById_def
      assertJobIdentity_def assertContinuationState_def readAdmission_def allocateQueueSequence_def readSequence_def
      insertQueuedAdmission_def queued_admission_def demo_tables demo_started_fields demo_job_row_def empty_database_def
      demo_started_db_def demo_moved_db_def demo_admission_def demo_autonomy_fields demo_start_write_def)

lemma demo_grant: "getProjectPolicy demo_grants ''proj_demo'' =
   Some \<lparr>storedPolicy = demo_autonomy_policy, storedVersion = 1, storedCreatedAt = 0, storedUpdatedAt = 0\<rparr>"
  by (simp add: getProjectPolicy_def demo_grants_def demo_autonomy_fields get_where_def)

lemma demo_start_job: "start_autonomous_job demo_work_env empty_database
    \<lparr>storedPolicy = demo_autonomy_policy, storedVersion = 1, storedCreatedAt = 0, storedUpdatedAt = 0\<rparr> demo_order =
  Inr (demo_started_db, demo_started_waiting)"
proof -
  have n: "nextAutonomousSourceUpdateId empty_database = Inr 9000000000000"
    by (simp add: nextAutonomousSourceUpdateId_def empty_database_def is_safe_integer.simps AUTONOMOUS_SOURCE_UPDATE_BASE_def
        MAX_SAFE_INTEGER_def)
  have ins: "insert_job empty_database demo_started = Inr demo_inserted_db"
    by (simp add: insert_job_def empty_database_def demo_inserted_db_def demo_job_row_def)
  have read: "readJobById demo_inserted_db ''job1'' = Some demo_started"
    by (simp add: readJobById_def demo_tables demo_inserted_db_def empty_database_def demo_job_row_def demo_start_jobs)
  have id: "take 22 ''job1'' = ''job1''" by simp
  show ?thesis
    unfolding start_autonomous_job_def n rbind.simps Let_def
    using ins read demo_started_moved demo_started_queue
    by (simp add: demo_work_env_def demo_order_def demo_started_def[symmetric] demo_autonomy_fields demo_started_fields
        demo_start_write_def)
qed

lemma demo_order_ok: "assertAutonomousInput demo_order = Inr ()"
proof -
  have "js_trim ''Fix it'' = ''Fix it''" by code_simp
  moreover have "list_all digest_char (replicate 40 (CHR ''a''))" by code_simp
  ultimately show ?thesis
    by (simp add: assertAutonomousInput_def demo_order_def assertControllerText_def assertFullSha_def demo_checks)
qed

lemma demo_day: "utcDayOf 0 = Inr ''1970-01-01''" by code_simp

definition demo_after_start :: work_db where
  "demo_after_start = (demo_work demo_started_db)\<lparr>
     workFindings := [\<lparr>ifProject = ''proj_demo'', ifFingerprint = ''f'', ifAuditId = ''a'', ifSubject = ''s'', ifJobId = ''job1'',
       ifUtcDay = ''1970-01-01'', ifStartedAt = 0\<rparr>],
     workReverts := [\<lparr>crSha = replicate 40 (CHR ''a''), crProject = ''proj_demo'', crMergedJob = ''job0'', crJobId = ''job1'',
       crStartedAt = 0\<rparr>]\<rparr>"

lemma demo_created: "createAutonomousJob demo_work_env (demo_work empty_database) demo_order =
   Inr (demo_after_start, AutonomousCreated demo_started_waiting)"
proof -
  let ?w = "demo_work empty_database"
  have none: "autonomous_refusal_of ?w demo_autonomy_policy ''1970-01-01'' demo_order = None"
    by (simp add: autonomous_refusal_of_def intake_refusal_def demo_order_def demo_work_def demo_autonomy_fields intakes_on_def
        intake_of_def is_paused_def project_occupied_def empty_database_def demo_tables)
  have rec: "record_start ''1970-01-01'' demo_order demo_started_db demo_started_waiting ?w = Inr demo_after_start"
    by (simp add: record_start_def record_intake_def record_revert_def demo_order_def demo_work_def demo_after_start_def
        intake_of_def demo_tables demo_started_fields)
  have f: "auProjectId demo_order = ''proj_demo''" "auNow demo_order = Whole 0" "workGrants ?w = demo_grants"
    "workDb ?w = empty_database" by (simp_all add: demo_order_def demo_work_def)
  show ?thesis
    by (simp add: createAutonomousJob_def demo_order_ok rthen_def f demo_grant demo_autonomy_fields demo_day none demo_start_job rec)
qed

lemma demo_run: "work_run demo_work_env 0 [start_of (demo_work empty_database) demo_order] demo_after_start"
proof -
  have "work_run demo_work_env 0 [] (demo_work empty_database)"
    by (rule work_run.fresh) (simp_all add: demo_work_def jobs_ok_def empty_database_def unique_key_def)
  from work_run.started[OF this demo_created] show ?thesis by (simp add: demo_order_def year_10000_def)
qed

theorem daily_allowance_is_kept_witness:
  "int (logged [start_of (demo_work empty_database) demo_order] ''proj_demo'' ''1970-01-01'') \<le>
     largest_allowance [start_of (demo_work empty_database) demo_order] ''proj_demo'' ''1970-01-01''"
  by (rule daily_allowance_is_kept[OF demo_run])

theorem merge_is_reverted_once_witness:
  "distinct (List.map_filter stRevert [start_of (demo_work empty_database) demo_order])"
  by (rule merge_is_reverted_once[OF demo_run])

definition demo_pause :: pause_row where
  "demo_pause = \<lparr>pauseProject = ''proj_demo'', pauseReason = ''why'', pauseFingerprint = None, pausedAt = 0, pauseClearedAt = None\<rparr>"

definition demo_paused :: "database \<Rightarrow> work_db" where
  "demo_paused db = (demo_work db)\<lparr>workPauses := [demo_pause]\<rparr>"

lemma demo_escalated: "escalateProjectAdmissionPause (demo_work empty_database) ''proj_demo'' ''why'' (Whole 0) =
   Inr (demo_paused empty_database, True)"
proof -
  have "assertMemoryText ''why'' 200 ''pause reason'' = Inr ''why''" by code_simp
  then show ?thesis
    by (simp add: escalateProjectAdmissionPause_def demo_checks demo_work_def demo_paused_def demo_pause_def pause_of_def
        live_pause_def demo_tables)
qed

definition demo_brake_calls :: "brake_call list" where
  "demo_brake_calls = [CallPause ''proj_demo'' ''loop'' (Some (replicate 64 (CHR ''a''))) (Whole 5),
     CallAgentClear ''proj_demo'' (Whole 6) True 6, CallOwnerClear (Some ''other'') (Whole 7)]"

theorem owner_brake_holds_witness: "is_paused (fst (brake_calls (demo_paused empty_database) demo_brake_calls)) ''proj_demo''"
proof -
  have "list_all (\<lambda>c. \<not> owner_clears ''proj_demo'' c) demo_brake_calls" by (simp add: demo_brake_calls_def)
  from owner_brake_holds[OF demo_escalated this] show ?thesis by blast
qed

subsection \<open>A braked project on concrete inputs\<close>

definition demo_other :: job_admission where
  "demo_other = demo_admission\<lparr>admJobId := ''job2'', admProjectId := ''proj_other'', queueSeq := 2\<rparr>"

definition demo_two_db :: database where
  "demo_two_db = demo_leased_db\<lparr>admissions_table := [demo_admission, demo_other]\<rparr>"

definition demo_narrow :: admission_attempt_input where
  "demo_narrow = demo_attempt\<lparr>maxConcurrentJobs := Whole 1\<rparr>"

lemma demo_listed: "map fst (listPausedProjectAdmissions (demo_paused db)) = [''proj_demo'']"
  by (simp add: listPausedProjectAdmissions_def demo_paused_def demo_pause_def)

theorem braked_project_starts_nothing_witness:
  "readAdmission (fst (run demo_runtime demo_web demo_leased_db (Some (Inr [''proj_demo''])) demo_attempt)) ''job1'' = Some demo_admission"
proof -
  obtain db' r where run: "run demo_runtime demo_web demo_leased_db (Some (Inr [''proj_demo''])) demo_attempt = (db', r)" by fastforce
  have w: "workDb (demo_paused demo_leased_db) = demo_leased_db" by (simp add: demo_paused_def demo_work_def)
  have a: "is_paused (demo_paused demo_leased_db) ''proj_demo''" by (simp add: is_paused_def demo_paused_def demo_pause_def)
  have b: "db_ok (workDb (demo_paused demo_leased_db))" using reachable_db_inv[OF reachable_demo_dbs(3)] by (simp add: w)
  have c: "readAdmission (workDb (demo_paused demo_leased_db)) ''job1'' = Some demo_admission"
    by (simp add: demo_paused_def demo_work_def readAdmission_def demo_tables demo_leased_db_def demo_queued_db_def demo_admission_def)
  have d: "admProjectId demo_admission = ''proj_demo''" "auProjectId demo_order = ''proj_demo''"
    by (simp_all add: demo_admission_def demo_order_def)
  have "readAdmission db' ''job1'' = Some demo_admission"
    using braked_project_starts_nothing[OF a b c d(1), unfolded w demo_listed, OF run d(2)] by blast
  then show ?thesis by (simp add: run)
qed

theorem braked_heads_starve_the_queue_witness:
  "run demo_runtime demo_web demo_two_db (Some (Inr [''proj_demo''])) demo_narrow =
     (demo_two_db, Inr \<lparr>occupiedCount = 0, availableSlots = 1, runAdmissions = []\<rparr>) \<and>
   readAdmission demo_two_db ''job2'' = Some demo_other \<and> admState demo_other = Queued"
proof -
  have i: "assertSchedulerInput demo_narrow = Inr ()"
    by (simp add: assertSchedulerInput_def demo_narrow_def demo_attempt_def demo_checks MAX_CONCURRENT_JOBS_def)
  have t: "admissions_table demo_two_db = [demo_admission, demo_other]" by (simp add: demo_two_db_def)
  have o: "countOccupiedAdmissions demo_two_db = 0" "whole (maxConcurrentJobs demo_narrow) = 1"
    by (simp_all add: countOccupiedAdmissions_def t occupied_def demo_other_def demo_admission_def demo_narrow_def demo_tables)
  have h: "listOldestQueuedPerProject demo_two_db (maxConcurrentJobs demo_narrow) = Inr [demo_admission]"
    by (simp add: listOldestQueuedPerProject_def demo_narrow_def boundedLimit_def demo_checks MAX_SCHEDULER_CANDIDATES_def t
        select_ordered_def project_first_def demo_other_def demo_admission_def queue_key_def)
  have p: "list_all (\<lambda>a. List.member [''proj_demo''] (admProjectId a)) [demo_admission]" by (simp add: demo_admission_def)
  have "countOccupiedAdmissions demo_two_db < whole (maxConcurrentJobs demo_narrow)" by (simp add: o)
  from braked_heads_starve_the_queue[OF i this h p] show ?thesis
    by (simp add: o readAdmission_def t demo_tables demo_other_def demo_admission_def)
qed

definition demo_boom :: "string \<Rightarrow> int \<Rightarrow> job_row" where
  "demo_boom jid t = demo_job_row (demo_row\<lparr>job_id := jid, sourceUpdateId := t, projectId := Some ''proj_demo'', state := Failed,
     lastError := Some ''boom'', updatedAt := t\<rparr>)"

definition demo_failures :: "failed_job list" where
  "demo_failures = map (\<lambda>(jid, t). \<lparr>foJobId = jid, foProjectId = Some ''proj_demo'', foReason = Some ''boom'', foFailedAt = t\<rparr>)
     [(''c'', 7), (''b'', 6), (''a'', 5)]"

definition demo_failing :: work_db where
  "demo_failing = demo_work (empty_database\<lparr>jobs_table := [demo_boom ''a'' 5, demo_boom ''b'' 6, demo_boom ''c'' 7]\<rparr>)"

definition demo_fault :: string where "demo_fault = replicate 64 (CHR ''a'')"

definition demo_cluster :: failure_cluster where
  "demo_cluster = \<lparr>fcFingerprint = demo_fault, fcProjectId = Some ''proj_demo'', fcReason = ''boom'',
     fcJobIds = [''c'', ''b'', ''a''], fcSize = 3\<rparr>"

definition demo_reported :: "int option \<Rightarrow> work_db" where
  "demo_reported cleared = demo_failing\<lparr>
     workPauses := [\<lparr>pauseProject = ''proj_demo'', pauseReason = ''the same failure repeated 3 times'',
       pauseFingerprint = Some demo_fault, pausedAt = 8, pauseClearedAt = cleared\<rparr>],
     workEscalations := [\<lparr>escFingerprint = demo_fault, escProject = Some ''proj_demo'', escSize = 3, escReason = ''boom'',
       escalatedAt = 8, escExpiresAt = 8 + ESCALATION_DEDUP_MS\<rparr>]\<rparr>"

lemma demo_failures_cluster: "detectFailureClusters (weSha256 demo_work_env) (weLocaleCompare demo_work_env) demo_failures
   (Some (Whole FAILURE_CLUSTER_THRESHOLD)) = Inr [demo_cluster]"
  by (simp add: detectFailureClusters_def FAILURE_CLUSTER_THRESHOLD_def opt_default_def group_failures_def demo_failures_def
      add_failure_def failureFingerprint_def demo_work_env_def cluster_of_def demo_fault_def demo_cluster_def sort_by_def)

lemma demo_failures_listed: "listRecentJobFailures demo_failing (Whole (max 0 (8 - FAILURE_WINDOW_MS))) (Whole MAX_FAILURES_SCANNED) =
   Inr demo_failures"
  by (simp add: listRecentJobFailures_def demo_checks demo_failing_def demo_work_def demo_boom_def demo_job_row_def failure_states_def
      select_ordered_def FAILURE_WINDOW_MS_def MAX_FAILURES_SCANNED_def demo_row_def row_defs demo_failures_def)

lemma demo_fault_ok:
  "list_all digest_char demo_fault \<and> length demo_fault = 64 \<and> assertMemoryText ''boom'' 200 ''failure reason'' = Inr ''boom'' \<and>
   assertMemoryText (''the same failure repeated '' @ show_nat 3 @ '' times'') 200 ''pause reason'' =
     Inr ''the same failure repeated 3 times''"
  by code_simp

definition demo_scan :: "int \<Rightarrow> loop_event" where
  "demo_scan now = LoopScan demo_work_env (\<lambda>_. Inr ()) True now"

text \<open>The scan at 8 finds the failure three times, reports it and brakes the project.\<close>

lemma demo_scan_reports: "after_event demo_failing (demo_scan 8) = demo_reported None"
proof -
  have "claimFailureEscalation demo_failing demo_fault (Some ''proj_demo'') 3 ''boom'' (Whole 8) ESCALATION_DEDUP_MS =
      Inr (demo_failing\<lparr>workEscalations := workEscalations (demo_reported None)\<rparr>, True)"
    using demo_fault_ok by (simp add: claimFailureEscalation_def demo_checks or_else_text_def demo_failing_def demo_work_def demo_reported_def)
  moreover have "brake_for (demo_failing\<lparr>workEscalations := workEscalations (demo_reported None)\<rparr>) demo_cluster 8 = Inr (demo_reported None)"
    using demo_fault_ok by (simp add: brake_for_def demo_cluster_def pauseProjectAdmission_def demo_checks Let_def pause_of_def get_where_def
        demo_failing_def demo_work_def demo_reported_def)
  ultimately show ?thesis
    by (simp add: demo_scan_def scan_failures_def demo_failures_listed demo_failures_cluster) (simp add: demo_cluster_def)
qed

text \<open>The owner lifts the brake at 9.\<close>

lemma demo_owner_lifts: "after_event (demo_reported None) (LoopCall (CallOwnerClear None (Whole 9))) =
   (demo_reported (Some 9))\<lparr>workClears := [\<lparr>clearProject = ''proj_demo'', clearFingerprint = demo_fault, clearAt = 9, clearBy = ClearedByOwner\<rparr>]\<rparr>"
  using demo_fault_ok
  by (simp add: clearProjectAdmissionPause_def demo_checks Let_def clear_pauses_def update_where_def demo_reported_def demo_failing_def demo_work_def)

text \<open>The failure is still there when the scan runs again.\<close>

theorem lifted_brake_does_not_return_witness:
  "\<not> braked_by (foldl after_event (demo_reported None) ([LoopCall (CallOwnerClear None (Whole 9))] @ [demo_scan 10])) ''proj_demo'' demo_fault"
proof (rule lifted_brake_does_not_return)
  show "workEscalations demo_failing = []" by (simp add: demo_failing_def demo_work_def)
  show "demo_reported None = foldl after_event demo_failing [demo_scan 8]" by (simp add: demo_scan_reports)
  show "list_ex (\<lambda>e. escFingerprint e = demo_fault \<and> escalatedAt e = 8) (workEscalations (demo_reported None))"
    by (simp add: demo_reported_def)
  show "list_all (happens_before (8 + 7 * 24 * 60 * 60 * 1000)) ([LoopCall (CallOwnerClear None (Whole 9))] @ [demo_scan 10])"
    by (simp add: demo_scan_def)
  show "\<not> braked_by (foldl after_event (demo_reported None) [LoopCall (CallOwnerClear None (Whole 9))]) ''proj_demo'' demo_fault"
    by (simp add: demo_owner_lifts del: after_event.simps) (simp add: braked_by_def demo_reported_def)
qed

text \<open>The owner lifts the brake for a failure; when it comes back and brakes again, the agent does not lift it.\<close>

definition demo_owner_first :: "brake_call list" where
  "demo_owner_first = [CallPause ''proj_demo'' ''why'' (Some demo_fault) (Whole 1), CallOwnerClear None (Whole 2),
     CallPause ''proj_demo'' ''why'' (Some demo_fault) (Whole 3), CallAgentClear ''proj_demo'' (Whole 4) True 4]"

lemma demo_why_ok: "assertMemoryText ''why'' 200 ''pause reason'' = Inr ''why''" by code_simp

lemma demo_owner_first_lifts: "snd (brake_calls (demo_work empty_database) demo_owner_first) = [(ClearedByOwner, ''proj_demo'', demo_fault)]"
  using demo_why_ok
  by (simp add: Let_def demo_owner_first_def demo_fault_def demo_work_def demo_checks pauseProjectAdmission_def clearProjectAdmissionPause_def clearProjectAdmissionPauseAsAgent_def pause_of_def live_pause_def owner_lifts_def map_filter_def clear_pauses_def update_where_def get_where_def)

theorem agent_lifts_each_cause_once_witness:
  "sorted_wrt (\<lambda>a b. \<not> lifted_before a b) (snd (brake_calls (demo_work empty_database) demo_owner_first)) \<and>
   snd (brake_calls (demo_work empty_database) demo_owner_first) = [(ClearedByOwner, ''proj_demo'', demo_fault)]"
  using agent_lifts_each_cause_once [of "demo_work empty_database" demo_owner_first] demo_owner_first_lifts by blast

subsection \<open>Paths with numbers\<close>

text \<open>Numbers are replaced before paths, so a path ends at its first number: the same fault in two numbered directories has two shapes.\<close>

lemma numbered_paths_stay_apart:
  "normalized_failure (Some ''at /w/a-1/x'') \<noteq> normalized_failure (Some ''at /w/a-2/y'')" by code_simp

end
