(* ===== verification/Spec2Isabelle.thy ===== *)
theory Spec2Isabelle
  imports Job_Continuation Pipeline_Properties Effect_Properties Review_Properties Model_Properties
    Authority_Properties Policy_Properties Receipt_Properties Cron_Properties Finding_Properties Autonomous_Properties
begin

text \<open>
  \<^bold>\<open>Hanoon\<close> is a plugin of the BB agent host through which one paired owner works from a Telegram chat: a
  language-model controller answers questions and starts jobs, and a pipeline takes a job from its
  plan through implementation, validation and review to a merge and a deployment.  All its state is in
  one SQLite database written by one executor.  This development models the decisions of that program:
  the job state machine, the store of the pipeline with its queue, leases and claims, the gates,
  reviews and authorities that a merge rests on, the work the program starts by itself with the brake
  on it, the schedule evaluator, and the ledger of review findings.

  \<^bold>\<open>How the parts interact.\<close>  An operation of the store reads a job, lets the reducer compute the next job
  and its effects, and writes both in one transaction.  The executor that holds the lease leases the
  queued effects, runs them and settles them; what they find comes back as an event.  A job waits in
  the admission queue until the scheduler, which looks at free slots, held project claims and braked
  projects, admits it; it gives its claims back when it is released.  Before a merge the gates compare
  every piece of evidence with one head, a live authority or the owner lets it pass, and a release
  receipt is consumed.  A job that stops is driven on by the sweep of \<open>job-continuation.ts\<close> within its
  bounds; jobs that keep failing in the same way brake their project; findings of audits and faults of
  production start jobs within the project's allowance.

  \<^bold>\<open>Conventions.\<close>  A function that may throw returns \<open>'a result\<close>, an error on the left; a transaction that
  throws leaves the database as it was, which is why it returns no database then.  Numbers that come
  from a caller are \<open>js_number\<close>, so that the checks on integers are real branches; numbers that were
  checked are \<open>int\<close>.  Optional and nullable fields are options.  A text is a list of 8-bit characters.
  A table is a list of rows in the order of insertion, and \<open>Sql_Table\<close> holds the statements used on it.
  What the program asks its runtime (URL parsing, hashes, \<open>Date.parse\<close>, \<open>localeCompare\<close>, the local
  clock, compiling the owner's patterns) is an argument of the definitions.
\<close>

text \<open>
  \<^bold>\<open>Which theory models what.\<close>

  \<^item> \<open>Prelude\<close>, \<open>Sorting_Lemmas\<close>: results, numbers, association lists and sorting as JavaScript has them.
    \<open>Js_Regex\<close>: the patterns of the program, with the set of ends a match may have.  \<open>Json_Schema\<close>: JSON
    values and the checks of zod schemas.  \<open>Sql_Table\<close>: updates, lookups and ordered queries on tables.
  \<^item> \<open>Job_Model\<close>, \<open>Recipes\<close>, \<open>Stage_Execution\<close>: \<open>src/domain/models.ts\<close>, \<open>recipes.ts\<close>, \<open>stage-execution.ts\<close>.
    \<open>Job_State_Machine\<close>: \<open>src/domain/state-machine.ts\<close>, one definition per handler, and \<open>transition\<close>.
    \<open>Pipeline_Steps\<close> is its specification, an inductive relation with one rule for each way a state may
    react; \<open>Job_Transitions\<close> adds the code around the handlers; \<open>Job_Lifecycle\<close> the rows jobs start from
    and the writes outside the reducer, and what a reachable job is; \<open>Job_Outcomes\<close> and \<open>Job_Properties\<close>
    the guarantees; \<open>Job_Demo\<close> a concrete project.  \<open>Job_Continuation\<close>: \<open>src/autonomy/job-continuation.ts\<close>.
  \<^item> \<open>Callback_Material\<close>, \<open>Stored_Values\<close>: \<open>src/telegram/callback-material.ts\<close> and the checks of
    \<open>src/storage/job-persistence.ts\<close>.  \<open>Job_Database\<close>: the tables of the pipeline and the reading and
    writing of jobs.  \<open>Executor_Lease\<close>, \<open>Effect_Queue\<close>, \<open>Job_Leases\<close>, \<open>Release\<close>,
    \<open>Job_Events\<close>: the operations of \<open>src/storage/store.ts\<close> on leases, effects, claims and jobs.  \<open>Admission\<close>: \<open>src/storage/autonomy-repository.ts\<close>
    and \<open>src/autonomy/models.ts\<close>.  \<open>Scheduler\<close>: \<open>src/autonomy/scheduler.ts\<close>.
  \<^item> \<open>Admission_Lemmas\<close>, \<open>Pipeline_Database\<close>, \<open>Pipeline_System\<close>, \<open>Pipeline_Frame\<close>: the invariant of the tables, one
    transition system \<open>db_step\<close> over all these operations, and what its steps leave alone.  Its rules for
    operations whose inputs come from elsewhere (an effect queued from other tables, a note on a payload,
    an effect handed back, claims that pass to a new executor) take those inputs as any values.
    \<open>Pipeline_Demo\<close>, \<open>Pipeline_Properties\<close>, \<open>Effect_Properties\<close>: a concrete run and the properties.
  \<^item> \<open>Guards\<close> (\<open>src/capabilities/guards.ts\<close>), \<open>Review\<close> (\<open>src/domain/review.ts\<close>, \<open>review-lenses.ts\<close>),
    \<open>Merge_Gates\<close> (\<open>src/domain/gates.ts\<close>), \<open>Model_Routes\<close> (\<open>src/capabilities/models.ts\<close>), with \<open>Review_Lemmas\<close>,
    \<open>Review_Properties\<close>, \<open>Gate_Properties\<close> and \<open>Model_Properties\<close>.
  \<^item> \<open>Task_Authority\<close>, \<open>Authority_Store\<close> (\<open>src/domain/task-authority.ts\<close>, \<open>src/storage/task-authority-repository.ts\<close>)
    with \<open>Authority_Lemmas\<close>, \<open>Authority_Steps\<close>, \<open>Authority_Properties\<close>; \<open>Stage_Routing\<close> and \<open>Merge_Authority\<close>
    (\<open>src/domain/stage-routing.ts\<close>, \<open>src/services/merge-authority.ts\<close>, the grants of the store, the effect that
    issues an approval) with \<open>Policy_Properties\<close>; \<open>Release_Receipts\<close>
    (\<open>src/storage/release-authority-repository.ts\<close>) with \<open>Receipt_Properties\<close>.
  \<^item> \<open>Cron\<close> (\<open>src/services/cron.ts\<close>) with \<open>Cron_Properties\<close>.  \<open>Finding_Assessment\<close>, \<open>Finding_Ledger\<close>
    (\<open>src/navigator/finding-ledger.ts\<close>, \<open>finding-ledger-repository.ts\<close>) with \<open>Finding_Lemmas\<close>, \<open>Finding_Properties\<close>.
  \<^item> \<open>Failure_Loop\<close> (\<open>src/autonomy/failure-loop.ts\<close>), \<open>Autonomous_Work\<close> (the pauses, intake findings and crash
    reverts of the store, \<open>failure-loop-service.ts\<close>, \<open>audit-intake-service.ts\<close>, \<open>crash-revert-service.ts\<close>
    and the command \<open>/resume\<close>) with \<open>Autonomous_Lemmas\<close>, \<open>Autonomous_Properties\<close>.
\<close>

text \<open>
  \<^bold>\<open>What the lemmas show.\<close>

  \<^item> \<^emph>\<open>Refinement.\<close>  The reducer refines \<open>pipeline_step\<close>; the repository of authorities refines one append-only
    history per job; an assessment of review findings refines a map from fingerprints to states.
  \<^item> \<^emph>\<open>Invariants.\<close>  Every database reached from the empty one keeps \<open>db_ok\<close> (unique ids and keys, one claim for
    every admitted job, at most eight of them, an end for every lease), and every stored job is one its lifecycle reaches, so
    what holds of the state machine holds of what is stored.
  \<^item> \<^emph>\<open>Safety of a merge.\<close>  The head that is merged is the approved one, the gates found it in every piece of
    evidence, its reviews and guards passed at that head, and without the owner it is covered by a live
    grant; a withdrawal lasts.
  \<^item> \<^emph>\<open>Exclusion.\<close>  An executor that another one has overtaken never holds the lease again; two jobs of one project are never admitted together.
  \<^item> \<^emph>\<open>Bounds and ends.\<close>  The remediation rounds that count against a review limit, the review rounds of a slice,
    resumptions, model attempts and the daily allowance of unattended work are bounded; a merge is
    reverted once; the agent lifts a brake once for each cause, and none the owner has lifted before.
  \<^item> \<^emph>\<open>Equivalence.\<close>  A tick of the scheduler and the search of the schedule evaluator compute what
    their short definitions say.
  \<^item> \<^emph>\<open>Where the code falls short.\<close>  Braked projects at the head of the queue starve the others; a brake that was
    lifted does not come back for the same cause within seven days of its report; a settled finding of an earlier head
    stops a later passing review; a root cause that moved aborts its review; a disputed task is
    sent back to remediation, in rounds that no limit counts; a schedule misses the Monday after a day of 23 hours.

  \<^bold>\<open>Interfaces.\<close>  Four contracts are locales, each interpreted on the model's definitions.
  \<open>fenced_lease\<close> (generations never fall, a lease is current only under the newest one, and it has one holder) is
  interpreted in \<open>Executor_Lease\<close>; \<open>bounded_admitter\<close> (an attempt keeps the invariant of the tables and
  never raises the number of admitted jobs above the limit) in \<open>Scheduler\<close> on \<open>tryAdmit\<close>; \<open>shrinking_grant\<close> (each step keeps the tables and what is
  permitted shrinks) in \<open>Authority_Properties\<close> on the steps without an instruction to merge;
  \<open>metered_steps\<close> (a counter rises with every counted step and stops at a limit) in
  \<open>Finding_Properties\<close> on the rounds of a slice.

  \<^bold>\<open>Bounds and fuel.\<close>  The search of \<open>cron.ts\<close> is itself bounded: \<open>MAX_SEARCH_MINUTES\<close> is 6174 passes of its loop,
  each a minute of a day whose month and day match or of the first day, or the jump over another day.
  \<open>next_occurrence_is_first\<close> shows that this reaches any match within nine years: the day it starts on and
  the day of the match cost at most 1440 passes each, and every day between them one, which is
  9 * 366 + 2 * 1440 = 6174.  The unbounded repetition of a pattern is iterated as often as the text is long, which is enough
  because a longer chain of matches repeats an end.  Replacement, the calendar walk and every other
  loop end by a measure, proved with the definition.
\<close>

text \<open>
  \<^bold>\<open>Not modelled.\<close>

  \<^item> The conversation with the language model, Telegram's transport, the host's threads and worktrees, git and
    GitHub commands, and the command line: input and output around the modelled decisions.
  \<^item> Schema texts as such: the constraints the code relies on are in the definitions of the inserts.
  \<^item> The rest of the store: turns, interactions, evidence, memory, credentials, promotion, monitors, and
    the checks on those tables that a lease makes, whose answers are arguments (\<open>lease_answers\<close>).
  \<^item> The Navigator's own engine, apart from its finding ledger; the job state machine sees it through the
    navigator events, which are modelled.
  \<^item> The credential broker, a separate process of sockets and encryption, and the work-artifact trackers.
  \<^item> Characters above 8 bits: a text of the program outside that range is not a value of the model.
\<close>

end
